(* ===== verification/Prelude.thy ===== *)
theory Prelude
  imports Main "HOL-Library.Word" "HOL-Library.AList"
begin

text \<open>
  Shared vocabulary of the development: the names of the model's machine types, the
  wrap-around arithmetic of \<^verbatim>\<open>std::size_t\<close>, results that are either an exception or a value,
  and the generic facts on lists, association lists and words that the component theories use.

  \<^item> \<open>byte\<close>, \<open>u16\<close>, \<open>u32\<close>, \<open>u64\<close> are the unsigned integers of the wire format and of
    the reactor's tokens; a \<^verbatim>\<open>std::string\<close> or a byte array is a \<open>bstring\<close> (a list of bytes).
  \<^item> \<^verbatim>\<open>std::size_t\<close> values are \<open>nat\<close>. The atomic counters are updated with \<open>sz_add\<close> and
    \<open>sz_sub\<close>, which wrap modulo \<open>2 ^ 64\<close> as \<^verbatim>\<open>fetch_add\<close> and \<^verbatim>\<open>fetch_sub\<close> do; a plain
    \<open>-\<close> is used only where the source's own guard excludes a borrow.
\<close>

unbundle bit_operations_syntax

named_theorems sz_simps \<open>size_t arithmetic under the side conditions that exclude wrap-around\<close>
named_theorems model_defs \<open>definitions of small helpers that component proofs unfold\<close>
named_theorems frame_simps \<open>which fields an operation leaves alone\<close>

type_synonym byte = "8 word"
type_synonym u16 = "16 word"
type_synonym u32 = "32 word"
type_synonym u64 = "64 word"
type_synonym bstring = "byte list"

text \<open>A string literal of the source as the bytes it stands for.\<close>

definition str :: "string \<Rightarrow> bstring" where
  "str s = map of_char s"

lemma length_str [simp]: "length (str s) = length s"
  by (simp add: str_def)

subsection \<open>size\_t arithmetic\<close>

definition sz_add :: "nat \<Rightarrow> nat \<Rightarrow> nat" where
  "sz_add a b = (a + b) mod 2 ^ 64"

definition sz_sub :: "nat \<Rightarrow> nat \<Rightarrow> nat" where
  "sz_sub a b = (a + (2 ^ 64 - b mod 2 ^ 64)) mod 2 ^ 64"

definition sz_max :: nat where
  "sz_max = 2 ^ 64 - 1"

lemma sz_add_exact [sz_simps]: "a + b < 2 ^ 64 \<Longrightarrow> sz_add a b = a + b"
  by (simp add: sz_add_def)

lemma sz_sub_exact [sz_simps]: "b \<le> a \<Longrightarrow> a < 2 ^ 64 \<Longrightarrow> sz_sub a b = a - b"
proof -
  assume le: "b \<le> a" and lt: "a < 2 ^ 64"
  then have "a + (2 ^ 64 - b mod 2 ^ 64) = (a - b) + 2 ^ 64"
    by simp
  then have "sz_sub a b = ((a - b) + 2 ^ 64) mod 2 ^ 64"
    by (simp only: sz_sub_def)
  also have "\<dots> = a - b"
    using lt by (simp only: mod_add_self2) simp
  finally show ?thesis .
qed

lemma sz_sub_zero [simp]: "a < 2 ^ 64 \<Longrightarrow> sz_sub a 0 = a"
  by (simp add: sz_sub_exact)

lemma sz_add_bound: "sz_add a b < 2 ^ 64"
  by (simp add: sz_add_def)

lemma sz_sub_bound: "sz_sub a b < 2 ^ 64"
  by (simp add: sz_sub_def)

lemma sz_sub_add [simp]: "a < 2 ^ 64 \<Longrightarrow> b < 2 ^ 64 \<Longrightarrow> sz_sub (sz_add a b) b = a"
proof -
  assume a: "a < 2 ^ 64" and b: "b < 2 ^ 64"
  have "sz_sub (sz_add a b) b = ((a + b) mod 2 ^ 64 + (2 ^ 64 - b)) mod 2 ^ 64"
    using b by (simp add: sz_sub_def sz_add_def)
  also have "\<dots> = (a + b + (2 ^ 64 - b)) mod 2 ^ 64"
    by (simp only: mod_add_left_eq)
  also have "\<dots> = (a + 2 ^ 64) mod 2 ^ 64"
    using b by simp
  also have "\<dots> = a"
    using a by (simp only: mod_add_self2) simp
  finally show ?thesis .
qed

subsection \<open>Lists\<close>

lemma take_take_drop: "take m xs @ take n (drop m xs) = take (m + n) xs"
  by (simp add: take_add)

lemma sum_list_map_update:
  "i < length xs \<Longrightarrow>
   sum_list (map f (xs[i := y])) + f (xs ! i) = sum_list (map f xs) + (f y :: nat)"
  by (induction xs arbitrary: i) (auto split: nat.split)

lemma sum_list_filter_split:
  "sum_list (map f (filter P xs)) + sum_list (map f (filter (\<lambda>x. \<not> P x) xs))
     = (sum_list (map f xs) :: nat)"
  by (induction xs) auto

lemma length_filter_split:
  "length (filter P xs) + length (filter (\<lambda>x. \<not> P x) xs) = length xs"
  by (induction xs) auto

text \<open>A mathematical sum as a \<^verbatim>\<open>std::size_t\<close> counter shows it.\<close>

definition sz_wrap :: "nat \<Rightarrow> nat" where
  "sz_wrap n = n mod 2 ^ 64"

lemma sz_wrap_bound [simp]: "sz_wrap n \<le> sz_max"
proof -
  have "n mod 2 ^ 64 < (2 ^ 64 :: nat)" by (rule mod_less_divisor) simp
  then show ?thesis by (simp add: sz_wrap_def sz_max_def)
qed

lemma sz_max_less: "n \<le> sz_max \<longleftrightarrow> n < 2 ^ 64"
  by (simp add: sz_max_def) linarith

lemma sz_add_le: "a + b \<le> sz_max \<Longrightarrow> sz_add a b = a + b"
  unfolding sz_max_less by (rule sz_add_exact)

lemma sz_sub_le: "b \<le> a \<Longrightarrow> a \<le> sz_max \<Longrightarrow> sz_sub a b = a - b"
  unfolding sz_max_less by (rule sz_sub_exact)

lemma sz_sub_self_add: "a \<le> sz_max \<Longrightarrow> b \<le> sz_max \<Longrightarrow> sz_sub (sz_add a b) b = a"
  unfolding sz_max_less by (rule sz_sub_add)

lemma sz_wrap_exact: "n \<le> sz_max \<Longrightarrow> sz_wrap n = n"
  by (simp add: sz_wrap_def sz_max_def)

lemma sz_add_wrap: "sz_add (sz_wrap a) n = sz_wrap (n + a)"
  unfolding sz_add_def sz_wrap_def by (metis add.commute mod_add_left_eq)

lemma sz_sub_wrap: "sz_sub (sz_wrap (n + a)) n = sz_wrap a"
proof -
  have "((n + a) mod 2 ^ 64 + (2 ^ 64 - n mod 2 ^ 64)) mod 2 ^ 64 =
        (n mod 2 ^ 64 + (2 ^ 64 - n mod 2 ^ 64) + a) mod (2 ^ 64 :: nat)"
    by (metis (no_types, lifting) add.assoc add.commute mod_add_left_eq mod_add_right_eq)
  also have "n mod 2 ^ 64 + (2 ^ 64 - n mod 2 ^ 64) = (2 ^ 64 :: nat)"
    by (simp add: less_imp_le_nat)
  finally show ?thesis by (simp add: sz_sub_def sz_wrap_def)
qed

end
