(* ===== verification/Errors.thy ===== *)
theory Errors
  imports Prelude
begin

text \<open>
  The failure classes of the library (\<^verbatim>\<open>src/system/core/error.cpp\<close> and
  \<^verbatim>\<open>easy_uds/error.hpp\<close>) and the exceptions the modelled code throws. An operation that may
  throw returns an \<open>exn + 'a\<close>: \<open>Inl\<close> is the exception in flight, \<open>Inr\<close> the value.
\<close>

subsection \<open>errno values\<close>

text \<open>
  The \<^verbatim>\<open>errno\<close> values the source names; any other value is \<open>E_other\<close>. On the modelled
  platforms \<^verbatim>\<open>EWOULDBLOCK\<close> and \<^verbatim>\<open>EAGAIN\<close> are the same number, so one constructor stands
  for both.
\<close>

datatype errno =
    ETIMEDOUT | ECONNABORTED | ECONNRESET | EPIPE | ENOTCONN | EADDRINUSE | EBUSY | EAGAIN
  | ENOENT | ECONNREFUSED | ENETUNREACH | EHOSTUNREACH | EMSGSIZE | ECANCELED | EINTR
  | EBADF | EIO | EINPROGRESS | EEXIST | EINVAL | ENOMEM | E_other int

abbreviation EWOULDBLOCK :: errno where
  "EWOULDBLOCK \<equiv> EAGAIN"

subsection \<open>ErrorCode and the error category\<close>

datatype ErrorCode =
    EC_system | EC_timeout | EC_closed | EC_protocol | EC_busy | EC_too_large
  | EC_invalid_request | EC_unavailable | EC_cancelled

fun error_code_value :: "ErrorCode \<Rightarrow> int" where
  "error_code_value EC_system = 1"
| "error_code_value EC_timeout = 2"
| "error_code_value EC_closed = 3"
| "error_code_value EC_protocol = 4"
| "error_code_value EC_busy = 5"
| "error_code_value EC_too_large = 6"
| "error_code_value EC_invalid_request = 7"
| "error_code_value EC_unavailable = 8"
| "error_code_value EC_cancelled = 9"

definition category_message :: "int \<Rightarrow> string" where
  "category_message v =
     (if v = error_code_value EC_system then ''system error''
      else if v = error_code_value EC_timeout then ''operation timed out''
      else if v = error_code_value EC_closed then ''connection closed''
      else if v = error_code_value EC_protocol then ''protocol error''
      else if v = error_code_value EC_busy then ''resource busy''
      else if v = error_code_value EC_too_large then ''message too large''
      else if v = error_code_value EC_invalid_request then ''invalid request''
      else if v = error_code_value EC_unavailable then ''service unavailable''
      else if v = error_code_value EC_cancelled then ''operation cancelled''
      else ''unknown easy-uds error'')"

definition classify_system_error :: "errno option \<Rightarrow> ErrorCode" where
  "classify_system_error code =
     (if code = Some ETIMEDOUT then EC_timeout
      else if code = Some ECONNABORTED \<or> code = Some ECONNRESET \<or> code = Some EPIPE
              \<or> code = Some ENOTCONN then EC_closed
      else if code = Some EADDRINUSE \<or> code = Some EBUSY \<or> code = Some EAGAIN then EC_busy
      else if code = Some ENOENT \<or> code = Some ECONNREFUSED \<or> code = Some ENETUNREACH
              \<or> code = Some EHOSTUNREACH then EC_unavailable
      else if code = Some EMSGSIZE then EC_too_large
      else if code = Some ECANCELED then EC_cancelled
      else EC_system)"

subsection \<open>Exceptions\<close>

text \<open>
  \<open>Error kind operation system_code\<close> is an \<^verbatim>\<open>easy_uds::Error\<close>; the next four are the
  standard exceptions the library throws itself; \<open>Std_exception what\<close> is any other
  \<^verbatim>\<open>std::exception\<close> a callback throws and \<open>Unknown_exception\<close> anything else.
\<close>

datatype exn =
    Error ErrorCode string "errno option"
  | Invalid_argument string
  | Length_error string
  | Runtime_error string
  | Logic_error string
  | Std_exception string
  | Unknown_exception

definition throw_system_error :: "string \<Rightarrow> errno \<Rightarrow> exn + 'a" where
  "throw_system_error operation e =
     Inl (Error (classify_system_error (Some e)) operation (Some e))"

text \<open>\<^verbatim>\<open>Error::kind()\<close>, where the exception is an \<^verbatim>\<open>easy_uds::Error\<close>.\<close>

fun error_kind :: "exn \<Rightarrow> ErrorCode option" where
  "error_kind (Error k _ _) = Some k"
| "error_kind _ = None"

lemma error_code_value_inj: "error_code_value a = error_code_value b \<longleftrightarrow> a = b"
  by (cases a; cases b) simp_all

lemma classify_system_error_range:
  "classify_system_error c \<notin> {EC_protocol, EC_invalid_request}"
  by (simp add: classify_system_error_def)

end
