(* ===== verification/Codec.thy ===== *)
theory Codec
  imports Errors
begin

text \<open>
  The wire codec of protocol versions 2 and 3 (\<^verbatim>\<open>src/system/protocol/codec.hpp\<close>): the fixed
  20-byte big-endian header, its encoder, its validating decoder and the length check of a
  request. A header is a \<open>bstring\<close>; the \<^verbatim>\<open>std::array\<close> of the source always has 20 elements,
  which the lemmas state as \<open>length h = header_size\<close>.
\<close>

subsection \<open>Constants and types\<close>

definition magic :: bstring where
  "magic = [0x45, 0x55, 0x44, 0x53]"

definition version :: byte where "version = 2"
definition cancellable_version :: byte where "cancellable_version = 3"
definition header_size :: nat where "header_size = 20"
definition header_field_offset :: nat where "header_field_offset = 8"
definition arg1_offset :: nat where "arg1_offset = 12"
definition arg2_offset :: nat where "arg2_offset = 16"
definition max_wire_field :: nat where "max_wire_field = 2 ^ 32 - 1"
definition carries_fd_flag :: u16 where "carries_fd_flag = 1"
definition carries_windows_handle_flag :: u16 where "carries_windows_handle_flag = 2"

lemmas codec_consts =
  magic_def version_def cancellable_version_def header_size_def header_field_offset_def
  arg1_offset_def arg2_offset_def max_wire_field_def carries_fd_flag_def
  carries_windows_handle_flag_def

datatype WireType =
    WT_request | WT_response | WT_stream_request | WT_stream_request_chunk
  | WT_stream_request_end | WT_stream_response | WT_stream_response_chunk
  | WT_stream_response_end | WT_cancel_request

fun wire_type_value :: "WireType \<Rightarrow> byte" where
  "wire_type_value WT_request = 1"
| "wire_type_value WT_response = 2"
| "wire_type_value WT_stream_request = 3"
| "wire_type_value WT_stream_request_chunk = 4"
| "wire_type_value WT_stream_request_end = 5"
| "wire_type_value WT_stream_response = 6"
| "wire_type_value WT_stream_response_chunk = 7"
| "wire_type_value WT_stream_response_end = 8"
| "wire_type_value WT_cancel_request = 9"

text \<open>\<^verbatim>\<open>static_cast<WireType>(raw)\<close> for a value in the enumerators' range.\<close>

definition wire_type_of :: "byte \<Rightarrow> WireType" where
  "wire_type_of b =
     (if b = 1 then WT_request else if b = 2 then WT_response
      else if b = 3 then WT_stream_request else if b = 4 then WT_stream_request_chunk
      else if b = 5 then WT_stream_request_end else if b = 6 then WT_stream_response
      else if b = 7 then WT_stream_response_chunk else if b = 8 then WT_stream_response_end
      else WT_cancel_request)"

record DecodedHeader =
  dh_type :: WireType
  dh_request_id :: u32
  dh_arg1 :: u32
  dh_arg2 :: u32
  dh_flags :: u16
  dh_version :: byte

subsection \<open>Big-endian fields\<close>

definition put_u32 :: "bstring \<Rightarrow> nat \<Rightarrow> u32 \<Rightarrow> bstring" where
  "put_u32 header off v =
     header[off := ucast (drop_bit 24 v AND 0xFF),
            off + 1 := ucast (drop_bit 16 v AND 0xFF),
            off + 2 := ucast (drop_bit 8 v AND 0xFF),
            off + 3 := ucast (v AND 0xFF)]"

definition get_u32 :: "bstring \<Rightarrow> nat \<Rightarrow> u32" where
  "get_u32 header off =
     push_bit 24 (ucast (header ! off)) OR
     push_bit 16 (ucast (header ! (off + 1))) OR
     push_bit 8 (ucast (header ! (off + 2))) OR
     ucast (header ! (off + 3))"

subsection \<open>Encoder and decoder\<close>

definition encode_header :: "WireType \<Rightarrow> u32 \<Rightarrow> u32 \<Rightarrow> u32 \<Rightarrow> u16 \<Rightarrow> byte \<Rightarrow> bstring" where
  "encode_header type request_id arg1 arg2 flags wire_version =
     (let header = magic @ replicate (header_size - length magic) 0;
          header = header[4 := wire_version];
          header = header[5 := wire_type_value type];
          header = header[6 := ucast (drop_bit 8 flags AND 0xFF)];
          header = header[7 := ucast (flags AND 0xFF)];
          header = put_u32 header header_field_offset request_id;
          header = put_u32 header arg1_offset arg1;
          header = put_u32 header arg2_offset arg2
      in header)"

definition decode_header :: "bstring \<Rightarrow> exn + DecodedHeader" where
  "decode_header header =
     (if take (length magic) header \<noteq> magic
      then Inl (Error EC_protocol ''invalid protocol magic'' None)
      else if header ! 4 \<noteq> version \<and> header ! 4 \<noteq> cancellable_version
      then Inl (Error EC_protocol ''unsupported protocol version'' None)
      else let flags = push_bit 8 (ucast (header ! 6)) OR ucast (header ! 7) :: u16 in
      if flags AND NOT (carries_fd_flag OR carries_windows_handle_flag) \<noteq> 0
      then Inl (Error EC_protocol ''unsupported protocol flags'' None)
      else let raw_type = header ! 5 in
      if raw_type < wire_type_value WT_request \<or> wire_type_value WT_cancel_request < raw_type
      then Inl (Error EC_protocol ''unknown protocol message type'' None)
      else let request_id = get_u32 header header_field_offset in
      if flags AND carries_fd_flag \<noteq> 0 \<and>
         (raw_type \<noteq> wire_type_value WT_request \<or> request_id \<noteq> 0 \<or>
          flags AND carries_windows_handle_flag \<noteq> 0)
      then Inl (Error EC_protocol
                  ''descriptor flag is only valid on one-shot fixed requests'' None)
      else if flags AND carries_windows_handle_flag \<noteq> 0 \<and>
              (raw_type \<noteq> wire_type_value WT_request \<or> request_id \<noteq> 0)
      then Inl (Error EC_protocol
                  ''Windows handle flag is only valid on one-shot fixed requests'' None)
      else let type = wire_type_of raw_type in
      if type = WT_cancel_request \<and>
         (header ! 4 \<noteq> cancellable_version \<or> request_id = 0 \<or> flags \<noteq> 0 \<or>
          get_u32 header arg1_offset \<noteq> 0 \<or> get_u32 header arg2_offset \<noteq> 0)
      then Inl (Error EC_protocol ''invalid cancellation frame'' None)
      else Inr \<lparr>dh_type = wire_type_of raw_type, dh_request_id = request_id,
                dh_arg1 = get_u32 header arg1_offset, dh_arg2 = get_u32 header arg2_offset,
                dh_flags = flags, dh_version = header ! 4\<rparr>)"

text \<open>The overload with an expected type.\<close>

definition decode_header_expecting :: "bstring \<Rightarrow> WireType \<Rightarrow> exn + DecodedHeader" where
  "decode_header_expecting header expected_type =
     (case decode_header header of
        Inl e \<Rightarrow> Inl e
      | Inr decoded \<Rightarrow>
          if dh_type decoded \<noteq> expected_type
          then Inl (Error EC_protocol ''unexpected protocol message type'' None)
          else Inr decoded)"

definition validate_request_lengths :: "nat \<Rightarrow> nat \<Rightarrow> nat \<Rightarrow> exn + unit" where
  "validate_request_lengths route_size body_size max_message_size =
     (if route_size = 0 then Inl (Invalid_argument ''route must not be empty'')
      else if route_size > max_wire_field \<or> body_size > max_wire_field \<or>
              route_size > max_message_size \<or> body_size > max_message_size - route_size
      then Inl (Length_error ''request exceeds max_message_size'')
      else Inr ())"

subsection \<open>What a valid header is\<close>

text \<open>
  The protocol document's rules as a predicate on decoded headers, and the header's bytes.
\<close>

definition valid_header :: "DecodedHeader \<Rightarrow> bool" where
  "valid_header d \<longleftrightarrow>
     dh_version d \<in> {version, cancellable_version} \<and>
     dh_flags d \<in> {0, carries_fd_flag, carries_windows_handle_flag} \<and>
     (dh_flags d \<noteq> 0 \<longrightarrow> dh_type d = WT_request \<and> dh_request_id d = 0) \<and>
     (dh_type d = WT_cancel_request \<longrightarrow>
        dh_version d = cancellable_version \<and> dh_request_id d \<noteq> 0 \<and> dh_arg1 d = 0 \<and> dh_arg2 d = 0)"

definition encode_decoded :: "DecodedHeader \<Rightarrow> bstring" where
  "encode_decoded d = encode_header (dh_type d) (dh_request_id d) (dh_arg1 d) (dh_arg2 d) (dh_flags d) (dh_version d)"

subsection \<open>Bytes of words\<close>

lemma mask8_u32: "(0xFF :: u32) = mask 8" by (simp add: mask_eq_exp_minus_1)
lemma mask8_u16: "(0xFF :: u16) = mask 8" by (simp add: mask_eq_exp_minus_1)

lemma low_byte_u32 [simp]: "(ucast (w AND 0xFF) :: byte) = ucast (w :: u32)"
  unfolding mask8_u32 by (rule bit_word_eqI) (auto simp: bit_simps)

lemma low_byte_u16 [simp]: "(ucast (w AND 0xFF) :: byte) = ucast (w :: u16)"
  unfolding mask8_u16 by (rule bit_word_eqI) (auto simp: bit_simps)

lemma u32_bytes:
  "push_bit 24 (ucast (ucast (drop_bit 24 v) :: byte)) OR
   push_bit 16 (ucast (ucast (drop_bit 16 v) :: byte)) OR
   push_bit 8 (ucast (ucast (drop_bit 8 v) :: byte)) OR
   ucast (ucast v :: byte) = (v :: u32)"
proof (rule bit_word_eqI)
  fix n assume "n < LENGTH(32)"
  then have "n < 8 \<or> 8 \<le> n \<and> n < 16 \<or> 16 \<le> n \<and> n < 24 \<or> 24 \<le> n \<and> n < 32" by auto
  then show "bit (push_bit 24 (ucast (ucast (drop_bit 24 v) :: byte)) OR
   push_bit 16 (ucast (ucast (drop_bit 16 v) :: byte)) OR
   push_bit 8 (ucast (ucast (drop_bit 8 v) :: byte)) OR
   ucast (ucast v :: byte) :: u32) n = bit v n"
    by (elim disjE) (auto simp: bit_simps)
qed

lemma u16_bytes: "push_bit 8 (ucast (ucast (drop_bit 8 v) :: byte)) OR ucast (ucast v :: byte) = (v :: u16)"
proof (rule bit_word_eqI)
  fix n assume "n < LENGTH(16)"
  then have "n < 8 \<or> 8 \<le> n \<and> n < 16" by auto
  then show "bit (push_bit 8 (ucast (ucast (drop_bit 8 v) :: byte)) OR ucast (ucast v :: byte) :: u16) n = bit v n"
    by (elim disjE) (auto simp: bit_simps)
qed

lemma u32_byte_parts:
  fixes a b c d :: byte
  defines "v \<equiv> push_bit 24 (ucast a) OR push_bit 16 (ucast b) OR push_bit 8 (ucast c) OR ucast d :: u32"
  shows "(ucast (drop_bit 24 v) :: byte) = a" "(ucast (drop_bit 16 v) :: byte) = b"
    "(ucast (drop_bit 8 v) :: byte) = c" "(ucast v :: byte) = d"
  unfolding v_def
  by (rule bit_word_eqI, auto simp: bit_simps dest: bit_imp_le_length)+

lemma u16_byte_parts:
  fixes a b :: byte
  defines "v \<equiv> push_bit 8 (ucast a) OR ucast b :: u16"
  shows "(ucast (drop_bit 8 v) :: byte) = a" "(ucast v :: byte) = b"
  unfolding v_def
  by (rule bit_word_eqI, auto simp: bit_simps dest: bit_imp_le_length)+

lemma encode_header_bytes:
  "encode_header t rid a1 a2 f w =
   [0x45, 0x55, 0x44, 0x53, w, wire_type_value t, ucast (drop_bit 8 f), ucast f,
    ucast (drop_bit 24 rid), ucast (drop_bit 16 rid), ucast (drop_bit 8 rid), ucast rid,
    ucast (drop_bit 24 a1), ucast (drop_bit 16 a1), ucast (drop_bit 8 a1), ucast a1,
    ucast (drop_bit 24 a2), ucast (drop_bit 16 a2), ucast (drop_bit 8 a2), ucast a2]"
  by (simp add: encode_header_def codec_consts put_u32_def eval_nat_numeral)

lemma wire_type_of_value [simp]: "wire_type_of (wire_type_value t) = t"
  by (cases t) (simp_all add: wire_type_of_def)

lemma wire_type_of_1 [simp]: "wire_type_of 1 = WT_request"
  by (simp add: wire_type_of_def)

lemma wire_type_value_range [simp]: "wire_type_value t \<noteq> 0" "\<not> 9 < wire_type_value t"
  by (cases t; simp)+

lemma wire_type_value_request [simp]: "wire_type_value t = 1 \<longleftrightarrow> t = WT_request"
  by (cases t) simp_all

lemma byte_nonzero_ge: "1 \<le> b \<longleftrightarrow> b \<noteq> (0 :: byte)"
  by (auto simp: word_le_nat_alt word_unat_eq_iff)

lemma list20: "length h = 20 \<Longrightarrow> h = [h!0,h!1,h!2,h!3,h!4,h!5,h!6,h!7,h!8,h!9,h!10,h!11,h!12,h!13,h!14,h!15,h!16,h!17,h!18,h!19]"
  by (rule nth_equalityI) (auto simp: less_Suc_eq eval_nat_numeral)

lemma wire_type_value_of: "1 \<le> b \<Longrightarrow> b \<le> 9 \<Longrightarrow> wire_type_value (wire_type_of b) = b"
proof -
  assume "1 \<le> b" "b \<le> 9"
  then have "unat b \<in> {1,2,3,4,5,6,7,8,9}" by (auto simp: word_le_nat_alt)
  then have "b \<in> {1,2,3,4,5,6,7,8,9}"
    by (auto simp: word_unat_eq_iff)
  then show ?thesis by (auto simp: wire_type_of_def)
qed

lemma length_encode_header [simp]: "length (encode_header t rid a1 a2 f w) = header_size"
  by (simp add: encode_header_bytes header_size_def)

lemma encode_header_fields:
  fixes t rid a1 a2 f w
  defines "h \<equiv> encode_header t rid a1 a2 f w"
  shows "take (length magic) h = magic" "h ! 4 = w" "h ! 5 = wire_type_value t"
    "push_bit 8 (ucast (h ! 6)) OR ucast (h ! 7) = f"
    "get_u32 h header_field_offset = rid" "get_u32 h arg1_offset = a1" "get_u32 h arg2_offset = a2"
  unfolding h_def encode_header_bytes
  by (simp_all add: codec_consts get_u32_def u32_bytes u16_bytes)

lemma flags_allowed:
  "f AND NOT (carries_fd_flag OR carries_windows_handle_flag) = 0 \<longleftrightarrow> f \<in> {0, 1, 2, 3}"
proof -
  have n: "NOT (carries_fd_flag OR carries_windows_handle_flag) = NOT (mask 2)"
    by (simp add: codec_consts mask_eq_exp_minus_1)
  have "f AND NOT (mask 2) = 0 \<longleftrightarrow> take_bit 2 f = f"
    by (auto simp: bit_eq_iff bit_simps)
  also have "\<dots> \<longleftrightarrow> take_bit 2 (unat f) = unat f"
    by (metis unsigned_take_bit_eq word_unat_eq_iff)
  also have "\<dots> \<longleftrightarrow> unat f < 4"
    by (simp add: take_bit_nat_eq_self_iff)
  also have "\<dots> \<longleftrightarrow> f \<in> {0, 1, 2, 3}"
    by (auto simp: word_unat_eq_iff)
  finally show ?thesis unfolding n .
qed

lemma decode_encode_valid:
  assumes "valid_header d"
  shows "decode_header (encode_decoded d) = Inr d"
proof -
  note v = assms [unfolded valid_header_def]
  have a: "\<not> dh_flags d AND NOT (carries_fd_flag OR carries_windows_handle_flag) \<noteq> 0"
    using v by (auto simp: flags_allowed codec_consts)
  have b: "\<not> (dh_flags d AND carries_fd_flag \<noteq> 0 \<and>
      (wire_type_value (dh_type d) \<noteq> wire_type_value WT_request \<or> dh_request_id d \<noteq> 0 \<or>
       dh_flags d AND carries_windows_handle_flag \<noteq> 0))"
    using v by (auto simp: codec_consts)
  have c: "\<not> (dh_flags d AND carries_windows_handle_flag \<noteq> 0 \<and>
      (wire_type_value (dh_type d) \<noteq> wire_type_value WT_request \<or> dh_request_id d \<noteq> 0))"
    using v by (auto simp: codec_consts)
  have e: "\<not> (dh_type d = WT_cancel_request \<and>
      (dh_version d \<noteq> cancellable_version \<or> dh_request_id d = 0 \<or> dh_flags d \<noteq> 0 \<or>
       dh_arg1 d \<noteq> 0 \<or> dh_arg2 d \<noteq> 0))"
    using v by auto
  have r: "\<not> (wire_type_value (dh_type d) < wire_type_value WT_request \<or>
      wire_type_value WT_cancel_request < wire_type_value (dh_type d))"
    by simp
  have w: "\<not> (dh_version d \<noteq> version \<and> dh_version d \<noteq> cancellable_version)"
    using v by simp
  show ?thesis
    unfolding decode_header_def encode_decoded_def encode_header_fields Let_def wire_type_of_value
    by (simp only: a b c e r w if_False not_True_eq_False simp_thms) simp
qed

lemma decode_header_cases:
  assumes "decode_header h = Inr d"
  shows "take (length magic) h = magic"
    "d = \<lparr>dh_type = wire_type_of (h ! 5), dh_request_id = get_u32 h header_field_offset,
                dh_arg1 = get_u32 h arg1_offset, dh_arg2 = get_u32 h arg2_offset,
                dh_flags = push_bit 8 (ucast (h ! 6)) OR ucast (h ! 7), dh_version = h ! 4\<rparr>"
    "1 \<le> h ! 5" "h ! 5 \<le> 9"
    "valid_header d"
proof -
  have *: "dh_flags d \<in> {0,1,2,3}" if "d = \<lparr>dh_type = wire_type_of (h ! 5), dh_request_id = get_u32 h header_field_offset,
                dh_arg1 = get_u32 h arg1_offset, dh_arg2 = get_u32 h arg2_offset,
                dh_flags = push_bit 8 (ucast (h ! 6)) OR ucast (h ! 7), dh_version = h ! 4\<rparr>"
    using assms that unfolding decode_header_def Let_def flags_allowed by (simp split: if_splits)
  show "take (length magic) h = magic"
    using assms by (simp add: decode_header_def Let_def split: if_splits)
  show d: "d = \<lparr>dh_type = wire_type_of (h ! 5), dh_request_id = get_u32 h header_field_offset,
                dh_arg1 = get_u32 h arg1_offset, dh_arg2 = get_u32 h arg2_offset,
                dh_flags = push_bit 8 (ucast (h ! 6)) OR ucast (h ! 7), dh_version = h ! 4\<rparr>"
    using assms by (simp add: decode_header_def Let_def split: if_splits)
  show r: "1 \<le> h ! 5" "h ! 5 \<le> 9"
    using assms by (simp_all add: decode_header_def Let_def linorder_not_less byte_nonzero_ge split: if_splits)
  have t: "wire_type_of (h ! 5) = WT_request \<longleftrightarrow> h ! 5 = 1"
    using wire_type_value_of [OF r] by (auto simp: wire_type_of_def split: if_splits)
  define F :: u16 where "F = push_bit 8 (ucast (h ! 6)) OR ucast (h ! 7)"
  have F: "F \<in> {0, 1, 2, 3}"
    using * [OF d] d by (simp add: F_def)
  have v: "h ! 4 = version \<or> h ! 4 = cancellable_version"
    using assms by (simp add: decode_header_def split: if_splits)
  have fd: "F AND carries_fd_flag \<noteq> 0 \<longrightarrow>
      h ! 5 = 1 \<and> get_u32 h header_field_offset = 0 \<and> F AND carries_windows_handle_flag = 0"
    using assms unfolding decode_header_def Let_def F_def [symmetric] by (simp split: if_splits) blast+
  have wh: "F AND carries_windows_handle_flag \<noteq> 0 \<longrightarrow>
      h ! 5 = 1 \<and> get_u32 h header_field_offset = 0"
    using assms unfolding decode_header_def Let_def F_def [symmetric] by (simp split: if_splits) blast+
  have c: "wire_type_of (h ! 5) = WT_cancel_request \<longrightarrow>
      h ! 4 = cancellable_version \<and> get_u32 h header_field_offset \<noteq> 0 \<and> F = 0 \<and>
      get_u32 h arg1_offset = 0 \<and> get_u32 h arg2_offset = 0"
    using assms unfolding decode_header_def Let_def F_def [symmetric] by (simp split: if_splits)
  have "F \<noteq> 3"
    using fd by (auto simp: codec_consts)
  with F have F': "F \<in> {0, carries_fd_flag, carries_windows_handle_flag}"
    by (simp add: codec_consts)
  then have "F \<noteq> 0 \<longrightarrow> F AND carries_fd_flag \<noteq> 0 \<or> F AND carries_windows_handle_flag \<noteq> 0"
    by (elim insertE emptyE) (simp_all add: codec_consts)
  with fd wh have "F \<noteq> 0 \<longrightarrow> h ! 5 = 1 \<and> get_u32 h header_field_offset = 0"
    by blast
  with F' v c t show "valid_header d"
    unfolding d valid_header_def F_def [symmetric] by simp
qed

lemma encode_of_bytes:
  assumes "length h = header_size" "take (length magic) h = magic" "1 \<le> h ! 5" "h ! 5 \<le> 9"
  shows "encode_header (wire_type_of (h ! 5)) (get_u32 h header_field_offset) (get_u32 h arg1_offset)
     (get_u32 h arg2_offset) (push_bit 8 (ucast (h ! 6)) OR ucast (h ! 7)) (h ! 4) = h"
proof -
  have l: "length h = 20" using assms(1) by (simp add: header_size_def)
  have "length magic = 4" by (simp add: magic_def)
  then have "take 4 h = magic" using assms(2) by simp
  then have m: "h ! 0 = 0x45" "h ! 1 = 0x55" "h ! 2 = 0x44" "h ! 3 = 0x53"
    using l nth_take [of 0 4 h] nth_take [of 1 4 h] nth_take [of 2 4 h] nth_take [of 3 4 h]
    by (simp_all add: magic_def)
  show ?thesis
    unfolding encode_header_bytes get_u32_def u32_byte_parts u16_byte_parts
      wire_type_value_of [OF assms(3,4)]
    using m by (subst (16) list20 [OF l]) (simp add: codec_consts)
qed

subsection \<open>Properties of the codec\<close>

text \<open>
  C13: on a 20-byte header, decoding succeeds exactly on the encodings of valid headers, and
  returns the encoded fields: \<open>decode_header\<close> and \<open>encode_header\<close> are mutually inverse on
  valid headers and every other byte string is rejected.
\<close>

theorem decode_header_iff:
  assumes "length h = header_size"
  shows "decode_header h = Inr d \<longleftrightarrow> valid_header d \<and> h = encode_decoded d"
proof
  assume a: "decode_header h = Inr d"
  show "valid_header d \<and> h = encode_decoded d"
    using decode_header_cases [OF a] encode_of_bytes [OF assms] by (simp add: encode_decoded_def)
next
  assume "valid_header d \<and> h = encode_decoded d"
  then show "decode_header h = Inr d" by (simp add: decode_encode_valid)
qed

definition sample_header :: DecodedHeader where
  "sample_header = \<lparr>dh_type = WT_request, dh_request_id = 7, dh_arg1 = 5, dh_arg2 = 0x01020304,
                     dh_flags = 0, dh_version = 2\<rparr>"

lemma decode_header_iff_witness:
  "length (encode_decoded sample_header) = header_size \<and>
   decode_header (encode_decoded sample_header) = Inr sample_header"
proof -
  have l: "length (encode_decoded sample_header) = header_size"
    by (simp add: encode_decoded_def)
  have "valid_header sample_header"
    by (simp add: valid_header_def sample_header_def codec_consts)
  with decode_header_iff [OF l, of sample_header] l show ?thesis by simp
qed

text \<open>
  Whatever bytes arrive, a rejected header is reported as a protocol error, never as any
  other kind of failure.
\<close>

theorem decode_header_error_kind:
  "decode_header h = Inl e \<Longrightarrow> error_kind e = Some EC_protocol"
  by (auto simp: decode_header_def Let_def split: if_splits)

lemma decode_header_error_kind_witness:
  "decode_header (encode_header WT_request 0 5 0 0 1) =
     Inl (Error EC_protocol ''unsupported protocol version'' None) \<and>
   error_kind (Error EC_protocol ''unsupported protocol version'' None) = Some EC_protocol"
proof -
  have "decode_header (encode_header WT_request 0 5 0 0 1) =
      Inl (Error EC_protocol ''unsupported protocol version'' None)"
    by (simp add: decode_header_def encode_header_fields version_def cancellable_version_def)
  from this decode_header_error_kind [OF this] show ?thesis by blast
qed

text \<open>
  For a configured limit that fits the wire field, the length check accepts a request
  exactly when its route is not empty and route and body together fit the limit.
\<close>

theorem validate_request_lengths_ok:
  assumes "m \<le> max_wire_field"
  shows "validate_request_lengths r b m = Inr () \<longleftrightarrow> 0 < r \<and> r + b \<le> m"
  using assms by (auto simp: validate_request_lengths_def)

lemma validate_request_lengths_ok_witness:
  "(1024 :: nat) \<le> max_wire_field \<and> validate_request_lengths 5 1019 1024 = Inr () \<and>
   validate_request_lengths 5 1020 1024 \<noteq> Inr ()"
proof -
  have m: "1024 \<le> max_wire_field" by (simp add: max_wire_field_def)
  show ?thesis
    using m validate_request_lengths_ok [OF m, of 5 1019] validate_request_lengths_ok [OF m, of 5 1020]
    by simp
qed

end
