(* ===== verification/Types.thy ===== *)
theory Types
  imports Codec
begin

text \<open>
  The public value types: requests, responses, statistics modes, queue policies, peer
  identities, the request context a handler sees (\<^verbatim>\<open>easy_uds/*.hpp\<close>) and the option structs
  with their defaults (\<^verbatim>\<open>easy_uds/options.hpp\<close>).

  A time point or duration of \<^verbatim>\<open>std::chrono::steady_clock\<close> is an \<open>int\<close> that counts
  nanoseconds (the clock's 64-bit tick); a \<^verbatim>\<open>std::chrono::milliseconds\<close> is an \<open>int\<close> that
  counts milliseconds. User callbacks are functions of the model: what they return, or the
  exception they throw, is any function of what they are given.
\<close>

type_synonym time = int
type_synonym msec = int

subsection \<open>Status, request, response\<close>

text \<open>\<^verbatim>\<open>Status\<close> is a 32-bit signed integer; the codes the server generates are named.\<close>

type_synonym Status = int

definition status_ok :: Status where "status_ok = 200"
definition status_forbidden :: Status where "status_forbidden = 403"
definition status_not_found :: Status where "status_not_found = 404"
definition status_request_timeout :: Status where "status_request_timeout = 408"
definition status_conflict :: Status where "status_conflict = 409"
definition status_internal_error :: Status where "status_internal_error = 500"

definition int32_max :: int where "int32_max = 2 ^ 31 - 1"

record Response =
  rsp_status :: Status
  rsp_body :: bstring

definition Response_ok :: "bstring \<Rightarrow> Response" where
  "Response_ok b = \<lparr>rsp_status = status_ok, rsp_body = b\<rparr>"

record Request =
  rq_route :: bstring
  rq_body :: bstring
  rq_request_id :: u32

datatype StatsMode = SM_disabled | SM_basic | SM_unknown int
datatype QueuePolicy = QP_fifo | QP_latest_wins | QP_reject_if_busy | QP_unknown int

text \<open>Kernel-observed peer identity (\<^verbatim>\<open>platform/peer_identity.hpp\<close>).\<close>

record Identity =
  id_pid :: int
  id_uid :: u64
  id_gid :: u64
  id_sid :: bstring
  id_present :: bool

subsection \<open>RequestContext\<close>

text \<open>
  The context object keeps pointers to the connection's \<^verbatim>\<open>closing\<close> flag, the server's
  \<^verbatim>\<open>running\<close> flag and the request's cancellation flag. A handler call is one step of the
  model, so the record holds the values those pointers have when the handler is invoked,
  with \<open>cx_now\<close> the clock reading its methods see. \<open>cx_capability_bridge\<close> is what the pointer to the
  capabilities of the request gives access to: the identity of the peer and the descriptor it passed.
\<close>

record RequestContext =
  cx_request_id :: u32
  cx_arrival_time :: time
  cx_deadline :: time
  cx_connection_closing :: bool
  cx_server_running :: bool
  cx_cancelled :: "bool option"
  cx_peer_pid :: int
  cx_peer_sid :: bstring
  cx_capability_bridge :: "(Identity \<times> int) option"
  cx_now :: time

definition deadline_max :: time where
  "deadline_max = 2 ^ 63 - 1"

definition context_deadline :: "RequestContext \<Rightarrow> time option" where
  "context_deadline cx = (if cx_deadline cx = deadline_max then None else Some (cx_deadline cx))"

definition deadline_expired :: "RequestContext \<Rightarrow> bool" where
  "deadline_expired cx \<longleftrightarrow> cx_deadline cx \<noteq> deadline_max \<and> cx_now cx \<ge> cx_deadline cx"

definition server_stopping :: "RequestContext \<Rightarrow> bool" where
  "server_stopping cx \<longleftrightarrow> \<not> cx_server_running cx"

definition stop_requested :: "RequestContext \<Rightarrow> bool" where
  "stop_requested cx \<longleftrightarrow>
     cx_connection_closing cx \<or> server_stopping cx \<or> deadline_expired cx \<or>
     cx_cancelled cx = Some True"

subsection \<open>Callbacks\<close>

text \<open>
  What a user callback does: it returns a value, throws a \<^verbatim>\<open>std::exception\<close> with a message,
  or throws something else.
\<close>

datatype 'a callback_result = Returned 'a | Threw_std string | Threw_other

type_synonym SimpleHandler = "Request \<Rightarrow> Response callback_result"
type_synonym ContextHandler = "Request \<Rightarrow> RequestContext \<Rightarrow> Response callback_result"
type_synonym AuthorizeRequest = "Request \<Rightarrow> RequestContext \<Rightarrow> bool callback_result"

text \<open>
  A \<^verbatim>\<open>StreamReader\<close> is a pull-based byte source with its own state: what it does on its
  \<open>i\<close>-th call with a given capacity. The bytes of a call that claims more than the capacity are
  never looked at.
\<close>

type_synonym StreamReader = "nat \<Rightarrow> nat \<Rightarrow> bstring callback_result"

record StreamResponse =
  sr_status :: Status
  sr_body :: "StreamReader option"

text \<open>
  A stream handler calls the request's reader any number of times before it ends; each call is
  given a capacity and continues with what the call returned or threw.
\<close>

datatype stream_program =
    Stream_read nat "exn + bstring \<Rightarrow> stream_program"
  | Stream_done "StreamResponse callback_result"

type_synonym StreamHandler = "Request \<Rightarrow> stream_program"

subsection \<open>Options\<close>

definition default_max_message_size :: nat where
  "default_max_message_size = 1024 * 1024"
definition default_stream_chunk_size :: nat where
  "default_stream_chunk_size = 64 * 1024"
definition default_max_stream_size :: nat where
  "default_max_stream_size = 1024 * 1024 * 1024"
definition default_max_inflight_requests_per_connection :: nat where
  "default_max_inflight_requests_per_connection = 64"
definition default_max_inflight_request_bytes_per_connection :: nat where
  "default_max_inflight_request_bytes_per_connection = 4 * 1024 * 1024"
definition default_max_output_bytes_per_connection :: nat where
  "default_max_output_bytes_per_connection = 4 * 1024 * 1024"

record ServerOptions =
  so_worker_threads :: nat
  so_max_connections :: nat
  so_max_message_size :: nat
  so_stream_chunk_size :: nat
  so_max_stream_size :: nat
  so_max_total_inflight_bytes :: nat
  so_max_total_output_bytes :: nat
  so_max_inflight_requests_per_connection :: nat
  so_max_inflight_request_bytes_per_connection :: nat
  so_max_output_bytes_per_connection :: nat
  so_max_concurrent_streams :: nat
  so_max_concurrent_serialized_domains :: nat
  so_io_timeout :: msec
  so_request_timeout :: msec
  so_stream_timeout :: msec
  so_session_idle_grace :: msec
  so_stale_socket_grace_period :: msec
  so_listen_backlog :: int
  so_socket_permissions :: nat
  so_include_handler_error_messages :: bool
  so_authorize_request :: "AuthorizeRequest option"
  so_stats :: StatsMode

definition default_server_options :: ServerOptions where
  "default_server_options =
     \<lparr>so_worker_threads = 4, so_max_connections = 64,
      so_max_message_size = default_max_message_size,
      so_stream_chunk_size = default_stream_chunk_size,
      so_max_stream_size = default_max_stream_size,
      so_max_total_inflight_bytes = 0, so_max_total_output_bytes = 0,
      so_max_inflight_requests_per_connection = default_max_inflight_requests_per_connection,
      so_max_inflight_request_bytes_per_connection =
        default_max_inflight_request_bytes_per_connection,
      so_max_output_bytes_per_connection = default_max_output_bytes_per_connection,
      so_max_concurrent_streams = 0, so_max_concurrent_serialized_domains = 0,
      so_io_timeout = 5000, so_request_timeout = 30000, so_stream_timeout = 0,
      so_session_idle_grace = 1, so_stale_socket_grace_period = 250, so_listen_backlog = 64,
      so_socket_permissions = 384, so_include_handler_error_messages = True,
      so_authorize_request = None, so_stats = SM_disabled\<rparr>"

record ClientOptions =
  co_max_message_size :: nat
  co_stream_chunk_size :: nat
  co_max_stream_size :: nat
  co_connect_timeout :: msec
  co_io_timeout :: msec
  co_request_timeout :: msec
  co_stream_timeout :: msec
  co_stats :: StatsMode
  co_protocol_version :: byte

definition default_client_options :: ClientOptions where
  "default_client_options =
     \<lparr>co_max_message_size = default_max_message_size,
      co_stream_chunk_size = default_stream_chunk_size,
      co_max_stream_size = default_max_stream_size,
      co_connect_timeout = 2000, co_io_timeout = 5000, co_request_timeout = 30000,
      co_stream_timeout = 0, co_stats = SM_disabled, co_protocol_version = 2\<rparr>"

record RetryOptions =
  ro_max_attempts :: nat
  ro_initial_backoff :: msec
  ro_max_backoff :: msec

definition default_retry_options :: RetryOptions where
  "default_retry_options = \<lparr>ro_max_attempts = 3, ro_initial_backoff = 5, ro_max_backoff = 100\<rparr>"

lemmas option_defaults =
  default_server_options_def default_client_options_def default_retry_options_def
  default_max_message_size_def default_stream_chunk_size_def default_max_stream_size_def
  default_max_inflight_requests_per_connection_def
  default_max_inflight_request_bytes_per_connection_def
  default_max_output_bytes_per_connection_def

end
