(* ===== verification/Options.thy ===== *)
theory Options
  imports Types
begin

text \<open>
  Option validation and deadline arithmetic (\<^verbatim>\<open>src/system/transport/io.hpp\<close> and
  \<^verbatim>\<open>src/system/reactor/common.hpp\<close>). A function that reads the clock takes the reading
  \<open>now\<close> as an argument.
\<close>

subsection \<open>Validation\<close>

definition and_then :: "exn + 'a \<Rightarrow> exn + 'b \<Rightarrow> exn + 'b" where
  [model_defs]: "and_then r k = (case r of Inl e \<Rightarrow> Inl e | Inr _ \<Rightarrow> k)"

definition validate_nonnegative_timeout :: "msec \<Rightarrow> string \<Rightarrow> exn + unit" where
  "validate_nonnegative_timeout timeout nm =
     (if timeout < 0 then Inl (Invalid_argument (nm @ '' must not be negative'')) else Inr ())"

definition validate_max_message_size :: "nat \<Rightarrow> exn + unit" where
  "validate_max_message_size sz =
     (if sz = 0 \<or> sz > max_wire_field
      then Inl (Invalid_argument ''max_message_size must be between 1 and UINT32_MAX bytes'')
      else Inr ())"

definition validate_stream_options :: "nat \<Rightarrow> msec \<Rightarrow> exn + unit" where
  "validate_stream_options chunk_size stream_timeout =
     (if chunk_size = 0 \<or> chunk_size > max_wire_field
      then Inl (Invalid_argument ''stream_chunk_size must be between 1 and UINT32_MAX bytes'')
      else validate_nonnegative_timeout stream_timeout ''stream_timeout'')"

definition validate_server_options :: "ServerOptions \<Rightarrow> exn + unit" where
  "validate_server_options opts =
     and_then (validate_max_message_size (so_max_message_size opts))
     (if so_worker_threads opts = 0
      then Inl (Invalid_argument ''worker_threads must be greater than zero'')
      else if so_stats opts \<noteq> SM_disabled \<and> so_stats opts \<noteq> SM_basic
      then Inl (Invalid_argument ''stats must be StatsMode::disabled or StatsMode::basic'')
      else if so_max_connections opts = 0
      then Inl (Invalid_argument ''max_connections must be greater than zero'')
      else if so_max_inflight_requests_per_connection opts = 0
      then Inl (Invalid_argument
                  ''max_inflight_requests_per_connection must be greater than zero'')
      else if so_max_inflight_request_bytes_per_connection opts < so_max_message_size opts
      then Inl (Invalid_argument
        ''max_inflight_request_bytes_per_connection must be at least max_message_size'')
      else if so_max_message_size opts > sz_max - header_size \<or>
              so_max_output_bytes_per_connection opts < so_max_message_size opts + header_size
      then Inl (Invalid_argument
        ''max_output_bytes_per_connection must fit one maximum response frame'')
      else if so_max_total_inflight_bytes opts \<noteq> 0 \<and>
              so_max_total_inflight_bytes opts < so_max_message_size opts
      then Inl (Invalid_argument
        ''max_total_inflight_bytes must be zero or at least max_message_size'')
      else if so_max_total_output_bytes opts \<noteq> 0 \<and>
              (so_max_message_size opts > max_wire_field - header_size \<or>
               so_max_total_output_bytes opts < so_max_message_size opts + header_size)
      then Inl (Invalid_argument
        ''max_total_output_bytes must be zero or large enough for one maximum response frame'')
      else if so_worker_threads opts > so_max_connections opts
      then Inl (Invalid_argument ''worker_threads must not exceed max_connections'')
      else if so_max_concurrent_streams opts > so_worker_threads opts
      then Inl (Invalid_argument ''max_concurrent_streams must not exceed worker_threads'')
      else if so_listen_backlog opts \<le> 0
      then Inl (Invalid_argument ''listen_backlog must be greater than zero'')
      else
        and_then (validate_nonnegative_timeout (so_io_timeout opts) ''io_timeout'')
       (and_then (validate_nonnegative_timeout (so_request_timeout opts) ''request_timeout'')
       (and_then (validate_stream_options (so_stream_chunk_size opts) (so_stream_timeout opts))
       (and_then (validate_nonnegative_timeout (so_session_idle_grace opts) ''session_idle_grace'')
       (and_then (validate_nonnegative_timeout (so_stale_socket_grace_period opts)
                    ''stale_socket_grace_period'')
       (if so_socket_permissions opts > 511
        then Inl (Invalid_argument
          ''socket_permissions must be an octal permission mask from 0000 to 0777'')
        else Inr ()))))))"

definition validate_client_options :: "ClientOptions \<Rightarrow> exn + unit" where
  "validate_client_options opts =
     and_then (validate_max_message_size (co_max_message_size opts))
    (and_then (validate_nonnegative_timeout (co_connect_timeout opts) ''connect_timeout'')
    (and_then (validate_nonnegative_timeout (co_io_timeout opts) ''io_timeout'')
    (and_then (validate_nonnegative_timeout (co_request_timeout opts) ''request_timeout'')
    (and_then (validate_stream_options (co_stream_chunk_size opts) (co_stream_timeout opts))
    (if co_protocol_version opts \<noteq> 2 \<and> co_protocol_version opts \<noteq> 3
     then Inl (Invalid_argument ''protocol_version must be 2 or 3'')
     else if co_stats opts \<noteq> SM_disabled \<and> co_stats opts \<noteq> SM_basic
     then Inl (Invalid_argument ''stats must be StatsMode::disabled or StatsMode::basic'')
     else Inr ())))))"

subsection \<open>Deadlines\<close>

text \<open>One millisecond in clock ticks, and \<^verbatim>\<open>duration_cast\<close> of a non-negative duration.\<close>

definition ticks_per_ms :: int where "ticks_per_ms = 1000000"
definition int_max :: int where "int_max = 2 ^ 31 - 1"

definition deadline_from :: "time \<Rightarrow> msec \<Rightarrow> time" where
  "deadline_from start timeout =
     (if timeout = 0 then deadline_max
      else let max_remaining = deadline_max - start;
               max_ms = max_remaining div ticks_per_ms
           in if timeout \<ge> max_ms then deadline_max - 1
              else start + timeout * ticks_per_ms)"

text \<open>\<^verbatim>\<open>deadline_from_now\<close> is the same computation from the clock reading \<open>now\<close>.\<close>

definition deadline_from_now :: "time \<Rightarrow> msec \<Rightarrow> time" where
  "deadline_from_now now timeout =
     (if timeout = 0 then deadline_max
      else let max_remaining = deadline_max - now;
               max_ms = max_remaining div ticks_per_ms
           in if timeout \<ge> max_ms then deadline_max - 1
              else now + timeout * ticks_per_ms)"

definition earlier_deadline :: "time \<Rightarrow> time \<Rightarrow> time" where
  "earlier_deadline left right = (if left < right then left else right)"

definition ceil_ms :: "time \<Rightarrow> msec" where
  "ceil_ms d = - ((- d) div ticks_per_ms)"

definition poll_timeout_ms :: "time \<Rightarrow> time \<Rightarrow> int" where
  "poll_timeout_ms now deadline =
     (if deadline = deadline_max then -1
      else if now \<ge> deadline then 0
      else let remaining = ceil_ms (deadline - now);
               bounded = min remaining int_max
           in max 1 bounded)"

definition check_absolute_deadline :: "time \<Rightarrow> time \<Rightarrow> string \<Rightarrow> exn + unit" where
  "check_absolute_deadline now deadline timeout_operation =
     (if deadline \<noteq> deadline_max \<and> now \<ge> deadline
      then throw_system_error timeout_operation ETIMEDOUT
      else Inr ())"

subsection \<open>What the validators accept\<close>

text \<open>The documented constraints on server options, without the order of the checks.\<close>

definition server_options_ok :: "ServerOptions \<Rightarrow> bool" where
  "server_options_ok opts \<longleftrightarrow>
     0 < so_max_message_size opts \<and> so_max_message_size opts \<le> max_wire_field \<and>
     0 < so_worker_threads opts \<and> so_worker_threads opts \<le> so_max_connections opts \<and>
     so_max_concurrent_streams opts \<le> so_worker_threads opts \<and>
     so_stats opts \<in> {SM_disabled, SM_basic} \<and>
     0 < so_max_inflight_requests_per_connection opts \<and>
     so_max_message_size opts \<le> so_max_inflight_request_bytes_per_connection opts \<and>
     so_max_message_size opts + header_size \<le> so_max_output_bytes_per_connection opts \<and>
     (so_max_total_inflight_bytes opts = 0 \<or>
      so_max_message_size opts \<le> so_max_total_inflight_bytes opts) \<and>
     (so_max_total_output_bytes opts = 0 \<or>
      so_max_message_size opts + header_size \<le> max_wire_field \<and>
      so_max_message_size opts + header_size \<le> so_max_total_output_bytes opts) \<and>
     0 < so_listen_backlog opts \<and>
     0 \<le> so_io_timeout opts \<and> 0 \<le> so_request_timeout opts \<and> 0 \<le> so_stream_timeout opts \<and>
     0 \<le> so_session_idle_grace opts \<and> 0 \<le> so_stale_socket_grace_period opts \<and>
     0 < so_stream_chunk_size opts \<and> so_stream_chunk_size opts \<le> max_wire_field \<and>
     so_socket_permissions opts \<le> 511"

definition client_options_ok :: "ClientOptions \<Rightarrow> bool" where
  "client_options_ok opts \<longleftrightarrow>
     0 < co_max_message_size opts \<and> co_max_message_size opts \<le> max_wire_field \<and>
     0 \<le> co_connect_timeout opts \<and> 0 \<le> co_io_timeout opts \<and> 0 \<le> co_request_timeout opts \<and>
     0 \<le> co_stream_timeout opts \<and>
     0 < co_stream_chunk_size opts \<and> co_stream_chunk_size opts \<le> max_wire_field \<and>
     co_protocol_version opts \<in> {2, 3} \<and> co_stats opts \<in> {SM_disabled, SM_basic}"

lemma and_then_ok [simp]: "and_then r k = Inr u \<longleftrightarrow> (\<exists>v. r = Inr v) \<and> k = Inr u"
  by (cases r) (simp_all add: and_then_def)

lemma guard_ok [simp]:
  "(if b then Inl e else k) = (Inr u :: 'a + 'b) \<longleftrightarrow> \<not> b \<and> k = Inr u"
  by simp

lemmas validator_defs =
  validate_nonnegative_timeout_def validate_max_message_size_def validate_stream_options_def

lemma validate_client_options_iff:
  "validate_client_options opts = Inr () \<longleftrightarrow> client_options_ok opts"
  unfolding validate_client_options_def client_options_ok_def validator_defs and_then_ok guard_ok
  by (simp add: not_less) satx

text \<open>
  A server configuration is accepted exactly when it meets the documented constraints; in
  particular one maximal response frame fits each configured output budget and one maximal
  request fits each configured input budget.
\<close>

theorem validate_server_options_iff:
  "validate_server_options opts = Inr () \<longleftrightarrow> server_options_ok opts"
proof -
  have wide: "so_max_message_size opts \<le> max_wire_field \<longrightarrow>
      so_max_message_size opts \<le> sz_max - header_size"
    by (simp add: sz_max_def max_wire_field_def header_size_def)
  have frame: "so_max_message_size opts > max_wire_field - header_size \<longleftrightarrow>
               \<not> so_max_message_size opts + header_size \<le> max_wire_field"
    by (simp add: max_wire_field_def header_size_def) linarith
  have conns: "0 < so_worker_threads opts \<longrightarrow>
      so_worker_threads opts \<le> so_max_connections opts \<longrightarrow> 0 < so_max_connections opts"
    by simp
  show ?thesis
    unfolding validate_server_options_def server_options_ok_def validator_defs
      and_then_ok guard_ok frame
    by (simp add: not_less not_le) (use wide conns in satx)
qed

text \<open>The defaults of \<^verbatim>\<open>ServerOptions\<close> and \<^verbatim>\<open>ClientOptions\<close> are accepted.\<close>

lemma default_server_options_valid: "server_options_ok default_server_options"
  by (simp add: server_options_ok_def option_defaults max_wire_field_def header_size_def)

lemma default_client_options_valid: "client_options_ok default_client_options"
  by (simp add: client_options_ok_def option_defaults max_wire_field_def)

subsection \<open>Deadline arithmetic never overflows\<close>

lemma ticks_per_ms_pos [simp]: "0 < ticks_per_ms"
  by (simp add: ticks_per_ms_def)

lemma deadline_from_now_eq: "deadline_from_now now timeout = deadline_from now timeout"
  by (simp add: deadline_from_now_def deadline_from_def)

lemma below_cast_fits:
  assumes "t < r div ticks_per_ms"
  shows "t * ticks_per_ms < r"
proof -
  have "t * ticks_per_ms < (r div ticks_per_ms) * ticks_per_ms"
    using assms by simp
  also have "\<dots> \<le> r"
    by (simp add: ticks_per_ms_def)
  finally show ?thesis .
qed

text \<open>
  For a clock reading in range and a non-negative timeout, the computed deadline is a
  representable time point that is not before the start; a zero timeout means never, any other
  timeout gives a deadline distinct from never; and it is exactly start plus timeout unless that
  would pass the last representable time point.
\<close>

theorem deadline_from_sound:
  assumes "0 \<le> start" "start < deadline_max" "0 \<le> timeout"
  shows "start \<le> deadline_from start timeout \<and> deadline_from start timeout \<le> deadline_max \<and>
         (deadline_from start timeout = deadline_max \<longleftrightarrow> timeout = 0) \<and>
         (timeout \<noteq> 0 \<and> timeout < (deadline_max - start) div ticks_per_ms
            \<longrightarrow> deadline_from start timeout = start + timeout * ticks_per_ms)"
proof (cases "timeout = 0 \<or> timeout \<ge> (deadline_max - start) div ticks_per_ms")
  case True
  then show ?thesis
    using assms by (auto simp: deadline_from_def Let_def)
next
  case False
  then have "timeout * ticks_per_ms < deadline_max - start"
    by (intro below_cast_fits) simp
  moreover have "0 \<le> timeout * ticks_per_ms"
    using assms by (simp add: ticks_per_ms_def)
  ultimately show ?thesis
    using False assms by (simp add: deadline_from_def Let_def)
qed

lemma deadline_from_sound_witness:
  "(0::int) \<le> 5 \<and> (5::int) < deadline_max \<and> (0::int) \<le> 30000 \<and>
   deadline_from 5 30000 = 30000000005 \<and> deadline_from 5 30000 \<le> deadline_max"
proof -
  have h: "(0::int) \<le> 5" "5 < deadline_max" "(0::int) \<le> 30000"
    by (simp_all add: deadline_max_def)
  have "deadline_from 5 30000 = 30000000005"
    by (simp add: deadline_from_def deadline_max_def ticks_per_ms_def)
  with h deadline_from_sound [OF h] show ?thesis by simp
qed

lemma ceil_ms_bound: "d \<le> ceil_ms d * ticks_per_ms"
  unfolding ceil_ms_def ticks_per_ms_def
  using div_mult_mod_eq [of "- d" 1000000] pos_mod_sign [of 1000000 "- d"] by linarith

text \<open>
  The poll timeout is infinite exactly for the never deadline, zero exactly when the
  deadline has passed, otherwise at least one millisecond and within a C int; and a wait of that
  length does not end before the deadline unless it was cut to the largest C int.
\<close>

theorem poll_timeout_ms_sound:
  "(poll_timeout_ms now deadline = -1 \<longleftrightarrow> deadline = deadline_max) \<and>
   (poll_timeout_ms now deadline = 0 \<longleftrightarrow> deadline \<noteq> deadline_max \<and> deadline \<le> now) \<and>
   poll_timeout_ms now deadline \<le> int_max \<and>
   (deadline \<noteq> deadline_max \<and> now < deadline \<longrightarrow>
      1 \<le> poll_timeout_ms now deadline \<and>
      (deadline \<le> now + poll_timeout_ms now deadline * ticks_per_ms \<or>
       poll_timeout_ms now deadline = int_max))"
proof -
  have im: "1 \<le> int_max" by (simp add: int_max_def)
  have c: "deadline - now \<le> ceil_ms (deadline - now) * ticks_per_ms"
    by (rule ceil_ms_bound)
  consider "deadline = deadline_max" | "deadline \<noteq> deadline_max" "deadline \<le> now"
    | "deadline \<noteq> deadline_max" "now < deadline" by linarith
  then show ?thesis
  proof cases
    case 3
    then have pos: "1 \<le> ceil_ms (deadline - now)"
      by (simp add: ceil_ms_def ticks_per_ms_def)
    let ?p = "min (ceil_ms (deadline - now)) int_max"
    have p: "poll_timeout_ms now deadline = ?p"
      using 3 pos im by (simp add: poll_timeout_ms_def)
    have "1 \<le> ?p" "?p \<le> int_max"
      using pos im by simp_all
    moreover from this have "?p \<noteq> - 1" "?p \<noteq> 0"
      by linarith+
    moreover have "deadline \<le> now + ?p * ticks_per_ms \<or> ?p = int_max"
      using c by (cases "ceil_ms (deadline - now) \<le> int_max") (simp_all add: min_def)
    ultimately show ?thesis
      using 3 unfolding p by (simp only: not_le [symmetric]) blast
  qed (use im in \<open>simp_all add: poll_timeout_ms_def\<close>)
qed

lemma poll_timeout_ms_sound_witness:
  "poll_timeout_ms 0 1500000 = 2 \<and> (poll_timeout_ms 0 1500000 = 0 \<longleftrightarrow> False)"
  using poll_timeout_ms_sound [of 0 1500000]
  by (simp add: poll_timeout_ms_def ceil_ms_def ticks_per_ms_def int_max_def deadline_max_def)

end
