(* ===== verification/World.thy ===== *)
theory World
  imports Options
begin

text \<open>
  The kernel as the program sees it, and the Linux platform layer on top of it
  (\<^verbatim>\<open>src/system/platform/linux/*.cpp\<close>).

  The kernel is not code of the repository. Its answers are scripts in a \<open>World\<close> record: the
  next readings of the monotonic clock, the next results of \<^verbatim>\<open>poll\<close>, of \<^verbatim>\<open>recvmsg\<close> and
  \<^verbatim>\<open>sendmsg\<close> on each descriptor, of \<^verbatim>\<open>epoll_ctl\<close>, and so on; every theorem quantifies
  over them. Each call consumes one answer. Past the end of its script a call has a fixed answer
  (the peer has closed, the socket accepts every byte, a poll times out, the clock stands
  still), so each operation is a total function. What the program does to the kernel is recorded:
  the bytes accepted per descriptor, the descriptors attached to them, and a trace of effects.
\<close>

type_synonym fd = int

definition invalid_socket :: fd where "invalid_socket = -1"

definition valid_socket :: "fd \<Rightarrow> bool" where
  "valid_socket s \<longleftrightarrow> s \<noteq> invalid_socket"

subsection \<open>Kernel answers\<close>

datatype PollAnswer = Poll_error errno | Poll_none | Poll_event bool

text \<open>
  One control message of \<^verbatim>\<open>recvmsg\<close>: whether it lies within the control area, whether it is an
  \<^verbatim>\<open>SCM_RIGHTS\<close> message, its payload size in bytes and the descriptors the payload holds.
\<close>

record ControlMessage =
  cm_within_area :: bool
  cm_is_rights :: bool
  cm_payload_bytes :: nat
  cm_descriptors :: "fd list"

datatype RecvAnswer = RecvData bstring "ControlMessage list" bool | RecvErr errno
datatype SendAnswer = SendAccept nat | SendErr errno

datatype Control = Ctl_add | Ctl_modify | Ctl_remove

text \<open>What \<^verbatim>\<open>lstat\<close> tells about a path (\<^verbatim>\<open>platform/server_path.hpp\<close>).\<close>

datatype EntryKind = EK_missing | EK_socket | EK_regular | EK_other

record PathIdentity =
  pi_kind :: EntryKind
  pi_owner :: nat
  pi_device :: nat
  pi_inode :: nat
  pi_links :: nat

datatype effect =
    Eff_control Control fd u32 u64
  | Eff_shutdown fd
  | Eff_close fd
  | Eff_signal fd
  | Eff_drain fd
  | Eff_wait int
  | Eff_bind fd bstring
  | Eff_listen fd int
  | Eff_chmod bstring nat
  | Eff_lstat bstring "errno + PathIdentity"
  | Eff_unlink bstring

record World =
  w_clock :: "time list"
  w_now :: time
  w_poll :: "PollAnswer list"
  w_recv :: "fd \<Rightarrow> RecvAnswer list"
  w_send :: "fd \<Rightarrow> SendAnswer list"
  w_control :: "errno option list"
  w_fcntl :: "(errno + nat) list"
  w_socket :: "(errno + fd) list"
  w_connect :: "errno option list"
  w_so_error :: "(errno + errno option) list"
  w_accept :: "(errno + fd) list"
  w_peer :: "Identity list"
  w_events :: "(errno + (u32 \<times> u64) list) list"
  w_euid :: nat
  w_lstat :: "(errno + PathIdentity) list"
  w_open :: "(errno + fd) list"
  w_fstat :: "(errno + PathIdentity) list"
  w_flock :: "errno option list"
  w_fchmod :: "errno option list"
  w_unlink :: "errno option list"
  w_chmod :: "errno option list"
  w_bind :: "errno option list"
  w_listen :: "errno option list"
  w_poller :: "(errno + fd) list"
  w_wakeup :: "(errno + fd) list"
  w_sent :: "fd \<Rightarrow> bstring"
  w_attached :: "fd \<Rightarrow> (nat \<times> fd) list"
  w_effects :: "effect list"

definition quiet_world :: World where
  "quiet_world =
     \<lparr>w_clock = [], w_now = 0, w_poll = [], w_recv = (\<lambda>_. []), w_send = (\<lambda>_. []),
      w_control = [], w_fcntl = [], w_socket = [], w_connect = [], w_so_error = [],
      w_accept = [], w_peer = [], w_events = [], w_euid = 0, w_lstat = [], w_open = [], w_fstat = [],
      w_flock = [], w_fchmod = [], w_unlink = [], w_chmod = [], w_bind = [], w_listen = [],
      w_poller = [], w_wakeup = [],
      w_sent = (\<lambda>_. []), w_attached = (\<lambda>_. []), w_effects = []\<rparr>"

text \<open>\<^verbatim>\<open>Clock::now()\<close>.\<close>

definition clock_now :: "World \<Rightarrow> World \<times> time" where
  "clock_now w =
     (case w_clock w of [] \<Rightarrow> (w, w_now w)
      | t # ts \<Rightarrow> (w\<lparr>w_clock := ts, w_now := t\<rparr>, t))"

definition kernel_poll :: "World \<Rightarrow> World \<times> PollAnswer" where
  "kernel_poll w =
     (case w_poll w of [] \<Rightarrow> (w, Poll_none) | a # as \<Rightarrow> (w\<lparr>w_poll := as\<rparr>, a))"

text \<open>
  \<^verbatim>\<open>recvmsg\<close> takes at most \<open>cap\<close> bytes of the next segment; what is left stays queued. Control
  messages travel with the first bytes of a segment. No bytes means the peer has closed.
\<close>

definition kernel_recv ::
  "fd \<Rightarrow> nat \<Rightarrow> World \<Rightarrow> World \<times> (errno + bstring \<times> ControlMessage list \<times> bool)" where
  "kernel_recv fd cap w =
     (case w_recv w fd of
        [] \<Rightarrow> (w, Inr ([], [], False))
      | RecvErr e # as \<Rightarrow> (w\<lparr>w_recv := (w_recv w)(fd := as)\<rparr>, Inl e)
      | RecvData d cms trunc # as \<Rightarrow>
          (w\<lparr>w_recv := (w_recv w)
               (fd := if drop cap d = [] then as else RecvData (drop cap d) [] False # as)\<rparr>,
           Inr (take cap d, cms, trunc)))"

text \<open>
  \<^verbatim>\<open>sendmsg\<close> accepts a prefix of the gathered bytes; an attached descriptor is recorded with the
  position of the first byte it travels with.
\<close>

definition kernel_send :: "fd \<Rightarrow> bstring \<Rightarrow> fd option \<Rightarrow> World \<Rightarrow> World \<times> (errno + nat)" where
  "kernel_send fd data passed w =
     (let accept = (\<lambda>w n.
            (w\<lparr>w_sent := (w_sent w)(fd := w_sent w fd @ take n data),
               w_attached := (w_attached w)(fd := w_attached w fd @
                  (case passed of None \<Rightarrow> []
                   | Some p \<Rightarrow> if n = 0 then [] else [(length (w_sent w fd), p)]))\<rparr>,
             Inr n))
      in case w_send w fd of
           [] \<Rightarrow> accept w (length data)
         | SendAccept n # as \<Rightarrow>
             accept (w\<lparr>w_send := (w_send w)(fd := as)\<rparr>) (min n (length data))
         | SendErr e # as \<Rightarrow> (w\<lparr>w_send := (w_send w)(fd := as)\<rparr>, Inl e))"

definition add_effect :: "effect \<Rightarrow> World \<Rightarrow> World" where
  "add_effect e w = w\<lparr>w_effects := w_effects w @ [e]\<rparr>"

definition kernel_fcntl :: "World \<Rightarrow> World \<times> (errno + nat)" where
  "kernel_fcntl w =
     (case w_fcntl w of [] \<Rightarrow> (w, Inr 0) | a # as \<Rightarrow> (w\<lparr>w_fcntl := as\<rparr>, a))"

subsection \<open>Synchronous wait (\<^verbatim>\<open>linux/socket_wait.cpp\<close>)\<close>

datatype WaitStatus =
  WS_ready | WS_timed_out | WS_interrupted | WS_invalid_descriptor | WS_error

definition wait_once :: "World \<Rightarrow> World \<times> WaitStatus \<times> errno option" where
  "wait_once w =
     (case kernel_poll w of
        (w, Poll_error e) \<Rightarrow>
          if e = EINTR then (w, WS_interrupted, Some EINTR) else (w, WS_error, Some e)
      | (w, Poll_none) \<Rightarrow> (w, WS_timed_out, None)
      | (w, Poll_event nval) \<Rightarrow>
          if nval then (w, WS_invalid_descriptor, Some EBADF) else (w, WS_ready, None))"

subsection \<open>Byte I/O (\<^verbatim>\<open>linux/socket_io.cpp\<close>)\<close>

text \<open>A result is the errno of a failed call or the byte count (for a receive, the bytes).\<close>

definition socket_receive :: "fd \<Rightarrow> nat \<Rightarrow> World \<Rightarrow> World \<times> (errno + bstring)" where
  "socket_receive fd cap w =
     (case kernel_recv fd cap w of
        (w, Inl e) \<Rightarrow> (w, Inl e) | (w, Inr (d, _, _)) \<Rightarrow> (w, Inr d))"

text \<open>
  \<^verbatim>\<open>descriptor_passing::send_iovecs\<close>, which attaches \<open>passed\<close> as \<^verbatim>\<open>SCM_RIGHTS\<close> data; without a
  descriptor it is \<^verbatim>\<open>socket_io::send_iovecs\<close>, and with one part \<^verbatim>\<open>socket_io::send\<close>.
\<close>

definition send_iovecs :: "fd \<Rightarrow> bstring list \<Rightarrow> fd option \<Rightarrow> World \<Rightarrow> World \<times> (errno + nat)" where
  "send_iovecs fd parts passed w = kernel_send fd (concat parts) passed w"

definition query_socket_error :: "World \<Rightarrow> World \<times> (errno + errno option)" where
  "query_socket_error w =
     (case w_so_error w of [] \<Rightarrow> (w, Inr None) | a # as \<Rightarrow> (w\<lparr>w_so_error := as\<rparr>, a))"

subsection \<open>Socket setup (\<^verbatim>\<open>linux/socket_lifecycle.cpp\<close>, \<^verbatim>\<open>linux/endpoint.cpp\<close>)\<close>

definition O_NONBLOCK :: nat where "O_NONBLOCK = 2048"

definition socket_close :: "fd \<Rightarrow> World \<Rightarrow> World" where
  "socket_close fd w = (if fd \<ge> 0 then add_effect (Eff_close fd) w else w)"

definition socket_shutdown :: "fd \<Rightarrow> World \<Rightarrow> World" where
  "socket_shutdown fd w = (if fd \<ge> 0 then add_effect (Eff_shutdown fd) w else w)"

datatype SetupFailure =
  SF_none | SF_close_on_exec_getfd | SF_close_on_exec_setfd | SF_nonblocking_getfl
| SF_nonblocking_setfl | SF_no_sigpipe

type_synonym SetupResult = "errno option \<times> SetupFailure"

definition lifecycle_set_close_on_exec :: "World \<Rightarrow> World \<times> SetupResult" where
  "lifecycle_set_close_on_exec w =
     (case kernel_fcntl w of
        (w, Inl e) \<Rightarrow> (w, Some e, SF_close_on_exec_getfd)
      | (w, Inr flags) \<Rightarrow>
          (case kernel_fcntl w of
             (w, Inl e) \<Rightarrow> (w, Some e, SF_close_on_exec_setfd)
           | (w, Inr _) \<Rightarrow> (w, None, SF_none)))"

definition lifecycle_set_nonblocking :: "World \<Rightarrow> World \<times> SetupResult" where
  "lifecycle_set_nonblocking w =
     (case kernel_fcntl w of
        (w, Inl e) \<Rightarrow> (w, Some e, SF_nonblocking_getfl)
      | (w, Inr flags) \<Rightarrow>
          if flags AND O_NONBLOCK \<noteq> 0 then (w, None, SF_none)
          else (case kernel_fcntl w of
                  (w, Inl e) \<Rightarrow> (w, Some e, SF_nonblocking_setfl)
                | (w, Inr _) \<Rightarrow> (w, None, SF_none)))"

text \<open>
  \<^verbatim>\<open>make_endpoint\<close>; the endpoint is the NUL-terminated path (\<^verbatim>\<open>sun_path\<close> has 108 bytes).
\<close>

definition sun_path_size :: nat where "sun_path_size = 108"

definition make_endpoint :: "bstring \<Rightarrow> exn + bstring" where
  "make_endpoint socket_path =
     (if socket_path = [] then Inl (Invalid_argument ''socket path must not be empty'')
      else if 0 \<in> set socket_path
      then Inl (Invalid_argument ''pathname socket path must not contain embedded NUL bytes'')
      else if length socket_path \<ge> sun_path_size
      then Inl (Invalid_argument ''socket path is too long'')
      else Inr (socket_path @ [0]))"

definition create_stream_socket :: "World \<Rightarrow> World \<times> (errno + fd)" where
  "create_stream_socket w =
     (case w_socket w of [] \<Rightarrow> (w, Inl (E_other 24)) | a # as \<Rightarrow> (w\<lparr>w_socket := as\<rparr>, a))"

definition connect_socket :: "World \<Rightarrow> World \<times> errno option" where
  "connect_socket w =
     (case w_connect w of [] \<Rightarrow> (w, None) | a # as \<Rightarrow> (w\<lparr>w_connect := as\<rparr>, a))"

subsection \<open>Readiness (\<^verbatim>\<open>linux/readiness.cpp\<close>)\<close>

definition readable :: u32 where "readable = 1"
definition writable :: u32 where "writable = 2"
definition ev_error :: u32 where "ev_error = 4"
definition hangup :: u32 where "hangup = 8"
definition peer_hangup :: u32 where "peer_hangup = 16"
definition max_events :: nat where "max_events = 128"

lemmas readiness_masks = readable_def writable_def ev_error_def hangup_def peer_hangup_def

definition EPOLLIN :: u32 where "EPOLLIN = 1"
definition EPOLLOUT :: u32 where "EPOLLOUT = 4"
definition EPOLLERR :: u32 where "EPOLLERR = 8"
definition EPOLLHUP :: u32 where "EPOLLHUP = 16"
definition EPOLLRDHUP :: u32 where "EPOLLRDHUP = 0x2000"

lemmas epoll_masks = EPOLLIN_def EPOLLOUT_def EPOLLERR_def EPOLLHUP_def EPOLLRDHUP_def

definition to_native_mask :: "u32 \<Rightarrow> u32" where
  "to_native_mask m =
     (if m AND readable \<noteq> 0 then EPOLLIN else 0) OR
     (if m AND writable \<noteq> 0 then EPOLLOUT else 0) OR
     (if m AND ev_error \<noteq> 0 then EPOLLERR else 0) OR
     (if m AND hangup \<noteq> 0 then EPOLLHUP else 0) OR
     (if m AND peer_hangup \<noteq> 0 then EPOLLRDHUP else 0)"

text \<open>The translation of one returned event in \<^verbatim>\<open>readiness::wait\<close>.\<close>

definition from_native_mask :: "u32 \<Rightarrow> u32" where
  "from_native_mask m =
     (if m AND EPOLLIN \<noteq> 0 then readable else 0) OR
     (if m AND EPOLLOUT \<noteq> 0 then writable else 0) OR
     (if m AND EPOLLERR \<noteq> 0 then ev_error else 0) OR
     (if m AND EPOLLHUP \<noteq> 0 then hangup else 0) OR
     (if m AND EPOLLRDHUP \<noteq> 0 then peer_hangup else 0)"

lemma mask_bits:
  fixes m :: u32
  shows "m AND 1 \<noteq> 0 \<longleftrightarrow> bit m 0" "m AND 2 \<noteq> 0 \<longleftrightarrow> bit m 1" "m AND 4 \<noteq> 0 \<longleftrightarrow> bit m 2"
    "m AND 8 \<noteq> 0 \<longleftrightarrow> bit m 3" "m AND 16 \<noteq> 0 \<longleftrightarrow> bit m 4"
  using and_exp_eq_0_iff_not_bit [of m 0] and_exp_eq_0_iff_not_bit [of m 1]
    and_exp_eq_0_iff_not_bit [of m 2] and_exp_eq_0_iff_not_bit [of m 3]
    and_exp_eq_0_iff_not_bit [of m 4] by simp_all

lemma mask5_split:
  fixes m :: u32
  shows "m AND 31 = (if bit m 0 then 1 else 0) OR (if bit m 1 then 2 else 0) OR
     (if bit m 2 then 4 else 0) OR (if bit m 3 then 8 else 0) OR (if bit m 4 then 16 else 0)"
proof (rule bit_word_eqI)
  fix n
  assume "n < LENGTH(32)"
  have e: "bit (2 ^ k :: u32) n \<longleftrightarrow> n = k" if "k < 32" for k
    using that by (simp only: bit_exp_iff possible_bit_word) auto
  have b: "bit (2 :: u32) n \<longleftrightarrow> n = 1" "bit (4 :: u32) n \<longleftrightarrow> n = 2" "bit (8 :: u32) n \<longleftrightarrow> n = 3"
    "bit (16 :: u32) n \<longleftrightarrow> n = 4"
    using e [of 1] e [of 2] e [of 3] e [of 4] by (simp_all only: power_one_right) simp_all
  have "(31 :: u32) = mask 5"
    by (simp add: mask_eq_exp_minus_1)
  then have m: "bit (31 :: u32) n \<longleftrightarrow> n < 5"
    by (simp only: bit_mask_iff possible_bit_word) auto
  have d: "bit (if c then x else 0) n \<longleftrightarrow> c \<and> bit x n" for c and x :: u32 by simp
  show "bit (m AND 31) n \<longleftrightarrow> bit ((if bit m 0 then 1 else 0) OR
     (if bit m 1 then 2 else 0) OR (if bit m 2 then 4 else 0) OR (if bit m 3 then 8 else 0) OR
     (if bit m 4 then 16 else 0 :: u32)) n"
    unfolding bit_and_iff bit_or_iff d b m bit_1_iff
    by (auto simp: less_Suc_eq numeral_eq_Suc)
qed

lemma native_bits:
  "to_native_mask m AND EPOLLIN \<noteq> 0 \<longleftrightarrow> bit m 0"
  "to_native_mask m AND EPOLLOUT \<noteq> 0 \<longleftrightarrow> bit m 1"
  "to_native_mask m AND EPOLLERR \<noteq> 0 \<longleftrightarrow> bit m 2"
  "to_native_mask m AND EPOLLHUP \<noteq> 0 \<longleftrightarrow> bit m 3"
  "to_native_mask m AND EPOLLRDHUP \<noteq> 0 \<longleftrightarrow> bit m 4"
proof -
  have d: "bit (if c then x else 0) n \<longleftrightarrow> c \<and> bit x n" for c n and x :: u32 by simp
  have r: "x AND 0x2000 \<noteq> 0 \<longleftrightarrow> bit x 13" for x :: u32
    using and_exp_eq_0_iff_not_bit [of x 13] by simp
  note unf = to_native_mask_def epoll_masks readiness_masks mask_bits r
  show "to_native_mask m AND EPOLLIN \<noteq> 0 \<longleftrightarrow> bit m 0"
    unfolding unf by (simp add: bit_or_iff d)
  show "to_native_mask m AND EPOLLOUT \<noteq> 0 \<longleftrightarrow> bit m 1"
    unfolding unf by (simp add: bit_or_iff d)
  show "to_native_mask m AND EPOLLERR \<noteq> 0 \<longleftrightarrow> bit m 2"
    unfolding unf by (simp add: bit_or_iff d)
  show "to_native_mask m AND EPOLLHUP \<noteq> 0 \<longleftrightarrow> bit m 3"
    unfolding unf by (simp add: bit_or_iff d)
  show "to_native_mask m AND EPOLLRDHUP \<noteq> 0 \<longleftrightarrow> bit m 4"
    unfolding unf by (simp add: bit_or_iff d)
qed

lemma native_mask_roundtrip:
  "from_native_mask (to_native_mask m) =
     m AND (readable OR writable OR ev_error OR hangup OR peer_hangup)"
proof -
  have "readable OR writable OR ev_error OR hangup OR peer_hangup = 31"
    by (simp add: readiness_masks)
  then show ?thesis
    by (simp only: mask5_split from_native_mask_def native_bits) (simp only: readiness_masks)
qed


text \<open>\<open>None\<close> is a return value of 0, \<open>Some e\<close> a failure with \<^verbatim>\<open>errno\<close>.\<close>

definition readiness_errno :: "Control \<Rightarrow> fd \<Rightarrow> u32 \<Rightarrow> u64 \<Rightarrow> World \<Rightarrow> World \<times> errno option" where
  "readiness_errno operation fd interest token w =
     (let w = add_effect (Eff_control operation fd
                (if operation = Ctl_remove then 0 else to_native_mask interest)
                (if operation = Ctl_remove then 0 else token)) w
      in case w_control w of [] \<Rightarrow> (w, None) | a # as \<Rightarrow> (w\<lparr>w_control := as\<rparr>, a))"

text \<open>The same call where the caller only looks whether it succeeded.\<close>

definition readiness_control :: "Control \<Rightarrow> fd \<Rightarrow> u32 \<Rightarrow> u64 \<Rightarrow> World \<Rightarrow> World \<times> bool" where
  "readiness_control operation fd interest token w =
     (case readiness_errno operation fd interest token w of (w, e) \<Rightarrow> (w, e = None))"

definition readiness_signal :: "fd \<Rightarrow> World \<Rightarrow> World" where
  "readiness_signal wake_fd w =
     (if wake_fd < 0 then w else add_effect (Eff_signal wake_fd) w)"

definition readiness_close :: "fd \<Rightarrow> World \<Rightarrow> World" where
  "readiness_close fd w = (if fd \<ge> 0 then add_effect (Eff_close fd) w else w)"

end
