(* ===== verification/Transport.thy ===== *)
theory Transport
  imports World
begin

text \<open>
  Blocking transport on one descriptor (\<^verbatim>\<open>src/system/transport/io.hpp\<close>): waiting under an
  inactivity timeout and an absolute deadline, the read-ahead \<^verbatim>\<open>BufferedReader\<close>, exact writes,
  gathered writes with and without a passed descriptor, framing helpers and the non-blocking
  connect. Every loop consumes an answer of the kernel or makes progress in its buffer, which is
  the measure of its termination proof.
\<close>

subsection \<open>wait\_for\_io\<close>

definition poll_timeout_clock :: "time \<Rightarrow> World \<Rightarrow> World \<times> int" where
  "poll_timeout_clock deadline w =
     (if deadline = deadline_max then (w, poll_timeout_ms 0 deadline)
      else case clock_now w of (w, now) \<Rightarrow> (w, poll_timeout_ms now deadline))"

definition deadline_after :: "msec \<Rightarrow> World \<Rightarrow> World \<times> time" where
  "deadline_after timeout w =
     (if timeout = 0 then (w, deadline_max)
      else case clock_now w of (w, now) \<Rightarrow> (w, deadline_from_now now timeout))"

definition check_deadline :: "time \<Rightarrow> string \<Rightarrow> World \<Rightarrow> World \<times> (exn + unit)" where
  "check_deadline deadline op w =
     (if deadline = deadline_max then (w, Inr ())
      else case clock_now w of (w, now) \<Rightarrow> (w, check_absolute_deadline now deadline op))"

lemma kernel_poll_shorter:
  "w_poll w \<noteq> [] \<Longrightarrow> length (w_poll (fst (kernel_poll w))) < length (w_poll w)"
  by (simp add: kernel_poll_def split: list.splits)

lemma wait_once_interrupted:
  "wait_once w = (w', WS_interrupted, e) \<Longrightarrow> length (w_poll w') < length (w_poll w)"
  by (auto simp: wait_once_def kernel_poll_def split: list.splits PollAnswer.splits if_splits)

lemma clock_now_frame [frame_simps]:
  "w_poll (fst (clock_now w)) = w_poll w" "w_recv (fst (clock_now w)) = w_recv w"
  "w_send (fst (clock_now w)) = w_send w" "w_sent (fst (clock_now w)) = w_sent w"
  "w_attached (fst (clock_now w)) = w_attached w"
  by (simp_all add: clock_now_def split: list.splits)

lemma poll_timeout_clock_frame [frame_simps]:
  "w_poll (fst (poll_timeout_clock d w)) = w_poll w"
  "w_recv (fst (poll_timeout_clock d w)) = w_recv w"
  "w_send (fst (poll_timeout_clock d w)) = w_send w"
  "w_sent (fst (poll_timeout_clock d w)) = w_sent w"
  "w_attached (fst (poll_timeout_clock d w)) = w_attached w"
  by (simp_all add: poll_timeout_clock_def frame_simps split_beta)

function wait_loop :: "time \<Rightarrow> string \<Rightarrow> World \<Rightarrow> World \<times> (exn + unit)" where
  "wait_loop wait_deadline op w =
     (case poll_timeout_clock wait_deadline w of (w, timeout_ms) \<Rightarrow>
        if timeout_ms = 0 then (w, throw_system_error op ETIMEDOUT)
        else case wait_once w of
               (w, WS_ready, _) \<Rightarrow> (w, Inr ())
             | (w, WS_timed_out, _) \<Rightarrow> (w, throw_system_error op ETIMEDOUT)
             | (w, WS_interrupted, _) \<Rightarrow> wait_loop wait_deadline op w
             | (w, WS_invalid_descriptor, e) \<Rightarrow>
                 (w, throw_system_error ''socket descriptor became invalid''
                       (case e of None \<Rightarrow> EBADF | Some e \<Rightarrow> e))
             | (w, WS_error, e) \<Rightarrow>
                 (w, throw_system_error ''poll failed''
                       (case e of None \<Rightarrow> EIO | Some e \<Rightarrow> e)))"
  by pat_completeness auto
termination
  by (relation "measure (\<lambda>(d, op, w). length (w_poll w))", simp)
    (clarsimp, metis fst_conv poll_timeout_clock_frame(1) wait_once_interrupted)

declare wait_loop.simps [simp del]

definition wait_for_io :: "msec \<Rightarrow> time \<Rightarrow> string \<Rightarrow> World \<Rightarrow> World \<times> (exn + unit)" where
  "wait_for_io inactivity_timeout absolute_deadline op w =
     (if inactivity_timeout > 0
      then case deadline_after inactivity_timeout w of (w, d) \<Rightarrow>
             wait_loop (earlier_deadline absolute_deadline d) op w
      else wait_loop absolute_deadline op w)"

lemma wait_once_frame [frame_simps]:
  "w_recv (fst (wait_once w)) = w_recv w" "w_send (fst (wait_once w)) = w_send w"
  "w_sent (fst (wait_once w)) = w_sent w" "w_attached (fst (wait_once w)) = w_attached w"
  by (auto simp: wait_once_def kernel_poll_def split: list.splits PollAnswer.splits)

lemma wait_loop_frame [frame_simps]:
  "w_recv (fst (wait_loop d op w)) = w_recv w \<and> w_send (fst (wait_loop d op w)) = w_send w \<and>
   w_sent (fst (wait_loop d op w)) = w_sent w \<and> w_attached (fst (wait_loop d op w)) = w_attached w"
proof (induction d op w rule: wait_loop.induct)
  case (1 d op w)
  obtain w1 t where a: "poll_timeout_clock d w = (w1, t)" by fastforce
  obtain w2 s e where b: "wait_once w1 = (w2, s, e)" by (metis prod_cases3)
  have f: "w_recv w1 = w_recv w" "w_send w1 = w_send w" "w_sent w1 = w_sent w"
    "w_attached w1 = w_attached w"
    using poll_timeout_clock_frame [of d w] a by simp_all
  have g: "w_recv w2 = w_recv w" "w_send w2 = w_send w" "w_sent w2 = w_sent w"
    "w_attached w2 = w_attached w"
    using wait_once_frame [of w1] f b by simp_all
  show ?case
    using 1 a b f g by (subst (1 2 3 4) wait_loop.simps) (cases s; simp)
qed

lemma deadline_after_frame [frame_simps]:
  "w_recv (fst (deadline_after t w)) = w_recv w" "w_send (fst (deadline_after t w)) = w_send w"
  "w_sent (fst (deadline_after t w)) = w_sent w"
  "w_attached (fst (deadline_after t w)) = w_attached w"
  by (simp_all add: deadline_after_def frame_simps split_beta)

lemma check_deadline_frame [frame_simps]:
  "w_recv (fst (check_deadline t op w)) = w_recv w"
  "w_send (fst (check_deadline t op w)) = w_send w"
  "w_sent (fst (check_deadline t op w)) = w_sent w"
  "w_attached (fst (check_deadline t op w)) = w_attached w"
  by (simp_all add: check_deadline_def frame_simps split_beta)

lemma wait_for_io_frame [frame_simps]:
  "w_recv (fst (wait_for_io i d op w)) = w_recv w"
  "w_send (fst (wait_for_io i d op w)) = w_send w"
  "w_sent (fst (wait_for_io i d op w)) = w_sent w"
  "w_attached (fst (wait_for_io i d op w)) = w_attached w"
  by (simp_all add: wait_for_io_def frame_simps split_beta)

text \<open>Waiting and looking at the clock neither receive nor send.\<close>

definition same_streams :: "World \<Rightarrow> World \<Rightarrow> bool" where
  "same_streams w w' \<longleftrightarrow> w_recv w' = w_recv w \<and> w_send w' = w_send w \<and>
     w_sent w' = w_sent w \<and> w_attached w' = w_attached w"

lemma same_streamsD [dest]:
  "same_streams w w' \<Longrightarrow> w_recv w' = w_recv w \<and> w_send w' = w_send w \<and>
     w_sent w' = w_sent w \<and> w_attached w' = w_attached w"
  by (simp add: same_streams_def)

lemma check_deadline_same: "(w', r) = check_deadline d op w \<Longrightarrow> same_streams w w'"
  using check_deadline_frame [of d op w] by (metis fst_conv same_streams_def)

lemma wait_for_io_same: "(w', r) = wait_for_io i d op w \<Longrightarrow> same_streams w w'"
  using wait_for_io_frame [of i d op w] by (metis fst_conv same_streams_def)

subsection \<open>BufferedReader\<close>

definition read_ahead_capacity :: nat where "read_ahead_capacity = 4096"

record BufferedReader =
  br_fd :: fd
  br_buffer :: bstring
  br_start :: nat
  br_size :: nat

definition new_reader :: "fd \<Rightarrow> BufferedReader" where
  "new_reader fd = \<lparr>br_fd = fd, br_buffer = replicate read_ahead_capacity 0,
                    br_start = 0, br_size = 0\<rparr>"

lemma socket_receive_shorter:
  "socket_receive fd cap w = (w', Inl e) \<Longrightarrow> length (w_recv w' fd) < length (w_recv w fd)"
  by (auto simp: socket_receive_def kernel_recv_def split: list.splits RecvAnswer.splits)

function receive :: "fd \<Rightarrow> nat \<Rightarrow> msec \<Rightarrow> time \<Rightarrow> World \<Rightarrow> World \<times> (exn + bstring)" where
  "receive fd cap inactivity_timeout absolute_deadline w =
     (case check_deadline absolute_deadline ''receive timed out'' w of
        (w, Inl e) \<Rightarrow> (w, Inl e)
      | (w, Inr _) \<Rightarrow>
          (case socket_receive fd cap w of
             (w, Inr d) \<Rightarrow>
               if d \<noteq> [] then (w, Inr d)
               else (w, throw_system_error ''peer closed connection'' ECONNRESET)
           | (w, Inl e) \<Rightarrow>
               if e = EINTR then receive fd cap inactivity_timeout absolute_deadline w
               else if e = EAGAIN
               then (case wait_for_io inactivity_timeout absolute_deadline
                            ''receive timed out'' w of
                       (w, Inl e) \<Rightarrow> (w, Inl e)
                     | (w, Inr _) \<Rightarrow> receive fd cap inactivity_timeout absolute_deadline w)
               else (w, throw_system_error ''receive failed'' e)))"
  by pat_completeness auto
termination
  by (relation "measure (\<lambda>(fd, cap, i, d, w). length (w_recv w fd))")
    (auto dest!: check_deadline_same wait_for_io_same socket_receive_shorter [OF sym]
      simp: same_streams_def)

declare receive.simps [simp del]

text \<open>The bytes the kernel will deliver on a descriptor, whatever the segmentation.\<close>

fun answer_data :: "RecvAnswer \<Rightarrow> bstring" where
  "answer_data (RecvData d _ _) = d"
| "answer_data (RecvErr _) = []"

definition incoming :: "World \<Rightarrow> fd \<Rightarrow> bstring" where
  "incoming w fd = concat (map answer_data (w_recv w fd))"

definition outcome_bytes :: "exn + bstring \<Rightarrow> bstring" where
  "outcome_bytes r = (case r of Inl _ \<Rightarrow> [] | Inr d \<Rightarrow> d)"

lemma outcome_bytes_simps [simp]: "outcome_bytes (Inl e) = []" "outcome_bytes (Inr d) = d"
  by (simp_all add: outcome_bytes_def)

lemma socket_receive_incoming:
  "socket_receive fd cap w = (w', r) \<Longrightarrow>
     incoming w fd = (case r of Inl _ \<Rightarrow> [] | Inr d \<Rightarrow> d) @ incoming w' fd \<and>
     w_sent w' = w_sent w \<and> w_send w' = w_send w \<and>
     (\<forall>d. r = Inr d \<longrightarrow> length d \<le> cap)"
  by (auto simp: socket_receive_def kernel_recv_def incoming_def
      split: list.splits RecvAnswer.splits if_splits)

lemma incoming_cong: "w_recv w' fd = w_recv w fd \<Longrightarrow> incoming w' fd = incoming w fd"
  by (simp add: incoming_def)

text \<open>
  A receive delivers a non-empty prefix of the incoming bytes that fits the capacity; a failed
  one loses no byte.
\<close>

lemma receive_incoming:
  "receive fd cap i d w = (w', r) \<Longrightarrow>
     incoming w fd = outcome_bytes r @ incoming w' fd \<and> w_sent w' = w_sent w \<and>
     w_send w' = w_send w \<and>
     (\<forall>b. r = Inr b \<longrightarrow> b \<noteq> [] \<and> length b \<le> cap)"
proof (induction fd cap i d w arbitrary: w' r rule: receive.induct)
  case (1 fd cap i d w)
  obtain w1 c where a: "check_deadline d ''receive timed out'' w = (w1, c)" by fastforce
  have f: "incoming w1 fd = incoming w fd" "w_sent w1 = w_sent w" "w_send w1 = w_send w"
    using check_deadline_frame [of d "''receive timed out''" w] a
    by (simp_all add: incoming_def)
  obtain w2 q where b: "socket_receive fd cap w1 = (w2, q)" by fastforce
  note g = socket_receive_incoming [OF b]
  obtain w3 p where c: "wait_for_io i d ''receive timed out'' w2 = (w3, p)" by fastforce
  have h: "incoming w3 fd = incoming w2 fd" "w_sent w3 = w_sent w2" "w_send w3 = w_send w2"
    using wait_for_io_frame [of i d "''receive timed out''" w2] c by (simp_all add: incoming_def)
  note step = "1.prems" [unfolded receive.simps [of fd cap i d w] a, simplified prod.case]
  show ?case
  proof (cases c)
    case (Inl e)
    then show ?thesis using step f by auto
  next
    case ok: (Inr u)
    show ?thesis
    proof (cases q)
      case (Inr bytes)
      then show ?thesis
        using step ok b f g by (cases "bytes = []") (auto simp: throw_system_error_def)
    next
      case (Inl e)
      consider "e = EINTR" | "e = EAGAIN" | "e \<noteq> EINTR" "e \<noteq> EAGAIN" by blast
      then show ?thesis
      proof cases
        case 1
        then have "receive fd cap i d w2 = (w', r)"
          using step ok b Inl by simp
        from "1.IH"(1) [OF a [symmetric] ok b [symmetric] Inl 1 this] show ?thesis
          using f g Inl by simp
      next
        case 2
        show ?thesis
        proof (cases p)
          case stop: (Inl e')
          then show ?thesis using step ok b c f g h Inl 2 by auto
        next
          case go: (Inr v)
          then have "receive fd cap i d w3 = (w', r)"
            using step ok b c Inl 2 by simp
          from "1.IH"(2) [OF a [symmetric] ok b [symmetric] Inl _ 2 c [symmetric] go this]
          show ?thesis using f g h Inl 2 by simp
        qed
      next
        case 3
        then show ?thesis
          using step ok b f g Inl by (auto simp: throw_system_error_def)
      qed
    qed
  qed
qed

text \<open>\<^verbatim>\<open>read_direct\<close> returns the bytes it stored through the caller's pointer.\<close>

function read_direct :: "fd \<Rightarrow> nat \<Rightarrow> msec \<Rightarrow> time \<Rightarrow> World \<Rightarrow> World \<times> (exn + bstring)" where
  "read_direct fd sz inactivity_timeout absolute_deadline w =
     (if sz = 0 then (w, Inr [])
      else case receive fd sz inactivity_timeout absolute_deadline w of
             (w, Inl e) \<Rightarrow> (w, Inl e)
           | (w, Inr d) \<Rightarrow>
               (case read_direct fd (sz - length d) inactivity_timeout absolute_deadline w of
                  (w, Inl e) \<Rightarrow> (w, Inl e)
                | (w, Inr rest) \<Rightarrow> (w, Inr (d @ rest))))"
  by pat_completeness auto
termination
  by (relation "measure (\<lambda>(fd, sz, _). sz)")
    (auto dest!: receive_incoming [OF sym])

declare read_direct.simps [simp del]

text \<open>
  The loop of \<^verbatim>\<open>BufferedReader::read\<close>: \<open>received\<close> counts the bytes already stored in the
  caller's buffer \<open>out\<close>.
\<close>

function read_loop ::
  "BufferedReader \<Rightarrow> nat \<Rightarrow> bstring \<Rightarrow> nat \<Rightarrow> msec \<Rightarrow> time \<Rightarrow> World \<Rightarrow>
     BufferedReader \<times> World \<times> (exn + bstring)" where
  "read_loop rd received out sz inactivity_timeout absolute_deadline w =
     (if received < sz
      then if br_size rd \<noteq> 0
           then let n = min (sz - received) (br_size rd);
                    out = out @ take n (drop (br_start rd) (br_buffer rd));
                    rd = rd\<lparr>br_start := br_start rd + n, br_size := br_size rd - n\<rparr>
                in read_loop rd (received + n) out sz inactivity_timeout absolute_deadline w
           else if sz - received \<ge> length (br_buffer rd)
           then case read_direct (br_fd rd) (sz - received) inactivity_timeout
                       absolute_deadline w of
                  (w, Inl e) \<Rightarrow> (rd, w, Inl e)
                | (w, Inr d) \<Rightarrow> (rd, w, Inr (out @ d))
           else let rd = rd\<lparr>br_start := 0\<rparr> in
             case receive (br_fd rd) (length (br_buffer rd)) inactivity_timeout
                    absolute_deadline w of
               (w, Inl e) \<Rightarrow> (rd, w, Inl e)
             | (w, Inr d) \<Rightarrow>
                 read_loop (rd\<lparr>br_buffer := d @ drop (length d) (br_buffer rd),
                               br_size := length d\<rparr>)
                   received out sz inactivity_timeout absolute_deadline w
      else (rd, w, Inr out))"
  by pat_completeness auto
termination
  by (relation "measures [\<lambda>(rd, received, out, sz, _). sz - received,
                          \<lambda>(rd, _). if br_size rd = 0 then 1 else 0]")
    (auto dest!: receive_incoming [OF sym])

declare read_loop.simps [simp del]

definition reader_read ::
  "BufferedReader \<Rightarrow> nat \<Rightarrow> msec \<Rightarrow> time \<Rightarrow> World \<Rightarrow>
     BufferedReader \<times> World \<times> (exn + bstring)" where
  "reader_read rd sz inactivity_timeout absolute_deadline w =
     read_loop rd 0 [] sz inactivity_timeout absolute_deadline w"

subsection \<open>Exact writes\<close>

text \<open>
  The three write loops of the source share their retry part: check the deadline, offer the
  remaining bytes to the kernel, start over when the call was interrupted, wait for
  writability when it would block. \<open>send_some\<close> is that part, up to the first accepted bytes;
  \<open>passed\<close> is the descriptor still to be attached.
\<close>

lemma kernel_send_shorter:
  "kernel_send fd data p w = (w', Inl e) \<Longrightarrow> length (w_send w' fd) < length (w_send w fd)"
  by (auto simp: kernel_send_def Let_def split: list.splits SendAnswer.splits)

function send_some ::
  "fd \<Rightarrow> bstring list \<Rightarrow> fd option \<Rightarrow> msec \<Rightarrow> time \<Rightarrow> World \<Rightarrow> World \<times> (exn + nat)" where
  "send_some fd parts passed inactivity_timeout absolute_deadline w =
     (case check_deadline absolute_deadline ''send timed out'' w of
        (w, Inl e) \<Rightarrow> (w, Inl e)
      | (w, Inr _) \<Rightarrow>
          (case send_iovecs fd parts passed w of
             (w, Inr n) \<Rightarrow>
               if n > 0 then (w, Inr n) else (w, throw_system_error ''send failed'' EPIPE)
           | (w, Inl e) \<Rightarrow>
               if e = EINTR
               then send_some fd parts passed inactivity_timeout absolute_deadline w
               else if e = EAGAIN
               then (case wait_for_io inactivity_timeout absolute_deadline
                            ''send timed out'' w of
                       (w, Inl e) \<Rightarrow> (w, Inl e)
                     | (w, Inr _) \<Rightarrow>
                         send_some fd parts passed inactivity_timeout absolute_deadline w)
               else (w, throw_system_error ''send failed'' e)))"
  by pat_completeness auto
termination
  by (relation "measure (\<lambda>(fd, parts, p, i, d, w). length (w_send w fd))")
    (auto dest!: check_deadline_same wait_for_io_same kernel_send_shorter [OF sym]
      simp: same_streams_def send_iovecs_def)

declare send_some.simps [simp del]

text \<open>What one accepted send of \<open>n\<close> bytes of \<open>data\<close> does to the records of the world.\<close>

definition accepted :: "fd \<Rightarrow> bstring \<Rightarrow> fd option \<Rightarrow> nat \<Rightarrow> World \<Rightarrow> World \<Rightarrow> bool" where
  "accepted fd data passed n w w' \<longleftrightarrow>
     w_sent w' = (w_sent w)(fd := w_sent w fd @ take n data) \<and>
     w_attached w' = (w_attached w)(fd := w_attached w fd @
       (case passed of None \<Rightarrow> [] | Some p \<Rightarrow> if n = 0 then [] else [(length (w_sent w fd), p)]))"

lemma accepted_zero: "accepted fd data passed 0 w w' \<longleftrightarrow>
    w_sent w' = w_sent w \<and> w_attached w' = w_attached w"
  by (cases passed) (auto simp: accepted_def)

lemma accepted_cong:
  "w_sent w1 = w_sent w \<Longrightarrow> w_attached w1 = w_attached w \<Longrightarrow>
     accepted fd data passed n w1 w' = accepted fd data passed n w w'"
  by (cases passed) (simp_all add: accepted_def)

lemma kernel_send_accepted:
  "kernel_send fd data passed w = (w', r) \<Longrightarrow>
     (case r of Inl _ \<Rightarrow> accepted fd data passed 0 w w'
      | Inr n \<Rightarrow> n \<le> length data \<and> accepted fd data passed n w w')"
  by (cases passed)
    (auto simp: kernel_send_def accepted_def Let_def min_def
      split: list.splits SendAnswer.splits if_splits)

lemma send_some_accepted:
  "send_some fd parts passed i d w = (w', r) \<Longrightarrow>
     (case r of Inl _ \<Rightarrow> accepted fd (concat parts) passed 0 w w'
      | Inr n \<Rightarrow> 0 < n \<and> n \<le> length (concat parts) \<and> accepted fd (concat parts) passed n w w')"
proof (induction fd parts passed i d w arbitrary: w' r rule: send_some.induct)
  case (1 fd parts passed i d w)
  obtain w1 c where c: "check_deadline d ''send timed out'' w = (w1, c)" by fastforce
  from check_deadline_same [OF c [symmetric]]
  have s1: "w_sent w1 = w_sent w" "w_attached w1 = w_attached w" by auto
  obtain w2 q where q: "send_iovecs fd parts passed w1 = (w2, q)" by fastforce
  note ks = kernel_send_accepted [OF q [unfolded send_iovecs_def]]
  obtain w3 v where v: "wait_for_io i d ''send timed out'' w2 = (w3, v)" by fastforce
  from wait_for_io_same [OF v [symmetric]]
  have s3: "w_sent w3 = w_sent w2" "w_attached w3 = w_attached w2" by auto
  note step = "1.prems" [unfolded send_some.simps [of fd parts passed i d w] c, simplified prod.case]
  note zero = accepted_zero [of fd "concat parts" passed]
  show ?case
  proof (cases c)
    case (Inl e)
    then show ?thesis using step s1 zero by auto
  next
    case ok: (Inr u)
    show ?thesis
    proof (cases q)
      case (Inr n)
      then show ?thesis
        using step ok q s1 ks accepted_cong [OF s1]
        by (cases "0 < n") (auto simp: throw_system_error_def)
    next
      case (Inl e)
      then have s2: "w_sent w2 = w_sent w" "w_attached w2 = w_attached w"
        using ks s1 zero by simp_all
      consider "e = EINTR" | "e = EAGAIN" "v = Inr ()" | e' where "e = EAGAIN" "v = Inl e'"
        | "e \<noteq> EINTR" "e \<noteq> EAGAIN" by (cases v) auto
      then show ?thesis
      proof cases
        case 1
        then have "send_some fd parts passed i d w2 = (w', r)"
          using step ok q Inl by simp
        from "1.IH"(1) [OF c [symmetric] ok q [symmetric] Inl 1 this] show ?thesis
          by (simp only: accepted_cong [OF s2])
      next
        case 2
        then have "send_some fd parts passed i d w3 = (w', r)"
          using step ok q v Inl by simp
        from "1.IH"(2) [OF c [symmetric] ok q [symmetric] Inl _ 2(1) v [symmetric] 2(2) this] 2(1)
        show ?thesis
          by (simp only: accepted_cong [of w3 w, OF trans [OF s3(1) s2(1)] trans [OF s3(2) s2(2)]]
              errno.distinct not_False_eq_True)
      qed (use step ok q v s2 s3 Inl zero in \<open>auto simp: throw_system_error_def\<close>)
    qed
  qed
qed

function write_exact :: "fd \<Rightarrow> bstring \<Rightarrow> msec \<Rightarrow> time \<Rightarrow> World \<Rightarrow> World \<times> (exn + unit)" where
  "write_exact fd data inactivity_timeout absolute_deadline w =
     (if data = [] then (w, Inr ())
      else case send_some fd [data] None inactivity_timeout absolute_deadline w of
             (w, Inl e) \<Rightarrow> (w, Inl e)
           | (w, Inr n) \<Rightarrow>
               write_exact fd (drop n data) inactivity_timeout absolute_deadline w)"
  by pat_completeness auto
termination
  by (relation "measure (\<lambda>(fd, data, _). length data)") (auto dest!: send_some_accepted [OF sym])

declare write_exact.simps [simp del]

text \<open>
  The position in a gather list after \<open>consumed\<close> bytes: whole parts are skipped, a part that
  was sent in part is cut at the front.
\<close>

fun advance_parts :: "bstring list \<Rightarrow> nat \<Rightarrow> bstring list" where
  "advance_parts [] consumed = []"
| "advance_parts (p # ps) consumed =
     (if consumed \<ge> length p then advance_parts ps (consumed - length p)
      else if consumed \<noteq> 0 then drop consumed p # ps
      else p # ps)"

abbreviation skip_empty_parts :: "bstring list \<Rightarrow> bstring list" where
  "skip_empty_parts \<equiv> dropWhile (\<lambda>p. p = [])"

lemma concat_advance_parts: "concat (advance_parts ps n) = drop n (concat ps)"
  by (induction ps n rule: advance_parts.induct) (auto simp: drop_Cons')

lemma concat_skip_empty_parts [simp]: "concat (skip_empty_parts ps) = concat ps"
  by (induction ps) auto

lemma skip_empty_parts_Nil: "skip_empty_parts ps = [] \<longleftrightarrow> concat ps = []"
  by (induction ps) auto

function write_iovecs_loop ::
  "fd \<Rightarrow> bstring list \<Rightarrow> fd option \<Rightarrow> msec \<Rightarrow> time \<Rightarrow> World \<Rightarrow> World \<times> (exn + unit)" where
  "write_iovecs_loop fd parts passed inactivity_timeout absolute_deadline w =
     (let parts = skip_empty_parts parts in
      if parts = [] then (w, Inr ())
      else case send_some fd parts passed inactivity_timeout absolute_deadline w of
             (w, Inl e) \<Rightarrow> (w, Inl e)
           | (w, Inr n) \<Rightarrow>
               write_iovecs_loop fd (advance_parts parts n) None inactivity_timeout
                 absolute_deadline w)"
  by pat_completeness auto
termination
  by (relation "measure (\<lambda>(fd, parts, _). length (concat parts))")
    (auto dest!: send_some_accepted [OF sym] simp: concat_advance_parts simp del: length_concat)

declare write_iovecs_loop.simps [simp del]

definition write_iovecs_exact ::
  "fd \<Rightarrow> bstring list \<Rightarrow> msec \<Rightarrow> time \<Rightarrow> World \<Rightarrow> World \<times> (exn + unit)" where
  "write_iovecs_exact fd parts inactivity_timeout absolute_deadline w =
     write_iovecs_loop fd parts None inactivity_timeout absolute_deadline w"

text \<open>
  The variant that passes a descriptor: \<^verbatim>\<open>fd_attached\<close> becomes true with the first accepted
  bytes, after which no attempt carries the descriptor.
\<close>

definition write_iovecs_exact_with_fd ::
  "fd \<Rightarrow> bstring list \<Rightarrow> fd \<Rightarrow> msec \<Rightarrow> time \<Rightarrow> World \<Rightarrow> World \<times> (exn + unit)" where
  "write_iovecs_exact_with_fd fd parts passed_fd inactivity_timeout absolute_deadline w =
     write_iovecs_loop fd parts (Some passed_fd) inactivity_timeout absolute_deadline w"

subsection \<open>Frames\<close>

definition write_frame_with_payload ::
  "fd \<Rightarrow> WireType \<Rightarrow> u32 \<Rightarrow> u32 \<Rightarrow> u32 \<Rightarrow> bstring \<Rightarrow> msec \<Rightarrow> time \<Rightarrow> byte \<Rightarrow> World \<Rightarrow>
     World \<times> (exn + unit)" where
  "write_frame_with_payload fd type request_id arg1 arg2 payload inactivity_timeout
       absolute_deadline wire_version w =
     (let header = encode_header type request_id arg1 arg2 0 wire_version
      in write_iovecs_exact fd [header, payload] inactivity_timeout absolute_deadline w)"

definition write_header_frame ::
  "fd \<Rightarrow> WireType \<Rightarrow> u32 \<Rightarrow> u32 \<Rightarrow> u32 \<Rightarrow> msec \<Rightarrow> time \<Rightarrow> byte \<Rightarrow> World \<Rightarrow>
     World \<times> (exn + unit)" where
  "write_header_frame fd type request_id arg1 arg2 inactivity_timeout absolute_deadline
       wire_version w =
     write_exact fd (encode_header type request_id arg1 arg2 0 wire_version)
       inactivity_timeout absolute_deadline w"

text \<open>\<^verbatim>\<open>transport.hpp\<close>: a fixed request is its header, route and body in one gather list.\<close>

definition write_request_frame ::
  "fd \<Rightarrow> u32 \<Rightarrow> bstring \<Rightarrow> bstring \<Rightarrow> msec \<Rightarrow> time \<Rightarrow> byte \<Rightarrow> World \<Rightarrow> World \<times> (exn + unit)" where
  "write_request_frame fd request_id route body io_timeout deadline wire_version w =
     (let header = encode_header WT_request request_id (of_nat (length route))
                     (of_nat (length body)) 0 wire_version
      in write_iovecs_exact fd [header, route, body] io_timeout deadline w)"

subsection \<open>Socket setup and connect\<close>

definition set_close_on_exec :: "World \<Rightarrow> World \<times> (exn + unit)" where
  "set_close_on_exec w =
     (case lifecycle_set_close_on_exec w of
        (w, None, _) \<Rightarrow> (w, Inr ())
      | (w, Some e, failure) \<Rightarrow>
          (w, throw_system_error
                (if failure = SF_close_on_exec_getfd then ''fcntl(F_GETFD) failed''
                 else ''fcntl(F_SETFD) failed'') e))"

definition set_nonblocking :: "World \<Rightarrow> World \<times> (exn + unit)" where
  "set_nonblocking w =
     (case lifecycle_set_nonblocking w of
        (w, None, _) \<Rightarrow> (w, Inr ())
      | (w, Some e, failure) \<Rightarrow>
          (w, throw_system_error
                (if failure = SF_nonblocking_getfl then ''fcntl(F_GETFL) failed''
                 else ''fcntl(F_SETFL O_NONBLOCK) failed'') e))"

text \<open>
  \<^verbatim>\<open>make_socket\<close>; \<^verbatim>\<open>configure_no_sigpipe\<close> does nothing where \<^verbatim>\<open>MSG_NOSIGNAL\<close> exists.
  When setup throws, the \<^verbatim>\<open>FileDescriptor\<close> closes the socket.
\<close>

definition make_socket :: "World \<Rightarrow> World \<times> (exn + fd)" where
  "make_socket w =
     (case create_stream_socket w of
        (w, Inl e) \<Rightarrow> (w, throw_system_error ''socket failed'' e)
      | (w, Inr s) \<Rightarrow>
          (case set_nonblocking w of
             (w, Inl e) \<Rightarrow> (socket_close s w, Inl e)
           | (w, Inr _) \<Rightarrow> (w, Inr s)))"

definition connect_nonblocking :: "msec \<Rightarrow> time \<Rightarrow> World \<Rightarrow> World \<times> (exn + unit)" where
  "connect_nonblocking connect_timeout request_deadline w =
     (case connect_socket w of
        (w, None) \<Rightarrow> (w, Inr ())
      | (w, Some connect_error) \<Rightarrow>
          if connect_error \<noteq> EINPROGRESS \<and> connect_error \<noteq> EAGAIN \<and> connect_error \<noteq> EINTR
          then (w, throw_system_error ''connect failed'' connect_error)
          else let (w, deadline) =
                     (if connect_timeout > 0
                      then case deadline_after connect_timeout w of
                             (w, d) \<Rightarrow> (w, earlier_deadline request_deadline d)
                      else (w, request_deadline))
               in case wait_for_io 0 deadline ''connect timed out'' w of
                    (w, Inl e) \<Rightarrow> (w, Inl e)
                  | (w, Inr _) \<Rightarrow>
                      (case query_socket_error w of
                         (w, Inl e) \<Rightarrow>
                           (w, throw_system_error ''getsockopt(SO_ERROR) failed'' e)
                       | (w, Inr None) \<Rightarrow> (w, Inr ())
                       | (w, Inr (Some socket_error)) \<Rightarrow>
                           (w, throw_system_error ''connect failed'' socket_error)))"

subsection \<open>Reads are exact\<close>

definition reader_ok :: "BufferedReader \<Rightarrow> bool" where
  "reader_ok rd \<longleftrightarrow> length (br_buffer rd) = read_ahead_capacity \<and>
     br_start rd + br_size rd \<le> length (br_buffer rd)"

definition reader_avail :: "BufferedReader \<Rightarrow> bstring" where
  "reader_avail rd = take (br_size rd) (drop (br_start rd) (br_buffer rd))"

text \<open>The byte stream a reader still has in front of it: its buffer, then the socket.\<close>

definition unread :: "BufferedReader \<Rightarrow> World \<Rightarrow> bstring" where
  "unread rd w = reader_avail rd @ incoming w (br_fd rd)"

lemma new_reader_ok: "reader_ok (new_reader fd)" "unread (new_reader fd) w = incoming w fd"
  "br_fd (new_reader fd) = fd"
  by (simp_all add: reader_ok_def new_reader_def unread_def reader_avail_def)

lemma read_direct_exact:
  "read_direct fd sz i d w = (w', Inr out) \<Longrightarrow>
     length out = sz \<and> incoming w fd = out @ incoming w' fd \<and> w_sent w' = w_sent w"
proof (induction fd sz i d w arbitrary: w' out rule: read_direct.induct)
  case (1 fd sz i d w)
  show ?case
  proof (cases "sz = 0")
    case True
    then show ?thesis using "1.prems" by (subst (asm) read_direct.simps) simp
  next
    case False
    obtain w1 b w2 rest where r: "receive fd sz i d w = (w1, Inr b)"
      "read_direct fd (sz - length b) i d w1 = (w2, Inr rest)" "out = b @ rest" "w' = w2"
      using "1.prems" False
      by (subst (asm) read_direct.simps) (auto split: prod.splits sum.splits)
    show ?thesis
      using receive_incoming [OF r(1)] "1.IH" [OF False r(1) [symmetric] refl r(2)] r by auto
  qed
qed

lemma reader_take:
  assumes "reader_ok rd" "n \<le> br_size rd"
  shows "reader_ok (rd\<lparr>br_start := br_start rd + n, br_size := br_size rd - n\<rparr>)"
    "reader_avail rd = take n (drop (br_start rd) (br_buffer rd)) @
       reader_avail (rd\<lparr>br_start := br_start rd + n, br_size := br_size rd - n\<rparr>)"
    "length (take n (drop (br_start rd) (br_buffer rd))) = n"
proof -
  show "reader_ok (rd\<lparr>br_start := br_start rd + n, br_size := br_size rd - n\<rparr>)"
    "length (take n (drop (br_start rd) (br_buffer rd))) = n"
    using assms by (auto simp: reader_ok_def)
  have "take (br_size rd) xs = take n xs @ take (br_size rd - n) (drop n xs)" for xs :: bstring
    using assms(2) take_add [of n "br_size rd - n" xs] by simp
  then show "reader_avail rd = take n (drop (br_start rd) (br_buffer rd)) @
       reader_avail (rd\<lparr>br_start := br_start rd + n, br_size := br_size rd - n\<rparr>)"
    by (simp add: reader_avail_def add.commute)
qed

lemma reader_refill:
  assumes "reader_ok rd" "length b \<le> length (br_buffer rd)"
  shows "reader_ok (rd\<lparr>br_start := 0, br_buffer := b @ drop (length b) (br_buffer rd),
                       br_size := length b\<rparr>)"
    "reader_avail (rd\<lparr>br_start := 0, br_buffer := b @ drop (length b) (br_buffer rd),
                       br_size := length b\<rparr>) = b"
  using assms by (simp_all add: reader_ok_def reader_avail_def)

lemma read_loop_exact:
  "read_loop rd received out sz i d w = (rd', w', Inr res) \<Longrightarrow> reader_ok rd \<Longrightarrow> received \<le> sz \<Longrightarrow>
     reader_ok rd' \<and> br_fd rd' = br_fd rd \<and> w_sent w' = w_sent w \<and>
     (\<exists>b. res = out @ b \<and> length b = sz - received \<and> unread rd w = b @ unread rd' w')"
proof (induction rd received out sz i d w arbitrary: rd' w' res rule: read_loop.induct)
  case (1 rd received out sz i d w)
  consider "\<not> received < sz" | "received < sz" "br_size rd \<noteq> 0"
    | "received < sz" "br_size rd = 0" "sz - received \<ge> length (br_buffer rd)"
    | "received < sz" "\<not> br_size rd \<noteq> 0" "\<not> sz - received \<ge> length (br_buffer rd)" by blast
  then show ?case
  proof cases
    case 1
    then show ?thesis using "1.prems" by (subst (asm) read_loop.simps) simp
  next
    case 2
    define n where "n = min (sz - received) (br_size rd)"
    let ?rd = "rd\<lparr>br_start := br_start rd + n, br_size := br_size rd - n\<rparr>"
    let ?b = "take n (drop (br_start rd) (br_buffer rd))"
    have r: "read_loop ?rd (received + n) (out @ ?b) sz i d w = (rd', w', Inr res)"
      using "1.prems"(1) 2 by (subst (asm) read_loop.simps) (simp add: Let_def n_def)
    have n: "n \<le> br_size rd" "received + n \<le> sz" using 2 by (simp_all add: n_def)
    note t = reader_take [OF "1.prems"(2) n(1)]
    from "1.IH"(1) [OF 2 n_def refl refl r t(1) n(2)] obtain b where
      "reader_ok rd'" "br_fd rd' = br_fd rd" "w_sent w' = w_sent w" "res = out @ ?b @ b"
      "length b = sz - (received + n)" "unread ?rd w = b @ unread rd' w'"
      by auto
    moreover have "unread rd w = ?b @ unread ?rd w"
      using t(2) by (simp add: unread_def)
    ultimately show ?thesis
      using n t(3) by (intro conjI exI [of _ "?b @ b"]) auto
  next
    case 3
    have r: "\<exists>b. read_direct (br_fd rd) (sz - received) i d w = (w', Inr b) \<and>
                  rd' = rd \<and> res = out @ b"
      using "1.prems"(1) 3
      by (subst (asm) read_loop.simps) (auto split: prod.splits sum.splits)
    then show ?thesis
      using 3 "1.prems"(2) by (auto dest!: read_direct_exact simp: unread_def reader_avail_def)
  next
    case 4
    obtain w1 b where r: "receive (br_fd rd) (length (br_buffer rd)) i d w = (w1, Inr b)"
      and l: "read_loop (rd\<lparr>br_start := 0, br_buffer := b @ drop (length b) (br_buffer rd),
                            br_size := length b\<rparr>) received out sz i d w1 = (rd', w', Inr res)"
      using "1.prems"(1) 4
      by (subst (asm) read_loop.simps) (auto simp: Let_def split: prod.splits sum.splits)
    note ri = receive_incoming [OF r]
    note t = reader_refill [OF "1.prems"(2), of b]
    have "(w1, Inr b) = receive (br_fd (rd\<lparr>br_start := 0\<rparr>))
            (length (br_buffer (rd\<lparr>br_start := 0\<rparr>))) i d w"
      using r by simp
    from "1.IH"(2) [OF 4 refl this refl, of rd' w' res] show ?thesis
      using l ri t 4 "1.prems"(3) by (auto simp: unread_def reader_avail_def)
  qed
qed

subsection \<open>Reads return when the bytes are there\<close>

text \<open>
  A descriptor on which the kernel only delivers data, possibly after interrupted calls.
\<close>

fun smooth_answer :: "RecvAnswer \<Rightarrow> bool" where
  "smooth_answer (RecvData d _ _) \<longleftrightarrow> d \<noteq> []"
| "smooth_answer (RecvErr e) \<longleftrightarrow> e = EINTR"

definition smooth :: "World \<Rightarrow> fd \<Rightarrow> bool" where
  "smooth w fd \<longleftrightarrow> list_all smooth_answer (w_recv w fd)"

lemma socket_receive_smooth:
  assumes "smooth w fd" "incoming w fd \<noteq> []" "0 < cap" "socket_receive fd cap w = (w', r)"
  shows "smooth w' fd \<and> (r = Inl EINTR \<and> incoming w' fd = incoming w fd \<or> (\<exists>d. r = Inr d \<and> d \<noteq> []))"
proof (cases "w_recv w fd")
  case Nil
  then show ?thesis using assms(2) by (simp add: incoming_def)
next
  case (Cons a as)
  show ?thesis
  proof (cases a)
    case (RecvData d cms tr)
    then have "d \<noteq> []" "list_all smooth_answer as"
      using assms(1) Cons by (simp_all add: smooth_def)
    moreover have "w' = w\<lparr>w_recv := (w_recv w)
        (fd := if drop cap d = [] then as else RecvData (drop cap d) [] False # as)\<rparr>"
      "r = Inr (take cap d)"
      using assms(4) Cons RecvData by (simp_all add: socket_receive_def kernel_recv_def)
    ultimately show ?thesis
      using assms(3) by (simp add: smooth_def)
  next
    case (RecvErr e)
    then show ?thesis
      using assms(1,4) Cons by (auto simp: socket_receive_def kernel_recv_def smooth_def incoming_def)
  qed
qed

lemma receive_smooth:
  "smooth w fd \<Longrightarrow> incoming w fd \<noteq> [] \<Longrightarrow> 0 < cap \<Longrightarrow> d = deadline_max \<Longrightarrow>
     \<exists>w' b. receive fd cap i d w = (w', Inr b) \<and> smooth w' fd"
proof (induction fd cap i d w rule: receive.induct)
  case (1 fd cap i d w)
  have c: "check_deadline d op w = (w, Inr ())" for op
    using "1.prems" by (simp add: check_deadline_def)
  obtain w2 q where b: "socket_receive fd cap w = (w2, q)" by fastforce
  from socket_receive_smooth [OF "1.prems"(1-3) b] consider
    "q = Inl EINTR" "smooth w2 fd" "incoming w2 fd = incoming w fd"
    | bytes where "q = Inr bytes" "bytes \<noteq> []" "smooth w2 fd" by blast
  then show ?case
  proof cases
    case 1
    then show ?thesis
      using "1.IH"(1) [OF c [symmetric] refl b [symmetric] 1(1) refl 1(2)] "1.prems" b c
      by (subst receive.simps) simp
  next
    case 2
    then show ?thesis using b c by (subst receive.simps) simp
  qed
qed

lemma read_direct_smooth:
  "smooth w fd \<Longrightarrow> sz \<le> length (incoming w fd) \<Longrightarrow> d = deadline_max \<Longrightarrow>
     \<exists>w' b. read_direct fd sz i d w = (w', Inr b) \<and> smooth w' fd"
proof (induction fd sz i d w rule: read_direct.induct)
  case (1 fd sz i d w)
  show ?case
  proof (cases "sz = 0")
    case True
    then show ?thesis using "1.prems" by (subst read_direct.simps) simp
  next
    case False
    then obtain w1 b where r: "receive fd sz i d w = (w1, Inr b)" "smooth w1 fd"
      using receive_smooth [of w fd sz d i] "1.prems" by fastforce
    note ri = receive_incoming [OF r(1)]
    then have "sz - length b \<le> length (incoming w1 fd)"
      using "1.prems"(2) by simp
    from "1.IH" [OF False r(1) [symmetric] refl r(2) this "1.prems"(3)] obtain w2 rest where
      "read_direct fd (sz - length b) i d w1 = (w2, Inr rest)" "smooth w2 fd" by blast
    then show ?thesis
      using False r by (subst read_direct.simps) simp
  qed
qed

lemma read_loop_smooth:
  "smooth w (br_fd rd) \<Longrightarrow> reader_ok rd \<Longrightarrow> sz - received \<le> length (unread rd w) \<Longrightarrow>
   d = deadline_max \<Longrightarrow> received \<le> sz \<Longrightarrow>
     \<exists>rd' w' b. read_loop rd received out sz i d w = (rd', w', Inr b) \<and> smooth w' (br_fd rd)"
proof (induction rd received out sz i d w rule: read_loop.induct)
  case (1 rd received out sz i d w)
  consider "\<not> received < sz" | "received < sz" "br_size rd \<noteq> 0"
    | "received < sz" "br_size rd = 0" "sz - received \<ge> length (br_buffer rd)"
    | "received < sz" "\<not> br_size rd \<noteq> 0" "\<not> sz - received \<ge> length (br_buffer rd)" by blast
  then show ?case
  proof cases
    case 1
    then show ?thesis using "1.prems"(1) by (subst read_loop.simps) simp
  next
    case 2
    define n where "n = min (sz - received) (br_size rd)"
    let ?rd = "rd\<lparr>br_start := br_start rd + n, br_size := br_size rd - n\<rparr>"
    have n: "n \<le> br_size rd" "received + n \<le> sz" using 2 by (simp_all add: n_def)
    note t = reader_take [OF "1.prems"(2) n(1)]
    have "length (unread rd w) = n + length (unread ?rd w)"
      using t(2,3) by (simp add: unread_def)
    then have "sz - (received + n) \<le> length (unread ?rd w)"
      using "1.prems"(3) by simp
    from "1.IH"(1) [OF 2 n_def refl refl _ t(1) this "1.prems"(4) n(2)] "1.prems"(1)
    show ?thesis
      using 2 by (subst read_loop.simps) (simp add: Let_def n_def)
  next
    case 3
    then show ?thesis
      using read_direct_smooth [of w "br_fd rd" "sz - received" d i] "1.prems"
      by (subst read_loop.simps) (auto simp: unread_def reader_avail_def)
  next
    case 4
    have "incoming w (br_fd rd) \<noteq> []" "0 < length (br_buffer rd)"
      using "1.prems" 4 by (auto simp: unread_def reader_avail_def)
    then obtain w1 b where r: "receive (br_fd rd) (length (br_buffer rd)) i d w = (w1, Inr b)"
      "smooth w1 (br_fd rd)"
      using receive_smooth "1.prems" by blast
    note ri = receive_incoming [OF r(1)]
    note t = reader_refill [OF "1.prems"(2), of b]
    have q: "(w1, Inr b) = receive (br_fd (rd\<lparr>br_start := 0\<rparr>))
            (length (br_buffer (rd\<lparr>br_start := 0\<rparr>))) i d w"
      using r by simp
    have "\<exists>rd' w' res. read_loop (rd\<lparr>br_start := 0, br_buffer := b @ drop (length b) (br_buffer rd),
                            br_size := length b\<rparr>) received out sz i d w1 = (rd', w', Inr res) \<and>
        smooth w' (br_fd rd)"
      using "1.IH"(2) [OF 4 refl q refl] r ri t 4 "1.prems"
      by (auto simp: unread_def reader_avail_def)
    then show ?thesis
      using 4 r by (subst read_loop.simps) (auto simp: Let_def)
  qed
qed

lemma reader_read_sound:
  assumes "reader_ok rd" "reader_read rd n i d w = (rd', w', Inr out)"
  shows "reader_ok rd' \<and> br_fd rd' = br_fd rd \<and> w_sent w' = w_sent w \<and> length out = n \<and>
         unread rd w = out @ unread rd' w'"
  using read_loop_exact [of rd 0 "[]" n i d w rd' w' out] assms by (simp add: reader_read_def)

text \<open>
  C21: when the buffered and the incoming bytes suffice, no deadline is set and the kernel
  reports nothing worse than an interrupted call, a read of \<open>n\<close> bytes returns exactly the
  next \<open>n\<close> bytes of the stream, however the kernel segments it, and what follows them is
  still there for the next read.
\<close>

theorem reader_read_correct:
  assumes "reader_ok rd" "smooth w (br_fd rd)" "n \<le> length (unread rd w)"
  shows "\<exists>rd' w'. reader_read rd n i deadline_max w = (rd', w', Inr (take n (unread rd w))) \<and>
           reader_ok rd' \<and> unread rd' w' = drop n (unread rd w)"
proof -
  obtain rd' w' b where r: "reader_read rd n i deadline_max w = (rd', w', Inr b)"
    using read_loop_smooth [of w rd n 0 deadline_max "[]" i] assms
    by (auto simp: reader_read_def)
  have "reader_ok rd'" "length b = n" "unread rd w = b @ unread rd' w'"
    using reader_read_sound [OF assms(1) r] by simp_all
  then show ?thesis using r by auto
qed

definition sample_world :: World where
  "sample_world = quiet_world\<lparr>w_recv := (\<lambda>_. [])(3 :=
     [RecvErr EINTR, RecvData [1, 2] [] False, RecvData [3, 4, 5] [] False])\<rparr>"

lemma reader_read_correct_witness:
  "reader_ok (new_reader 3) \<and> smooth sample_world 3 \<and>
   unread (new_reader 3) sample_world = [1, 2, 3, 4, 5] \<and>
   (\<exists>rd' w'. reader_read (new_reader 3) 4 0 deadline_max sample_world =
               (rd', w', Inr [1, 2, 3, 4]) \<and> unread rd' w' = [5])"
proof -
  have u: "unread (new_reader 3) sample_world = [1, 2, 3, 4, 5]"
    by (simp add: new_reader_ok incoming_def sample_world_def quiet_world_def)
  have s: "smooth sample_world (br_fd (new_reader 3))"
    by (simp add: smooth_def sample_world_def quiet_world_def new_reader_ok)
  from reader_read_correct [OF new_reader_ok(1) s, of 4 0] u s show ?thesis
    by (auto simp: new_reader_ok)
qed

subsection \<open>Writes are exact\<close>

text \<open>
  What a write of \<open>data\<close> has done when it ends with \<open>r\<close>: the kernel has accepted a prefix,
  all of it if the write returned; and the descriptor to pass travels with the first accepted
  byte, once.
\<close>

definition wrote ::
  "fd \<Rightarrow> bstring \<Rightarrow> fd option \<Rightarrow> World \<Rightarrow> World \<Rightarrow> exn + unit \<Rightarrow> bool" where
  "wrote fd data passed w w' r \<longleftrightarrow>
     (\<exists>k \<le> length data. accepted fd data passed k w w' \<and> (r = Inr () \<longrightarrow> k = length data))"

lemma accepted_append:
  assumes "accepted fd data passed n w w1" "0 < n" "n \<le> length data"
    and "accepted fd (drop n data) None k w1 w'"
  shows "accepted fd data passed (n + k) w w'"
  using assms by (cases passed) (simp_all add: accepted_def take_add)

lemma wrote_append:
  assumes "accepted fd data passed n w w1" "0 < n" "n \<le> length data"
    and "wrote fd (drop n data) None w1 w' r"
  shows "wrote fd data passed w w' r"
proof -
  from assms(4) obtain k where "k \<le> length data - n" "accepted fd (drop n data) None k w1 w'"
    "r = Inr () \<longrightarrow> k = length data - n"
    by (auto simp: wrote_def)
  then show ?thesis
    using accepted_append [OF assms(1-3)] assms(3) unfolding wrote_def
    by (intro exI [of _ "n + k"]) auto
qed

lemma wrote_nothing:
  "accepted fd data passed 0 w w' \<Longrightarrow> (r = Inr () \<Longrightarrow> data = []) \<Longrightarrow> wrote fd data passed w w' r"
  unfolding wrote_def by (intro exI [of _ 0]) auto

lemma write_iovecs_loop_wrote:
  "write_iovecs_loop fd parts passed i d w = (w', r) \<Longrightarrow> wrote fd (concat parts) passed w w' r"
proof (induction fd parts passed i d w arbitrary: w' r rule: write_iovecs_loop.induct)
  case (1 fd parts passed i d w)
  let ?parts = "skip_empty_parts parts"
  note step = "1.prems" [unfolded write_iovecs_loop.simps [of fd parts] Let_def]
  obtain w1 q where q: "send_some fd ?parts passed i d w = (w1, q)" by fastforce
  note acc = send_some_accepted [OF q, simplified]
  consider "?parts = []" | e where "?parts \<noteq> []" "q = Inl e" | n where "?parts \<noteq> []" "q = Inr n"
    by (cases q) auto
  then show ?case
  proof cases
    case 1
    then have "concat parts = []" by (simp only: skip_empty_parts_Nil)
    then show ?thesis
      using 1 step by (intro wrote_nothing) (simp_all add: accepted_zero)
  next
    case 2
    then have "w' = w1" "r = Inl e"
      using step q by (simp_all del: dropWhile_eq_Nil_conv)
    then show ?thesis using acc 2 by (intro wrote_nothing) simp_all
  next
    case 3
    then have "write_iovecs_loop fd (advance_parts ?parts n) None i d w1 = (w', r)"
      using step q by (simp del: dropWhile_eq_Nil_conv)
    from "1.IH" [OF refl 3(1) q [symmetric] 3(2) this] 3 acc show ?thesis
      by (intro wrote_append [of fd _ _ n w w1])
        (simp_all add: concat_advance_parts del: length_concat)
  qed
qed

lemma write_exact_wrote:
  "write_exact fd data i d w = (w', r) \<Longrightarrow> wrote fd data None w w' r"
proof (induction fd data i d w arbitrary: w' r rule: write_exact.induct)
  case (1 fd data i d w)
  obtain w1 q where q: "send_some fd [data] None i d w = (w1, q)" by fastforce
  note acc = send_some_accepted [OF q, simplified]
  note step = "1.prems" [unfolded write_exact.simps [of fd data] q, simplified prod.case]
  consider "data = []" | e where "data \<noteq> []" "q = Inl e" | n where "data \<noteq> []" "q = Inr n"
    by (cases q) auto
  then show ?case
  proof cases
    case 3
    then show ?thesis
      using "1.IH" [OF 3(1) q [symmetric] 3(2)] step acc
      by (intro wrote_append [of fd _ _ n w w1]) simp_all
  next
    case 2
    then have "w' = w1" "r = Inl e" using step by simp_all
    then show ?thesis using acc 2 by (intro wrote_nothing) simp_all
  next
    case 1
    then show ?thesis using step by (intro wrote_nothing) (simp_all add: accepted_zero)
  qed
qed

text \<open>
  C22: a gathered write that passes a descriptor never sends bytes out of order or twice and
  attaches the descriptor exactly once, to the first byte: when it returns, the peer's stream
  has grown by exactly the parts in order and the descriptor is attached at the old end of the
  stream; when it throws, a prefix was sent, with the descriptor unless nothing was sent.
\<close>

theorem write_with_fd_exact:
  assumes "write_iovecs_exact_with_fd fd parts passed_fd i d w = (w', r)"
  shows "\<exists>k \<le> length (concat parts).
           w_sent w' fd = w_sent w fd @ take k (concat parts) \<and>
           (r = Inr () \<longrightarrow> k = length (concat parts)) \<and>
           w_attached w' fd = w_attached w fd @
             (if k = 0 then [] else [(length (w_sent w fd), passed_fd)]) \<and>
           (\<forall>other. other \<noteq> fd \<longrightarrow> w_sent w' other = w_sent w other)"
proof -
  have "wrote fd (concat parts) (Some passed_fd) w w' r"
    by (rule write_iovecs_loop_wrote) (use assms in \<open>simp add: write_iovecs_exact_with_fd_def\<close>)
  then obtain k where k: "k \<le> length (concat parts)" "r = Inr () \<longrightarrow> k = length (concat parts)"
    "w_sent w' = (w_sent w)(fd := w_sent w fd @ take k (concat parts))"
    "w_attached w' = (w_attached w)(fd := w_attached w fd @
       (if k = 0 then [] else [(length (w_sent w fd), passed_fd)]))"
    unfolding wrote_def accepted_def option.case by blast
  show ?thesis
    by (rule exI [of _ k]) (simp add: k(3,4), use k(1,2) in simp)
qed

definition send_sample_world :: World where
  "send_sample_world =
     quiet_world\<lparr>w_send := (\<lambda>_. [])(3 := [SendErr EINTR, SendAccept 2, SendAccept 9])\<rparr>"

lemma send_sample:
  "snd (write_iovecs_exact_with_fd 3 [[1], [], [2, 3]] 7 0 deadline_max send_sample_world) =
     Inr ()"
  by code_simp

lemma write_with_fd_exact_witness:
  "\<exists>w'. write_iovecs_exact_with_fd 3 [[1], [], [2, 3]] 7 0 deadline_max send_sample_world =
     (w', Inr ()) \<and> w_attached w' 3 = [(0, 7)]"
proof -
  obtain w' where w: "write_iovecs_exact_with_fd 3 [[1], [], [2, 3]] 7 0 deadline_max
      send_sample_world = (w', Inr ())"
    using send_sample by (metis prod.collapse)
  from write_with_fd_exact [OF w] w show ?thesis
    by (auto simp: send_sample_world_def quiet_world_def)
qed

end
