(* ===== verification/Descriptors.thy ===== *)
theory Descriptors
  imports Transport
begin

text \<open>
  Receiving bytes and at most one descriptor (\<^verbatim>\<open>linux/descriptor_passing.cpp\<close>, \<^verbatim>\<open>receive\<close>): the
  scan of the control messages, and the cleanup of every descriptor the kernel has installed when
  the ancillary data is not exactly one descriptor.
\<close>

definition max_received_descriptors :: nat where "max_received_descriptors = 253"
definition sizeof_int :: nat where "sizeof_int = 4"

datatype ReceiveError = RE_none | RE_invalid_ancillary | RE_close_on_exec_getfd | RE_close_on_exec_setfd

record ReceiveResult =
  rr_bytes :: "errno + bstring"
  rr_received_fd :: fd
  rr_error :: ReceiveError
  rr_native_error :: "errno option"

text \<open>
  The loop over the control messages: the descriptors captured so far and whether the ancillary
  data is malformed.
\<close>

fun scan_control :: "ControlMessage list \<Rightarrow> fd list \<Rightarrow> bool \<Rightarrow> fd list \<times> bool" where
  "scan_control [] captured malformed = (captured, malformed)"
| "scan_control (h # hs) captured malformed =
     (if \<not> cm_within_area h then (captured, True)
      else if \<not> cm_is_rights h then scan_control hs captured malformed
      else let payload_bytes = cm_payload_bytes h;
               descriptor_count = payload_bytes div sizeof_int
           in if payload_bytes = 0 \<or> payload_bytes mod sizeof_int \<noteq> 0 \<or>
                 descriptor_count > max_received_descriptors - length captured
              then (captured, True)
              else let captured = captured @ take descriptor_count (cm_descriptors h);
                       malformed = (malformed \<or> descriptor_count \<noteq> 1 \<or> length captured \<noteq> 1)
                   in scan_control hs captured malformed)"

definition close_all :: "fd list \<Rightarrow> World \<Rightarrow> World" where
  "close_all fds w = fold (\<lambda>f. add_effect (Eff_close f)) fds w"

text \<open>
  \<^verbatim>\<open>receive\<close>. The kernel sets close-on-exec itself (\<^verbatim>\<open>MSG_CMSG_CLOEXEC\<close> exists on Linux), so
  the \<^verbatim>\<open>fcntl\<close> branch is not compiled.
\<close>

definition fd_receive :: "fd \<Rightarrow> nat \<Rightarrow> World \<Rightarrow> World \<times> ReceiveResult" where
  "fd_receive fd cap w =
     (case kernel_recv fd cap w of
        (w, Inl e) \<Rightarrow>
          (w, \<lparr>rr_bytes = Inl e, rr_received_fd = -1, rr_error = RE_none, rr_native_error = None\<rparr>)
      | (w, Inr (bytes, cms, ctrunc)) \<Rightarrow>
          if bytes = []
          then (w, \<lparr>rr_bytes = Inr [], rr_received_fd = -1, rr_error = RE_none,
                    rr_native_error = None\<rparr>)
          else (case scan_control cms [] False of
                  (captured, malformed) \<Rightarrow>
                    if ctrunc \<or> malformed
                    then (close_all captured w,
                          \<lparr>rr_bytes = Inr bytes, rr_received_fd = -1,
                           rr_error = RE_invalid_ancillary, rr_native_error = None\<rparr>)
                    else (w, \<lparr>rr_bytes = Inr bytes,
                              rr_received_fd = (if length captured = 1 then hd captured else -1),
                              rr_error = RE_none, rr_native_error = None\<rparr>)))"

subsection \<open>No installed descriptor is lost\<close>

text \<open>
  What the kernel guarantees of the control area: every message lies within it, the payload of an
  \<^verbatim>\<open>SCM_RIGHTS\<close> message is a non-empty array of descriptors, and one \<^verbatim>\<open>recvmsg\<close> installs no
  more than \<^verbatim>\<open>SCM_MAX_FD\<close> of them.
\<close>

definition installed :: "ControlMessage list \<Rightarrow> fd list" where
  "installed cms = concat (map cm_descriptors (filter cm_is_rights cms))"

definition kernel_control :: "ControlMessage list \<Rightarrow> bool" where
  "kernel_control cms \<longleftrightarrow>
     list_all (\<lambda>h. cm_within_area h \<and>
       (cm_is_rights h \<longrightarrow> cm_descriptors h \<noteq> [] \<and>
          cm_payload_bytes h = sizeof_int * length (cm_descriptors h))) cms \<and>
     length (installed cms) \<le> max_received_descriptors"

lemma scan_control_captures:
  "list_all (\<lambda>h. cm_within_area h \<and>
       (cm_is_rights h \<longrightarrow> cm_descriptors h \<noteq> [] \<and>
          cm_payload_bytes h = sizeof_int * length (cm_descriptors h))) cms \<Longrightarrow>
   length (captured @ installed cms) \<le> max_received_descriptors \<Longrightarrow>
     fst (scan_control cms captured malformed) = captured @ installed cms \<and>
     (\<not> snd (scan_control cms captured malformed) \<longrightarrow>
        \<not> malformed \<and> (installed cms = [] \<or> length (captured @ installed cms) = 1))"
proof (induction cms arbitrary: captured malformed)
  case (Cons h hs)
  note wf = Cons.prems(1) [simplified]
  show ?case
  proof (cases "cm_is_rights h")
    case False
    then have "installed (h # hs) = installed hs" by (simp add: installed_def)
    moreover have "scan_control (h # hs) captured malformed = scan_control hs captured malformed"
      using False wf by simp
    ultimately show ?thesis
      using Cons.IH [of captured malformed] wf Cons.prems(2) by metis
  next
    case True
    let ?n = "length (cm_descriptors h)"
    let ?bad = "malformed \<or> ?n \<noteq> 1 \<or> length (captured @ cm_descriptors h) \<noteq> 1"
    have inst: "installed (h # hs) = cm_descriptors h @ installed hs"
      using True by (simp add: installed_def)
    have q: "cm_payload_bytes h div sizeof_int = ?n" "cm_payload_bytes h mod sizeof_int = 0"
      "cm_payload_bytes h \<noteq> 0" "\<not> ?n > max_received_descriptors - length captured"
      using wf True inst Cons.prems(2) by (simp_all add: sizeof_int_def)
    have s: "scan_control (h # hs) captured malformed =
               scan_control hs (captured @ cm_descriptors h) ?bad"
      using True wf q by (simp add: Let_def)
    let ?c = "captured @ cm_descriptors h"
    have "length (?c @ installed hs) \<le> max_received_descriptors"
      using Cons.prems(2) by (simp add: inst)
    from Cons.IH [OF conjunct2 [OF conjunct2 [OF wf]] this]
    have c: "fst (scan_control hs ?c ?bad) = ?c @ installed hs"
      and d: "\<not> snd (scan_control hs ?c ?bad) \<Longrightarrow>
            \<not> ?bad \<and> (installed hs = [] \<or> length (?c @ installed hs) = 1)"
      by blast+
    show ?thesis
      unfolding s inst
    proof (intro conjI impI)
      show "fst (scan_control hs ?c ?bad) = captured @ cm_descriptors h @ installed hs"
        using c by simp
      assume "\<not> snd (scan_control hs ?c ?bad)"
      note d = d [OF this]
      then show "\<not> malformed" by blast
      show "cm_descriptors h @ installed hs = [] \<or>
            length (captured @ cm_descriptors h @ installed hs) = 1"
        using d by (cases "installed hs") auto
    qed
  qed
qed (simp add: installed_def)

lemma close_all_effects: "w_effects (close_all fds w) = w_effects w @ map Eff_close fds"
  unfolding close_all_def by (induction fds arbitrary: w) (simp_all add: add_effect_def)

lemma kernel_recv_effects: "kernel_recv fd cap w = (w', r) \<Longrightarrow> w_effects w' = w_effects w"
  by (auto simp: kernel_recv_def split: list.splits RecvAnswer.splits)

text \<open>
  C23: under the kernel's contract for control data, a receive that delivers bytes accounts for
  every descriptor the kernel installed: either it hands the one descriptor to the caller and
  closes nothing, or it closes each of them exactly once and reports no descriptor.
\<close>

theorem fd_receive_no_leak:
  assumes "kernel_recv fd cap w = (w1, Inr (bytes, cms, ctrunc))" "bytes \<noteq> []"
    and "kernel_control cms" "fd_receive fd cap w = (w', res)"
  shows "(rr_error res = RE_none \<and> w_effects w' = w_effects w \<and>
            (installed cms = [] \<and> rr_received_fd res = -1 \<or> installed cms = [rr_received_fd res])) \<or>
         (rr_error res = RE_invalid_ancillary \<and> rr_received_fd res = -1 \<and>
            w_effects w' = w_effects w @ map Eff_close (installed cms))"
proof -
  obtain cap' mal where sc: "scan_control cms [] False = (cap', mal)" by fastforce
  have c: "cap' = installed cms" "\<not> mal \<longrightarrow> installed cms = [] \<or> length (installed cms) = 1"
    using scan_control_captures [of cms "[]" False] assms(3) sc by (simp_all add: kernel_control_def)
  note e = kernel_recv_effects [OF assms(1)]
  show ?thesis
  proof (cases "ctrunc \<or> mal")
    case True
    then show ?thesis
      using assms(1,2,4) sc c(1) e by (auto simp: fd_receive_def close_all_effects)
  next
    case False
    then have "installed cms = [] \<or> (\<exists>f. installed cms = [f])"
      using c(2) by (auto simp: length_Suc_conv)
    then show ?thesis
      using assms(1,2,4) sc c(1) e False by (auto simp: fd_receive_def)
  qed
qed

definition two_descriptors :: "ControlMessage list" where
  "two_descriptors = [\<lparr>cm_within_area = True, cm_is_rights = True, cm_payload_bytes = 8,
                       cm_descriptors = [10, 11]\<rparr>]"

lemma fd_receive_no_leak_witness:
  "\<exists>w' res. fd_receive 3 4 (quiet_world\<lparr>w_recv := \<lambda>_. [RecvData [1] two_descriptors False]\<rparr>) =
      (w', res) \<and> rr_error res = RE_invalid_ancillary \<and>
      w_effects w' = [Eff_close 10, Eff_close 11]"
proof -
  let ?w = "quiet_world\<lparr>w_recv := \<lambda>_. [RecvData [1] two_descriptors False]\<rparr>"
  obtain w1 where k: "kernel_recv 3 4 ?w = (w1, Inr ([1], two_descriptors, False))"
    by (simp add: kernel_recv_def)
  obtain w' res where r: "fd_receive 3 4 ?w = (w', res)" by fastforce
  have c: "kernel_control two_descriptors"
    by (simp add: kernel_control_def two_descriptors_def sizeof_int_def installed_def
        max_received_descriptors_def)
  from fd_receive_no_leak [OF k _ c r] show ?thesis
    using r by (simp add: installed_def two_descriptors_def quiet_world_def)
qed

end
