(* ===== verification/Registry.thy ===== *)
theory Registry
  imports Transport
begin

text \<open>
  Route registration and lookup (\<^verbatim>\<open>src/system/runtime/server_registration.cpp\<close>,
  \<^verbatim>\<open>src/user/cpp/core/server_api.cpp\<close>, the lookup functions of
  \<^verbatim>\<open>src/system/reactor/dispatch.cpp\<close> and the handler entries of \<^verbatim>\<open>core.hpp\<close>). The registry
  is an immutable snapshot that a registration copies, changes and publishes, so an operation is
  a function from registry to registry. A hash map is an association list with distinct keys.
\<close>

subsection \<open>Handler entries\<close>

definition handler_serialized_flag :: byte where "handler_serialized_flag = 1"
definition handler_contextual_flag :: byte where "handler_contextual_flag = 2"
definition handler_advanced_options_flag :: byte where "handler_advanced_options_flag = 4"

lemmas handler_flags =
  handler_serialized_flag_def handler_contextual_flag_def handler_advanced_options_flag_def

record RouteScheduling =
  rs_domain :: bstring
  rs_policy :: QueuePolicy

text \<open>The callable a \<^verbatim>\<open>Server::Handler\<close> holds: a plain function or one of the two adapters.\<close>

datatype Callable =
    PlainHandler SimpleHandler
  | SimpleRouteOptionsAdapter SimpleHandler RouteScheduling
  | ContextHandlerAdapter ContextHandler RouteScheduling

record HandlerEntry =
  he_handler :: Callable
  he_flags :: byte

definition he_serialized :: "HandlerEntry \<Rightarrow> bool" where
  "he_serialized e \<longleftrightarrow> he_flags e AND handler_serialized_flag \<noteq> 0"

definition he_contextual :: "HandlerEntry \<Rightarrow> bool" where
  "he_contextual e \<longleftrightarrow> he_flags e AND handler_contextual_flag \<noteq> 0"

definition he_advanced_options :: "HandlerEntry \<Rightarrow> bool" where
  "he_advanced_options e \<longleftrightarrow> he_flags e AND handler_advanced_options_flag \<noteq> 0"

text \<open>\<^verbatim>\<open>operator()\<close> of the three callables.\<close>

fun call_handler :: "Callable \<Rightarrow> Request \<Rightarrow> Response callback_result" where
  "call_handler (PlainHandler h) r = h r"
| "call_handler (SimpleRouteOptionsAdapter h _) r = h r"
| "call_handler (ContextHandlerAdapter _ _) r =
     Threw_std ''context handler invoked without RequestContext''"

record HandlerRegistry =
  hr_handlers :: "(bstring \<times> HandlerEntry) list"
  hr_handler_prefixes :: "(bstring \<times> HandlerEntry) list"
  hr_stream_handlers :: "(bstring \<times> StreamHandler) list"
  hr_stream_prefixes :: "(bstring \<times> StreamHandler) list"

definition empty_registry :: HandlerRegistry where
  "empty_registry = \<lparr>hr_handlers = [], hr_handler_prefixes = [], hr_stream_handlers = [],
                     hr_stream_prefixes = []\<rparr>"

subsection \<open>RouteOptions\<close>

record RouteOptions =
  rt_simple_handler :: "SimpleHandler option"
  rt_context_handler :: "ContextHandler option"
  rt_serialization_domain :: bstring
  rt_queue_policy :: QueuePolicy
  rt_serialized :: bool

definition route_options_simple :: "SimpleHandler option \<Rightarrow> RouteOptions" where
  "route_options_simple h =
     \<lparr>rt_simple_handler = h, rt_context_handler = None, rt_serialization_domain = [],
      rt_queue_policy = QP_fifo, rt_serialized = False\<rparr>"

definition route_options_context :: "ContextHandler option \<Rightarrow> RouteOptions" where
  "route_options_context h =
     \<lparr>rt_simple_handler = None, rt_context_handler = h, rt_serialization_domain = [],
      rt_queue_policy = QP_fifo, rt_serialized = False\<rparr>"

definition set_serialization :: "bstring \<Rightarrow> QueuePolicy \<Rightarrow> RouteOptions \<Rightarrow> exn + RouteOptions" where
  "set_serialization domain policy ro =
     (if policy \<noteq> QP_fifo \<and> policy \<noteq> QP_latest_wins \<and> policy \<noteq> QP_reject_if_busy
      then Inl (Invalid_argument ''unknown queue policy'')
      else Inr (ro\<lparr>rt_serialized := True, rt_serialization_domain := domain,
                   rt_queue_policy := policy\<rparr>))"

subsection \<open>Registration\<close>

definition validate_route :: "bstring \<Rightarrow> nat \<Rightarrow> exn + unit" where
  "validate_route route max_message_size =
     (if route = [] then Inl (Invalid_argument ''route must not be empty'')
      else if length route > max_message_size
      then Inl (Length_error ''route exceeds server max_message_size'')
      else Inr ())"

definition validate_handler :: "bool \<Rightarrow> string \<Rightarrow> exn + unit" where
  "validate_handler present message =
     (if \<not> present then Inl (Invalid_argument message) else Inr ())"

definition make_route_options_entry ::
  "SimpleHandler option \<Rightarrow> ContextHandler option \<Rightarrow> bool \<Rightarrow> bool \<Rightarrow> bstring \<Rightarrow> QueuePolicy \<Rightarrow>
     HandlerEntry" where
  "make_route_options_entry simple_handler context_handler serialized advanced_options domain
       policy =
     (let flags = (if serialized then handler_serialized_flag else 0);
          flags = (if advanced_options then flags OR handler_advanced_options_flag else flags);
          scheduling = \<lparr>rs_domain = domain, rs_policy = policy\<rparr>
      in case context_handler of
           Some h \<Rightarrow> \<lparr>he_handler = ContextHandlerAdapter h scheduling,
                      he_flags = flags OR handler_contextual_flag\<rparr>
         | None \<Rightarrow>
             let h = the simple_handler in
             if advanced_options
             then \<lparr>he_handler = SimpleRouteOptionsAdapter h scheduling, he_flags = flags\<rparr>
             else \<lparr>he_handler = PlainHandler h, he_flags = flags\<rparr>)"

text \<open>\<^verbatim>\<open>emplace\<close> into a hash map that does not have the key.\<close>

definition emplace_new ::
  "string \<Rightarrow> bstring \<Rightarrow> 'e \<Rightarrow> (bstring \<times> 'e) list \<Rightarrow> exn + (bstring \<times> 'e) list" where
  "emplace_new message route entry m =
     (if map_of m route \<noteq> None then Inl (Runtime_error message) else Inr ((route, entry) # m))"

text \<open>
  \<^verbatim>\<open>emplace_back\<close> and \<^verbatim>\<open>std::sort\<close> by decreasing prefix length. \<^verbatim>\<open>std::sort\<close> is not stable;
  \<open>sort_key\<close> is one of the orders it may leave, and \<open>find_prefix_any_order\<close> below shows that
  lookups do not depend on which.
\<close>

definition sort_prefixes :: "(bstring \<times> 'e) list \<Rightarrow> (bstring \<times> 'e) list" where
  "sort_prefixes = sort_key (\<lambda>e. - int (length (fst e)))"

definition insert_prefix ::
  "bstring \<Rightarrow> 'e \<Rightarrow> (bstring \<times> 'e) list \<Rightarrow> exn + (bstring \<times> 'e) list" where
  "insert_prefix prefix_route entry ps =
     (if list_ex (\<lambda>e. fst e = prefix_route) ps
      then Inl (Runtime_error ''prefix route already exists'')
      else Inr (sort_prefixes (ps @ [(prefix_route, entry)])))"

definition plain_entry :: "SimpleHandler option \<Rightarrow> bool \<Rightarrow> HandlerEntry" where
  "plain_entry handler serialized =
     \<lparr>he_handler = PlainHandler (the handler),
      he_flags = (if serialized then handler_serialized_flag else 0)\<rparr>"

definition register_exact_entry ::
  "nat \<Rightarrow> bstring \<Rightarrow> bool \<Rightarrow> HandlerEntry \<Rightarrow> HandlerRegistry \<Rightarrow> exn + HandlerRegistry" where
  "register_exact_entry max_message_size route present entry reg =
     and_then (validate_route route max_message_size)
    (and_then (validate_handler present ''handler must not be empty'')
    (case emplace_new ''route already exists'' route entry (hr_handlers reg) of
       Inl e \<Rightarrow> Inl e | Inr hs \<Rightarrow> Inr (reg\<lparr>hr_handlers := hs\<rparr>)))"

definition exact ::
  "nat \<Rightarrow> bstring \<Rightarrow> SimpleHandler option \<Rightarrow> bool \<Rightarrow> HandlerRegistry \<Rightarrow> exn + HandlerRegistry" where
  "exact max_message_size route handler serialized =
     register_exact_entry max_message_size route (handler \<noteq> None) (plain_entry handler serialized)"

definition exact_options ::
  "nat \<Rightarrow> bstring \<Rightarrow> SimpleHandler option \<Rightarrow> ContextHandler option \<Rightarrow> bool \<Rightarrow> bool \<Rightarrow> bstring \<Rightarrow>
     QueuePolicy \<Rightarrow> HandlerRegistry \<Rightarrow> exn + HandlerRegistry" where
  "exact_options max_message_size route simple_handler context_handler serialized
       advanced_options domain policy =
     register_exact_entry max_message_size route
       (simple_handler \<noteq> None \<or> context_handler \<noteq> None)
       (make_route_options_entry simple_handler context_handler serialized advanced_options
          domain policy)"

definition exact_serialized_options ::
  "nat \<Rightarrow> bstring \<Rightarrow> SimpleHandler option \<Rightarrow> ContextHandler option \<Rightarrow> bool \<Rightarrow> bstring \<Rightarrow>
     QueuePolicy \<Rightarrow> HandlerRegistry \<Rightarrow> exn + HandlerRegistry" where
  "exact_serialized_options max_message_size route simple_handler context_handler serialized
       domain policy reg =
     and_then (validate_route route max_message_size)
    (and_then (validate_handler (simple_handler \<noteq> None \<or> context_handler \<noteq> None)
                 ''handler must not be empty'')
    (if serialized \<and> (domain \<noteq> [] \<or> policy \<noteq> QP_fifo)
     then Inl (Invalid_argument
       ''on_serialized uses the default FIFO domain; use on with RouteOptions::serialize_in for advanced scheduling'')
     else case emplace_new ''route already exists'' route
                 (make_route_options_entry simple_handler context_handler True False [] QP_fifo)
                 (hr_handlers reg) of
            Inl e \<Rightarrow> Inl e | Inr hs \<Rightarrow> Inr (reg\<lparr>hr_handlers := hs\<rparr>)))"

definition register_prefix_entry ::
  "nat \<Rightarrow> bstring \<Rightarrow> bool \<Rightarrow> HandlerEntry \<Rightarrow> HandlerRegistry \<Rightarrow> exn + HandlerRegistry" where
  "register_prefix_entry max_message_size prefix_route present entry reg =
     and_then (validate_route prefix_route max_message_size)
    (and_then (validate_handler present ''handler must not be empty'')
    (case insert_prefix prefix_route entry (hr_handler_prefixes reg) of
       Inl e \<Rightarrow> Inl e | Inr ps \<Rightarrow> Inr (reg\<lparr>hr_handler_prefixes := ps\<rparr>)))"

definition register_prefix ::
  "nat \<Rightarrow> bstring \<Rightarrow> SimpleHandler option \<Rightarrow> bool \<Rightarrow> HandlerRegistry \<Rightarrow> exn + HandlerRegistry" where
  "register_prefix max_message_size prefix_route handler serialized =
     register_prefix_entry max_message_size prefix_route (handler \<noteq> None)
       (plain_entry handler serialized)"

definition prefix_options ::
  "nat \<Rightarrow> bstring \<Rightarrow> SimpleHandler option \<Rightarrow> ContextHandler option \<Rightarrow> bool \<Rightarrow> bool \<Rightarrow> bstring \<Rightarrow>
     QueuePolicy \<Rightarrow> HandlerRegistry \<Rightarrow> exn + HandlerRegistry" where
  "prefix_options max_message_size prefix_route simple_handler context_handler serialized
       advanced_options domain policy =
     register_prefix_entry max_message_size prefix_route
       (simple_handler \<noteq> None \<or> context_handler \<noteq> None)
       (make_route_options_entry simple_handler context_handler serialized advanced_options
          domain policy)"

definition register_stream ::
  "nat \<Rightarrow> bstring \<Rightarrow> StreamHandler option \<Rightarrow> HandlerRegistry \<Rightarrow> exn + HandlerRegistry" where
  "register_stream max_message_size route handler reg =
     and_then (validate_route route max_message_size)
    (and_then (validate_handler (handler \<noteq> None) ''stream handler must not be empty'')
    (case emplace_new ''stream route already exists'' route (the handler)
            (hr_stream_handlers reg) of
       Inl e \<Rightarrow> Inl e | Inr hs \<Rightarrow> Inr (reg\<lparr>hr_stream_handlers := hs\<rparr>)))"

definition register_stream_prefix ::
  "nat \<Rightarrow> bstring \<Rightarrow> StreamHandler option \<Rightarrow> HandlerRegistry \<Rightarrow> exn + HandlerRegistry" where
  "register_stream_prefix max_message_size prefix_route handler reg =
     and_then (validate_route prefix_route max_message_size)
    (and_then (validate_handler (handler \<noteq> None) ''stream handler must not be empty'')
    (case insert_prefix prefix_route (the handler) (hr_stream_prefixes reg) of
       Inl e \<Rightarrow> Inl e | Inr ps \<Rightarrow> Inr (reg\<lparr>hr_stream_prefixes := ps\<rparr>)))"

subsection \<open>The Server API\<close>

definition Server_on :: "nat \<Rightarrow> bstring \<Rightarrow> SimpleHandler option \<Rightarrow> HandlerRegistry \<Rightarrow> exn + HandlerRegistry"
  where "Server_on mx route handler = exact mx route handler False"

definition Server_on_options :: "nat \<Rightarrow> bstring \<Rightarrow> RouteOptions \<Rightarrow> HandlerRegistry \<Rightarrow> exn + HandlerRegistry"
  where "Server_on_options mx route ro =
    exact_options mx route (rt_simple_handler ro) (rt_context_handler ro) (rt_serialized ro)
      (rt_serialized ro) (rt_serialization_domain ro) (rt_queue_policy ro)"

definition Server_on_prefix :: "nat \<Rightarrow> bstring \<Rightarrow> SimpleHandler option \<Rightarrow> HandlerRegistry \<Rightarrow> exn + HandlerRegistry"
  where "Server_on_prefix mx route handler = register_prefix mx route handler False"

definition Server_on_prefix_options :: "nat \<Rightarrow> bstring \<Rightarrow> RouteOptions \<Rightarrow> HandlerRegistry \<Rightarrow> exn + HandlerRegistry"
  where "Server_on_prefix_options mx route ro =
    prefix_options mx route (rt_simple_handler ro) (rt_context_handler ro) (rt_serialized ro)
      (rt_serialized ro) (rt_serialization_domain ro) (rt_queue_policy ro)"

definition Server_on_serialized :: "nat \<Rightarrow> bstring \<Rightarrow> SimpleHandler option \<Rightarrow> HandlerRegistry \<Rightarrow> exn + HandlerRegistry"
  where "Server_on_serialized mx route handler = exact mx route handler True"

definition Server_on_serialized_options :: "nat \<Rightarrow> bstring \<Rightarrow> RouteOptions \<Rightarrow> HandlerRegistry \<Rightarrow> exn + HandlerRegistry"
  where "Server_on_serialized_options mx route ro =
    exact_serialized_options mx route (rt_simple_handler ro) (rt_context_handler ro)
      (rt_serialized ro) (rt_serialization_domain ro) (rt_queue_policy ro)"

subsection \<open>Lookup\<close>

definition route_has_prefix :: "bstring \<Rightarrow> bstring \<Rightarrow> bool" where
  "route_has_prefix route p \<longleftrightarrow> length route \<ge> length p \<and> take (length p) route = p"

fun find_prefix :: "bstring \<Rightarrow> (bstring \<times> 'e) list \<Rightarrow> 'e option" where
  "find_prefix route [] = None"
| "find_prefix route (e # es) =
     (if route_has_prefix route (fst e) then Some (snd e) else find_prefix route es)"

definition find_request_handler :: "HandlerRegistry \<Rightarrow> bstring \<Rightarrow> HandlerEntry option" where
  "find_request_handler reg route =
     (case map_of (hr_handlers reg) route of
        Some h \<Rightarrow> Some h
      | None \<Rightarrow> find_prefix route (hr_handler_prefixes reg))"

definition find_stream_handler :: "HandlerRegistry \<Rightarrow> bstring \<Rightarrow> StreamHandler option" where
  "find_stream_handler reg route =
     (case map_of (hr_stream_handlers reg) route of
        Some h \<Rightarrow> Some h
      | None \<Rightarrow> find_prefix route (hr_stream_prefixes reg))"

subsection \<open>The longest prefix wins, whatever order \<^verbatim>\<open>std::sort\<close> leaves\<close>

definition longer_first :: "(bstring \<times> 'e) list \<Rightarrow> bool" where
  "longer_first = sorted_wrt (\<lambda>a b. length (fst b) \<le> length (fst a))"

definition prefixes_ok :: "(bstring \<times> 'e) list \<Rightarrow> bool" where
  "prefixes_ok ps \<longleftrightarrow> distinct (map fst ps) \<and> longer_first ps"

definition longest_match :: "(bstring \<times> 'e) set \<Rightarrow> bstring \<Rightarrow> bstring \<Rightarrow> 'e \<Rightarrow> bool" where
  "longest_match ps route p e \<longleftrightarrow>
     (p, e) \<in> ps \<and> route_has_prefix route p \<and>
     (\<forall>(q, f) \<in> ps. route_has_prefix route q \<longrightarrow> length q \<le> length p)"

lemma same_length_prefix_eq:
  "route_has_prefix route p \<Longrightarrow> route_has_prefix route q \<Longrightarrow> length p = length q \<Longrightarrow> p = q"
  by (metis route_has_prefix_def)

lemma longest_match_unique:
  assumes "longest_match (set ps) route p e" "longest_match (set ps) route q f"
    and "distinct (map fst ps)"
  shows "p = q \<and> e = f"
proof -
  have "length p = length q" "route_has_prefix route p" "route_has_prefix route q"
    using assms(1,2) by (auto simp: longest_match_def intro!: le_antisym)
  then have "p = q" by (intro same_length_prefix_eq)
  then show ?thesis
    using assms by (auto simp: longest_match_def dest: eq_key_imp_eq_value)
qed

lemma find_prefix_longest:
  "longer_first ps \<Longrightarrow> find_prefix route ps = Some e \<Longrightarrow> \<exists>p. longest_match (set ps) route p e"
proof (induction ps)
  case (Cons a ps)
  show ?case
  proof (cases "route_has_prefix route (fst a)")
    case True
    then have "longest_match (set (a # ps)) route (fst a) e"
      using Cons.prems by (cases a) (auto simp: longest_match_def longer_first_def)
    then show ?thesis ..
  next
    case False
    then obtain p where "longest_match (set ps) route p e"
      using Cons by (auto simp: longer_first_def)
    then have "longest_match (set (a # ps)) route p e"
      using False by (cases a) (auto simp: longest_match_def)
    then show ?thesis ..
  qed
qed simp

lemma find_prefix_None:
  "find_prefix route ps = None \<longleftrightarrow> (\<forall>(q, f) \<in> set ps. \<not> route_has_prefix route q)"
  by (induction ps) auto

lemma find_prefix_iff:
  assumes "prefixes_ok ps"
  shows "find_prefix route ps = Some e \<longleftrightarrow> (\<exists>p. longest_match (set ps) route p e)"
proof
  assume "find_prefix route ps = Some e"
  then show "\<exists>p. longest_match (set ps) route p e"
    using find_prefix_longest assms by (auto simp: prefixes_ok_def)
next
  assume "\<exists>p. longest_match (set ps) route p e"
  then obtain p where p: "longest_match (set ps) route p e" ..
  then obtain f where f: "find_prefix route ps = Some f"
    using find_prefix_None [of route ps] by (fastforce simp: longest_match_def)
  from find_prefix_longest [OF _ f] assms obtain q where "longest_match (set ps) route q f"
    by (auto simp: prefixes_ok_def)
  with p have "e = f"
    using longest_match_unique assms by (metis prefixes_ok_def)
  with f show "find_prefix route ps = Some e" by simp
qed

lemma find_prefix_any_order:
  assumes "prefixes_ok ps" "prefixes_ok qs" "set ps = set qs"
  shows "find_prefix route ps = find_prefix route qs"
proof (cases "find_prefix route ps")
  case None
  then show ?thesis using assms(3) find_prefix_None [of route] by metis
next
  case (Some e)
  then show ?thesis
    using find_prefix_iff [OF assms(1)] find_prefix_iff [OF assms(2)] assms(3) by metis
qed

lemma sort_prefixes_longer_first: "longer_first (sort_prefixes ps)"
proof -
  have "sorted (map (\<lambda>e. - int (length (fst e))) (sort_prefixes ps))"
    by (simp add: sort_prefixes_def)
  then show ?thesis
    by (simp add: longer_first_def sorted_map)
qed

lemma sort_prefixes_set [simp]: "set (sort_prefixes ps) = set ps"
  by (simp add: sort_prefixes_def)

lemma sort_prefixes_distinct [simp]:
  "distinct (map fst (sort_prefixes ps)) = distinct (map fst ps)"
  by (simp add: sort_prefixes_def distinct_map)

lemma insert_prefix_ok:
  assumes "prefixes_ok ps" "insert_prefix p e ps = Inr qs"
  shows "prefixes_ok qs \<and> set qs = insert (p, e) (set ps) \<and> p \<notin> fst ` set ps"
  using assms sort_prefixes_longer_first [of "ps @ [(p, e)]"]
  by (auto simp: insert_prefix_def prefixes_ok_def list_ex_iff split: if_splits)

subsection \<open>The registry invariant\<close>

definition route_ok :: "nat \<Rightarrow> bstring \<Rightarrow> bool" where
  "route_ok mx route \<longleftrightarrow> route \<noteq> [] \<and> length route \<le> mx"

text \<open>The flag bits of an entry agree with the callable it holds.\<close>

fun is_contextual :: "Callable \<Rightarrow> bool" where
  "is_contextual (ContextHandlerAdapter _ _) = True"
| "is_contextual _ = False"

fun has_scheduling :: "Callable \<Rightarrow> bool" where
  "has_scheduling (PlainHandler _) = False"
| "has_scheduling _ = True"

definition entry_ok :: "HandlerEntry \<Rightarrow> bool" where
  "entry_ok e \<longleftrightarrow> (he_contextual e \<longleftrightarrow> is_contextual (he_handler e)) \<and>
     (he_advanced_options e \<longrightarrow> has_scheduling (he_handler e) \<and> he_serialized e)"

lemma make_route_options_entry_flags:
  "he_serialized (make_route_options_entry sh ch ser adv dmn pol) = ser"
  "he_contextual (make_route_options_entry sh ch ser adv dmn pol) = (ch \<noteq> None)"
  "he_advanced_options (make_route_options_entry sh ch ser adv dmn pol) = adv"
  by (cases ch; cases ser; cases adv; simp add: make_route_options_entry_def he_serialized_def
      he_contextual_def he_advanced_options_def handler_flags Let_def)+

lemma make_route_options_entry_ok:
  "(adv \<Longrightarrow> ser) \<Longrightarrow> entry_ok (make_route_options_entry sh ch ser adv dmn pol)"
  unfolding entry_ok_def make_route_options_entry_flags
  by (cases ch) (simp_all add: make_route_options_entry_def Let_def)

lemma plain_entry_ok: "entry_ok (plain_entry h ser)"
  by (cases ser) (simp_all add: entry_ok_def plain_entry_def he_contextual_def
      he_advanced_options_def handler_flags)

definition registry_ok :: "nat \<Rightarrow> HandlerRegistry \<Rightarrow> bool" where
  "registry_ok mx reg \<longleftrightarrow>
     distinct (map fst (hr_handlers reg)) \<and> distinct (map fst (hr_stream_handlers reg)) \<and>
     prefixes_ok (hr_handler_prefixes reg) \<and> prefixes_ok (hr_stream_prefixes reg) \<and>
     (\<forall>e \<in> snd ` set (hr_handlers reg) \<union> snd ` set (hr_handler_prefixes reg). entry_ok e) \<and>
     (\<forall>route \<in> fst ` set (hr_handlers reg) \<union> fst ` set (hr_handler_prefixes reg) \<union>
        fst ` set (hr_stream_handlers reg) \<union> fst ` set (hr_stream_prefixes reg). route_ok mx route)"

lemma empty_registry_ok: "registry_ok mx empty_registry"
  by (simp add: registry_ok_def empty_registry_def prefixes_ok_def longer_first_def)

lemma validate_route_iff [simp]: "validate_route route mx = Inr () \<longleftrightarrow> route_ok mx route"
  by (auto simp: validate_route_def route_ok_def)

lemma validate_handler_iff [simp]: "validate_handler b m = Inr () \<longleftrightarrow> b"
  by (simp add: validate_handler_def)

lemma emplace_new_if:
  "emplace_new msg r e m =
     (if r \<in> fst ` set m then Inl (Runtime_error msg) else Inr ((r, e) # m))"
  by (simp add: emplace_new_def map_of_eq_None_iff)

text \<open>What a successful registration of each kind did.\<close>

lemma register_exact_entry_ok:
  "register_exact_entry mx route b e reg = Inr reg' \<longleftrightarrow>
     route_ok mx route \<and> b \<and> route \<notin> fst ` set (hr_handlers reg) \<and>
     reg' = reg\<lparr>hr_handlers := (route, e) # hr_handlers reg\<rparr>"
  by (auto simp: register_exact_entry_def emplace_new_if split: if_splits)

lemma register_prefix_entry_ok:
  "register_prefix_entry mx route b e reg = Inr reg' \<longleftrightarrow>
     route_ok mx route \<and> b \<and>
     (\<exists>ps. insert_prefix route e (hr_handler_prefixes reg) = Inr ps \<and>
           reg' = reg\<lparr>hr_handler_prefixes := ps\<rparr>)"
  by (auto simp: register_prefix_entry_def split: sum.splits)

lemma register_stream_ok:
  "register_stream mx route h reg = Inr reg' \<longleftrightarrow>
     route_ok mx route \<and> h \<noteq> None \<and> route \<notin> fst ` set (hr_stream_handlers reg) \<and>
     reg' = reg\<lparr>hr_stream_handlers := (route, the h) # hr_stream_handlers reg\<rparr>"
  by (auto simp: register_stream_def emplace_new_if split: if_splits)

lemma register_stream_prefix_ok:
  "register_stream_prefix mx route h reg = Inr reg' \<longleftrightarrow>
     route_ok mx route \<and> h \<noteq> None \<and>
     (\<exists>ps. insert_prefix route (the h) (hr_stream_prefixes reg) = Inr ps \<and>
           reg' = reg\<lparr>hr_stream_prefixes := ps\<rparr>)"
  by (auto simp: register_stream_prefix_def split: sum.splits)

lemma exact_serialized_options_ok:
  "exact_serialized_options mx route sh ch ser dmn pol reg = Inr reg' \<longleftrightarrow>
     \<not> (ser \<and> (dmn \<noteq> [] \<or> pol \<noteq> QP_fifo)) \<and>
     register_exact_entry mx route (sh \<noteq> None \<or> ch \<noteq> None)
       (make_route_options_entry sh ch True False [] QP_fifo) reg = Inr reg'"
  by (auto simp: exact_serialized_options_def register_exact_entry_def)

lemmas registration_ok =
  register_exact_entry_ok register_prefix_entry_ok register_stream_ok register_stream_prefix_ok
  exact_serialized_options_ok

lemma register_exact_entry_inv:
  "registry_ok mx reg \<Longrightarrow> entry_ok e \<Longrightarrow>
     register_exact_entry mx route b e reg = Inr reg' \<Longrightarrow> registry_ok mx reg'"
  by (auto simp: registration_ok registry_ok_def)

lemma register_prefix_entry_inv:
  assumes "registry_ok mx reg" "entry_ok e" "register_prefix_entry mx route b e reg = Inr reg'"
  shows "registry_ok mx reg'"
proof -
  obtain ps where ps: "insert_prefix route e (hr_handler_prefixes reg) = Inr ps"
    "reg' = reg\<lparr>hr_handler_prefixes := ps\<rparr>" "route_ok mx route"
    using assms(3) by (auto simp: registration_ok)
  with insert_prefix_ok [OF _ ps(1)] assms(1,2) show ?thesis
    by (auto simp: registry_ok_def)
qed

lemma register_stream_prefix_inv:
  assumes "registry_ok mx reg" "register_stream_prefix mx route h reg = Inr reg'"
  shows "registry_ok mx reg'"
proof -
  obtain ps where ps: "insert_prefix route (the h) (hr_stream_prefixes reg) = Inr ps"
    "reg' = reg\<lparr>hr_stream_prefixes := ps\<rparr>" "route_ok mx route"
    using assms(2) by (auto simp: registration_ok)
  with insert_prefix_ok [OF _ ps(1)] assms(1) show ?thesis
    by (auto simp: registry_ok_def)
qed

lemma register_stream_inv:
  "registry_ok mx reg \<Longrightarrow> register_stream mx route h reg = Inr reg' \<Longrightarrow> registry_ok mx reg'"
  by (auto simp: registration_ok registry_ok_def)

subsection \<open>Reachable registries\<close>

text \<open>One successful call of the registration API; registrations are serialized by a mutex.\<close>

inductive registers :: "nat \<Rightarrow> HandlerRegistry \<Rightarrow> HandlerRegistry \<Rightarrow> bool" for mx where
  on: "Server_on mx r h reg = Inr reg' \<Longrightarrow> registers mx reg reg'"
| on_options: "Server_on_options mx r ro reg = Inr reg' \<Longrightarrow> registers mx reg reg'"
| on_prefix: "Server_on_prefix mx r h reg = Inr reg' \<Longrightarrow> registers mx reg reg'"
| on_prefix_options: "Server_on_prefix_options mx r ro reg = Inr reg' \<Longrightarrow> registers mx reg reg'"
| on_serialized: "Server_on_serialized mx r h reg = Inr reg' \<Longrightarrow> registers mx reg reg'"
| on_serialized_options:
    "Server_on_serialized_options mx r ro reg = Inr reg' \<Longrightarrow> registers mx reg reg'"
| on_stream: "register_stream mx r sh reg = Inr reg' \<Longrightarrow> registers mx reg reg'"
| on_stream_prefix: "register_stream_prefix mx r sh reg = Inr reg' \<Longrightarrow> registers mx reg reg'"

lemmas server_api_defs =
  Server_on_def Server_on_options_def Server_on_prefix_def Server_on_prefix_options_def
  Server_on_serialized_def Server_on_serialized_options_def exact_def exact_options_def
  register_prefix_def prefix_options_def

lemma registers_inv: "registers mx reg reg' \<Longrightarrow> registry_ok mx reg \<Longrightarrow> registry_ok mx reg'"
proof (induction rule: registers.induct)
  case (on_serialized_options r ro reg reg')
  then show ?case
    unfolding server_api_defs exact_serialized_options_ok by (blast intro: register_exact_entry_inv make_route_options_entry_ok)
qed (unfold server_api_defs,
  (blast intro: register_exact_entry_inv register_prefix_entry_inv register_stream_inv
    register_stream_prefix_inv plain_entry_ok make_route_options_entry_ok)+)

definition registry_reachable :: "nat \<Rightarrow> HandlerRegistry \<Rightarrow> bool" where
  "registry_reachable mx reg \<longleftrightarrow> (registers mx)\<^sup>*\<^sup>* empty_registry reg"

lemma registry_reachable_ok: "registry_reachable mx reg \<Longrightarrow> registry_ok mx reg"
  unfolding registry_reachable_def
  by (induction rule: rtranclp_induct) (auto intro: registers_inv empty_registry_ok)

subsection \<open>The lookup contract\<close>

text \<open>
  The contract both lookups share: a table of exact routes, a list of prefixes kept distinct and
  longest first, and a lookup that tries the exact routes before the prefixes.
\<close>

locale route_lookup =
  fixes exacts :: "'r \<Rightarrow> (bstring \<times> 'e) list"
    and prefixes :: "'r \<Rightarrow> (bstring \<times> 'e) list"
    and find :: "'r \<Rightarrow> bstring \<Rightarrow> 'e option"
    and ok :: "'r \<Rightarrow> bool"
  assumes exacts_distinct: "ok r \<Longrightarrow> distinct (map fst (exacts r))"
    and prefixes_kept: "ok r \<Longrightarrow> prefixes_ok (prefixes r)"
    and find_unfold: "find r route =
      (case map_of (exacts r) route of Some h \<Rightarrow> Some h | None \<Rightarrow> find_prefix route (prefixes r))"
begin

lemma find_exact: "ok r \<Longrightarrow> (route, h) \<in> set (exacts r) \<Longrightarrow> find r route = Some h"
  by (simp add: find_unfold exacts_distinct)

lemma find_iff:
  assumes "ok r"
  shows "find r route = Some h \<longleftrightarrow>
    (if route \<in> fst ` set (exacts r) then (route, h) \<in> set (exacts r)
     else \<exists>p. longest_match (set (prefixes r)) route p h)"
proof (cases "map_of (exacts r) route")
  case None
  then have "route \<notin> fst ` set (exacts r)" by (simp add: map_of_eq_None_iff)
  with None show ?thesis
    by (simp add: find_unfold find_prefix_iff [OF prefixes_kept [OF assms]])
next
  case (Some g)
  then have "(route, g) \<in> set (exacts r)" by (rule map_of_SomeD)
  then show ?thesis
    using Some find_exact [OF assms] by (force simp: find_unfold)
qed

lemma find_None_iff:
  "find r route = None \<longleftrightarrow> route \<notin> fst ` set (exacts r) \<and>
     (\<forall>(q, f) \<in> set (prefixes r). \<not> route_has_prefix route q)"
proof -
  have "route \<notin> fst ` set (exacts r) \<longleftrightarrow> map_of (exacts r) route = None"
    by (simp add: map_of_eq_None_iff)
  then show ?thesis
    by (simp add: find_unfold find_prefix_None split: option.split)
qed

end

interpretation fixed_routes:
  route_lookup hr_handlers hr_handler_prefixes find_request_handler "registry_ok mx" for mx
  by unfold_locales (auto simp: registry_ok_def find_request_handler_def)

interpretation stream_routes:
  route_lookup hr_stream_handlers hr_stream_prefixes find_stream_handler "registry_ok mx" for mx
  by unfold_locales (auto simp: registry_ok_def find_stream_handler_def)

text \<open>
  C24: in every registry the registration API can build, a request route resolves to its exact
  handler if there is one, and otherwise to the handler of the longest registered prefix of the
  route; it resolves to nothing only if there is neither.
\<close>

theorem find_request_handler_spec:
  assumes "registry_reachable mx reg"
  shows "(find_request_handler reg route = Some h \<longleftrightarrow>
           (if route \<in> fst ` set (hr_handlers reg) then (route, h) \<in> set (hr_handlers reg)
            else \<exists>p. longest_match (set (hr_handler_prefixes reg)) route p h)) \<and>
         (find_request_handler reg route = None \<longleftrightarrow>
           route \<notin> fst ` set (hr_handlers reg) \<and>
           (\<forall>(q, f) \<in> set (hr_handler_prefixes reg). \<not> route_has_prefix route q))"
  using fixed_routes.find_iff [OF registry_reachable_ok [OF assms]]
    fixed_routes.find_None_iff by blast

definition sample_handler :: SimpleHandler where
  "sample_handler r = Returned (Response_ok (rq_body r))"

lemma sample_registry_reachable:
  "registry_reachable 10 (empty_registry
     \<lparr>hr_handler_prefixes := [([1, 2], plain_entry (Some sample_handler) False)]\<rparr>)"
proof -
  have "registers 10 empty_registry (empty_registry
     \<lparr>hr_handler_prefixes := [([1, 2], plain_entry (Some sample_handler) False)]\<rparr>)"
    by (rule registers.on_prefix [where r = "[1, 2]" and h = "Some sample_handler"])
      (simp add: Server_on_prefix_def register_prefix_def register_prefix_entry_def
        validate_route_def validate_handler_def and_then_def insert_prefix_def empty_registry_def
        sort_prefixes_def)
  then show ?thesis by (simp add: registry_reachable_def)
qed

lemma find_request_handler_spec_witness:
  "\<exists>reg. registry_reachable 10 reg \<and>
     find_request_handler reg [1, 2, 3] = Some (plain_entry (Some sample_handler) False)"
proof -
  let ?e = "plain_entry (Some sample_handler) False"
  let ?reg = "empty_registry\<lparr>hr_handler_prefixes := [([1, 2], ?e)]\<rparr>"
  have "\<exists>p. longest_match (set (hr_handler_prefixes ?reg)) [1, 2, 3] p ?e"
    by (rule exI [of _ "[1, 2]"]) (simp add: longest_match_def route_has_prefix_def)
  then have "find_request_handler ?reg [1, 2, 3] = Some ?e"
    using find_request_handler_spec [OF sample_registry_reachable, of "[1, 2, 3]" ?e]
    by (simp add: empty_registry_def)
  with sample_registry_reachable show ?thesis by blast
qed

text \<open>
  Lookups do not depend on the order in which the unstable sort leaves prefixes of equal
  length: any arrangement of the same entries that has the longer prefixes first resolves every
  route in the same way.
\<close>

theorem prefix_order_irrelevant:
  assumes "registry_reachable mx reg" "set ps = set (hr_handler_prefixes reg)"
    "distinct (map fst ps)" "longer_first ps"
  shows "find_request_handler (reg\<lparr>hr_handler_prefixes := ps\<rparr>) route = find_request_handler reg route"
proof -
  have "prefixes_ok (hr_handler_prefixes reg)"
    using registry_reachable_ok [OF assms(1)] by (simp add: registry_ok_def)
  moreover have "prefixes_ok ps"
    using assms(3,4) by (simp add: prefixes_ok_def)
  ultimately have "find_prefix route ps = find_prefix route (hr_handler_prefixes reg)"
    using assms(2) by (intro find_prefix_any_order)
  then show ?thesis by (simp add: find_request_handler_def split: option.split)
qed

lemma prefix_order_irrelevant_witness:
  "find_request_handler (empty_registry\<lparr>hr_handler_prefixes :=
       [([1, 2], plain_entry (Some sample_handler) False)]\<rparr>
     \<lparr>hr_handler_prefixes := [([1, 2], plain_entry (Some sample_handler) False)]\<rparr>) [1, 2, 3] =
   find_request_handler (empty_registry\<lparr>hr_handler_prefixes :=
       [([1, 2], plain_entry (Some sample_handler) False)]\<rparr>) [1, 2, 3]"
  by (rule prefix_order_irrelevant [OF sample_registry_reachable])
    (simp_all add: longer_first_def)

end
