(* ===== verification/ServerCore.thy ===== *)
theory ServerCore
  imports Descriptors Registry
begin

text \<open>
  The server's shared state (\<^verbatim>\<open>src/system/reactor/core.hpp\<close>) and the small helpers of
  \<^verbatim>\<open>src/system/reactor/common.hpp\<close>.

  Objects the C++ code shares through \<^verbatim>\<open>shared_ptr\<close> live in heaps of the state and are named
  by natural numbers: \<open>ss_conns\<close> maps a connection id to its \<open>Connection\<close>, \<open>ss_rcs\<close> a reactor
  connection id to its \<open>ReactorConnection\<close>, and \<open>ss_flags\<close> a cancellation flag id to its value,
  with \<open>None\<close> for a flag whose last owner is gone (an expired \<^verbatim>\<open>weak_ptr\<close>). Pointer equality is
  equality of ids. The map of connections by descriptor is an association list with distinct
  keys; the order of an \<^verbatim>\<open>unordered_map\<close> is unspecified and no theorem depends on it. Mutexes
  have no field: an operation of the model is a section the code runs under its lock, and
  operations that take a lock several times are composed of several such sections.
\<close>

subsection \<open>Capabilities, frames, connections\<close>

record Capabilities =
  cap_received_fd :: fd
  cap_peer :: Identity
  cap_cancelled :: "nat option"
  cap_wire_resource_bytes :: nat

definition no_identity :: Identity where
  "no_identity = \<lparr>id_pid = -1, id_uid = -1, id_gid = -1, id_sid = [], id_present = False\<rparr>"

definition no_capabilities :: Capabilities where
  "no_capabilities = \<lparr>cap_received_fd = invalid_socket, cap_peer = no_identity,
                      cap_cancelled = None, cap_wire_resource_bytes = 0\<rparr>"

record OutgoingFrame =
  of_header :: bstring
  of_body :: bstring
  of_offset :: nat
  of_deadline :: time

record Connection =
  cn_fd :: fd
  cn_peer :: Identity
  cn_stream_active :: bool
  cn_worker_owned :: bool
  cn_closing :: bool
  cn_session_capable :: bool
  cn_wire_version :: byte
  cn_cancellations :: "(u32 \<times> nat) list"
  cn_active_regular :: nat
  cn_pending_serialized :: nat
  cn_inflight_requests :: nat
  cn_inflight_request_bytes :: nat
  cn_last_io_progress :: time
  cn_last_output_progress :: time
  cn_queued_output_bytes :: nat
  cn_output_queue :: "OutgoingFrame list"

definition new_connection :: "fd \<Rightarrow> Identity \<Rightarrow> time \<Rightarrow> Connection" where
  "new_connection fd identity now =
     \<lparr>cn_fd = fd, cn_peer = identity, cn_stream_active = False, cn_worker_owned = False,
      cn_closing = False, cn_session_capable = False, cn_wire_version = 0,
      cn_cancellations = [], cn_active_regular = 0, cn_pending_serialized = 0,
      cn_inflight_requests = 0, cn_inflight_request_bytes = 0, cn_last_io_progress = now,
      cn_last_output_progress = now, cn_queued_output_bytes = 0, cn_output_queue = []\<rparr>"

datatype ParsePhase = PP_header | PP_request_budget | PP_request_payload | PP_stream_budget
  | PP_stream_route

record ReactorConnection =
  rc_conn :: nat
  rc_generation :: u32
  rc_registered_events :: u32
  rc_phase :: ParsePhase
  rc_header :: bstring
  rc_header_received :: nat
  rc_route_buffer :: bstring
  rc_body_buffer :: bstring
  rc_payload_received :: nat
  rc_payload_total :: nat
  rc_request_id :: u32
  rc_request_flags :: u16
  rc_arg1 :: u32
  rc_arg2 :: u32
  rc_reserved_request_bytes :: nat
  rc_arrival_time :: time
  rc_deadline :: time
  rc_reactor_busy :: bool
  rc_read_paused :: bool
  rc_pending :: bstring
  rc_pending_offset :: nat
  rc_received_fds :: "fd list"
  rc_capabilities :: Capabilities

definition new_reactor_connection :: "nat \<Rightarrow> ReactorConnection" where
  "new_reactor_connection conn =
     \<lparr>rc_conn = conn, rc_generation = 0, rc_registered_events = 0, rc_phase = PP_header,
      rc_header = replicate header_size 0, rc_header_received = 0, rc_route_buffer = [],
      rc_body_buffer = [], rc_payload_received = 0, rc_payload_total = 0, rc_request_id = 0,
      rc_request_flags = 0, rc_arg1 = 0, rc_arg2 = 0, rc_reserved_request_bytes = 0,
      rc_arrival_time = 0, rc_deadline = deadline_max, rc_reactor_busy = False,
      rc_read_paused = False, rc_pending = [], rc_pending_offset = 0, rc_received_fds = [],
      rc_capabilities = no_capabilities\<rparr>"

subsection \<open>Jobs\<close>

text \<open>
  \<open>pj_buffered_offset\<close> and \<open>pj_arrival_ticks\<close> share a union in the source: a stream job uses
  the first, a fixed job the second.
\<close>

record PendingJob =
  pj_connection :: nat
  pj_request :: Request
  pj_capabilities :: Capabilities
  pj_deadline :: time
  pj_handler :: "HandlerEntry option"
  pj_is_stream :: bool
  pj_request_bytes :: nat
  pj_release_stream_request_bytes :: bool
  pj_buffered :: bstring
  pj_buffered_offset :: nat
  pj_arrival_ticks :: time

text \<open>A maintenance job has no connection; what its function does is its only content.\<close>

record SerializedJob =
  sj_connection :: "nat option"
  sj_request :: Request
  sj_capabilities :: Capabilities
  sj_arrival_time :: time
  sj_deadline :: time
  sj_handler :: "HandlerEntry option"
  sj_maintenance :: "(unit callback_result) option"
  sj_request_bytes :: nat

record DomainActivity =
  da_active :: bool
  da_queued :: nat

definition idle_domain :: DomainActivity where
  "idle_domain = \<lparr>da_active = False, da_queued = 0\<rparr>"

datatype SerializedAdmission = SA_accepted | SA_busy | SA_stopping

record ServerCounters =
  sc_accepted_connections :: u64
  sc_rejected_connections :: u64
  sc_fixed_requests :: "u64 list"
  sc_stream_requests :: u64
  sc_stream_rejections :: u64
  sc_queue_timeouts :: u64
  sc_serialized_superseded :: u64
  sc_serialized_busy_rejections :: u64

definition fixed_request_shard_count :: nat where "fixed_request_shard_count = 64"

definition new_counters :: ServerCounters where
  "new_counters = \<lparr>sc_accepted_connections = 0, sc_rejected_connections = 0,
     sc_fixed_requests = replicate fixed_request_shard_count 0, sc_stream_requests = 0,
     sc_stream_rejections = 0, sc_queue_timeouts = 0, sc_serialized_superseded = 0,
     sc_serialized_busy_rejections = 0\<rparr>"

subsection \<open>ServerState\<close>

record ServerState =
  ss_socket_path :: bstring
  ss_options :: ServerOptions
  ss_running :: bool
  ss_active_streams :: nat
  ss_total_inflight_request_bytes :: nat
  ss_total_queued_output_bytes :: nat
  ss_next_connection_generation :: u32
  ss_max_concurrent_streams :: nat
  ss_listener_fd :: fd
  ss_wakeup_fd :: fd
  ss_wake_pending :: bool
  ss_instance_lock_fd :: fd
  ss_readiness_fd :: fd
  ss_socket_device :: nat
  ss_socket_inode :: nat
  ss_socket_identity_valid :: bool
  ss_stopped :: bool
  ss_run_started :: bool
  ss_run_active :: bool
  ss_handler_registry :: HandlerRegistry
  ss_not_found_handler :: HandlerEntry
  ss_pending_jobs :: "PendingJob list"
  ss_workers_stopping :: bool
  ss_pending_serialized :: "SerializedJob list"
  ss_default_domain :: DomainActivity
  ss_named_domains :: "(bstring \<times> DomainActivity) list"
  ss_active_domain_count :: nat
  ss_busy_domain_count :: nat
  ss_serialized_stopping :: bool
  ss_serialized_worker_count :: nat
  ss_max_serialized_concurrency :: nat
  ss_reactor_error :: "exn option"
  ss_connections :: "(fd \<times> nat) list"
  ss_resumed_connections :: "nat list"
  ss_counters :: "ServerCounters option"
  ss_conns :: "nat \<Rightarrow> Connection"
  ss_rcs :: "nat \<Rightarrow> ReactorConnection"
  ss_flags :: "nat \<Rightarrow> bool option"
  ss_world :: World


text \<open>
  The state as its default member initializers leave it, with the options given and an empty
  kernel (the constructor installs the not-found handler); a heap cell that no id refers to yet holds a default object.
\<close>

definition not_found_entry :: "nat \<Rightarrow> HandlerEntry" where
  "not_found_entry max_message_size =
     \<lparr>he_handler = PlainHandler (\<lambda>_. Returned \<lparr>rsp_status = 404,
        rsp_body = (if max_message_size \<ge> length ''Not Found'' then str ''Not Found'' else [])\<rparr>),
      he_flags = 0\<rparr>"

definition blank_state :: "ServerOptions \<Rightarrow> ServerState" where
  "blank_state opts =
     \<lparr>ss_socket_path = [], ss_options = opts, ss_running = False, ss_active_streams = 0,
      ss_total_inflight_request_bytes = 0, ss_total_queued_output_bytes = 0,
      ss_next_connection_generation = 1, ss_max_concurrent_streams = 1,
      ss_listener_fd = invalid_socket, ss_wakeup_fd = invalid_socket, ss_wake_pending = False,
      ss_instance_lock_fd = invalid_socket, ss_readiness_fd = invalid_socket,
      ss_socket_device = 0, ss_socket_inode = 0, ss_socket_identity_valid = False,
      ss_stopped = False, ss_run_started = False, ss_run_active = False,
      ss_handler_registry = empty_registry, ss_not_found_handler = not_found_entry (so_max_message_size opts),
      ss_pending_jobs = [], ss_workers_stopping = False, ss_pending_serialized = [],
      ss_default_domain = idle_domain, ss_named_domains = [], ss_active_domain_count = 0,
      ss_busy_domain_count = 0, ss_serialized_stopping = False, ss_serialized_worker_count = 0,
      ss_max_serialized_concurrency = 1, ss_reactor_error = None, ss_connections = [],
      ss_resumed_connections = [], ss_counters = None,
      ss_conns = (\<lambda>_. new_connection invalid_socket no_identity 0),
      ss_rcs = (\<lambda>_. new_reactor_connection 0), ss_flags = (\<lambda>_. None),
      ss_world = quiet_world\<rparr>"

text \<open>Updates of one object in a heap.\<close>

definition conn_upd :: "nat \<Rightarrow> (Connection \<Rightarrow> Connection) \<Rightarrow> ServerState \<Rightarrow> ServerState" where
  "conn_upd c f s = s\<lparr>ss_conns := (ss_conns s)(c := f (ss_conns s c))\<rparr>"

definition rc_upd :: "nat \<Rightarrow> (ReactorConnection \<Rightarrow> ReactorConnection) \<Rightarrow> ServerState \<Rightarrow> ServerState" where
  "rc_upd r f s = s\<lparr>ss_rcs := (ss_rcs s)(r := f (ss_rcs s r))\<rparr>"

definition world_upd :: "(World \<Rightarrow> World) \<Rightarrow> ServerState \<Rightarrow> ServerState" where
  "world_upd f s = s\<lparr>ss_world := f (ss_world s)\<rparr>"

definition clock_read :: "ServerState \<Rightarrow> ServerState \<times> time" where
  "clock_read s = (case clock_now (ss_world s) of (w, t) \<Rightarrow> (s\<lparr>ss_world := w\<rparr>, t))"

lemma conn_upd_conns [simp]: "ss_conns (conn_upd c f s) = (ss_conns s)(c := f (ss_conns s c))"
  by (simp add: conn_upd_def)

lemma rc_upd_rcs [simp]: "ss_rcs (rc_upd r f s) = (ss_rcs s)(r := f (ss_rcs s r))"
  by (simp add: rc_upd_def)

lemma world_upd_world [simp]: "ss_world (world_upd f s) = f (ss_world s)"
  by (simp add: world_upd_def)

lemma conn_upd_frame [simp]:
  "ss_socket_path (conn_upd c f s) = ss_socket_path s"
  "ss_options (conn_upd c f s) = ss_options s"
  "ss_running (conn_upd c f s) = ss_running s"
  "ss_active_streams (conn_upd c f s) = ss_active_streams s"
  "ss_total_inflight_request_bytes (conn_upd c f s) = ss_total_inflight_request_bytes s"
  "ss_total_queued_output_bytes (conn_upd c f s) = ss_total_queued_output_bytes s"
  "ss_next_connection_generation (conn_upd c f s) = ss_next_connection_generation s"
  "ss_max_concurrent_streams (conn_upd c f s) = ss_max_concurrent_streams s"
  "ss_listener_fd (conn_upd c f s) = ss_listener_fd s"
  "ss_wakeup_fd (conn_upd c f s) = ss_wakeup_fd s"
  "ss_wake_pending (conn_upd c f s) = ss_wake_pending s"
  "ss_instance_lock_fd (conn_upd c f s) = ss_instance_lock_fd s"
  "ss_readiness_fd (conn_upd c f s) = ss_readiness_fd s"
  "ss_socket_device (conn_upd c f s) = ss_socket_device s"
  "ss_socket_inode (conn_upd c f s) = ss_socket_inode s"
  "ss_socket_identity_valid (conn_upd c f s) = ss_socket_identity_valid s"
  "ss_stopped (conn_upd c f s) = ss_stopped s"
  "ss_run_started (conn_upd c f s) = ss_run_started s"
  "ss_run_active (conn_upd c f s) = ss_run_active s"
  "ss_handler_registry (conn_upd c f s) = ss_handler_registry s"
  "ss_not_found_handler (conn_upd c f s) = ss_not_found_handler s"
  "ss_pending_jobs (conn_upd c f s) = ss_pending_jobs s"
  "ss_workers_stopping (conn_upd c f s) = ss_workers_stopping s"
  "ss_pending_serialized (conn_upd c f s) = ss_pending_serialized s"
  "ss_default_domain (conn_upd c f s) = ss_default_domain s"
  "ss_named_domains (conn_upd c f s) = ss_named_domains s"
  "ss_active_domain_count (conn_upd c f s) = ss_active_domain_count s"
  "ss_busy_domain_count (conn_upd c f s) = ss_busy_domain_count s"
  "ss_serialized_stopping (conn_upd c f s) = ss_serialized_stopping s"
  "ss_serialized_worker_count (conn_upd c f s) = ss_serialized_worker_count s"
  "ss_max_serialized_concurrency (conn_upd c f s) = ss_max_serialized_concurrency s"
  "ss_reactor_error (conn_upd c f s) = ss_reactor_error s"
  "ss_connections (conn_upd c f s) = ss_connections s"
  "ss_resumed_connections (conn_upd c f s) = ss_resumed_connections s"
  "ss_counters (conn_upd c f s) = ss_counters s"
  "ss_rcs (conn_upd c f s) = ss_rcs s"
  "ss_flags (conn_upd c f s) = ss_flags s"
  "ss_world (conn_upd c f s) = ss_world s"
  by (simp_all add: conn_upd_def)

lemma rc_upd_frame [simp]:
  "ss_socket_path (rc_upd r f s) = ss_socket_path s"
  "ss_options (rc_upd r f s) = ss_options s"
  "ss_running (rc_upd r f s) = ss_running s"
  "ss_active_streams (rc_upd r f s) = ss_active_streams s"
  "ss_total_inflight_request_bytes (rc_upd r f s) = ss_total_inflight_request_bytes s"
  "ss_total_queued_output_bytes (rc_upd r f s) = ss_total_queued_output_bytes s"
  "ss_next_connection_generation (rc_upd r f s) = ss_next_connection_generation s"
  "ss_max_concurrent_streams (rc_upd r f s) = ss_max_concurrent_streams s"
  "ss_listener_fd (rc_upd r f s) = ss_listener_fd s"
  "ss_wakeup_fd (rc_upd r f s) = ss_wakeup_fd s"
  "ss_wake_pending (rc_upd r f s) = ss_wake_pending s"
  "ss_instance_lock_fd (rc_upd r f s) = ss_instance_lock_fd s"
  "ss_readiness_fd (rc_upd r f s) = ss_readiness_fd s"
  "ss_socket_device (rc_upd r f s) = ss_socket_device s"
  "ss_socket_inode (rc_upd r f s) = ss_socket_inode s"
  "ss_socket_identity_valid (rc_upd r f s) = ss_socket_identity_valid s"
  "ss_stopped (rc_upd r f s) = ss_stopped s"
  "ss_run_started (rc_upd r f s) = ss_run_started s"
  "ss_run_active (rc_upd r f s) = ss_run_active s"
  "ss_handler_registry (rc_upd r f s) = ss_handler_registry s"
  "ss_not_found_handler (rc_upd r f s) = ss_not_found_handler s"
  "ss_pending_jobs (rc_upd r f s) = ss_pending_jobs s"
  "ss_workers_stopping (rc_upd r f s) = ss_workers_stopping s"
  "ss_pending_serialized (rc_upd r f s) = ss_pending_serialized s"
  "ss_default_domain (rc_upd r f s) = ss_default_domain s"
  "ss_named_domains (rc_upd r f s) = ss_named_domains s"
  "ss_active_domain_count (rc_upd r f s) = ss_active_domain_count s"
  "ss_busy_domain_count (rc_upd r f s) = ss_busy_domain_count s"
  "ss_serialized_stopping (rc_upd r f s) = ss_serialized_stopping s"
  "ss_serialized_worker_count (rc_upd r f s) = ss_serialized_worker_count s"
  "ss_max_serialized_concurrency (rc_upd r f s) = ss_max_serialized_concurrency s"
  "ss_reactor_error (rc_upd r f s) = ss_reactor_error s"
  "ss_connections (rc_upd r f s) = ss_connections s"
  "ss_resumed_connections (rc_upd r f s) = ss_resumed_connections s"
  "ss_counters (rc_upd r f s) = ss_counters s"
  "ss_conns (rc_upd r f s) = ss_conns s"
  "ss_flags (rc_upd r f s) = ss_flags s"
  "ss_world (rc_upd r f s) = ss_world s"
  by (simp_all add: rc_upd_def)

lemma world_upd_frame [simp]:
  "ss_socket_path (world_upd f s) = ss_socket_path s"
  "ss_options (world_upd f s) = ss_options s"
  "ss_running (world_upd f s) = ss_running s"
  "ss_active_streams (world_upd f s) = ss_active_streams s"
  "ss_total_inflight_request_bytes (world_upd f s) = ss_total_inflight_request_bytes s"
  "ss_total_queued_output_bytes (world_upd f s) = ss_total_queued_output_bytes s"
  "ss_next_connection_generation (world_upd f s) = ss_next_connection_generation s"
  "ss_max_concurrent_streams (world_upd f s) = ss_max_concurrent_streams s"
  "ss_listener_fd (world_upd f s) = ss_listener_fd s"
  "ss_wakeup_fd (world_upd f s) = ss_wakeup_fd s"
  "ss_wake_pending (world_upd f s) = ss_wake_pending s"
  "ss_instance_lock_fd (world_upd f s) = ss_instance_lock_fd s"
  "ss_readiness_fd (world_upd f s) = ss_readiness_fd s"
  "ss_socket_device (world_upd f s) = ss_socket_device s"
  "ss_socket_inode (world_upd f s) = ss_socket_inode s"
  "ss_socket_identity_valid (world_upd f s) = ss_socket_identity_valid s"
  "ss_stopped (world_upd f s) = ss_stopped s"
  "ss_run_started (world_upd f s) = ss_run_started s"
  "ss_run_active (world_upd f s) = ss_run_active s"
  "ss_handler_registry (world_upd f s) = ss_handler_registry s"
  "ss_not_found_handler (world_upd f s) = ss_not_found_handler s"
  "ss_pending_jobs (world_upd f s) = ss_pending_jobs s"
  "ss_workers_stopping (world_upd f s) = ss_workers_stopping s"
  "ss_pending_serialized (world_upd f s) = ss_pending_serialized s"
  "ss_default_domain (world_upd f s) = ss_default_domain s"
  "ss_named_domains (world_upd f s) = ss_named_domains s"
  "ss_active_domain_count (world_upd f s) = ss_active_domain_count s"
  "ss_busy_domain_count (world_upd f s) = ss_busy_domain_count s"
  "ss_serialized_stopping (world_upd f s) = ss_serialized_stopping s"
  "ss_serialized_worker_count (world_upd f s) = ss_serialized_worker_count s"
  "ss_max_serialized_concurrency (world_upd f s) = ss_max_serialized_concurrency s"
  "ss_reactor_error (world_upd f s) = ss_reactor_error s"
  "ss_connections (world_upd f s) = ss_connections s"
  "ss_resumed_connections (world_upd f s) = ss_resumed_connections s"
  "ss_counters (world_upd f s) = ss_counters s"
  "ss_conns (world_upd f s) = ss_conns s"
  "ss_rcs (world_upd f s) = ss_rcs s"
  "ss_flags (world_upd f s) = ss_flags s"
  by (simp_all add: world_upd_def)

lemma clock_read_frame [simp]:
  "ss_socket_path (fst (clock_read s)) = ss_socket_path s"
  "ss_options (fst (clock_read s)) = ss_options s"
  "ss_running (fst (clock_read s)) = ss_running s"
  "ss_active_streams (fst (clock_read s)) = ss_active_streams s"
  "ss_total_inflight_request_bytes (fst (clock_read s)) = ss_total_inflight_request_bytes s"
  "ss_total_queued_output_bytes (fst (clock_read s)) = ss_total_queued_output_bytes s"
  "ss_next_connection_generation (fst (clock_read s)) = ss_next_connection_generation s"
  "ss_max_concurrent_streams (fst (clock_read s)) = ss_max_concurrent_streams s"
  "ss_listener_fd (fst (clock_read s)) = ss_listener_fd s"
  "ss_wakeup_fd (fst (clock_read s)) = ss_wakeup_fd s"
  "ss_wake_pending (fst (clock_read s)) = ss_wake_pending s"
  "ss_instance_lock_fd (fst (clock_read s)) = ss_instance_lock_fd s"
  "ss_readiness_fd (fst (clock_read s)) = ss_readiness_fd s"
  "ss_socket_device (fst (clock_read s)) = ss_socket_device s"
  "ss_socket_inode (fst (clock_read s)) = ss_socket_inode s"
  "ss_socket_identity_valid (fst (clock_read s)) = ss_socket_identity_valid s"
  "ss_stopped (fst (clock_read s)) = ss_stopped s"
  "ss_run_started (fst (clock_read s)) = ss_run_started s"
  "ss_run_active (fst (clock_read s)) = ss_run_active s"
  "ss_handler_registry (fst (clock_read s)) = ss_handler_registry s"
  "ss_not_found_handler (fst (clock_read s)) = ss_not_found_handler s"
  "ss_pending_jobs (fst (clock_read s)) = ss_pending_jobs s"
  "ss_workers_stopping (fst (clock_read s)) = ss_workers_stopping s"
  "ss_pending_serialized (fst (clock_read s)) = ss_pending_serialized s"
  "ss_default_domain (fst (clock_read s)) = ss_default_domain s"
  "ss_named_domains (fst (clock_read s)) = ss_named_domains s"
  "ss_active_domain_count (fst (clock_read s)) = ss_active_domain_count s"
  "ss_busy_domain_count (fst (clock_read s)) = ss_busy_domain_count s"
  "ss_serialized_stopping (fst (clock_read s)) = ss_serialized_stopping s"
  "ss_serialized_worker_count (fst (clock_read s)) = ss_serialized_worker_count s"
  "ss_max_serialized_concurrency (fst (clock_read s)) = ss_max_serialized_concurrency s"
  "ss_reactor_error (fst (clock_read s)) = ss_reactor_error s"
  "ss_connections (fst (clock_read s)) = ss_connections s"
  "ss_resumed_connections (fst (clock_read s)) = ss_resumed_connections s"
  "ss_counters (fst (clock_read s)) = ss_counters s"
  "ss_conns (fst (clock_read s)) = ss_conns s"
  "ss_rcs (fst (clock_read s)) = ss_rcs s"
  "ss_flags (fst (clock_read s)) = ss_flags s"
  by (simp_all add: clock_read_def split: prod.split)

text \<open>The connection object a reactor connection refers to.\<close>

abbreviation conn_of :: "ServerState \<Rightarrow> nat \<Rightarrow> Connection" where
  "conn_of s r \<equiv> ss_conns s (rc_conn (ss_rcs s r))"

subsection \<open>common.hpp\<close>

definition reactor_read_scratch_size :: nat where "reactor_read_scratch_size = 64 * 1024"
definition reactor_read_batch_size :: nat where "reactor_read_batch_size = 256 * 1024"
definition max_accept_batch :: nat where "max_accept_batch = 64"

definition listener_token :: u64 where "listener_token = - 1"
definition wake_token :: u64 where "wake_token = listener_token - 1"

definition mark_io_progress :: "nat \<Rightarrow> ServerState \<Rightarrow> ServerState" where
  "mark_io_progress c s =
     (case clock_read s of (s, now) \<Rightarrow> conn_upd c (\<lambda>cn. cn\<lparr>cn_last_io_progress := now\<rparr>) s)"

definition connection_inactivity_deadline :: "Connection \<Rightarrow> msec \<Rightarrow> time" where
  "connection_inactivity_deadline cn timeout =
     (if timeout = 0 then deadline_max
      else let progress = cn_last_io_progress cn;
               max_remaining = deadline_max - progress;
               max_ms = max_remaining div ticks_per_ms
           in if timeout \<ge> max_ms then deadline_max - 1 else progress + timeout * ticks_per_ms)"

definition wake_reactor :: "ServerState \<Rightarrow> ServerState" where
  "wake_reactor s =
     (if ss_wakeup_fd s < 0 then s
      else if ss_wake_pending s then s
      else world_upd (readiness_signal (ss_wakeup_fd s)) (s\<lparr>ss_wake_pending := True\<rparr>))"

definition allocate_connection_generation :: "ServerState \<Rightarrow> ServerState \<times> u32" where
  "allocate_connection_generation s =
     (let generation = ss_next_connection_generation s;
          s = s\<lparr>ss_next_connection_generation := ss_next_connection_generation s + 1\<rparr>
      in if generation = 0
         then (s\<lparr>ss_next_connection_generation := ss_next_connection_generation s + 1\<rparr>,
               ss_next_connection_generation s)
         else (s, generation))"

definition connection_token :: "fd \<Rightarrow> u32 \<Rightarrow> u64" where
  "connection_token fd generation =
     push_bit 32 (ucast generation) OR (word_of_int fd AND 0xffffffff)"

subsection \<open>Counters\<close>

definition counter_upd :: "(ServerCounters \<Rightarrow> ServerCounters) \<Rightarrow> ServerState \<Rightarrow> ServerState" where
  "counter_upd f s = s\<lparr>ss_counters := map_option f (ss_counters s)\<rparr>"

definition record_accepted_connection :: "ServerState \<Rightarrow> ServerState" where
  "record_accepted_connection =
     counter_upd (\<lambda>k. k\<lparr>sc_accepted_connections := sc_accepted_connections k + 1\<rparr>)"

definition record_rejected_connection :: "ServerState \<Rightarrow> ServerState" where
  "record_rejected_connection =
     counter_upd (\<lambda>k. k\<lparr>sc_rejected_connections := sc_rejected_connections k + 1\<rparr>)"

text \<open>\<open>shard\<close> is the calling thread's shard index, fixed at its first use.\<close>

definition record_fixed_request :: "nat \<Rightarrow> ServerState \<Rightarrow> ServerState" where
  "record_fixed_request shard =
     counter_upd (\<lambda>k. k\<lparr>sc_fixed_requests :=
        (sc_fixed_requests k)[shard := sc_fixed_requests k ! shard + 1]\<rparr>)"

definition record_stream_request :: "ServerState \<Rightarrow> ServerState" where
  "record_stream_request =
     counter_upd (\<lambda>k. k\<lparr>sc_stream_requests := sc_stream_requests k + 1\<rparr>)"

definition record_stream_rejection :: "ServerState \<Rightarrow> ServerState" where
  "record_stream_rejection =
     counter_upd (\<lambda>k. k\<lparr>sc_stream_rejections := sc_stream_rejections k + 1\<rparr>)"

definition record_queue_timeout :: "ServerState \<Rightarrow> ServerState" where
  "record_queue_timeout =
     counter_upd (\<lambda>k. k\<lparr>sc_queue_timeouts := sc_queue_timeouts k + 1\<rparr>)"

definition record_serialized_superseded :: "ServerState \<Rightarrow> ServerState" where
  "record_serialized_superseded =
     counter_upd (\<lambda>k. k\<lparr>sc_serialized_superseded := sc_serialized_superseded k + 1\<rparr>)"

definition record_serialized_busy_rejection :: "ServerState \<Rightarrow> ServerState" where
  "record_serialized_busy_rejection =
     counter_upd (\<lambda>k. k\<lparr>sc_serialized_busy_rejections := sc_serialized_busy_rejections k + 1\<rparr>)"

lemmas record_defs =
  record_accepted_connection_def record_rejected_connection_def record_fixed_request_def
  record_stream_request_def record_stream_rejection_def record_queue_timeout_def
  record_serialized_superseded_def record_serialized_busy_rejection_def

lemma counter_upd_frame [simp]:
  "ss_socket_path (counter_upd f s) = ss_socket_path s"
  "ss_options (counter_upd f s) = ss_options s"
  "ss_running (counter_upd f s) = ss_running s"
  "ss_active_streams (counter_upd f s) = ss_active_streams s"
  "ss_total_inflight_request_bytes (counter_upd f s) = ss_total_inflight_request_bytes s"
  "ss_total_queued_output_bytes (counter_upd f s) = ss_total_queued_output_bytes s"
  "ss_next_connection_generation (counter_upd f s) = ss_next_connection_generation s"
  "ss_max_concurrent_streams (counter_upd f s) = ss_max_concurrent_streams s"
  "ss_listener_fd (counter_upd f s) = ss_listener_fd s"
  "ss_wakeup_fd (counter_upd f s) = ss_wakeup_fd s"
  "ss_wake_pending (counter_upd f s) = ss_wake_pending s"
  "ss_instance_lock_fd (counter_upd f s) = ss_instance_lock_fd s"
  "ss_readiness_fd (counter_upd f s) = ss_readiness_fd s"
  "ss_socket_device (counter_upd f s) = ss_socket_device s"
  "ss_socket_inode (counter_upd f s) = ss_socket_inode s"
  "ss_socket_identity_valid (counter_upd f s) = ss_socket_identity_valid s"
  "ss_stopped (counter_upd f s) = ss_stopped s"
  "ss_run_started (counter_upd f s) = ss_run_started s"
  "ss_run_active (counter_upd f s) = ss_run_active s"
  "ss_handler_registry (counter_upd f s) = ss_handler_registry s"
  "ss_not_found_handler (counter_upd f s) = ss_not_found_handler s"
  "ss_pending_jobs (counter_upd f s) = ss_pending_jobs s"
  "ss_workers_stopping (counter_upd f s) = ss_workers_stopping s"
  "ss_pending_serialized (counter_upd f s) = ss_pending_serialized s"
  "ss_default_domain (counter_upd f s) = ss_default_domain s"
  "ss_named_domains (counter_upd f s) = ss_named_domains s"
  "ss_active_domain_count (counter_upd f s) = ss_active_domain_count s"
  "ss_busy_domain_count (counter_upd f s) = ss_busy_domain_count s"
  "ss_serialized_stopping (counter_upd f s) = ss_serialized_stopping s"
  "ss_serialized_worker_count (counter_upd f s) = ss_serialized_worker_count s"
  "ss_max_serialized_concurrency (counter_upd f s) = ss_max_serialized_concurrency s"
  "ss_reactor_error (counter_upd f s) = ss_reactor_error s"
  "ss_connections (counter_upd f s) = ss_connections s"
  "ss_resumed_connections (counter_upd f s) = ss_resumed_connections s"
  "ss_conns (counter_upd f s) = ss_conns s"
  "ss_rcs (counter_upd f s) = ss_rcs s"
  "ss_flags (counter_upd f s) = ss_flags s"
  "ss_world (counter_upd f s) = ss_world s"
  by (simp_all add: counter_upd_def)

lemma wake_reactor_frame [simp]:
  "ss_socket_path (wake_reactor s) = ss_socket_path s"
  "ss_options (wake_reactor s) = ss_options s"
  "ss_running (wake_reactor s) = ss_running s"
  "ss_active_streams (wake_reactor s) = ss_active_streams s"
  "ss_total_inflight_request_bytes (wake_reactor s) = ss_total_inflight_request_bytes s"
  "ss_total_queued_output_bytes (wake_reactor s) = ss_total_queued_output_bytes s"
  "ss_next_connection_generation (wake_reactor s) = ss_next_connection_generation s"
  "ss_max_concurrent_streams (wake_reactor s) = ss_max_concurrent_streams s"
  "ss_listener_fd (wake_reactor s) = ss_listener_fd s"
  "ss_wakeup_fd (wake_reactor s) = ss_wakeup_fd s"
  "ss_instance_lock_fd (wake_reactor s) = ss_instance_lock_fd s"
  "ss_readiness_fd (wake_reactor s) = ss_readiness_fd s"
  "ss_socket_device (wake_reactor s) = ss_socket_device s"
  "ss_socket_inode (wake_reactor s) = ss_socket_inode s"
  "ss_socket_identity_valid (wake_reactor s) = ss_socket_identity_valid s"
  "ss_stopped (wake_reactor s) = ss_stopped s"
  "ss_run_started (wake_reactor s) = ss_run_started s"
  "ss_run_active (wake_reactor s) = ss_run_active s"
  "ss_handler_registry (wake_reactor s) = ss_handler_registry s"
  "ss_not_found_handler (wake_reactor s) = ss_not_found_handler s"
  "ss_pending_jobs (wake_reactor s) = ss_pending_jobs s"
  "ss_workers_stopping (wake_reactor s) = ss_workers_stopping s"
  "ss_pending_serialized (wake_reactor s) = ss_pending_serialized s"
  "ss_default_domain (wake_reactor s) = ss_default_domain s"
  "ss_named_domains (wake_reactor s) = ss_named_domains s"
  "ss_active_domain_count (wake_reactor s) = ss_active_domain_count s"
  "ss_busy_domain_count (wake_reactor s) = ss_busy_domain_count s"
  "ss_serialized_stopping (wake_reactor s) = ss_serialized_stopping s"
  "ss_serialized_worker_count (wake_reactor s) = ss_serialized_worker_count s"
  "ss_max_serialized_concurrency (wake_reactor s) = ss_max_serialized_concurrency s"
  "ss_reactor_error (wake_reactor s) = ss_reactor_error s"
  "ss_connections (wake_reactor s) = ss_connections s"
  "ss_resumed_connections (wake_reactor s) = ss_resumed_connections s"
  "ss_counters (wake_reactor s) = ss_counters s"
  "ss_conns (wake_reactor s) = ss_conns s"
  "ss_rcs (wake_reactor s) = ss_rcs s"
  "ss_flags (wake_reactor s) = ss_flags s"
  by (simp_all add: wake_reactor_def)

subsection \<open>RequestContextFactory\<close>

definition make_context ::
  "Request \<Rightarrow> time \<Rightarrow> time \<Rightarrow> nat \<Rightarrow> Capabilities \<Rightarrow> time \<Rightarrow> ServerState \<Rightarrow> RequestContext" where
  "make_context request arrival_time deadline c caps now s =
     \<lparr>cx_request_id = rq_request_id request, cx_arrival_time = arrival_time,
      cx_deadline = deadline, cx_connection_closing = cn_closing (ss_conns s c),
      cx_server_running = ss_running s,
      cx_cancelled = (case cap_cancelled caps of None \<Rightarrow> None | Some f \<Rightarrow> ss_flags s f),
      cx_peer_pid = id_pid (cap_peer caps), cx_peer_sid = id_sid (cap_peer caps),
      cx_capability_bridge = Some (cap_peer caps, cap_received_fd caps), cx_now = now\<rparr>"

subsection \<open>Event tokens and generations\<close>

text \<open>A descriptor the kernel hands out; the largest possible one is far below the bound.\<close>

definition fd_ok :: "fd \<Rightarrow> bool" where
  "fd_ok f \<longleftrightarrow> 0 \<le> f \<and> f < 2 ^ 31"

lemma token_bits:
  "bit (connection_token f g) n \<longleftrightarrow> n < 64 \<and> (if n < 32 then bit f n else bit g (n - 32))"
proof (cases "n < 64")
  case True
  have m: "(0xffffffff :: u64) = mask 32"
    by (simp add: mask_eq_exp_minus_1)
  show ?thesis
    unfolding connection_token_def m bit_or_iff bit_and_iff bit_mask_iff bit_push_bit_iff
      unsigned_ucast_eq bit_unsigned_iff possible_bit_word
    using True by (auto simp: bit_word_of_int_iff dest: bit_imp_le_length)
qed (auto dest: bit_imp_le_length)

lemma token_generation: "ucast (drop_bit 32 (connection_token f g)) = g"
  by (rule bit_word_eqI) (simp add: bit_unsigned_iff bit_drop_bit_eq token_bits)

lemma token_fd: "fd_ok f \<Longrightarrow> uint (take_bit 32 (connection_token f g)) = f"
proof -
  assume f: "fd_ok f"
  have "take_bit 32 (connection_token f g) = word_of_int (take_bit 32 f)"
    by (rule bit_word_eqI) (simp add: bit_take_bit_iff token_bits bit_word_of_int_iff)
  moreover have "take_bit 32 f = f"
    using f by (simp add: fd_ok_def take_bit_int_eq_self_iff)
  ultimately show ?thesis
    using f by (simp add: fd_ok_def uint_word_of_int take_bit_int_eq_self)
qed

lemma token_not_special:
  assumes "fd_ok f"
  shows "connection_token f g \<noteq> listener_token" "connection_token f g \<noteq> wake_token"
proof -
  have "\<not> bit f 31"
    using assms by (simp add: fd_ok_def bit_iff_odd)
  then have "\<not> bit (connection_token f g) 31"
    by (simp add: token_bits)
  moreover have "bit listener_token 31" "bit wake_token 31"
    by (simp_all add: listener_token_def wake_token_def)
  ultimately show "connection_token f g \<noteq> listener_token" "connection_token f g \<noteq> wake_token"
    by metis+
qed

text \<open>
  The event token of a connection determines its descriptor and its generation, and is
  never the token of the listener or of the wakeup descriptor; so an event that was queued for
  an earlier connection on a reused descriptor number is told apart from one for the current
  connection.
\<close>

theorem connection_token_unique:
  assumes "fd_ok f" "fd_ok f'"
  shows "(connection_token f g = connection_token f' g' \<longleftrightarrow> f = f' \<and> g = g') \<and>
         connection_token f g \<notin> {listener_token, wake_token}"
  using assms token_fd token_generation token_not_special by (metis empty_iff insert_iff)

lemma connection_token_unique_witness:
  "fd_ok 5 \<and> (connection_token 5 1 = connection_token 5 2 \<longleftrightarrow> (1::u32) = 2)"
  using connection_token_unique [of 5 5 1 2] by (simp add: fd_ok_def)

text \<open>
  A connection generation is never zero, also when the 32-bit counter wraps around, and
  each allocation advances the counter.
\<close>

lemma connection_generation_nonzero:
  "snd (allocate_connection_generation s) \<noteq> 0 \<and>
   (ss_next_connection_generation s \<noteq> 0 \<longrightarrow>
      snd (allocate_connection_generation s) = ss_next_connection_generation s \<and>
      ss_next_connection_generation (fst (allocate_connection_generation s)) =
        ss_next_connection_generation s + 1)"
  by (simp add: allocate_connection_generation_def Let_def)

end
