(* ===== verification/FlowControl.thy ===== *)
theory FlowControl
  imports ServerCore
begin

text \<open>
  Admission and backpressure of request bytes (\<^verbatim>\<open>src/system/reactor/flow_control.cpp\<close>), and
  the readiness-interest update it uses (\<^verbatim>\<open>refresh_connection_events\<close> of
  \<^verbatim>\<open>src/system/reactor/output.cpp\<close>). Requests hold bytes against a limit per connection and,
  in strict mode (\<^verbatim>\<open>max_total_inflight_bytes\<close> not zero), against an aggregate limit; a
  connection at a limit stops reading and resumes at half of it.
\<close>

subsection \<open>Readiness interest\<close>

definition wanted_events :: "ReactorConnection \<Rightarrow> Connection \<Rightarrow> u32" where
  "wanted_events rc cn =
     (if \<not> rc_read_paused rc then readable else 0) OR
     (if cn_queued_output_bytes cn \<noteq> 0 then writable else 0)"

definition refresh_connection_events :: "nat \<Rightarrow> ServerState \<Rightarrow> ServerState \<times> bool" where
  "refresh_connection_events c s =
     (let cn = ss_conns s c in
      case map_of (ss_connections s) (cn_fd cn) of
        None \<Rightarrow> (s, False)
      | Some r \<Rightarrow>
          let rc = ss_rcs s r in
          if rc_conn rc \<noteq> c \<or> ss_readiness_fd s < 0 \<or> cn_closing cn \<or> cn_stream_active cn \<or>
             cn_worker_owned cn
          then (s, False)
          else let events = wanted_events rc cn in
            if rc_registered_events rc = events then (s, True)
            else case readiness_control Ctl_modify (cn_fd cn) events
                        (connection_token (cn_fd cn) (rc_generation rc)) (ss_world s) of
                   (w, ok) \<Rightarrow>
                     let s = s\<lparr>ss_world := w\<rparr> in
                     if \<not> ok
                     then (world_upd (socket_shutdown (cn_fd cn))
                             (conn_upd c (\<lambda>cn. cn\<lparr>cn_closing := True\<rparr>) s), False)
                     else (rc_upd r (\<lambda>rc. rc\<lparr>rc_registered_events := events\<rparr>) s, True))"

subsection \<open>Watermarks\<close>

definition inflight_byte_limit :: "ServerState \<Rightarrow> nat" where
  "inflight_byte_limit s = so_max_inflight_request_bytes_per_connection (ss_options s)"

definition below_resume_watermark :: "ServerState \<Rightarrow> Connection \<Rightarrow> bool" where
  "below_resume_watermark s cn \<longleftrightarrow>
     (so_max_total_inflight_bytes (ss_options s) = 0 \<or>
      ss_total_inflight_request_bytes s \<le> so_max_total_inflight_bytes (ss_options s) div 2) \<and>
     cn_inflight_requests cn \<le> so_max_inflight_requests_per_connection (ss_options s) div 2 \<and>
     cn_inflight_request_bytes cn \<le> inflight_byte_limit s div 2"

definition above_pause_watermark :: "ServerState \<Rightarrow> Connection \<Rightarrow> bool" where
  "above_pause_watermark s cn \<longleftrightarrow>
     (so_max_total_inflight_bytes (ss_options s) \<noteq> 0 \<and>
      ss_total_inflight_request_bytes s \<ge> so_max_total_inflight_bytes (ss_options s)) \<or>
     cn_inflight_requests cn \<ge> so_max_inflight_requests_per_connection (ss_options s) \<or>
     cn_inflight_request_bytes cn \<ge> inflight_byte_limit s"

subsection \<open>Resuming\<close>

definition resume_ready :: "ServerState \<Rightarrow> nat \<Rightarrow> bool" where
  "resume_ready s r \<longleftrightarrow> rc_read_paused (ss_rcs s r) \<and> \<not> cn_closing (conn_of s r) \<and>
     below_resume_watermark s (conn_of s r)"

text \<open>The lambda \<^verbatim>\<open>queue_if_ready\<close>; the second component is the vector \<^verbatim>\<open>refresh\<close>.\<close>

definition queue_if_ready :: "nat \<Rightarrow> ServerState \<times> nat list \<Rightarrow> ServerState \<times> nat list" where
  "queue_if_ready r sr =
     (case sr of (s, refresh) \<Rightarrow>
        if \<not> resume_ready s r then (s, refresh)
        else ((rc_upd r (\<lambda>rc. rc\<lparr>rc_read_paused := False\<rparr>) s)
                \<lparr>ss_resumed_connections := ss_resumed_connections s @ [r]\<rparr>,
              refresh @ [rc_conn (ss_rcs s r)]))"

definition collect_resumable :: "nat \<Rightarrow> ServerState \<Rightarrow> ServerState \<times> nat list" where
  "collect_resumable released s =
     (if so_max_total_inflight_bytes (ss_options s) = 0
      then case map_of (ss_connections s) (cn_fd (ss_conns s released)) of
             Some r \<Rightarrow> if rc_conn (ss_rcs s r) = released then queue_if_ready r (s, [])
                        else (s, [])
           | None \<Rightarrow> (s, [])
      else fold (\<lambda>e. queue_if_ready (snd e)) (ss_connections s) (s, []))"

definition resume_paused_connections :: "nat \<Rightarrow> ServerState \<Rightarrow> ServerState" where
  "resume_paused_connections released s =
     (case collect_resumable released s of
        (s, refresh) \<Rightarrow>
          let s = fold (\<lambda>c s. fst (refresh_connection_events c s)) refresh s in
          if refresh \<noteq> [] then wake_reactor s else s)"

subsection \<open>Reserving and releasing bytes\<close>

definition add_inflight :: "nat \<Rightarrow> Connection \<Rightarrow> Connection" where
  "add_inflight n cn = cn\<lparr>cn_inflight_request_bytes := sz_add (cn_inflight_request_bytes cn) n\<rparr>"

definition sub_inflight :: "nat \<Rightarrow> Connection \<Rightarrow> Connection" where
  "sub_inflight n cn = cn\<lparr>cn_inflight_request_bytes := sz_sub (cn_inflight_request_bytes cn) n\<rparr>"

text \<open>
  \<^verbatim>\<open>try_reserve_connection_request_bytes\<close>: each compare-exchange loop is one atomic step on the
  value it finally sees (see \<open>cas_reserve\<close> below).
\<close>

definition reserve_connection :: "nat \<Rightarrow> nat \<Rightarrow> ServerState \<Rightarrow> ServerState \<times> bool" where
  "reserve_connection c request_bytes s =
     (let connection_limit = inflight_byte_limit s;
          connection_bytes = cn_inflight_request_bytes (ss_conns s c);
          s = (if request_bytes \<le> connection_limit - min connection_bytes connection_limit
               then conn_upd c (add_inflight request_bytes) s else s)
      in if connection_bytes > connection_limit \<or>
            request_bytes > connection_limit - connection_bytes
         then (s, False) else (s, True))"

definition reserve_global :: "nat \<Rightarrow> ServerState \<Rightarrow> ServerState \<times> bool" where
  "reserve_global request_bytes s =
     (let global_limit = so_max_total_inflight_bytes (ss_options s);
          global_bytes = ss_total_inflight_request_bytes s
      in if global_bytes \<le> global_limit \<and> request_bytes \<le> global_limit - global_bytes
         then (s\<lparr>ss_total_inflight_request_bytes := sz_add global_bytes request_bytes\<rparr>, True)
         else (s, False))"

definition try_reserve_connection_request_bytes ::
  "nat \<Rightarrow> nat \<Rightarrow> ServerState \<Rightarrow> ServerState \<times> bool" where
  "try_reserve_connection_request_bytes c request_bytes s =
     (if request_bytes = 0 then (s, True)
      else case reserve_connection c request_bytes s of
             (s, False) \<Rightarrow> (s, False)
           | (s, True) \<Rightarrow>
               (case reserve_global request_bytes s of
                  (s, True) \<Rightarrow> (s, True)
                | (s, False) \<Rightarrow> (conn_upd c (sub_inflight request_bytes) s, False)))"

text \<open>
  A compare-exchange loop under interference: \<open>seen\<close> are the values it loads, first by the
  initial load and then by each failed exchange; the exchange succeeds on the last one. \<open>Some v\<close>
  is a successful exchange on \<open>v\<close>, \<open>None\<close> a value that does not admit the request.
\<close>

fun cas_reserve :: "nat \<Rightarrow> nat \<Rightarrow> nat list \<Rightarrow> nat option" where
  "cas_reserve limit n [] = None"
| "cas_reserve limit n [v] = (if v \<le> limit \<and> n \<le> limit - v then Some v else None)"
| "cas_reserve limit n (v # w # seen) =
     (if v \<le> limit \<and> n \<le> limit - v then cas_reserve limit n (w # seen) else None)"

lemma cas_reserve_linear:
  "cas_reserve limit n seen = Some v \<Longrightarrow> seen \<noteq> [] \<and> v = last seen \<and> v + n \<le> limit"
  "seen \<noteq> [] \<Longrightarrow> cas_reserve limit n seen = None \<Longrightarrow> \<exists>v \<in> set seen. limit < v + n"
  by (induction limit n seen rule: cas_reserve.induct) (auto split: if_splits)

definition release_connection_request_bytes :: "nat \<Rightarrow> nat \<Rightarrow> ServerState \<Rightarrow> ServerState" where
  "release_connection_request_bytes c request_bytes s =
     (if request_bytes = 0 then s
      else let s = conn_upd c (sub_inflight request_bytes) s;
               s = s\<lparr>ss_total_inflight_request_bytes :=
                       sz_sub (ss_total_inflight_request_bytes s) request_bytes\<rparr>
           in resume_paused_connections c s)"

definition account_connection_request :: "nat \<Rightarrow> nat \<Rightarrow> ServerState \<Rightarrow> ServerState" where
  "account_connection_request c request_bytes s =
     (conn_upd c (\<lambda>cn. (add_inflight request_bytes cn)
         \<lparr>cn_inflight_requests := sz_add (cn_inflight_requests cn) 1\<rparr>) s)
       \<lparr>ss_total_inflight_request_bytes :=
          sz_add (ss_total_inflight_request_bytes s) request_bytes\<rparr>"

definition account_connection_request_count :: "nat \<Rightarrow> ServerState \<Rightarrow> ServerState" where
  "account_connection_request_count c s =
     conn_upd c (\<lambda>cn. cn\<lparr>cn_inflight_requests := sz_add (cn_inflight_requests cn) 1\<rparr>) s"

definition release_connection_request :: "nat \<Rightarrow> nat \<Rightarrow> ServerState \<Rightarrow> ServerState" where
  "release_connection_request c request_bytes s =
     (let s = conn_upd c (\<lambda>cn. (sub_inflight request_bytes cn)
                \<lparr>cn_inflight_requests := sz_sub (cn_inflight_requests cn) 1\<rparr>) s;
          s = s\<lparr>ss_total_inflight_request_bytes :=
                  sz_sub (ss_total_inflight_request_bytes s) request_bytes\<rparr>
      in resume_paused_connections c s)"

subsection \<open>Pausing\<close>

definition pause_connection_reads :: "nat \<Rightarrow> ServerState \<Rightarrow> ServerState" where
  "pause_connection_reads r s =
     (let c = rc_conn (ss_rcs s r) in
      if map_of (ss_connections s) (cn_fd (ss_conns s c)) = Some r \<and>
         \<not> rc_read_paused (ss_rcs s r)
      then case refresh_connection_events c (rc_upd r (\<lambda>rc. rc\<lparr>rc_read_paused := True\<rparr>) s) of
             (s, True) \<Rightarrow> s
           | (s, False) \<Rightarrow> conn_upd c (\<lambda>cn. cn\<lparr>cn_closing := True\<rparr>) s
      else s)"

definition pause_connection_reads_if_needed :: "nat \<Rightarrow> ServerState \<Rightarrow> ServerState \<times> bool" where
  "pause_connection_reads_if_needed r s =
     (let c = rc_conn (ss_rcs s r) in
      if \<not> above_pause_watermark s (ss_conns s c) then (s, False)
      else let should_stop_reading =
                 (map_of (ss_connections s) (cn_fd (ss_conns s c)) = Some r \<and>
                  above_pause_watermark s (ss_conns s c))
           in (if should_stop_reading then pause_connection_reads r s else s,
               should_stop_reading))"

end
