(* ===== verification/FlowFrames.thy ===== *)
theory FlowFrames
  imports FlowControl
begin

text \<open>
  Which parts of the state the readiness-interest update and the resumption of paused
  connections leave alone: they touch the kernel, the interest and pause marks of reactor
  connections and, on a failed interest update, the closing flag of a connection. Accounting,
  queues and scheduling are not affected.
\<close>

lemma refresh_frame [simp]:
  "ss_socket_path (fst (refresh_connection_events c s)) = ss_socket_path s"
  "ss_options (fst (refresh_connection_events c s)) = ss_options s"
  "ss_running (fst (refresh_connection_events c s)) = ss_running s"
  "ss_active_streams (fst (refresh_connection_events c s)) = ss_active_streams s"
  "ss_total_inflight_request_bytes (fst (refresh_connection_events c s)) = ss_total_inflight_request_bytes s"
  "ss_total_queued_output_bytes (fst (refresh_connection_events c s)) = ss_total_queued_output_bytes s"
  "ss_next_connection_generation (fst (refresh_connection_events c s)) = ss_next_connection_generation s"
  "ss_max_concurrent_streams (fst (refresh_connection_events c s)) = ss_max_concurrent_streams s"
  "ss_listener_fd (fst (refresh_connection_events c s)) = ss_listener_fd s"
  "ss_wakeup_fd (fst (refresh_connection_events c s)) = ss_wakeup_fd s"
  "ss_wake_pending (fst (refresh_connection_events c s)) = ss_wake_pending s"
  "ss_instance_lock_fd (fst (refresh_connection_events c s)) = ss_instance_lock_fd s"
  "ss_readiness_fd (fst (refresh_connection_events c s)) = ss_readiness_fd s"
  "ss_socket_device (fst (refresh_connection_events c s)) = ss_socket_device s"
  "ss_socket_inode (fst (refresh_connection_events c s)) = ss_socket_inode s"
  "ss_socket_identity_valid (fst (refresh_connection_events c s)) = ss_socket_identity_valid s"
  "ss_stopped (fst (refresh_connection_events c s)) = ss_stopped s"
  "ss_run_started (fst (refresh_connection_events c s)) = ss_run_started s"
  "ss_run_active (fst (refresh_connection_events c s)) = ss_run_active s"
  "ss_handler_registry (fst (refresh_connection_events c s)) = ss_handler_registry s"
  "ss_not_found_handler (fst (refresh_connection_events c s)) = ss_not_found_handler s"
  "ss_pending_jobs (fst (refresh_connection_events c s)) = ss_pending_jobs s"
  "ss_workers_stopping (fst (refresh_connection_events c s)) = ss_workers_stopping s"
  "ss_pending_serialized (fst (refresh_connection_events c s)) = ss_pending_serialized s"
  "ss_default_domain (fst (refresh_connection_events c s)) = ss_default_domain s"
  "ss_named_domains (fst (refresh_connection_events c s)) = ss_named_domains s"
  "ss_active_domain_count (fst (refresh_connection_events c s)) = ss_active_domain_count s"
  "ss_busy_domain_count (fst (refresh_connection_events c s)) = ss_busy_domain_count s"
  "ss_serialized_stopping (fst (refresh_connection_events c s)) = ss_serialized_stopping s"
  "ss_serialized_worker_count (fst (refresh_connection_events c s)) = ss_serialized_worker_count s"
  "ss_max_serialized_concurrency (fst (refresh_connection_events c s)) = ss_max_serialized_concurrency s"
  "ss_reactor_error (fst (refresh_connection_events c s)) = ss_reactor_error s"
  "ss_connections (fst (refresh_connection_events c s)) = ss_connections s"
  "ss_resumed_connections (fst (refresh_connection_events c s)) = ss_resumed_connections s"
  "ss_counters (fst (refresh_connection_events c s)) = ss_counters s"
  "ss_flags (fst (refresh_connection_events c s)) = ss_flags s"
  by (simp_all add: refresh_connection_events_def Let_def split: option.split prod.split)

lemma refresh_cn_frame [simp]:
  "cn_fd (ss_conns (fst (refresh_connection_events c s)) x) = cn_fd (ss_conns s x)"
  "cn_peer (ss_conns (fst (refresh_connection_events c s)) x) = cn_peer (ss_conns s x)"
  "cn_stream_active (ss_conns (fst (refresh_connection_events c s)) x) = cn_stream_active (ss_conns s x)"
  "cn_worker_owned (ss_conns (fst (refresh_connection_events c s)) x) = cn_worker_owned (ss_conns s x)"
  "cn_session_capable (ss_conns (fst (refresh_connection_events c s)) x) = cn_session_capable (ss_conns s x)"
  "cn_wire_version (ss_conns (fst (refresh_connection_events c s)) x) = cn_wire_version (ss_conns s x)"
  "cn_cancellations (ss_conns (fst (refresh_connection_events c s)) x) = cn_cancellations (ss_conns s x)"
  "cn_active_regular (ss_conns (fst (refresh_connection_events c s)) x) = cn_active_regular (ss_conns s x)"
  "cn_pending_serialized (ss_conns (fst (refresh_connection_events c s)) x) = cn_pending_serialized (ss_conns s x)"
  "cn_inflight_requests (ss_conns (fst (refresh_connection_events c s)) x) = cn_inflight_requests (ss_conns s x)"
  "cn_inflight_request_bytes (ss_conns (fst (refresh_connection_events c s)) x) = cn_inflight_request_bytes (ss_conns s x)"
  "cn_last_io_progress (ss_conns (fst (refresh_connection_events c s)) x) = cn_last_io_progress (ss_conns s x)"
  "cn_last_output_progress (ss_conns (fst (refresh_connection_events c s)) x) = cn_last_output_progress (ss_conns s x)"
  "cn_queued_output_bytes (ss_conns (fst (refresh_connection_events c s)) x) = cn_queued_output_bytes (ss_conns s x)"
  "cn_output_queue (ss_conns (fst (refresh_connection_events c s)) x) = cn_output_queue (ss_conns s x)"
  by (simp_all add: refresh_connection_events_def Let_def split: option.split prod.split)

lemma refresh_rc_frame [simp]:
  "rc_conn (ss_rcs (fst (refresh_connection_events c s)) x) = rc_conn (ss_rcs s x)"
  "rc_generation (ss_rcs (fst (refresh_connection_events c s)) x) = rc_generation (ss_rcs s x)"
  "rc_phase (ss_rcs (fst (refresh_connection_events c s)) x) = rc_phase (ss_rcs s x)"
  "rc_header (ss_rcs (fst (refresh_connection_events c s)) x) = rc_header (ss_rcs s x)"
  "rc_header_received (ss_rcs (fst (refresh_connection_events c s)) x) = rc_header_received (ss_rcs s x)"
  "rc_route_buffer (ss_rcs (fst (refresh_connection_events c s)) x) = rc_route_buffer (ss_rcs s x)"
  "rc_body_buffer (ss_rcs (fst (refresh_connection_events c s)) x) = rc_body_buffer (ss_rcs s x)"
  "rc_payload_received (ss_rcs (fst (refresh_connection_events c s)) x) = rc_payload_received (ss_rcs s x)"
  "rc_payload_total (ss_rcs (fst (refresh_connection_events c s)) x) = rc_payload_total (ss_rcs s x)"
  "rc_request_id (ss_rcs (fst (refresh_connection_events c s)) x) = rc_request_id (ss_rcs s x)"
  "rc_request_flags (ss_rcs (fst (refresh_connection_events c s)) x) = rc_request_flags (ss_rcs s x)"
  "rc_arg1 (ss_rcs (fst (refresh_connection_events c s)) x) = rc_arg1 (ss_rcs s x)"
  "rc_arg2 (ss_rcs (fst (refresh_connection_events c s)) x) = rc_arg2 (ss_rcs s x)"
  "rc_reserved_request_bytes (ss_rcs (fst (refresh_connection_events c s)) x) = rc_reserved_request_bytes (ss_rcs s x)"
  "rc_arrival_time (ss_rcs (fst (refresh_connection_events c s)) x) = rc_arrival_time (ss_rcs s x)"
  "rc_deadline (ss_rcs (fst (refresh_connection_events c s)) x) = rc_deadline (ss_rcs s x)"
  "rc_reactor_busy (ss_rcs (fst (refresh_connection_events c s)) x) = rc_reactor_busy (ss_rcs s x)"
  "rc_read_paused (ss_rcs (fst (refresh_connection_events c s)) x) = rc_read_paused (ss_rcs s x)"
  "rc_pending (ss_rcs (fst (refresh_connection_events c s)) x) = rc_pending (ss_rcs s x)"
  "rc_pending_offset (ss_rcs (fst (refresh_connection_events c s)) x) = rc_pending_offset (ss_rcs s x)"
  "rc_received_fds (ss_rcs (fst (refresh_connection_events c s)) x) = rc_received_fds (ss_rcs s x)"
  "rc_capabilities (ss_rcs (fst (refresh_connection_events c s)) x) = rc_capabilities (ss_rcs s x)"
  by (simp_all add: refresh_connection_events_def Let_def split: option.split prod.split)

lemma refresh_closing:
  "cn_closing (ss_conns s x) \<Longrightarrow> cn_closing (ss_conns (fst (refresh_connection_events c s)) x)"
  "x \<noteq> c \<Longrightarrow> ss_conns (fst (refresh_connection_events c s)) x = ss_conns s x"
  by (simp_all add: refresh_connection_events_def Let_def split: option.split prod.split)

lemma refresh_ok_conns:
  "refresh_connection_events c s = (s', True) \<Longrightarrow> ss_conns s' = ss_conns s"
  by (auto simp: refresh_connection_events_def Let_def
      split: option.splits prod.splits if_splits)

lemma queue_if_ready_frame [simp]:
  "ss_socket_path (fst (queue_if_ready r sr)) = ss_socket_path (fst sr)"
  "ss_options (fst (queue_if_ready r sr)) = ss_options (fst sr)"
  "ss_running (fst (queue_if_ready r sr)) = ss_running (fst sr)"
  "ss_active_streams (fst (queue_if_ready r sr)) = ss_active_streams (fst sr)"
  "ss_total_inflight_request_bytes (fst (queue_if_ready r sr)) = ss_total_inflight_request_bytes (fst sr)"
  "ss_total_queued_output_bytes (fst (queue_if_ready r sr)) = ss_total_queued_output_bytes (fst sr)"
  "ss_next_connection_generation (fst (queue_if_ready r sr)) = ss_next_connection_generation (fst sr)"
  "ss_max_concurrent_streams (fst (queue_if_ready r sr)) = ss_max_concurrent_streams (fst sr)"
  "ss_listener_fd (fst (queue_if_ready r sr)) = ss_listener_fd (fst sr)"
  "ss_wakeup_fd (fst (queue_if_ready r sr)) = ss_wakeup_fd (fst sr)"
  "ss_wake_pending (fst (queue_if_ready r sr)) = ss_wake_pending (fst sr)"
  "ss_instance_lock_fd (fst (queue_if_ready r sr)) = ss_instance_lock_fd (fst sr)"
  "ss_readiness_fd (fst (queue_if_ready r sr)) = ss_readiness_fd (fst sr)"
  "ss_socket_device (fst (queue_if_ready r sr)) = ss_socket_device (fst sr)"
  "ss_socket_inode (fst (queue_if_ready r sr)) = ss_socket_inode (fst sr)"
  "ss_socket_identity_valid (fst (queue_if_ready r sr)) = ss_socket_identity_valid (fst sr)"
  "ss_stopped (fst (queue_if_ready r sr)) = ss_stopped (fst sr)"
  "ss_run_started (fst (queue_if_ready r sr)) = ss_run_started (fst sr)"
  "ss_run_active (fst (queue_if_ready r sr)) = ss_run_active (fst sr)"
  "ss_handler_registry (fst (queue_if_ready r sr)) = ss_handler_registry (fst sr)"
  "ss_not_found_handler (fst (queue_if_ready r sr)) = ss_not_found_handler (fst sr)"
  "ss_pending_jobs (fst (queue_if_ready r sr)) = ss_pending_jobs (fst sr)"
  "ss_workers_stopping (fst (queue_if_ready r sr)) = ss_workers_stopping (fst sr)"
  "ss_pending_serialized (fst (queue_if_ready r sr)) = ss_pending_serialized (fst sr)"
  "ss_default_domain (fst (queue_if_ready r sr)) = ss_default_domain (fst sr)"
  "ss_named_domains (fst (queue_if_ready r sr)) = ss_named_domains (fst sr)"
  "ss_active_domain_count (fst (queue_if_ready r sr)) = ss_active_domain_count (fst sr)"
  "ss_busy_domain_count (fst (queue_if_ready r sr)) = ss_busy_domain_count (fst sr)"
  "ss_serialized_stopping (fst (queue_if_ready r sr)) = ss_serialized_stopping (fst sr)"
  "ss_serialized_worker_count (fst (queue_if_ready r sr)) = ss_serialized_worker_count (fst sr)"
  "ss_max_serialized_concurrency (fst (queue_if_ready r sr)) = ss_max_serialized_concurrency (fst sr)"
  "ss_reactor_error (fst (queue_if_ready r sr)) = ss_reactor_error (fst sr)"
  "ss_connections (fst (queue_if_ready r sr)) = ss_connections (fst sr)"
  "ss_counters (fst (queue_if_ready r sr)) = ss_counters (fst sr)"
  "ss_conns (fst (queue_if_ready r sr)) = ss_conns (fst sr)"
  "ss_flags (fst (queue_if_ready r sr)) = ss_flags (fst sr)"
  "ss_world (fst (queue_if_ready r sr)) = ss_world (fst sr)"
  by (simp_all add: queue_if_ready_def split: prod.split)

lemma queue_if_ready_rc_frame [simp]:
  "rc_conn (ss_rcs (fst (queue_if_ready r sr)) x) = rc_conn (ss_rcs (fst sr) x)"
  "rc_generation (ss_rcs (fst (queue_if_ready r sr)) x) = rc_generation (ss_rcs (fst sr) x)"
  "rc_registered_events (ss_rcs (fst (queue_if_ready r sr)) x) = rc_registered_events (ss_rcs (fst sr) x)"
  "rc_phase (ss_rcs (fst (queue_if_ready r sr)) x) = rc_phase (ss_rcs (fst sr) x)"
  "rc_header (ss_rcs (fst (queue_if_ready r sr)) x) = rc_header (ss_rcs (fst sr) x)"
  "rc_header_received (ss_rcs (fst (queue_if_ready r sr)) x) = rc_header_received (ss_rcs (fst sr) x)"
  "rc_route_buffer (ss_rcs (fst (queue_if_ready r sr)) x) = rc_route_buffer (ss_rcs (fst sr) x)"
  "rc_body_buffer (ss_rcs (fst (queue_if_ready r sr)) x) = rc_body_buffer (ss_rcs (fst sr) x)"
  "rc_payload_received (ss_rcs (fst (queue_if_ready r sr)) x) = rc_payload_received (ss_rcs (fst sr) x)"
  "rc_payload_total (ss_rcs (fst (queue_if_ready r sr)) x) = rc_payload_total (ss_rcs (fst sr) x)"
  "rc_request_id (ss_rcs (fst (queue_if_ready r sr)) x) = rc_request_id (ss_rcs (fst sr) x)"
  "rc_request_flags (ss_rcs (fst (queue_if_ready r sr)) x) = rc_request_flags (ss_rcs (fst sr) x)"
  "rc_arg1 (ss_rcs (fst (queue_if_ready r sr)) x) = rc_arg1 (ss_rcs (fst sr) x)"
  "rc_arg2 (ss_rcs (fst (queue_if_ready r sr)) x) = rc_arg2 (ss_rcs (fst sr) x)"
  "rc_reserved_request_bytes (ss_rcs (fst (queue_if_ready r sr)) x) = rc_reserved_request_bytes (ss_rcs (fst sr) x)"
  "rc_arrival_time (ss_rcs (fst (queue_if_ready r sr)) x) = rc_arrival_time (ss_rcs (fst sr) x)"
  "rc_deadline (ss_rcs (fst (queue_if_ready r sr)) x) = rc_deadline (ss_rcs (fst sr) x)"
  "rc_reactor_busy (ss_rcs (fst (queue_if_ready r sr)) x) = rc_reactor_busy (ss_rcs (fst sr) x)"
  "rc_pending (ss_rcs (fst (queue_if_ready r sr)) x) = rc_pending (ss_rcs (fst sr) x)"
  "rc_pending_offset (ss_rcs (fst (queue_if_ready r sr)) x) = rc_pending_offset (ss_rcs (fst sr) x)"
  "rc_received_fds (ss_rcs (fst (queue_if_ready r sr)) x) = rc_received_fds (ss_rcs (fst sr) x)"
  "rc_capabilities (ss_rcs (fst (queue_if_ready r sr)) x) = rc_capabilities (ss_rcs (fst sr) x)"
  by (simp_all add: queue_if_ready_def split: prod.split)

lemma fold_queue_frame [simp]:
  "ss_socket_path (fst (fold (\<lambda>e. queue_if_ready (snd e)) es sr)) = ss_socket_path (fst sr)"
  "ss_options (fst (fold (\<lambda>e. queue_if_ready (snd e)) es sr)) = ss_options (fst sr)"
  "ss_running (fst (fold (\<lambda>e. queue_if_ready (snd e)) es sr)) = ss_running (fst sr)"
  "ss_active_streams (fst (fold (\<lambda>e. queue_if_ready (snd e)) es sr)) = ss_active_streams (fst sr)"
  "ss_total_inflight_request_bytes (fst (fold (\<lambda>e. queue_if_ready (snd e)) es sr)) = ss_total_inflight_request_bytes (fst sr)"
  "ss_total_queued_output_bytes (fst (fold (\<lambda>e. queue_if_ready (snd e)) es sr)) = ss_total_queued_output_bytes (fst sr)"
  "ss_next_connection_generation (fst (fold (\<lambda>e. queue_if_ready (snd e)) es sr)) = ss_next_connection_generation (fst sr)"
  "ss_max_concurrent_streams (fst (fold (\<lambda>e. queue_if_ready (snd e)) es sr)) = ss_max_concurrent_streams (fst sr)"
  "ss_listener_fd (fst (fold (\<lambda>e. queue_if_ready (snd e)) es sr)) = ss_listener_fd (fst sr)"
  "ss_wakeup_fd (fst (fold (\<lambda>e. queue_if_ready (snd e)) es sr)) = ss_wakeup_fd (fst sr)"
  "ss_wake_pending (fst (fold (\<lambda>e. queue_if_ready (snd e)) es sr)) = ss_wake_pending (fst sr)"
  "ss_instance_lock_fd (fst (fold (\<lambda>e. queue_if_ready (snd e)) es sr)) = ss_instance_lock_fd (fst sr)"
  "ss_readiness_fd (fst (fold (\<lambda>e. queue_if_ready (snd e)) es sr)) = ss_readiness_fd (fst sr)"
  "ss_socket_device (fst (fold (\<lambda>e. queue_if_ready (snd e)) es sr)) = ss_socket_device (fst sr)"
  "ss_socket_inode (fst (fold (\<lambda>e. queue_if_ready (snd e)) es sr)) = ss_socket_inode (fst sr)"
  "ss_socket_identity_valid (fst (fold (\<lambda>e. queue_if_ready (snd e)) es sr)) = ss_socket_identity_valid (fst sr)"
  "ss_stopped (fst (fold (\<lambda>e. queue_if_ready (snd e)) es sr)) = ss_stopped (fst sr)"
  "ss_run_started (fst (fold (\<lambda>e. queue_if_ready (snd e)) es sr)) = ss_run_started (fst sr)"
  "ss_run_active (fst (fold (\<lambda>e. queue_if_ready (snd e)) es sr)) = ss_run_active (fst sr)"
  "ss_handler_registry (fst (fold (\<lambda>e. queue_if_ready (snd e)) es sr)) = ss_handler_registry (fst sr)"
  "ss_not_found_handler (fst (fold (\<lambda>e. queue_if_ready (snd e)) es sr)) = ss_not_found_handler (fst sr)"
  "ss_pending_jobs (fst (fold (\<lambda>e. queue_if_ready (snd e)) es sr)) = ss_pending_jobs (fst sr)"
  "ss_workers_stopping (fst (fold (\<lambda>e. queue_if_ready (snd e)) es sr)) = ss_workers_stopping (fst sr)"
  "ss_pending_serialized (fst (fold (\<lambda>e. queue_if_ready (snd e)) es sr)) = ss_pending_serialized (fst sr)"
  "ss_default_domain (fst (fold (\<lambda>e. queue_if_ready (snd e)) es sr)) = ss_default_domain (fst sr)"
  "ss_named_domains (fst (fold (\<lambda>e. queue_if_ready (snd e)) es sr)) = ss_named_domains (fst sr)"
  "ss_active_domain_count (fst (fold (\<lambda>e. queue_if_ready (snd e)) es sr)) = ss_active_domain_count (fst sr)"
  "ss_busy_domain_count (fst (fold (\<lambda>e. queue_if_ready (snd e)) es sr)) = ss_busy_domain_count (fst sr)"
  "ss_serialized_stopping (fst (fold (\<lambda>e. queue_if_ready (snd e)) es sr)) = ss_serialized_stopping (fst sr)"
  "ss_serialized_worker_count (fst (fold (\<lambda>e. queue_if_ready (snd e)) es sr)) = ss_serialized_worker_count (fst sr)"
  "ss_max_serialized_concurrency (fst (fold (\<lambda>e. queue_if_ready (snd e)) es sr)) = ss_max_serialized_concurrency (fst sr)"
  "ss_reactor_error (fst (fold (\<lambda>e. queue_if_ready (snd e)) es sr)) = ss_reactor_error (fst sr)"
  "ss_connections (fst (fold (\<lambda>e. queue_if_ready (snd e)) es sr)) = ss_connections (fst sr)"
  "ss_counters (fst (fold (\<lambda>e. queue_if_ready (snd e)) es sr)) = ss_counters (fst sr)"
  "ss_conns (fst (fold (\<lambda>e. queue_if_ready (snd e)) es sr)) = ss_conns (fst sr)"
  "ss_flags (fst (fold (\<lambda>e. queue_if_ready (snd e)) es sr)) = ss_flags (fst sr)"
  "ss_world (fst (fold (\<lambda>e. queue_if_ready (snd e)) es sr)) = ss_world (fst sr)"
  by (induction es arbitrary: sr) simp_all

lemma fold_queue_rc_frame [simp]:
  "rc_conn (ss_rcs (fst (fold (\<lambda>e. queue_if_ready (snd e)) es sr)) x) = rc_conn (ss_rcs (fst sr) x)"
  "rc_generation (ss_rcs (fst (fold (\<lambda>e. queue_if_ready (snd e)) es sr)) x) = rc_generation (ss_rcs (fst sr) x)"
  "rc_registered_events (ss_rcs (fst (fold (\<lambda>e. queue_if_ready (snd e)) es sr)) x) = rc_registered_events (ss_rcs (fst sr) x)"
  "rc_phase (ss_rcs (fst (fold (\<lambda>e. queue_if_ready (snd e)) es sr)) x) = rc_phase (ss_rcs (fst sr) x)"
  "rc_header (ss_rcs (fst (fold (\<lambda>e. queue_if_ready (snd e)) es sr)) x) = rc_header (ss_rcs (fst sr) x)"
  "rc_header_received (ss_rcs (fst (fold (\<lambda>e. queue_if_ready (snd e)) es sr)) x) = rc_header_received (ss_rcs (fst sr) x)"
  "rc_route_buffer (ss_rcs (fst (fold (\<lambda>e. queue_if_ready (snd e)) es sr)) x) = rc_route_buffer (ss_rcs (fst sr) x)"
  "rc_body_buffer (ss_rcs (fst (fold (\<lambda>e. queue_if_ready (snd e)) es sr)) x) = rc_body_buffer (ss_rcs (fst sr) x)"
  "rc_payload_received (ss_rcs (fst (fold (\<lambda>e. queue_if_ready (snd e)) es sr)) x) = rc_payload_received (ss_rcs (fst sr) x)"
  "rc_payload_total (ss_rcs (fst (fold (\<lambda>e. queue_if_ready (snd e)) es sr)) x) = rc_payload_total (ss_rcs (fst sr) x)"
  "rc_request_id (ss_rcs (fst (fold (\<lambda>e. queue_if_ready (snd e)) es sr)) x) = rc_request_id (ss_rcs (fst sr) x)"
  "rc_request_flags (ss_rcs (fst (fold (\<lambda>e. queue_if_ready (snd e)) es sr)) x) = rc_request_flags (ss_rcs (fst sr) x)"
  "rc_arg1 (ss_rcs (fst (fold (\<lambda>e. queue_if_ready (snd e)) es sr)) x) = rc_arg1 (ss_rcs (fst sr) x)"
  "rc_arg2 (ss_rcs (fst (fold (\<lambda>e. queue_if_ready (snd e)) es sr)) x) = rc_arg2 (ss_rcs (fst sr) x)"
  "rc_reserved_request_bytes (ss_rcs (fst (fold (\<lambda>e. queue_if_ready (snd e)) es sr)) x) = rc_reserved_request_bytes (ss_rcs (fst sr) x)"
  "rc_arrival_time (ss_rcs (fst (fold (\<lambda>e. queue_if_ready (snd e)) es sr)) x) = rc_arrival_time (ss_rcs (fst sr) x)"
  "rc_deadline (ss_rcs (fst (fold (\<lambda>e. queue_if_ready (snd e)) es sr)) x) = rc_deadline (ss_rcs (fst sr) x)"
  "rc_reactor_busy (ss_rcs (fst (fold (\<lambda>e. queue_if_ready (snd e)) es sr)) x) = rc_reactor_busy (ss_rcs (fst sr) x)"
  "rc_pending (ss_rcs (fst (fold (\<lambda>e. queue_if_ready (snd e)) es sr)) x) = rc_pending (ss_rcs (fst sr) x)"
  "rc_pending_offset (ss_rcs (fst (fold (\<lambda>e. queue_if_ready (snd e)) es sr)) x) = rc_pending_offset (ss_rcs (fst sr) x)"
  "rc_received_fds (ss_rcs (fst (fold (\<lambda>e. queue_if_ready (snd e)) es sr)) x) = rc_received_fds (ss_rcs (fst sr) x)"
  "rc_capabilities (ss_rcs (fst (fold (\<lambda>e. queue_if_ready (snd e)) es sr)) x) = rc_capabilities (ss_rcs (fst sr) x)"
  by (induction es arbitrary: sr) simp_all

lemma collect_resumable_frame [simp]:
  "ss_socket_path (fst (collect_resumable c s)) = ss_socket_path s"
  "ss_options (fst (collect_resumable c s)) = ss_options s"
  "ss_running (fst (collect_resumable c s)) = ss_running s"
  "ss_active_streams (fst (collect_resumable c s)) = ss_active_streams s"
  "ss_total_inflight_request_bytes (fst (collect_resumable c s)) = ss_total_inflight_request_bytes s"
  "ss_total_queued_output_bytes (fst (collect_resumable c s)) = ss_total_queued_output_bytes s"
  "ss_next_connection_generation (fst (collect_resumable c s)) = ss_next_connection_generation s"
  "ss_max_concurrent_streams (fst (collect_resumable c s)) = ss_max_concurrent_streams s"
  "ss_listener_fd (fst (collect_resumable c s)) = ss_listener_fd s"
  "ss_wakeup_fd (fst (collect_resumable c s)) = ss_wakeup_fd s"
  "ss_wake_pending (fst (collect_resumable c s)) = ss_wake_pending s"
  "ss_instance_lock_fd (fst (collect_resumable c s)) = ss_instance_lock_fd s"
  "ss_readiness_fd (fst (collect_resumable c s)) = ss_readiness_fd s"
  "ss_socket_device (fst (collect_resumable c s)) = ss_socket_device s"
  "ss_socket_inode (fst (collect_resumable c s)) = ss_socket_inode s"
  "ss_socket_identity_valid (fst (collect_resumable c s)) = ss_socket_identity_valid s"
  "ss_stopped (fst (collect_resumable c s)) = ss_stopped s"
  "ss_run_started (fst (collect_resumable c s)) = ss_run_started s"
  "ss_run_active (fst (collect_resumable c s)) = ss_run_active s"
  "ss_handler_registry (fst (collect_resumable c s)) = ss_handler_registry s"
  "ss_not_found_handler (fst (collect_resumable c s)) = ss_not_found_handler s"
  "ss_pending_jobs (fst (collect_resumable c s)) = ss_pending_jobs s"
  "ss_workers_stopping (fst (collect_resumable c s)) = ss_workers_stopping s"
  "ss_pending_serialized (fst (collect_resumable c s)) = ss_pending_serialized s"
  "ss_default_domain (fst (collect_resumable c s)) = ss_default_domain s"
  "ss_named_domains (fst (collect_resumable c s)) = ss_named_domains s"
  "ss_active_domain_count (fst (collect_resumable c s)) = ss_active_domain_count s"
  "ss_busy_domain_count (fst (collect_resumable c s)) = ss_busy_domain_count s"
  "ss_serialized_stopping (fst (collect_resumable c s)) = ss_serialized_stopping s"
  "ss_serialized_worker_count (fst (collect_resumable c s)) = ss_serialized_worker_count s"
  "ss_max_serialized_concurrency (fst (collect_resumable c s)) = ss_max_serialized_concurrency s"
  "ss_reactor_error (fst (collect_resumable c s)) = ss_reactor_error s"
  "ss_connections (fst (collect_resumable c s)) = ss_connections s"
  "ss_counters (fst (collect_resumable c s)) = ss_counters s"
  "ss_conns (fst (collect_resumable c s)) = ss_conns s"
  "ss_flags (fst (collect_resumable c s)) = ss_flags s"
  "ss_world (fst (collect_resumable c s)) = ss_world s"
  by (simp_all add: collect_resumable_def split: option.split)

lemma collect_resumable_rc_frame [simp]:
  "rc_conn (ss_rcs (fst (collect_resumable c s)) x) = rc_conn (ss_rcs s x)"
  "rc_generation (ss_rcs (fst (collect_resumable c s)) x) = rc_generation (ss_rcs s x)"
  "rc_registered_events (ss_rcs (fst (collect_resumable c s)) x) = rc_registered_events (ss_rcs s x)"
  "rc_phase (ss_rcs (fst (collect_resumable c s)) x) = rc_phase (ss_rcs s x)"
  "rc_header (ss_rcs (fst (collect_resumable c s)) x) = rc_header (ss_rcs s x)"
  "rc_header_received (ss_rcs (fst (collect_resumable c s)) x) = rc_header_received (ss_rcs s x)"
  "rc_route_buffer (ss_rcs (fst (collect_resumable c s)) x) = rc_route_buffer (ss_rcs s x)"
  "rc_body_buffer (ss_rcs (fst (collect_resumable c s)) x) = rc_body_buffer (ss_rcs s x)"
  "rc_payload_received (ss_rcs (fst (collect_resumable c s)) x) = rc_payload_received (ss_rcs s x)"
  "rc_payload_total (ss_rcs (fst (collect_resumable c s)) x) = rc_payload_total (ss_rcs s x)"
  "rc_request_id (ss_rcs (fst (collect_resumable c s)) x) = rc_request_id (ss_rcs s x)"
  "rc_request_flags (ss_rcs (fst (collect_resumable c s)) x) = rc_request_flags (ss_rcs s x)"
  "rc_arg1 (ss_rcs (fst (collect_resumable c s)) x) = rc_arg1 (ss_rcs s x)"
  "rc_arg2 (ss_rcs (fst (collect_resumable c s)) x) = rc_arg2 (ss_rcs s x)"
  "rc_reserved_request_bytes (ss_rcs (fst (collect_resumable c s)) x) = rc_reserved_request_bytes (ss_rcs s x)"
  "rc_arrival_time (ss_rcs (fst (collect_resumable c s)) x) = rc_arrival_time (ss_rcs s x)"
  "rc_deadline (ss_rcs (fst (collect_resumable c s)) x) = rc_deadline (ss_rcs s x)"
  "rc_reactor_busy (ss_rcs (fst (collect_resumable c s)) x) = rc_reactor_busy (ss_rcs s x)"
  "rc_pending (ss_rcs (fst (collect_resumable c s)) x) = rc_pending (ss_rcs s x)"
  "rc_pending_offset (ss_rcs (fst (collect_resumable c s)) x) = rc_pending_offset (ss_rcs s x)"
  "rc_received_fds (ss_rcs (fst (collect_resumable c s)) x) = rc_received_fds (ss_rcs s x)"
  "rc_capabilities (ss_rcs (fst (collect_resumable c s)) x) = rc_capabilities (ss_rcs s x)"
  by (simp_all add: collect_resumable_def split: option.split)

lemma fold_refresh_frame [simp]:
  "ss_socket_path (fold (\<lambda>c s. fst (refresh_connection_events c s)) cs s) = ss_socket_path s"
  "ss_options (fold (\<lambda>c s. fst (refresh_connection_events c s)) cs s) = ss_options s"
  "ss_running (fold (\<lambda>c s. fst (refresh_connection_events c s)) cs s) = ss_running s"
  "ss_active_streams (fold (\<lambda>c s. fst (refresh_connection_events c s)) cs s) = ss_active_streams s"
  "ss_total_inflight_request_bytes (fold (\<lambda>c s. fst (refresh_connection_events c s)) cs s) = ss_total_inflight_request_bytes s"
  "ss_total_queued_output_bytes (fold (\<lambda>c s. fst (refresh_connection_events c s)) cs s) = ss_total_queued_output_bytes s"
  "ss_next_connection_generation (fold (\<lambda>c s. fst (refresh_connection_events c s)) cs s) = ss_next_connection_generation s"
  "ss_max_concurrent_streams (fold (\<lambda>c s. fst (refresh_connection_events c s)) cs s) = ss_max_concurrent_streams s"
  "ss_listener_fd (fold (\<lambda>c s. fst (refresh_connection_events c s)) cs s) = ss_listener_fd s"
  "ss_wakeup_fd (fold (\<lambda>c s. fst (refresh_connection_events c s)) cs s) = ss_wakeup_fd s"
  "ss_wake_pending (fold (\<lambda>c s. fst (refresh_connection_events c s)) cs s) = ss_wake_pending s"
  "ss_instance_lock_fd (fold (\<lambda>c s. fst (refresh_connection_events c s)) cs s) = ss_instance_lock_fd s"
  "ss_readiness_fd (fold (\<lambda>c s. fst (refresh_connection_events c s)) cs s) = ss_readiness_fd s"
  "ss_socket_device (fold (\<lambda>c s. fst (refresh_connection_events c s)) cs s) = ss_socket_device s"
  "ss_socket_inode (fold (\<lambda>c s. fst (refresh_connection_events c s)) cs s) = ss_socket_inode s"
  "ss_socket_identity_valid (fold (\<lambda>c s. fst (refresh_connection_events c s)) cs s) = ss_socket_identity_valid s"
  "ss_stopped (fold (\<lambda>c s. fst (refresh_connection_events c s)) cs s) = ss_stopped s"
  "ss_run_started (fold (\<lambda>c s. fst (refresh_connection_events c s)) cs s) = ss_run_started s"
  "ss_run_active (fold (\<lambda>c s. fst (refresh_connection_events c s)) cs s) = ss_run_active s"
  "ss_handler_registry (fold (\<lambda>c s. fst (refresh_connection_events c s)) cs s) = ss_handler_registry s"
  "ss_not_found_handler (fold (\<lambda>c s. fst (refresh_connection_events c s)) cs s) = ss_not_found_handler s"
  "ss_pending_jobs (fold (\<lambda>c s. fst (refresh_connection_events c s)) cs s) = ss_pending_jobs s"
  "ss_workers_stopping (fold (\<lambda>c s. fst (refresh_connection_events c s)) cs s) = ss_workers_stopping s"
  "ss_pending_serialized (fold (\<lambda>c s. fst (refresh_connection_events c s)) cs s) = ss_pending_serialized s"
  "ss_default_domain (fold (\<lambda>c s. fst (refresh_connection_events c s)) cs s) = ss_default_domain s"
  "ss_named_domains (fold (\<lambda>c s. fst (refresh_connection_events c s)) cs s) = ss_named_domains s"
  "ss_active_domain_count (fold (\<lambda>c s. fst (refresh_connection_events c s)) cs s) = ss_active_domain_count s"
  "ss_busy_domain_count (fold (\<lambda>c s. fst (refresh_connection_events c s)) cs s) = ss_busy_domain_count s"
  "ss_serialized_stopping (fold (\<lambda>c s. fst (refresh_connection_events c s)) cs s) = ss_serialized_stopping s"
  "ss_serialized_worker_count (fold (\<lambda>c s. fst (refresh_connection_events c s)) cs s) = ss_serialized_worker_count s"
  "ss_max_serialized_concurrency (fold (\<lambda>c s. fst (refresh_connection_events c s)) cs s) = ss_max_serialized_concurrency s"
  "ss_reactor_error (fold (\<lambda>c s. fst (refresh_connection_events c s)) cs s) = ss_reactor_error s"
  "ss_connections (fold (\<lambda>c s. fst (refresh_connection_events c s)) cs s) = ss_connections s"
  "ss_resumed_connections (fold (\<lambda>c s. fst (refresh_connection_events c s)) cs s) = ss_resumed_connections s"
  "ss_counters (fold (\<lambda>c s. fst (refresh_connection_events c s)) cs s) = ss_counters s"
  "ss_flags (fold (\<lambda>c s. fst (refresh_connection_events c s)) cs s) = ss_flags s"
  by (induction cs arbitrary: s) simp_all

lemma fold_refresh_cn_frame [simp]:
  "cn_fd (ss_conns (fold (\<lambda>c s. fst (refresh_connection_events c s)) cs s) x) = cn_fd (ss_conns s x)"
  "cn_peer (ss_conns (fold (\<lambda>c s. fst (refresh_connection_events c s)) cs s) x) = cn_peer (ss_conns s x)"
  "cn_stream_active (ss_conns (fold (\<lambda>c s. fst (refresh_connection_events c s)) cs s) x) = cn_stream_active (ss_conns s x)"
  "cn_worker_owned (ss_conns (fold (\<lambda>c s. fst (refresh_connection_events c s)) cs s) x) = cn_worker_owned (ss_conns s x)"
  "cn_session_capable (ss_conns (fold (\<lambda>c s. fst (refresh_connection_events c s)) cs s) x) = cn_session_capable (ss_conns s x)"
  "cn_wire_version (ss_conns (fold (\<lambda>c s. fst (refresh_connection_events c s)) cs s) x) = cn_wire_version (ss_conns s x)"
  "cn_cancellations (ss_conns (fold (\<lambda>c s. fst (refresh_connection_events c s)) cs s) x) = cn_cancellations (ss_conns s x)"
  "cn_active_regular (ss_conns (fold (\<lambda>c s. fst (refresh_connection_events c s)) cs s) x) = cn_active_regular (ss_conns s x)"
  "cn_pending_serialized (ss_conns (fold (\<lambda>c s. fst (refresh_connection_events c s)) cs s) x) = cn_pending_serialized (ss_conns s x)"
  "cn_inflight_requests (ss_conns (fold (\<lambda>c s. fst (refresh_connection_events c s)) cs s) x) = cn_inflight_requests (ss_conns s x)"
  "cn_inflight_request_bytes (ss_conns (fold (\<lambda>c s. fst (refresh_connection_events c s)) cs s) x) = cn_inflight_request_bytes (ss_conns s x)"
  "cn_last_io_progress (ss_conns (fold (\<lambda>c s. fst (refresh_connection_events c s)) cs s) x) = cn_last_io_progress (ss_conns s x)"
  "cn_last_output_progress (ss_conns (fold (\<lambda>c s. fst (refresh_connection_events c s)) cs s) x) = cn_last_output_progress (ss_conns s x)"
  "cn_queued_output_bytes (ss_conns (fold (\<lambda>c s. fst (refresh_connection_events c s)) cs s) x) = cn_queued_output_bytes (ss_conns s x)"
  "cn_output_queue (ss_conns (fold (\<lambda>c s. fst (refresh_connection_events c s)) cs s) x) = cn_output_queue (ss_conns s x)"
  by (induction cs arbitrary: s) simp_all

lemma fold_refresh_rc_frame [simp]:
  "rc_conn (ss_rcs (fold (\<lambda>c s. fst (refresh_connection_events c s)) cs s) x) = rc_conn (ss_rcs s x)"
  "rc_generation (ss_rcs (fold (\<lambda>c s. fst (refresh_connection_events c s)) cs s) x) = rc_generation (ss_rcs s x)"
  "rc_phase (ss_rcs (fold (\<lambda>c s. fst (refresh_connection_events c s)) cs s) x) = rc_phase (ss_rcs s x)"
  "rc_header (ss_rcs (fold (\<lambda>c s. fst (refresh_connection_events c s)) cs s) x) = rc_header (ss_rcs s x)"
  "rc_header_received (ss_rcs (fold (\<lambda>c s. fst (refresh_connection_events c s)) cs s) x) = rc_header_received (ss_rcs s x)"
  "rc_route_buffer (ss_rcs (fold (\<lambda>c s. fst (refresh_connection_events c s)) cs s) x) = rc_route_buffer (ss_rcs s x)"
  "rc_body_buffer (ss_rcs (fold (\<lambda>c s. fst (refresh_connection_events c s)) cs s) x) = rc_body_buffer (ss_rcs s x)"
  "rc_payload_received (ss_rcs (fold (\<lambda>c s. fst (refresh_connection_events c s)) cs s) x) = rc_payload_received (ss_rcs s x)"
  "rc_payload_total (ss_rcs (fold (\<lambda>c s. fst (refresh_connection_events c s)) cs s) x) = rc_payload_total (ss_rcs s x)"
  "rc_request_id (ss_rcs (fold (\<lambda>c s. fst (refresh_connection_events c s)) cs s) x) = rc_request_id (ss_rcs s x)"
  "rc_request_flags (ss_rcs (fold (\<lambda>c s. fst (refresh_connection_events c s)) cs s) x) = rc_request_flags (ss_rcs s x)"
  "rc_arg1 (ss_rcs (fold (\<lambda>c s. fst (refresh_connection_events c s)) cs s) x) = rc_arg1 (ss_rcs s x)"
  "rc_arg2 (ss_rcs (fold (\<lambda>c s. fst (refresh_connection_events c s)) cs s) x) = rc_arg2 (ss_rcs s x)"
  "rc_reserved_request_bytes (ss_rcs (fold (\<lambda>c s. fst (refresh_connection_events c s)) cs s) x) = rc_reserved_request_bytes (ss_rcs s x)"
  "rc_arrival_time (ss_rcs (fold (\<lambda>c s. fst (refresh_connection_events c s)) cs s) x) = rc_arrival_time (ss_rcs s x)"
  "rc_deadline (ss_rcs (fold (\<lambda>c s. fst (refresh_connection_events c s)) cs s) x) = rc_deadline (ss_rcs s x)"
  "rc_reactor_busy (ss_rcs (fold (\<lambda>c s. fst (refresh_connection_events c s)) cs s) x) = rc_reactor_busy (ss_rcs s x)"
  "rc_read_paused (ss_rcs (fold (\<lambda>c s. fst (refresh_connection_events c s)) cs s) x) = rc_read_paused (ss_rcs s x)"
  "rc_pending (ss_rcs (fold (\<lambda>c s. fst (refresh_connection_events c s)) cs s) x) = rc_pending (ss_rcs s x)"
  "rc_pending_offset (ss_rcs (fold (\<lambda>c s. fst (refresh_connection_events c s)) cs s) x) = rc_pending_offset (ss_rcs s x)"
  "rc_received_fds (ss_rcs (fold (\<lambda>c s. fst (refresh_connection_events c s)) cs s) x) = rc_received_fds (ss_rcs s x)"
  "rc_capabilities (ss_rcs (fold (\<lambda>c s. fst (refresh_connection_events c s)) cs s) x) = rc_capabilities (ss_rcs s x)"
  by (induction cs arbitrary: s) simp_all

lemma fold_refresh_closing:
  "cn_closing (ss_conns s x) \<Longrightarrow> cn_closing (ss_conns (fold (\<lambda>c s. fst (refresh_connection_events c s)) cs s) x)"
  by (induction cs arbitrary: s) (simp_all add: refresh_closing)

lemma resume_frame [simp]:
  "ss_socket_path (resume_paused_connections c s) = ss_socket_path s"
  "ss_options (resume_paused_connections c s) = ss_options s"
  "ss_running (resume_paused_connections c s) = ss_running s"
  "ss_active_streams (resume_paused_connections c s) = ss_active_streams s"
  "ss_total_inflight_request_bytes (resume_paused_connections c s) = ss_total_inflight_request_bytes s"
  "ss_total_queued_output_bytes (resume_paused_connections c s) = ss_total_queued_output_bytes s"
  "ss_next_connection_generation (resume_paused_connections c s) = ss_next_connection_generation s"
  "ss_max_concurrent_streams (resume_paused_connections c s) = ss_max_concurrent_streams s"
  "ss_listener_fd (resume_paused_connections c s) = ss_listener_fd s"
  "ss_wakeup_fd (resume_paused_connections c s) = ss_wakeup_fd s"
  "ss_instance_lock_fd (resume_paused_connections c s) = ss_instance_lock_fd s"
  "ss_readiness_fd (resume_paused_connections c s) = ss_readiness_fd s"
  "ss_socket_device (resume_paused_connections c s) = ss_socket_device s"
  "ss_socket_inode (resume_paused_connections c s) = ss_socket_inode s"
  "ss_socket_identity_valid (resume_paused_connections c s) = ss_socket_identity_valid s"
  "ss_stopped (resume_paused_connections c s) = ss_stopped s"
  "ss_run_started (resume_paused_connections c s) = ss_run_started s"
  "ss_run_active (resume_paused_connections c s) = ss_run_active s"
  "ss_handler_registry (resume_paused_connections c s) = ss_handler_registry s"
  "ss_not_found_handler (resume_paused_connections c s) = ss_not_found_handler s"
  "ss_pending_jobs (resume_paused_connections c s) = ss_pending_jobs s"
  "ss_workers_stopping (resume_paused_connections c s) = ss_workers_stopping s"
  "ss_pending_serialized (resume_paused_connections c s) = ss_pending_serialized s"
  "ss_default_domain (resume_paused_connections c s) = ss_default_domain s"
  "ss_named_domains (resume_paused_connections c s) = ss_named_domains s"
  "ss_active_domain_count (resume_paused_connections c s) = ss_active_domain_count s"
  "ss_busy_domain_count (resume_paused_connections c s) = ss_busy_domain_count s"
  "ss_serialized_stopping (resume_paused_connections c s) = ss_serialized_stopping s"
  "ss_serialized_worker_count (resume_paused_connections c s) = ss_serialized_worker_count s"
  "ss_max_serialized_concurrency (resume_paused_connections c s) = ss_max_serialized_concurrency s"
  "ss_reactor_error (resume_paused_connections c s) = ss_reactor_error s"
  "ss_connections (resume_paused_connections c s) = ss_connections s"
  "ss_counters (resume_paused_connections c s) = ss_counters s"
  "ss_flags (resume_paused_connections c s) = ss_flags s"
  by (simp_all add: resume_paused_connections_def Let_def case_prod_beta)

lemma resume_cn_frame [simp]:
  "cn_fd (ss_conns (resume_paused_connections c s) x) = cn_fd (ss_conns s x)"
  "cn_peer (ss_conns (resume_paused_connections c s) x) = cn_peer (ss_conns s x)"
  "cn_stream_active (ss_conns (resume_paused_connections c s) x) = cn_stream_active (ss_conns s x)"
  "cn_worker_owned (ss_conns (resume_paused_connections c s) x) = cn_worker_owned (ss_conns s x)"
  "cn_session_capable (ss_conns (resume_paused_connections c s) x) = cn_session_capable (ss_conns s x)"
  "cn_wire_version (ss_conns (resume_paused_connections c s) x) = cn_wire_version (ss_conns s x)"
  "cn_cancellations (ss_conns (resume_paused_connections c s) x) = cn_cancellations (ss_conns s x)"
  "cn_active_regular (ss_conns (resume_paused_connections c s) x) = cn_active_regular (ss_conns s x)"
  "cn_pending_serialized (ss_conns (resume_paused_connections c s) x) = cn_pending_serialized (ss_conns s x)"
  "cn_inflight_requests (ss_conns (resume_paused_connections c s) x) = cn_inflight_requests (ss_conns s x)"
  "cn_inflight_request_bytes (ss_conns (resume_paused_connections c s) x) = cn_inflight_request_bytes (ss_conns s x)"
  "cn_last_io_progress (ss_conns (resume_paused_connections c s) x) = cn_last_io_progress (ss_conns s x)"
  "cn_last_output_progress (ss_conns (resume_paused_connections c s) x) = cn_last_output_progress (ss_conns s x)"
  "cn_queued_output_bytes (ss_conns (resume_paused_connections c s) x) = cn_queued_output_bytes (ss_conns s x)"
  "cn_output_queue (ss_conns (resume_paused_connections c s) x) = cn_output_queue (ss_conns s x)"
  by (simp_all add: resume_paused_connections_def Let_def case_prod_beta)

lemma resume_rc_frame [simp]:
  "rc_conn (ss_rcs (resume_paused_connections c s) x) = rc_conn (ss_rcs s x)"
  "rc_generation (ss_rcs (resume_paused_connections c s) x) = rc_generation (ss_rcs s x)"
  "rc_phase (ss_rcs (resume_paused_connections c s) x) = rc_phase (ss_rcs s x)"
  "rc_header (ss_rcs (resume_paused_connections c s) x) = rc_header (ss_rcs s x)"
  "rc_header_received (ss_rcs (resume_paused_connections c s) x) = rc_header_received (ss_rcs s x)"
  "rc_route_buffer (ss_rcs (resume_paused_connections c s) x) = rc_route_buffer (ss_rcs s x)"
  "rc_body_buffer (ss_rcs (resume_paused_connections c s) x) = rc_body_buffer (ss_rcs s x)"
  "rc_payload_received (ss_rcs (resume_paused_connections c s) x) = rc_payload_received (ss_rcs s x)"
  "rc_payload_total (ss_rcs (resume_paused_connections c s) x) = rc_payload_total (ss_rcs s x)"
  "rc_request_id (ss_rcs (resume_paused_connections c s) x) = rc_request_id (ss_rcs s x)"
  "rc_request_flags (ss_rcs (resume_paused_connections c s) x) = rc_request_flags (ss_rcs s x)"
  "rc_arg1 (ss_rcs (resume_paused_connections c s) x) = rc_arg1 (ss_rcs s x)"
  "rc_arg2 (ss_rcs (resume_paused_connections c s) x) = rc_arg2 (ss_rcs s x)"
  "rc_reserved_request_bytes (ss_rcs (resume_paused_connections c s) x) = rc_reserved_request_bytes (ss_rcs s x)"
  "rc_arrival_time (ss_rcs (resume_paused_connections c s) x) = rc_arrival_time (ss_rcs s x)"
  "rc_deadline (ss_rcs (resume_paused_connections c s) x) = rc_deadline (ss_rcs s x)"
  "rc_reactor_busy (ss_rcs (resume_paused_connections c s) x) = rc_reactor_busy (ss_rcs s x)"
  "rc_pending (ss_rcs (resume_paused_connections c s) x) = rc_pending (ss_rcs s x)"
  "rc_pending_offset (ss_rcs (resume_paused_connections c s) x) = rc_pending_offset (ss_rcs s x)"
  "rc_received_fds (ss_rcs (resume_paused_connections c s) x) = rc_received_fds (ss_rcs s x)"
  "rc_capabilities (ss_rcs (resume_paused_connections c s) x) = rc_capabilities (ss_rcs s x)"
  by (simp_all add: resume_paused_connections_def Let_def case_prod_beta)

lemma resume_closing:
  "cn_closing (ss_conns s x) \<Longrightarrow> cn_closing (ss_conns (resume_paused_connections c s) x)"
  by (simp add: resume_paused_connections_def Let_def case_prod_beta fold_refresh_closing)

end
