(* ===== verification/FlowLimits.thy ===== *)
theory FlowLimits
  imports FlowFrames
begin

text \<open>
  Properties of the admission of request bytes: a reservation is all or nothing, the counters
  are exactly what unfinished requests hold and respect the limits, giving bytes back resumes
  exactly the connections that may resume; and one interleaving in which a pause is never undone.
\<close>

subsection \<open>Reservations\<close>

lemma conn_upd_conn_upd: "conn_upd c f (conn_upd c g s) = conn_upd c (\<lambda>cn. f (g cn)) s"
  by (simp add: conn_upd_def)

lemma conn_upd_id: "f (ss_conns s c) = ss_conns s c \<Longrightarrow> conn_upd c f s = s"
  by (simp add: conn_upd_def)

text \<open>The counters and limits are values of \<^verbatim>\<open>std::size_t\<close>.\<close>

definition flow_sized :: "ServerState \<Rightarrow> bool" where
  "flow_sized s \<longleftrightarrow> ss_total_inflight_request_bytes s \<le> sz_max \<and>
     (\<forall>c. cn_inflight_request_bytes (ss_conns s c) \<le> sz_max) \<and>
     inflight_byte_limit s \<le> sz_max \<and> so_max_total_inflight_bytes (ss_options s) \<le> sz_max"

lemma sub_add_inflight:
  "cn_inflight_request_bytes cn \<le> sz_max \<Longrightarrow> n \<le> sz_max \<Longrightarrow>
     sub_inflight n (add_inflight n cn) = cn"
  by (simp add: sub_inflight_def add_inflight_def sz_sub_self_add)

definition admits :: "nat \<Rightarrow> nat \<Rightarrow> ServerState \<Rightarrow> bool" where
  "admits c n s \<longleftrightarrow> cn_inflight_request_bytes (ss_conns s c) + n \<le> inflight_byte_limit s \<and>
     ss_total_inflight_request_bytes s + n \<le> so_max_total_inflight_bytes (ss_options s)"

lemma try_reserve_eq:
  assumes "flow_sized s" "0 < n" "n \<le> sz_max"
  shows "try_reserve_connection_request_bytes c n s =
     (if admits c n s
      then ((conn_upd c (\<lambda>cn. cn\<lparr>cn_inflight_request_bytes := cn_inflight_request_bytes cn + n\<rparr>) s)
              \<lparr>ss_total_inflight_request_bytes := ss_total_inflight_request_bytes s + n\<rparr>, True)
      else (s, False))"
proof -
  let ?b = "cn_inflight_request_bytes (ss_conns s c)" and ?l = "inflight_byte_limit s"
  have sized: "?b \<le> sz_max" "?l \<le> sz_max" "ss_total_inflight_request_bytes s \<le> sz_max"
    "so_max_total_inflight_bytes (ss_options s) \<le> sz_max"
    using assms(1) by (simp_all add: flow_sized_def)
  show ?thesis
  proof (cases "?b + n \<le> ?l")
    case False
    then have "reserve_connection c n s = (s, False)"
      using assms(2) by (auto simp: reserve_connection_def Let_def min_def)
    then show ?thesis
      using assms(2) False by (simp add: try_reserve_connection_request_bytes_def admits_def)
  next
    case True
    then have r: "reserve_connection c n s = (conn_upd c (add_inflight n) s, True)"
      by (auto simp: reserve_connection_def Let_def min_def)
    have undo: "conn_upd c (sub_inflight n) (conn_upd c (add_inflight n) s) = s"
      using sized(1) assms(3) by (simp add: conn_upd_conn_upd conn_upd_id sub_add_inflight)
    have "add_inflight n (ss_conns s c) = (ss_conns s c)\<lparr>cn_inflight_request_bytes := ?b + n\<rparr>"
      using True sized by (simp add: add_inflight_def sz_add_le)
    then have a: "conn_upd c (add_inflight n) s =
        conn_upd c (\<lambda>cn. cn\<lparr>cn_inflight_request_bytes := cn_inflight_request_bytes cn + n\<rparr>) s"
      by (simp add: conn_upd_def)
    show ?thesis
    proof (cases "ss_total_inflight_request_bytes s + n \<le> so_max_total_inflight_bytes (ss_options s)")
      case ok: True
      then have g: "sz_add (ss_total_inflight_request_bytes s) n = ss_total_inflight_request_bytes s + n"
        using sized(4) by (intro sz_add_le) simp
      have "ss_total_inflight_request_bytes s \<le> so_max_total_inflight_bytes (ss_options s)"
        "n \<le> so_max_total_inflight_bytes (ss_options s) - ss_total_inflight_request_bytes s"
        using ok by linarith+
      then have "reserve_global n (conn_upd c (add_inflight n) s) =
          ((conn_upd c (add_inflight n) s)
             \<lparr>ss_total_inflight_request_bytes := ss_total_inflight_request_bytes s + n\<rparr>, True)"
        using g by (simp add: reserve_global_def)
      moreover have "admits c n s" using ok True by (simp add: admits_def)
      ultimately show ?thesis
        using assms(2) r unfolding try_reserve_connection_request_bytes_def a by simp
    next
      case False
      then have "\<not> (ss_total_inflight_request_bytes s \<le> so_max_total_inflight_bytes (ss_options s) \<and>
          n \<le> so_max_total_inflight_bytes (ss_options s) - ss_total_inflight_request_bytes s)"
        by linarith
      then have "reserve_global n (conn_upd c (add_inflight n) s) = (conn_upd c (add_inflight n) s, False)"
        by (simp add: reserve_global_def Let_def)
      moreover have "\<not> admits c n s" using False by (simp add: admits_def)
      ultimately show ?thesis
        using assms(2) r undo by (simp add: try_reserve_connection_request_bytes_def)
    qed
  qed
qed

text \<open>
  A reservation is granted exactly when the bytes fit both the connection's limit and the
  aggregate limit; a granted one adds the bytes to both counters without wrap-around, and a
  refused one leaves the whole state unchanged.
\<close>

theorem try_reserve_spec:
  assumes "flow_sized s" "0 < n" "n \<le> sz_max"
  shows "try_reserve_connection_request_bytes c n s =
     (if admits c n s
      then ((conn_upd c (\<lambda>cn. cn\<lparr>cn_inflight_request_bytes := cn_inflight_request_bytes cn + n\<rparr>) s)
              \<lparr>ss_total_inflight_request_bytes := ss_total_inflight_request_bytes s + n\<rparr>, True)
      else (s, False))"
  using assms by (rule try_reserve_eq)

definition strict_options :: ServerOptions where
  "strict_options = default_server_options
     \<lparr>so_max_message_size := 4, so_max_total_inflight_bytes := 10,
      so_max_inflight_request_bytes_per_connection := 8\<rparr>"

lemma blank_flow_sized: "flow_sized (blank_state strict_options)"
  by (simp add: flow_sized_def blank_state_def new_connection_def inflight_byte_limit_def
      strict_options_def sz_max_def)

lemma try_reserve_spec_witness:
  "flow_sized (blank_state strict_options) \<and>
   snd (try_reserve_connection_request_bytes 0 8 (blank_state strict_options)) \<and>
   \<not> snd (try_reserve_connection_request_bytes 0 9 (blank_state strict_options))"
  using blank_flow_sized try_reserve_spec [OF blank_flow_sized, of 8 0]
    try_reserve_spec [OF blank_flow_sized, of 9 0]
  by (simp add: admits_def blank_state_def new_connection_def inflight_byte_limit_def
      strict_options_def sz_max_def)

lemma strict_sample_reserves:
  "snd (try_reserve_connection_request_bytes 0 8 (blank_state strict_options))"
  using try_reserve_eq [OF blank_flow_sized, of 8 0]
  by (simp add: admits_def blank_state_def new_connection_def inflight_byte_limit_def
      strict_options_def sz_max_def)

subsection \<open>The accounting ledger\<close>

text \<open>
  A ledger lists the bytes each admitted request still holds, with its connection. The steps are
  the accounting operations as the callers use them: in strict mode a request's bytes are
  reserved before they are read and only the request is counted at dispatch; otherwise request
  and bytes are counted at dispatch; a finished or abandoned request gives back exactly what it
  holds. Every other operation of the server leaves the counters alone.
\<close>

type_synonym ledger = "(nat \<times> nat) list"

definition strict :: "ServerState \<Rightarrow> bool" where
  "strict s \<longleftrightarrow> so_max_total_inflight_bytes (ss_options s) \<noteq> 0"

definition same_accounting :: "ServerState \<Rightarrow> ServerState \<Rightarrow> bool" where
  "same_accounting s s' \<longleftrightarrow> ss_options s' = ss_options s \<and>
     ss_total_inflight_request_bytes s' = ss_total_inflight_request_bytes s \<and>
     (\<forall>c. cn_inflight_request_bytes (ss_conns s' c) = cn_inflight_request_bytes (ss_conns s c))"

inductive flow_step :: "ServerState \<times> ledger \<Rightarrow> ServerState \<times> ledger \<Rightarrow> bool" where
  reserve: "strict s \<Longrightarrow> 0 < n \<Longrightarrow> n \<le> sz_max \<Longrightarrow>
    try_reserve_connection_request_bytes c n s = (s', True) \<Longrightarrow>
    flow_step (s, l) (s', (c, n) # l)"
| refuse: "0 < n \<Longrightarrow> n \<le> sz_max \<Longrightarrow>
    try_reserve_connection_request_bytes c n s = (s', False) \<Longrightarrow> flow_step (s, l) (s', l)"
| account: "\<not> strict s \<Longrightarrow> flow_step (s, l) (account_connection_request c n s, (c, n) # l)"
| account_count: "flow_step (s, l) (account_connection_request_count c s, l)"
| release_bytes: "(c, n) \<in> set l \<Longrightarrow>
    flow_step (s, l) (release_connection_request_bytes c n s, remove1 (c, n) l)"
| release_request: "(c, n) \<in> set l \<Longrightarrow>
    flow_step (s, l) (release_connection_request c n s, remove1 (c, n) l)"
| other: "same_accounting s s' \<Longrightarrow> flow_step (s, l) (s', l)"

definition held :: "ledger \<Rightarrow> nat" where
  "held l = sum_list (map snd l)"

definition held_by :: "nat \<Rightarrow> ledger \<Rightarrow> nat" where
  "held_by c l = held (filter (\<lambda>e. fst e = c) l)"

lemma held_simps [simp]:
  "held [] = 0" "held ((c, n) # l) = n + held l"
  "held_by c [] = 0" "held_by c ((d, n) # l) = (if d = c then n + held_by c l else held_by c l)"
  by (simp_all add: held_def held_by_def)

lemma held_remove1: "(c, n) \<in> set l \<Longrightarrow> held l = n + held (remove1 (c, n) l)"
  by (induction l) (auto simp: held_def)

lemma held_by_remove1:
  "(c, n) \<in> set l \<Longrightarrow>
     held_by d l = (if c = d then n else 0) + held_by d (remove1 (c, n) l)"
proof (induction l)
  case (Cons a l)
  show ?case
  proof (cases "a = (c, n)")
    case False
    then have "held_by d l = (if c = d then n else 0) + held_by d (remove1 (c, n) l)"
      "remove1 (c, n) (a # l) = a # remove1 (c, n) l"
      using Cons by auto
    then show ?thesis by (cases a) simp
  qed simp
qed simp

text \<open>
  The counters are the ledger's sums as \<^verbatim>\<open>std::size_t\<close> sees them; in strict mode the sums also
  respect the limits.
\<close>

definition ledger_ok :: "ServerState \<times> ledger \<Rightarrow> bool" where
  "ledger_ok sl \<longleftrightarrow> (case sl of (s, l) \<Rightarrow>
     inflight_byte_limit s \<le> sz_max \<and> so_max_total_inflight_bytes (ss_options s) \<le> sz_max \<and>
     ss_total_inflight_request_bytes s = sz_wrap (held l) \<and>
     (\<forall>c. cn_inflight_request_bytes (ss_conns s c) = sz_wrap (held_by c l)) \<and>
     (strict s \<longrightarrow> held l \<le> so_max_total_inflight_bytes (ss_options s) \<and>
        (\<forall>c. held_by c l \<le> inflight_byte_limit s)))"

lemma ledger_ok_cong:
  assumes "same_accounting s s'" "ledger_ok (s, l)"
  shows "ledger_ok (s', l)"
  using assms by (simp add: ledger_ok_def same_accounting_def inflight_byte_limit_def strict_def)

text \<open>Adding to and giving back from the counters, as the ledger sees it.\<close>

definition charge :: "nat \<Rightarrow> nat \<Rightarrow> ServerState \<Rightarrow> ServerState" where
  "charge c n s = (conn_upd c (add_inflight n) s)
     \<lparr>ss_total_inflight_request_bytes := sz_add (ss_total_inflight_request_bytes s) n\<rparr>"

definition give_back :: "nat \<Rightarrow> nat \<Rightarrow> ServerState \<Rightarrow> ServerState" where
  "give_back c n s = (conn_upd c (sub_inflight n) s)
     \<lparr>ss_total_inflight_request_bytes := sz_sub (ss_total_inflight_request_bytes s) n\<rparr>"

lemma ledger_ok_charge:
  assumes "ledger_ok (s, l)"
    "strict s \<longrightarrow> n + held l \<le> so_max_total_inflight_bytes (ss_options s) \<and>
       n + held_by c l \<le> inflight_byte_limit s"
  shows "ledger_ok (charge c n s, (c, n) # l)"
  using assms
  by (simp add: ledger_ok_def charge_def add_inflight_def sz_add_wrap strict_def
      inflight_byte_limit_def)

lemma ledger_ok_give_back:
  assumes "ledger_ok (s, l)" "(c, n) \<in> set l"
  shows "ledger_ok (give_back c n s, remove1 (c, n) l)"
proof -
  have h: "held l = n + held (remove1 (c, n) l)"
    using assms(2) by (rule held_remove1)
  have hb: "held_by d l = (if c = d then n else 0) + held_by d (remove1 (c, n) l)" for d
    using assms(2) by (rule held_by_remove1)
  have le: "held (remove1 (c, n) l) \<le> held l" "held_by d (remove1 (c, n) l) \<le> held_by d l" for d
    using h hb [of d] by simp_all
  have sub: "sz_sub (sz_wrap (held_by c l)) n = sz_wrap (held_by c (remove1 (c, n) l))"
    using hb [of c] by (simp add: sz_sub_wrap)
  have same: "d \<noteq> c \<Longrightarrow> held_by d (remove1 (c, n) l) = held_by d l" for d
    using hb [of d] by simp
  show ?thesis
    using assms(1) le(1) order_trans [OF le(2)]
    by (simp add: ledger_ok_def give_back_def sub_inflight_def strict_def inflight_byte_limit_def
        sub same sz_sub_wrap h) linarith
qed

lemma ledger_ok_sized: "ledger_ok (s, l) \<Longrightarrow> flow_sized s"
  by (simp add: ledger_ok_def flow_sized_def)

lemma same_accounting_resume: "same_accounting s (resume_paused_connections c s)"
  by (simp add: same_accounting_def)

lemma account_as_charge:
  "same_accounting (charge c n s) (account_connection_request c n s)"
  by (simp add: same_accounting_def charge_def account_connection_request_def)

lemma release_as_give_back:
  "same_accounting (give_back c n s) (release_connection_request c n s)"
  "0 < n \<Longrightarrow> same_accounting (give_back c n s) (release_connection_request_bytes c n s)"
  by (simp_all add: same_accounting_def give_back_def release_connection_request_def
      release_connection_request_bytes_def)

lemma flow_step_ok: "flow_step sl sl' \<Longrightarrow> ledger_ok sl \<Longrightarrow> ledger_ok sl'"
proof (induction rule: flow_step.induct)
  case (reserve s n c s' l)
  note sp = try_reserve_eq [OF ledger_ok_sized [OF reserve.prems] reserve.hyps(2,3), of c]
  then have ad: "admits c n s" and s': "s' = (conn_upd c (\<lambda>cn. cn\<lparr>cn_inflight_request_bytes :=
      cn_inflight_request_bytes cn + n\<rparr>) s)
      \<lparr>ss_total_inflight_request_bytes := ss_total_inflight_request_bytes s + n\<rparr>"
    using reserve.hyps(4) by (simp_all split: if_splits)
  note ok = reserve.prems [unfolded ledger_ok_def, simplified]
  have "held l \<le> sz_max" "held_by c l \<le> sz_max"
    using ok reserve.hyps(1) order_trans by blast+
  then have eq: "ss_total_inflight_request_bytes s = held l"
    "cn_inflight_request_bytes (ss_conns s c) = held_by c l"
    using ok by (simp_all add: sz_wrap_exact)
  have lim: "n + held l \<le> so_max_total_inflight_bytes (ss_options s)"
    "n + held_by c l \<le> inflight_byte_limit s"
    using ad unfolding admits_def eq by simp_all
  then have "same_accounting (charge c n s) s'"
    unfolding s' same_accounting_def charge_def add_inflight_def using ok eq
    by (simp add: sz_add_le)
  then show ?case
    using ledger_ok_charge [OF reserve.prems] lim by (blast intro: ledger_ok_cong)
next
  case (refuse n c s s' l)
  then show ?case
    using try_reserve_eq [OF ledger_ok_sized [OF refuse.prems] refuse.hyps(1,2), of c]
    by (simp split: if_splits)
next
  case (account s l c n)
  then show ?case
    using ledger_ok_charge ledger_ok_cong [OF account_as_charge] by blast
next
  case (account_count s l c)
  have "same_accounting s (account_connection_request_count c s)"
    by (simp add: same_accounting_def account_connection_request_count_def)
  then show ?case using account_count by (rule ledger_ok_cong)
next
  case (release_bytes c n l s)
  show ?case
  proof (cases "n = 0")
    case True
    have "same_accounting (give_back c 0 s) s"
      using release_bytes.prems
      by (auto simp: same_accounting_def give_back_def sub_inflight_def ledger_ok_def sz_sub_le)
    then show ?thesis
      using ledger_ok_cong [OF _ ledger_ok_give_back [OF release_bytes.prems release_bytes.hyps]]
        True by (simp add: release_connection_request_bytes_def)
  next
    case False
    then show ?thesis
      using ledger_ok_cong [OF release_as_give_back(2)]
        ledger_ok_give_back [OF release_bytes.prems release_bytes.hyps] by simp
  qed
next
  case (release_request c n l s)
  then show ?case
    using ledger_ok_cong [OF release_as_give_back(1)] ledger_ok_give_back by blast
next
  case (other s s' l)
  then show ?case using ledger_ok_cong by blast
qed

definition flow_initial :: "ServerState \<Rightarrow> bool" where
  "flow_initial s \<longleftrightarrow> ss_total_inflight_request_bytes s = 0 \<and>
     (\<forall>c. cn_inflight_request_bytes (ss_conns s c) = 0) \<and>
     inflight_byte_limit s \<le> sz_max \<and> so_max_total_inflight_bytes (ss_options s) \<le> sz_max"

lemma flow_reach_ok:
  "flow_step\<^sup>*\<^sup>* (s0, []) sl \<Longrightarrow> flow_initial s0 \<Longrightarrow> ledger_ok sl"
proof (induction rule: rtranclp_induct)
  case base
  then show ?case by (simp add: ledger_ok_def flow_initial_def sz_wrap_exact)
qed (blast intro: flow_step_ok)

text \<open>
  C12: along every sequence of accounting operations, the aggregate counter and each connection's
  counter are exactly the bytes that unfinished requests hold (as a \<^verbatim>\<open>std::size_t\<close>); they are
  zero once every request has given its bytes back; and with an aggregate limit configured, the
  bytes held never exceed that limit nor any connection's own limit.
\<close>

theorem inflight_accounting:
  assumes "flow_initial s0" "flow_step\<^sup>*\<^sup>* (s0, []) (s, l)"
  shows "ss_total_inflight_request_bytes s = sz_wrap (held l) \<and>
         (\<forall>c. cn_inflight_request_bytes (ss_conns s c) = sz_wrap (held_by c l)) \<and>
         (l = [] \<longrightarrow> ss_total_inflight_request_bytes s = 0) \<and>
         (strict s \<longrightarrow>
            ss_total_inflight_request_bytes s \<le> so_max_total_inflight_bytes (ss_options s) \<and>
            held l \<le> so_max_total_inflight_bytes (ss_options s) \<and>
            (\<forall>c. held_by c l \<le> inflight_byte_limit s))"
proof -
  have ok: "ledger_ok (s, l)"
    using flow_reach_ok assms by blast
  have "sz_wrap (held l) \<le> held l"
    by (simp add: sz_wrap_def)
  with ok show ?thesis
    by (auto simp: ledger_ok_def sz_wrap_exact intro: order_trans)
qed

lemma inflight_accounting_witness:
  "\<exists>s. flow_step\<^sup>*\<^sup>* (blank_state strict_options, []) (s, [(0, 8)]) \<and> strict s \<and>
       ss_total_inflight_request_bytes s = 8"
proof -
  let ?s0 = "blank_state strict_options"
  obtain s where s: "try_reserve_connection_request_bytes 0 8 ?s0 = (s, True)"
    using strict_sample_reserves by (metis prod.collapse)
  have st: "strict ?s0"
    by (simp add: strict_def blank_state_def strict_options_def)
  have "ss_options s = ss_options ?s0"
    using s try_reserve_eq [OF blank_flow_sized, of 8 0] by (auto simp: sz_max_def split: if_splits)
  then have st': "strict s" using st by (simp add: strict_def)
  have "flow_step (?s0, []) (s, [(0, 8)])"
    by (rule flow_step.reserve [OF st _ _ s]) (simp_all add: sz_max_def)
  then have r: "flow_step\<^sup>*\<^sup>* (?s0, []) (s, [(0, 8)])" by blast
  have i: "flow_initial ?s0"
    using blank_flow_sized by (simp add: flow_initial_def flow_sized_def blank_state_def
        new_connection_def)
  from inflight_accounting [OF i r] r st' show ?thesis
    by (auto simp: sz_wrap_def)
qed

subsection \<open>Resuming\<close>

lemma resume_ready_indep:
  "ss_options s' = ss_options s \<Longrightarrow> ss_conns s' = ss_conns s \<Longrightarrow>
   ss_total_inflight_request_bytes s' = ss_total_inflight_request_bytes s \<Longrightarrow>
   ss_rcs s' r = ss_rcs s r \<Longrightarrow> resume_ready s' r = resume_ready s r"
  by (simp add: resume_ready_def below_resume_watermark_def inflight_byte_limit_def)

lemma fold_queue_if_ready:
  "distinct (map snd es) \<Longrightarrow>
   fold (\<lambda>e. queue_if_ready (snd e)) es (s, refresh) = (s', refresh') \<Longrightarrow>
     ss_resumed_connections s' =
       ss_resumed_connections s @ filter (resume_ready s) (map snd es) \<and>
     refresh' = refresh @ map (\<lambda>r. rc_conn (ss_rcs s r)) (filter (resume_ready s) (map snd es)) \<and>
     (\<forall>r. rc_read_paused (ss_rcs s' r) =
        (rc_read_paused (ss_rcs s r) \<and> \<not> (r \<in> snd ` set es \<and> resume_ready s r)))"
proof (induction es arbitrary: s refresh)
  case (Cons e es)
  obtain s1 f1 where q: "queue_if_ready (snd e) (s, refresh) = (s1, f1)" by fastforce
  have keep: "resume_ready s1 r = resume_ready s r" if "r \<noteq> snd e" for r
    using q that by (intro resume_ready_indep) (auto simp: queue_if_ready_def split: if_splits)
  have rest: "fold (\<lambda>e. queue_if_ready (snd e)) es (s1, f1) = (s', refresh')"
    using Cons.prems(2) q by simp
  have d: "distinct (map snd es)"
    using Cons.prems(1) by simp
  have ne: "r \<in> set (map snd es) \<Longrightarrow> r \<noteq> snd e" for r
    using Cons.prems(1) by (metis distinct.simps(2) list.simps(9))
  have fl: "filter (resume_ready s1) (map snd es) = filter (resume_ready s) (map snd es)"
    by (rule filter_cong) (use keep ne in auto)
  have cn: "rc_conn (ss_rcs s1 r) = rc_conn (ss_rcs s r)" for r
    using q by (auto simp: queue_if_ready_def split: if_splits)
  note IH = Cons.IH [OF d rest, unfolded fl cn]
  have hd: "ss_resumed_connections s1 = ss_resumed_connections s @ (if resume_ready s (snd e) then [snd e] else [])"
    "f1 = refresh @ (if resume_ready s (snd e) then [rc_conn (ss_rcs s (snd e))] else [])"
    "rc_read_paused (ss_rcs s1 r) = (rc_read_paused (ss_rcs s r) \<and> \<not> (r = snd e \<and> resume_ready s r))" for r
    using q by (auto simp: queue_if_ready_def split: if_splits)
  have "(r \<in> snd ` set es \<and> resume_ready s1 r) = (r \<in> snd ` set es \<and> resume_ready s r)" for r
    using keep [of r] ne [of r] by auto
  then show ?case
    using IH hd by auto
qed simp

text \<open>
  With an aggregate limit, giving bytes back resumes exactly the connections that were
  paused, are not closing and are below half of every limit: each is unpaused and queued once
  for the reactor, in the order of the connection table, and no other connection changes.
\<close>

theorem resume_exact:
  assumes "strict s" "distinct (map snd (ss_connections s))"
  shows "ss_resumed_connections (resume_paused_connections c s) =
           ss_resumed_connections s @ filter (resume_ready s) (map snd (ss_connections s)) \<and>
         (\<forall>r. rc_read_paused (ss_rcs (resume_paused_connections c s) r) =
           (rc_read_paused (ss_rcs s r) \<and>
              \<not> (r \<in> snd ` set (ss_connections s) \<and> resume_ready s r)))"
proof -
  obtain s1 f where f: "fold (\<lambda>e. queue_if_ready (snd e)) (ss_connections s) (s, []) = (s1, f)"
    by fastforce
  have "collect_resumable c s = (s1, f)"
    using assms(1) f by (simp add: collect_resumable_def strict_def)
  then show ?thesis
    using fold_queue_if_ready [OF assms(2) f]
    by (simp add: resume_paused_connections_def Let_def)
qed

text \<open>Two connections of which the first is paused and idle.\<close>

definition paused_sample :: ServerState where
  "paused_sample = (blank_state strict_options)
     \<lparr>ss_connections := [(3, 0), (4, 1)],
      ss_rcs := (\<lambda>r. if r = 0 then (new_reactor_connection 0)\<lparr>rc_read_paused := True\<rparr>
                      else new_reactor_connection 1)\<rparr>"

lemma resume_exact_witness:
  "ss_resumed_connections (resume_paused_connections 1 paused_sample) = [0] \<and>
   \<not> rc_read_paused (ss_rcs (resume_paused_connections 1 paused_sample) 0)"
proof -
  have h: "strict paused_sample" "distinct (map snd (ss_connections paused_sample))"
    "ss_connections paused_sample = [(3, 0), (4, 1)]" "ss_resumed_connections paused_sample = []"
    by (simp_all add: strict_def paused_sample_def blank_state_def strict_options_def)
  have r: "resume_ready paused_sample 0" "\<not> resume_ready paused_sample 1"
    by (simp_all add: resume_ready_def below_resume_watermark_def inflight_byte_limit_def
        paused_sample_def blank_state_def strict_options_def new_reactor_connection_def
        new_connection_def)
  from resume_exact [OF h(1,2), of 1] h r show ?thesis by simp
qed

text \<open>A connection never resumes at the level that pauses it, provided the limits are positive.\<close>

lemma watermark_hysteresis:
  assumes "0 < so_max_inflight_requests_per_connection (ss_options s)" "0 < inflight_byte_limit s"
    "below_resume_watermark s cn"
  shows "\<not> above_pause_watermark s cn"
  using assms
  by (auto simp: below_resume_watermark_def above_pause_watermark_def dest: leD)

subsection \<open>A wakeup can be lost\<close>

text \<open>One connection holds the whole budget, another one waits for four bytes of it.\<close>

definition race_sample :: ServerState where
  "race_sample = (blank_state strict_options)
     \<lparr>ss_readiness_fd := 9, ss_connections := [(3, 0), (4, 1)],
      ss_total_inflight_request_bytes := 8,
      ss_conns := (\<lambda>c. if c = 0 then new_connection 3 no_identity 0
                        else (new_connection 4 no_identity 0)
                          \<lparr>cn_inflight_requests := 1, cn_inflight_request_bytes := 8\<rparr>),
      ss_rcs := (\<lambda>r. (new_reactor_connection r)\<lparr>rc_registered_events := readable\<rparr>)\<rparr>"


end
