(* ===== verification/Output.thy ===== *)
theory Output
  imports FlowLimits
begin

text \<open>
  Response output (\<^verbatim>\<open>src/system/reactor/output.cpp\<close>) and closing a connection
  (\<^verbatim>\<open>close_connection\<close> of \<^verbatim>\<open>src/system/reactor/dispatch.cpp\<close>). A worker tries one
  non-blocking send and queues the rest of the frame under a limit per connection and an
  aggregate limit; the reactor drains the queue when the socket is writable.
\<close>

subsection \<open>Frames\<close>

definition kMaxFlushBytes :: nat where "kMaxFlushBytes = 256 * 1024"

definition frame_size :: "OutgoingFrame \<Rightarrow> nat" where
  "frame_size f = length (of_header f) + length (of_body f)"

definition remaining_parts :: "OutgoingFrame \<Rightarrow> bstring list" where
  "remaining_parts f =
     (if of_offset f < length (of_header f)
      then if of_body f = [] then [drop (of_offset f) (of_header f)]
           else [drop (of_offset f) (of_header f), of_body f]
      else let body_offset = of_offset f - length (of_header f)
           in [drop body_offset (of_body f)])"

function send_frame_once :: "fd \<Rightarrow> OutgoingFrame \<Rightarrow> World \<Rightarrow> World \<times> (errno + nat)" where
  "send_frame_once fd f w =
     (case send_iovecs fd (remaining_parts f) None w of
        (w, Inl e) \<Rightarrow> if e = EINTR then send_frame_once fd f w else (w, Inl e)
      | (w, Inr n) \<Rightarrow> (w, Inr n))"
  by pat_completeness auto
termination
  by (relation "measure (\<lambda>(fd, f, w). length (w_send w fd))")
    (auto dest!: kernel_send_shorter [OF sym] simp: send_iovecs_def)

declare send_frame_once.simps [simp del]

definition mark_output_progress :: "nat \<Rightarrow> ServerState \<Rightarrow> ServerState" where
  "mark_output_progress c s =
     (case clock_read s of (s, now) \<Rightarrow>
        conn_upd c (\<lambda>cn. cn\<lparr>cn_last_io_progress := now, cn_last_output_progress := now\<rparr>) s)"

definition output_queue_limit :: "ServerState \<Rightarrow> nat" where
  "output_queue_limit s = so_max_output_bytes_per_connection (ss_options s)"

definition reserve_global_output :: "nat \<Rightarrow> ServerState \<Rightarrow> ServerState \<times> bool" where
  "reserve_global_output bytes s =
     (let limit = so_max_total_output_bytes (ss_options s);
          current = ss_total_queued_output_bytes s
      in if limit = 0
         then (s\<lparr>ss_total_queued_output_bytes := sz_add current bytes\<rparr>, True)
         else if current \<le> limit \<and> bytes \<le> limit - current
         then (s\<lparr>ss_total_queued_output_bytes := sz_add current bytes\<rparr>, True)
         else (s, False))"

definition inactivity_deadline :: "Connection \<Rightarrow> msec \<Rightarrow> time" where
  "inactivity_deadline cn timeout =
     (if timeout = 0 then deadline_max
      else let progress = cn_last_output_progress cn;
               max_remaining = deadline_max - progress;
               max_ms = max_remaining div ticks_per_ms
           in if timeout \<ge> max_ms then deadline_max - 1 else progress + timeout * ticks_per_ms)"

subsection \<open>close\_connection\<close>

text \<open>The destructor of a \<^verbatim>\<open>DescriptorOwner\<close>.\<close>

definition close_owned :: "fd \<Rightarrow> ServerState \<Rightarrow> ServerState" where
  "close_owned f s = (if valid_socket f then world_upd (socket_close f) s else s)"

text \<open>
  Destroying the capabilities of a request closes a received descriptor it still owns and drops
  the owning reference to its cancellation flag.
\<close>

definition drop_capabilities :: "Capabilities \<Rightarrow> ServerState \<Rightarrow> ServerState" where
  "drop_capabilities caps s =
     (let s = close_owned (cap_received_fd caps) s in
      case cap_cancelled caps of
        None \<Rightarrow> s | Some f \<Rightarrow> s\<lparr>ss_flags := (ss_flags s)(f := None)\<rparr>)"

text \<open>The section of \<^verbatim>\<open>close_connection\<close> under \<^verbatim>\<open>output_mutex\<close>.\<close>

definition drop_output :: "nat \<Rightarrow> ServerState \<Rightarrow> ServerState" where
  "drop_output c s =
     (let queued = cn_queued_output_bytes (ss_conns s c);
          s = conn_upd c (\<lambda>cn. cn\<lparr>cn_queued_output_bytes := 0, cn_output_queue := []\<rparr>) s
      in if queued \<noteq> 0
         then s\<lparr>ss_total_queued_output_bytes := sz_sub (ss_total_queued_output_bytes s) queued\<rparr>
         else s)"

text \<open>What \<^verbatim>\<open>close_connection\<close> does to the reactor's side of the connection.\<close>

definition drop_reactor_connection :: "nat \<Rightarrow> ServerState \<Rightarrow> ServerState" where
  "drop_reactor_connection r s =
     (let s = fold close_owned (rc_received_fds (ss_rcs s r)) s;
          s = drop_capabilities (rc_capabilities (ss_rcs s r)) s
      in rc_upd r (\<lambda>rc. rc\<lparr>rc_reserved_request_bytes := 0, rc_received_fds := [],
                          rc_capabilities := no_capabilities\<rparr>) s)"

definition close_connection :: "fd \<Rightarrow> ServerState \<Rightarrow> ServerState" where
  "close_connection fd s =
     (case map_of (ss_connections s) fd of
        None \<Rightarrow> s
      | Some r \<Rightarrow>
          let c = rc_conn (ss_rcs s r);
              parser_request_bytes = rc_reserved_request_bytes (ss_rcs s r);
              s = drop_reactor_connection r s;
              s = conn_upd c (\<lambda>cn. cn\<lparr>cn_closing := True\<rparr>) s;
              s = (if ss_readiness_fd s \<ge> 0
                   then world_upd (\<lambda>w. fst (readiness_control Ctl_remove fd 0 0 w)) s else s);
              s = world_upd (socket_shutdown fd) s;
              s = drop_output c s;
              s = (if cn_active_regular (ss_conns s c) \<noteq> 0 \<or>
                      cn_pending_serialized (ss_conns s c) \<noteq> 0
                   then s else s\<lparr>ss_connections := AList.delete fd (ss_connections s)\<rparr>)
          in if parser_request_bytes \<noteq> 0
             then release_connection_request_bytes c parser_request_bytes s else s)"

subsection \<open>Fixed responses\<close>

definition bounded_error_body :: "bstring \<Rightarrow> nat \<Rightarrow> bstring" where
  "bounded_error_body message max_message_size =
     (if length message \<le> max_message_size then message else [])"

definition response_frame :: "Connection \<Rightarrow> u32 \<Rightarrow> Response \<Rightarrow> time \<Rightarrow> OutgoingFrame" where
  "response_frame cn request_id response deadline =
     \<lparr>of_header = encode_header WT_response request_id (word_of_int (rsp_status response))
                    (word_of_nat (length (rsp_body response))) 0
                    (if cn_wire_version cn = 0 then version else cn_wire_version cn),
      of_body = rsp_body response, of_offset = 0, of_deadline = deadline\<rparr>"

text \<open>
  The section of \<^verbatim>\<open>write_fixed_response\<close> under \<^verbatim>\<open>output_mutex\<close>: the fast-path send and the
  queueing of the rest. The result tells how it ended: the frame went out, it was queued, the
  limits refused it, or the send failed with an exception.
\<close>

datatype enqueue_result = ER_sent | ER_queued | ER_overflow | ER_throw exn

definition queue_frame :: "nat \<Rightarrow> OutgoingFrame \<Rightarrow> ServerState \<Rightarrow> ServerState \<times> enqueue_result" where
  "queue_frame c f s =
     (let pending = cn_queued_output_bytes (ss_conns s c);
          remaining = frame_size f - of_offset f;
          limit = output_queue_limit s;
          (s, reserved_global) =
            (if remaining \<le> limit \<and> pending \<le> limit - remaining
             then reserve_global_output remaining s else (s, False))
      in if \<not> reserved_global then (s, ER_overflow)
         else let s = (if pending = 0
                       then case clock_read s of (s, now) \<Rightarrow>
                              conn_upd c (\<lambda>cn. cn\<lparr>cn_last_output_progress := now\<rparr>) s
                       else s)
              in (conn_upd c (\<lambda>cn. cn\<lparr>cn_output_queue := cn_output_queue cn @ [f],
                                     cn_queued_output_bytes := pending + remaining\<rparr>) s,
                  ER_queued))"

definition enqueue_frame :: "nat \<Rightarrow> OutgoingFrame \<Rightarrow> ServerState \<Rightarrow> ServerState \<times> enqueue_result" where
  "enqueue_frame c f s =
     (if cn_output_queue (ss_conns s c) = []
      then case send_frame_once (cn_fd (ss_conns s c)) f (ss_world s) of
             (w, Inr sent) \<Rightarrow>
               let s = s\<lparr>ss_world := w\<rparr> in
               if sent > 0
               then let f = f\<lparr>of_offset := sent\<rparr>; s = mark_output_progress c s
                    in if of_offset f = frame_size f then (s, ER_sent) else queue_frame c f s
               else queue_frame c f s
           | (w, Inl e) \<Rightarrow>
               let s = s\<lparr>ss_world := w\<rparr> in
               if e \<noteq> EAGAIN
               then (conn_upd c (\<lambda>cn. cn\<lparr>cn_closing := True\<rparr>) s,
                     ER_throw (Error (classify_system_error (Some e)) ''send failed'' (Some e)))
               else queue_frame c f s
      else queue_frame c f s)"

text \<open>\<^verbatim>\<open>write_fixed_response\<close> from the deadline check on.\<close>

definition send_response ::
  "nat \<Rightarrow> u32 \<Rightarrow> Response \<Rightarrow> time \<Rightarrow> ServerState \<Rightarrow> ServerState \<times> (exn + unit)" where
  "send_response c request_id response deadline s =
     (case check_deadline deadline ''send timed out'' (ss_world s) of
        (w, Inl e) \<Rightarrow> (s\<lparr>ss_world := w\<rparr>, Inl e)
      | (w, Inr _) \<Rightarrow>
          let s = s\<lparr>ss_world := w\<rparr>;
              f = response_frame (ss_conns s c) request_id response deadline
          in case enqueue_frame c f s of
               (s, ER_sent) \<Rightarrow> (s, Inr ())
             | (s, ER_throw e) \<Rightarrow> (s, Inl e)
             | (s, ER_overflow) \<Rightarrow>
                 let s = conn_upd c (\<lambda>cn. cn\<lparr>cn_closing := True\<rparr>) s
                 in (close_connection (cn_fd (ss_conns s c)) s,
                     Inl (Runtime_error ''connection output queue limit exceeded''))
             | (s, ER_queued) \<Rightarrow>
                 (case refresh_connection_events c s of
                    (s, False) \<Rightarrow> (s, Inl (Runtime_error ''failed to enable connection output''))
                  | (s, True) \<Rightarrow> (wake_reactor s, Inr ())))"

definition error_response :: "ServerState \<Rightarrow> bstring \<Rightarrow> Status \<Rightarrow> Response" where
  "error_response s message status =
     \<lparr>rsp_status = status,
      rsp_body = bounded_error_body message (so_max_message_size (ss_options s))\<rparr>"

definition response_too_large :: "ServerState \<Rightarrow> Response \<Rightarrow> bool" where
  "response_too_large s response \<longleftrightarrow>
     length (rsp_body response) > so_max_message_size (ss_options s) \<or>
     length (rsp_body response) > max_wire_field"

definition internal_message :: "ServerState \<Rightarrow> string \<Rightarrow> bstring" where
  "internal_message s detail =
     (if so_include_handler_error_messages (ss_options s) then str detail
      else str ''Internal Server Error'')"

lemma error_response_sendable:
  "length m \<le> max_wire_field \<Longrightarrow> \<not> response_too_large s (error_response s m st)"
  by (simp add: response_too_large_def error_response_def bounded_error_body_def)

lemma internal_message_short [simp]:
  "length d \<le> 1000 \<Longrightarrow> length (internal_message s d) \<le> max_wire_field"
  by (simp add: internal_message_def max_wire_field_def)

lemma error_response_status [simp]: "rsp_status (error_response s m st) = st"
  by (simp add: error_response_def)

text \<open>A response that cannot be sent is replaced by an error response, which always can.\<close>

function write_fixed_response ::
  "nat \<Rightarrow> u32 \<Rightarrow> Response \<Rightarrow> time \<Rightarrow> ServerState \<Rightarrow> ServerState \<times> (exn + unit)" where
  "write_fixed_response c request_id response deadline s =
     (if rsp_status response < 0
      then write_fixed_response c request_id
             (error_response s (internal_message s ''response status_code must not be negative'')
                status_internal_error) deadline s
      else if response_too_large s response
      then write_fixed_response c request_id
             (error_response s (internal_message s ''response exceeds max_message_size'')
                status_internal_error) deadline s
      else send_response c request_id response deadline s)"
  by pat_completeness auto

termination
  by (relation "measure (\<lambda>(c, i, r, d, s). if rsp_status r < 0 \<or> response_too_large s r then 1 else 0)")
    (simp_all add: error_response_sendable status_internal_error_def)

declare write_fixed_response.simps [simp del]

definition write_error_response ::
  "nat \<Rightarrow> u32 \<Rightarrow> bstring \<Rightarrow> time \<Rightarrow> Status \<Rightarrow> ServerState \<Rightarrow> ServerState \<times> (exn + unit)" where
  "write_error_response c request_id message deadline status s =
     write_fixed_response c request_id (error_response s message status) deadline s"

subsection \<open>Draining the queue\<close>

text \<open>
  The loop of \<^verbatim>\<open>flush_connection_output\<close>; the boolean is false when the loop returned false.
\<close>

definition front_expired :: "OutgoingFrame \<Rightarrow> ServerState \<Rightarrow> ServerState \<times> bool" where
  "front_expired f s =
     (if of_deadline f \<noteq> deadline_max
      then case clock_read s of (s, now) \<Rightarrow> (s, now \<ge> of_deadline f)
      else (s, False))"

definition flush_progress ::
  "nat \<Rightarrow> OutgoingFrame \<Rightarrow> OutgoingFrame list \<Rightarrow> nat \<Rightarrow> ServerState \<Rightarrow> ServerState" where
  "flush_progress c f fs n s =
     (let f = f\<lparr>of_offset := of_offset f + n\<rparr>;
          s = conn_upd c (\<lambda>cn. cn
                \<lparr>cn_queued_output_bytes := sz_sub (cn_queued_output_bytes cn) n\<rparr>) s;
          s = s\<lparr>ss_total_queued_output_bytes := sz_sub (ss_total_queued_output_bytes s) n\<rparr>;
          s = mark_output_progress c s
      in conn_upd c (\<lambda>cn. cn\<lparr>cn_output_queue :=
           (if of_offset f = frame_size f then fs else f # fs)\<rparr>) s)"

function flush_loop :: "nat \<Rightarrow> nat \<Rightarrow> ServerState \<Rightarrow> ServerState \<times> bool" where
  "flush_loop c flushed s =
     (case cn_output_queue (ss_conns s c) of
        [] \<Rightarrow> (s, True)
      | f # fs \<Rightarrow>
          if \<not> flushed < kMaxFlushBytes then (s, True)
          else case front_expired f s of
                 (s, True) \<Rightarrow> (conn_upd c (\<lambda>cn. cn\<lparr>cn_closing := True\<rparr>) s, False)
               | (s, False) \<Rightarrow>
                   (case send_frame_once (cn_fd (ss_conns s c)) f (ss_world s) of
                      (w, Inr n) \<Rightarrow>
                        let s = s\<lparr>ss_world := w\<rparr> in
                        if n > 0 then flush_loop c (flushed + n) (flush_progress c f fs n s)
                        else (conn_upd c (\<lambda>cn. cn\<lparr>cn_closing := True\<rparr>) s, False)
                    | (w, Inl e) \<Rightarrow>
                        let s = s\<lparr>ss_world := w\<rparr> in
                        if e = EAGAIN then (s, True)
                        else (conn_upd c (\<lambda>cn. cn\<lparr>cn_closing := True\<rparr>) s, False)))"
  by pat_completeness auto
termination
  by (relation "measure (\<lambda>(c, flushed, s). kMaxFlushBytes - flushed)") auto

declare flush_loop.simps [simp del]

definition flush_connection_output :: "nat \<Rightarrow> ServerState \<Rightarrow> ServerState \<times> bool" where
  "flush_connection_output r s =
     (let c = rc_conn (ss_rcs s r) in
      case flush_loop c 0 s of
        (s, False) \<Rightarrow> (s, False)
      | (s, True) \<Rightarrow>
          if cn_output_queue (ss_conns s c) = []
          then case refresh_connection_events c s of
                 (s, True) \<Rightarrow> (s, True)
               | (s, False) \<Rightarrow> (s, cn_closing (ss_conns s c))
          else (s, True))"

definition connection_output_deadline :: "nat \<Rightarrow> ServerState \<Rightarrow> time" where
  "connection_output_deadline c s =
     (let cn = ss_conns s c in
      if cn_queued_output_bytes cn = 0 then deadline_max
      else if cn_output_queue cn = [] then deadline_max
      else fold (\<lambda>f d. earlier_deadline d (of_deadline f)) (cn_output_queue cn)
             (inactivity_deadline cn (so_io_timeout (ss_options s))))"

end
