(* ===== verification/OutputStream.thy ===== *)
theory OutputStream
  imports Output
begin

text \<open>
  What the output code does to the byte stream of a connection and to the output counters. The
  stream of a connection is what the kernel has accepted from it followed by what its queue still
  holds: a successful write appends exactly one frame, a flush leaves the stream as it is, and the
  aggregate counter is the number of queued bytes of all connections.
\<close>

subsection \<open>What a send does to the byte stream\<close>

definition frame_bytes :: "OutgoingFrame \<Rightarrow> bstring" where
  "frame_bytes f = of_header f @ of_body f"

definition frame_rest :: "OutgoingFrame \<Rightarrow> bstring" where
  "frame_rest f = drop (of_offset f) (frame_bytes f)"

lemma concat_remaining_parts: "concat (remaining_parts f) = frame_rest f"
  by (simp add: remaining_parts_def frame_rest_def frame_bytes_def Let_def)

lemma frame_rest_length: "length (frame_rest f) = frame_size f - of_offset f"
  by (simp add: frame_rest_def frame_bytes_def frame_size_def)

lemma frame_bytes_offset [simp]: "frame_bytes (f\<lparr>of_offset := n\<rparr>) = frame_bytes f"
  by (simp add: frame_bytes_def)

lemma frame_rest_advance:
  "frame_rest (f\<lparr>of_offset := of_offset f + n\<rparr>) = drop n (frame_rest f)"
  by (simp add: frame_rest_def add.commute)

lemma frame_size_offset [simp]: "frame_size (f\<lparr>of_offset := n\<rparr>) = frame_size f"
  by (simp add: frame_size_def)

lemma send_frame_once_sound:
  "send_frame_once fd f w = (w', r) \<Longrightarrow>
     w_sent w' = (w_sent w)(fd := w_sent w fd @
       (case r of Inl _ \<Rightarrow> [] | Inr n \<Rightarrow> take n (frame_rest f))) \<and>
     (case r of Inl _ \<Rightarrow> True | Inr n \<Rightarrow> n \<le> length (frame_rest f))"
proof (induction fd f w rule: send_frame_once.induct)
  case (1 fd f w)
  obtain w1 q where q: "send_iovecs fd (remaining_parts f) None w = (w1, q)" by fastforce
  then have k: "kernel_send fd (frame_rest f) None w = (w1, q)"
    by (simp add: send_iovecs_def concat_remaining_parts)
  note ks = kernel_send_accepted [OF k]
  show ?case
  proof (cases q)
    case (Inr n)
    then show ?thesis
      using 1(2) q ks by (subst (asm) send_frame_once.simps) (auto simp: accepted_def)
  next
    case (Inl e)
    then have s: "w_sent w1 = w_sent w"
      using ks by (simp add: accepted_zero)
    show ?thesis
    proof (cases "e = EINTR")
      case True
      then have "send_frame_once fd f w1 = (w', r)"
        using 1(2) q Inl by (subst (asm) send_frame_once.simps) simp
      from 1(1) [OF q [symmetric] Inl True this] show ?thesis by (simp add: s)
    next
      case False
      then show ?thesis
        using 1(2) q Inl s by (subst (asm) send_frame_once.simps) auto
    qed
  qed
qed

text \<open>With an exhausted script the kernel takes everything it is offered.\<close>

lemma send_frame_once_open:
  "w_send w fd = [] \<Longrightarrow> \<exists>w'. send_frame_once fd f w = (w', Inr (length (frame_rest f))) \<and>
     w_send w' = w_send w \<and> w_clock w' = w_clock w"
  by (subst send_frame_once.simps)
    (simp add: send_iovecs_def concat_remaining_parts kernel_send_def)

subsection \<open>Progress marks\<close>

lemma mark_output_progress_eq:
  "mark_output_progress c s = conn_upd c (\<lambda>cn. cn\<lparr>cn_last_io_progress := snd (clock_read s),
     cn_last_output_progress := snd (clock_read s)\<rparr>) (fst (clock_read s))"
  by (simp add: mark_output_progress_def split_beta)

lemma clock_read_world [simp]:
  "w_sent (ss_world (fst (clock_read s))) = w_sent (ss_world s)"
  "w_send (ss_world (fst (clock_read s))) = w_send (ss_world s)"
  "w_recv (ss_world (fst (clock_read s))) = w_recv (ss_world s)"
  "w_attached (ss_world (fst (clock_read s))) = w_attached (ss_world s)"
  by (simp_all add: clock_read_def clock_now_def split: list.split)

subsection \<open>The output stream of a connection\<close>

text \<open>
  A connection's output stream is what the kernel has accepted from it followed by what its
  queue still holds. The queue is consistent when every queued frame has bytes left and the byte
  counter is their number, within the limit.
\<close>

definition pending_output :: "Connection \<Rightarrow> bstring" where
  "pending_output cn = concat (map frame_rest (cn_output_queue cn))"

definition queue_ok :: "nat \<Rightarrow> Connection \<Rightarrow> bool" where
  "queue_ok limit cn \<longleftrightarrow> (\<forall>f \<in> set (cn_output_queue cn). frame_rest f \<noteq> []) \<and>
     cn_queued_output_bytes cn = length (pending_output cn) \<and>
     cn_queued_output_bytes cn \<le> limit"

definition output_ok :: "ServerState \<Rightarrow> nat \<Rightarrow> bool" where
  "output_ok s c \<longleftrightarrow> queue_ok (output_queue_limit s) (ss_conns s c) \<and>
     output_queue_limit s \<le> sz_max"

definition output_stream :: "ServerState \<Rightarrow> nat \<Rightarrow> bstring" where
  "output_stream s c = w_sent (ss_world s) (cn_fd (ss_conns s c)) @ pending_output (ss_conns s c)"

text \<open>
  The effect of an operation on the output of one connection: its queue stays consistent, the
  aggregate counter follows the connection's counter modulo \<open>2 ^ 64\<close> and never grows past a
  configured limit, and no other connection's output changes.
\<close>

definition output_delta :: "nat \<Rightarrow> ServerState \<Rightarrow> ServerState \<Rightarrow> bool" where
  "output_delta c s s' \<longleftrightarrow>
     ss_options s' = ss_options s \<and>
     cn_fd (ss_conns s' c) = cn_fd (ss_conns s c) \<and>
     (\<forall>x. x \<noteq> c \<longrightarrow> cn_output_queue (ss_conns s' x) = cn_output_queue (ss_conns s x) \<and>
        cn_queued_output_bytes (ss_conns s' x) = cn_queued_output_bytes (ss_conns s x)) \<and>
     (\<exists>k. int (ss_total_queued_output_bytes s') + int (cn_queued_output_bytes (ss_conns s c)) =
        int (ss_total_queued_output_bytes s) + int (cn_queued_output_bytes (ss_conns s' c))
        + k * int (sz_max + 1)) \<and>
     (ss_total_queued_output_bytes s \<le> sz_max \<longrightarrow> ss_total_queued_output_bytes s' \<le> sz_max) \<and>
     (cn_queued_output_bytes (ss_conns s' c) \<le> cn_queued_output_bytes (ss_conns s c) \<or>
      so_max_total_output_bytes (ss_options s) = 0 \<or>
      ss_total_queued_output_bytes s + cn_queued_output_bytes (ss_conns s' c) \<le>
        so_max_total_output_bytes (ss_options s) + cn_queued_output_bytes (ss_conns s c))"

text \<open>Operations that do not touch output at all.\<close>

definition output_same :: "ServerState \<Rightarrow> ServerState \<Rightarrow> bool" where
  "output_same s s' \<longleftrightarrow> ss_options s' = ss_options s \<and>
     ss_total_queued_output_bytes s' = ss_total_queued_output_bytes s \<and>
     (\<forall>x. cn_fd (ss_conns s' x) = cn_fd (ss_conns s x) \<and>
        cn_output_queue (ss_conns s' x) = cn_output_queue (ss_conns s x) \<and>
        cn_queued_output_bytes (ss_conns s' x) = cn_queued_output_bytes (ss_conns s x))"

lemma output_same_trans: "output_same s s' \<Longrightarrow> output_same s' s'' \<Longrightarrow> output_same s s''"
  by (simp add: output_same_def)

lemma output_same_refl [simp]: "output_same s s"
  by (simp add: output_same_def)

lemma output_same_ok: "output_same s s' \<Longrightarrow> output_ok s' c = output_ok s c"
  by (simp add: output_same_def output_ok_def output_queue_limit_def queue_ok_def pending_output_def)

lemma output_same_stream:
  "output_same s s' \<Longrightarrow> w_sent (ss_world s') = w_sent (ss_world s) \<Longrightarrow>
     output_stream s' c = output_stream s c"
  by (simp add: output_same_def output_stream_def pending_output_def)

lemma output_same_conn:
  "output_same s s' \<Longrightarrow> cn_fd (ss_conns s' x) = cn_fd (ss_conns s x)"
  "output_same s s' \<Longrightarrow> pending_output (ss_conns s' x) = pending_output (ss_conns s x)"
  by (simp_all add: output_same_def pending_output_def)

lemma output_same_delta: "output_same s s' \<Longrightarrow> output_delta c s s'"
  unfolding output_same_def output_delta_def by (auto intro: exI [of _ 0])

lemma output_delta_same1: "output_delta c s s' \<Longrightarrow> output_same s' s'' \<Longrightarrow> output_delta c s s''"
  by (simp add: output_same_def output_delta_def)

lemma output_delta_same2: "output_same s s' \<Longrightarrow> output_delta c s' s'' \<Longrightarrow> output_delta c s s''"
  by (simp add: output_same_def output_delta_def)

lemma output_same_mark: "output_same s (mark_output_progress c s)"
  by (simp add: output_same_def mark_output_progress_eq)

lemma output_same_world: "output_same s (s\<lparr>ss_world := w\<rparr>)"
  by (simp add: output_same_def)

lemma output_same_closing: "output_same s (conn_upd c (\<lambda>cn. cn\<lparr>cn_closing := True\<rparr>) s)"
  by (simp add: output_same_def)

lemma output_same_refresh: "output_same s (fst (refresh_connection_events c s))"
  by (simp add: output_same_def)

lemma sz_add_int: "\<exists>k. int (sz_add a b) = int a + int b + k * int (sz_max + 1)"
proof -
  have "a + b = sz_add a b + (a + b) div 2 ^ 64 * (sz_max + 1)"
    by (simp add: sz_add_def sz_max_def)
  then have "int (sz_add a b) = int a + int b + (- int ((a + b) div 2 ^ 64)) * int (sz_max + 1)"
    unfolding minus_mult_left [symmetric] of_nat_mult [symmetric] by linarith
  then show ?thesis ..
qed

lemma sz_add_max [simp]: "sz_add a b \<le> sz_max"
  unfolding sz_max_less by (rule sz_add_bound)

lemma sz_sub_max [simp]: "sz_sub a b \<le> sz_max"
  unfolding sz_max_less by (rule sz_sub_bound)

lemma sz_sub_int:
  assumes "b \<le> sz_max"
  shows "\<exists>k. int (sz_sub a b) = int a - int b + k * int (sz_max + 1)"
proof -
  have m: "2 ^ 64 = sz_max + 1" by (simp add: sz_max_def)
  have "sz_sub a b = sz_add a (sz_max + 1 - b)"
    using assms unfolding sz_sub_def sz_add_def m by (simp add: mod_less)
  moreover obtain k where "int (sz_add a (sz_max + 1 - b)) =
      int a + int (sz_max + 1 - b) + k * int (sz_max + 1)"
    using sz_add_int by blast
  ultimately have "int (sz_sub a b) = int a - int b + (k + 1) * int (sz_max + 1)"
    using assms by (simp add: algebra_simps of_nat_diff)
  then show ?thesis ..
qed

lemma reserve_global_output_sound:
  assumes "reserve_global_output n s = (s', b)"
  shows "ss_conns s' = ss_conns s" "ss_world s' = ss_world s" "ss_options s' = ss_options s"
    "\<not> b \<Longrightarrow> s' = s"
    "b \<Longrightarrow> ss_total_queued_output_bytes s' = sz_add (ss_total_queued_output_bytes s) n \<and>
       (so_max_total_output_bytes (ss_options s) = 0 \<or>
        ss_total_queued_output_bytes s + n \<le> so_max_total_output_bytes (ss_options s))"
  using assms by (auto simp: reserve_global_output_def Let_def split: if_splits)

lemma output_delta_add:
  assumes "ss_options s' = ss_options s" "cn_fd (ss_conns s' c) = cn_fd (ss_conns s c)"
    "\<And>x. x \<noteq> c \<Longrightarrow> ss_conns s' x = ss_conns s x"
    "cn_queued_output_bytes (ss_conns s' c) = cn_queued_output_bytes (ss_conns s c) + n"
    "ss_total_queued_output_bytes s' = sz_add (ss_total_queued_output_bytes s) n"
    "so_max_total_output_bytes (ss_options s) = 0 \<or>
       ss_total_queued_output_bytes s + n \<le> so_max_total_output_bytes (ss_options s)"
  shows "output_delta c s s'"
proof -
  obtain k where "int (ss_total_queued_output_bytes s') =
      int (ss_total_queued_output_bytes s) + int n + k * int (sz_max + 1)"
    using assms(5) sz_add_int by metis
  moreover have "sz_add (ss_total_queued_output_bytes s) n \<le> ss_total_queued_output_bytes s + n"
    by (simp add: sz_add_def)
  ultimately show ?thesis
    unfolding output_delta_def using assms by (auto intro: exI [of _ k])
qed

lemma output_delta_sub:
  assumes "ss_options s' = ss_options s" "cn_fd (ss_conns s' c) = cn_fd (ss_conns s c)"
    "\<And>x. x \<noteq> c \<Longrightarrow> ss_conns s' x = ss_conns s x" "n \<le> sz_max"
    "cn_queued_output_bytes (ss_conns s c) = cn_queued_output_bytes (ss_conns s' c) + n"
    "ss_total_queued_output_bytes s' = sz_sub (ss_total_queued_output_bytes s) n"
  shows "output_delta c s s'"
proof -
  obtain k where "int (ss_total_queued_output_bytes s') =
      int (ss_total_queued_output_bytes s) - int n + k * int (sz_max + 1)"
    using assms(4,6) sz_sub_int by metis
  then show ?thesis
    unfolding output_delta_def using assms by (auto intro: exI [of _ k])
qed

lemma output_delta_trans_dec:
  assumes "output_delta c s s1" "output_delta c s1 s2"
    "cn_queued_output_bytes (ss_conns s1 c) \<le> cn_queued_output_bytes (ss_conns s c)"
    "cn_queued_output_bytes (ss_conns s2 c) \<le> cn_queued_output_bytes (ss_conns s1 c)"
  shows "output_delta c s s2"
proof -
  obtain k1 where k1: "int (ss_total_queued_output_bytes s1) + int (cn_queued_output_bytes (ss_conns s c)) =
      int (ss_total_queued_output_bytes s) + int (cn_queued_output_bytes (ss_conns s1 c))
      + k1 * int (sz_max + 1)"
    using assms(1) unfolding output_delta_def by blast
  obtain k2 where k2: "int (ss_total_queued_output_bytes s2) + int (cn_queued_output_bytes (ss_conns s1 c)) =
      int (ss_total_queued_output_bytes s1) + int (cn_queued_output_bytes (ss_conns s2 c))
      + k2 * int (sz_max + 1)"
    using assms(2) unfolding output_delta_def by blast
  have "int (ss_total_queued_output_bytes s2) + int (cn_queued_output_bytes (ss_conns s c)) =
      int (ss_total_queued_output_bytes s) + int (cn_queued_output_bytes (ss_conns s2 c))
      + (k1 + k2) * int (sz_max + 1)"
    using k1 k2 by (simp only: distrib_right)
  then show ?thesis
    using assms unfolding output_delta_def by auto
qed

lemma queue_frame_sound:
  assumes "queue_frame c f s = (s', r)" "output_ok s c" "frame_rest f \<noteq> []"
  shows "output_ok s' c \<and> output_delta c s s' \<and> w_sent (ss_world s') = w_sent (ss_world s) \<and>
    (r = ER_overflow \<and> s' = s \<or>
     r = ER_queued \<and> output_stream s' c = output_stream s c @ frame_rest f)"
proof -
  let ?n = "frame_size f - of_offset f" and ?q = "cn_queued_output_bytes (ss_conns s c)"
  obtain s1 g where g: "(if ?n \<le> output_queue_limit s \<and> ?q \<le> output_queue_limit s - ?n
      then reserve_global_output ?n s else (s, False)) = (s1, g)" by fastforce
  show ?thesis
  proof (cases g)
    case False
    then have "s1 = s"
      using g reserve_global_output_sound(4) [of ?n s s1 g] by (auto split: if_splits)
    then have "s' = s" "r = ER_overflow"
      using assms(1) g False by (simp_all add: queue_frame_def Let_def)
    then show ?thesis using assms(2) by (simp add: output_same_delta)
  next
    case True
    then have fits: "?q + ?n \<le> output_queue_limit s" and r1: "reserve_global_output ?n s = (s1, True)"
      using g by (auto split: if_splits)
    note sp = reserve_global_output_sound [OF r1]
    have s': "s' = conn_upd c (\<lambda>cn. cn\<lparr>cn_output_queue := cn_output_queue cn @ [f],
        cn_queued_output_bytes := ?q + ?n\<rparr>)
        (if ?q = 0 then conn_upd c
           (\<lambda>cn. cn\<lparr>cn_last_output_progress := snd (clock_read s1)\<rparr>) (fst (clock_read s1)) else s1)"
      and r: "r = ER_queued"
      using assms(1) g True by (auto simp: queue_frame_def Let_def split_beta)
    have cn: "cn_output_queue (ss_conns s' c) = cn_output_queue (ss_conns s c) @ [f]"
      "cn_queued_output_bytes (ss_conns s' c) = ?q + ?n" "cn_fd (ss_conns s' c) = cn_fd (ss_conns s c)"
      "ss_options s' = ss_options s" "w_sent (ss_world s') = w_sent (ss_world s)"
      "ss_total_queued_output_bytes s' = sz_add (ss_total_queued_output_bytes s) ?n"
      using sp by (simp_all add: s')
    have "output_delta c s s'"
      using sp(1,5) cn by (intro output_delta_add [where n = ?n]) (simp_all add: s')
    moreover have "output_ok s' c"
      using assms(2,3) cn fits
      by (simp add: output_ok_def queue_ok_def pending_output_def output_queue_limit_def
          frame_rest_length)
    ultimately show ?thesis
      using r cn by (simp add: output_stream_def pending_output_def)
  qed
qed

subsection \<open>Writing a response\<close>

text \<open>
  What a write of \<open>bytes\<close> may do to the output of a connection: the queue stays consistent, the
  kernel has accepted a prefix of the old stream and the new bytes, and on success the stream is
  exactly both.
\<close>

definition appends :: "nat \<Rightarrow> bstring \<Rightarrow> bool \<Rightarrow> ServerState \<Rightarrow> ServerState \<Rightarrow> bool" where
  "appends c bytes success s s' \<longleftrightarrow> output_ok s' c \<and> output_delta c s s' \<and>
     (\<exists>rest. w_sent (ss_world s') (cn_fd (ss_conns s c)) @ rest = output_stream s c @ bytes) \<and>
     (success \<longrightarrow> output_stream s' c = output_stream s c @ bytes)"

lemma appends_same:
  "output_same s s' \<Longrightarrow> output_ok s c \<Longrightarrow> w_sent (ss_world s') = w_sent (ss_world s) \<Longrightarrow>
     \<not> success \<Longrightarrow> appends c bytes success s s'"
  by (simp add: appends_def output_same_ok output_same_delta output_stream_def)

lemma appends_weaken: "appends c bytes True s s' \<Longrightarrow> appends c bytes b s s'"
  by (simp add: appends_def)

lemma appends_same1:
  "appends c bytes b s s' \<Longrightarrow> output_same s' s'' \<Longrightarrow> w_sent (ss_world s'') = w_sent (ss_world s') \<Longrightarrow>
     appends c bytes b s s''"
  by (auto simp: appends_def output_same_ok output_same_stream intro: output_delta_same1)

lemma queue_frame_appends:
  assumes q: "queue_frame c f s1 = (s', r)" and same: "output_same s s1" and ok: "output_ok s c"
    and rest: "frame_rest f \<noteq> []" "bytes = sent @ frame_rest f"
    and sent: "w_sent (ss_world s1) (cn_fd (ss_conns s c)) = w_sent (ss_world s) (cn_fd (ss_conns s c)) @ sent"
    and empty: "sent \<noteq> [] \<longrightarrow> pending_output (ss_conns s c) = []"
  shows "appends c bytes (r = ER_queued) s s' \<and>
    (r = ER_queued \<or> r = ER_overflow \<and> output_same s s')"
proof -
  have ok1: "output_ok s1 c" using ok same by (simp add: output_same_ok)
  have st1: "output_stream s1 c = output_stream s c @ sent"
    using sent empty output_same_conn [OF same]
    by (cases "sent = []") (simp_all add: output_stream_def)
  have "w_sent (ss_world s1) (cn_fd (ss_conns s c)) @ pending_output (ss_conns s c) @ frame_rest f =
      output_stream s c @ bytes"
    using sent empty rest by (cases "sent = []") (simp_all add: output_stream_def)
  then have ex: "\<exists>x. w_sent (ss_world s1) (cn_fd (ss_conns s c)) @ x = output_stream s c @ bytes" ..
  note qs = queue_frame_sound [OF q ok1 rest(1)]
  then have "r = ER_queued \<Longrightarrow> output_stream s' c = output_stream s c @ bytes"
    using st1 rest(2) by auto
  then show ?thesis
    using qs ex same output_delta_same2 [OF same] by (auto simp: appends_def)
qed

lemma enqueue_frame_sent:
  assumes e: "enqueue_frame c f s = (s', r)" and ok: "output_ok s c"
    and empty: "cn_output_queue (ss_conns s c) = []" and f: "of_offset f = 0"
    and q: "send_frame_once (cn_fd (ss_conns s c)) f (ss_world s) = (w, Inr n)" "0 < n"
  shows "appends c (frame_bytes f) (r \<in> {ER_sent, ER_queued}) s s' \<and>
    (r \<in> {ER_sent, ER_queued} \<or> output_same s s')"
proof -
  let ?fd = "cn_fd (ss_conns s c)" and ?f = "f\<lparr>of_offset := n\<rparr>"
  let ?s2 = "mark_output_progress c (s\<lparr>ss_world := w\<rparr>)"
  have fr: "frame_rest f = frame_bytes f" using f by (simp add: frame_rest_def)
  have sent: "w_sent w ?fd = w_sent (ss_world s) ?fd @ take n (frame_bytes f)"
    and le: "n \<le> length (frame_bytes f)"
    using send_frame_once_sound [OF q(1)] fr by auto
  have p: "pending_output (ss_conns s c) = []" using empty by (simp add: pending_output_def)
  have same: "output_same s ?s2"
    by (rule output_same_trans [OF output_same_world output_same_mark])
  have sent2: "w_sent (ss_world ?s2) ?fd = w_sent (ss_world s) ?fd @ take n (frame_bytes f)"
    using sent by (simp add: mark_output_progress_eq)
  have sz: "length (frame_bytes f) = frame_size f"
    by (simp add: frame_bytes_def frame_size_def)
  show ?thesis
  proof (cases "n = frame_size f")
    case True
    then have s': "s' = ?s2" and r: "r = ER_sent"
      using e empty q by (simp_all add: enqueue_frame_def Let_def)
    have "output_stream ?s2 c = output_stream s c @ frame_bytes f"
      using sent2 p True sz output_same_conn [OF same] by (simp add: output_stream_def)
    then show ?thesis
      using ok same sent2 True sz p
      by (simp add: s' r appends_def output_same_ok output_same_delta output_stream_def)
  next
    case False
    then have k: "queue_frame c ?f ?s2 = (s', r)"
      using e empty q by (simp add: enqueue_frame_def Let_def)
    have rest: "frame_rest ?f \<noteq> []" "frame_bytes f = take n (frame_bytes f) @ frame_rest ?f"
      using False le sz by (simp_all add: frame_rest_def)
    from queue_frame_appends [OF k same ok rest sent2] p show ?thesis
      by (auto intro: appends_weaken)
  qed
qed

lemma enqueue_frame_appends:
  assumes e: "enqueue_frame c f s = (s', r)" and ok: "output_ok s c"
    and f: "frame_rest f \<noteq> []" "of_offset f = 0"
  shows "appends c (frame_bytes f) (r \<in> {ER_sent, ER_queued}) s s' \<and>
    (r \<in> {ER_sent, ER_queued} \<or> output_same s s')"
proof (cases "cn_output_queue (ss_conns s c) = []")
  case False
  then have "queue_frame c f s = (s', r)"
    using e by (simp add: enqueue_frame_def)
  from queue_frame_appends [OF this _ ok f(1), of "frame_bytes f" "[]"] f(2) show ?thesis
    by (auto simp: frame_rest_def)
next
  case True
  let ?fd = "cn_fd (ss_conns s c)"
  have fr: "frame_rest f = frame_bytes f" using f(2) by (simp add: frame_rest_def)
  obtain w q where q: "send_frame_once ?fd f (ss_world s) = (w, q)" by fastforce
  note so = send_frame_once_sound [OF q]
  let ?s1 = "s\<lparr>ss_world := w\<rparr>"
  have queued: "queue_frame c f ?s1 = (s', r) \<Longrightarrow> w_sent w ?fd = w_sent (ss_world s) ?fd \<Longrightarrow> ?thesis"
    using queue_frame_appends [OF _ output_same_world ok f(1), of w s' r "frame_bytes f" "[]"] fr
    by auto
  show ?thesis
  proof (cases q)
    case (Inr n)
    show ?thesis
    proof (cases "n > 0")
      case n: True
      from enqueue_frame_sent [OF e ok True f(2)] q Inr n show ?thesis by auto
    next
      case False
      then have "queue_frame c f ?s1 = (s', r)"
        using e True q Inr by (simp add: enqueue_frame_def Let_def)
      then show ?thesis by (rule queued) (use so Inr False in simp)
    qed
  next
    case (Inl x)
    show ?thesis
    proof (cases "x = EAGAIN")
      case True
      then have "queue_frame c f ?s1 = (s', r)"
        using e \<open>cn_output_queue _ = []\<close> q Inl by (simp add: enqueue_frame_def Let_def)
      then show ?thesis by (rule queued) (use so Inl in simp)
    next
      case False
      then have s': "s' = conn_upd c (\<lambda>cn. cn\<lparr>cn_closing := True\<rparr>) ?s1" and r: "\<exists>y. r = ER_throw y"
        using e True q Inl by (auto simp: enqueue_frame_def Let_def)
      have "output_same s s'"
        unfolding s' by (rule output_same_trans [OF output_same_world output_same_closing])
      moreover have "w_sent (ss_world s') = w_sent (ss_world s)"
        using so Inl by (simp add: s')
      ultimately show ?thesis using ok r by (auto intro!: appends_same)
    qed
  qed
qed

lemma response_frame_props:
  "frame_rest (response_frame cn i r d) \<noteq> []" "of_offset (response_frame cn i r d) = 0"
  by (simp_all add: frame_rest_def frame_bytes_def response_frame_def header_size_def
      flip: length_0_conv)

subsection \<open>Closing a connection\<close>

lemma readiness_control_world [simp]:
  "w_sent (fst (readiness_control k f e t w)) = w_sent w"
  "w_send (fst (readiness_control k f e t w)) = w_send w"
  "w_recv (fst (readiness_control k f e t w)) = w_recv w"
  "w_clock (fst (readiness_control k f e t w)) = w_clock w"
  by (simp_all add: readiness_control_def readiness_errno_def add_effect_def Let_def split: list.split)

lemma effect_world [simp]:
  "w_sent (socket_shutdown f w) = w_sent w" "w_send (socket_shutdown f w) = w_send w"
  "w_recv (socket_shutdown f w) = w_recv w" "w_clock (socket_shutdown f w) = w_clock w"
  "w_sent (socket_close f w) = w_sent w" "w_send (socket_close f w) = w_send w"
  "w_recv (socket_close f w) = w_recv w" "w_clock (socket_close f w) = w_clock w"
  "w_sent (readiness_signal f w) = w_sent w" "w_send (readiness_signal f w) = w_send w"
  "w_recv (readiness_signal f w) = w_recv w" "w_clock (readiness_signal f w) = w_clock w"
  by (simp_all add: socket_shutdown_def socket_close_def readiness_signal_def add_effect_def)

lemma refresh_world [simp]:
  "w_sent (ss_world (fst (refresh_connection_events c s))) = w_sent (ss_world s)"
  "w_send (ss_world (fst (refresh_connection_events c s))) = w_send (ss_world s)"
  "w_recv (ss_world (fst (refresh_connection_events c s))) = w_recv (ss_world s)"
  "w_clock (ss_world (fst (refresh_connection_events c s))) = w_clock (ss_world s)"
  by (simp_all add: refresh_connection_events_def Let_def split_beta split: option.split)

lemma wake_reactor_world [simp]:
  "w_sent (ss_world (wake_reactor s)) = w_sent (ss_world s)"
  "w_send (ss_world (wake_reactor s)) = w_send (ss_world s)"
  "w_recv (ss_world (wake_reactor s)) = w_recv (ss_world s)"
  "w_clock (ss_world (wake_reactor s)) = w_clock (ss_world s)"
  by (simp_all add: wake_reactor_def)

lemma fold_refresh_world [simp]:
  "w_sent (ss_world (fold (\<lambda>c s. fst (refresh_connection_events c s)) cs s)) = w_sent (ss_world s)"
  by (induction cs arbitrary: s) simp_all

lemma collect_world [simp]: "ss_world (fst (collect_resumable c s)) = ss_world s"
  by simp

lemma resume_world [simp]:
  "w_sent (ss_world (resume_paused_connections c s)) = w_sent (ss_world s)"
  by (simp add: resume_paused_connections_def split_beta Let_def)

lemma close_owned_frame [simp]:
  "ss_socket_path (close_owned f s) = ss_socket_path s"
  "ss_options (close_owned f s) = ss_options s"
  "ss_running (close_owned f s) = ss_running s"
  "ss_active_streams (close_owned f s) = ss_active_streams s"
  "ss_total_inflight_request_bytes (close_owned f s) = ss_total_inflight_request_bytes s"
  "ss_total_queued_output_bytes (close_owned f s) = ss_total_queued_output_bytes s"
  "ss_next_connection_generation (close_owned f s) = ss_next_connection_generation s"
  "ss_max_concurrent_streams (close_owned f s) = ss_max_concurrent_streams s"
  "ss_listener_fd (close_owned f s) = ss_listener_fd s"
  "ss_wakeup_fd (close_owned f s) = ss_wakeup_fd s"
  "ss_wake_pending (close_owned f s) = ss_wake_pending s"
  "ss_instance_lock_fd (close_owned f s) = ss_instance_lock_fd s"
  "ss_readiness_fd (close_owned f s) = ss_readiness_fd s"
  "ss_socket_device (close_owned f s) = ss_socket_device s"
  "ss_socket_inode (close_owned f s) = ss_socket_inode s"
  "ss_socket_identity_valid (close_owned f s) = ss_socket_identity_valid s"
  "ss_stopped (close_owned f s) = ss_stopped s"
  "ss_run_started (close_owned f s) = ss_run_started s"
  "ss_run_active (close_owned f s) = ss_run_active s"
  "ss_handler_registry (close_owned f s) = ss_handler_registry s"
  "ss_not_found_handler (close_owned f s) = ss_not_found_handler s"
  "ss_pending_jobs (close_owned f s) = ss_pending_jobs s"
  "ss_workers_stopping (close_owned f s) = ss_workers_stopping s"
  "ss_pending_serialized (close_owned f s) = ss_pending_serialized s"
  "ss_default_domain (close_owned f s) = ss_default_domain s"
  "ss_named_domains (close_owned f s) = ss_named_domains s"
  "ss_active_domain_count (close_owned f s) = ss_active_domain_count s"
  "ss_busy_domain_count (close_owned f s) = ss_busy_domain_count s"
  "ss_serialized_stopping (close_owned f s) = ss_serialized_stopping s"
  "ss_serialized_worker_count (close_owned f s) = ss_serialized_worker_count s"
  "ss_max_serialized_concurrency (close_owned f s) = ss_max_serialized_concurrency s"
  "ss_reactor_error (close_owned f s) = ss_reactor_error s"
  "ss_connections (close_owned f s) = ss_connections s"
  "ss_resumed_connections (close_owned f s) = ss_resumed_connections s"
  "ss_counters (close_owned f s) = ss_counters s"
  "ss_conns (close_owned f s) = ss_conns s"
  "ss_rcs (close_owned f s) = ss_rcs s"
  "ss_flags (close_owned f s) = ss_flags s"
  "w_sent (ss_world (close_owned f s)) = w_sent (ss_world s)"
  by (simp_all add: close_owned_def)

lemma fold_close_owned_frame [simp]:
  "ss_socket_path (fold close_owned fs s) = ss_socket_path s"
  "ss_options (fold close_owned fs s) = ss_options s"
  "ss_running (fold close_owned fs s) = ss_running s"
  "ss_active_streams (fold close_owned fs s) = ss_active_streams s"
  "ss_total_inflight_request_bytes (fold close_owned fs s) = ss_total_inflight_request_bytes s"
  "ss_total_queued_output_bytes (fold close_owned fs s) = ss_total_queued_output_bytes s"
  "ss_next_connection_generation (fold close_owned fs s) = ss_next_connection_generation s"
  "ss_max_concurrent_streams (fold close_owned fs s) = ss_max_concurrent_streams s"
  "ss_listener_fd (fold close_owned fs s) = ss_listener_fd s"
  "ss_wakeup_fd (fold close_owned fs s) = ss_wakeup_fd s"
  "ss_wake_pending (fold close_owned fs s) = ss_wake_pending s"
  "ss_instance_lock_fd (fold close_owned fs s) = ss_instance_lock_fd s"
  "ss_readiness_fd (fold close_owned fs s) = ss_readiness_fd s"
  "ss_socket_device (fold close_owned fs s) = ss_socket_device s"
  "ss_socket_inode (fold close_owned fs s) = ss_socket_inode s"
  "ss_socket_identity_valid (fold close_owned fs s) = ss_socket_identity_valid s"
  "ss_stopped (fold close_owned fs s) = ss_stopped s"
  "ss_run_started (fold close_owned fs s) = ss_run_started s"
  "ss_run_active (fold close_owned fs s) = ss_run_active s"
  "ss_handler_registry (fold close_owned fs s) = ss_handler_registry s"
  "ss_not_found_handler (fold close_owned fs s) = ss_not_found_handler s"
  "ss_pending_jobs (fold close_owned fs s) = ss_pending_jobs s"
  "ss_workers_stopping (fold close_owned fs s) = ss_workers_stopping s"
  "ss_pending_serialized (fold close_owned fs s) = ss_pending_serialized s"
  "ss_default_domain (fold close_owned fs s) = ss_default_domain s"
  "ss_named_domains (fold close_owned fs s) = ss_named_domains s"
  "ss_active_domain_count (fold close_owned fs s) = ss_active_domain_count s"
  "ss_busy_domain_count (fold close_owned fs s) = ss_busy_domain_count s"
  "ss_serialized_stopping (fold close_owned fs s) = ss_serialized_stopping s"
  "ss_serialized_worker_count (fold close_owned fs s) = ss_serialized_worker_count s"
  "ss_max_serialized_concurrency (fold close_owned fs s) = ss_max_serialized_concurrency s"
  "ss_reactor_error (fold close_owned fs s) = ss_reactor_error s"
  "ss_connections (fold close_owned fs s) = ss_connections s"
  "ss_resumed_connections (fold close_owned fs s) = ss_resumed_connections s"
  "ss_counters (fold close_owned fs s) = ss_counters s"
  "ss_conns (fold close_owned fs s) = ss_conns s"
  "ss_rcs (fold close_owned fs s) = ss_rcs s"
  "ss_flags (fold close_owned fs s) = ss_flags s"
  "w_sent (ss_world (fold close_owned fs s)) = w_sent (ss_world s)"
  by (induction fs arbitrary: s) simp_all

lemma drop_capabilities_frame [simp]:
  "ss_socket_path (drop_capabilities k s) = ss_socket_path s"
  "ss_options (drop_capabilities k s) = ss_options s"
  "ss_running (drop_capabilities k s) = ss_running s"
  "ss_active_streams (drop_capabilities k s) = ss_active_streams s"
  "ss_total_inflight_request_bytes (drop_capabilities k s) = ss_total_inflight_request_bytes s"
  "ss_total_queued_output_bytes (drop_capabilities k s) = ss_total_queued_output_bytes s"
  "ss_next_connection_generation (drop_capabilities k s) = ss_next_connection_generation s"
  "ss_max_concurrent_streams (drop_capabilities k s) = ss_max_concurrent_streams s"
  "ss_listener_fd (drop_capabilities k s) = ss_listener_fd s"
  "ss_wakeup_fd (drop_capabilities k s) = ss_wakeup_fd s"
  "ss_wake_pending (drop_capabilities k s) = ss_wake_pending s"
  "ss_instance_lock_fd (drop_capabilities k s) = ss_instance_lock_fd s"
  "ss_readiness_fd (drop_capabilities k s) = ss_readiness_fd s"
  "ss_socket_device (drop_capabilities k s) = ss_socket_device s"
  "ss_socket_inode (drop_capabilities k s) = ss_socket_inode s"
  "ss_socket_identity_valid (drop_capabilities k s) = ss_socket_identity_valid s"
  "ss_stopped (drop_capabilities k s) = ss_stopped s"
  "ss_run_started (drop_capabilities k s) = ss_run_started s"
  "ss_run_active (drop_capabilities k s) = ss_run_active s"
  "ss_handler_registry (drop_capabilities k s) = ss_handler_registry s"
  "ss_not_found_handler (drop_capabilities k s) = ss_not_found_handler s"
  "ss_pending_jobs (drop_capabilities k s) = ss_pending_jobs s"
  "ss_workers_stopping (drop_capabilities k s) = ss_workers_stopping s"
  "ss_pending_serialized (drop_capabilities k s) = ss_pending_serialized s"
  "ss_default_domain (drop_capabilities k s) = ss_default_domain s"
  "ss_named_domains (drop_capabilities k s) = ss_named_domains s"
  "ss_active_domain_count (drop_capabilities k s) = ss_active_domain_count s"
  "ss_busy_domain_count (drop_capabilities k s) = ss_busy_domain_count s"
  "ss_serialized_stopping (drop_capabilities k s) = ss_serialized_stopping s"
  "ss_serialized_worker_count (drop_capabilities k s) = ss_serialized_worker_count s"
  "ss_max_serialized_concurrency (drop_capabilities k s) = ss_max_serialized_concurrency s"
  "ss_reactor_error (drop_capabilities k s) = ss_reactor_error s"
  "ss_connections (drop_capabilities k s) = ss_connections s"
  "ss_resumed_connections (drop_capabilities k s) = ss_resumed_connections s"
  "ss_counters (drop_capabilities k s) = ss_counters s"
  "ss_conns (drop_capabilities k s) = ss_conns s"
  "ss_rcs (drop_capabilities k s) = ss_rcs s"
  "w_sent (ss_world (drop_capabilities k s)) = w_sent (ss_world s)"
  by (simp_all add: drop_capabilities_def Let_def split: option.split)

lemma drop_reactor_connection_frame [simp]:
  "ss_socket_path (drop_reactor_connection r s) = ss_socket_path s"
  "ss_options (drop_reactor_connection r s) = ss_options s"
  "ss_running (drop_reactor_connection r s) = ss_running s"
  "ss_active_streams (drop_reactor_connection r s) = ss_active_streams s"
  "ss_total_inflight_request_bytes (drop_reactor_connection r s) = ss_total_inflight_request_bytes s"
  "ss_total_queued_output_bytes (drop_reactor_connection r s) = ss_total_queued_output_bytes s"
  "ss_next_connection_generation (drop_reactor_connection r s) = ss_next_connection_generation s"
  "ss_max_concurrent_streams (drop_reactor_connection r s) = ss_max_concurrent_streams s"
  "ss_listener_fd (drop_reactor_connection r s) = ss_listener_fd s"
  "ss_wakeup_fd (drop_reactor_connection r s) = ss_wakeup_fd s"
  "ss_wake_pending (drop_reactor_connection r s) = ss_wake_pending s"
  "ss_instance_lock_fd (drop_reactor_connection r s) = ss_instance_lock_fd s"
  "ss_readiness_fd (drop_reactor_connection r s) = ss_readiness_fd s"
  "ss_socket_device (drop_reactor_connection r s) = ss_socket_device s"
  "ss_socket_inode (drop_reactor_connection r s) = ss_socket_inode s"
  "ss_socket_identity_valid (drop_reactor_connection r s) = ss_socket_identity_valid s"
  "ss_stopped (drop_reactor_connection r s) = ss_stopped s"
  "ss_run_started (drop_reactor_connection r s) = ss_run_started s"
  "ss_run_active (drop_reactor_connection r s) = ss_run_active s"
  "ss_handler_registry (drop_reactor_connection r s) = ss_handler_registry s"
  "ss_not_found_handler (drop_reactor_connection r s) = ss_not_found_handler s"
  "ss_pending_jobs (drop_reactor_connection r s) = ss_pending_jobs s"
  "ss_workers_stopping (drop_reactor_connection r s) = ss_workers_stopping s"
  "ss_pending_serialized (drop_reactor_connection r s) = ss_pending_serialized s"
  "ss_default_domain (drop_reactor_connection r s) = ss_default_domain s"
  "ss_named_domains (drop_reactor_connection r s) = ss_named_domains s"
  "ss_active_domain_count (drop_reactor_connection r s) = ss_active_domain_count s"
  "ss_busy_domain_count (drop_reactor_connection r s) = ss_busy_domain_count s"
  "ss_serialized_stopping (drop_reactor_connection r s) = ss_serialized_stopping s"
  "ss_serialized_worker_count (drop_reactor_connection r s) = ss_serialized_worker_count s"
  "ss_max_serialized_concurrency (drop_reactor_connection r s) = ss_max_serialized_concurrency s"
  "ss_reactor_error (drop_reactor_connection r s) = ss_reactor_error s"
  "ss_connections (drop_reactor_connection r s) = ss_connections s"
  "ss_resumed_connections (drop_reactor_connection r s) = ss_resumed_connections s"
  "ss_counters (drop_reactor_connection r s) = ss_counters s"
  "ss_conns (drop_reactor_connection r s) = ss_conns s"
  "w_sent (ss_world (drop_reactor_connection r s)) = w_sent (ss_world s)"
  by (simp_all add: drop_reactor_connection_def Let_def)

lemma release_bytes_output:
  "output_same s (release_connection_request_bytes c n s)"
  "w_sent (ss_world (release_connection_request_bytes c n s)) = w_sent (ss_world s)"
  by (simp_all add: output_same_def release_connection_request_bytes_def sub_inflight_def)

text \<open>
  Closing keeps the accepted bytes, empties the queue of the connection and gives its bytes back
  to the aggregate counter.
\<close>

lemma close_connection_output:
  assumes r: "map_of (ss_connections s) fd = Some r" and c: "c = rc_conn (ss_rcs s r)"
    and ok: "output_ok s c"
  shows "output_delta c s (close_connection fd s)"
    "cn_queued_output_bytes (ss_conns (close_connection fd s) c) = 0"
    "cn_output_queue (ss_conns (close_connection fd s) c) = []"
    "w_sent (ss_world (close_connection fd s)) = w_sent (ss_world s)"
proof -
  let ?q = "cn_queued_output_bytes (ss_conns s c)"
  define s1 where "s1 = drop_output c (world_upd (socket_shutdown fd)
    (let s = conn_upd c (\<lambda>cn. cn\<lparr>cn_closing := True\<rparr>) (drop_reactor_connection r s)
     in if ss_readiness_fd s \<ge> 0
        then world_upd (\<lambda>w. fst (readiness_control Ctl_remove fd 0 0 w)) s else s))"
  define s2 where "s2 = (if cn_active_regular (ss_conns s1 c) \<noteq> 0 \<or> cn_pending_serialized (ss_conns s1 c) \<noteq> 0
    then s1 else s1\<lparr>ss_connections := AList.delete fd (ss_connections s1)\<rparr>)"
  have e: "close_connection fd s = (if rc_reserved_request_bytes (ss_rcs s r) \<noteq> 0
     then release_connection_request_bytes c (rc_reserved_request_bytes (ss_rcs s r)) s2 else s2)"
    using r c by (simp add: close_connection_def Let_def s1_def s2_def)
  have t: "ss_total_queued_output_bytes s1 = (if ?q = 0 then ss_total_queued_output_bytes s
      else sz_sub (ss_total_queued_output_bytes s) ?q)"
    and f: "ss_options s1 = ss_options s" "cn_fd (ss_conns s1 c) = cn_fd (ss_conns s c)"
      "cn_queued_output_bytes (ss_conns s1 c) = 0" "cn_output_queue (ss_conns s1 c) = []"
      "w_sent (ss_world s1) = w_sent (ss_world s)"
    and x: "\<And>x. x \<noteq> c \<Longrightarrow> ss_conns s1 x = ss_conns s x"
    by (simp_all add: s1_def drop_output_def Let_def)
  have "?q \<le> sz_max" using ok by (simp add: output_ok_def queue_ok_def)
  then have d1: "output_delta c s s1"
  proof (cases "?q = 0")
    case True
    with t f x show ?thesis unfolding output_delta_def by (auto intro: exI [of _ 0])
  next
    case False
    with t f x \<open>?q \<le> sz_max\<close> show ?thesis by (intro output_delta_sub [where n = ?q]) simp_all
  qed
  have s2: "output_same s1 s2" "ss_world s2 = ss_world s1"
    by (simp_all add: s2_def output_same_def)
  have same: "output_same s1 (close_connection fd s)"
    "w_sent (ss_world (close_connection fd s)) = w_sent (ss_world s1)"
    using s2 release_bytes_output output_same_trans by (auto simp: e)
  show "output_delta c s (close_connection fd s)"
    using d1 same(1) by (rule output_delta_same1)
  show "cn_queued_output_bytes (ss_conns (close_connection fd s) c) = 0"
    "cn_output_queue (ss_conns (close_connection fd s) c) = []"
    "w_sent (ss_world (close_connection fd s)) = w_sent (ss_world s)"
    using same f by (simp_all add: output_same_def)
qed

lemma close_connection_absent:
  "map_of (ss_connections s) fd = None \<Longrightarrow> close_connection fd s = s"
  by (simp add: close_connection_def)

text \<open>
  A connection object owns its descriptor, so a registration under that descriptor is its own.
\<close>

definition owns_fd :: "ServerState \<Rightarrow> nat \<Rightarrow> bool" where
  "owns_fd s c \<longleftrightarrow> (case map_of (ss_connections s) (cn_fd (ss_conns s c)) of
     None \<Rightarrow> True | Some r \<Rightarrow> rc_conn (ss_rcs s r) = c)"

lemma close_own_output:
  assumes "owns_fd s c" "output_ok s c"
  shows "output_delta c s (close_connection (cn_fd (ss_conns s c)) s) \<and>
    output_ok (close_connection (cn_fd (ss_conns s c)) s) c \<and>
    cn_queued_output_bytes (ss_conns (close_connection (cn_fd (ss_conns s c)) s) c)
      \<le> cn_queued_output_bytes (ss_conns s c) \<and>
    w_sent (ss_world (close_connection (cn_fd (ss_conns s c)) s)) = w_sent (ss_world s)"
proof (cases "map_of (ss_connections s) (cn_fd (ss_conns s c))")
  case None
  then show ?thesis using assms(2) by (simp add: close_connection_absent output_same_delta)
next
  case (Some r)
  then have c: "c = rc_conn (ss_rcs s r)" using assms(1) by (simp add: owns_fd_def)
  note cl = close_connection_output [OF Some c assms(2)]
  have "output_queue_limit (close_connection (cn_fd (ss_conns s c)) s) = output_queue_limit s"
    using cl(1) by (simp add: output_delta_def output_queue_limit_def)
  then show ?thesis
    using cl assms(2) by (simp add: output_ok_def queue_ok_def pending_output_def)
qed

subsection \<open>The stream of a write\<close>

lemma owns_fd_cong:
  "ss_connections s' = ss_connections s \<Longrightarrow> ss_rcs s' = ss_rcs s \<Longrightarrow>
     cn_fd (ss_conns s' c) = cn_fd (ss_conns s c) \<Longrightarrow> owns_fd s' c = owns_fd s c"
  by (simp only: owns_fd_def)

lemma queue_frame_conns:
  "ss_connections (fst (queue_frame c f s)) = ss_connections s"
  "ss_rcs (fst (queue_frame c f s)) = ss_rcs s"
  by (simp_all add: queue_frame_def reserve_global_output_def Let_def split_beta)

lemma enqueue_frame_conns:
  "ss_connections (fst (enqueue_frame c f s)) = ss_connections s"
  "ss_rcs (fst (enqueue_frame c f s)) = ss_rcs s"
  by (simp_all add: enqueue_frame_def queue_frame_conns mark_output_progress_eq Let_def
      split: prod.split sum.split)

lemma appends_close:
  assumes a: "appends c bytes b s s1" and same: "output_same s s1" and "owns_fd s1 c"
  shows "appends c bytes False s (close_connection (cn_fd (ss_conns s1 c)) s1)"
proof -
  have "output_ok s1 c" using a by (simp add: appends_def)
  from close_own_output [OF assms(3) this] show ?thesis
    using a output_delta_same2 [OF same] by (simp add: appends_def)
qed

lemma overflow_appends:
  assumes a: "appends c bytes b s s1" and same: "output_same s s1" and own: "owns_fd s c"
    and "ss_connections s1 = ss_connections s" "ss_rcs s1 = ss_rcs s"
  shows "appends c bytes False s (let s2 = conn_upd c (\<lambda>cn. cn\<lparr>cn_closing := True\<rparr>) s1
     in close_connection (cn_fd (ss_conns s2 c)) s2)"
proof -
  let ?s2 = "conn_upd c (\<lambda>cn. cn\<lparr>cn_closing := True\<rparr>) s1"
  have sm: "output_same s ?s2"
    using same output_same_closing by (rule output_same_trans)
  have a2: "appends c bytes b s ?s2"
    using a output_same_closing by (rule appends_same1) simp
  have "owns_fd ?s2 c"
    using own assms(4,5) output_same_conn(1) [OF same, of c]
    by (subst owns_fd_cong [of _ s]) simp_all
  from appends_close [OF a2 sm this] show ?thesis by (simp only: Let_def)
qed

lemma send_response_appends:
  assumes e: "send_response c i r d s = (s', res)" and ok: "output_ok s c" and own: "owns_fd s c"
  shows "appends c (frame_bytes (response_frame (ss_conns s c) i r d)) (res = Inr ()) s s'"
proof -
  let ?f = "response_frame (ss_conns s c) i r d"
  obtain w k where k: "check_deadline d ''send timed out'' (ss_world s) = (w, k)" by fastforce
  have ws: "w_sent w = w_sent (ss_world s)"
    using check_deadline_frame(3) [of d "''send timed out''" "ss_world s"] k by simp
  let ?s1 = "s\<lparr>ss_world := w\<rparr>"
  show ?thesis
  proof (cases k)
    case (Inl x)
    then have "s' = ?s1" "res = Inl x" using e k by (simp_all add: send_response_def)
    then show ?thesis using ok ws by (intro appends_same) (simp_all add: output_same_world)
  next
    case (Inr u)
    obtain s2 q where q: "enqueue_frame c ?f ?s1 = (s2, q)" by fastforce
    have ok1: "output_ok ?s1 c"
      using ok output_same_ok [OF output_same_world] by blast
    have st: "output_stream ?s1 c = output_stream s c"
      using ws by (simp add: output_stream_def)
    have tr: "appends c b p ?s1 s3 \<Longrightarrow> appends c b p s s3" for b p s3
      using st by (auto simp: appends_def intro: output_delta_same2 [OF output_same_world])
    from enqueue_frame_appends [OF q ok1 response_frame_props]
    have a: "appends c (frame_bytes ?f) (q \<in> {ER_sent, ER_queued}) ?s1 s2"
      and sm: "q \<in> {ER_sent, ER_queued} \<or> output_same ?s1 s2" by simp_all
    note u = e [unfolded send_response_def k Inr, simplified Let_def prod.case sum.case]
    show ?thesis
    proof (cases q)
      case ER_sent
      then show ?thesis using u q a by (auto intro: tr appends_weaken)
    next
      case (ER_throw x)
      then show ?thesis using u q a by (auto intro: tr)
    next
      case ER_queued
      obtain s3 g where g: "refresh_connection_events c s2 = (s3, g)" by fastforce
      have s3: "output_same s2 s3" "w_sent (ss_world s3) = w_sent (ss_world s2)"
        using output_same_refresh [of s2 c] refresh_world(1) [of c s2] g by simp_all
      have a3: "appends c (frame_bytes ?f) True s s3"
        using a ER_queued s3 by (auto intro!: tr intro: appends_same1)
      then have "appends c (frame_bytes ?f) True s (wake_reactor s3)"
        by (rule appends_same1) (simp_all add: output_same_def)
      then show ?thesis
        using u q ER_queued g a3 by (cases g) (auto intro: appends_weaken)
    next
      case ER_overflow
      then have s': "s' = (let s3 = conn_upd c (\<lambda>cn. cn\<lparr>cn_closing := True\<rparr>) s2
          in close_connection (cn_fd (ss_conns s3 c)) s3)" and res: "res \<noteq> Inr ()"
        using u q by (auto simp: Let_def)
      have "owns_fd ?s1 c" using own by (subst owns_fd_cong [of _ s]) simp_all
      from tr [OF overflow_appends [OF a _ this]] q sm ER_overflow res show ?thesis
        by (simp add: s' enqueue_frame_conns [of c ?f ?s1, unfolded q, simplified])
    qed
  qed
qed

text \<open>The response that is actually sent.\<close>

definition effective_response :: "ServerState \<Rightarrow> Response \<Rightarrow> Response" where
  "effective_response s r =
     (if rsp_status r < 0
      then error_response s (internal_message s ''response status_code must not be negative'')
             status_internal_error
      else if response_too_large s r
      then error_response s (internal_message s ''response exceeds max_message_size'')
             status_internal_error
      else r)"

lemma write_fixed_response_eq:
  "write_fixed_response c i r d s = send_response c i (effective_response s r) d s"
proof -
  have sendable: "rsp_status q \<ge> 0 \<Longrightarrow> \<not> response_too_large s q \<Longrightarrow>
      write_fixed_response c i q d s = send_response c i q d s" for q
    by (subst write_fixed_response.simps) simp
  show ?thesis
  proof (cases "rsp_status r < 0 \<or> response_too_large s r")
    case False
    then show ?thesis using sendable [of r] by (simp add: effective_response_def)
  next
    case True
    have "rsp_status (effective_response s r) \<ge> 0 \<and> \<not> response_too_large s (effective_response s r)"
      using True by (simp add: effective_response_def error_response_sendable status_internal_error_def)
    moreover have "write_fixed_response c i r d s = write_fixed_response c i (effective_response s r) d s"
      using True by (subst write_fixed_response.simps) (auto simp: effective_response_def)
    ultimately show ?thesis using sendable by simp
  qed
qed

lemma write_fixed_response_appends:
  "write_fixed_response c i r d s = (s', res) \<Longrightarrow> output_ok s c \<Longrightarrow> owns_fd s c \<Longrightarrow>
     appends c (frame_bytes (response_frame (ss_conns s c) i (effective_response s r) d))
       (res = Inr ()) s s'"
  by (simp only: write_fixed_response_eq) (rule send_response_appends)

subsection \<open>The stream of a flush\<close>

lemma front_expired_same:
  "front_expired f s = (s', b) \<Longrightarrow> output_same s s' \<and> w_sent (ss_world s') = w_sent (ss_world s)"
  using clock_read_world(1) [of s] clock_read_frame [of s]
  by (cases "clock_read s") (auto simp: front_expired_def output_same_def split: if_splits)

lemma flush_progress_stream:
  assumes ok: "output_ok s c" and q: "cn_output_queue (ss_conns s c) = f # fs"
    and k: "send_frame_once (cn_fd (ss_conns s c)) f (ss_world s) = (w, Inr n)" "0 < n"
    and s': "s' = flush_progress c f fs n (s\<lparr>ss_world := w\<rparr>)"
  shows "output_ok s' c \<and> output_delta c s s' \<and> output_stream s' c = output_stream s c \<and>
    cn_queued_output_bytes (ss_conns s' c) \<le> cn_queued_output_bytes (ss_conns s c)"
proof -
  let ?q = "cn_queued_output_bytes (ss_conns s c)" and ?fd = "cn_fd (ss_conns s c)"
  let ?f = "f\<lparr>of_offset := of_offset f + n\<rparr>"
  have sent: "w_sent w ?fd = w_sent (ss_world s) ?fd @ take n (frame_rest f)"
    and le: "n \<le> length (frame_rest f)"
    using send_frame_once_sound [OF k(1)] by simp_all
  have p: "pending_output (ss_conns s c) = frame_rest f @ concat (map frame_rest fs)"
    using q by (simp add: pending_output_def)
  have qn: "n \<le> ?q" "?q \<le> output_queue_limit s" "output_queue_limit s \<le> sz_max"
    using ok le p by (simp_all add: output_ok_def queue_ok_def)
  have fin: "of_offset f + n = frame_size f \<longleftrightarrow> length (frame_rest f) = n"
    using le k(2) by (auto simp: frame_rest_length)
  have cn: "cn_fd (ss_conns s' c) = ?fd" "ss_options s' = ss_options s"
    "cn_queued_output_bytes (ss_conns s' c) = ?q - n"
    "cn_output_queue (ss_conns s' c) = (if length (frame_rest f) = n then fs else ?f # fs)"
    "ss_total_queued_output_bytes s' = sz_sub (ss_total_queued_output_bytes s) n"
    "w_sent (ss_world s') = w_sent w"
    using qn by (simp_all add: s' flush_progress_def mark_output_progress_eq sz_sub_le fin Let_def)
  have p': "pending_output (ss_conns s' c) = drop n (frame_rest f) @ concat (map frame_rest fs)"
    using cn(4) by (simp add: pending_output_def frame_rest_advance)
  have "output_delta c s s'"
    using cn qn by (intro output_delta_sub [where n = n])
      (simp_all add: s' flush_progress_def mark_output_progress_eq Let_def)
  moreover have "take n (frame_rest f) @ drop n (frame_rest f) @ x = frame_rest f @ x" for x
    by (metis append_assoc append_take_drop_id)
  then have "output_stream s' c = output_stream s c"
    using cn(1,6) sent p p' by (simp add: output_stream_def)
  moreover have "queue_ok (output_queue_limit s) (ss_conns s' c)"
    using ok q p p' cn(3,4) qn le
    by (auto simp: output_ok_def queue_ok_def frame_rest_advance)
  ultimately show ?thesis
    using ok cn qn by (simp add: output_ok_def output_queue_limit_def)
qed

lemma flush_loop_cases:
  assumes "flush_loop c n s = (s', b)"
  obtains (idle) "output_same s s'" "w_sent (ss_world s') = w_sent (ss_world s)"
  | (step) f fs s1 w k where "cn_output_queue (ss_conns s c) = f # fs" "n < kMaxFlushBytes"
      "front_expired f s = (s1, False)"
      "send_frame_once (cn_fd (ss_conns s1 c)) f (ss_world s1) = (w, Inr k)" "0 < k"
      "flush_loop c (n + k) (flush_progress c f fs k (s1\<lparr>ss_world := w\<rparr>)) = (s', b)"
proof (cases "cn_output_queue (ss_conns s c)")
  case Nil
  then have "s' = s" using assms by (subst (asm) flush_loop.simps) simp
  then show ?thesis by (intro idle) simp_all
next
  case q: (Cons f fs)
  obtain s1 x where s1: "front_expired f s = (s1, x)" by fastforce
  note sm = front_expired_same [OF s1, THEN conjunct1] front_expired_same [OF s1, THEN conjunct2]
  obtain w r where r: "send_frame_once (cn_fd (ss_conns s1 c)) f (ss_world s1) = (w, r)" by fastforce
  note so = send_frame_once_sound [OF r]
  note u = assms [unfolded flush_loop.simps [of c n s] q list.case s1 prod.case]
  have closing: "output_same s (conn_upd c (\<lambda>cn. cn\<lparr>cn_closing := True\<rparr>) s1)"
    using sm(1) output_same_closing by (rule output_same_trans)
  have unsent: "output_same s (s1\<lparr>ss_world := w\<rparr>)"
    "output_same s (conn_upd c (\<lambda>cn. cn\<lparr>cn_closing := True\<rparr>) (s1\<lparr>ss_world := w\<rparr>))"
    using sm(1) output_same_world output_same_closing by (blast intro: output_same_trans)+
  show ?thesis
  proof (cases "n < kMaxFlushBytes")
    case n: True
    show ?thesis
    proof (cases x)
      case True
      then have "s' = conn_upd c (\<lambda>cn. cn\<lparr>cn_closing := True\<rparr>) s1" using u n by simp
      with closing sm(2) show ?thesis by (intro idle) simp_all
    next
      case x: False
      show ?thesis
      proof (cases r)
        case (Inl e)
        then have "s' = (if e = EAGAIN then s1\<lparr>ss_world := w\<rparr>
            else conn_upd c (\<lambda>cn. cn\<lparr>cn_closing := True\<rparr>) (s1\<lparr>ss_world := w\<rparr>))"
          using u n x r by (simp add: Let_def split: if_splits)
        with unsent so sm(2) Inl show ?thesis by (intro idle) simp_all
      next
        case (Inr k)
        show ?thesis
        proof (cases "0 < k")
          case True
          with u n x r Inr show ?thesis by (intro step [OF q n]) (simp_all add: s1 Let_def)
        next
          case False
          then have "s' = conn_upd c (\<lambda>cn. cn\<lparr>cn_closing := True\<rparr>) (s1\<lparr>ss_world := w\<rparr>)"
            using u n x r Inr by (simp add: Let_def)
          with unsent so sm(2) Inr False show ?thesis by (intro idle) simp_all
        qed
      qed
    qed
  next
    case False
    then have "s' = s" using u by simp
    then show ?thesis by (intro idle) simp_all
  qed
qed

lemma flush_loop_stream:
  "flush_loop c n s = (s', b) \<Longrightarrow> output_ok s c \<Longrightarrow>
     output_ok s' c \<and> output_delta c s s' \<and> output_stream s' c = output_stream s c \<and>
     cn_queued_output_bytes (ss_conns s' c) \<le> cn_queued_output_bytes (ss_conns s c)"
proof (induction "kMaxFlushBytes - n" arbitrary: n s rule: less_induct)
  case less
  from less(2) show ?case
  proof (cases rule: flush_loop_cases)
    case idle
    then have "cn_queued_output_bytes (ss_conns s' c) = cn_queued_output_bytes (ss_conns s c)"
      by (simp add: output_same_def)
    with less(3) output_same_ok [OF idle(1)] output_same_stream [OF idle] output_same_delta [OF idle(1)]
    show ?thesis by simp
  next
    case (step f fs s1 w k)
    note sm = front_expired_same [OF step(3), THEN conjunct1] front_expired_same [OF step(3), THEN conjunct2]
    let ?s2 = "flush_progress c f fs k (s1\<lparr>ss_world := w\<rparr>)"
    have ok1: "output_ok s1 c" using less(3) sm(1) by (simp add: output_same_ok)
    have q1: "cn_output_queue (ss_conns s1 c) = f # fs"
      and n1: "cn_queued_output_bytes (ss_conns s1 c) = cn_queued_output_bytes (ss_conns s c)"
      using step(1) sm(1) by (simp_all add: output_same_def)
    from flush_progress_stream [OF ok1 q1 step(4,5) refl]
    have p: "output_ok ?s2 c" "output_delta c s1 ?s2" "output_stream ?s2 c = output_stream s1 c"
      "cn_queued_output_bytes (ss_conns ?s2 c) \<le> cn_queued_output_bytes (ss_conns s1 c)" by simp_all
    have "kMaxFlushBytes - (n + k) < kMaxFlushBytes - n" using step(2,5) by simp
    from less(1) [OF this step(6) p(1)]
    have i: "output_ok s' c" "output_delta c ?s2 s'" "output_stream s' c = output_stream ?s2 c"
      "cn_queued_output_bytes (ss_conns s' c) \<le> cn_queued_output_bytes (ss_conns ?s2 c)" by simp_all
    have "output_delta c s s'"
      using output_delta_trans_dec [OF p(2) i(2) p(4) i(4)] by (rule output_delta_same2 [OF sm(1)])
    moreover have "output_stream s1 c = output_stream s c"
      using sm by (rule output_same_stream)
    ultimately show ?thesis using i p n1 by simp
  qed
qed

lemma flush_output:
  assumes e: "flush_connection_output r s = (s', b)" and c: "c = rc_conn (ss_rcs s r)"
    and ok: "output_ok s c"
  shows "output_ok s' c \<and> output_delta c s s' \<and> output_stream s' c = output_stream s c"
proof -
  obtain s1 x where f: "flush_loop c 0 s = (s1, x)" by fastforce
  note fl = flush_loop_stream [OF f ok]
  have "s' = s1 \<or> s' = fst (refresh_connection_events c s1)"
    using e c f by (auto simp: flush_connection_output_def Let_def split: prod.splits bool.splits if_splits)
  then have "output_same s1 s' \<and> w_sent (ss_world s') = w_sent (ss_world s1)"
    using output_same_refresh by auto
  then show ?thesis
    using fl output_same_ok output_same_stream by (auto intro: output_delta_same1)
qed
end
