(* ===== verification/OutputProps.thy ===== *)
theory OutputProps
  imports OutputStream
begin

text \<open>
  The correctness of the output code: responses leave a connection complete and in the order in
  which they were written, queued responses are eventually sent, and the byte counters are exact
  and bounded.
\<close>

subsection \<open>Responses in order\<close>

text \<open>
  A run of the output code on connection \<open>c\<close>, with the frames of the responses it wrote, in the
  order of the writes. Writes come from the workers, flushes from the reactor; every other
  operation in between leaves the output alone.
\<close>

inductive output_run :: "nat \<Rightarrow> ServerState \<Rightarrow> bstring list \<Rightarrow> ServerState \<Rightarrow> bool" where
  start: "output_run c s [] s"
| wrote: "output_run c s frames s1 \<Longrightarrow> owns_fd s1 c \<Longrightarrow>
    write_fixed_response c i r d s1 = (s2, Inr ()) \<Longrightarrow>
    output_run c s (frames @ [frame_bytes (response_frame (ss_conns s1 c) i (effective_response s1 r) d)]) s2"
| flushed: "output_run c s frames s1 \<Longrightarrow> rc_conn (ss_rcs s1 r) = c \<Longrightarrow>
    flush_connection_output r s1 = (s2, b) \<Longrightarrow> output_run c s frames s2"
| other: "output_run c s frames s1 \<Longrightarrow> output_same s1 s2 \<Longrightarrow>
    w_sent (ss_world s2) = w_sent (ss_world s1) \<Longrightarrow> output_run c s frames s2"

lemma output_run_stream:
  "output_run c s frames s' \<Longrightarrow> output_ok s c \<Longrightarrow>
     output_ok s' c \<and> output_stream s' c = output_stream s c @ concat frames"
proof (induction rule: output_run.induct)
  case (wrote c s frames s1 i r d s2)
  then have "appends c (frame_bytes (response_frame (ss_conns s1 c) i (effective_response s1 r) d))
      True s1 s2"
    using write_fixed_response_appends by fastforce
  with wrote show ?case by (simp add: appends_def)
next
  case (flushed c s frames s1 r s2 b)
  then show ?case using flush_output [OF flushed.hyps(3)] by simp
next
  case (other c s frames s1 s2)
  then show ?case by (simp add: output_same_ok output_same_stream)
qed simp

text \<open>
  C11: from an idle connection on, whatever the kernel accepts is a prefix of the frames of the
  responses written so far, complete and in the order of the writes, never interleaved; what is
  missing is exactly what the queue holds. So the output code refines an append-only log of frames.
\<close>

theorem responses_in_order:
  assumes "output_run c s frames s'" "output_ok s c" "cn_output_queue (ss_conns s c) = []"
    "w_sent (ss_world s) (cn_fd (ss_conns s c)) = []"
  shows "w_sent (ss_world s') (cn_fd (ss_conns s' c)) @ pending_output (ss_conns s' c) = concat frames"
  using output_run_stream [OF assms(1,2)] assms(3,4)
  by (simp add: output_stream_def pending_output_def)

definition output_sample :: ServerState where
  "output_sample = (blank_state default_server_options)
     \<lparr>ss_conns := (\<lambda>_. new_connection 5 no_identity 0)\<rparr>"

lemma output_sample_ok: "output_ok output_sample 0" "owns_fd output_sample 0"
  by (simp_all add: output_ok_def queue_ok_def pending_output_def output_sample_def blank_state_def
      new_connection_def output_queue_limit_def option_defaults sz_max_def owns_fd_def)

text \<open>While the socket accepts everything, a response to an idle connection goes out at once.\<close>

lemma send_response_open:
  assumes "cn_output_queue (ss_conns s c) = []" "w_send (ss_world s) (cn_fd (ss_conns s c)) = []"
  shows "\<exists>s'. send_response c i r deadline_max s = (s', Inr ())"
proof -
  let ?f = "response_frame (ss_conns s c) i r deadline_max"
  obtain w where w: "send_frame_once (cn_fd (ss_conns s c)) ?f (ss_world s) =
      (w, Inr (length (frame_rest ?f)))"
    using send_frame_once_open [OF assms(2)] by blast
  have "length (frame_rest ?f) > 0"
    using response_frame_props(1) by simp
  moreover have "length (frame_rest ?f) = frame_size ?f"
    by (simp add: frame_rest_length response_frame_props)
  ultimately have "0 < frame_size ?f" "length (frame_rest ?f) = frame_size ?f" by simp_all
  then show ?thesis
    using assms(1) w by (simp add: send_response_def check_deadline_def enqueue_frame_def Let_def)
qed

lemma responses_in_order_witness:
  "\<exists>s' f. output_run 0 output_sample [f] s' \<and> length f = 22 \<and>
     w_sent (ss_world s') (cn_fd (ss_conns s' 0)) @ pending_output (ss_conns s' 0) = f"
proof -
  let ?r = "Response_ok (str ''hi'')"
  let ?f = "frame_bytes (response_frame (ss_conns output_sample 0) 1
    (effective_response output_sample ?r) deadline_max)"
  have i: "cn_output_queue (ss_conns output_sample 0) = []"
    "w_sent (ss_world output_sample) (cn_fd (ss_conns output_sample 0)) = []"
    "w_send (ss_world output_sample) (cn_fd (ss_conns output_sample 0)) = []"
    by (simp_all add: output_sample_def blank_state_def new_connection_def quiet_world_def)
  obtain s' where "write_fixed_response 0 1 ?r deadline_max output_sample = (s', Inr ())"
    using send_response_open [OF i(1,3)] by (auto simp: write_fixed_response_eq)
  from output_run.wrote [OF output_run.start output_sample_ok(2) this]
  have run: "output_run 0 output_sample [?f] s'" by simp
  have "effective_response output_sample ?r = ?r"
    by (simp add: effective_response_def response_too_large_def Response_ok_def status_ok_def
        output_sample_def blank_state_def option_defaults max_wire_field_def)
  then have "length ?f = 22"
    by (simp add: frame_bytes_def response_frame_def header_size_def Response_ok_def)
  with responses_in_order [OF run output_sample_ok(1) i(1,2)] run show ?thesis
    by (intro exI [of _ s'] exI [of _ ?f]) simp
qed

subsection \<open>Draining\<close>

text \<open>Frames without a deadline, on a socket that accepts everything.\<close>

definition open_output :: "nat \<Rightarrow> ServerState \<Rightarrow> bool" where
  "open_output c s \<longleftrightarrow> w_send (ss_world s) (cn_fd (ss_conns s c)) = [] \<and>
     (\<forall>f \<in> set (cn_output_queue (ss_conns s c)). of_deadline f = deadline_max \<and> frame_rest f \<noteq> [])"

lemma flush_progress_all:
  assumes "n = length (frame_rest f)" "frame_rest f \<noteq> []"
  shows "cn_output_queue (ss_conns (flush_progress c f fs n s) c) = fs"
proof -
  have "of_offset f + n = frame_size f" using assms by (simp add: frame_rest_length flip: length_0_conv)
  then show ?thesis by (simp add: flush_progress_def Let_def)
qed

lemma flush_progress_frame:
  "w_send (ss_world (flush_progress c f fs n s)) = w_send (ss_world s)"
  "cn_fd (ss_conns (flush_progress c f fs n s) x) = cn_fd (ss_conns s x)"
  "ss_rcs (flush_progress c f fs n s) = ss_rcs s"
  by (simp_all add: flush_progress_def mark_output_progress_eq Let_def)

lemma flush_loop_open:
  "open_output c s \<Longrightarrow> \<exists>s' m. flush_loop c n s = (s', True) \<and> open_output c s' \<and> ss_rcs s' = ss_rcs s \<and>
     cn_output_queue (ss_conns s' c) = drop m (cn_output_queue (ss_conns s c)) \<and>
     (n < kMaxFlushBytes \<longrightarrow> 0 < m)"
proof (induction "length (cn_output_queue (ss_conns s c))" arbitrary: s n)
  case 0
  then have "flush_loop c n s = (s, True)" by (subst flush_loop.simps) simp
  with 0 show ?case by (intro exI [of _ s] exI [of _ 1]) simp
next
  case (Suc l)
  then obtain f fs where q: "cn_output_queue (ss_conns s c) = f # fs" by (cases "cn_output_queue (ss_conns s c)") auto
  then have f: "of_deadline f = deadline_max" "frame_rest f \<noteq> []" "front_expired f s = (s, False)"
    using Suc.prems by (simp_all add: open_output_def front_expired_def)
  let ?n = "length (frame_rest f)"
  obtain w where w: "send_frame_once (cn_fd (ss_conns s c)) f (ss_world s) = (w, Inr ?n)"
    "w_send w = w_send (ss_world s)"
    using send_frame_once_open [of "ss_world s" "cn_fd (ss_conns s c)" f] Suc.prems
    by (auto simp: open_output_def)
  let ?s1 = "flush_progress c f fs ?n (s\<lparr>ss_world := w\<rparr>)"
  have q1: "cn_output_queue (ss_conns ?s1 c) = fs" using f(2) by (simp add: flush_progress_all)
  show ?case
  proof (cases "n < kMaxFlushBytes")
    case False
    then have "flush_loop c n s = (s, True)" using q by (subst flush_loop.simps) simp
    with Suc.prems False show ?thesis by (intro exI [of _ s] exI [of _ 0]) simp
  next
    case True
    have "open_output c ?s1"
      using Suc.prems q w(2) by (simp add: open_output_def q1 flush_progress_frame)
    moreover have "l = length (cn_output_queue (ss_conns ?s1 c))" using Suc.hyps(2) q q1 by simp
    ultimately obtain s' m where m: "flush_loop c (n + ?n) ?s1 = (s', True)" "open_output c s'"
      "ss_rcs s' = ss_rcs ?s1" "cn_output_queue (ss_conns s' c) = drop m fs"
      using Suc.hyps(1) q1 by metis
    have "flush_loop c n s = (s', True)"
      using q f w(1) True m(1) by (subst flush_loop.simps) simp
    with m q show ?thesis by (intro exI [of _ s'] exI [of _ "Suc m"]) (simp add: flush_progress_frame)
  qed
qed

definition flush_state :: "nat \<Rightarrow> ServerState \<Rightarrow> ServerState" where
  "flush_state r s = fst (flush_connection_output r s)"

lemma flush_state_open:
  assumes "open_output c s" "c = rc_conn (ss_rcs s r)"
  shows "open_output c (flush_state r s) \<and> rc_conn (ss_rcs (flush_state r s) r) = c \<and>
    length (cn_output_queue (ss_conns (flush_state r s) c)) \<le>
      length (cn_output_queue (ss_conns s c)) - 1"
proof -
  obtain s1 m where m: "flush_loop c 0 s = (s1, True)" "open_output c s1" "ss_rcs s1 = ss_rcs s"
    "cn_output_queue (ss_conns s1 c) = drop m (cn_output_queue (ss_conns s c))" "0 < m"
    using flush_loop_open [OF assms(1), of 0] by (auto simp: kMaxFlushBytes_def)
  obtain s2 b where s2: "refresh_connection_events c s1 = (s2, b)" by fastforce
  have "flush_state r s = (if cn_output_queue (ss_conns s1 c) = [] then s2 else s1)"
    using assms(2) m(1) s2 by (cases b) (simp_all add: flush_state_def flush_connection_output_def)
  moreover have "open_output c s2" "rc_conn (ss_rcs s2 r) = c"
    "cn_output_queue (ss_conns s2 c) = cn_output_queue (ss_conns s1 c)"
    using m(2,3) assms(2) unfolding arg_cong [OF s2, of fst, unfolded fst_conv, symmetric]
    by (simp_all add: open_output_def)
  moreover have "length (drop m (cn_output_queue (ss_conns s c))) \<le> length (cn_output_queue (ss_conns s c)) - 1"
    using m(5) by simp
  ultimately show ?thesis
    using m assms(2) by simp
qed

text \<open>
  C18: queued responses are delivered: on a socket that keeps accepting, each pass of the reactor
  over a writable connection completes at least one frame, so after at most as many passes as
  there are queued frames the queue is empty.
\<close>

theorem flush_drains:
  assumes "open_output c s" "c = rc_conn (ss_rcs s r)"
    "length (cn_output_queue (ss_conns s c)) \<le> n"
  shows "cn_output_queue (ss_conns ((flush_state r ^^ n) s) c) = []"
  using assms
proof (induction n arbitrary: s)
  case (Suc n)
  note f = flush_state_open [OF Suc.prems(1,2)]
  then have "length (cn_output_queue (ss_conns (flush_state r s) c)) \<le> n"
    using Suc.prems(3) by linarith
  from Suc.IH [OF conjunct1 [OF f] conjunct1 [OF conjunct2 [OF f], symmetric] this] show ?case
    by (simp only: funpow_Suc_right o_apply)
qed simp

lemma flush_drains_witness:
  "\<exists>s. length (cn_output_queue (ss_conns s 0)) = 1 \<and>
     cn_output_queue (ss_conns ((flush_state 0 ^^ 1) s) 0) = []"
proof -
  let ?f = "response_frame (ss_conns output_sample 0) 1 (Response_ok []) deadline_max"
  let ?s = "conn_upd 0 (\<lambda>cn. cn\<lparr>cn_output_queue := [?f], cn_queued_output_bytes := 20\<rparr>) output_sample"
  have "open_output 0 ?s"
    using response_frame_props(1)
    by (simp add: open_output_def output_sample_def blank_state_def quiet_world_def response_frame_def)
  moreover have "rc_conn (ss_rcs ?s 0) = 0"
    by (simp add: output_sample_def blank_state_def new_reactor_connection_def)
  ultimately have "cn_output_queue (ss_conns ((flush_state 0 ^^ 1) ?s) 0) = []"
    by (intro flush_drains) simp_all
  then show ?thesis by (intro exI [of _ ?s]) simp
qed

subsection \<open>Output accounting\<close>

text \<open>
  The steps of the output code on the connections \<open>C\<close>: responses written with any outcome,
  queues drained, connections closed.
\<close>

inductive output_step :: "nat set \<Rightarrow> ServerState \<Rightarrow> ServerState \<Rightarrow> bool" for C where
  writes: "c \<in> C \<Longrightarrow> owns_fd s c \<Longrightarrow> write_fixed_response c i r d s = (s', res) \<Longrightarrow> output_step C s s'"
| flushes: "rc_conn (ss_rcs s r) \<in> C \<Longrightarrow> flush_connection_output r s = (s', b) \<Longrightarrow> output_step C s s'"
| closes: "map_of (ss_connections s) fd = Some r \<Longrightarrow> rc_conn (ss_rcs s r) \<in> C \<Longrightarrow>
    output_step C s (close_connection fd s)"
| other: "output_same s s' \<Longrightarrow> output_step C s s'"

definition queued_total :: "nat set \<Rightarrow> ServerState \<Rightarrow> nat" where
  "queued_total C s = (\<Sum>c\<in>C. cn_queued_output_bytes (ss_conns s c))"

definition outputs_ok :: "nat set \<Rightarrow> ServerState \<Rightarrow> bool" where
  "outputs_ok C s \<longleftrightarrow> (\<forall>c\<in>C. output_ok s c) \<and>
     ss_total_queued_output_bytes s = sz_wrap (queued_total C s) \<and>
     so_max_total_output_bytes (ss_options s) \<le> sz_max \<and>
     (so_max_total_output_bytes (ss_options s) \<noteq> 0 \<longrightarrow>
        queued_total C s \<le> so_max_total_output_bytes (ss_options s))"

lemma sz_wrap_unique:
  assumes "t \<le> sz_max" "int t = int n + k * int (sz_max + 1)"
  shows "t = sz_wrap n"
proof -
  have m: "2 ^ 64 = sz_max + 1" by (simp add: sz_max_def)
  have "int t mod int (sz_max + 1) = int n mod int (sz_max + 1)"
    unfolding assms(2) by simp
  then have "t mod (sz_max + 1) = n mod (sz_max + 1)"
    by (metis of_nat_eq_iff zmod_int)
  then show ?thesis
    using assms(1) unfolding sz_wrap_def m by simp
qed

lemma sz_wrap_int: "\<exists>k. int (sz_wrap n) = int n + k * int (sz_max + 1)"
  using sz_add_int [of n 0] by (simp add: sz_add_def sz_wrap_def)

lemma outputs_ok_delta:
  assumes ok: "outputs_ok C s" and c: "finite C" "c \<in> C" and d: "output_delta c s s'"
    and c': "output_ok s' c"
  shows "outputs_ok C s'"
proof -
  let ?q = "cn_queued_output_bytes (ss_conns s c)" and ?q' = "cn_queued_output_bytes (ss_conns s' c)"
  let ?l = "so_max_total_output_bytes (ss_options s)"
  have opts: "ss_options s' = ss_options s"
    and x: "\<And>x. x \<noteq> c \<Longrightarrow> cn_output_queue (ss_conns s' x) = cn_output_queue (ss_conns s x) \<and>
        cn_queued_output_bytes (ss_conns s' x) = cn_queued_output_bytes (ss_conns s x)"
    and lim: "?q' \<le> ?q \<or> ?l = 0 \<or> ss_total_queued_output_bytes s + ?q' \<le> ?l + ?q"
    and max: "ss_total_queued_output_bytes s \<le> sz_max \<longrightarrow> ss_total_queued_output_bytes s' \<le> sz_max"
    using d unfolding output_delta_def by blast+
  obtain k where k: "int (ss_total_queued_output_bytes s') + int ?q =
      int (ss_total_queued_output_bytes s) + int ?q' + k * int (sz_max + 1)"
    using d unfolding output_delta_def by blast
  have all: "output_ok s' y" if "y \<in> C" for y
  proof (cases "y = c")
    case False
    have "output_ok s y" using that ok by (simp add: outputs_ok_def)
    with x [OF False] opts show ?thesis
      by (simp add: output_ok_def queue_ok_def pending_output_def output_queue_limit_def)
  qed (use c' in simp)
  have "queued_total C s = ?q + (\<Sum>x\<in>C - {c}. cn_queued_output_bytes (ss_conns s x))"
    "queued_total C s' = ?q' + (\<Sum>x\<in>C - {c}. cn_queued_output_bytes (ss_conns s' x))"
    using c by (simp_all add: queued_total_def sum.remove)
  moreover have "(\<Sum>x\<in>C - {c}. cn_queued_output_bytes (ss_conns s' x)) =
      (\<Sum>x\<in>C - {c}. cn_queued_output_bytes (ss_conns s x))"
    using x by (intro sum.cong) auto
  ultimately have sum: "queued_total C s' + ?q = queued_total C s + ?q'" by simp
  obtain j where j: "int (ss_total_queued_output_bytes s) =
      int (queued_total C s) + j * int (sz_max + 1)"
    using ok sz_wrap_int by (auto simp: outputs_ok_def)
  have "int (ss_total_queued_output_bytes s') = int (queued_total C s') + (j + k) * int (sz_max + 1)"
    using j k sum by (simp only: distrib_right)
  then have t: "ss_total_queued_output_bytes s' = sz_wrap (queued_total C s')"
    using max ok by (intro sz_wrap_unique) (auto simp: outputs_ok_def)
  have "?l \<noteq> 0 \<Longrightarrow> queued_total C s' \<le> ?l"
    using lim sum ok sz_wrap_exact [of "queued_total C s"] by (auto simp: outputs_ok_def)
  then show ?thesis
    using all t ok opts by (simp add: outputs_ok_def)
qed

lemma output_step_ok:
  assumes "output_step C s s'" "finite C" "outputs_ok C s"
  shows "outputs_ok C s'"
  using assms
proof (induction rule: output_step.induct)
  case (writes c s i r d s' res)
  then have "output_ok s c" by (simp add: outputs_ok_def)
  from write_fixed_response_appends [OF writes(3) this writes(2)] writes show ?case
    by (auto simp: appends_def intro: outputs_ok_delta)
next
  case (flushes s r s' b)
  then have "output_ok s (rc_conn (ss_rcs s r))" by (simp add: outputs_ok_def)
  from flush_output [OF flushes(2) refl this] flushes show ?case
    by (auto intro: outputs_ok_delta)
next
  case (closes s fd r)
  then have ok: "output_ok s (rc_conn (ss_rcs s r))" by (simp add: outputs_ok_def)
  note cl = close_connection_output [OF closes(1) refl ok]
  have "output_queue_limit (close_connection fd s) = output_queue_limit s"
    using cl(1) by (simp add: output_delta_def output_queue_limit_def)
  then have "output_ok (close_connection fd s) (rc_conn (ss_rcs s r))"
    using cl ok by (simp add: output_ok_def queue_ok_def pending_output_def)
  with closes cl(1) show ?case by (auto intro: outputs_ok_delta)
next
  case (other s s')
  then show ?case
    by (simp add: outputs_ok_def output_same_ok queued_total_def) (simp add: output_same_def)
qed

text \<open>
  C17: in every state the output code reaches, each connection's byte counter is the number of
  bytes its queue still has to send and never exceeds the limit per connection, and the
  aggregate counter is the sum over all connections (as a \<^verbatim>\<open>std::size_t\<close>); with an aggregate
  limit configured the sum itself never exceeds it.
\<close>

theorem output_accounting:
  assumes "(output_step C)\<^sup>*\<^sup>* s s'" "finite C" "outputs_ok C s"
  shows "outputs_ok C s'"
  using assms
proof (induction rule: rtranclp_induct)
  case (step y z)
  then show ?case by (blast intro: output_step_ok)
qed

lemma output_accounting_witness:
  "\<exists>s'. output_step {0} output_sample s' \<and> outputs_ok {0} s' \<and>
     ss_total_queued_output_bytes s' = sz_wrap (queued_total {0} s')"
proof -
  have ok: "outputs_ok {0} output_sample"
    using output_sample_ok(1)
    by (simp add: outputs_ok_def queued_total_def output_sample_def blank_state_def
        new_connection_def option_defaults sz_wrap_def)
  obtain s' res where "write_fixed_response 0 1 (Response_ok []) deadline_max output_sample = (s', res)"
    by fastforce
  then have st: "output_step {0} output_sample s'"
    using output_sample_ok(2) by (auto intro: output_step.writes)
  then have "outputs_ok {0} s'"
    using output_accounting [OF r_into_rtranclp [of "output_step {0}", OF st]] ok by simp
  with st show ?thesis by (auto simp: outputs_ok_def)
qed

end
