(* ===== verification/OutputFrames.thy ===== *)
theory OutputFrames
  imports OutputProps
begin

text \<open>
  Which parts of the state writing a response and closing a connection leave alone: routing,
  queues of jobs, serialization domains, lifecycle and the counters of a connection that belong
  to scheduling.
\<close>

lemma mark_output_progress_frame [simp]:
  "ss_socket_path (mark_output_progress c s) = ss_socket_path s"
  "ss_options (mark_output_progress c s) = ss_options s"
  "ss_running (mark_output_progress c s) = ss_running s"
  "ss_active_streams (mark_output_progress c s) = ss_active_streams s"
  "ss_total_inflight_request_bytes (mark_output_progress c s) = ss_total_inflight_request_bytes s"
  "ss_total_queued_output_bytes (mark_output_progress c s) = ss_total_queued_output_bytes s"
  "ss_next_connection_generation (mark_output_progress c s) = ss_next_connection_generation s"
  "ss_max_concurrent_streams (mark_output_progress c s) = ss_max_concurrent_streams s"
  "ss_listener_fd (mark_output_progress c s) = ss_listener_fd s"
  "ss_wakeup_fd (mark_output_progress c s) = ss_wakeup_fd s"
  "ss_wake_pending (mark_output_progress c s) = ss_wake_pending s"
  "ss_instance_lock_fd (mark_output_progress c s) = ss_instance_lock_fd s"
  "ss_readiness_fd (mark_output_progress c s) = ss_readiness_fd s"
  "ss_socket_device (mark_output_progress c s) = ss_socket_device s"
  "ss_socket_inode (mark_output_progress c s) = ss_socket_inode s"
  "ss_socket_identity_valid (mark_output_progress c s) = ss_socket_identity_valid s"
  "ss_stopped (mark_output_progress c s) = ss_stopped s"
  "ss_run_started (mark_output_progress c s) = ss_run_started s"
  "ss_run_active (mark_output_progress c s) = ss_run_active s"
  "ss_handler_registry (mark_output_progress c s) = ss_handler_registry s"
  "ss_not_found_handler (mark_output_progress c s) = ss_not_found_handler s"
  "ss_pending_jobs (mark_output_progress c s) = ss_pending_jobs s"
  "ss_workers_stopping (mark_output_progress c s) = ss_workers_stopping s"
  "ss_pending_serialized (mark_output_progress c s) = ss_pending_serialized s"
  "ss_default_domain (mark_output_progress c s) = ss_default_domain s"
  "ss_named_domains (mark_output_progress c s) = ss_named_domains s"
  "ss_active_domain_count (mark_output_progress c s) = ss_active_domain_count s"
  "ss_busy_domain_count (mark_output_progress c s) = ss_busy_domain_count s"
  "ss_serialized_stopping (mark_output_progress c s) = ss_serialized_stopping s"
  "ss_serialized_worker_count (mark_output_progress c s) = ss_serialized_worker_count s"
  "ss_max_serialized_concurrency (mark_output_progress c s) = ss_max_serialized_concurrency s"
  "ss_reactor_error (mark_output_progress c s) = ss_reactor_error s"
  "ss_connections (mark_output_progress c s) = ss_connections s"
  "ss_resumed_connections (mark_output_progress c s) = ss_resumed_connections s"
  "ss_counters (mark_output_progress c s) = ss_counters s"
  "ss_rcs (mark_output_progress c s) = ss_rcs s"
  "ss_flags (mark_output_progress c s) = ss_flags s"
  "cn_fd (ss_conns (mark_output_progress c s) x) = cn_fd (ss_conns s x)"
  "cn_peer (ss_conns (mark_output_progress c s) x) = cn_peer (ss_conns s x)"
  "cn_stream_active (ss_conns (mark_output_progress c s) x) = cn_stream_active (ss_conns s x)"
  "cn_worker_owned (ss_conns (mark_output_progress c s) x) = cn_worker_owned (ss_conns s x)"
  "cn_closing (ss_conns (mark_output_progress c s) x) = cn_closing (ss_conns s x)"
  "cn_session_capable (ss_conns (mark_output_progress c s) x) = cn_session_capable (ss_conns s x)"
  "cn_wire_version (ss_conns (mark_output_progress c s) x) = cn_wire_version (ss_conns s x)"
  "cn_cancellations (ss_conns (mark_output_progress c s) x) = cn_cancellations (ss_conns s x)"
  "cn_active_regular (ss_conns (mark_output_progress c s) x) = cn_active_regular (ss_conns s x)"
  "cn_pending_serialized (ss_conns (mark_output_progress c s) x) = cn_pending_serialized (ss_conns s x)"
  "cn_inflight_requests (ss_conns (mark_output_progress c s) x) = cn_inflight_requests (ss_conns s x)"
  "cn_inflight_request_bytes (ss_conns (mark_output_progress c s) x) = cn_inflight_request_bytes (ss_conns s x)"
  "cn_queued_output_bytes (ss_conns (mark_output_progress c s) x) = cn_queued_output_bytes (ss_conns s x)"
  "cn_output_queue (ss_conns (mark_output_progress c s) x) = cn_output_queue (ss_conns s x)"
  by (simp_all add: mark_output_progress_eq)

lemma reserve_global_output_frame [simp]:
  "ss_socket_path (fst (reserve_global_output n s)) = ss_socket_path s"
  "ss_options (fst (reserve_global_output n s)) = ss_options s"
  "ss_running (fst (reserve_global_output n s)) = ss_running s"
  "ss_active_streams (fst (reserve_global_output n s)) = ss_active_streams s"
  "ss_total_inflight_request_bytes (fst (reserve_global_output n s)) = ss_total_inflight_request_bytes s"
  "ss_next_connection_generation (fst (reserve_global_output n s)) = ss_next_connection_generation s"
  "ss_max_concurrent_streams (fst (reserve_global_output n s)) = ss_max_concurrent_streams s"
  "ss_listener_fd (fst (reserve_global_output n s)) = ss_listener_fd s"
  "ss_wakeup_fd (fst (reserve_global_output n s)) = ss_wakeup_fd s"
  "ss_wake_pending (fst (reserve_global_output n s)) = ss_wake_pending s"
  "ss_instance_lock_fd (fst (reserve_global_output n s)) = ss_instance_lock_fd s"
  "ss_readiness_fd (fst (reserve_global_output n s)) = ss_readiness_fd s"
  "ss_socket_device (fst (reserve_global_output n s)) = ss_socket_device s"
  "ss_socket_inode (fst (reserve_global_output n s)) = ss_socket_inode s"
  "ss_socket_identity_valid (fst (reserve_global_output n s)) = ss_socket_identity_valid s"
  "ss_stopped (fst (reserve_global_output n s)) = ss_stopped s"
  "ss_run_started (fst (reserve_global_output n s)) = ss_run_started s"
  "ss_run_active (fst (reserve_global_output n s)) = ss_run_active s"
  "ss_handler_registry (fst (reserve_global_output n s)) = ss_handler_registry s"
  "ss_not_found_handler (fst (reserve_global_output n s)) = ss_not_found_handler s"
  "ss_pending_jobs (fst (reserve_global_output n s)) = ss_pending_jobs s"
  "ss_workers_stopping (fst (reserve_global_output n s)) = ss_workers_stopping s"
  "ss_pending_serialized (fst (reserve_global_output n s)) = ss_pending_serialized s"
  "ss_default_domain (fst (reserve_global_output n s)) = ss_default_domain s"
  "ss_named_domains (fst (reserve_global_output n s)) = ss_named_domains s"
  "ss_active_domain_count (fst (reserve_global_output n s)) = ss_active_domain_count s"
  "ss_busy_domain_count (fst (reserve_global_output n s)) = ss_busy_domain_count s"
  "ss_serialized_stopping (fst (reserve_global_output n s)) = ss_serialized_stopping s"
  "ss_serialized_worker_count (fst (reserve_global_output n s)) = ss_serialized_worker_count s"
  "ss_max_serialized_concurrency (fst (reserve_global_output n s)) = ss_max_serialized_concurrency s"
  "ss_reactor_error (fst (reserve_global_output n s)) = ss_reactor_error s"
  "ss_connections (fst (reserve_global_output n s)) = ss_connections s"
  "ss_resumed_connections (fst (reserve_global_output n s)) = ss_resumed_connections s"
  "ss_counters (fst (reserve_global_output n s)) = ss_counters s"
  "ss_conns (fst (reserve_global_output n s)) = ss_conns s"
  "ss_rcs (fst (reserve_global_output n s)) = ss_rcs s"
  "ss_flags (fst (reserve_global_output n s)) = ss_flags s"
  "ss_world (fst (reserve_global_output n s)) = ss_world s"
  by (simp_all add: reserve_global_output_def Let_def)

lemma queue_frame_frame [simp]:
  "ss_socket_path (fst (queue_frame c f s)) = ss_socket_path s"
  "ss_options (fst (queue_frame c f s)) = ss_options s"
  "ss_running (fst (queue_frame c f s)) = ss_running s"
  "ss_active_streams (fst (queue_frame c f s)) = ss_active_streams s"
  "ss_total_inflight_request_bytes (fst (queue_frame c f s)) = ss_total_inflight_request_bytes s"
  "ss_next_connection_generation (fst (queue_frame c f s)) = ss_next_connection_generation s"
  "ss_max_concurrent_streams (fst (queue_frame c f s)) = ss_max_concurrent_streams s"
  "ss_listener_fd (fst (queue_frame c f s)) = ss_listener_fd s"
  "ss_wakeup_fd (fst (queue_frame c f s)) = ss_wakeup_fd s"
  "ss_wake_pending (fst (queue_frame c f s)) = ss_wake_pending s"
  "ss_instance_lock_fd (fst (queue_frame c f s)) = ss_instance_lock_fd s"
  "ss_readiness_fd (fst (queue_frame c f s)) = ss_readiness_fd s"
  "ss_socket_device (fst (queue_frame c f s)) = ss_socket_device s"
  "ss_socket_inode (fst (queue_frame c f s)) = ss_socket_inode s"
  "ss_socket_identity_valid (fst (queue_frame c f s)) = ss_socket_identity_valid s"
  "ss_stopped (fst (queue_frame c f s)) = ss_stopped s"
  "ss_run_started (fst (queue_frame c f s)) = ss_run_started s"
  "ss_run_active (fst (queue_frame c f s)) = ss_run_active s"
  "ss_handler_registry (fst (queue_frame c f s)) = ss_handler_registry s"
  "ss_not_found_handler (fst (queue_frame c f s)) = ss_not_found_handler s"
  "ss_pending_jobs (fst (queue_frame c f s)) = ss_pending_jobs s"
  "ss_workers_stopping (fst (queue_frame c f s)) = ss_workers_stopping s"
  "ss_pending_serialized (fst (queue_frame c f s)) = ss_pending_serialized s"
  "ss_default_domain (fst (queue_frame c f s)) = ss_default_domain s"
  "ss_named_domains (fst (queue_frame c f s)) = ss_named_domains s"
  "ss_active_domain_count (fst (queue_frame c f s)) = ss_active_domain_count s"
  "ss_busy_domain_count (fst (queue_frame c f s)) = ss_busy_domain_count s"
  "ss_serialized_stopping (fst (queue_frame c f s)) = ss_serialized_stopping s"
  "ss_serialized_worker_count (fst (queue_frame c f s)) = ss_serialized_worker_count s"
  "ss_max_serialized_concurrency (fst (queue_frame c f s)) = ss_max_serialized_concurrency s"
  "ss_reactor_error (fst (queue_frame c f s)) = ss_reactor_error s"
  "ss_connections (fst (queue_frame c f s)) = ss_connections s"
  "ss_resumed_connections (fst (queue_frame c f s)) = ss_resumed_connections s"
  "ss_counters (fst (queue_frame c f s)) = ss_counters s"
  "ss_rcs (fst (queue_frame c f s)) = ss_rcs s"
  "ss_flags (fst (queue_frame c f s)) = ss_flags s"
  "cn_fd (ss_conns (fst (queue_frame c f s)) x) = cn_fd (ss_conns s x)"
  "cn_peer (ss_conns (fst (queue_frame c f s)) x) = cn_peer (ss_conns s x)"
  "cn_stream_active (ss_conns (fst (queue_frame c f s)) x) = cn_stream_active (ss_conns s x)"
  "cn_worker_owned (ss_conns (fst (queue_frame c f s)) x) = cn_worker_owned (ss_conns s x)"
  "cn_closing (ss_conns (fst (queue_frame c f s)) x) = cn_closing (ss_conns s x)"
  "cn_session_capable (ss_conns (fst (queue_frame c f s)) x) = cn_session_capable (ss_conns s x)"
  "cn_wire_version (ss_conns (fst (queue_frame c f s)) x) = cn_wire_version (ss_conns s x)"
  "cn_cancellations (ss_conns (fst (queue_frame c f s)) x) = cn_cancellations (ss_conns s x)"
  "cn_active_regular (ss_conns (fst (queue_frame c f s)) x) = cn_active_regular (ss_conns s x)"
  "cn_pending_serialized (ss_conns (fst (queue_frame c f s)) x) = cn_pending_serialized (ss_conns s x)"
  "cn_inflight_requests (ss_conns (fst (queue_frame c f s)) x) = cn_inflight_requests (ss_conns s x)"
  "cn_inflight_request_bytes (ss_conns (fst (queue_frame c f s)) x) = cn_inflight_request_bytes (ss_conns s x)"
  "cn_last_io_progress (ss_conns (fst (queue_frame c f s)) x) = cn_last_io_progress (ss_conns s x)"
  by (simp_all add: queue_frame_def Let_def split_beta)

lemma enqueue_frame_frame [simp]:
  "ss_socket_path (fst (enqueue_frame c f s)) = ss_socket_path s"
  "ss_options (fst (enqueue_frame c f s)) = ss_options s"
  "ss_running (fst (enqueue_frame c f s)) = ss_running s"
  "ss_active_streams (fst (enqueue_frame c f s)) = ss_active_streams s"
  "ss_total_inflight_request_bytes (fst (enqueue_frame c f s)) = ss_total_inflight_request_bytes s"
  "ss_next_connection_generation (fst (enqueue_frame c f s)) = ss_next_connection_generation s"
  "ss_max_concurrent_streams (fst (enqueue_frame c f s)) = ss_max_concurrent_streams s"
  "ss_listener_fd (fst (enqueue_frame c f s)) = ss_listener_fd s"
  "ss_wakeup_fd (fst (enqueue_frame c f s)) = ss_wakeup_fd s"
  "ss_wake_pending (fst (enqueue_frame c f s)) = ss_wake_pending s"
  "ss_instance_lock_fd (fst (enqueue_frame c f s)) = ss_instance_lock_fd s"
  "ss_readiness_fd (fst (enqueue_frame c f s)) = ss_readiness_fd s"
  "ss_socket_device (fst (enqueue_frame c f s)) = ss_socket_device s"
  "ss_socket_inode (fst (enqueue_frame c f s)) = ss_socket_inode s"
  "ss_socket_identity_valid (fst (enqueue_frame c f s)) = ss_socket_identity_valid s"
  "ss_stopped (fst (enqueue_frame c f s)) = ss_stopped s"
  "ss_run_started (fst (enqueue_frame c f s)) = ss_run_started s"
  "ss_run_active (fst (enqueue_frame c f s)) = ss_run_active s"
  "ss_handler_registry (fst (enqueue_frame c f s)) = ss_handler_registry s"
  "ss_not_found_handler (fst (enqueue_frame c f s)) = ss_not_found_handler s"
  "ss_pending_jobs (fst (enqueue_frame c f s)) = ss_pending_jobs s"
  "ss_workers_stopping (fst (enqueue_frame c f s)) = ss_workers_stopping s"
  "ss_pending_serialized (fst (enqueue_frame c f s)) = ss_pending_serialized s"
  "ss_default_domain (fst (enqueue_frame c f s)) = ss_default_domain s"
  "ss_named_domains (fst (enqueue_frame c f s)) = ss_named_domains s"
  "ss_active_domain_count (fst (enqueue_frame c f s)) = ss_active_domain_count s"
  "ss_busy_domain_count (fst (enqueue_frame c f s)) = ss_busy_domain_count s"
  "ss_serialized_stopping (fst (enqueue_frame c f s)) = ss_serialized_stopping s"
  "ss_serialized_worker_count (fst (enqueue_frame c f s)) = ss_serialized_worker_count s"
  "ss_max_serialized_concurrency (fst (enqueue_frame c f s)) = ss_max_serialized_concurrency s"
  "ss_reactor_error (fst (enqueue_frame c f s)) = ss_reactor_error s"
  "ss_connections (fst (enqueue_frame c f s)) = ss_connections s"
  "ss_resumed_connections (fst (enqueue_frame c f s)) = ss_resumed_connections s"
  "ss_counters (fst (enqueue_frame c f s)) = ss_counters s"
  "ss_rcs (fst (enqueue_frame c f s)) = ss_rcs s"
  "ss_flags (fst (enqueue_frame c f s)) = ss_flags s"
  "cn_fd (ss_conns (fst (enqueue_frame c f s)) x) = cn_fd (ss_conns s x)"
  "cn_peer (ss_conns (fst (enqueue_frame c f s)) x) = cn_peer (ss_conns s x)"
  "cn_stream_active (ss_conns (fst (enqueue_frame c f s)) x) = cn_stream_active (ss_conns s x)"
  "cn_worker_owned (ss_conns (fst (enqueue_frame c f s)) x) = cn_worker_owned (ss_conns s x)"
  "cn_session_capable (ss_conns (fst (enqueue_frame c f s)) x) = cn_session_capable (ss_conns s x)"
  "cn_wire_version (ss_conns (fst (enqueue_frame c f s)) x) = cn_wire_version (ss_conns s x)"
  "cn_cancellations (ss_conns (fst (enqueue_frame c f s)) x) = cn_cancellations (ss_conns s x)"
  "cn_active_regular (ss_conns (fst (enqueue_frame c f s)) x) = cn_active_regular (ss_conns s x)"
  "cn_pending_serialized (ss_conns (fst (enqueue_frame c f s)) x) = cn_pending_serialized (ss_conns s x)"
  "cn_inflight_requests (ss_conns (fst (enqueue_frame c f s)) x) = cn_inflight_requests (ss_conns s x)"
  "cn_inflight_request_bytes (ss_conns (fst (enqueue_frame c f s)) x) = cn_inflight_request_bytes (ss_conns s x)"
  by (simp_all add: enqueue_frame_def Let_def split: prod.split sum.split)

lemma sub_inflight_frame [simp]:
  "cn_fd (sub_inflight n cn) = cn_fd cn"
  "cn_peer (sub_inflight n cn) = cn_peer cn"
  "cn_stream_active (sub_inflight n cn) = cn_stream_active cn"
  "cn_worker_owned (sub_inflight n cn) = cn_worker_owned cn"
  "cn_closing (sub_inflight n cn) = cn_closing cn"
  "cn_session_capable (sub_inflight n cn) = cn_session_capable cn"
  "cn_wire_version (sub_inflight n cn) = cn_wire_version cn"
  "cn_cancellations (sub_inflight n cn) = cn_cancellations cn"
  "cn_active_regular (sub_inflight n cn) = cn_active_regular cn"
  "cn_pending_serialized (sub_inflight n cn) = cn_pending_serialized cn"
  "cn_inflight_requests (sub_inflight n cn) = cn_inflight_requests cn"
  "cn_last_io_progress (sub_inflight n cn) = cn_last_io_progress cn"
  "cn_last_output_progress (sub_inflight n cn) = cn_last_output_progress cn"
  "cn_queued_output_bytes (sub_inflight n cn) = cn_queued_output_bytes cn"
  "cn_output_queue (sub_inflight n cn) = cn_output_queue cn"
  by (simp_all add: sub_inflight_def)

lemma release_bytes_frame [simp]:
  "ss_socket_path (release_connection_request_bytes c n s) = ss_socket_path s"
  "ss_options (release_connection_request_bytes c n s) = ss_options s"
  "ss_running (release_connection_request_bytes c n s) = ss_running s"
  "ss_active_streams (release_connection_request_bytes c n s) = ss_active_streams s"
  "ss_total_queued_output_bytes (release_connection_request_bytes c n s) = ss_total_queued_output_bytes s"
  "ss_next_connection_generation (release_connection_request_bytes c n s) = ss_next_connection_generation s"
  "ss_max_concurrent_streams (release_connection_request_bytes c n s) = ss_max_concurrent_streams s"
  "ss_listener_fd (release_connection_request_bytes c n s) = ss_listener_fd s"
  "ss_wakeup_fd (release_connection_request_bytes c n s) = ss_wakeup_fd s"
  "ss_instance_lock_fd (release_connection_request_bytes c n s) = ss_instance_lock_fd s"
  "ss_readiness_fd (release_connection_request_bytes c n s) = ss_readiness_fd s"
  "ss_socket_device (release_connection_request_bytes c n s) = ss_socket_device s"
  "ss_socket_inode (release_connection_request_bytes c n s) = ss_socket_inode s"
  "ss_socket_identity_valid (release_connection_request_bytes c n s) = ss_socket_identity_valid s"
  "ss_stopped (release_connection_request_bytes c n s) = ss_stopped s"
  "ss_run_started (release_connection_request_bytes c n s) = ss_run_started s"
  "ss_run_active (release_connection_request_bytes c n s) = ss_run_active s"
  "ss_handler_registry (release_connection_request_bytes c n s) = ss_handler_registry s"
  "ss_not_found_handler (release_connection_request_bytes c n s) = ss_not_found_handler s"
  "ss_pending_jobs (release_connection_request_bytes c n s) = ss_pending_jobs s"
  "ss_workers_stopping (release_connection_request_bytes c n s) = ss_workers_stopping s"
  "ss_pending_serialized (release_connection_request_bytes c n s) = ss_pending_serialized s"
  "ss_default_domain (release_connection_request_bytes c n s) = ss_default_domain s"
  "ss_named_domains (release_connection_request_bytes c n s) = ss_named_domains s"
  "ss_active_domain_count (release_connection_request_bytes c n s) = ss_active_domain_count s"
  "ss_busy_domain_count (release_connection_request_bytes c n s) = ss_busy_domain_count s"
  "ss_serialized_stopping (release_connection_request_bytes c n s) = ss_serialized_stopping s"
  "ss_serialized_worker_count (release_connection_request_bytes c n s) = ss_serialized_worker_count s"
  "ss_max_serialized_concurrency (release_connection_request_bytes c n s) = ss_max_serialized_concurrency s"
  "ss_reactor_error (release_connection_request_bytes c n s) = ss_reactor_error s"
  "ss_connections (release_connection_request_bytes c n s) = ss_connections s"
  "ss_counters (release_connection_request_bytes c n s) = ss_counters s"
  "ss_flags (release_connection_request_bytes c n s) = ss_flags s"
  "cn_fd (ss_conns (release_connection_request_bytes c n s) x) = cn_fd (ss_conns s x)"
  "cn_peer (ss_conns (release_connection_request_bytes c n s) x) = cn_peer (ss_conns s x)"
  "cn_stream_active (ss_conns (release_connection_request_bytes c n s) x) = cn_stream_active (ss_conns s x)"
  "cn_worker_owned (ss_conns (release_connection_request_bytes c n s) x) = cn_worker_owned (ss_conns s x)"
  "cn_session_capable (ss_conns (release_connection_request_bytes c n s) x) = cn_session_capable (ss_conns s x)"
  "cn_wire_version (ss_conns (release_connection_request_bytes c n s) x) = cn_wire_version (ss_conns s x)"
  "cn_cancellations (ss_conns (release_connection_request_bytes c n s) x) = cn_cancellations (ss_conns s x)"
  "cn_active_regular (ss_conns (release_connection_request_bytes c n s) x) = cn_active_regular (ss_conns s x)"
  "cn_pending_serialized (ss_conns (release_connection_request_bytes c n s) x) = cn_pending_serialized (ss_conns s x)"
  "cn_inflight_requests (ss_conns (release_connection_request_bytes c n s) x) = cn_inflight_requests (ss_conns s x)"
  "cn_last_io_progress (ss_conns (release_connection_request_bytes c n s) x) = cn_last_io_progress (ss_conns s x)"
  "cn_last_output_progress (ss_conns (release_connection_request_bytes c n s) x) = cn_last_output_progress (ss_conns s x)"
  "cn_queued_output_bytes (ss_conns (release_connection_request_bytes c n s) x) = cn_queued_output_bytes (ss_conns s x)"
  "cn_output_queue (ss_conns (release_connection_request_bytes c n s) x) = cn_output_queue (ss_conns s x)"
  "rc_conn (ss_rcs (release_connection_request_bytes c n s) x) = rc_conn (ss_rcs s x)"
  "rc_generation (ss_rcs (release_connection_request_bytes c n s) x) = rc_generation (ss_rcs s x)"
  "rc_phase (ss_rcs (release_connection_request_bytes c n s) x) = rc_phase (ss_rcs s x)"
  "rc_header (ss_rcs (release_connection_request_bytes c n s) x) = rc_header (ss_rcs s x)"
  "rc_header_received (ss_rcs (release_connection_request_bytes c n s) x) = rc_header_received (ss_rcs s x)"
  "rc_route_buffer (ss_rcs (release_connection_request_bytes c n s) x) = rc_route_buffer (ss_rcs s x)"
  "rc_body_buffer (ss_rcs (release_connection_request_bytes c n s) x) = rc_body_buffer (ss_rcs s x)"
  "rc_payload_received (ss_rcs (release_connection_request_bytes c n s) x) = rc_payload_received (ss_rcs s x)"
  "rc_payload_total (ss_rcs (release_connection_request_bytes c n s) x) = rc_payload_total (ss_rcs s x)"
  "rc_request_id (ss_rcs (release_connection_request_bytes c n s) x) = rc_request_id (ss_rcs s x)"
  "rc_request_flags (ss_rcs (release_connection_request_bytes c n s) x) = rc_request_flags (ss_rcs s x)"
  "rc_arg1 (ss_rcs (release_connection_request_bytes c n s) x) = rc_arg1 (ss_rcs s x)"
  "rc_arg2 (ss_rcs (release_connection_request_bytes c n s) x) = rc_arg2 (ss_rcs s x)"
  "rc_reserved_request_bytes (ss_rcs (release_connection_request_bytes c n s) x) = rc_reserved_request_bytes (ss_rcs s x)"
  "rc_arrival_time (ss_rcs (release_connection_request_bytes c n s) x) = rc_arrival_time (ss_rcs s x)"
  "rc_deadline (ss_rcs (release_connection_request_bytes c n s) x) = rc_deadline (ss_rcs s x)"
  "rc_reactor_busy (ss_rcs (release_connection_request_bytes c n s) x) = rc_reactor_busy (ss_rcs s x)"
  "rc_pending (ss_rcs (release_connection_request_bytes c n s) x) = rc_pending (ss_rcs s x)"
  "rc_pending_offset (ss_rcs (release_connection_request_bytes c n s) x) = rc_pending_offset (ss_rcs s x)"
  "rc_received_fds (ss_rcs (release_connection_request_bytes c n s) x) = rc_received_fds (ss_rcs s x)"
  "rc_capabilities (ss_rcs (release_connection_request_bytes c n s) x) = rc_capabilities (ss_rcs s x)"
  by (simp_all add: release_connection_request_bytes_def)

lemma release_request_frame [simp]:
  "ss_socket_path (release_connection_request c n s) = ss_socket_path s"
  "ss_options (release_connection_request c n s) = ss_options s"
  "ss_running (release_connection_request c n s) = ss_running s"
  "ss_active_streams (release_connection_request c n s) = ss_active_streams s"
  "ss_total_queued_output_bytes (release_connection_request c n s) = ss_total_queued_output_bytes s"
  "ss_next_connection_generation (release_connection_request c n s) = ss_next_connection_generation s"
  "ss_max_concurrent_streams (release_connection_request c n s) = ss_max_concurrent_streams s"
  "ss_listener_fd (release_connection_request c n s) = ss_listener_fd s"
  "ss_wakeup_fd (release_connection_request c n s) = ss_wakeup_fd s"
  "ss_instance_lock_fd (release_connection_request c n s) = ss_instance_lock_fd s"
  "ss_readiness_fd (release_connection_request c n s) = ss_readiness_fd s"
  "ss_socket_device (release_connection_request c n s) = ss_socket_device s"
  "ss_socket_inode (release_connection_request c n s) = ss_socket_inode s"
  "ss_socket_identity_valid (release_connection_request c n s) = ss_socket_identity_valid s"
  "ss_stopped (release_connection_request c n s) = ss_stopped s"
  "ss_run_started (release_connection_request c n s) = ss_run_started s"
  "ss_run_active (release_connection_request c n s) = ss_run_active s"
  "ss_handler_registry (release_connection_request c n s) = ss_handler_registry s"
  "ss_not_found_handler (release_connection_request c n s) = ss_not_found_handler s"
  "ss_pending_jobs (release_connection_request c n s) = ss_pending_jobs s"
  "ss_workers_stopping (release_connection_request c n s) = ss_workers_stopping s"
  "ss_pending_serialized (release_connection_request c n s) = ss_pending_serialized s"
  "ss_default_domain (release_connection_request c n s) = ss_default_domain s"
  "ss_named_domains (release_connection_request c n s) = ss_named_domains s"
  "ss_active_domain_count (release_connection_request c n s) = ss_active_domain_count s"
  "ss_busy_domain_count (release_connection_request c n s) = ss_busy_domain_count s"
  "ss_serialized_stopping (release_connection_request c n s) = ss_serialized_stopping s"
  "ss_serialized_worker_count (release_connection_request c n s) = ss_serialized_worker_count s"
  "ss_max_serialized_concurrency (release_connection_request c n s) = ss_max_serialized_concurrency s"
  "ss_reactor_error (release_connection_request c n s) = ss_reactor_error s"
  "ss_connections (release_connection_request c n s) = ss_connections s"
  "ss_counters (release_connection_request c n s) = ss_counters s"
  "ss_flags (release_connection_request c n s) = ss_flags s"
  "cn_fd (ss_conns (release_connection_request c n s) x) = cn_fd (ss_conns s x)"
  "cn_peer (ss_conns (release_connection_request c n s) x) = cn_peer (ss_conns s x)"
  "cn_stream_active (ss_conns (release_connection_request c n s) x) = cn_stream_active (ss_conns s x)"
  "cn_worker_owned (ss_conns (release_connection_request c n s) x) = cn_worker_owned (ss_conns s x)"
  "cn_session_capable (ss_conns (release_connection_request c n s) x) = cn_session_capable (ss_conns s x)"
  "cn_wire_version (ss_conns (release_connection_request c n s) x) = cn_wire_version (ss_conns s x)"
  "cn_cancellations (ss_conns (release_connection_request c n s) x) = cn_cancellations (ss_conns s x)"
  "cn_active_regular (ss_conns (release_connection_request c n s) x) = cn_active_regular (ss_conns s x)"
  "cn_pending_serialized (ss_conns (release_connection_request c n s) x) = cn_pending_serialized (ss_conns s x)"
  "cn_last_io_progress (ss_conns (release_connection_request c n s) x) = cn_last_io_progress (ss_conns s x)"
  "cn_last_output_progress (ss_conns (release_connection_request c n s) x) = cn_last_output_progress (ss_conns s x)"
  "cn_queued_output_bytes (ss_conns (release_connection_request c n s) x) = cn_queued_output_bytes (ss_conns s x)"
  "cn_output_queue (ss_conns (release_connection_request c n s) x) = cn_output_queue (ss_conns s x)"
  "rc_conn (ss_rcs (release_connection_request c n s) x) = rc_conn (ss_rcs s x)"
  "rc_generation (ss_rcs (release_connection_request c n s) x) = rc_generation (ss_rcs s x)"
  "rc_phase (ss_rcs (release_connection_request c n s) x) = rc_phase (ss_rcs s x)"
  "rc_header (ss_rcs (release_connection_request c n s) x) = rc_header (ss_rcs s x)"
  "rc_header_received (ss_rcs (release_connection_request c n s) x) = rc_header_received (ss_rcs s x)"
  "rc_route_buffer (ss_rcs (release_connection_request c n s) x) = rc_route_buffer (ss_rcs s x)"
  "rc_body_buffer (ss_rcs (release_connection_request c n s) x) = rc_body_buffer (ss_rcs s x)"
  "rc_payload_received (ss_rcs (release_connection_request c n s) x) = rc_payload_received (ss_rcs s x)"
  "rc_payload_total (ss_rcs (release_connection_request c n s) x) = rc_payload_total (ss_rcs s x)"
  "rc_request_id (ss_rcs (release_connection_request c n s) x) = rc_request_id (ss_rcs s x)"
  "rc_request_flags (ss_rcs (release_connection_request c n s) x) = rc_request_flags (ss_rcs s x)"
  "rc_arg1 (ss_rcs (release_connection_request c n s) x) = rc_arg1 (ss_rcs s x)"
  "rc_arg2 (ss_rcs (release_connection_request c n s) x) = rc_arg2 (ss_rcs s x)"
  "rc_reserved_request_bytes (ss_rcs (release_connection_request c n s) x) = rc_reserved_request_bytes (ss_rcs s x)"
  "rc_arrival_time (ss_rcs (release_connection_request c n s) x) = rc_arrival_time (ss_rcs s x)"
  "rc_deadline (ss_rcs (release_connection_request c n s) x) = rc_deadline (ss_rcs s x)"
  "rc_reactor_busy (ss_rcs (release_connection_request c n s) x) = rc_reactor_busy (ss_rcs s x)"
  "rc_pending (ss_rcs (release_connection_request c n s) x) = rc_pending (ss_rcs s x)"
  "rc_pending_offset (ss_rcs (release_connection_request c n s) x) = rc_pending_offset (ss_rcs s x)"
  "rc_received_fds (ss_rcs (release_connection_request c n s) x) = rc_received_fds (ss_rcs s x)"
  "rc_capabilities (ss_rcs (release_connection_request c n s) x) = rc_capabilities (ss_rcs s x)"
  by (simp_all add: release_connection_request_def)

lemma drop_output_frame [simp]:
  "ss_socket_path (drop_output c s) = ss_socket_path s"
  "ss_options (drop_output c s) = ss_options s"
  "ss_running (drop_output c s) = ss_running s"
  "ss_active_streams (drop_output c s) = ss_active_streams s"
  "ss_total_inflight_request_bytes (drop_output c s) = ss_total_inflight_request_bytes s"
  "ss_next_connection_generation (drop_output c s) = ss_next_connection_generation s"
  "ss_max_concurrent_streams (drop_output c s) = ss_max_concurrent_streams s"
  "ss_listener_fd (drop_output c s) = ss_listener_fd s"
  "ss_wakeup_fd (drop_output c s) = ss_wakeup_fd s"
  "ss_wake_pending (drop_output c s) = ss_wake_pending s"
  "ss_instance_lock_fd (drop_output c s) = ss_instance_lock_fd s"
  "ss_readiness_fd (drop_output c s) = ss_readiness_fd s"
  "ss_socket_device (drop_output c s) = ss_socket_device s"
  "ss_socket_inode (drop_output c s) = ss_socket_inode s"
  "ss_socket_identity_valid (drop_output c s) = ss_socket_identity_valid s"
  "ss_stopped (drop_output c s) = ss_stopped s"
  "ss_run_started (drop_output c s) = ss_run_started s"
  "ss_run_active (drop_output c s) = ss_run_active s"
  "ss_handler_registry (drop_output c s) = ss_handler_registry s"
  "ss_not_found_handler (drop_output c s) = ss_not_found_handler s"
  "ss_pending_jobs (drop_output c s) = ss_pending_jobs s"
  "ss_workers_stopping (drop_output c s) = ss_workers_stopping s"
  "ss_pending_serialized (drop_output c s) = ss_pending_serialized s"
  "ss_default_domain (drop_output c s) = ss_default_domain s"
  "ss_named_domains (drop_output c s) = ss_named_domains s"
  "ss_active_domain_count (drop_output c s) = ss_active_domain_count s"
  "ss_busy_domain_count (drop_output c s) = ss_busy_domain_count s"
  "ss_serialized_stopping (drop_output c s) = ss_serialized_stopping s"
  "ss_serialized_worker_count (drop_output c s) = ss_serialized_worker_count s"
  "ss_max_serialized_concurrency (drop_output c s) = ss_max_serialized_concurrency s"
  "ss_reactor_error (drop_output c s) = ss_reactor_error s"
  "ss_connections (drop_output c s) = ss_connections s"
  "ss_resumed_connections (drop_output c s) = ss_resumed_connections s"
  "ss_counters (drop_output c s) = ss_counters s"
  "ss_rcs (drop_output c s) = ss_rcs s"
  "ss_flags (drop_output c s) = ss_flags s"
  "ss_world (drop_output c s) = ss_world s"
  "cn_fd (ss_conns (drop_output c s) x) = cn_fd (ss_conns s x)"
  "cn_peer (ss_conns (drop_output c s) x) = cn_peer (ss_conns s x)"
  "cn_stream_active (ss_conns (drop_output c s) x) = cn_stream_active (ss_conns s x)"
  "cn_worker_owned (ss_conns (drop_output c s) x) = cn_worker_owned (ss_conns s x)"
  "cn_closing (ss_conns (drop_output c s) x) = cn_closing (ss_conns s x)"
  "cn_session_capable (ss_conns (drop_output c s) x) = cn_session_capable (ss_conns s x)"
  "cn_wire_version (ss_conns (drop_output c s) x) = cn_wire_version (ss_conns s x)"
  "cn_cancellations (ss_conns (drop_output c s) x) = cn_cancellations (ss_conns s x)"
  "cn_active_regular (ss_conns (drop_output c s) x) = cn_active_regular (ss_conns s x)"
  "cn_pending_serialized (ss_conns (drop_output c s) x) = cn_pending_serialized (ss_conns s x)"
  "cn_inflight_requests (ss_conns (drop_output c s) x) = cn_inflight_requests (ss_conns s x)"
  "cn_inflight_request_bytes (ss_conns (drop_output c s) x) = cn_inflight_request_bytes (ss_conns s x)"
  "cn_last_io_progress (ss_conns (drop_output c s) x) = cn_last_io_progress (ss_conns s x)"
  "cn_last_output_progress (ss_conns (drop_output c s) x) = cn_last_output_progress (ss_conns s x)"
  by (simp_all add: drop_output_def Let_def)

lemma drop_reactor_connection_rc_frame [simp]:
  "rc_conn (ss_rcs (drop_reactor_connection r s) x) = rc_conn (ss_rcs s x)"
  "rc_generation (ss_rcs (drop_reactor_connection r s) x) = rc_generation (ss_rcs s x)"
  "rc_registered_events (ss_rcs (drop_reactor_connection r s) x) = rc_registered_events (ss_rcs s x)"
  "rc_phase (ss_rcs (drop_reactor_connection r s) x) = rc_phase (ss_rcs s x)"
  "rc_header (ss_rcs (drop_reactor_connection r s) x) = rc_header (ss_rcs s x)"
  "rc_header_received (ss_rcs (drop_reactor_connection r s) x) = rc_header_received (ss_rcs s x)"
  "rc_route_buffer (ss_rcs (drop_reactor_connection r s) x) = rc_route_buffer (ss_rcs s x)"
  "rc_body_buffer (ss_rcs (drop_reactor_connection r s) x) = rc_body_buffer (ss_rcs s x)"
  "rc_payload_received (ss_rcs (drop_reactor_connection r s) x) = rc_payload_received (ss_rcs s x)"
  "rc_payload_total (ss_rcs (drop_reactor_connection r s) x) = rc_payload_total (ss_rcs s x)"
  "rc_request_id (ss_rcs (drop_reactor_connection r s) x) = rc_request_id (ss_rcs s x)"
  "rc_request_flags (ss_rcs (drop_reactor_connection r s) x) = rc_request_flags (ss_rcs s x)"
  "rc_arg1 (ss_rcs (drop_reactor_connection r s) x) = rc_arg1 (ss_rcs s x)"
  "rc_arg2 (ss_rcs (drop_reactor_connection r s) x) = rc_arg2 (ss_rcs s x)"
  "rc_arrival_time (ss_rcs (drop_reactor_connection r s) x) = rc_arrival_time (ss_rcs s x)"
  "rc_deadline (ss_rcs (drop_reactor_connection r s) x) = rc_deadline (ss_rcs s x)"
  "rc_reactor_busy (ss_rcs (drop_reactor_connection r s) x) = rc_reactor_busy (ss_rcs s x)"
  "rc_read_paused (ss_rcs (drop_reactor_connection r s) x) = rc_read_paused (ss_rcs s x)"
  "rc_pending (ss_rcs (drop_reactor_connection r s) x) = rc_pending (ss_rcs s x)"
  "rc_pending_offset (ss_rcs (drop_reactor_connection r s) x) = rc_pending_offset (ss_rcs s x)"
  by (simp_all add: drop_reactor_connection_def Let_def)

lemma close_connection_frame [simp]:
  "ss_socket_path (close_connection fd s) = ss_socket_path s"
  "ss_options (close_connection fd s) = ss_options s"
  "ss_running (close_connection fd s) = ss_running s"
  "ss_active_streams (close_connection fd s) = ss_active_streams s"
  "ss_next_connection_generation (close_connection fd s) = ss_next_connection_generation s"
  "ss_max_concurrent_streams (close_connection fd s) = ss_max_concurrent_streams s"
  "ss_listener_fd (close_connection fd s) = ss_listener_fd s"
  "ss_wakeup_fd (close_connection fd s) = ss_wakeup_fd s"
  "ss_instance_lock_fd (close_connection fd s) = ss_instance_lock_fd s"
  "ss_readiness_fd (close_connection fd s) = ss_readiness_fd s"
  "ss_socket_device (close_connection fd s) = ss_socket_device s"
  "ss_socket_inode (close_connection fd s) = ss_socket_inode s"
  "ss_socket_identity_valid (close_connection fd s) = ss_socket_identity_valid s"
  "ss_stopped (close_connection fd s) = ss_stopped s"
  "ss_run_started (close_connection fd s) = ss_run_started s"
  "ss_run_active (close_connection fd s) = ss_run_active s"
  "ss_handler_registry (close_connection fd s) = ss_handler_registry s"
  "ss_not_found_handler (close_connection fd s) = ss_not_found_handler s"
  "ss_pending_jobs (close_connection fd s) = ss_pending_jobs s"
  "ss_workers_stopping (close_connection fd s) = ss_workers_stopping s"
  "ss_pending_serialized (close_connection fd s) = ss_pending_serialized s"
  "ss_default_domain (close_connection fd s) = ss_default_domain s"
  "ss_named_domains (close_connection fd s) = ss_named_domains s"
  "ss_active_domain_count (close_connection fd s) = ss_active_domain_count s"
  "ss_busy_domain_count (close_connection fd s) = ss_busy_domain_count s"
  "ss_serialized_stopping (close_connection fd s) = ss_serialized_stopping s"
  "ss_serialized_worker_count (close_connection fd s) = ss_serialized_worker_count s"
  "ss_max_serialized_concurrency (close_connection fd s) = ss_max_serialized_concurrency s"
  "ss_reactor_error (close_connection fd s) = ss_reactor_error s"
  "ss_counters (close_connection fd s) = ss_counters s"
  by (simp_all add: close_connection_def Let_def split: option.split)

lemma close_connection_cn_frame [simp]:
  "cn_fd (ss_conns (close_connection fd s) x) = cn_fd (ss_conns s x)"
  "cn_peer (ss_conns (close_connection fd s) x) = cn_peer (ss_conns s x)"
  "cn_stream_active (ss_conns (close_connection fd s) x) = cn_stream_active (ss_conns s x)"
  "cn_worker_owned (ss_conns (close_connection fd s) x) = cn_worker_owned (ss_conns s x)"
  "cn_session_capable (ss_conns (close_connection fd s) x) = cn_session_capable (ss_conns s x)"
  "cn_wire_version (ss_conns (close_connection fd s) x) = cn_wire_version (ss_conns s x)"
  "cn_cancellations (ss_conns (close_connection fd s) x) = cn_cancellations (ss_conns s x)"
  "cn_active_regular (ss_conns (close_connection fd s) x) = cn_active_regular (ss_conns s x)"
  "cn_pending_serialized (ss_conns (close_connection fd s) x) = cn_pending_serialized (ss_conns s x)"
  "cn_inflight_requests (ss_conns (close_connection fd s) x) = cn_inflight_requests (ss_conns s x)"
  "cn_last_io_progress (ss_conns (close_connection fd s) x) = cn_last_io_progress (ss_conns s x)"
  "cn_last_output_progress (ss_conns (close_connection fd s) x) = cn_last_output_progress (ss_conns s x)"
  by (simp_all add: close_connection_def Let_def split: option.split)

lemma close_connection_rc_frame [simp]:
  "rc_conn (ss_rcs (close_connection fd s) x) = rc_conn (ss_rcs s x)"
  "rc_generation (ss_rcs (close_connection fd s) x) = rc_generation (ss_rcs s x)"
  "rc_phase (ss_rcs (close_connection fd s) x) = rc_phase (ss_rcs s x)"
  "rc_header (ss_rcs (close_connection fd s) x) = rc_header (ss_rcs s x)"
  "rc_header_received (ss_rcs (close_connection fd s) x) = rc_header_received (ss_rcs s x)"
  "rc_route_buffer (ss_rcs (close_connection fd s) x) = rc_route_buffer (ss_rcs s x)"
  "rc_body_buffer (ss_rcs (close_connection fd s) x) = rc_body_buffer (ss_rcs s x)"
  "rc_payload_received (ss_rcs (close_connection fd s) x) = rc_payload_received (ss_rcs s x)"
  "rc_payload_total (ss_rcs (close_connection fd s) x) = rc_payload_total (ss_rcs s x)"
  "rc_request_id (ss_rcs (close_connection fd s) x) = rc_request_id (ss_rcs s x)"
  "rc_request_flags (ss_rcs (close_connection fd s) x) = rc_request_flags (ss_rcs s x)"
  "rc_arg1 (ss_rcs (close_connection fd s) x) = rc_arg1 (ss_rcs s x)"
  "rc_arg2 (ss_rcs (close_connection fd s) x) = rc_arg2 (ss_rcs s x)"
  "rc_arrival_time (ss_rcs (close_connection fd s) x) = rc_arrival_time (ss_rcs s x)"
  "rc_deadline (ss_rcs (close_connection fd s) x) = rc_deadline (ss_rcs s x)"
  "rc_reactor_busy (ss_rcs (close_connection fd s) x) = rc_reactor_busy (ss_rcs s x)"
  "rc_pending (ss_rcs (close_connection fd s) x) = rc_pending (ss_rcs s x)"
  "rc_pending_offset (ss_rcs (close_connection fd s) x) = rc_pending_offset (ss_rcs s x)"
  by (simp_all add: close_connection_def Let_def split: option.split)

lemma send_response_frame [simp]:
  "ss_socket_path (fst (send_response c i r d s)) = ss_socket_path s"
  "ss_options (fst (send_response c i r d s)) = ss_options s"
  "ss_running (fst (send_response c i r d s)) = ss_running s"
  "ss_active_streams (fst (send_response c i r d s)) = ss_active_streams s"
  "ss_next_connection_generation (fst (send_response c i r d s)) = ss_next_connection_generation s"
  "ss_max_concurrent_streams (fst (send_response c i r d s)) = ss_max_concurrent_streams s"
  "ss_listener_fd (fst (send_response c i r d s)) = ss_listener_fd s"
  "ss_wakeup_fd (fst (send_response c i r d s)) = ss_wakeup_fd s"
  "ss_instance_lock_fd (fst (send_response c i r d s)) = ss_instance_lock_fd s"
  "ss_readiness_fd (fst (send_response c i r d s)) = ss_readiness_fd s"
  "ss_socket_device (fst (send_response c i r d s)) = ss_socket_device s"
  "ss_socket_inode (fst (send_response c i r d s)) = ss_socket_inode s"
  "ss_socket_identity_valid (fst (send_response c i r d s)) = ss_socket_identity_valid s"
  "ss_stopped (fst (send_response c i r d s)) = ss_stopped s"
  "ss_run_started (fst (send_response c i r d s)) = ss_run_started s"
  "ss_run_active (fst (send_response c i r d s)) = ss_run_active s"
  "ss_handler_registry (fst (send_response c i r d s)) = ss_handler_registry s"
  "ss_not_found_handler (fst (send_response c i r d s)) = ss_not_found_handler s"
  "ss_pending_jobs (fst (send_response c i r d s)) = ss_pending_jobs s"
  "ss_workers_stopping (fst (send_response c i r d s)) = ss_workers_stopping s"
  "ss_pending_serialized (fst (send_response c i r d s)) = ss_pending_serialized s"
  "ss_default_domain (fst (send_response c i r d s)) = ss_default_domain s"
  "ss_named_domains (fst (send_response c i r d s)) = ss_named_domains s"
  "ss_active_domain_count (fst (send_response c i r d s)) = ss_active_domain_count s"
  "ss_busy_domain_count (fst (send_response c i r d s)) = ss_busy_domain_count s"
  "ss_serialized_stopping (fst (send_response c i r d s)) = ss_serialized_stopping s"
  "ss_serialized_worker_count (fst (send_response c i r d s)) = ss_serialized_worker_count s"
  "ss_max_serialized_concurrency (fst (send_response c i r d s)) = ss_max_serialized_concurrency s"
  "ss_reactor_error (fst (send_response c i r d s)) = ss_reactor_error s"
  "ss_counters (fst (send_response c i r d s)) = ss_counters s"
  by (simp_all add: send_response_def Let_def split_beta split: sum.split enqueue_result.split bool.split)

lemma send_response_cn_frame [simp]:
  "cn_fd (ss_conns (fst (send_response c i r d s)) x) = cn_fd (ss_conns s x)"
  "cn_peer (ss_conns (fst (send_response c i r d s)) x) = cn_peer (ss_conns s x)"
  "cn_stream_active (ss_conns (fst (send_response c i r d s)) x) = cn_stream_active (ss_conns s x)"
  "cn_worker_owned (ss_conns (fst (send_response c i r d s)) x) = cn_worker_owned (ss_conns s x)"
  "cn_session_capable (ss_conns (fst (send_response c i r d s)) x) = cn_session_capable (ss_conns s x)"
  "cn_wire_version (ss_conns (fst (send_response c i r d s)) x) = cn_wire_version (ss_conns s x)"
  "cn_cancellations (ss_conns (fst (send_response c i r d s)) x) = cn_cancellations (ss_conns s x)"
  "cn_active_regular (ss_conns (fst (send_response c i r d s)) x) = cn_active_regular (ss_conns s x)"
  "cn_pending_serialized (ss_conns (fst (send_response c i r d s)) x) = cn_pending_serialized (ss_conns s x)"
  "cn_inflight_requests (ss_conns (fst (send_response c i r d s)) x) = cn_inflight_requests (ss_conns s x)"
  by (simp_all add: send_response_def Let_def split_beta split: sum.split enqueue_result.split bool.split)

lemma send_response_rc_frame [simp]:
  "rc_conn (ss_rcs (fst (send_response c i r d s)) x) = rc_conn (ss_rcs s x)"
  "rc_generation (ss_rcs (fst (send_response c i r d s)) x) = rc_generation (ss_rcs s x)"
  "rc_phase (ss_rcs (fst (send_response c i r d s)) x) = rc_phase (ss_rcs s x)"
  "rc_header (ss_rcs (fst (send_response c i r d s)) x) = rc_header (ss_rcs s x)"
  "rc_header_received (ss_rcs (fst (send_response c i r d s)) x) = rc_header_received (ss_rcs s x)"
  "rc_route_buffer (ss_rcs (fst (send_response c i r d s)) x) = rc_route_buffer (ss_rcs s x)"
  "rc_body_buffer (ss_rcs (fst (send_response c i r d s)) x) = rc_body_buffer (ss_rcs s x)"
  "rc_payload_received (ss_rcs (fst (send_response c i r d s)) x) = rc_payload_received (ss_rcs s x)"
  "rc_payload_total (ss_rcs (fst (send_response c i r d s)) x) = rc_payload_total (ss_rcs s x)"
  "rc_request_id (ss_rcs (fst (send_response c i r d s)) x) = rc_request_id (ss_rcs s x)"
  "rc_request_flags (ss_rcs (fst (send_response c i r d s)) x) = rc_request_flags (ss_rcs s x)"
  "rc_arg1 (ss_rcs (fst (send_response c i r d s)) x) = rc_arg1 (ss_rcs s x)"
  "rc_arg2 (ss_rcs (fst (send_response c i r d s)) x) = rc_arg2 (ss_rcs s x)"
  "rc_arrival_time (ss_rcs (fst (send_response c i r d s)) x) = rc_arrival_time (ss_rcs s x)"
  "rc_deadline (ss_rcs (fst (send_response c i r d s)) x) = rc_deadline (ss_rcs s x)"
  "rc_reactor_busy (ss_rcs (fst (send_response c i r d s)) x) = rc_reactor_busy (ss_rcs s x)"
  "rc_pending (ss_rcs (fst (send_response c i r d s)) x) = rc_pending (ss_rcs s x)"
  "rc_pending_offset (ss_rcs (fst (send_response c i r d s)) x) = rc_pending_offset (ss_rcs s x)"
  by (simp_all add: send_response_def Let_def split_beta split: sum.split enqueue_result.split bool.split)

lemma write_fixed_response_frame [simp]:
  "ss_socket_path (fst (write_fixed_response c i r d s)) = ss_socket_path s"
  "ss_options (fst (write_fixed_response c i r d s)) = ss_options s"
  "ss_running (fst (write_fixed_response c i r d s)) = ss_running s"
  "ss_active_streams (fst (write_fixed_response c i r d s)) = ss_active_streams s"
  "ss_next_connection_generation (fst (write_fixed_response c i r d s)) = ss_next_connection_generation s"
  "ss_max_concurrent_streams (fst (write_fixed_response c i r d s)) = ss_max_concurrent_streams s"
  "ss_listener_fd (fst (write_fixed_response c i r d s)) = ss_listener_fd s"
  "ss_wakeup_fd (fst (write_fixed_response c i r d s)) = ss_wakeup_fd s"
  "ss_instance_lock_fd (fst (write_fixed_response c i r d s)) = ss_instance_lock_fd s"
  "ss_readiness_fd (fst (write_fixed_response c i r d s)) = ss_readiness_fd s"
  "ss_socket_device (fst (write_fixed_response c i r d s)) = ss_socket_device s"
  "ss_socket_inode (fst (write_fixed_response c i r d s)) = ss_socket_inode s"
  "ss_socket_identity_valid (fst (write_fixed_response c i r d s)) = ss_socket_identity_valid s"
  "ss_stopped (fst (write_fixed_response c i r d s)) = ss_stopped s"
  "ss_run_started (fst (write_fixed_response c i r d s)) = ss_run_started s"
  "ss_run_active (fst (write_fixed_response c i r d s)) = ss_run_active s"
  "ss_handler_registry (fst (write_fixed_response c i r d s)) = ss_handler_registry s"
  "ss_not_found_handler (fst (write_fixed_response c i r d s)) = ss_not_found_handler s"
  "ss_pending_jobs (fst (write_fixed_response c i r d s)) = ss_pending_jobs s"
  "ss_workers_stopping (fst (write_fixed_response c i r d s)) = ss_workers_stopping s"
  "ss_pending_serialized (fst (write_fixed_response c i r d s)) = ss_pending_serialized s"
  "ss_default_domain (fst (write_fixed_response c i r d s)) = ss_default_domain s"
  "ss_named_domains (fst (write_fixed_response c i r d s)) = ss_named_domains s"
  "ss_active_domain_count (fst (write_fixed_response c i r d s)) = ss_active_domain_count s"
  "ss_busy_domain_count (fst (write_fixed_response c i r d s)) = ss_busy_domain_count s"
  "ss_serialized_stopping (fst (write_fixed_response c i r d s)) = ss_serialized_stopping s"
  "ss_serialized_worker_count (fst (write_fixed_response c i r d s)) = ss_serialized_worker_count s"
  "ss_max_serialized_concurrency (fst (write_fixed_response c i r d s)) = ss_max_serialized_concurrency s"
  "ss_reactor_error (fst (write_fixed_response c i r d s)) = ss_reactor_error s"
  "ss_counters (fst (write_fixed_response c i r d s)) = ss_counters s"
  "cn_fd (ss_conns (fst (write_fixed_response c i r d s)) x) = cn_fd (ss_conns s x)"
  "cn_peer (ss_conns (fst (write_fixed_response c i r d s)) x) = cn_peer (ss_conns s x)"
  "cn_stream_active (ss_conns (fst (write_fixed_response c i r d s)) x) = cn_stream_active (ss_conns s x)"
  "cn_worker_owned (ss_conns (fst (write_fixed_response c i r d s)) x) = cn_worker_owned (ss_conns s x)"
  "cn_session_capable (ss_conns (fst (write_fixed_response c i r d s)) x) = cn_session_capable (ss_conns s x)"
  "cn_wire_version (ss_conns (fst (write_fixed_response c i r d s)) x) = cn_wire_version (ss_conns s x)"
  "cn_cancellations (ss_conns (fst (write_fixed_response c i r d s)) x) = cn_cancellations (ss_conns s x)"
  "cn_active_regular (ss_conns (fst (write_fixed_response c i r d s)) x) = cn_active_regular (ss_conns s x)"
  "cn_pending_serialized (ss_conns (fst (write_fixed_response c i r d s)) x) = cn_pending_serialized (ss_conns s x)"
  "cn_inflight_requests (ss_conns (fst (write_fixed_response c i r d s)) x) = cn_inflight_requests (ss_conns s x)"
  "rc_conn (ss_rcs (fst (write_fixed_response c i r d s)) x) = rc_conn (ss_rcs s x)"
  "rc_generation (ss_rcs (fst (write_fixed_response c i r d s)) x) = rc_generation (ss_rcs s x)"
  "rc_phase (ss_rcs (fst (write_fixed_response c i r d s)) x) = rc_phase (ss_rcs s x)"
  "rc_header (ss_rcs (fst (write_fixed_response c i r d s)) x) = rc_header (ss_rcs s x)"
  "rc_header_received (ss_rcs (fst (write_fixed_response c i r d s)) x) = rc_header_received (ss_rcs s x)"
  "rc_route_buffer (ss_rcs (fst (write_fixed_response c i r d s)) x) = rc_route_buffer (ss_rcs s x)"
  "rc_body_buffer (ss_rcs (fst (write_fixed_response c i r d s)) x) = rc_body_buffer (ss_rcs s x)"
  "rc_payload_received (ss_rcs (fst (write_fixed_response c i r d s)) x) = rc_payload_received (ss_rcs s x)"
  "rc_payload_total (ss_rcs (fst (write_fixed_response c i r d s)) x) = rc_payload_total (ss_rcs s x)"
  "rc_request_id (ss_rcs (fst (write_fixed_response c i r d s)) x) = rc_request_id (ss_rcs s x)"
  "rc_request_flags (ss_rcs (fst (write_fixed_response c i r d s)) x) = rc_request_flags (ss_rcs s x)"
  "rc_arg1 (ss_rcs (fst (write_fixed_response c i r d s)) x) = rc_arg1 (ss_rcs s x)"
  "rc_arg2 (ss_rcs (fst (write_fixed_response c i r d s)) x) = rc_arg2 (ss_rcs s x)"
  "rc_arrival_time (ss_rcs (fst (write_fixed_response c i r d s)) x) = rc_arrival_time (ss_rcs s x)"
  "rc_deadline (ss_rcs (fst (write_fixed_response c i r d s)) x) = rc_deadline (ss_rcs s x)"
  "rc_reactor_busy (ss_rcs (fst (write_fixed_response c i r d s)) x) = rc_reactor_busy (ss_rcs s x)"
  "rc_pending (ss_rcs (fst (write_fixed_response c i r d s)) x) = rc_pending (ss_rcs s x)"
  "rc_pending_offset (ss_rcs (fst (write_fixed_response c i r d s)) x) = rc_pending_offset (ss_rcs s x)"
  by (simp_all add: write_fixed_response_eq)

lemma write_error_response_frame [simp]:
  "ss_socket_path (fst (write_error_response c i m d st s)) = ss_socket_path s"
  "ss_options (fst (write_error_response c i m d st s)) = ss_options s"
  "ss_running (fst (write_error_response c i m d st s)) = ss_running s"
  "ss_active_streams (fst (write_error_response c i m d st s)) = ss_active_streams s"
  "ss_next_connection_generation (fst (write_error_response c i m d st s)) = ss_next_connection_generation s"
  "ss_max_concurrent_streams (fst (write_error_response c i m d st s)) = ss_max_concurrent_streams s"
  "ss_listener_fd (fst (write_error_response c i m d st s)) = ss_listener_fd s"
  "ss_wakeup_fd (fst (write_error_response c i m d st s)) = ss_wakeup_fd s"
  "ss_instance_lock_fd (fst (write_error_response c i m d st s)) = ss_instance_lock_fd s"
  "ss_readiness_fd (fst (write_error_response c i m d st s)) = ss_readiness_fd s"
  "ss_socket_device (fst (write_error_response c i m d st s)) = ss_socket_device s"
  "ss_socket_inode (fst (write_error_response c i m d st s)) = ss_socket_inode s"
  "ss_socket_identity_valid (fst (write_error_response c i m d st s)) = ss_socket_identity_valid s"
  "ss_stopped (fst (write_error_response c i m d st s)) = ss_stopped s"
  "ss_run_started (fst (write_error_response c i m d st s)) = ss_run_started s"
  "ss_run_active (fst (write_error_response c i m d st s)) = ss_run_active s"
  "ss_handler_registry (fst (write_error_response c i m d st s)) = ss_handler_registry s"
  "ss_not_found_handler (fst (write_error_response c i m d st s)) = ss_not_found_handler s"
  "ss_pending_jobs (fst (write_error_response c i m d st s)) = ss_pending_jobs s"
  "ss_workers_stopping (fst (write_error_response c i m d st s)) = ss_workers_stopping s"
  "ss_pending_serialized (fst (write_error_response c i m d st s)) = ss_pending_serialized s"
  "ss_default_domain (fst (write_error_response c i m d st s)) = ss_default_domain s"
  "ss_named_domains (fst (write_error_response c i m d st s)) = ss_named_domains s"
  "ss_active_domain_count (fst (write_error_response c i m d st s)) = ss_active_domain_count s"
  "ss_busy_domain_count (fst (write_error_response c i m d st s)) = ss_busy_domain_count s"
  "ss_serialized_stopping (fst (write_error_response c i m d st s)) = ss_serialized_stopping s"
  "ss_serialized_worker_count (fst (write_error_response c i m d st s)) = ss_serialized_worker_count s"
  "ss_max_serialized_concurrency (fst (write_error_response c i m d st s)) = ss_max_serialized_concurrency s"
  "ss_reactor_error (fst (write_error_response c i m d st s)) = ss_reactor_error s"
  "ss_counters (fst (write_error_response c i m d st s)) = ss_counters s"
  "cn_fd (ss_conns (fst (write_error_response c i m d st s)) x) = cn_fd (ss_conns s x)"
  "cn_peer (ss_conns (fst (write_error_response c i m d st s)) x) = cn_peer (ss_conns s x)"
  "cn_stream_active (ss_conns (fst (write_error_response c i m d st s)) x) = cn_stream_active (ss_conns s x)"
  "cn_worker_owned (ss_conns (fst (write_error_response c i m d st s)) x) = cn_worker_owned (ss_conns s x)"
  "cn_session_capable (ss_conns (fst (write_error_response c i m d st s)) x) = cn_session_capable (ss_conns s x)"
  "cn_wire_version (ss_conns (fst (write_error_response c i m d st s)) x) = cn_wire_version (ss_conns s x)"
  "cn_cancellations (ss_conns (fst (write_error_response c i m d st s)) x) = cn_cancellations (ss_conns s x)"
  "cn_active_regular (ss_conns (fst (write_error_response c i m d st s)) x) = cn_active_regular (ss_conns s x)"
  "cn_pending_serialized (ss_conns (fst (write_error_response c i m d st s)) x) = cn_pending_serialized (ss_conns s x)"
  "cn_inflight_requests (ss_conns (fst (write_error_response c i m d st s)) x) = cn_inflight_requests (ss_conns s x)"
  "rc_conn (ss_rcs (fst (write_error_response c i m d st s)) x) = rc_conn (ss_rcs s x)"
  "rc_generation (ss_rcs (fst (write_error_response c i m d st s)) x) = rc_generation (ss_rcs s x)"
  "rc_phase (ss_rcs (fst (write_error_response c i m d st s)) x) = rc_phase (ss_rcs s x)"
  "rc_header (ss_rcs (fst (write_error_response c i m d st s)) x) = rc_header (ss_rcs s x)"
  "rc_header_received (ss_rcs (fst (write_error_response c i m d st s)) x) = rc_header_received (ss_rcs s x)"
  "rc_route_buffer (ss_rcs (fst (write_error_response c i m d st s)) x) = rc_route_buffer (ss_rcs s x)"
  "rc_body_buffer (ss_rcs (fst (write_error_response c i m d st s)) x) = rc_body_buffer (ss_rcs s x)"
  "rc_payload_received (ss_rcs (fst (write_error_response c i m d st s)) x) = rc_payload_received (ss_rcs s x)"
  "rc_payload_total (ss_rcs (fst (write_error_response c i m d st s)) x) = rc_payload_total (ss_rcs s x)"
  "rc_request_id (ss_rcs (fst (write_error_response c i m d st s)) x) = rc_request_id (ss_rcs s x)"
  "rc_request_flags (ss_rcs (fst (write_error_response c i m d st s)) x) = rc_request_flags (ss_rcs s x)"
  "rc_arg1 (ss_rcs (fst (write_error_response c i m d st s)) x) = rc_arg1 (ss_rcs s x)"
  "rc_arg2 (ss_rcs (fst (write_error_response c i m d st s)) x) = rc_arg2 (ss_rcs s x)"
  "rc_arrival_time (ss_rcs (fst (write_error_response c i m d st s)) x) = rc_arrival_time (ss_rcs s x)"
  "rc_deadline (ss_rcs (fst (write_error_response c i m d st s)) x) = rc_deadline (ss_rcs s x)"
  "rc_reactor_busy (ss_rcs (fst (write_error_response c i m d st s)) x) = rc_reactor_busy (ss_rcs s x)"
  "rc_pending (ss_rcs (fst (write_error_response c i m d st s)) x) = rc_pending (ss_rcs s x)"
  "rc_pending_offset (ss_rcs (fst (write_error_response c i m d st s)) x) = rc_pending_offset (ss_rcs s x)"
  by (simp_all add: write_error_response_def)

end
