(* ===== verification/Handlers.thy ===== *)
theory Handlers
  imports OutputFrames
begin

text \<open>
  Calling user code: authorization and the invocation of a fixed-request handler, with every
  exception turned into a response (\<^verbatim>\<open>authorize_request\<close>, \<^verbatim>\<open>invoke_request_handler\<close> and
  \<^verbatim>\<open>route_scheduling\<close> of \<^verbatim>\<open>src/system/reactor/workers.cpp\<close>).
\<close>

definition default_scheduling :: RouteScheduling where
  "default_scheduling = \<lparr>rs_domain = [], rs_policy = QP_fifo\<rparr>"

definition route_scheduling :: "HandlerEntry option \<Rightarrow> exn + RouteScheduling" where
  "route_scheduling handler =
     (case handler of
        None \<Rightarrow> Inr default_scheduling
      | Some h \<Rightarrow>
          if \<not> he_advanced_options h then Inr default_scheduling
          else if he_contextual h
          then (case he_handler h of
                  ContextHandlerAdapter _ scheduling \<Rightarrow> Inr scheduling
                | _ \<Rightarrow> Inl (Logic_error ''invalid contextual route options entry''))
          else (case he_handler h of
                  SimpleRouteOptionsAdapter _ scheduling \<Rightarrow> Inr scheduling
                | _ \<Rightarrow> Inl (Logic_error ''invalid simple route options entry'')))"

text \<open>The context a callback of this request sees.\<close>

definition request_context ::
  "Request \<Rightarrow> time \<Rightarrow> time \<Rightarrow> nat \<Rightarrow> Capabilities \<Rightarrow> ServerState \<Rightarrow> RequestContext" where
  "request_context request arrival_time deadline c caps s =
     make_context request arrival_time deadline c caps (snd (clock_read s)) s"

definition exception_response :: "ServerState \<Rightarrow> bstring \<Rightarrow> Response" where
  "exception_response s message =
     \<lparr>rsp_status = 500,
      rsp_body = bounded_error_body message (so_max_message_size (ss_options s))\<rparr>"

definition authorize_request ::
  "Request \<Rightarrow> Capabilities \<Rightarrow> nat \<Rightarrow> time \<Rightarrow> time \<Rightarrow> ServerState \<Rightarrow> Response option" where
  "authorize_request request caps c arrival_time deadline s =
     (case so_authorize_request (ss_options s) of
        None \<Rightarrow> None
      | Some authorize \<Rightarrow>
          (case authorize request (request_context request arrival_time deadline c caps s) of
             Returned True \<Rightarrow> None
           | Returned False \<Rightarrow> Some \<lparr>rsp_status = status_forbidden, rsp_body = str ''Forbidden''\<rparr>
           | Threw_std what \<Rightarrow> Some (exception_response s (internal_message s what))
           | Threw_other \<Rightarrow> Some (exception_response s (str ''Internal Server Error''))))"

definition call_entry ::
  "HandlerEntry \<Rightarrow> Request \<Rightarrow> RequestContext \<Rightarrow> Response callback_result" where
  "call_entry h request cx =
     (if he_contextual h
      then case he_handler h of
             ContextHandlerAdapter handler _ \<Rightarrow> handler request cx
           | _ \<Rightarrow> Threw_std ''invalid context handler entry''
      else call_handler (he_handler h) request)"

definition invoke_request_handler ::
  "HandlerEntry \<Rightarrow> Request \<Rightarrow> Capabilities \<Rightarrow> nat \<Rightarrow> time \<Rightarrow> time \<Rightarrow> ServerState \<Rightarrow> Response" where
  "invoke_request_handler h request caps c arrival_time deadline s =
     (case authorize_request request caps c arrival_time deadline s of
        Some response \<Rightarrow> response
      | None \<Rightarrow>
          (case call_entry h request (request_context request arrival_time deadline c caps s) of
             Returned response \<Rightarrow> response
           | Threw_std what \<Rightarrow> exception_response s (internal_message s what)
           | Threw_other \<Rightarrow> exception_response s (str ''Internal Server Error'')))"

subsection \<open>Properties\<close>

text \<open>Entries the registration operations build never make the scheduling lookup throw.\<close>

lemma entry_ok_scheduling:
  "entry_ok h \<Longrightarrow> \<exists>sched. route_scheduling (Some h) = Inr sched"
  by (cases "he_handler h") (auto simp: entry_ok_def route_scheduling_def)



text \<open>
  C26: the 403 body is not cut to the message limit as the other generated bodies are. With a limit
  below nine bytes the response a refused request gets is written as an internal error, status
  included, and the client sees a 500.
\<close>

theorem forbidden_becomes_internal_error:
  assumes "so_authorize_request (ss_options s) = Some authorize"
    "authorize request (request_context request a d c caps s) = Returned False"
    "so_max_message_size (ss_options s) < 9"
  shows "rsp_status (invoke_request_handler h request caps c a d s) = 403 \<and>
    write_fixed_response c i (invoke_request_handler h request caps c a d s) dl s =
      send_response c i (error_response s (internal_message s ''response exceeds max_message_size'') status_internal_error) dl s"
  using assms
  by (simp add: invoke_request_handler_def authorize_request_def write_fixed_response_eq
      effective_response_def response_too_large_def status_forbidden_def)

lemma forbidden_becomes_internal_error_witness:
  "let s = blank_state (default_server_options\<lparr>so_authorize_request := Some (\<lambda>_ _. Returned False),
         so_max_message_size := 8\<rparr>);
       h = \<lparr>he_handler = PlainHandler (\<lambda>_. Returned (Response_ok [])), he_flags = 0\<rparr>;
       r = invoke_request_handler h \<lparr>rq_route = [47], rq_body = [], rq_request_id = 1\<rparr>
         no_capabilities 0 0 deadline_max s
   in write_fixed_response 0 1 r 0 s =
        send_response 0 1 (error_response s (internal_message s ''response exceeds max_message_size'') status_internal_error) 0 s"
  unfolding Let_def
  by (rule conjunct2 [OF forbidden_becomes_internal_error [where authorize = "\<lambda>_ _. Returned False"]])
    (simp_all add: blank_state_def)

end
