(* ===== verification/Scheduler.thy ===== *)
theory Scheduler
  imports Handlers
begin

text \<open>
  Serialized routes (\<^verbatim>\<open>src/system/reactor/workers.cpp\<close>, from
  \<^verbatim>\<open>find_serialized_domain_activity\<close> to \<^verbatim>\<open>join_serialized_workers\<close>). A serialized route
  belongs to a domain; one job of a domain runs at a time, jobs of different domains run on up to
  \<^verbatim>\<open>max_serialized_concurrency\<close> worker threads. Admission follows the route's queue policy.

  Each definition is a section the code runs under \<^verbatim>\<open>serialized_mutex\<close>, or what a worker does
  between two of them. Starting a thread and allocating memory succeed.
\<close>

subsection \<open>Domain activity\<close>

text \<open>
  \<^verbatim>\<open>serialized_job_domain\<close>. A job enters the queue only after \<^verbatim>\<open>route_scheduling\<close> of its handler
  has returned, so the first branch is never taken for a queued job (\<open>queued_scheduled\<close> below).
\<close>

definition serialized_job_domain :: "SerializedJob \<Rightarrow> bstring" where
  "serialized_job_domain job =
     (case route_scheduling (sj_handler job) of Inl _ \<Rightarrow> [] | Inr sched \<Rightarrow> rs_domain sched)"

definition find_serialized_domain_activity :: "ServerState \<Rightarrow> bstring \<Rightarrow> DomainActivity option" where
  "find_serialized_domain_activity s dmn =
     (if dmn = [] then Some (ss_default_domain s) else map_of (ss_named_domains s) dmn)"

text \<open>
  \<^verbatim>\<open>serialized_domain_activity\<close> returns a reference, creating the entry when there is none; the
  model creates the entry and updates it through \<open>activity_upd\<close>.
\<close>

definition serialized_domain_activity :: "bstring \<Rightarrow> ServerState \<Rightarrow> ServerState" where
  "serialized_domain_activity dmn s =
     (if dmn = [] then s
      else case map_of (ss_named_domains s) dmn of
             None \<Rightarrow> s\<lparr>ss_named_domains := ss_named_domains s @ [(dmn, idle_domain)]\<rparr>
           | Some _ \<Rightarrow> s)"

definition activity_upd ::
  "bstring \<Rightarrow> (DomainActivity \<Rightarrow> DomainActivity) \<Rightarrow> ServerState \<Rightarrow> ServerState" where
  "activity_upd dmn f s =
     (if dmn = [] then s\<lparr>ss_default_domain := f (ss_default_domain s)\<rparr>
      else s\<lparr>ss_named_domains :=
               map (\<lambda>(k, a). (k, if k = dmn then f a else a)) (ss_named_domains s)\<rparr>)"

definition serialized_domain_active :: "ServerState \<Rightarrow> bstring \<Rightarrow> bool" where
  "serialized_domain_active s dmn \<longleftrightarrow>
     (case find_serialized_domain_activity s dmn of None \<Rightarrow> False | Some a \<Rightarrow> da_active a)"

definition serialized_domain_busy :: "ServerState \<Rightarrow> bstring \<Rightarrow> bool" where
  "serialized_domain_busy s dmn \<longleftrightarrow>
     (case find_serialized_domain_activity s dmn of
        None \<Rightarrow> False | Some a \<Rightarrow> da_active a \<or> da_queued a \<noteq> 0)"

text \<open>\<^verbatim>\<open>--\<close> on a \<^verbatim>\<open>std::size_t\<close>.\<close>

definition size_dec :: "nat \<Rightarrow> nat" where
  "size_dec n = (if n = 0 then sz_max else n - 1)"

definition activate_serialized_domain :: "bstring \<Rightarrow> ServerState \<Rightarrow> ServerState" where
  "activate_serialized_domain dmn s =
     (activity_upd dmn (\<lambda>a. a\<lparr>da_active := True\<rparr>) s)
       \<lparr>ss_active_domain_count := ss_active_domain_count s + 1\<rparr>"

definition domain_state :: "ServerState \<Rightarrow> bstring \<Rightarrow> DomainActivity" where
  "domain_state s dmn =
     (case find_serialized_domain_activity s dmn of None \<Rightarrow> idle_domain | Some a \<Rightarrow> a)"

definition deactivate_serialized_domain :: "bstring \<Rightarrow> ServerState \<Rightarrow> ServerState" where
  "deactivate_serialized_domain dmn s =
     (if da_active (domain_state s dmn)
      then let s = activity_upd dmn (\<lambda>a. a\<lparr>da_active := False\<rparr>) s;
               s = s\<lparr>ss_active_domain_count := size_dec (ss_active_domain_count s)\<rparr>
           in if da_queued (domain_state s dmn) = 0
              then s\<lparr>ss_busy_domain_count := size_dec (ss_busy_domain_count s)\<rparr> else s
      else s)"

definition has_runnable_serialized_job :: "ServerState \<Rightarrow> bool" where
  "has_runnable_serialized_job s =
     list_ex (\<lambda>job. \<not> serialized_domain_active s (serialized_job_domain job)) (ss_pending_serialized s)"

subsection \<open>Worker threads\<close>

text \<open>The loop adds threads until there are \<open>desired\<close> of them.\<close>

definition ensure_serialized_worker_count :: "nat \<Rightarrow> ServerState \<Rightarrow> ServerState \<times> bool" where
  "ensure_serialized_worker_count desired s =
     (if \<not> ss_running s \<or> ss_serialized_stopping s then (s, False)
      else let desired = min desired (ss_max_serialized_concurrency s)
           in (s\<lparr>ss_serialized_worker_count := max (ss_serialized_worker_count s) desired\<rparr>, True))"

definition desired_serialized_worker_count :: "ServerState \<Rightarrow> bstring \<Rightarrow> nat" where
  "desired_serialized_worker_count s incoming_domain =
     (let current = ss_serialized_worker_count s;
          demand = ss_busy_domain_count s;
          demand = (if \<not> serialized_domain_busy s incoming_domain then demand + 1 else demand)
      in max current (min demand (ss_max_serialized_concurrency s)))"

definition join_serialized_workers :: "ServerState \<Rightarrow> ServerState" where
  "join_serialized_workers s = s\<lparr>ss_serialized_worker_count := 0\<rparr>"

subsection \<open>Admission\<close>

definition complete_serialized :: "nat \<Rightarrow> nat \<Rightarrow> ServerState \<Rightarrow> ServerState" where
  "complete_serialized c request_bytes s =
     (let s = conn_upd c (\<lambda>cn. cn\<lparr>cn_pending_serialized := sz_sub (cn_pending_serialized cn) 1\<rparr>) s;
          s = release_connection_request c request_bytes s
      in wake_reactor s)"

text \<open>A response whose write throws marks the connection closing.\<close>

definition or_closing :: "nat \<Rightarrow> ServerState \<times> (exn + unit) \<Rightarrow> ServerState" where
  "or_closing c sr =
     (case sr of (s, Inr _) \<Rightarrow> s
      | (s, Inl _) \<Rightarrow> conn_upd c (\<lambda>cn. cn\<lparr>cn_closing := True\<rparr>) s)"

definition finish_superseded_job :: "SerializedJob \<Rightarrow> ServerState \<Rightarrow> ServerState" where
  "finish_superseded_job job s =
     (let c = the (sj_connection job);
          s = record_serialized_superseded s;
          s = or_closing c (write_error_response c (rq_request_id (sj_request job))
                (str ''superseded by a newer request'') deadline_max status_conflict s)
      in complete_serialized c (sj_request_bytes job) s)"

text \<open>
  The loop over the queue under \<^verbatim>\<open>latest_wins\<close>: every job but the last that the predicate
  selects moves to the superseded list.
\<close>

fun supersede :: "(SerializedJob \<Rightarrow> bool) \<Rightarrow> SerializedJob list \<Rightarrow>
    SerializedJob list \<times> SerializedJob list" where
  "supersede p [] = ([], [])"
| "supersede p [job] = ([job], [])"
| "supersede p (job # next # jobs) =
     (case supersede p (next # jobs) of (kept, gone) \<Rightarrow>
        if p job then (kept, job # gone) else (job # kept, gone))"

definition replaceable :: "RouteScheduling \<Rightarrow> SerializedJob \<Rightarrow> SerializedJob \<Rightarrow> bool" where
  "replaceable sched newer queued \<longleftrightarrow>
     serialized_job_domain queued = rs_domain sched \<and> sj_connection queued \<noteq> None \<and>
     rq_route (sj_request queued) = rq_route (sj_request newer)"

text \<open>The insertion of an admitted job: the queue, the domain's counters, the superseded jobs.\<close>

definition insert_serialized ::
  "RouteScheduling \<Rightarrow> SerializedJob \<Rightarrow> ServerState \<Rightarrow> ServerState \<times> SerializedJob list" where
  "insert_serialized sched job s =
     (let dmn = rs_domain sched;
          s = s\<lparr>ss_pending_serialized := ss_pending_serialized s @ [job]\<rparr>;
          s = (if \<not> da_active (domain_state s dmn) \<and> da_queued (domain_state s dmn) = 0
               then s\<lparr>ss_busy_domain_count := ss_busy_domain_count s + 1\<rparr> else s);
          s = activity_upd dmn (\<lambda>a. a\<lparr>da_queued := da_queued a + 1\<rparr>) s
      in if rs_policy sched = QP_latest_wins
         then case supersede (replaceable sched job) (ss_pending_serialized s) of (kept, gone) \<Rightarrow>
                (activity_upd dmn (\<lambda>a. a\<lparr>da_queued := (size_dec ^^ length gone) (da_queued a)\<rparr>)
                   (s\<lparr>ss_pending_serialized := kept\<rparr>), gone)
         else (s, []))"

definition account_serialized :: "bool \<Rightarrow> bool \<Rightarrow> SerializedJob \<Rightarrow> ServerState \<Rightarrow> ServerState" where
  "account_serialized account_request request_bytes_reserved job s =
     (case sj_connection job of
        None \<Rightarrow> s
      | Some c \<Rightarrow>
          let s = conn_upd c (\<lambda>cn. cn\<lparr>cn_pending_serialized := sz_add (cn_pending_serialized cn) 1\<rparr>) s
          in if \<not> account_request then s
             else if request_bytes_reserved then account_connection_request_count c s
             else account_connection_request c (sj_request_bytes job) s)"

text \<open>The section of \<^verbatim>\<open>enqueue_serialized_job\<close> under \<^verbatim>\<open>serialized_mutex\<close>.\<close>

definition admit_serialized_job ::
  "RouteScheduling \<Rightarrow> SerializedJob \<Rightarrow> bool \<Rightarrow> bool \<Rightarrow> ServerState \<Rightarrow>
     ServerState \<times> SerializedAdmission \<times> SerializedJob list" where
  "admit_serialized_job sched job account_request request_bytes_reserved s =
     (if ss_serialized_stopping s \<or> \<not> ss_running s then (s, SA_stopping, [])
      else let s = serialized_domain_activity (rs_domain sched) s;
               desired_workers = desired_serialized_worker_count s (rs_domain sched)
           in case ensure_serialized_worker_count desired_workers s of (s, ensured) \<Rightarrow>
                if \<not> ensured \<or> \<not> ss_running s then (s, SA_stopping, [])
                else if rs_policy sched = QP_reject_if_busy \<and> serialized_domain_busy s (rs_domain sched)
                then (record_serialized_busy_rejection s, SA_busy, [])
                else case insert_serialized sched job s of (s, superseded) \<Rightarrow>
                       (account_serialized account_request request_bytes_reserved job s,
                        SA_accepted, superseded))"

definition drop_job :: "SerializedJob \<Rightarrow> ServerState \<Rightarrow> ServerState" where
  "drop_job job s = drop_capabilities (sj_capabilities job) s"

definition enqueue_serialized_job ::
  "SerializedJob \<Rightarrow> bool \<Rightarrow> bool \<Rightarrow> ServerState \<Rightarrow> ServerState \<times> (exn + SerializedAdmission)" where
  "enqueue_serialized_job job account_request request_bytes_reserved s =
     (case route_scheduling (sj_handler job) of
        Inl e \<Rightarrow> (s, Inl e)
      | Inr sched \<Rightarrow>
          (case admit_serialized_job sched job account_request request_bytes_reserved s of
             (s, admission, superseded) \<Rightarrow>
               (fold drop_job superseded (fold finish_superseded_job superseded s), Inr admission)))"

subsection \<open>Workers\<close>

text \<open>
  The first section of an iteration of \<^verbatim>\<open>serialized_worker_loop\<close>: the first queued job whose
  domain is not active leaves the queue and activates its domain.
\<close>

definition take_serialized_job :: "ServerState \<Rightarrow> (ServerState \<times> SerializedJob) option" where
  "take_serialized_job s =
     (case List.extract (\<lambda>job. \<not> serialized_domain_active s (serialized_job_domain job))
             (ss_pending_serialized s) of
        None \<Rightarrow> None
      | Some (before, job, after) \<Rightarrow>
          let dmn = serialized_job_domain job;
              s = serialized_domain_activity dmn s;
              s = activity_upd dmn (\<lambda>a. a\<lparr>da_queued := size_dec (da_queued a)\<rparr>) s;
              s = activate_serialized_domain dmn s
          in Some (s\<lparr>ss_pending_serialized := before @ after\<rparr>, job))"

text \<open>The body of the \<^verbatim>\<open>try\<close> block: time out, drop, or call the handler and answer.\<close>

definition execute_serialized_job :: "SerializedJob \<Rightarrow> nat \<Rightarrow> ServerState \<Rightarrow> ServerState" where
  "execute_serialized_job job c s =
     (case clock_read s of (s, now) \<Rightarrow>
        if now \<ge> sj_deadline job
        then or_closing c (write_error_response c (rq_request_id (sj_request job))
               (str ''request timed out before execution'') deadline_max status_request_timeout
               (record_queue_timeout s))
        else if \<not> ss_running s then s
        else or_closing c (write_fixed_response c (rq_request_id (sj_request job))
               (invoke_request_handler (the (sj_handler job)) (sj_request job)
                  (sj_capabilities job) c (sj_arrival_time job) (sj_deadline job) s)
               (sj_deadline job) s))"

text \<open>
  The rest of the iteration; the guards run in reverse order of their declaration, then the job
  is destroyed. What a maintenance function does or throws is of no consequence here.
\<close>

definition run_serialized_job :: "SerializedJob \<Rightarrow> ServerState \<Rightarrow> ServerState" where
  "run_serialized_job job s =
     (case sj_maintenance job of
        Some _ \<Rightarrow> s
      | None \<Rightarrow> let c = the (sj_connection job)
                in complete_serialized c (sj_request_bytes job) (execute_serialized_job job c s))"

definition finish_serialized_job :: "SerializedJob \<Rightarrow> ServerState \<Rightarrow> ServerState" where
  "finish_serialized_job job s =
     drop_job job (deactivate_serialized_domain (serialized_job_domain job) s)"

text \<open>A whole iteration, when no other thread interferes.\<close>

definition serialized_worker_iteration :: "ServerState \<Rightarrow> ServerState option" where
  "serialized_worker_iteration s =
     (case take_serialized_job s of
        None \<Rightarrow> None
      | Some (s, job) \<Rightarrow> Some (finish_serialized_job job (run_serialized_job job s)))"

end
