(* ===== verification/SchedulerProps.thy ===== *)
theory SchedulerProps
  imports Scheduler
begin

text \<open>
  The correctness of the serialized scheduler: jobs of one domain run one at a time and in the
  order of their admission, the queue policies do what they promise, the counters are exact, and
  a runnable job always finds a worker within the concurrency limit.
\<close>

subsection \<open>Domain states\<close>

definition known :: "ServerState \<Rightarrow> bstring \<Rightarrow> bool" where
  "known s d \<longleftrightarrow> find_serialized_domain_activity s d \<noteq> None"

lemma map_of_update_one:
  "map_of (map (\<lambda>(k, a). (k, if k = d then f a else a)) xs) x =
     map_option (\<lambda>a. if x = d then f a else a) (map_of xs x)"
  by (induction xs) auto

lemma domain_state_upd:
  "known s d \<Longrightarrow> domain_state (activity_upd d f s) x =
     (if x = d then f (domain_state s d) else domain_state s x)"
  by (auto simp: known_def domain_state_def find_serialized_domain_activity_def activity_upd_def
      map_of_update_one split: option.split)

lemma known_upd [simp]: "known (activity_upd d f s) x = known s x"
  by (simp add: known_def find_serialized_domain_activity_def activity_upd_def map_of_update_one)

lemma map_of_snoc: "map_of (xs @ [(d, a)]) x = (case map_of xs x of Some b \<Rightarrow> Some b
    | None \<Rightarrow> if x = d then Some a else None)"
  by (auto simp: map_add_def split: option.split)

lemma materialize [simp]:
  "domain_state (serialized_domain_activity d s) x = domain_state s x"
  "known (serialized_domain_activity d s) d"
  by (auto simp: serialized_domain_activity_def domain_state_def known_def
      find_serialized_domain_activity_def map_of_snoc simp del: map_of_append
      split: option.split if_splits)

lemma known_materialize: "known s x \<Longrightarrow> known (serialized_domain_activity d s) x"
  by (auto simp: serialized_domain_activity_def known_def
      find_serialized_domain_activity_def map_of_snoc simp del: map_of_append
      split: option.split if_splits)

lemma domain_active_iff: "serialized_domain_active s d \<longleftrightarrow> da_active (domain_state s d)"
  by (simp add: serialized_domain_active_def domain_state_def idle_domain_def split: option.split)

lemma domain_busy_iff:
  "serialized_domain_busy s d \<longleftrightarrow> da_active (domain_state s d) \<or> da_queued (domain_state s d) \<noteq> 0"
  by (simp add: serialized_domain_busy_def domain_state_def idle_domain_def split: option.split)

lemma known_active: "da_active (domain_state s d) \<or> da_queued (domain_state s d) \<noteq> 0 \<Longrightarrow> known s d"
  by (auto simp: known_def domain_state_def idle_domain_def split: option.splits)

lemma domain_state_cong:
  "ss_default_domain s' = ss_default_domain s \<Longrightarrow> ss_named_domains s' = ss_named_domains s \<Longrightarrow>
     domain_state s' d = domain_state s d \<and> known s' d = known s d"
  by (simp add: domain_state_def known_def find_serialized_domain_activity_def)

text \<open>The fields of the scheduler that the domain operations do not touch.\<close>

lemma activity_upd_frame [simp]:
  "ss_pending_serialized (activity_upd d f s) = ss_pending_serialized s"
  "ss_active_domain_count (activity_upd d f s) = ss_active_domain_count s"
  "ss_busy_domain_count (activity_upd d f s) = ss_busy_domain_count s"
  "ss_serialized_worker_count (activity_upd d f s) = ss_serialized_worker_count s"
  "ss_max_serialized_concurrency (activity_upd d f s) = ss_max_serialized_concurrency s"
  "ss_serialized_stopping (activity_upd d f s) = ss_serialized_stopping s"
  "ss_running (activity_upd d f s) = ss_running s"
  by (simp_all add: activity_upd_def)

lemma materialize_frame [simp]:
  "ss_pending_serialized (serialized_domain_activity d s) = ss_pending_serialized s"
  "ss_active_domain_count (serialized_domain_activity d s) = ss_active_domain_count s"
  "ss_busy_domain_count (serialized_domain_activity d s) = ss_busy_domain_count s"
  "ss_serialized_worker_count (serialized_domain_activity d s) = ss_serialized_worker_count s"
  "ss_max_serialized_concurrency (serialized_domain_activity d s) = ss_max_serialized_concurrency s"
  "ss_serialized_stopping (serialized_domain_activity d s) = ss_serialized_stopping s"
  "ss_running (serialized_domain_activity d s) = ss_running s"
  by (simp_all add: serialized_domain_activity_def split: option.split)

lemma field_upd_domain [simp]:
  "domain_state (s\<lparr>ss_pending_serialized := x\<rparr>) d = domain_state s d"
  "domain_state (s\<lparr>ss_active_domain_count := n\<rparr>) d = domain_state s d"
  "domain_state (s\<lparr>ss_busy_domain_count := n\<rparr>) d = domain_state s d"
  "domain_state (s\<lparr>ss_serialized_worker_count := n\<rparr>) d = domain_state s d"
  "known (s\<lparr>ss_pending_serialized := x\<rparr>) d = known s d"
  "known (s\<lparr>ss_active_domain_count := n\<rparr>) d = known s d"
  "known (s\<lparr>ss_busy_domain_count := n\<rparr>) d = known s d"
  "known (s\<lparr>ss_serialized_worker_count := n\<rparr>) d = known s d"
  by (simp_all add: domain_state_def known_def find_serialized_domain_activity_def)

subsection \<open>Queue operations\<close>

lemma supersede_snoc:
  "supersede p (jobs @ [job]) = (filter (\<lambda>j. \<not> p j) jobs @ [job], filter p jobs)"
proof (induction jobs)
  case (Cons j jobs)
  then show ?case by (cases "jobs @ [job]") auto
qed simp

lemma size_dec_pow: "k \<le> n \<Longrightarrow> (size_dec ^^ k) n = n - k"
  by (induction k) (simp_all add: size_dec_def)

lemma take_serialized_job_parts:
  assumes "take_serialized_job s = Some (s', job)"
  obtains before "after" where
    "ss_pending_serialized s = before @ job # after" "ss_pending_serialized s' = before @ after"
    "\<forall>j \<in> set before. da_active (domain_state s (serialized_job_domain j))"
    "\<not> da_active (domain_state s (serialized_job_domain job))"
proof -
  let ?P = "\<lambda>job. \<not> serialized_domain_active s (serialized_job_domain job)"
  obtain before job' "after" where e: "List.extract ?P (ss_pending_serialized s) = Some (before, job', after)"
    using assms by (cases "List.extract ?P (ss_pending_serialized s)") (auto simp: take_serialized_job_def)
  then have "job' = job" "ss_pending_serialized s' = before @ after"
    using assms by (auto simp: take_serialized_job_def Let_def activate_serialized_domain_def)
  then show thesis
    using List.extract_SomeE [OF e] by (intro that) (auto simp: domain_active_iff)
qed

definition maintenance_job :: SerializedJob where
  "maintenance_job = \<lparr>sj_connection = None,
     sj_request = \<lparr>rq_route = [], rq_body = [], rq_request_id = 0\<rparr>,
     sj_capabilities = no_capabilities, sj_arrival_time = 0, sj_deadline = deadline_max,
     sj_handler = None, sj_maintenance = Some (Returned ()), sj_request_bytes = 0\<rparr>"


lemma maintenance_domain: "serialized_job_domain maintenance_job = []"
  by (simp add: maintenance_job_def serialized_job_domain_def route_scheduling_def default_scheduling_def)


text \<open>Work conservation: a worker finds a job exactly when one is runnable.\<close>

lemma take_iff_runnable: "take_serialized_job s \<noteq> None \<longleftrightarrow> has_runnable_serialized_job s"
  using List.extract_None_iff [of "\<lambda>job. \<not> serialized_domain_active s (serialized_job_domain job)"
      "ss_pending_serialized s"]
  by (auto simp: take_serialized_job_def has_runnable_serialized_job_def list_ex_iff Let_def
      split: option.splits)

subsection \<open>The scheduler invariant\<close>

definition busy_domains :: "ServerState \<Rightarrow> SerializedJob list \<Rightarrow> bstring set" where
  "busy_domains s running =
     serialized_job_domain ` set (ss_pending_serialized s) \<union> serialized_job_domain ` set running"

text \<open>
  The invariant relates the scheduler's fields to the jobs the workers have taken and not yet
  finished: no two of them belong to one domain, the domain marks and all four counters are exact,
  and unless the server is stopping there is a worker for every busy domain up to the limit.
\<close>

definition sched_ok :: "ServerState \<Rightarrow> SerializedJob list \<Rightarrow> bool" where
  "sched_ok s running \<longleftrightarrow>
     distinct (map serialized_job_domain running) \<and>
     (\<forall>d. da_active (domain_state s d) \<longleftrightarrow> d \<in> serialized_job_domain ` set running) \<and>
     (\<forall>d. da_queued (domain_state s d) =
        length (filter (\<lambda>j. serialized_job_domain j = d) (ss_pending_serialized s))) \<and>
     ss_active_domain_count s = length running \<and>
     ss_busy_domain_count s = card (busy_domains s running) \<and>
     (\<forall>j \<in> set (ss_pending_serialized s). \<exists>sched. route_scheduling (sj_handler j) = Inr sched) \<and>
     ss_serialized_worker_count s \<le> ss_max_serialized_concurrency s \<and>
     (ss_serialized_stopping s \<or>
      min (ss_busy_domain_count s) (ss_max_serialized_concurrency s) \<le> ss_serialized_worker_count s)"

definition sched_same :: "ServerState \<Rightarrow> ServerState \<Rightarrow> bool" where
  "sched_same s s' \<longleftrightarrow>
     ss_pending_serialized s' = ss_pending_serialized s \<and>
     ss_default_domain s' = ss_default_domain s \<and> ss_named_domains s' = ss_named_domains s \<and>
     ss_active_domain_count s' = ss_active_domain_count s \<and>
     ss_busy_domain_count s' = ss_busy_domain_count s \<and>
     ss_serialized_worker_count s' = ss_serialized_worker_count s \<and>
     ss_max_serialized_concurrency s' = ss_max_serialized_concurrency s \<and>
     (ss_serialized_stopping s \<longrightarrow> ss_serialized_stopping s')"

lemma sched_same_refl [simp]: "sched_same s s"
  by (simp add: sched_same_def)

lemma sched_same_trans: "sched_same s s' \<Longrightarrow> sched_same s' s'' \<Longrightarrow> sched_same s s''"
  by (simp add: sched_same_def)

lemma sched_ok_same: "sched_same s s' \<Longrightarrow> sched_ok s running \<Longrightarrow> sched_ok s' running"
  unfolding sched_ok_def sched_same_def busy_domains_def using domain_state_cong [of s' s] by auto

lemma fold_sched_same: "(\<And>x s. sched_same s (f x s)) \<Longrightarrow> sched_same s (fold f xs s)"
  by (induction xs arbitrary: s) (auto intro: sched_same_trans)

lemma or_closing_same: "sched_same s (fst sr) \<Longrightarrow> sched_same s (or_closing c sr)"
  by (cases sr; cases "snd sr") (simp_all add: or_closing_def sched_same_def)

lemma complete_serialized_same: "sched_same s (complete_serialized c n s)"
  by (simp add: complete_serialized_def Let_def sched_same_def)

lemma finish_superseded_same: "sched_same s (finish_superseded_job j s)"
  unfolding finish_superseded_job_def Let_def
  by (rule sched_same_trans [OF or_closing_same complete_serialized_same])
    (simp add: sched_same_def record_serialized_superseded_def)

lemma drop_job_same: "sched_same s (drop_job j s)"
  by (simp add: drop_job_def sched_same_def)

lemma account_serialized_same: "sched_same s (account_serialized a b j s)"
  by (simp add: account_serialized_def account_connection_request_def
      account_connection_request_count_def sched_same_def Let_def split: option.split)

lemma execute_serialized_same: "sched_same s (execute_serialized_job j c s)"
proof -
  obtain s1 now where c: "clock_read s = (s1, now)" by fastforce
  then have s1: "sched_same s s1"
    using clock_read_frame [of s] by (simp add: sched_same_def)
  have w: "sched_same s1 (fst (write_error_response c i m d st (record_queue_timeout s1)))"
    "sched_same s1 (fst (write_fixed_response c i r d s1))" for i m d st r
    by (simp_all add: sched_same_def record_queue_timeout_def)
  show ?thesis
    unfolding execute_serialized_job_def c prod.case
    by (simp add: sched_same_trans [OF s1 or_closing_same [OF w(1)]]
        sched_same_trans [OF s1 or_closing_same [OF w(2)]] s1)
qed

lemma run_serialized_same: "sched_same s (run_serialized_job j s)"
  unfolding run_serialized_job_def Let_def
  using sched_same_trans [OF execute_serialized_same complete_serialized_same]
  by (simp split: option.split)

subsection \<open>Every step keeps the invariant\<close>

lemma insert_serialized_parts:
  assumes ok: "sched_ok s running" and k: "known s (rs_domain sched)"
  defines "d \<equiv> rs_domain sched"
  obtains p where "\<And>j. p j \<Longrightarrow> serialized_job_domain j = d"
    "ss_pending_serialized (fst (insert_serialized sched job s)) =
       filter (\<lambda>j. \<not> p j) (ss_pending_serialized s) @ [job]"
    "\<And>x. domain_state (fst (insert_serialized sched job s)) x =
       (if x = d then (domain_state s d)\<lparr>da_queued := da_queued (domain_state s d) + 1 -
          length (filter p (ss_pending_serialized s))\<rparr> else domain_state s x)"
    "ss_busy_domain_count (fst (insert_serialized sched job s)) =
       ss_busy_domain_count s + (if serialized_domain_busy s d then 0 else 1)"
    "ss_active_domain_count (fst (insert_serialized sched job s)) = ss_active_domain_count s"
    "ss_serialized_worker_count (fst (insert_serialized sched job s)) = ss_serialized_worker_count s"
    "ss_max_serialized_concurrency (fst (insert_serialized sched job s)) = ss_max_serialized_concurrency s"
    "ss_serialized_stopping (fst (insert_serialized sched job s)) = ss_serialized_stopping s"
proof -
  let ?P = "ss_pending_serialized s"
  define s1 where "s1 = s\<lparr>ss_pending_serialized := ?P @ [job]\<rparr>"
  define s2 where "s2 = (if \<not> da_active (domain_state s1 d) \<and> da_queued (domain_state s1 d) = 0
    then s1\<lparr>ss_busy_domain_count := ss_busy_domain_count s1 + 1\<rparr> else s1)"
  define s3 where "s3 = activity_upd d (\<lambda>a. a\<lparr>da_queued := da_queued a + 1\<rparr>) s2"
  have k2: "known s2 d" "\<And>x. domain_state s2 x = domain_state s x"
    using k by (simp_all add: s2_def s1_def d_def)
  have s3: "ss_pending_serialized s3 = ?P @ [job]" "known s3 d"
    "\<And>x. domain_state s3 x = (if x = d then (domain_state s d)\<lparr>da_queued := da_queued (domain_state s d) + 1\<rparr>
       else domain_state s x)"
    "ss_busy_domain_count s3 = ss_busy_domain_count s + (if serialized_domain_busy s d then 0 else 1)"
    "ss_active_domain_count s3 = ss_active_domain_count s"
    "ss_serialized_worker_count s3 = ss_serialized_worker_count s"
    "ss_max_serialized_concurrency s3 = ss_max_serialized_concurrency s"
    "ss_serialized_stopping s3 = ss_serialized_stopping s"
    using k2 by (simp_all add: s3_def domain_state_upd) (auto simp: s2_def s1_def domain_busy_iff)
  show thesis
  proof (cases "rs_policy sched = QP_latest_wins")
    case False
    then have "fst (insert_serialized sched job s) = s3"
      by (simp add: insert_serialized_def Let_def s3_def s2_def s1_def d_def)
    then show thesis using s3 by (intro that [of "\<lambda>_. False"]) auto
  next
    case True
    let ?p = "replaceable sched job"
    have "fst (insert_serialized sched job s) =
        activity_upd d (\<lambda>a. a\<lparr>da_queued := (size_dec ^^ length (filter ?p ?P)) (da_queued a)\<rparr>)
          (s3\<lparr>ss_pending_serialized := filter (\<lambda>j. \<not> ?p j) ?P @ [job]\<rparr>)"
      using True s3(1) by (simp add: insert_serialized_def Let_def s3_def s2_def s1_def d_def supersede_snoc)
    moreover have "length (filter ?p ?P) \<le> length (filter (\<lambda>j. serialized_job_domain j = d) ?P)"
      unfolding length_filter_conv_card
      by (rule card_mono) (auto simp: replaceable_def d_def)
    then have "length (filter ?p ?P) \<le> da_queued (domain_state s d)"
      using ok by (simp add: sched_ok_def)
    ultimately show thesis
      using s3 by (intro that [of ?p]) (auto simp: domain_state_upd size_dec_pow replaceable_def d_def)
  qed
qed

lemma length_filter_sub:
  assumes "\<And>x. p x \<Longrightarrow> q x"
  shows "length (filter (\<lambda>x. \<not> p x \<and> q x) xs) + length (filter p xs) = length (filter q xs)"
  using assms by (induction xs) auto

lemma sched_busy_iff:
  "sched_ok s running \<Longrightarrow> serialized_domain_busy s d \<longleftrightarrow> d \<in> busy_domains s running"
  by (auto simp: sched_ok_def domain_busy_iff busy_domains_def filter_empty_conv image_iff)

lemma insert_serialized_ok:
  assumes ok: "sched_ok s running" and sched: "route_scheduling (sj_handler job) = Inr sched"
    and k: "known s (rs_domain sched)"
    and workers: "ss_serialized_stopping s \<or>
      min (card (insert (rs_domain sched) (busy_domains s running))) (ss_max_serialized_concurrency s)
        \<le> ss_serialized_worker_count s"
  shows "sched_ok (fst (insert_serialized sched job s)) running"
proof -
  let ?d = "rs_domain sched" and ?s' = "fst (insert_serialized sched job s)"
  have dj: "serialized_job_domain job = ?d" using sched by (simp add: serialized_job_domain_def)
  obtain p where p: "\<And>j. p j \<Longrightarrow> serialized_job_domain j = ?d"
    and pend: "ss_pending_serialized ?s' = filter (\<lambda>j. \<not> p j) (ss_pending_serialized s) @ [job]"
    and ds: "\<And>x. domain_state ?s' x = (if x = ?d then (domain_state s ?d)\<lparr>da_queued :=
       da_queued (domain_state s ?d) + 1 - length (filter p (ss_pending_serialized s))\<rparr> else domain_state s x)"
    and cnt: "ss_busy_domain_count ?s' = ss_busy_domain_count s + (if serialized_domain_busy s ?d then 0 else 1)"
    and rest: "ss_active_domain_count ?s' = ss_active_domain_count s"
      "ss_serialized_worker_count ?s' = ss_serialized_worker_count s"
      "ss_max_serialized_concurrency ?s' = ss_max_serialized_concurrency s"
      "ss_serialized_stopping ?s' = ss_serialized_stopping s"
    by (rule insert_serialized_parts [OF ok k, where job = job]) (rule that)
  have busy: "busy_domains ?s' running = insert ?d (busy_domains s running)"
    using p dj by (auto simp: busy_domains_def pend)
  have fin: "finite (busy_domains s running)" by (simp add: busy_domains_def)
  have c: "ss_busy_domain_count ?s' = card (busy_domains ?s' running)"
    using ok fin by (simp add: cnt busy sched_busy_iff [OF ok] card_insert_if) (simp add: sched_ok_def)
  have q: "da_queued (domain_state ?s' x) =
      length (filter (\<lambda>j. serialized_job_domain j = x) (ss_pending_serialized ?s'))" for x
  proof (cases "x = ?d")
    case True
    have "length (filter (\<lambda>j. \<not> p j \<and> serialized_job_domain j = ?d) (ss_pending_serialized s)) +
        length (filter p (ss_pending_serialized s)) =
        length (filter (\<lambda>j. serialized_job_domain j = ?d) (ss_pending_serialized s))"
      using p by (rule length_filter_sub)
    moreover have "da_queued (domain_state s ?d) =
        length (filter (\<lambda>j. serialized_job_domain j = ?d) (ss_pending_serialized s))"
      using ok by (simp add: sched_ok_def)
    ultimately show ?thesis using True dj by (simp add: ds pend)
  next
    case False
    then have "filter (\<lambda>j. \<not> p j \<and> serialized_job_domain j = x) (ss_pending_serialized s) =
        filter (\<lambda>j. serialized_job_domain j = x) (ss_pending_serialized s)"
      using p by (intro filter_cong) auto
    moreover have "da_queued (domain_state s x) =
        length (filter (\<lambda>j. serialized_job_domain j = x) (ss_pending_serialized s))"
      using ok by (simp add: sched_ok_def)
    ultimately show ?thesis using False dj by (simp add: ds pend)
  qed
  have act: "da_active (domain_state ?s' x) = da_active (domain_state s x)" for x
    by (simp add: ds)
  show ?thesis
    using ok q c busy workers sched
    unfolding sched_ok_def act rest by (auto simp: pend)
qed

lemma take_serialized_fields:
  assumes "take_serialized_job s = Some (s', job)"
  defines "d \<equiv> serialized_job_domain job"
  shows "domain_state s' x = (if x = d then (domain_state s d)
      \<lparr>da_active := True, da_queued := size_dec (da_queued (domain_state s d))\<rparr> else domain_state s x)"
    "ss_active_domain_count s' = ss_active_domain_count s + 1"
    "ss_busy_domain_count s' = ss_busy_domain_count s"
    "ss_serialized_worker_count s' = ss_serialized_worker_count s"
    "ss_max_serialized_concurrency s' = ss_max_serialized_concurrency s"
    "ss_serialized_stopping s' = ss_serialized_stopping s"
proof -
  let ?P = "\<lambda>job. \<not> serialized_domain_active s (serialized_job_domain job)"
  obtain before job' "after" where e: "List.extract ?P (ss_pending_serialized s) = Some (before, job', after)"
    using assms by (cases "List.extract ?P (ss_pending_serialized s)") (auto simp: take_serialized_job_def)
  then have s': "s' = (activate_serialized_domain d
      (activity_upd d (\<lambda>a. a\<lparr>da_queued := size_dec (da_queued a)\<rparr>) (serialized_domain_activity d s)))
      \<lparr>ss_pending_serialized := before @ after\<rparr>"
    using assms(1) by (auto simp: take_serialized_job_def Let_def d_def)
  show "domain_state s' x = (if x = d then (domain_state s d)
      \<lparr>da_active := True, da_queued := size_dec (da_queued (domain_state s d))\<rparr> else domain_state s x)"
    by (simp add: s' activate_serialized_domain_def domain_state_upd)
  show "ss_active_domain_count s' = ss_active_domain_count s + 1"
    "ss_busy_domain_count s' = ss_busy_domain_count s"
    "ss_serialized_worker_count s' = ss_serialized_worker_count s"
    "ss_max_serialized_concurrency s' = ss_max_serialized_concurrency s"
    "ss_serialized_stopping s' = ss_serialized_stopping s"
    by (simp_all add: s' activate_serialized_domain_def)
qed

lemma take_serialized_ok:
  assumes ok: "sched_ok s running" and t: "take_serialized_job s = Some (s', job)"
  shows "sched_ok s' (job # running)"
proof -
  let ?d = "serialized_job_domain job"
  obtain before "after" where p: "ss_pending_serialized s = before @ job # after"
    "ss_pending_serialized s' = before @ after"
    "\<not> da_active (domain_state s ?d)"
    by (rule take_serialized_job_parts [OF t]) (rule that)
  note f = take_serialized_fields [OF t]
  have "?d \<notin> serialized_job_domain ` set running" using ok p(3) by (simp add: sched_ok_def)
  moreover have "busy_domains s' (job # running) = busy_domains s running"
    using p(1,2) by (auto simp: busy_domains_def)
  moreover have q: "da_queued (domain_state s x) =
      length (filter (\<lambda>j. serialized_job_domain j = x) (ss_pending_serialized s))" for x
    using ok by (simp add: sched_ok_def)
  have "da_queued (domain_state s' x) =
      length (filter (\<lambda>j. serialized_job_domain j = x) (ss_pending_serialized s'))" for x
    by (simp add: f(1) q p size_dec_def)
  moreover have "da_active (domain_state s' x) \<longleftrightarrow> x = ?d \<or> da_active (domain_state s x)" for x
    by (simp add: f(1))
  ultimately show ?thesis
    using ok p(1,2) unfolding sched_ok_def f(2-6) by auto
qed

lemma finish_serialized_ok:
  assumes ok: "sched_ok s running" and j: "job \<in> set running"
  shows "sched_ok (finish_serialized_job job s) (remove1 job running)"
proof -
  let ?d = "serialized_job_domain job" and ?r = "remove1 job running"
  let ?s1 = "activity_upd ?d (\<lambda>a. a\<lparr>da_active := False\<rparr>) s"
  let ?s' = "deactivate_serialized_domain ?d s"
  have dist: "distinct (map serialized_job_domain running)" using ok by (simp add: sched_ok_def)
  have a: "da_active (domain_state s ?d)" using ok j by (simp add: sched_ok_def)
  have k: "known s ?d" using a by (intro known_active) simp
  obtain xs ys where r: "running = xs @ job # ys" and nx: "job \<notin> set xs"
    using split_list_first [OF j] by blast
  have r1: "?r = xs @ ys" using nx by (simp add: r remove1_append)
  have nd: "?d \<notin> serialized_job_domain ` set (xs @ ys)" using dist by (auto simp: r)
  have ds: "domain_state ?s' x = (if x = ?d then (domain_state s ?d)\<lparr>da_active := False\<rparr>
      else domain_state s x)" for x
    using a k by (simp add: deactivate_serialized_domain_def Let_def domain_state_upd)
  have f: "ss_pending_serialized ?s' = ss_pending_serialized s"
    "ss_active_domain_count ?s' = length (xs @ ys)"
    "ss_serialized_worker_count ?s' = ss_serialized_worker_count s"
    "ss_max_serialized_concurrency ?s' = ss_max_serialized_concurrency s"
    "ss_serialized_stopping ?s' = ss_serialized_stopping s"
    using a ok by (simp_all add: deactivate_serialized_domain_def Let_def sched_ok_def r size_dec_def)
  have fin: "finite (busy_domains s running)" by (simp add: busy_domains_def)
  have bd: "?d \<in> busy_domains s running" using j by (simp add: busy_domains_def)
  have b: "busy_domains ?s' (xs @ ys) = (if da_queued (domain_state s ?d) = 0
      then busy_domains s running - {?d} else busy_domains s running)"
  proof -
    have "da_queued (domain_state s ?d) = 0 \<longleftrightarrow> ?d \<notin> serialized_job_domain ` set (ss_pending_serialized s)"
      using ok by (simp add: sched_ok_def filter_empty_conv image_iff) metis
    moreover have "serialized_job_domain ` set running = insert ?d (serialized_job_domain ` set (xs @ ys))"
      by (auto simp: r)
    ultimately show ?thesis using nd f(1) by (auto simp: busy_domains_def)
  qed
  have cb: "ss_busy_domain_count ?s' = (if da_queued (domain_state s ?d) = 0
      then size_dec (ss_busy_domain_count s) else ss_busy_domain_count s)"
    using a k by (simp add: deactivate_serialized_domain_def Let_def domain_state_upd)
  have "ss_busy_domain_count s = card (busy_domains s running)" "card (busy_domains s running) \<noteq> 0"
    using ok fin bd by (auto simp: sched_ok_def)
  then have c: "ss_busy_domain_count ?s' = card (busy_domains ?s' (xs @ ys))"
    using bd by (simp add: cb b size_dec_def)
  have le: "ss_busy_domain_count ?s' \<le> ss_busy_domain_count s"
    using fin ok unfolding c by (auto simp: b sched_ok_def intro!: card_mono)
  have "sched_ok ?s' (xs @ ys)"
    using ok dist nd c le ds unfolding sched_ok_def f by (auto simp: r)
  then show ?thesis
    unfolding finish_serialized_job_def r1 by (rule sched_ok_same [OF drop_job_same])
qed

lemma sched_ok_workers:
  assumes ok: "sched_ok s running" and m: "ss_serialized_worker_count s \<le> n"
    "n \<le> ss_max_serialized_concurrency s"
  shows "sched_ok (s\<lparr>ss_serialized_worker_count := n\<rparr>) running"
  using ok m unfolding sched_ok_def by (auto simp: busy_domains_def)

lemma materialize_ok: "sched_ok s running \<Longrightarrow> sched_ok (serialized_domain_activity d s) running"
  by (auto simp: sched_ok_def busy_domains_def)

lemma admit_serialized_ok:
  assumes ok: "sched_ok s running" and sched: "route_scheduling (sj_handler job) = Inr sched"
  shows "sched_ok (fst (admit_serialized_job sched job a b s)) running"
proof (cases "ss_serialized_stopping s \<or> \<not> ss_running s")
  case True
  then show ?thesis using ok by (simp add: admit_serialized_job_def)
next
  case run: False
  let ?d = "rs_domain sched"
  define s1 where "s1 = serialized_domain_activity ?d s"
  define n where "n = max (ss_serialized_worker_count s1)
    (min (desired_serialized_worker_count s1 ?d) (ss_max_serialized_concurrency s1))"
  define s2 where "s2 = s1\<lparr>ss_serialized_worker_count := n\<rparr>"
  have ok1: "sched_ok s1 running" unfolding s1_def using ok by (rule materialize_ok)
  have n: "ss_serialized_worker_count s1 \<le> n" "n \<le> ss_max_serialized_concurrency s1"
    using ok1 by (auto simp: n_def sched_ok_def)
  have ok2: "sched_ok s2 running" unfolding s2_def using ok1 n by (rule sched_ok_workers)
  have e: "ensure_serialized_worker_count (desired_serialized_worker_count s1 ?d) s1 = (s2, True)"
    using run by (simp add: ensure_serialized_worker_count_def s1_def s2_def n_def)
  have run2: "ss_running s2" using run by (simp add: s2_def s1_def)
  have "finite (busy_domains s1 running)" by (simp add: busy_domains_def)
  then have demand: "card (insert ?d (busy_domains s1 running)) =
      (if serialized_domain_busy s1 ?d then ss_busy_domain_count s1 else ss_busy_domain_count s1 + 1)"
    using ok1 sched_busy_iff [OF ok1, of ?d] by (auto simp: card_insert_if sched_ok_def insert_absorb)
  have "busy_domains s2 running = busy_domains s1 running"
    by (simp add: busy_domains_def s2_def)
  moreover have "min (card (insert ?d (busy_domains s1 running))) (ss_max_serialized_concurrency s1) \<le> n"
    unfolding demand
    by (auto simp: n_def desired_serialized_worker_count_def le_max_iff_disj min_le_iff_disj)
  ultimately have w: "min (card (insert ?d (busy_domains s2 running))) (ss_max_serialized_concurrency s2)
      \<le> ss_serialized_worker_count s2"
    by (simp add: s2_def)
  have k2: "known s2 ?d" by (simp add: s2_def s1_def)
  have ins: "sched_ok (fst (insert_serialized sched job s2)) running"
    using insert_serialized_ok [OF ok2 sched k2] w by blast
  have rej: "sched_ok (record_serialized_busy_rejection s2) running"
    by (rule sched_ok_same [OF _ ok2]) (simp add: sched_same_def record_serialized_busy_rejection_def)
  have acc: "sched_ok (account_serialized a b job (fst (insert_serialized sched job s2))) running"
    by (rule sched_ok_same [OF account_serialized_same ins])
  show ?thesis
    unfolding admit_serialized_job_def Let_def s1_def [symmetric] e prod.case
    using run run2 rej acc by (simp add: split_beta)
qed

lemma enqueue_serialized_ok:
  assumes "sched_ok s running"
  shows "sched_ok (fst (enqueue_serialized_job job a b s)) running"
proof (cases "route_scheduling (sj_handler job)")
  case (Inl e)
  then show ?thesis using assms by (simp add: enqueue_serialized_job_def)
next
  case (Inr sched)
  obtain s1 ad gone where r: "admit_serialized_job sched job a b s = (s1, ad, gone)"
    by (metis prod_cases3)
  have "sched_ok s1 running"
    using admit_serialized_ok [OF assms Inr, of a b] r by simp
  then have "sched_ok (fold drop_job gone (fold finish_superseded_job gone s1)) running"
    using fold_sched_same [of drop_job, OF drop_job_same]
      fold_sched_same [of finish_superseded_job, OF finish_superseded_same]
    by (blast intro: sched_ok_same)
  then show ?thesis by (simp add: enqueue_serialized_job_def Inr r)
qed

text \<open>
  The scheduler as a transition system over the server state and the jobs the workers hold. A
  free worker takes a job; running it is an \<open>other\<close> step, as is everything else the server does
  meanwhile; \<open>stop\<close> and \<open>join\<close> are the shutdown sequence.
\<close>

inductive sched_step ::
  "ServerState \<times> SerializedJob list \<Rightarrow> ServerState \<times> SerializedJob list \<Rightarrow> bool" where
  enqueue: "enqueue_serialized_job job a b s = (s', r) \<Longrightarrow> sched_step (s, running) (s', running)"
| takes: "length running < ss_serialized_worker_count s \<Longrightarrow> take_serialized_job s = Some (s', job) \<Longrightarrow>
    sched_step (s, running) (s', job # running)"
| runs: "job \<in> set running \<Longrightarrow> sched_step (s, running) (run_serialized_job job s, running)"
| finishes: "job \<in> set running \<Longrightarrow>
    sched_step (s, running) (finish_serialized_job job s, remove1 job running)"
| joins: "ss_serialized_stopping s \<Longrightarrow> running = [] \<Longrightarrow>
    sched_step (s, running) (join_serialized_workers s, running)"
| other: "sched_same s s' \<Longrightarrow> sched_step (s, running) (s', running)"

inductive_cases sched_step_takes: "sched_step (s, running) (s', job # running)"

lemma insert_serialized_workers [simp]:
  "ss_serialized_worker_count (fst (insert_serialized sched job s)) = ss_serialized_worker_count s"
  by (simp add: insert_serialized_def Let_def split_beta)

lemma enqueue_workers:
  "ss_serialized_worker_count s \<le> ss_serialized_worker_count (fst (enqueue_serialized_job job a b s))"
proof (cases "route_scheduling (sj_handler job)")
  case (Inr sched)
  have ad: "ss_serialized_worker_count s \<le>
      ss_serialized_worker_count (fst (admit_serialized_job sched job a b s))"
    using account_serialized_same [of "fst (insert_serialized sched job t)" a b job for t]
    by (auto simp: admit_serialized_job_def ensure_serialized_worker_count_def Let_def split_beta
        record_serialized_busy_rejection_def sched_same_def)
  obtain s1 x gone where r: "admit_serialized_job sched job a b s = (s1, x, gone)" by (metis prod_cases3)
  have "sched_same s1 (fold drop_job gone (fold finish_superseded_job gone s1))"
    by (rule sched_same_trans [OF fold_sched_same [OF finish_superseded_same] fold_sched_same [OF drop_job_same]])
  with ad show ?thesis by (simp add: enqueue_serialized_job_def Inr r sched_same_def)
qed (simp add: enqueue_serialized_job_def)

lemma finish_workers: "ss_serialized_worker_count (finish_serialized_job job s) = ss_serialized_worker_count s"
  by (simp add: finish_serialized_job_def drop_job_def deactivate_serialized_domain_def Let_def)

lemma sched_step_ok:
  "sched_step x y \<Longrightarrow> sched_ok (fst x) (snd x) \<and> length (snd x) \<le> ss_serialized_worker_count (fst x) \<Longrightarrow>
     sched_ok (fst y) (snd y) \<and> length (snd y) \<le> ss_serialized_worker_count (fst y)"
proof (induction rule: sched_step.induct)
  case (enqueue job a b s s' r running)
  then show ?case
    using enqueue_serialized_ok [of s running job a b] enqueue_workers [of s job a b] by simp
next
  case (takes running s s' job)
  then show ?case
    using take_serialized_ok take_serialized_fields(4) [OF takes(2)] by simp
next
  case (runs job running s)
  then show ?case
    using sched_ok_same [OF run_serialized_same] run_serialized_same [of s job]
    by (simp add: sched_same_def)
next
  case (finishes job running s)
  then show ?case
    using finish_serialized_ok [of s running job] by (auto simp: finish_workers length_remove1)
next
  case (joins s running)
  then show ?case
    by (simp add: join_serialized_workers_def sched_ok_def busy_domains_def)
next
  case (other s s' running)
  then show ?case
    using sched_ok_same [OF other(1)] by (simp add: sched_same_def)
qed

lemma sched_run_ok:
  assumes "sched_step\<^sup>*\<^sup>* (s, []) (s', running)" "sched_ok s []"
  shows "sched_ok s' running \<and> length running \<le> ss_serialized_worker_count s'"
proof -
  have "sched_ok (fst y) (snd y) \<and> length (snd y) \<le> ss_serialized_worker_count (fst y)"
    if "sched_step\<^sup>*\<^sup>* (s, []) y" for y
    using that
  proof (induction rule: rtranclp_induct)
    case base
    then show ?case using assms(2) by simp
  next
    case (step y z)
    from sched_step_ok [OF step(2) step(3)] show ?case .
  qed
  from this [OF assms(1)] show ?thesis by simp
qed

text \<open>
  C10: from an idle scheduler on, under every interleaving of admissions and workers, no two jobs
  of one serialization domain are ever running at the same time, never more jobs run than
  \<^verbatim>\<open>max_serialized_concurrency\<close> allows, and the domain marks and counters are exact.
\<close>

theorem serialized_exclusive:
  assumes "sched_step\<^sup>*\<^sup>* (s, []) (s', running)" "sched_ok s []"
  shows "distinct (map serialized_job_domain running) \<and>
    length running \<le> ss_max_serialized_concurrency s' \<and> sched_ok s' running"
  using sched_run_ok [OF assms] by (auto simp: sched_ok_def)

definition sched_sample :: ServerState where
  "sched_sample = (blank_state default_server_options)\<lparr>ss_running := True\<rparr>"

lemma sched_sample_ok: "sched_ok sched_sample []"
  by (simp add: sched_ok_def sched_sample_def blank_state_def domain_state_def
      find_serialized_domain_activity_def idle_domain_def busy_domains_def)

lemma maintenance_scheduling: "route_scheduling (sj_handler maintenance_job) = Inr default_scheduling"
  by (simp add: route_scheduling_def maintenance_job_def)

lemma sched_sample_enqueue:
  "enqueue_serialized_job maintenance_job False False sched_sample =
     (sched_sample\<lparr>ss_pending_serialized := [maintenance_job], ss_busy_domain_count := 1,
        ss_default_domain := \<lparr>da_active = False, da_queued = 1\<rparr>, ss_serialized_worker_count := 1\<rparr>,
      Inr SA_accepted)"
  by (simp add: enqueue_serialized_job_def maintenance_scheduling admit_serialized_job_def
      default_scheduling_def sched_sample_def blank_state_def serialized_domain_activity_def
      desired_serialized_worker_count_def domain_busy_iff ensure_serialized_worker_count_def
      insert_serialized_def domain_state_def find_serialized_domain_activity_def idle_domain_def
      activity_upd_def account_serialized_def Let_def)
    (simp add: maintenance_job_def)

lemma serialized_exclusive_witness:
  "\<exists>s'. sched_step\<^sup>*\<^sup>* (sched_sample, []) (s', [maintenance_job]) \<and>
     distinct (map serialized_job_domain [maintenance_job]) \<and> 1 \<le> ss_max_serialized_concurrency s'"
proof -
  let ?s1 = "fst (enqueue_serialized_job maintenance_job False False sched_sample)"
  have e: "sched_step (sched_sample, []) (?s1, [])"
    by (rule sched_step.enqueue [of maintenance_job False False _ _ "Inr SA_accepted"])
      (simp add: sched_sample_enqueue)
  have "has_runnable_serialized_job ?s1"
    by (simp add: has_runnable_serialized_job_def domain_active_iff sched_sample_enqueue
        maintenance_domain domain_state_def find_serialized_domain_activity_def)
  then obtain s' job where t: "take_serialized_job ?s1 = Some (s', job)"
    using take_iff_runnable by force
  then have "job = maintenance_job"
    by (rule take_serialized_job_parts) (simp add: sched_sample_enqueue Cons_eq_append_conv)
  with t have "sched_step (?s1, []) (s', [maintenance_job])"
    by (intro sched_step.takes) (simp_all add: sched_sample_enqueue)
  with e have run: "sched_step\<^sup>*\<^sup>* (sched_sample, []) (s', [maintenance_job])"
    by (meson converse_rtranclp_into_rtranclp r_into_rtranclp)
  from serialized_exclusive [OF run sched_sample_ok] run show ?thesis by auto
qed

text \<open>
  C15: no admitted job waits for a thread that is not there: while the server is not stopping,
  whenever a queued job's domain is idle and fewer domains are active than may run at once, a
  worker thread exists that holds no job, and it finds a job to take.
\<close>

theorem runnable_has_free_worker:
  assumes "sched_step\<^sup>*\<^sup>* (s, []) (s', running)" "sched_ok s []" "\<not> ss_serialized_stopping s'"
    "has_runnable_serialized_job s'" "ss_active_domain_count s' < ss_max_serialized_concurrency s'"
  shows "length running < ss_serialized_worker_count s' \<and> take_serialized_job s' \<noteq> None"
proof -
  have ok: "sched_ok s' running"
    using sched_run_ok [OF assms(1,2)] by simp
  obtain job where j: "job \<in> set (ss_pending_serialized s')"
    "\<not> da_active (domain_state s' (serialized_job_domain job))"
    using assms(4) by (auto simp: has_runnable_serialized_job_def list_ex_iff domain_active_iff)
  then have nj: "serialized_job_domain job \<notin> serialized_job_domain ` set running"
    using ok by (simp add: sched_ok_def)
  have "insert (serialized_job_domain job) (serialized_job_domain ` set running) \<subseteq> busy_domains s' running"
    using j(1) by (auto simp: busy_domains_def)
  then have "card (insert (serialized_job_domain job) (serialized_job_domain ` set running)) \<le>
      card (busy_domains s' running)"
    by (intro card_mono) (simp add: busy_domains_def)
  moreover have "card (serialized_job_domain ` set running) = length running"
    using ok by (metis distinct_card length_map set_map sched_ok_def)
  ultimately have "length running < ss_busy_domain_count s'"
    using ok nj by (simp add: sched_ok_def)
  then have "length running < ss_serialized_worker_count s'"
    using ok assms(3,5) by (auto simp: sched_ok_def min_le_iff_disj)
  then show ?thesis using assms(4) take_iff_runnable by blast
qed

lemma runnable_has_free_worker_witness:
  "let s = fst (enqueue_serialized_job maintenance_job False False sched_sample)
   in 0 < ss_serialized_worker_count s \<and> take_serialized_job s \<noteq> None"
proof -
  let ?s1 = "fst (enqueue_serialized_job maintenance_job False False sched_sample)"
  have e: "sched_step\<^sup>*\<^sup>* (sched_sample, []) (?s1, [])"
    by (rule r_into_rtranclp, rule sched_step.enqueue [of maintenance_job False False _ _ "Inr SA_accepted"])
      (simp add: sched_sample_enqueue)
  have h: "has_runnable_serialized_job ?s1" "\<not> ss_serialized_stopping ?s1"
    "ss_active_domain_count ?s1 < ss_max_serialized_concurrency ?s1"
    unfolding sched_sample_enqueue
    by (simp_all add: has_runnable_serialized_job_def domain_active_iff maintenance_domain
        domain_state_def find_serialized_domain_activity_def) (simp_all add: sched_sample_def blank_state_def)
  from runnable_has_free_worker [OF e sched_sample_ok h(2,1,3)] show ?thesis
    by (simp add: Let_def)
qed

subsection \<open>Admission by policy\<close>

text \<open>
  C16: the admission of a serialized job follows its policy: a stopping server admits nothing;
  \<^verbatim>\<open>reject_if_busy\<close> refuses exactly when a job of the domain is queued or running; a refused job
  leaves the queue as it is. An admitted job goes to the end of the queue, and under
  \<^verbatim>\<open>latest_wins\<close> exactly the queued requests of the same domain and route leave it, so the newest
  is the only one left.
\<close>

theorem admission_policy:
  assumes "admit_serialized_job sched job a b s = (s', admission, superseded)"
  defines "older \<equiv> filter (replaceable sched job) (ss_pending_serialized s)"
  shows "(admission = SA_stopping \<longleftrightarrow> ss_serialized_stopping s \<or> \<not> ss_running s) \<and>
    (admission = SA_busy \<longleftrightarrow> \<not> ss_serialized_stopping s \<and> ss_running s \<and>
       rs_policy sched = QP_reject_if_busy \<and> serialized_domain_busy s (rs_domain sched)) \<and>
    (admission \<noteq> SA_accepted \<longrightarrow>
       ss_pending_serialized s' = ss_pending_serialized s \<and> superseded = []) \<and>
    (admission = SA_accepted \<longrightarrow>
       (if rs_policy sched = QP_latest_wins
        then superseded = older \<and> ss_pending_serialized s' =
               filter (\<lambda>j. \<not> replaceable sched job j) (ss_pending_serialized s) @ [job]
        else superseded = [] \<and> ss_pending_serialized s' = ss_pending_serialized s @ [job]))"
proof (cases "ss_serialized_stopping s \<or> \<not> ss_running s")
  case True
  then show ?thesis using assms(1) by (auto simp: admit_serialized_job_def)
next
  case run: False
  let ?d = "rs_domain sched"
  let ?s1 = "serialized_domain_activity ?d s"
  obtain s2 where e: "ensure_serialized_worker_count (desired_serialized_worker_count ?s1 ?d) ?s1 = (s2, True)"
    and p2: "ss_pending_serialized s2 = ss_pending_serialized s" and r2: "ss_running s2"
    and b2: "serialized_domain_busy s2 ?d \<longleftrightarrow> serialized_domain_busy s ?d"
    using run by (simp add: ensure_serialized_worker_count_def Let_def domain_busy_iff)
  have acc: "ss_pending_serialized (account_serialized a b job t) = ss_pending_serialized t" for t
    using account_serialized_same [of t a b job] by (simp add: sched_same_def)
  note u = assms(1) [unfolded admit_serialized_job_def Let_def e prod.case]
  show ?thesis
  proof (cases "rs_policy sched = QP_reject_if_busy \<and> serialized_domain_busy s ?d")
    case True
    then show ?thesis
      using u run r2 b2 p2 by (auto simp: record_serialized_busy_rejection_def)
  next
    case False
    obtain s3 gone where i: "insert_serialized sched job s2 = (s3, gone)" by fastforce
    have "s' = account_serialized a b job s3" "admission = SA_accepted" "superseded = gone"
      using u run r2 b2 False i by auto
    moreover have "if rs_policy sched = QP_latest_wins
        then gone = older \<and> ss_pending_serialized s3 =
               filter (\<lambda>j. \<not> replaceable sched job j) (ss_pending_serialized s) @ [job]
        else gone = [] \<and> ss_pending_serialized s3 = ss_pending_serialized s @ [job]"
      using i p2 by (auto simp: insert_serialized_def Let_def older_def supersede_snoc split: if_splits)
    ultimately show ?thesis using run False acc by auto
  qed
qed

lemma admission_policy_witness:
  "\<exists>s'. admit_serialized_job default_scheduling maintenance_job False False sched_sample =
          (s', SA_accepted, []) \<and> ss_pending_serialized s' = [maintenance_job]"
proof -
  obtain s' ad gone where r: "admit_serialized_job default_scheduling maintenance_job False False sched_sample =
      (s', ad, gone)" by (metis prod_cases3)
  have "ad = SA_accepted \<and> gone = [] \<and> ss_pending_serialized s' = [maintenance_job]"
    using admission_policy [OF r]
    by (cases ad) (simp_all add: sched_sample_def blank_state_def default_scheduling_def)
  with r show ?thesis by simp
qed

end
