(* ===== verification/Dispatch.thy ===== *)
theory Dispatch
  imports SchedulerProps
begin

text \<open>
  Handing a parsed request to the executors (\<^verbatim>\<open>src/system/reactor/dispatch.cpp\<close>). A fixed
  request goes to the worker queue or to the serialized scheduler, a stream takes one of the
  bounded stream slots and leaves the reactor together with the bytes read ahead.
\<close>

subsection \<open>Stream slots and the worker queue\<close>

text \<open>The compare-exchange loop is one atomic step on the value it finally sees.\<close>

definition try_acquire_stream_slot :: "ServerState \<Rightarrow> ServerState \<times> bool" where
  "try_acquire_stream_slot s =
     (if ss_active_streams s < ss_max_concurrent_streams s
      then (s\<lparr>ss_active_streams := ss_active_streams s + 1\<rparr>, True)
      else (s, False))"

definition pending_job ::
  "nat \<Rightarrow> Request \<Rightarrow> time \<Rightarrow> time \<Rightarrow> HandlerEntry option \<Rightarrow> Capabilities \<Rightarrow> bool \<Rightarrow> bool \<Rightarrow>
     bstring \<Rightarrow> nat \<Rightarrow> PendingJob" where
  "pending_job c request arrival_time deadline handler caps is_stream request_bytes_reserved
       buffered buffered_offset =
     \<lparr>pj_connection = c, pj_request = request, pj_capabilities = caps, pj_deadline = deadline,
      pj_handler = handler, pj_is_stream = is_stream,
      pj_request_bytes = length (rq_route request) + length (rq_body request) +
        cap_wire_resource_bytes caps,
      pj_release_stream_request_bytes = (is_stream \<and> request_bytes_reserved),
      pj_buffered = buffered,
      pj_buffered_offset = (if is_stream then buffered_offset else 0),
      pj_arrival_ticks = (if is_stream then 0 else arrival_time)\<rparr>"

definition enqueue_worker_job ::
  "nat \<Rightarrow> Request \<Rightarrow> time \<Rightarrow> time \<Rightarrow> HandlerEntry option \<Rightarrow> Capabilities \<Rightarrow> bool \<Rightarrow> bool \<Rightarrow>
     bstring \<Rightarrow> nat \<Rightarrow> ServerState \<Rightarrow> ServerState \<times> bool" where
  "enqueue_worker_job c request arrival_time deadline handler caps is_stream request_bytes_reserved
       buffered buffered_offset s =
     (let job = pending_job c request arrival_time deadline handler caps is_stream
                  request_bytes_reserved buffered buffered_offset
      in if ss_workers_stopping s
         then let s = (if request_bytes_reserved
                       then release_connection_request_bytes c (pj_request_bytes job) s else s)
              in (drop_capabilities caps s, False)
         else let s = s\<lparr>ss_pending_jobs := ss_pending_jobs s @ [job]\<rparr>;
                  s = (if \<not> is_stream
                       then let s = conn_upd c (\<lambda>cn. cn
                                      \<lparr>cn_active_regular := sz_add (cn_active_regular cn) 1\<rparr>) s
                            in if request_bytes_reserved then account_connection_request_count c s
                               else account_connection_request c (pj_request_bytes job) s
                       else s)
              in (s, True))"

subsection \<open>Cancellation flags\<close>

text \<open>
  A request with an id on a connection whose protocol version knows cancellation gets a
  cancellation flag; entries of requests that are gone are removed on the way. \<open>flag\<close> is the
  object the allocator returns for it.
\<close>

definition live_cancellations :: "ServerState \<Rightarrow> (u32 \<times> nat) list \<Rightarrow> (u32 \<times> nat) list" where
  "live_cancellations s = filter (\<lambda>(_, f). ss_flags s f \<noteq> None)"

definition register_cancellation ::
  "nat \<Rightarrow> u32 \<Rightarrow> byte \<Rightarrow> nat \<Rightarrow> ServerState \<Rightarrow> ServerState \<times> nat option" where
  "register_cancellation c request_id wire_version flag s =
     (if request_id \<noteq> 0 \<and> wire_version \<ge> cancellable_version
      then let s = s\<lparr>ss_flags := (ss_flags s)(flag := Some False)\<rparr>
           in (conn_upd c (\<lambda>cn. cn\<lparr>cn_cancellations :=
                 AList.update request_id flag (live_cancellations s (cn_cancellations cn))\<rparr>) s,
               Some flag)
      else (s, None))"

text \<open>A cancel frame: set the flag of a request that is still alive, forget one that is gone.\<close>

definition cancel_request :: "nat \<Rightarrow> u32 \<Rightarrow> ServerState \<Rightarrow> ServerState" where
  "cancel_request c request_id s =
     (case map_of (cn_cancellations (ss_conns s c)) request_id of
        None \<Rightarrow> s
      | Some f \<Rightarrow>
          (case ss_flags s f of
             Some _ \<Rightarrow> s\<lparr>ss_flags := (ss_flags s)(f := Some True)\<rparr>
           | None \<Rightarrow> conn_upd c (\<lambda>cn. cn\<lparr>cn_cancellations :=
                       AList.delete request_id (cn_cancellations cn)\<rparr>) s))"

subsection \<open>dispatch\_request\<close>

definition dispatch_serialized ::
  "nat \<Rightarrow> SerializedJob \<Rightarrow> ServerState \<Rightarrow> ServerState \<times> (exn + bool)" where
  "dispatch_serialized r job s =
     (let c = rc_conn (ss_rcs s r);
          request_bytes_reserved = (so_max_total_inflight_bytes (ss_options s) \<noteq> 0);
          payload_total = rc_payload_total (ss_rcs s r);
          undo = (\<lambda>s. if request_bytes_reserved
                      then release_connection_request_bytes c payload_total s else s);
          s = rc_upd r (\<lambda>rc. rc\<lparr>rc_reserved_request_bytes := 0\<rparr>) s
      in case enqueue_serialized_job job True request_bytes_reserved s of
           (s, Inl e) \<Rightarrow> (drop_job job (undo s), Inl e)
         | (s, Inr SA_busy) \<Rightarrow>
             (case write_error_response c (rq_request_id (sj_request job))
                     (str ''serialization domain is busy'') deadline_max status_conflict (undo s) of
                (s, Inl e) \<Rightarrow> (drop_job job s, Inl e)
              | (s, Inr _) \<Rightarrow>
                  (case pause_connection_reads_if_needed r s of (s, paused) \<Rightarrow>
                     (drop_job job s, Inr paused)))
         | (s, Inr SA_stopping) \<Rightarrow>
             (drop_job job (conn_upd c (\<lambda>cn. cn\<lparr>cn_closing := True\<rparr>) (undo s)), Inr False)
         | (s, Inr SA_accepted) \<Rightarrow>
             (case pause_connection_reads_if_needed r s of (s, paused) \<Rightarrow> (s, Inr paused)))"

definition dispatch_regular ::
  "nat \<Rightarrow> Request \<Rightarrow> HandlerEntry \<Rightarrow> Capabilities \<Rightarrow> ServerState \<Rightarrow> ServerState \<times> (exn + bool)" where
  "dispatch_regular r request handler caps s =
     (let c = rc_conn (ss_rcs s r);
          s = (if rq_request_id request \<noteq> 0
               then conn_upd c (\<lambda>cn. cn\<lparr>cn_session_capable := True\<rparr>) s else s);
          request_bytes_reserved = (so_max_total_inflight_bytes (ss_options s) \<noteq> 0);
          s = rc_upd r (\<lambda>rc. rc\<lparr>rc_reserved_request_bytes := 0\<rparr>) s
      in case enqueue_worker_job c request (rc_arrival_time (ss_rcs s r)) (rc_deadline (ss_rcs s r))
                (Some handler) caps False request_bytes_reserved [] 0 s of
           (s, False) \<Rightarrow> (conn_upd c (\<lambda>cn. cn\<lparr>cn_closing := True\<rparr>) s, Inr False)
         | (s, True) \<Rightarrow>
             (case pause_connection_reads_if_needed r s of (s, paused) \<Rightarrow> (s, Inr paused)))"

text \<open>\<open>shard\<close> is the reactor thread's counter shard, \<open>flag\<close> the cancellation flag object.\<close>

definition dispatch_request ::
  "nat \<Rightarrow> nat \<Rightarrow> nat \<Rightarrow> ServerState \<Rightarrow> ServerState \<times> (exn + bool)" where
  "dispatch_request shard flag r s =
     (let s = record_fixed_request shard s;
          rc = ss_rcs s r; c = rc_conn rc;
          request = \<lparr>rq_route = rc_route_buffer rc, rq_body = rc_body_buffer rc,
                     rq_request_id = rc_request_id rc\<rparr>;
          s = rc_upd r (\<lambda>rc. rc\<lparr>rc_route_buffer := [], rc_body_buffer := []\<rparr>) s
      in case register_cancellation c (rq_request_id request) (cn_wire_version (ss_conns s c)) flag s of
           (s, cancelled) \<Rightarrow>
             let caps = (rc_capabilities rc)
                   \<lparr>cap_peer := cn_peer (ss_conns s c), cap_cancelled := cancelled\<rparr>;
                 s = rc_upd r (\<lambda>rc. rc\<lparr>rc_capabilities := no_capabilities\<rparr>) s;
                 handler = (case find_request_handler (ss_handler_registry s) (rq_route request) of
                              Some h \<Rightarrow> h | None \<Rightarrow> ss_not_found_handler s)
             in if he_serialized handler
                then dispatch_serialized r
                       \<lparr>sj_connection = Some c, sj_request = request, sj_capabilities = caps,
                        sj_arrival_time = rc_arrival_time rc, sj_deadline = rc_deadline rc,
                        sj_handler = Some handler, sj_maintenance = None,
                        sj_request_bytes = length (rq_route request) + length (rq_body request) +
                          cap_wire_resource_bytes caps\<rparr> s
                else dispatch_regular r request handler caps s)"

subsection \<open>dispatch\_stream\<close>

definition dispatch_stream :: "nat \<Rightarrow> ServerState \<Rightarrow> ServerState" where
  "dispatch_stream r s =
     (let c = rc_conn (ss_rcs s r); cn = ss_conns s c in
      if cn_active_regular cn \<noteq> 0 \<or> cn_pending_serialized cn \<noteq> 0
      then conn_upd c (\<lambda>cn. cn\<lparr>cn_closing := True\<rparr>) s
      else case try_acquire_stream_slot s of
             (s, False) \<Rightarrow> conn_upd c (\<lambda>cn. cn\<lparr>cn_closing := True\<rparr>) (record_stream_rejection s)
           | (s, True) \<Rightarrow>
               let s = record_stream_request s;
                   rc = ss_rcs s r;
                   request = \<lparr>rq_route = rc_route_buffer rc, rq_body = [],
                              rq_request_id = rc_request_id rc\<rparr>;
                   caps = no_capabilities\<lparr>cap_peer := cn_peer (ss_conns s c)\<rparr>;
                   request_bytes_reserved = (so_max_total_inflight_bytes (ss_options s) \<noteq> 0);
                   s = rc_upd r (\<lambda>rc. rc\<lparr>rc_route_buffer := [], rc_reserved_request_bytes := 0\<rparr>) s;
                   s = (if ss_readiness_fd s \<ge> 0
                        then world_upd (\<lambda>w. fst (readiness_control Ctl_remove
                               (cn_fd (ss_conns s c)) 0 0 w)) s else s);
                   s = conn_upd c (\<lambda>cn. cn\<lparr>cn_stream_active := True\<rparr>) s;
                   s = rc_upd r (\<lambda>rc. rc\<lparr>rc_pending := [], rc_pending_offset := 0\<rparr>) s
               in case enqueue_worker_job c request (rc_arrival_time rc) (rc_deadline rc) None caps
                         True request_bytes_reserved (rc_pending rc) (rc_pending_offset rc) s of
                    (s, True) \<Rightarrow> s
                  | (s, False) \<Rightarrow> conn_upd c (\<lambda>cn. cn\<lparr>cn_closing := True\<rparr>) s)"

end
