(* ===== verification/Parser.thy ===== *)
theory Parser
  imports Dispatch
begin

text \<open>
  The reactor's incremental parser (\<^verbatim>\<open>src/system/reactor/parser.cpp\<close>, the branches compiled on
  Linux): reading ahead from a non-blocking socket, and cutting the bytes read so far into
  frames. In strict mode no byte of a payload is read before its size has been admitted.
\<close>

subsection \<open>Reading\<close>

definition recv_with_fds :: "nat \<Rightarrow> nat \<Rightarrow> ServerState \<Rightarrow> ServerState \<times> (exn + (errno + bstring))" where
  "recv_with_fds r cap s =
     (case fd_receive (cn_fd (conn_of s r)) cap (ss_world s) of
        (w, result) \<Rightarrow>
          let s = s\<lparr>ss_world := w\<rparr> in
          if rr_error result = RE_invalid_ancillary
          then (s, Inl (Runtime_error ''invalid or truncated ancillary descriptor''))
          else if rr_error result = RE_close_on_exec_getfd
          then (s, throw_system_error ''fcntl(F_GETFD) failed'' (the (rr_native_error result)))
          else if rr_error result = RE_close_on_exec_setfd
          then (s, throw_system_error ''fcntl(F_SETFD) failed'' (the (rr_native_error result)))
          else ((case rr_bytes result of
                   Inr d \<Rightarrow> if d \<noteq> [] \<and> rr_received_fd result \<ge> 0
                            then rc_upd r (\<lambda>rc. rc\<lparr>rc_received_fds :=
                                   rc_received_fds rc @ [rr_received_fd result]\<rparr>) s
                            else s
                 | Inl _ \<Rightarrow> s),
                Inr (rr_bytes result)))"

definition strict_budget :: "ServerState \<Rightarrow> bool" where
  "strict_budget s \<longleftrightarrow> so_max_total_inflight_bytes (ss_options s) \<noteq> 0"

definition available :: "ReactorConnection \<Rightarrow> nat" where
  "available rc = length (rc_pending rc) - rc_pending_offset rc"

text \<open>How much the next read may ask for; in strict mode no more than the current phase needs.\<close>

definition request_size :: "ServerState \<Rightarrow> nat \<Rightarrow> nat \<Rightarrow> nat" where
  "request_size s r read_ahead =
     (let rc = ss_rcs s r;
          sz = min reactor_read_scratch_size (reactor_read_batch_size - read_ahead);
          limited = (\<lambda>need. min sz (if need > available rc then need - available rc else 0))
      in if \<not> strict_budget s then sz
         else case rc_phase rc of
                PP_header \<Rightarrow> limited (header_size - rc_header_received rc)
              | PP_request_payload \<Rightarrow> limited (rc_payload_total rc - rc_payload_received rc)
              | PP_stream_route \<Rightarrow> limited (unat (rc_arg1 rc) - length (rc_route_buffer rc))
              | _ \<Rightarrow> sz)"

definition append_pending :: "nat \<Rightarrow> bstring \<Rightarrow> ServerState \<Rightarrow> ServerState" where
  "append_pending r d s =
     (let s = mark_io_progress (rc_conn (ss_rcs s r)) s
      in rc_upd r (\<lambda>rc.
           let rc = (if rc_pending_offset rc \<noteq> 0 \<and> rc_pending_offset rc = length (rc_pending rc)
                     then rc\<lparr>rc_pending := [], rc_pending_offset := 0\<rparr> else rc)
           in rc\<lparr>rc_pending := rc_pending rc @ d\<rparr>) s)"

definition mark_closing :: "nat \<Rightarrow> ServerState \<Rightarrow> ServerState" where
  "mark_closing r s = conn_upd (rc_conn (ss_rcs s r)) (\<lambda>cn. cn\<lparr>cn_closing := True\<rparr>) s"

datatype read_result = Read_done | Read_closed | Read_throw exn

lemma fd_receive_shorter:
  "fd_receive fd cap w = (w', result) \<Longrightarrow> rr_bytes result = Inl e \<Longrightarrow>
     length (w_recv w' fd) < length (w_recv w fd)"
  by (auto simp: fd_receive_def kernel_recv_def split: list.splits RecvAnswer.splits prod.splits if_splits)

lemma recv_with_fds_shorter:
  assumes "recv_with_fds r cap s = (s', Inr (Inl e))"
  shows "length (w_recv (ss_world s') (cn_fd (conn_of s' r))) < length (w_recv (ss_world s) (cn_fd (conn_of s r)))"
proof -
  obtain w res where f: "fd_receive (cn_fd (conn_of s r)) cap (ss_world s) = (w, res)" by fastforce
  then have "rr_bytes res = Inl e" "s' = s\<lparr>ss_world := w\<rparr>"
    using assms by (auto simp: recv_with_fds_def Let_def throw_system_error_def split: if_splits sum.splits)
  with fd_receive_shorter [OF f] show ?thesis by simp
qed

lemma batch_progress: "n < b \<Longrightarrow> d \<noteq> [] \<Longrightarrow> b - (n + length d) < b - n"
  by (cases d) auto

function read_loop_fds :: "nat \<Rightarrow> nat \<Rightarrow> ServerState \<Rightarrow> ServerState \<times> read_result" where
  "read_loop_fds r read_ahead s =
     (if \<not> read_ahead < reactor_read_batch_size then (s, Read_done)
      else let sz = request_size s r read_ahead in
      if strict_budget s \<and> sz = 0 then (s, Read_done)
      else case recv_with_fds r sz s of
             (s, Inl e) \<Rightarrow> (s, Read_throw e)
           | (s, Inr (Inr d)) \<Rightarrow>
               if d \<noteq> []
               then let s = append_pending r d s
                    in if strict_budget s then (s, Read_done)
                       else read_loop_fds r (read_ahead + length d) s
               else (mark_closing r s, Read_closed)
           | (s, Inr (Inl e)) \<Rightarrow>
               if e = EINTR then read_loop_fds r read_ahead s
               else if e = EAGAIN then (s, Read_done)
               else (mark_closing r s, Read_closed))"
  by pat_completeness auto
termination
  by (relation "measures [\<lambda>(r, n, s). reactor_read_batch_size - n,
        \<lambda>(r, n, s). length (w_recv (ss_world s) (cn_fd (conn_of s r)))]")
    (auto simp: batch_progress dest!: recv_with_fds_shorter [OF sym])

declare read_loop_fds.simps [simp del]

subsection \<open>Admission of a payload\<close>

definition begin_request_payload :: "nat \<Rightarrow> ServerState \<Rightarrow> ServerState \<times> bool" where
  "begin_request_payload r s =
     (let request_bytes = rc_payload_total (ss_rcs s r);
          start = (\<lambda>s. rc_upd r (\<lambda>rc. rc\<lparr>rc_route_buffer := [], rc_body_buffer := [],
                     rc_phase := PP_request_payload\<rparr>) s)
      in if strict_budget s
         then case try_reserve_connection_request_bytes (rc_conn (ss_rcs s r)) request_bytes s of
                (s, False) \<Rightarrow> (pause_connection_reads r s, False)
              | (s, True) \<Rightarrow>
                  (start (rc_upd r (\<lambda>rc. rc\<lparr>rc_reserved_request_bytes := request_bytes\<rparr>) s), True)
         else (start s, True))"

definition begin_stream_route :: "nat \<Rightarrow> ServerState \<Rightarrow> ServerState \<times> bool" where
  "begin_stream_route r s =
     (let request_bytes = unat (rc_arg1 (ss_rcs s r));
          start = (\<lambda>s. rc_upd r (\<lambda>rc. rc\<lparr>rc_route_buffer := [], rc_phase := PP_stream_route\<rparr>) s)
      in if strict_budget s
         then case try_reserve_connection_request_bytes (rc_conn (ss_rcs s r)) request_bytes s of
                (s, False) \<Rightarrow> (pause_connection_reads r s, False)
              | (s, True) \<Rightarrow>
                  (start (rc_upd r (\<lambda>rc. rc\<lparr>rc_reserved_request_bytes := request_bytes\<rparr>) s), True)
         else (start s, True))"

definition release_consumed_pending :: "bool \<Rightarrow> ReactorConnection \<Rightarrow> ReactorConnection" where
  "release_consumed_pending strict_mode rc =
     (if strict_mode \<and> rc_pending_offset rc = length (rc_pending rc)
      then rc\<lparr>rc_pending := [], rc_pending_offset := 0\<rparr> else rc)"

subsection \<open>One round of the parse loop\<close>

datatype parse_step = PS_continue | PS_return | PS_throw exn

text \<open>The bytes at the read position, and moving the position.\<close>

definition unparsed :: "ReactorConnection \<Rightarrow> bstring" where
  "unparsed rc = drop (rc_pending_offset rc) (rc_pending rc)"

text \<open>The first bytes of a request start its clock.\<close>

definition start_arrival :: "nat \<Rightarrow> ServerState \<Rightarrow> ServerState" where
  "start_arrival r s =
     (if available (ss_rcs s r) \<noteq> 0 \<and> rc_arrival_time (ss_rcs s r) = 0
      then case clock_read s of (s, now) \<Rightarrow>
             rc_upd r (\<lambda>rc. rc\<lparr>rc_arrival_time := now,
               rc_deadline := deadline_from now (so_request_timeout (ss_options s))\<rparr>) s
      else s)"

definition take_header_bytes :: "ReactorConnection \<Rightarrow> ReactorConnection" where
  "take_header_bytes rc =
     (let n = min (available rc) (header_size - rc_header_received rc)
      in rc\<lparr>rc_header := take (rc_header_received rc) (rc_header rc) @ take n (unparsed rc) @
                drop (rc_header_received rc + n) (rc_header rc),
            rc_pending_offset := rc_pending_offset rc + n,
            rc_header_received := rc_header_received rc + n\<rparr>)"

definition begin_result :: "ServerState \<times> bool \<Rightarrow> ServerState \<times> parse_step" where
  "begin_result sb = (case sb of (s, True) \<Rightarrow> (s, PS_continue) | (s, False) \<Rightarrow> (s, PS_return))"

definition accept_request_header :: "DecodedHeader \<Rightarrow> nat \<Rightarrow> ServerState \<Rightarrow> ServerState \<times> parse_step" where
  "accept_request_header h r s =
     (if dh_flags h AND carries_windows_handle_flag \<noteq> 0
      then (s, PS_throw (Runtime_error ''Windows handle transfer is unavailable on this platform''))
      else if dh_flags h AND carries_fd_flag \<noteq> 0 \<and> rc_received_fds (ss_rcs s r) = []
      then (s, PS_throw (Runtime_error ''fd frame without ancillary descriptor''))
      else let s = (if dh_flags h AND carries_fd_flag \<noteq> 0
                    then rc_upd r (\<lambda>rc. rc\<lparr>rc_capabilities := (rc_capabilities rc)
                                             \<lparr>cap_received_fd := hd (rc_received_fds rc)\<rparr>,
                                           rc_received_fds := tl (rc_received_fds rc)\<rparr>) s
                    else s)
           in case validate_request_lengths (unat (dh_arg1 h)) (unat (dh_arg2 h))
                     (so_max_message_size (ss_options s)) of
                Inl e \<Rightarrow> (s, PS_throw e)
              | Inr _ \<Rightarrow>
                  begin_result (begin_request_payload r (rc_upd r (\<lambda>rc. rc
                    \<lparr>rc_request_id := dh_request_id h, rc_request_flags := dh_flags h,
                     rc_arg1 := dh_arg1 h, rc_arg2 := dh_arg2 h,
                     rc_payload_total := unat (dh_arg1 h) + unat (dh_arg2 h),
                     rc_payload_received := 0, rc_phase := PP_request_budget\<rparr>) s)))"

definition accept_stream_header :: "DecodedHeader \<Rightarrow> nat \<Rightarrow> ServerState \<Rightarrow> ServerState \<times> parse_step" where
  "accept_stream_header h r s =
     (if dh_flags h AND carries_fd_flag \<noteq> 0
      then (s, PS_throw (Runtime_error ''fd flag is only supported on fixed requests''))
      else if dh_arg1 h = 0 \<or> dh_arg2 h \<noteq> 0 \<or>
              unat (dh_arg1 h) > so_max_message_size (ss_options s)
      then (s, PS_throw (Runtime_error ''invalid stream request header''))
      else let s = rc_upd r (\<lambda>rc. rc\<lparr>rc_request_id := dh_request_id h, rc_arg1 := dh_arg1 h,
                     rc_arg2 := 0, rc_phase := PP_stream_budget\<rparr>) s
           in case deadline_after (so_stream_timeout (ss_options s)) (ss_world s) of
                (w, deadline) \<Rightarrow>
                  begin_result (begin_stream_route r
                    (rc_upd r (\<lambda>rc. rc\<lparr>rc_deadline := deadline\<rparr>) (s\<lparr>ss_world := w\<rparr>))))"

definition accept_header :: "DecodedHeader \<Rightarrow> nat \<Rightarrow> ServerState \<Rightarrow> ServerState \<times> parse_step" where
  "accept_header h r s =
     (let c = rc_conn (ss_rcs s r);
          s = (if cn_wire_version (ss_conns s c) = 0
               then conn_upd c (\<lambda>cn. cn\<lparr>cn_wire_version := dh_version h\<rparr>) s else s)
      in if cn_wire_version (ss_conns s c) \<noteq> dh_version h
         then (s, PS_throw (Runtime_error ''protocol version changed on connection''))
         else if dh_type h = WT_cancel_request
         then (rc_upd r (\<lambda>rc. rc\<lparr>rc_arrival_time := 0, rc_deadline := deadline_max\<rparr>)
                 (cancel_request c (dh_request_id h) s), PS_continue)
         else if dh_type h = WT_request then accept_request_header h r s
         else if dh_type h = WT_stream_request then accept_stream_header h r s
         else (s, PS_throw (Runtime_error ''unexpected protocol message type'')))"

definition parse_header :: "nat \<Rightarrow> ServerState \<Rightarrow> ServerState \<times> parse_step" where
  "parse_header r s =
     (let s = start_arrival r s;
          s = rc_upd r take_header_bytes s
      in if rc_header_received (ss_rcs s r) \<noteq> header_size
         then (rc_upd r (release_consumed_pending (strict_budget s)) s, PS_return)
         else let s = rc_upd r (\<lambda>rc. rc\<lparr>rc_header_received := 0\<rparr>) s;
                  s = rc_upd r (release_consumed_pending (strict_budget s)) s
              in case decode_header (rc_header (ss_rcs s r)) of
                   Inl e \<Rightarrow> (s, PS_throw e)
                 | Inr h \<Rightarrow> accept_header h r s)"

definition take_payload_bytes :: "ReactorConnection \<Rightarrow> ReactorConnection" where
  "take_payload_bytes rc =
     (let n = min (available rc) (rc_payload_total rc - rc_payload_received rc);
          route_part = min n (unat (rc_arg1 rc) - length (rc_route_buffer rc))
      in rc\<lparr>rc_route_buffer := rc_route_buffer rc @ take route_part (unparsed rc),
            rc_body_buffer := rc_body_buffer rc @ take (n - route_part) (drop route_part (unparsed rc)),
            rc_pending_offset := rc_pending_offset rc + n,
            rc_payload_received := rc_payload_received rc + n\<rparr>)"

definition after_dispatch :: "ReactorConnection \<Rightarrow> ReactorConnection" where
  "after_dispatch rc = rc\<lparr>rc_capabilities := no_capabilities, rc_request_flags := 0,
     rc_phase := PP_header, rc_arrival_time := 0, rc_deadline := deadline_max\<rparr>"

definition parse_payload ::
  "nat \<Rightarrow> (ServerState \<Rightarrow> nat) \<Rightarrow> nat \<Rightarrow> ServerState \<Rightarrow> ServerState \<times> parse_step" where
  "parse_payload shard alloc r s =
     (let s = rc_upd r take_payload_bytes s;
          s = rc_upd r (release_consumed_pending (strict_budget s)) s
      in if rc_payload_received (ss_rcs s r) = rc_payload_total (ss_rcs s r)
         then case dispatch_request shard (alloc s) r s of
                (s, Inl e) \<Rightarrow> (s, PS_throw e)
              | (s, Inr read_paused) \<Rightarrow>
                  (rc_upd r after_dispatch s, if read_paused then PS_return else PS_continue)
         else (s, PS_return))"

definition take_route_bytes :: "ReactorConnection \<Rightarrow> ReactorConnection" where
  "take_route_bytes rc =
     (let n = min (available rc) (unat (rc_arg1 rc) - length (rc_route_buffer rc))
      in rc\<lparr>rc_route_buffer := rc_route_buffer rc @ take n (unparsed rc),
            rc_pending_offset := rc_pending_offset rc + n\<rparr>)"

definition parse_route :: "nat \<Rightarrow> ServerState \<Rightarrow> ServerState \<times> parse_step" where
  "parse_route r s =
     (let s = rc_upd r take_route_bytes s;
          s = rc_upd r (release_consumed_pending (strict_budget s)) s
      in (if length (rc_route_buffer (ss_rcs s r)) = unat (rc_arg1 (ss_rcs s r))
          then dispatch_stream r s else s, PS_return))"

definition parse_once ::
  "nat \<Rightarrow> (ServerState \<Rightarrow> nat) \<Rightarrow> nat \<Rightarrow> ServerState \<Rightarrow> ServerState \<times> parse_step" where
  "parse_once shard alloc r s =
     (if rc_phase (ss_rcs s r) = PP_header then parse_header r s
      else if rc_phase (ss_rcs s r) = PP_request_payload then parse_payload shard alloc r s
      else parse_route r s)"

end
