(* ===== verification/ParserFrames.thy ===== *)
theory ParserFrames
  imports Parser
begin

text \<open>
  Which parts of the state pausing, accounting, cancellation and dispatching leave alone, as far
  as the parser needs it.
\<close>

subsection \<open>What parsing and dispatching leave alone\<close>

lemma pause_frame [simp]:
  "ss_socket_path (pause_connection_reads r s) = ss_socket_path s"
  "ss_options (pause_connection_reads r s) = ss_options s"
  "ss_running (pause_connection_reads r s) = ss_running s"
  "ss_active_streams (pause_connection_reads r s) = ss_active_streams s"
  "ss_total_inflight_request_bytes (pause_connection_reads r s) = ss_total_inflight_request_bytes s"
  "ss_total_queued_output_bytes (pause_connection_reads r s) = ss_total_queued_output_bytes s"
  "ss_next_connection_generation (pause_connection_reads r s) = ss_next_connection_generation s"
  "ss_max_concurrent_streams (pause_connection_reads r s) = ss_max_concurrent_streams s"
  "ss_listener_fd (pause_connection_reads r s) = ss_listener_fd s"
  "ss_wakeup_fd (pause_connection_reads r s) = ss_wakeup_fd s"
  "ss_wake_pending (pause_connection_reads r s) = ss_wake_pending s"
  "ss_instance_lock_fd (pause_connection_reads r s) = ss_instance_lock_fd s"
  "ss_readiness_fd (pause_connection_reads r s) = ss_readiness_fd s"
  "ss_socket_device (pause_connection_reads r s) = ss_socket_device s"
  "ss_socket_inode (pause_connection_reads r s) = ss_socket_inode s"
  "ss_socket_identity_valid (pause_connection_reads r s) = ss_socket_identity_valid s"
  "ss_stopped (pause_connection_reads r s) = ss_stopped s"
  "ss_run_started (pause_connection_reads r s) = ss_run_started s"
  "ss_run_active (pause_connection_reads r s) = ss_run_active s"
  "ss_handler_registry (pause_connection_reads r s) = ss_handler_registry s"
  "ss_not_found_handler (pause_connection_reads r s) = ss_not_found_handler s"
  "ss_pending_jobs (pause_connection_reads r s) = ss_pending_jobs s"
  "ss_workers_stopping (pause_connection_reads r s) = ss_workers_stopping s"
  "ss_pending_serialized (pause_connection_reads r s) = ss_pending_serialized s"
  "ss_default_domain (pause_connection_reads r s) = ss_default_domain s"
  "ss_named_domains (pause_connection_reads r s) = ss_named_domains s"
  "ss_active_domain_count (pause_connection_reads r s) = ss_active_domain_count s"
  "ss_busy_domain_count (pause_connection_reads r s) = ss_busy_domain_count s"
  "ss_serialized_stopping (pause_connection_reads r s) = ss_serialized_stopping s"
  "ss_serialized_worker_count (pause_connection_reads r s) = ss_serialized_worker_count s"
  "ss_max_serialized_concurrency (pause_connection_reads r s) = ss_max_serialized_concurrency s"
  "ss_reactor_error (pause_connection_reads r s) = ss_reactor_error s"
  "ss_connections (pause_connection_reads r s) = ss_connections s"
  "ss_resumed_connections (pause_connection_reads r s) = ss_resumed_connections s"
  "ss_counters (pause_connection_reads r s) = ss_counters s"
  "ss_flags (pause_connection_reads r s) = ss_flags s"
  "cn_fd (ss_conns (pause_connection_reads r s) x) = cn_fd (ss_conns s x)"
  "cn_peer (ss_conns (pause_connection_reads r s) x) = cn_peer (ss_conns s x)"
  "cn_stream_active (ss_conns (pause_connection_reads r s) x) = cn_stream_active (ss_conns s x)"
  "cn_worker_owned (ss_conns (pause_connection_reads r s) x) = cn_worker_owned (ss_conns s x)"
  "cn_session_capable (ss_conns (pause_connection_reads r s) x) = cn_session_capable (ss_conns s x)"
  "cn_wire_version (ss_conns (pause_connection_reads r s) x) = cn_wire_version (ss_conns s x)"
  "cn_cancellations (ss_conns (pause_connection_reads r s) x) = cn_cancellations (ss_conns s x)"
  "cn_active_regular (ss_conns (pause_connection_reads r s) x) = cn_active_regular (ss_conns s x)"
  "cn_pending_serialized (ss_conns (pause_connection_reads r s) x) = cn_pending_serialized (ss_conns s x)"
  "cn_inflight_requests (ss_conns (pause_connection_reads r s) x) = cn_inflight_requests (ss_conns s x)"
  "cn_inflight_request_bytes (ss_conns (pause_connection_reads r s) x) = cn_inflight_request_bytes (ss_conns s x)"
  "cn_last_io_progress (ss_conns (pause_connection_reads r s) x) = cn_last_io_progress (ss_conns s x)"
  "cn_last_output_progress (ss_conns (pause_connection_reads r s) x) = cn_last_output_progress (ss_conns s x)"
  "cn_queued_output_bytes (ss_conns (pause_connection_reads r s) x) = cn_queued_output_bytes (ss_conns s x)"
  "cn_output_queue (ss_conns (pause_connection_reads r s) x) = cn_output_queue (ss_conns s x)"
  "rc_conn (ss_rcs (pause_connection_reads r s) x) = rc_conn (ss_rcs s x)"
  "rc_generation (ss_rcs (pause_connection_reads r s) x) = rc_generation (ss_rcs s x)"
  "rc_phase (ss_rcs (pause_connection_reads r s) x) = rc_phase (ss_rcs s x)"
  "rc_header (ss_rcs (pause_connection_reads r s) x) = rc_header (ss_rcs s x)"
  "rc_header_received (ss_rcs (pause_connection_reads r s) x) = rc_header_received (ss_rcs s x)"
  "rc_route_buffer (ss_rcs (pause_connection_reads r s) x) = rc_route_buffer (ss_rcs s x)"
  "rc_body_buffer (ss_rcs (pause_connection_reads r s) x) = rc_body_buffer (ss_rcs s x)"
  "rc_payload_received (ss_rcs (pause_connection_reads r s) x) = rc_payload_received (ss_rcs s x)"
  "rc_payload_total (ss_rcs (pause_connection_reads r s) x) = rc_payload_total (ss_rcs s x)"
  "rc_request_id (ss_rcs (pause_connection_reads r s) x) = rc_request_id (ss_rcs s x)"
  "rc_request_flags (ss_rcs (pause_connection_reads r s) x) = rc_request_flags (ss_rcs s x)"
  "rc_arg1 (ss_rcs (pause_connection_reads r s) x) = rc_arg1 (ss_rcs s x)"
  "rc_arg2 (ss_rcs (pause_connection_reads r s) x) = rc_arg2 (ss_rcs s x)"
  "rc_reserved_request_bytes (ss_rcs (pause_connection_reads r s) x) = rc_reserved_request_bytes (ss_rcs s x)"
  "rc_arrival_time (ss_rcs (pause_connection_reads r s) x) = rc_arrival_time (ss_rcs s x)"
  "rc_deadline (ss_rcs (pause_connection_reads r s) x) = rc_deadline (ss_rcs s x)"
  "rc_reactor_busy (ss_rcs (pause_connection_reads r s) x) = rc_reactor_busy (ss_rcs s x)"
  "rc_pending (ss_rcs (pause_connection_reads r s) x) = rc_pending (ss_rcs s x)"
  "rc_pending_offset (ss_rcs (pause_connection_reads r s) x) = rc_pending_offset (ss_rcs s x)"
  "rc_received_fds (ss_rcs (pause_connection_reads r s) x) = rc_received_fds (ss_rcs s x)"
  "rc_capabilities (ss_rcs (pause_connection_reads r s) x) = rc_capabilities (ss_rcs s x)"
  by (simp_all add: pause_connection_reads_def Let_def split_beta split: bool.split)

lemma pause_if_needed_frame [simp]:
  "ss_socket_path (fst (pause_connection_reads_if_needed r s)) = ss_socket_path s"
  "ss_options (fst (pause_connection_reads_if_needed r s)) = ss_options s"
  "ss_running (fst (pause_connection_reads_if_needed r s)) = ss_running s"
  "ss_active_streams (fst (pause_connection_reads_if_needed r s)) = ss_active_streams s"
  "ss_total_inflight_request_bytes (fst (pause_connection_reads_if_needed r s)) = ss_total_inflight_request_bytes s"
  "ss_total_queued_output_bytes (fst (pause_connection_reads_if_needed r s)) = ss_total_queued_output_bytes s"
  "ss_next_connection_generation (fst (pause_connection_reads_if_needed r s)) = ss_next_connection_generation s"
  "ss_max_concurrent_streams (fst (pause_connection_reads_if_needed r s)) = ss_max_concurrent_streams s"
  "ss_listener_fd (fst (pause_connection_reads_if_needed r s)) = ss_listener_fd s"
  "ss_wakeup_fd (fst (pause_connection_reads_if_needed r s)) = ss_wakeup_fd s"
  "ss_wake_pending (fst (pause_connection_reads_if_needed r s)) = ss_wake_pending s"
  "ss_instance_lock_fd (fst (pause_connection_reads_if_needed r s)) = ss_instance_lock_fd s"
  "ss_readiness_fd (fst (pause_connection_reads_if_needed r s)) = ss_readiness_fd s"
  "ss_socket_device (fst (pause_connection_reads_if_needed r s)) = ss_socket_device s"
  "ss_socket_inode (fst (pause_connection_reads_if_needed r s)) = ss_socket_inode s"
  "ss_socket_identity_valid (fst (pause_connection_reads_if_needed r s)) = ss_socket_identity_valid s"
  "ss_stopped (fst (pause_connection_reads_if_needed r s)) = ss_stopped s"
  "ss_run_started (fst (pause_connection_reads_if_needed r s)) = ss_run_started s"
  "ss_run_active (fst (pause_connection_reads_if_needed r s)) = ss_run_active s"
  "ss_handler_registry (fst (pause_connection_reads_if_needed r s)) = ss_handler_registry s"
  "ss_not_found_handler (fst (pause_connection_reads_if_needed r s)) = ss_not_found_handler s"
  "ss_pending_jobs (fst (pause_connection_reads_if_needed r s)) = ss_pending_jobs s"
  "ss_workers_stopping (fst (pause_connection_reads_if_needed r s)) = ss_workers_stopping s"
  "ss_pending_serialized (fst (pause_connection_reads_if_needed r s)) = ss_pending_serialized s"
  "ss_default_domain (fst (pause_connection_reads_if_needed r s)) = ss_default_domain s"
  "ss_named_domains (fst (pause_connection_reads_if_needed r s)) = ss_named_domains s"
  "ss_active_domain_count (fst (pause_connection_reads_if_needed r s)) = ss_active_domain_count s"
  "ss_busy_domain_count (fst (pause_connection_reads_if_needed r s)) = ss_busy_domain_count s"
  "ss_serialized_stopping (fst (pause_connection_reads_if_needed r s)) = ss_serialized_stopping s"
  "ss_serialized_worker_count (fst (pause_connection_reads_if_needed r s)) = ss_serialized_worker_count s"
  "ss_max_serialized_concurrency (fst (pause_connection_reads_if_needed r s)) = ss_max_serialized_concurrency s"
  "ss_reactor_error (fst (pause_connection_reads_if_needed r s)) = ss_reactor_error s"
  "ss_connections (fst (pause_connection_reads_if_needed r s)) = ss_connections s"
  "ss_resumed_connections (fst (pause_connection_reads_if_needed r s)) = ss_resumed_connections s"
  "ss_counters (fst (pause_connection_reads_if_needed r s)) = ss_counters s"
  "ss_flags (fst (pause_connection_reads_if_needed r s)) = ss_flags s"
  "cn_fd (ss_conns (fst (pause_connection_reads_if_needed r s)) x) = cn_fd (ss_conns s x)"
  "cn_peer (ss_conns (fst (pause_connection_reads_if_needed r s)) x) = cn_peer (ss_conns s x)"
  "cn_stream_active (ss_conns (fst (pause_connection_reads_if_needed r s)) x) = cn_stream_active (ss_conns s x)"
  "cn_worker_owned (ss_conns (fst (pause_connection_reads_if_needed r s)) x) = cn_worker_owned (ss_conns s x)"
  "cn_session_capable (ss_conns (fst (pause_connection_reads_if_needed r s)) x) = cn_session_capable (ss_conns s x)"
  "cn_wire_version (ss_conns (fst (pause_connection_reads_if_needed r s)) x) = cn_wire_version (ss_conns s x)"
  "cn_cancellations (ss_conns (fst (pause_connection_reads_if_needed r s)) x) = cn_cancellations (ss_conns s x)"
  "cn_active_regular (ss_conns (fst (pause_connection_reads_if_needed r s)) x) = cn_active_regular (ss_conns s x)"
  "cn_pending_serialized (ss_conns (fst (pause_connection_reads_if_needed r s)) x) = cn_pending_serialized (ss_conns s x)"
  "cn_inflight_requests (ss_conns (fst (pause_connection_reads_if_needed r s)) x) = cn_inflight_requests (ss_conns s x)"
  "cn_inflight_request_bytes (ss_conns (fst (pause_connection_reads_if_needed r s)) x) = cn_inflight_request_bytes (ss_conns s x)"
  "cn_last_io_progress (ss_conns (fst (pause_connection_reads_if_needed r s)) x) = cn_last_io_progress (ss_conns s x)"
  "cn_last_output_progress (ss_conns (fst (pause_connection_reads_if_needed r s)) x) = cn_last_output_progress (ss_conns s x)"
  "cn_queued_output_bytes (ss_conns (fst (pause_connection_reads_if_needed r s)) x) = cn_queued_output_bytes (ss_conns s x)"
  "cn_output_queue (ss_conns (fst (pause_connection_reads_if_needed r s)) x) = cn_output_queue (ss_conns s x)"
  "rc_conn (ss_rcs (fst (pause_connection_reads_if_needed r s)) x) = rc_conn (ss_rcs s x)"
  "rc_generation (ss_rcs (fst (pause_connection_reads_if_needed r s)) x) = rc_generation (ss_rcs s x)"
  "rc_phase (ss_rcs (fst (pause_connection_reads_if_needed r s)) x) = rc_phase (ss_rcs s x)"
  "rc_header (ss_rcs (fst (pause_connection_reads_if_needed r s)) x) = rc_header (ss_rcs s x)"
  "rc_header_received (ss_rcs (fst (pause_connection_reads_if_needed r s)) x) = rc_header_received (ss_rcs s x)"
  "rc_route_buffer (ss_rcs (fst (pause_connection_reads_if_needed r s)) x) = rc_route_buffer (ss_rcs s x)"
  "rc_body_buffer (ss_rcs (fst (pause_connection_reads_if_needed r s)) x) = rc_body_buffer (ss_rcs s x)"
  "rc_payload_received (ss_rcs (fst (pause_connection_reads_if_needed r s)) x) = rc_payload_received (ss_rcs s x)"
  "rc_payload_total (ss_rcs (fst (pause_connection_reads_if_needed r s)) x) = rc_payload_total (ss_rcs s x)"
  "rc_request_id (ss_rcs (fst (pause_connection_reads_if_needed r s)) x) = rc_request_id (ss_rcs s x)"
  "rc_request_flags (ss_rcs (fst (pause_connection_reads_if_needed r s)) x) = rc_request_flags (ss_rcs s x)"
  "rc_arg1 (ss_rcs (fst (pause_connection_reads_if_needed r s)) x) = rc_arg1 (ss_rcs s x)"
  "rc_arg2 (ss_rcs (fst (pause_connection_reads_if_needed r s)) x) = rc_arg2 (ss_rcs s x)"
  "rc_reserved_request_bytes (ss_rcs (fst (pause_connection_reads_if_needed r s)) x) = rc_reserved_request_bytes (ss_rcs s x)"
  "rc_arrival_time (ss_rcs (fst (pause_connection_reads_if_needed r s)) x) = rc_arrival_time (ss_rcs s x)"
  "rc_deadline (ss_rcs (fst (pause_connection_reads_if_needed r s)) x) = rc_deadline (ss_rcs s x)"
  "rc_reactor_busy (ss_rcs (fst (pause_connection_reads_if_needed r s)) x) = rc_reactor_busy (ss_rcs s x)"
  "rc_pending (ss_rcs (fst (pause_connection_reads_if_needed r s)) x) = rc_pending (ss_rcs s x)"
  "rc_pending_offset (ss_rcs (fst (pause_connection_reads_if_needed r s)) x) = rc_pending_offset (ss_rcs s x)"
  "rc_received_fds (ss_rcs (fst (pause_connection_reads_if_needed r s)) x) = rc_received_fds (ss_rcs s x)"
  "rc_capabilities (ss_rcs (fst (pause_connection_reads_if_needed r s)) x) = rc_capabilities (ss_rcs s x)"
  by (simp_all add: pause_connection_reads_if_needed_def Let_def)

lemma try_reserve_frame [simp]:
  "ss_socket_path (fst (try_reserve_connection_request_bytes c n s)) = ss_socket_path s"
  "ss_options (fst (try_reserve_connection_request_bytes c n s)) = ss_options s"
  "ss_running (fst (try_reserve_connection_request_bytes c n s)) = ss_running s"
  "ss_active_streams (fst (try_reserve_connection_request_bytes c n s)) = ss_active_streams s"
  "ss_total_queued_output_bytes (fst (try_reserve_connection_request_bytes c n s)) = ss_total_queued_output_bytes s"
  "ss_next_connection_generation (fst (try_reserve_connection_request_bytes c n s)) = ss_next_connection_generation s"
  "ss_max_concurrent_streams (fst (try_reserve_connection_request_bytes c n s)) = ss_max_concurrent_streams s"
  "ss_listener_fd (fst (try_reserve_connection_request_bytes c n s)) = ss_listener_fd s"
  "ss_wakeup_fd (fst (try_reserve_connection_request_bytes c n s)) = ss_wakeup_fd s"
  "ss_wake_pending (fst (try_reserve_connection_request_bytes c n s)) = ss_wake_pending s"
  "ss_instance_lock_fd (fst (try_reserve_connection_request_bytes c n s)) = ss_instance_lock_fd s"
  "ss_readiness_fd (fst (try_reserve_connection_request_bytes c n s)) = ss_readiness_fd s"
  "ss_socket_device (fst (try_reserve_connection_request_bytes c n s)) = ss_socket_device s"
  "ss_socket_inode (fst (try_reserve_connection_request_bytes c n s)) = ss_socket_inode s"
  "ss_socket_identity_valid (fst (try_reserve_connection_request_bytes c n s)) = ss_socket_identity_valid s"
  "ss_stopped (fst (try_reserve_connection_request_bytes c n s)) = ss_stopped s"
  "ss_run_started (fst (try_reserve_connection_request_bytes c n s)) = ss_run_started s"
  "ss_run_active (fst (try_reserve_connection_request_bytes c n s)) = ss_run_active s"
  "ss_handler_registry (fst (try_reserve_connection_request_bytes c n s)) = ss_handler_registry s"
  "ss_not_found_handler (fst (try_reserve_connection_request_bytes c n s)) = ss_not_found_handler s"
  "ss_pending_jobs (fst (try_reserve_connection_request_bytes c n s)) = ss_pending_jobs s"
  "ss_workers_stopping (fst (try_reserve_connection_request_bytes c n s)) = ss_workers_stopping s"
  "ss_pending_serialized (fst (try_reserve_connection_request_bytes c n s)) = ss_pending_serialized s"
  "ss_default_domain (fst (try_reserve_connection_request_bytes c n s)) = ss_default_domain s"
  "ss_named_domains (fst (try_reserve_connection_request_bytes c n s)) = ss_named_domains s"
  "ss_active_domain_count (fst (try_reserve_connection_request_bytes c n s)) = ss_active_domain_count s"
  "ss_busy_domain_count (fst (try_reserve_connection_request_bytes c n s)) = ss_busy_domain_count s"
  "ss_serialized_stopping (fst (try_reserve_connection_request_bytes c n s)) = ss_serialized_stopping s"
  "ss_serialized_worker_count (fst (try_reserve_connection_request_bytes c n s)) = ss_serialized_worker_count s"
  "ss_max_serialized_concurrency (fst (try_reserve_connection_request_bytes c n s)) = ss_max_serialized_concurrency s"
  "ss_reactor_error (fst (try_reserve_connection_request_bytes c n s)) = ss_reactor_error s"
  "ss_connections (fst (try_reserve_connection_request_bytes c n s)) = ss_connections s"
  "ss_resumed_connections (fst (try_reserve_connection_request_bytes c n s)) = ss_resumed_connections s"
  "ss_counters (fst (try_reserve_connection_request_bytes c n s)) = ss_counters s"
  "ss_rcs (fst (try_reserve_connection_request_bytes c n s)) = ss_rcs s"
  "ss_flags (fst (try_reserve_connection_request_bytes c n s)) = ss_flags s"
  "ss_world (fst (try_reserve_connection_request_bytes c n s)) = ss_world s"
  "cn_fd (ss_conns (fst (try_reserve_connection_request_bytes c n s)) x) = cn_fd (ss_conns s x)"
  "cn_peer (ss_conns (fst (try_reserve_connection_request_bytes c n s)) x) = cn_peer (ss_conns s x)"
  "cn_stream_active (ss_conns (fst (try_reserve_connection_request_bytes c n s)) x) = cn_stream_active (ss_conns s x)"
  "cn_worker_owned (ss_conns (fst (try_reserve_connection_request_bytes c n s)) x) = cn_worker_owned (ss_conns s x)"
  "cn_closing (ss_conns (fst (try_reserve_connection_request_bytes c n s)) x) = cn_closing (ss_conns s x)"
  "cn_session_capable (ss_conns (fst (try_reserve_connection_request_bytes c n s)) x) = cn_session_capable (ss_conns s x)"
  "cn_wire_version (ss_conns (fst (try_reserve_connection_request_bytes c n s)) x) = cn_wire_version (ss_conns s x)"
  "cn_cancellations (ss_conns (fst (try_reserve_connection_request_bytes c n s)) x) = cn_cancellations (ss_conns s x)"
  "cn_active_regular (ss_conns (fst (try_reserve_connection_request_bytes c n s)) x) = cn_active_regular (ss_conns s x)"
  "cn_pending_serialized (ss_conns (fst (try_reserve_connection_request_bytes c n s)) x) = cn_pending_serialized (ss_conns s x)"
  "cn_inflight_requests (ss_conns (fst (try_reserve_connection_request_bytes c n s)) x) = cn_inflight_requests (ss_conns s x)"
  "cn_last_io_progress (ss_conns (fst (try_reserve_connection_request_bytes c n s)) x) = cn_last_io_progress (ss_conns s x)"
  "cn_last_output_progress (ss_conns (fst (try_reserve_connection_request_bytes c n s)) x) = cn_last_output_progress (ss_conns s x)"
  "cn_queued_output_bytes (ss_conns (fst (try_reserve_connection_request_bytes c n s)) x) = cn_queued_output_bytes (ss_conns s x)"
  "cn_output_queue (ss_conns (fst (try_reserve_connection_request_bytes c n s)) x) = cn_output_queue (ss_conns s x)"
  by (simp_all add: try_reserve_connection_request_bytes_def reserve_connection_def reserve_global_def
      add_inflight_def Let_def split_beta split: bool.split)

lemma account_frame [simp]:
  "ss_socket_path (account_connection_request c n s) = ss_socket_path s"
  "ss_options (account_connection_request c n s) = ss_options s"
  "ss_running (account_connection_request c n s) = ss_running s"
  "ss_active_streams (account_connection_request c n s) = ss_active_streams s"
  "ss_total_queued_output_bytes (account_connection_request c n s) = ss_total_queued_output_bytes s"
  "ss_next_connection_generation (account_connection_request c n s) = ss_next_connection_generation s"
  "ss_max_concurrent_streams (account_connection_request c n s) = ss_max_concurrent_streams s"
  "ss_listener_fd (account_connection_request c n s) = ss_listener_fd s"
  "ss_wakeup_fd (account_connection_request c n s) = ss_wakeup_fd s"
  "ss_wake_pending (account_connection_request c n s) = ss_wake_pending s"
  "ss_instance_lock_fd (account_connection_request c n s) = ss_instance_lock_fd s"
  "ss_readiness_fd (account_connection_request c n s) = ss_readiness_fd s"
  "ss_socket_device (account_connection_request c n s) = ss_socket_device s"
  "ss_socket_inode (account_connection_request c n s) = ss_socket_inode s"
  "ss_socket_identity_valid (account_connection_request c n s) = ss_socket_identity_valid s"
  "ss_stopped (account_connection_request c n s) = ss_stopped s"
  "ss_run_started (account_connection_request c n s) = ss_run_started s"
  "ss_run_active (account_connection_request c n s) = ss_run_active s"
  "ss_handler_registry (account_connection_request c n s) = ss_handler_registry s"
  "ss_not_found_handler (account_connection_request c n s) = ss_not_found_handler s"
  "ss_pending_jobs (account_connection_request c n s) = ss_pending_jobs s"
  "ss_workers_stopping (account_connection_request c n s) = ss_workers_stopping s"
  "ss_pending_serialized (account_connection_request c n s) = ss_pending_serialized s"
  "ss_default_domain (account_connection_request c n s) = ss_default_domain s"
  "ss_named_domains (account_connection_request c n s) = ss_named_domains s"
  "ss_active_domain_count (account_connection_request c n s) = ss_active_domain_count s"
  "ss_busy_domain_count (account_connection_request c n s) = ss_busy_domain_count s"
  "ss_serialized_stopping (account_connection_request c n s) = ss_serialized_stopping s"
  "ss_serialized_worker_count (account_connection_request c n s) = ss_serialized_worker_count s"
  "ss_max_serialized_concurrency (account_connection_request c n s) = ss_max_serialized_concurrency s"
  "ss_reactor_error (account_connection_request c n s) = ss_reactor_error s"
  "ss_connections (account_connection_request c n s) = ss_connections s"
  "ss_resumed_connections (account_connection_request c n s) = ss_resumed_connections s"
  "ss_counters (account_connection_request c n s) = ss_counters s"
  "ss_rcs (account_connection_request c n s) = ss_rcs s"
  "ss_flags (account_connection_request c n s) = ss_flags s"
  "ss_world (account_connection_request c n s) = ss_world s"
  "cn_fd (ss_conns (account_connection_request c n s) x) = cn_fd (ss_conns s x)"
  "cn_peer (ss_conns (account_connection_request c n s) x) = cn_peer (ss_conns s x)"
  "cn_stream_active (ss_conns (account_connection_request c n s) x) = cn_stream_active (ss_conns s x)"
  "cn_worker_owned (ss_conns (account_connection_request c n s) x) = cn_worker_owned (ss_conns s x)"
  "cn_closing (ss_conns (account_connection_request c n s) x) = cn_closing (ss_conns s x)"
  "cn_session_capable (ss_conns (account_connection_request c n s) x) = cn_session_capable (ss_conns s x)"
  "cn_wire_version (ss_conns (account_connection_request c n s) x) = cn_wire_version (ss_conns s x)"
  "cn_cancellations (ss_conns (account_connection_request c n s) x) = cn_cancellations (ss_conns s x)"
  "cn_active_regular (ss_conns (account_connection_request c n s) x) = cn_active_regular (ss_conns s x)"
  "cn_pending_serialized (ss_conns (account_connection_request c n s) x) = cn_pending_serialized (ss_conns s x)"
  "cn_last_io_progress (ss_conns (account_connection_request c n s) x) = cn_last_io_progress (ss_conns s x)"
  "cn_last_output_progress (ss_conns (account_connection_request c n s) x) = cn_last_output_progress (ss_conns s x)"
  "cn_queued_output_bytes (ss_conns (account_connection_request c n s) x) = cn_queued_output_bytes (ss_conns s x)"
  "cn_output_queue (ss_conns (account_connection_request c n s) x) = cn_output_queue (ss_conns s x)"
  by (simp_all add: account_connection_request_def add_inflight_def)

lemma account_count_frame [simp]:
  "ss_socket_path (account_connection_request_count c s) = ss_socket_path s"
  "ss_options (account_connection_request_count c s) = ss_options s"
  "ss_running (account_connection_request_count c s) = ss_running s"
  "ss_active_streams (account_connection_request_count c s) = ss_active_streams s"
  "ss_total_inflight_request_bytes (account_connection_request_count c s) = ss_total_inflight_request_bytes s"
  "ss_total_queued_output_bytes (account_connection_request_count c s) = ss_total_queued_output_bytes s"
  "ss_next_connection_generation (account_connection_request_count c s) = ss_next_connection_generation s"
  "ss_max_concurrent_streams (account_connection_request_count c s) = ss_max_concurrent_streams s"
  "ss_listener_fd (account_connection_request_count c s) = ss_listener_fd s"
  "ss_wakeup_fd (account_connection_request_count c s) = ss_wakeup_fd s"
  "ss_wake_pending (account_connection_request_count c s) = ss_wake_pending s"
  "ss_instance_lock_fd (account_connection_request_count c s) = ss_instance_lock_fd s"
  "ss_readiness_fd (account_connection_request_count c s) = ss_readiness_fd s"
  "ss_socket_device (account_connection_request_count c s) = ss_socket_device s"
  "ss_socket_inode (account_connection_request_count c s) = ss_socket_inode s"
  "ss_socket_identity_valid (account_connection_request_count c s) = ss_socket_identity_valid s"
  "ss_stopped (account_connection_request_count c s) = ss_stopped s"
  "ss_run_started (account_connection_request_count c s) = ss_run_started s"
  "ss_run_active (account_connection_request_count c s) = ss_run_active s"
  "ss_handler_registry (account_connection_request_count c s) = ss_handler_registry s"
  "ss_not_found_handler (account_connection_request_count c s) = ss_not_found_handler s"
  "ss_pending_jobs (account_connection_request_count c s) = ss_pending_jobs s"
  "ss_workers_stopping (account_connection_request_count c s) = ss_workers_stopping s"
  "ss_pending_serialized (account_connection_request_count c s) = ss_pending_serialized s"
  "ss_default_domain (account_connection_request_count c s) = ss_default_domain s"
  "ss_named_domains (account_connection_request_count c s) = ss_named_domains s"
  "ss_active_domain_count (account_connection_request_count c s) = ss_active_domain_count s"
  "ss_busy_domain_count (account_connection_request_count c s) = ss_busy_domain_count s"
  "ss_serialized_stopping (account_connection_request_count c s) = ss_serialized_stopping s"
  "ss_serialized_worker_count (account_connection_request_count c s) = ss_serialized_worker_count s"
  "ss_max_serialized_concurrency (account_connection_request_count c s) = ss_max_serialized_concurrency s"
  "ss_reactor_error (account_connection_request_count c s) = ss_reactor_error s"
  "ss_connections (account_connection_request_count c s) = ss_connections s"
  "ss_resumed_connections (account_connection_request_count c s) = ss_resumed_connections s"
  "ss_counters (account_connection_request_count c s) = ss_counters s"
  "ss_rcs (account_connection_request_count c s) = ss_rcs s"
  "ss_flags (account_connection_request_count c s) = ss_flags s"
  "ss_world (account_connection_request_count c s) = ss_world s"
  "cn_fd (ss_conns (account_connection_request_count c s) x) = cn_fd (ss_conns s x)"
  "cn_peer (ss_conns (account_connection_request_count c s) x) = cn_peer (ss_conns s x)"
  "cn_stream_active (ss_conns (account_connection_request_count c s) x) = cn_stream_active (ss_conns s x)"
  "cn_worker_owned (ss_conns (account_connection_request_count c s) x) = cn_worker_owned (ss_conns s x)"
  "cn_closing (ss_conns (account_connection_request_count c s) x) = cn_closing (ss_conns s x)"
  "cn_session_capable (ss_conns (account_connection_request_count c s) x) = cn_session_capable (ss_conns s x)"
  "cn_wire_version (ss_conns (account_connection_request_count c s) x) = cn_wire_version (ss_conns s x)"
  "cn_cancellations (ss_conns (account_connection_request_count c s) x) = cn_cancellations (ss_conns s x)"
  "cn_active_regular (ss_conns (account_connection_request_count c s) x) = cn_active_regular (ss_conns s x)"
  "cn_pending_serialized (ss_conns (account_connection_request_count c s) x) = cn_pending_serialized (ss_conns s x)"
  "cn_inflight_request_bytes (ss_conns (account_connection_request_count c s) x) = cn_inflight_request_bytes (ss_conns s x)"
  "cn_last_io_progress (ss_conns (account_connection_request_count c s) x) = cn_last_io_progress (ss_conns s x)"
  "cn_last_output_progress (ss_conns (account_connection_request_count c s) x) = cn_last_output_progress (ss_conns s x)"
  "cn_queued_output_bytes (ss_conns (account_connection_request_count c s) x) = cn_queued_output_bytes (ss_conns s x)"
  "cn_output_queue (ss_conns (account_connection_request_count c s) x) = cn_output_queue (ss_conns s x)"
  by (simp_all add: account_connection_request_count_def)

text \<open>
  Dispatching does not touch the bytes read ahead, the frame header or the registration of a
  reactor connection.
\<close>

definition rc_kept :: "ServerState \<Rightarrow> ServerState \<Rightarrow> bool" where
  "rc_kept s s' \<longleftrightarrow> (\<forall>r. rc_pending (ss_rcs s' r) = rc_pending (ss_rcs s r) \<and>
     rc_pending_offset (ss_rcs s' r) = rc_pending_offset (ss_rcs s r) \<and>
     rc_header_received (ss_rcs s' r) = rc_header_received (ss_rcs s r) \<and>
     rc_header (ss_rcs s' r) = rc_header (ss_rcs s r) \<and>
     rc_phase (ss_rcs s' r) = rc_phase (ss_rcs s r) \<and>
     rc_conn (ss_rcs s' r) = rc_conn (ss_rcs s r) \<and>
     rc_generation (ss_rcs s' r) = rc_generation (ss_rcs s r))"

lemma rc_kept_refl [simp]: "rc_kept s s"
  by (simp add: rc_kept_def)

lemma rc_kept_trans: "rc_kept s s' \<Longrightarrow> rc_kept s' s'' \<Longrightarrow> rc_kept s s''"
  by (simp add: rc_kept_def)

lemma fold_rc_kept: "(\<And>x s. rc_kept s (f x s)) \<Longrightarrow> rc_kept s (fold f xs s)"
  by (induction xs arbitrary: s) (auto intro: rc_kept_trans)

lemma or_closing_rcs [simp]: "ss_rcs (or_closing c sr) = ss_rcs (fst sr)"
  by (cases sr; cases "snd sr") (simp_all add: or_closing_def)

lemma rc_kept_complete: "rc_kept s (complete_serialized c n s)"
  by (simp add: rc_kept_def complete_serialized_def Let_def)

lemma rc_kept_superseded: "rc_kept s (finish_superseded_job job s)"
proof -
  have "rc_kept s (or_closing c (write_error_response c i m d st (record_serialized_superseded s)))" for c i m d st
    by (simp add: rc_kept_def record_serialized_superseded_def)
  then show ?thesis
    unfolding finish_superseded_job_def Let_def by (rule rc_kept_trans) (rule rc_kept_complete)
qed

lemma rc_kept_drop_job: "rc_kept s (drop_job job s)"
  by (simp add: rc_kept_def drop_job_def)

lemma scheduler_rcs [simp]:
  "ss_rcs (activity_upd d f s) = ss_rcs s"
  "ss_rcs (serialized_domain_activity d s) = ss_rcs s"
  "ss_rcs (fst (ensure_serialized_worker_count n s)) = ss_rcs s"
  "ss_rcs (account_serialized a b job s) = ss_rcs s"
  by (simp_all add: activity_upd_def serialized_domain_activity_def ensure_serialized_worker_count_def
      account_serialized_def Let_def split: option.split)

lemma insert_serialized_rcs [simp]: "ss_rcs (fst (insert_serialized sched job s)) = ss_rcs s"
  by (simp add: insert_serialized_def Let_def split_beta)

lemma admit_serialized_rcs [simp]: "ss_rcs (fst (admit_serialized_job sched job a b s)) = ss_rcs s"
  by (simp add: admit_serialized_job_def record_serialized_busy_rejection_def Let_def split_beta)

lemma rc_kept_enqueue: "rc_kept s (fst (enqueue_serialized_job job a b s))"
proof (cases "route_scheduling (sj_handler job)")
  case (Inr sched)
  obtain s1 x gone where r: "admit_serialized_job sched job a b s = (s1, x, gone)" by (metis prod_cases3)
  have "ss_rcs s1 = ss_rcs s" using admit_serialized_rcs [of sched job a b s] r by simp
  then have "rc_kept s s1" by (simp add: rc_kept_def)
  moreover have "rc_kept s1 (fold drop_job gone (fold finish_superseded_job gone s1))"
    by (rule rc_kept_trans [OF fold_rc_kept [OF rc_kept_superseded] fold_rc_kept [OF rc_kept_drop_job]])
  ultimately show ?thesis
    using rc_kept_trans by (simp add: enqueue_serialized_job_def Inr r)
qed (simp add: enqueue_serialized_job_def)

lemma rc_kept_rc_upd:
  assumes "\<And>rc. rc_pending (f rc) = rc_pending rc" "\<And>rc. rc_pending_offset (f rc) = rc_pending_offset rc"
    "\<And>rc. rc_header_received (f rc) = rc_header_received rc" "\<And>rc. rc_header (f rc) = rc_header rc"
    "\<And>rc. rc_phase (f rc) = rc_phase rc" "\<And>rc. rc_conn (f rc) = rc_conn rc"
    "\<And>rc. rc_generation (f rc) = rc_generation rc"
  shows "rc_kept s (rc_upd r f s)"
  using assms by (simp add: rc_kept_def)

lemma enqueue_worker_rcs:
  "rc_kept s (fst (enqueue_worker_job c q a d h k st rb bf bo s))"
  by (simp add: enqueue_worker_job_def rc_kept_def Let_def)

lemma rc_kept_undo: "rc_kept s (if b then release_connection_request_bytes c n s else s)"
  by (simp add: rc_kept_def)

lemma rc_kept_pause: "rc_kept s (fst (pause_connection_reads_if_needed r s))"
  by (simp add: rc_kept_def)

lemma rc_kept_error: "rc_kept s (fst (write_error_response c i m d st s))"
  by (simp add: rc_kept_def)

lemma rc_kept_conn_upd: "rc_kept s (conn_upd c f s)"
  by (simp add: rc_kept_def)

lemma rc_kept_dispatch_serialized: "rc_kept s (fst (dispatch_serialized r job s))"
proof -
  let ?c = "rc_conn (ss_rcs s r)" and ?b = "so_max_total_inflight_bytes (ss_options s) \<noteq> 0"
  let ?s0 = "rc_upd r (\<lambda>rc. rc\<lparr>rc_reserved_request_bytes := 0\<rparr>) s"
  let ?u = "\<lambda>s'. if ?b then release_connection_request_bytes ?c (rc_payload_total (ss_rcs s r)) s' else s'"
  obtain s1 x where e: "enqueue_serialized_job job True ?b ?s0 = (s1, x)" by fastforce
  have k0: "rc_kept s ?s0" by (rule rc_kept_rc_upd) simp_all
  have k1: "rc_kept s s1"
    using rc_kept_trans [OF k0 rc_kept_enqueue [of ?s0 job True ?b]] e by simp
  have ku: "rc_kept s (?u s1)" using rc_kept_trans [OF k1 rc_kept_undo] .
  note u = dispatch_serialized_def [of r job s, unfolded Let_def e prod.case]
  consider (thrown) y where "x = Inl y" | (busy) "x = Inr SA_busy" | (stopping) "x = Inr SA_stopping"
    | (accepted) "x = Inr SA_accepted"
    by (cases x) (auto, metis SerializedAdmission.exhaust)
  then show ?thesis
  proof cases
    case thrown
    then show ?thesis using rc_kept_trans [OF ku rc_kept_drop_job] by (simp add: u)
  next
    case stopping
    then show ?thesis
      using rc_kept_trans [OF rc_kept_trans [OF ku rc_kept_conn_upd] rc_kept_drop_job] by (simp add: u)
  next
    case accepted
    then show ?thesis using rc_kept_trans [OF k1 rc_kept_pause] by (simp add: u split_beta)
  next
    case busy
    obtain s2 y where w: "write_error_response ?c (rq_request_id (sj_request job))
        (str ''serialization domain is busy'') deadline_max status_conflict (?u s1) = (s2, y)" by fastforce
    have k2: "rc_kept s s2"
      using rc_kept_trans [OF ku rc_kept_error] w by (metis fst_conv)
    show ?thesis
      using busy w rc_kept_trans [OF k2 rc_kept_drop_job]
        rc_kept_trans [OF rc_kept_trans [OF k2 rc_kept_pause] rc_kept_drop_job]
      by (cases y) (simp_all add: u split_beta)
  qed
qed

lemma rc_kept_dispatch_regular: "rc_kept s (fst (dispatch_regular r q h k s))"
proof -
  let ?c = "rc_conn (ss_rcs s r)" and ?b = "so_max_total_inflight_bytes (ss_options s) \<noteq> 0"
  define s0 where "s0 = rc_upd r (\<lambda>rc. rc\<lparr>rc_reserved_request_bytes := 0\<rparr>)
    (if rq_request_id q \<noteq> 0 then conn_upd ?c (\<lambda>cn. cn\<lparr>cn_session_capable := True\<rparr>) s else s)"
  have k0: "rc_kept s s0" by (simp add: s0_def rc_kept_def)
  have opt: "ss_options s0 = ss_options s" by (simp add: s0_def)
  obtain s1 b where e: "enqueue_worker_job ?c q (rc_arrival_time (ss_rcs s0 r)) (rc_deadline (ss_rcs s0 r))
      (Some h) k False ?b [] 0 s0 = (s1, b)" by fastforce
  have k1: "rc_kept s s1"
    using rc_kept_trans [OF k0 enqueue_worker_rcs] e by (metis fst_conv)
  have "dispatch_regular r q h k s = (case (s1, b) of (s, False) \<Rightarrow> (conn_upd ?c (\<lambda>cn. cn\<lparr>cn_closing := True\<rparr>) s, Inr False)
     | (s, True) \<Rightarrow> (case pause_connection_reads_if_needed r s of (s, paused) \<Rightarrow> (s, Inr paused)))"
    using e by (cases "rq_request_id q = 0") (simp_all add: dispatch_regular_def Let_def s0_def)
  then show ?thesis
    using rc_kept_trans [OF k1 rc_kept_conn_upd] rc_kept_trans [OF k1 rc_kept_pause]
    by (cases b) (simp_all add: split_beta)
qed

lemma register_cancellation_rcs [simp]: "ss_rcs (fst (register_cancellation c i v f s)) = ss_rcs s"
  by (simp add: register_cancellation_def Let_def)

lemma rc_kept_dispatch: "rc_kept s (fst (dispatch_request shard flag r s))"
proof -
  define s0 where "s0 = rc_upd r (\<lambda>rc. rc\<lparr>rc_route_buffer := [], rc_body_buffer := []\<rparr>) (record_fixed_request shard s)"
  have k0: "rc_kept s s0" by (simp add: s0_def rc_kept_def record_fixed_request_def)
  obtain s1 cancelled where e: "register_cancellation (rc_conn (ss_rcs s r)) (rc_request_id (ss_rcs s r))
      (cn_wire_version (ss_conns s0 (rc_conn (ss_rcs s r)))) flag s0 = (s1, cancelled)" by fastforce
  have "ss_rcs s1 = ss_rcs s0" using register_cancellation_rcs e by (metis fst_conv)
  define s2 where "s2 = rc_upd r (\<lambda>rc. rc\<lparr>rc_capabilities := no_capabilities\<rparr>) s1"
  have "rc_kept s0 s2"
    using \<open>ss_rcs s1 = ss_rcs s0\<close> by (simp add: rc_kept_def s2_def)
  note k = rc_kept_trans [OF k0 this]
  have ser: "rc_kept s (fst (dispatch_serialized r job s2))" for job
    using k rc_kept_dispatch_serialized by (rule rc_kept_trans)
  have reg: "rc_kept s (fst (dispatch_regular r q h c s2))" for q h c
    using k rc_kept_dispatch_regular by (rule rc_kept_trans)
  have rf: "ss_rcs (record_fixed_request shard s) = ss_rcs s"
    by (simp add: record_fixed_request_def)
  show ?thesis
    unfolding dispatch_request_def Let_def rf s0_def [symmetric] Request.select_convs e prod.case
      s2_def [symmetric]
    by (simp add: ser reg)
qed

end
