(* ===== verification/ParseLoop.thy ===== *)
theory ParseLoop
  imports ParserFrames
begin

text \<open>
  The parse loop ends: every round that continues consumes bytes of the read-ahead buffer or
  leaves a payload phase. \<^verbatim>\<open>consume\<close> composes the admission that is still due, the read-ahead
  and the parse loop.
\<close>

subsection \<open>The loop ends\<close>

definition parse_measure :: "ReactorConnection \<Rightarrow> nat" where
  "parse_measure rc = 2 * available rc + (if rc_phase rc = PP_header then 0 else 1) +
     (if rc_header_received rc = header_size then 2 else 0)"

lemma available_release [simp]: "available (release_consumed_pending b rc) = available rc"
  by (simp add: available_def release_consumed_pending_def)

lemma release_consumed_frame [simp]:
  "rc_phase (release_consumed_pending b rc) = rc_phase rc"
  "rc_header_received (release_consumed_pending b rc) = rc_header_received rc"
  "rc_header (release_consumed_pending b rc) = rc_header rc"
  "rc_payload_received (release_consumed_pending b rc) = rc_payload_received rc"
  "rc_payload_total (release_consumed_pending b rc) = rc_payload_total rc"
  "rc_route_buffer (release_consumed_pending b rc) = rc_route_buffer rc"
  "rc_body_buffer (release_consumed_pending b rc) = rc_body_buffer rc"
  "rc_arg1 (release_consumed_pending b rc) = rc_arg1 rc"
  "rc_conn (release_consumed_pending b rc) = rc_conn rc"
  "rc_request_id (release_consumed_pending b rc) = rc_request_id rc"
  by (simp_all add: release_consumed_pending_def)

lemma take_header_available:
  "available (take_header_bytes rc) = available rc - min (available rc) (header_size - rc_header_received rc)"
  "rc_header_received (take_header_bytes rc) =
     rc_header_received rc + min (available rc) (header_size - rc_header_received rc)"
  "rc_phase (take_header_bytes rc) = rc_phase rc"
  by (simp_all add: take_header_bytes_def available_def Let_def)

lemma take_payload_available:
  "available (take_payload_bytes rc) \<le> available rc"
  "rc_header_received (take_payload_bytes rc) = rc_header_received rc"
  "rc_phase (take_payload_bytes rc) = rc_phase rc"
  by (simp_all add: take_payload_bytes_def available_def Let_def)

lemma start_arrival_rc:
  "available (ss_rcs (start_arrival r s) r) = available (ss_rcs s r)"
  "rc_header_received (ss_rcs (start_arrival r s) r) = rc_header_received (ss_rcs s r)"
  "rc_phase (ss_rcs (start_arrival r s) r) = rc_phase (ss_rcs s r)"
  by (simp_all add: start_arrival_def available_def split_beta)

text \<open>Accepting a header keeps the bytes read ahead.\<close>

definition same_position :: "nat \<Rightarrow> ServerState \<Rightarrow> ServerState \<Rightarrow> bool" where
  "same_position r s s' \<longleftrightarrow> available (ss_rcs s' r) = available (ss_rcs s r) \<and>
     rc_header_received (ss_rcs s' r) = rc_header_received (ss_rcs s r)"

lemma begin_request_payload_position: "same_position r s (fst (begin_request_payload r s))"
  by (simp add: begin_request_payload_def same_position_def available_def Let_def split_beta split: bool.split)

lemma begin_stream_route_position: "same_position r s (fst (begin_stream_route r s))"
  by (simp add: begin_stream_route_def same_position_def available_def Let_def split_beta split: bool.split)

lemma begin_result_state [simp]: "fst (begin_result sb) = fst sb"
  by (cases sb; cases "snd sb") (simp_all add: begin_result_def)

lemma same_position_trans: "same_position r s s' \<Longrightarrow> same_position r s' s'' \<Longrightarrow> same_position r s s''"
  by (simp add: same_position_def)

lemma same_position_rc_upd:
  assumes "\<And>rc. rc_pending (f rc) = rc_pending rc" "\<And>rc. rc_pending_offset (f rc) = rc_pending_offset rc"
    "\<And>rc. rc_header_received (f rc) = rc_header_received rc"
  shows "same_position r s (rc_upd r f s)"
  using assms by (simp add: same_position_def available_def)

lemma accept_request_position: "same_position r s (fst (accept_request_header h r s))"
proof -
  define s1 where "s1 = (if dh_flags h AND carries_fd_flag \<noteq> 0
    then rc_upd r (\<lambda>rc. rc\<lparr>rc_capabilities := (rc_capabilities rc)\<lparr>cap_received_fd := hd (rc_received_fds rc)\<rparr>,
           rc_received_fds := tl (rc_received_fds rc)\<rparr>) s else s)"
  have p1: "same_position r s s1" by (simp add: s1_def same_position_def available_def)
  let ?f = "\<lambda>rc. rc\<lparr>rc_request_id := dh_request_id h, rc_request_flags := dh_flags h,
     rc_arg1 := dh_arg1 h, rc_arg2 := dh_arg2 h, rc_payload_total := unat (dh_arg1 h) + unat (dh_arg2 h),
     rc_payload_received := 0, rc_phase := PP_request_budget\<rparr>"
  have "same_position r s1 (rc_upd r ?f s1)" by (rule same_position_rc_upd) simp_all
  note p2 = same_position_trans [OF same_position_trans [OF p1 this] begin_request_payload_position]
  show ?thesis
    unfolding accept_request_header_def Let_def s1_def [symmetric]
    using p1 p2 by (simp add: same_position_def split: sum.split)
qed

lemma accept_stream_position: "same_position r s (fst (accept_stream_header h r s))"
proof -
  define s1 where "s1 = rc_upd r (\<lambda>rc. rc\<lparr>rc_request_id := dh_request_id h, rc_arg1 := dh_arg1 h,
     rc_arg2 := 0, rc_phase := PP_stream_budget\<rparr>) s"
  obtain w d where e: "deadline_after (so_stream_timeout (ss_options s1)) (ss_world s1) = (w, d)" by fastforce
  have "same_position r s (rc_upd r (\<lambda>rc. rc\<lparr>rc_deadline := d\<rparr>) (s1\<lparr>ss_world := w\<rparr>))"
    by (simp add: s1_def same_position_def available_def)
  note p2 = same_position_trans [OF this begin_stream_route_position]
  show ?thesis
    unfolding accept_stream_header_def Let_def s1_def [symmetric] e prod.case
    using p2 by (simp add: same_position_def)
qed

lemma cancel_request_rcs [simp]: "ss_rcs (cancel_request c i s) = ss_rcs s"
  by (simp add: cancel_request_def split: option.split)

lemma accept_header_position: "same_position r s (fst (accept_header h r s))"
proof -
  let ?c = "rc_conn (ss_rcs s r)"
  define s1 where "s1 = (if cn_wire_version (ss_conns s ?c) = 0
    then conn_upd ?c (\<lambda>cn. cn\<lparr>cn_wire_version := dh_version h\<rparr>) s else s)"
  have p1: "same_position r s s1" by (simp add: s1_def same_position_def)
  have c: "same_position r s (rc_upd r (\<lambda>rc. rc\<lparr>rc_arrival_time := 0, rc_deadline := deadline_max\<rparr>)
      (cancel_request ?c (dh_request_id h) s1))"
    by (simp add: same_position_def available_def s1_def)
  show ?thesis
    unfolding accept_header_def Let_def s1_def [symmetric]
    using p1 c same_position_trans [OF p1 accept_request_position]
      same_position_trans [OF p1 accept_stream_position]
    by simp
qed

lemma parse_header_decreases:
  assumes "parse_header r s = (s', PS_continue)" "rc_phase (ss_rcs s r) = PP_header"
  shows "parse_measure (ss_rcs s' r) < parse_measure (ss_rcs s r)"
proof -
  let ?rc = "ss_rcs s r"
  define s1 where "s1 = rc_upd r take_header_bytes (start_arrival r s)"
  define s2 where "s2 = rc_upd r (release_consumed_pending (strict_budget s1))
    (rc_upd r (\<lambda>rc. rc\<lparr>rc_header_received := 0\<rparr>) s1)"
  let ?n = "min (available ?rc) (header_size - rc_header_received ?rc)"
  have a1: "available (ss_rcs s1 r) = available ?rc - ?n"
    "rc_header_received (ss_rcs s1 r) = rc_header_received ?rc + ?n"
    by (simp_all add: s1_def take_header_available start_arrival_rc)
  have sb: "strict_budget (rc_upd r f s1) = strict_budget s1" for f
    by (simp add: strict_budget_def)
  note u = assms(1) [unfolded parse_header_def Let_def s1_def [symmetric] sb s2_def [symmetric]]
  have full: "rc_header_received (ss_rcs s1 r) = header_size"
    using u by (cases "rc_header_received (ss_rcs s1 r) = header_size") simp_all
  obtain h where h: "accept_header h r s2 = (s', PS_continue)"
    using u full by (auto split: sum.splits)
  have "available (ss_rcs s2 r) = available ?rc - ?n" "rc_header_received (ss_rcs s2 r) = 0"
    using a1 by (simp_all add: s2_def) (simp add: available_def)
  then have e: "available (ss_rcs s' r) = available ?rc - ?n" "rc_header_received (ss_rcs s' r) = 0"
    using accept_header_position [of r s2 h] h by (simp_all add: same_position_def)
  have "rc_header_received ?rc + ?n = header_size" using full a1 by simp
  then have "(rc_header_received ?rc = header_size) \<or> (0 < ?n \<and> ?n \<le> available ?rc)"
    by (auto simp: header_size_def)
  then show ?thesis
    using e assms(2) by (auto simp: parse_measure_def header_size_def)
qed

lemma parse_payload_decreases:
  assumes "parse_payload shard alloc r s = (s', PS_continue)" "rc_phase (ss_rcs s r) \<noteq> PP_header"
  shows "parse_measure (ss_rcs s' r) < parse_measure (ss_rcs s r)"
proof -
  define s1 where "s1 = rc_upd r take_payload_bytes s"
  define s2 where "s2 = rc_upd r (release_consumed_pending (strict_budget s1)) s1"
  obtain s3 b where d: "dispatch_request shard (alloc s2) r s2 = (s3, Inr b)" "s' = rc_upd r after_dispatch s3"
    using assms(1)
    by (auto simp: parse_payload_def Let_def s1_def [symmetric] s2_def [symmetric]
        split: if_splits prod.splits sum.splits)
  have "rc_kept s2 s3" using rc_kept_dispatch [of s2 shard "alloc s2" r] d by simp
  then have "available (ss_rcs s3 r) = available (ss_rcs s2 r)"
    "rc_header_received (ss_rcs s3 r) = rc_header_received (ss_rcs s2 r)"
    by (simp_all add: rc_kept_def available_def)
  moreover have "available (after_dispatch rc) = available rc" "rc_phase (after_dispatch rc) = PP_header"
    "rc_header_received (after_dispatch rc) = rc_header_received rc" for rc
    by (simp_all add: after_dispatch_def available_def)
  ultimately show ?thesis
    using assms(2) take_payload_available [of "ss_rcs s r"]
    by (simp add: parse_measure_def d(2) s2_def s1_def)
qed

lemma parse_once_decreases:
  "parse_once shard alloc r s = (s', PS_continue) \<Longrightarrow>
     parse_measure (ss_rcs s' r) < parse_measure (ss_rcs s r)"
  using parse_header_decreases [of r s s'] parse_payload_decreases [of shard alloc r s s']
  by (auto simp: parse_once_def parse_route_def Let_def split: if_splits)

function parse_loop ::
  "nat \<Rightarrow> (ServerState \<Rightarrow> nat) \<Rightarrow> nat \<Rightarrow> ServerState \<Rightarrow> ServerState \<times> (exn + unit)" where
  "parse_loop shard alloc r s =
     (case parse_once shard alloc r s of
        (s, PS_continue) \<Rightarrow> parse_loop shard alloc r s
      | (s, PS_return) \<Rightarrow> (s, Inr ())
      | (s, PS_throw e) \<Rightarrow> (s, Inl e))"
  by pat_completeness auto
termination
  by (relation "measure (\<lambda>(shard, alloc, r, s). parse_measure (ss_rcs s r))")
    (auto dest!: parse_once_decreases [OF sym])

declare parse_loop.simps [simp del]

text \<open>\<^verbatim>\<open>consume\<close>: an admission that is still due, the read-ahead, and the parse loop.\<close>

definition consume ::
  "nat \<Rightarrow> (ServerState \<Rightarrow> nat) \<Rightarrow> nat \<Rightarrow> ServerState \<Rightarrow> ServerState \<times> (exn + unit)" where
  "consume shard alloc r s =
     (let (s, go) = (if rc_phase (ss_rcs s r) = PP_request_budget then begin_request_payload r s
                     else (s, True))
      in if \<not> go then (s, Inr ())
      else let (s, go) = (if rc_phase (ss_rcs s r) = PP_stream_budget then begin_stream_route r s
                          else (s, True))
      in if \<not> go then (s, Inr ())
      else case read_loop_fds r 0 s of
             (s, Read_throw e) \<Rightarrow> (s, Inl e)
           | (s, Read_closed) \<Rightarrow> (s, Inr ())
           | (s, Read_done) \<Rightarrow> parse_loop shard alloc r s)"

end
