(* ===== verification/ParserProps.thy ===== *)
theory ParserProps
  imports ParseLoop
begin

text \<open>
The parser's promises: a request frame that arrives in pieces is put together and dispatched as it was sent, and the parse loop ends after a bounded number of rounds.
\<close>

inductive parse_run :: "nat \<Rightarrow> (ServerState \<Rightarrow> nat) \<Rightarrow> nat \<Rightarrow> nat \<Rightarrow> ServerState \<Rightarrow> ServerState \<Rightarrow> bool"
  for shard alloc r where
  none: "parse_run shard alloc r 0 s s"
| round: "parse_run shard alloc r n s s1 \<Longrightarrow> parse_once shard alloc r s1 = (s2, PS_continue) \<Longrightarrow>
    parse_run shard alloc r (Suc n) s s2"

subsection \<open>Frames in pieces\<close>

text \<open>A fixed request on the wire.\<close>

definition request_header :: "u32 \<Rightarrow> bstring \<Rightarrow> bstring \<Rightarrow> byte \<Rightarrow> DecodedHeader" where
  "request_header i route body v =
     \<lparr>dh_type = WT_request, dh_request_id = i, dh_arg1 = word_of_nat (length route),
      dh_arg2 = word_of_nat (length body), dh_flags = 0, dh_version = v\<rparr>"

definition request_frame :: "u32 \<Rightarrow> bstring \<Rightarrow> bstring \<Rightarrow> byte \<Rightarrow> bstring" where
  "request_frame i route body v = encode_decoded (request_header i route body v) @ route @ body"

text \<open>
  The parser has taken the first \<open>p\<close> bytes of that frame: in the header phase they are in the
  header buffer, afterwards the header has been accepted and the rest is in the two payload
  buffers.
\<close>

definition receiving :: "u32 \<Rightarrow> bstring \<Rightarrow> bstring \<Rightarrow> byte \<Rightarrow> nat \<Rightarrow> ReactorConnection \<Rightarrow> bool" where
  "receiving i route body v p rc \<longleftrightarrow>
     rc_pending_offset rc \<le> length (rc_pending rc) \<and>
     p < header_size + length route + length body \<and>
     (if p < header_size
      then rc_phase rc = PP_header \<and> rc_header_received rc = p \<and> length (rc_header rc) = header_size \<and>
           take p (rc_header rc) = take p (request_frame i route body v)
      else rc_phase rc = PP_request_payload \<and> rc_request_id rc = i \<and>
           unat (rc_arg1 rc) = length route \<and> rc_payload_total rc = length route + length body \<and>
           rc_payload_received rc = p - header_size \<and>
           rc_route_buffer rc = take (p - header_size) route \<and>
           rc_body_buffer rc = take (p - header_size - length route) body)"

definition frame_accepted :: "ServerState \<Rightarrow> nat \<Rightarrow> bstring \<Rightarrow> bstring \<Rightarrow> byte \<Rightarrow> bool" where
  "frame_accepted s r route body v \<longleftrightarrow> \<not> strict_budget s \<and> route \<noteq> [] \<and>
     length route + length body \<le> so_max_message_size (ss_options s) \<and>
     so_max_message_size (ss_options s) \<le> max_wire_field \<and> v \<in> {version, cancellable_version} \<and>
     cn_wire_version (conn_of s r) \<in> {0, v}"

lemma length_request_frame:
  "length (request_frame i route body v) = header_size + length route + length body"
  by (simp add: request_frame_def encode_decoded_def)

lemma request_header_valid: "v \<in> {version, cancellable_version} \<Longrightarrow> valid_header (request_header i route body v)"
  by (auto simp: valid_header_def request_header_def)

lemma available_unparsed: "rc_pending_offset rc \<le> length (rc_pending rc) \<Longrightarrow> available rc = length (unparsed rc)"
  by (simp add: available_def unparsed_def)

lemma take_header_receiving:
  assumes h: "length (rc_header rc) = header_size" "rc_header_received rc = p" "p < header_size"
    "take p (rc_header rc) = take p f" "header_size \<le> length f" "rc_pending_offset rc \<le> length (rc_pending rc)"
    and c: "take (length f - p) (unparsed rc) = take (length (unparsed rc)) (drop p f)"
  defines "n \<equiv> min (length (unparsed rc)) (header_size - p)"
  shows "rc_header_received (take_header_bytes rc) = p + n"
    "length (rc_header (take_header_bytes rc)) = header_size"
    "take (p + n) (rc_header (take_header_bytes rc)) = take (p + n) f"
    "unparsed (take_header_bytes rc) = drop n (unparsed rc)"
    "rc_pending_offset (take_header_bytes rc) \<le> length (rc_pending (take_header_bytes rc))"
proof -
  have av: "available rc = length (unparsed rc)" using h(6) by (rule available_unparsed)
  have n: "n \<le> length (unparsed rc)" "p + n \<le> header_size" using h(3) by (simp_all add: n_def)
  have "take n (unparsed rc) = take n (take (length f - p) (unparsed rc))"
  proof -
    have "n \<le> length f - p" using n h(5) by linarith
    then show ?thesis by (simp add: min_def)
  qed
  also have "\<dots> = take n (drop p f)"
    using n(1) by (simp add: c min_def)
  finally have tn: "take n (unparsed rc) = take n (drop p f)" .
  have hd: "rc_header (take_header_bytes rc) = take p (rc_header rc) @ take n (unparsed rc) @ drop (p + n) (rc_header rc)"
    using h(2) av by (simp add: take_header_bytes_def n_def Let_def)
  show "rc_header_received (take_header_bytes rc) = p + n"
    using h(2) av by (simp add: take_header_available n_def)
  show "length (rc_header (take_header_bytes rc)) = header_size"
    unfolding hd using h(1,3) n by simp
  show "take (p + n) (rc_header (take_header_bytes rc)) = take (p + n) f"
    unfolding hd tn h(4) using h(3,5) n by (simp add: take_add)
  show "unparsed (take_header_bytes rc) = drop n (unparsed rc)"
    using h(2) av by (simp add: take_header_bytes_def unparsed_def n_def Let_def add.commute)
  show "rc_pending_offset (take_header_bytes rc) \<le> length (rc_pending (take_header_bytes rc))"
    using h(2,6) by (simp add: take_header_bytes_def Let_def available_def) 
qed

lemma start_arrival_form:
  "\<exists>a d w. start_arrival r s = rc_upd r (\<lambda>rc. rc\<lparr>rc_arrival_time := a, rc_deadline := d\<rparr>) (s\<lparr>ss_world := w\<rparr>)"
proof (cases "available (ss_rcs s r) \<noteq> 0 \<and> rc_arrival_time (ss_rcs s r) = 0")
  case True
  then show ?thesis
    by (cases "clock_now (ss_world s)") (auto simp: start_arrival_def clock_read_def)
next
  case False
  then have "start_arrival r s = rc_upd r (\<lambda>rc. rc\<lparr>rc_arrival_time := rc_arrival_time (ss_rcs s r),
      rc_deadline := rc_deadline (ss_rcs s r)\<rparr>) (s\<lparr>ss_world := ss_world s\<rparr>)"
    by (auto simp: start_arrival_def rc_upd_def)
  then show ?thesis by blast
qed

definition agrees :: "bstring \<Rightarrow> nat \<Rightarrow> bstring \<Rightarrow> bool" where
  "agrees f p u \<longleftrightarrow> take (length f - p) u = take (length u) (drop p f)"

text \<open>The state in which a round of the header phase takes its decision.\<close>

lemma parse_header_taken:
  assumes rec: "receiving i route body v p (ss_rcs s r)" and p: "p < header_size"
    and c: "agrees (request_frame i route body v) p (unparsed (ss_rcs s r))"
  defines "n \<equiv> min (length (unparsed (ss_rcs s r))) (header_size - p)"
  obtains s1 where "rc_upd r take_header_bytes (start_arrival r s) = s1"
    "rc_header_received (ss_rcs s1 r) = p + n" "length (rc_header (ss_rcs s1 r)) = header_size"
    "take (p + n) (rc_header (ss_rcs s1 r)) = take (p + n) (request_frame i route body v)"
    "unparsed (ss_rcs s1 r) = drop n (unparsed (ss_rcs s r))"
    "rc_pending_offset (ss_rcs s1 r) \<le> length (rc_pending (ss_rcs s1 r))"
    "rc_phase (ss_rcs s1 r) = PP_header" "rc_conn (ss_rcs s1 r) = rc_conn (ss_rcs s r)"
    "ss_options s1 = ss_options s" "ss_conns s1 = ss_conns s"
proof -
  obtain a d w where st: "start_arrival r s = rc_upd r (\<lambda>rc. rc\<lparr>rc_arrival_time := a, rc_deadline := d\<rparr>)
      (s\<lparr>ss_world := w\<rparr>)" using start_arrival_form by blast
  let ?rc = "(ss_rcs s r)\<lparr>rc_arrival_time := a, rc_deadline := d\<rparr>"
  have u: "unparsed ?rc = unparsed (ss_rcs s r)" by (simp add: unparsed_def)
  have h: "length (rc_header ?rc) = header_size" "rc_header_received ?rc = p" "p < header_size"
    "take p (rc_header ?rc) = take p (request_frame i route body v)"
    "header_size \<le> length (request_frame i route body v)" "rc_pending_offset ?rc \<le> length (rc_pending ?rc)"
    using rec p by (simp_all add: receiving_def length_request_frame)
  have c': "take (length (request_frame i route body v) - p) (unparsed ?rc) =
      take (length (unparsed ?rc)) (drop p (request_frame i route body v))"
    using c by (simp add: agrees_def u)
  note t = take_header_receiving [OF h c', unfolded u, folded n_def]
  have "rc_phase (take_header_bytes ?rc) = PP_header" "rc_conn (take_header_bytes ?rc) = rc_conn (ss_rcs s r)"
    using rec p by (simp_all add: take_header_bytes_def Let_def receiving_def)
  with t show thesis
    by (intro that [OF refl]) (simp_all add: st)
qed

lemma release_unparsed [simp]: "unparsed (release_consumed_pending b rc) = unparsed rc"
  by (simp add: release_consumed_pending_def unparsed_def)

lemma release_offset: "rc_pending_offset rc \<le> length (rc_pending rc) \<Longrightarrow>
    rc_pending_offset (release_consumed_pending b rc) \<le> length (rc_pending (release_consumed_pending b rc))"
  by (simp add: release_consumed_pending_def)

lemma parse_header_partial:
  assumes rec: "receiving i route body v p (ss_rcs s r)" and p: "p < header_size"
    and c: "agrees (request_frame i route body v) p (unparsed (ss_rcs s r))"
    and short: "length (unparsed (ss_rcs s r)) < header_size - p"
    and f: "frame_accepted s r route body v"
  shows "\<exists>s'. parse_header r s = (s', PS_return) \<and> frame_accepted s' r route body v \<and>
    unparsed (ss_rcs s' r) = [] \<and>
    receiving i route body v (p + length (unparsed (ss_rcs s r))) (ss_rcs s' r)"
proof -
  let ?u = "unparsed (ss_rcs s r)"
  have m: "min (length ?u) (header_size - p) = length ?u" using short by simp
  obtain s1 where s1: "rc_upd r take_header_bytes (start_arrival r s) = s1"
    "rc_header_received (ss_rcs s1 r) = p + length ?u" "length (rc_header (ss_rcs s1 r)) = header_size"
    "take (p + length ?u) (rc_header (ss_rcs s1 r)) = take (p + length ?u) (request_frame i route body v)"
    "unparsed (ss_rcs s1 r) = drop (length ?u) ?u" "rc_pending_offset (ss_rcs s1 r) \<le> length (rc_pending (ss_rcs s1 r))"
    "rc_phase (ss_rcs s1 r) = PP_header" "rc_conn (ss_rcs s1 r) = rc_conn (ss_rcs s r)"
    "ss_options s1 = ss_options s" "ss_conns s1 = ss_conns s"
    by (rule parse_header_taken [OF rec p c, unfolded m]) (rule that)
  have lt: "p + length ?u < header_size" using short by simp
  let ?s' = "rc_upd r (release_consumed_pending (strict_budget s1)) s1"
  have "parse_header r s = (?s', PS_return)"
    unfolding parse_header_def Let_def s1(1) using s1(2) lt by simp
  moreover have "receiving i route body v (p + length ?u) (ss_rcs ?s' r)"
    using s1 lt release_offset [OF s1(6)] by (simp add: receiving_def)
  moreover have "frame_accepted ?s' r route body v"
    using f s1(8,9,10) by (simp add: frame_accepted_def strict_budget_def)
  ultimately show ?thesis using s1(5) by simp
qed

lemma accept_own_header:
  fixes i :: u32
  assumes f: "frame_accepted s r route body v"
  defines "h \<equiv> request_header i route body v"
  shows "\<exists>s'. accept_header h r s = (s', PS_continue) \<and> frame_accepted s' r route body v \<and>
    ss_rcs s' r = (ss_rcs s r)\<lparr>rc_request_id := i, rc_request_flags := 0, rc_arg1 := dh_arg1 h,
      rc_arg2 := dh_arg2 h, rc_payload_total := length route + length body, rc_payload_received := 0,
      rc_phase := PP_request_payload, rc_route_buffer := [], rc_body_buffer := []\<rparr>"
proof -
  let ?c = "rc_conn (ss_rcs s r)"
  define s1 where "s1 = (if cn_wire_version (ss_conns s ?c) = 0
    then conn_upd ?c (\<lambda>cn. cn\<lparr>cn_wire_version := dh_version h\<rparr>) s else s)"
  have s1: "ss_rcs s1 = ss_rcs s" "ss_options s1 = ss_options s" "cn_wire_version (ss_conns s1 ?c) = v"
    using f by (auto simp: s1_def frame_accepted_def h_def request_header_def)
  have len: "unat (dh_arg1 h) = length route" "unat (dh_arg2 h) = length body"
    using f by (simp_all add: h_def request_header_def frame_accepted_def unat_of_nat max_wire_field_def)
  have val: "validate_request_lengths (length route) (length body) (so_max_message_size (ss_options s)) = Inr ()"
    using f by (simp add: validate_request_lengths_def frame_accepted_def max_wire_field_def) linarith
  let ?s2 = "rc_upd r (\<lambda>rc. rc\<lparr>rc_request_id := i, rc_request_flags := 0,
     rc_arg1 := dh_arg1 h, rc_arg2 := dh_arg2 h, rc_payload_total := length route + length body,
     rc_payload_received := 0, rc_phase := PP_request_budget\<rparr>) s1"
  let ?s3 = "rc_upd r (\<lambda>rc. rc\<lparr>rc_route_buffer := [], rc_body_buffer := [], rc_phase := PP_request_payload\<rparr>) ?s2"
  have "\<not> strict_budget ?s2" using f s1(2) by (simp add: strict_budget_def frame_accepted_def)
  then have "begin_request_payload r ?s2 = (?s3, True)"
    by (simp add: begin_request_payload_def Let_def)
  moreover have "dh_type h = WT_request" "dh_flags h = 0" "dh_version h = v" "dh_request_id h = i"
    by (simp_all add: h_def request_header_def)
  ultimately have "accept_header h r s = (?s3, PS_continue)"
    unfolding accept_header_def Let_def s1_def [symmetric]
    using s1 len val by (simp add: accept_request_header_def Let_def begin_result_def)
  moreover have "frame_accepted ?s3 r route body v"
    using f s1 by (simp add: frame_accepted_def strict_budget_def)
  ultimately show ?thesis using s1(1) by simp
qed

lemma parse_header_full:
  assumes rec: "receiving i route body v p (ss_rcs s r)" and p: "p < header_size"
    and c: "agrees (request_frame i route body v) p (unparsed (ss_rcs s r))"
    and long: "header_size - p \<le> length (unparsed (ss_rcs s r))"
    and f: "frame_accepted s r route body v"
  shows "\<exists>s'. parse_header r s = (s', PS_continue) \<and> frame_accepted s' r route body v \<and>
    unparsed (ss_rcs s' r) = drop (header_size - p) (unparsed (ss_rcs s r)) \<and>
    receiving i route body v header_size (ss_rcs s' r)"
proof -
  let ?h = "request_header i route body v"
  have m: "min (length (unparsed (ss_rcs s r))) (header_size - p) = header_size - p"
    "p + (header_size - p) = header_size" using long p by simp_all
  obtain s1 where s1: "rc_upd r take_header_bytes (start_arrival r s) = s1"
    "rc_header_received (ss_rcs s1 r) = header_size" "length (rc_header (ss_rcs s1 r)) = header_size"
    "take header_size (rc_header (ss_rcs s1 r)) = take header_size (request_frame i route body v)"
    "unparsed (ss_rcs s1 r) = drop (header_size - p) (unparsed (ss_rcs s r))"
    "rc_pending_offset (ss_rcs s1 r) \<le> length (rc_pending (ss_rcs s1 r))"
    "rc_conn (ss_rcs s1 r) = rc_conn (ss_rcs s r)" "ss_options s1 = ss_options s" "ss_conns s1 = ss_conns s"
    by (rule parse_header_taken [OF rec p c, unfolded m]) (rule that)
  have hd: "rc_header (ss_rcs s1 r) = encode_decoded ?h"
    using s1(3,4) by (simp add: request_frame_def encode_decoded_def)
  define s2 where "s2 = rc_upd r (release_consumed_pending (strict_budget s1))
    (rc_upd r (\<lambda>rc. rc\<lparr>rc_header_received := 0\<rparr>) s1)"
  have rc2: "unparsed (ss_rcs s2 r) = drop (header_size - p) (unparsed (ss_rcs s r))"
    "rc_pending_offset (ss_rcs s2 r) \<le> length (rc_pending (ss_rcs s2 r))"
    "rc_header (ss_rcs s2 r) = encode_decoded ?h"
    using s1(5) release_offset [of "(ss_rcs s1 r)\<lparr>rc_header_received := 0\<rparr>"] s1(6) hd
    by (simp_all add: s2_def) (simp add: unparsed_def)
  have f2: "frame_accepted s2 r route body v"
    using f s1(7,8,9) by (simp add: frame_accepted_def s2_def strict_budget_def)
  obtain s' where s': "accept_header ?h r s2 = (s', PS_continue)" "frame_accepted s' r route body v"
    "ss_rcs s' r = (ss_rcs s2 r)\<lparr>rc_request_id := i, rc_request_flags := 0, rc_arg1 := dh_arg1 ?h,
      rc_arg2 := dh_arg2 ?h, rc_payload_total := length route + length body, rc_payload_received := 0,
      rc_phase := PP_request_payload, rc_route_buffer := [], rc_body_buffer := []\<rparr>"
    using accept_own_header [OF f2] by blast
  have sb: "strict_budget (rc_upd r g s1) = strict_budget s1" for g by (simp add: strict_budget_def)
  have dec: "decode_header (encode_decoded ?h) = Inr ?h"
    using f by (intro decode_encode_valid request_header_valid) (simp add: frame_accepted_def)
  have "parse_header r s = (s', PS_continue)"
    unfolding parse_header_def Let_def s1(1) sb s2_def [symmetric]
    using s1(2) rc2(3) dec s'(1) by simp
  moreover have "unat (dh_arg1 ?h) = length route" "route \<noteq> []"
    using f by (simp_all add: request_header_def frame_accepted_def unat_of_nat max_wire_field_def)
  then have "receiving i route body v header_size (ss_rcs s' r)"
    using rc2(2) by (simp add: receiving_def s'(3) unparsed_def)
  moreover have "unparsed (ss_rcs s' r) = drop (header_size - p) (unparsed (ss_rcs s r))"
    using rc2(1) by (simp add: s'(3) unparsed_def)
  ultimately show ?thesis using s'(2) by blast
qed

lemma payload_split:
  fixes route body u :: "byte list"
  assumes u: "take n u = take n (drop k (route @ body))" and n: "n \<le> length u"
  defines "m \<equiv> min n (length route - min k (length route))"
  shows "take k route @ take m u = take (k + n) route"
    "take (k - length route) body @ take (n - m) (drop m u) = take (k + n - length route) body"
proof -
  have m: "m = min n (length route - k)" by (auto simp: m_def)
  have "take m u = take m (take n u)" by (simp add: m)
  also have "\<dots> = take m (drop k route)" unfolding u by (simp add: m min_def)
  finally show "take k route @ take m u = take (k + n) route"
    unfolding take_add by (simp add: m min_def)
  have d: "take (n - m) (drop m u) = drop m (take n u)" by (simp add: drop_take)
  show "take (k - length route) body @ take (n - m) (drop m u) = take (k + n - length route) body"
  proof (cases "k \<le> length route")
    case True
    then show ?thesis unfolding d u by (cases "n \<le> length route - k") (simp_all add: m add.commute)
  next
    case False
    then have e: "m = 0" "k + n - length route = (k - length route) + n" by (simp_all add: m)
    have "take n u = take n (drop (k - length route) body)" unfolding u using False by simp
    then show ?thesis unfolding e take_add by simp
  qed
qed

lemma take_payload_receiving:
  assumes rec: "receiving i route body v p rc" and p: "header_size \<le> p"
    and c: "agrees (request_frame i route body v) p (unparsed rc)"
  defines "n \<equiv> min (length (unparsed rc)) (header_size + length route + length body - p)"
  shows "rc_payload_received (take_payload_bytes rc) = p - header_size + n"
    "rc_route_buffer (take_payload_bytes rc) = take (p - header_size + n) route"
    "rc_body_buffer (take_payload_bytes rc) = take (p - header_size + n - length route) body"
    "unparsed (take_payload_bytes rc) = drop n (unparsed rc)"
    "rc_pending_offset (take_payload_bytes rc) \<le> length (rc_pending (take_payload_bytes rc))"
proof -
  let ?u = "unparsed rc" and ?k = "p - header_size"
  have r: "unat (rc_arg1 rc) = length route" "rc_payload_total rc = length route + length body"
    "rc_payload_received rc = ?k" "rc_route_buffer rc = take ?k route"
    "rc_body_buffer rc = take (?k - length route) body" "rc_pending_offset rc \<le> length (rc_pending rc)"
    using rec p by (simp_all add: receiving_def)
  have av: "available rc = length ?u" using r(6) by (rule available_unparsed)
  have n: "min (available rc) (rc_payload_total rc - rc_payload_received rc) = n"
    using p by (simp add: av r n_def)
  have le: "n \<le> length ?u" "n \<le> length (request_frame i route body v) - p"
    by (simp_all add: n_def length_request_frame)
  have "take n ?u = take n (take (length (request_frame i route body v) - p) ?u)"
    using le by (simp add: min_def)
  also have "\<dots> = take n (drop p (request_frame i route body v))"
    using c le by (simp add: agrees_def min_def)
  also have "drop p (request_frame i route body v) = drop ?k (route @ body)"
    using p by (simp add: request_frame_def encode_decoded_def)
  finally have tn: "take n ?u = take n (drop ?k (route @ body))" .
  have m: "unat (rc_arg1 rc) - length (rc_route_buffer rc) = length route - min ?k (length route)"
    by (simp add: r min_def)
  note sp = payload_split [OF tn le(1)]
  note u = take_payload_bytes_def [of rc, unfolded Let_def n m]
  show "rc_payload_received (take_payload_bytes rc) = ?k + n" by (simp add: u r(3))
  show "rc_route_buffer (take_payload_bytes rc) = take (?k + n) route"
    using sp(1) by (simp add: u r(4))
  show "rc_body_buffer (take_payload_bytes rc) = take (?k + n - length route) body"
    using sp(2) by (simp add: u r(5))
  show "unparsed (take_payload_bytes rc) = drop n ?u"
    by (simp add: u unparsed_def add.commute)
  show "rc_pending_offset (take_payload_bytes rc) \<le> length (rc_pending (take_payload_bytes rc))"
    using le(1) r(6) by (simp add: u unparsed_def)
qed

text \<open>A round of the payload phase.\<close>

lemma take_payload_keeps:
  "rc_phase (take_payload_bytes rc) = rc_phase rc" "rc_request_id (take_payload_bytes rc) = rc_request_id rc"
  "rc_arg1 (take_payload_bytes rc) = rc_arg1 rc" "rc_conn (take_payload_bytes rc) = rc_conn rc"
  "rc_payload_total (take_payload_bytes rc) = rc_payload_total rc"
  by (simp_all add: take_payload_bytes_def Let_def)

lemma payload_round:
  assumes rec: "receiving i route body v p (ss_rcs s r)" and p: "header_size \<le> p"
    and c: "agrees (request_frame i route body v) p (unparsed (ss_rcs s r))"
    and f: "frame_accepted s r route body v"
  defines "s1 \<equiv> rc_upd r take_payload_bytes s"
  defines "s2 \<equiv> rc_upd r (release_consumed_pending (strict_budget s1)) s1"
  defines "q \<equiv> min (p + length (unparsed (ss_rcs s r))) (header_size + length route + length body)"
  shows "frame_accepted s2 r route body v" "rc_pending_offset (ss_rcs s2 r) \<le> length (rc_pending (ss_rcs s2 r))"
    "rc_request_id (ss_rcs s2 r) = i" "rc_phase (ss_rcs s2 r) = PP_request_payload"
    "unat (rc_arg1 (ss_rcs s2 r)) = length route"
    "rc_payload_total (ss_rcs s2 r) = length route + length body"
    "rc_payload_received (ss_rcs s2 r) = q - header_size"
    "rc_route_buffer (ss_rcs s2 r) = take (q - header_size) route"
    "rc_body_buffer (ss_rcs s2 r) = take (q - header_size - length route) body"
    "unparsed (ss_rcs s2 r) = drop (header_size + length route + length body - p) (unparsed (ss_rcs s r))"
proof -
  note t = take_payload_receiving [OF rec p c]
  have lt: "p < header_size + length route + length body" using rec by (simp add: receiving_def)
  have q: "p - header_size + min (length (unparsed (ss_rcs s r))) (header_size + length route + length body - p) =
      q - header_size" using p lt by (simp add: q_def)
  show "frame_accepted s2 r route body v"
    using f by (simp add: s2_def s1_def frame_accepted_def strict_budget_def take_payload_keeps)
  show "rc_pending_offset (ss_rcs s2 r) \<le> length (rc_pending (ss_rcs s2 r))"
    using release_offset [OF t(5)] by (simp add: s2_def s1_def)
  show "rc_request_id (ss_rcs s2 r) = i" "rc_phase (ss_rcs s2 r) = PP_request_payload"
    "unat (rc_arg1 (ss_rcs s2 r)) = length route"
    "rc_payload_total (ss_rcs s2 r) = length route + length body"
    using rec p by (simp_all add: s2_def s1_def take_payload_keeps receiving_def)
  show "rc_payload_received (ss_rcs s2 r) = q - header_size"
    "rc_route_buffer (ss_rcs s2 r) = take (q - header_size) route"
    "rc_body_buffer (ss_rcs s2 r) = take (q - header_size - length route) body"
    using t(1,2,3) by (simp_all add: s2_def s1_def q)
  show "unparsed (ss_rcs s2 r) = drop (header_size + length route + length body - p) (unparsed (ss_rcs s r))"
    using t(4) by (simp add: s2_def s1_def min_def)
qed

lemma parse_payload_partial:
  assumes rec: "receiving i route body v p (ss_rcs s r)" and p: "header_size \<le> p"
    and c: "agrees (request_frame i route body v) p (unparsed (ss_rcs s r))"
    and f: "frame_accepted s r route body v"
    and short: "p + length (unparsed (ss_rcs s r)) < header_size + length route + length body"
  shows "\<exists>s'. parse_payload shard alloc r s = (s', PS_return) \<and> frame_accepted s' r route body v \<and>
    unparsed (ss_rcs s' r) = [] \<and>
    receiving i route body v (p + length (unparsed (ss_rcs s r))) (ss_rcs s' r)"
proof -
  define s1 where "s1 = rc_upd r take_payload_bytes s"
  define s2 where "s2 = rc_upd r (release_consumed_pending (strict_budget s1)) s1"
  have m: "min (p + length (unparsed (ss_rcs s r))) (header_size + length route + length body) =
      p + length (unparsed (ss_rcs s r))" using short by simp
  note t = payload_round [OF rec p c f, folded s1_def, folded s2_def, unfolded m]
  have "rc_payload_received (ss_rcs s2 r) \<noteq> rc_payload_total (ss_rcs s2 r)"
    unfolding t(6,7) using p short by linarith
  then have "parse_payload shard alloc r s = (s2, PS_return)"
    unfolding parse_payload_def Let_def s1_def [symmetric] s2_def [symmetric] by simp
  moreover have "receiving i route body v (p + length (unparsed (ss_rcs s r))) (ss_rcs s2 r)"
    using t p short by (simp add: receiving_def)
  ultimately show ?thesis using t(1,10) short by auto
qed

definition delivered :: "u32 \<Rightarrow> bstring \<Rightarrow> bstring \<Rightarrow> bstring \<Rightarrow> ReactorConnection \<Rightarrow> bool" where
  "delivered i route body rest rc \<longleftrightarrow> rc_request_id rc = i \<and> rc_route_buffer rc = route \<and>
     rc_body_buffer rc = body \<and> rc_payload_total rc = length route + length body \<and> unparsed rc = rest"

text \<open>What the parse loop does with a request it has put together.\<close>

definition dispatched ::
  "nat \<Rightarrow> (ServerState \<Rightarrow> nat) \<Rightarrow> nat \<Rightarrow> ServerState \<Rightarrow> ServerState \<times> (exn + unit)" where
  "dispatched shard alloc r s =
     (case dispatch_request shard (alloc s) r s of
        (s, Inl e) \<Rightarrow> (s, Inl e)
      | (s, Inr paused) \<Rightarrow>
          let s = rc_upd r after_dispatch s
          in if paused then (s, Inr ()) else parse_loop shard alloc r s)"

lemma parse_payload_full:
  assumes rec: "receiving i route body v p (ss_rcs s r)" and p: "header_size \<le> p"
    and c: "agrees (request_frame i route body v) p (unparsed (ss_rcs s r))"
    and f: "frame_accepted s r route body v"
    and long: "header_size + length route + length body \<le> p + length (unparsed (ss_rcs s r))"
  shows "\<exists>s'. parse_loop shard alloc r s = dispatched shard alloc r s' \<and>
    delivered i route body (drop (header_size + length route + length body - p) (unparsed (ss_rcs s r))) (ss_rcs s' r)"
proof -
  define s1 where "s1 = rc_upd r take_payload_bytes s"
  define s2 where "s2 = rc_upd r (release_consumed_pending (strict_budget s1)) s1"
  have m: "min (p + length (unparsed (ss_rcs s r))) (header_size + length route + length body) =
      header_size + length route + length body" using long by simp
  note t = payload_round [OF rec p c f, folded s1_def, folded s2_def, unfolded m]
  have ph: "rc_phase (ss_rcs s r) = PP_request_payload" using rec p by (simp add: receiving_def)
  have "parse_loop shard alloc r s = dispatched shard alloc r s2"
    unfolding parse_loop.simps [of shard alloc r s] parse_once_def dispatched_def
      parse_payload_def Let_def s1_def [symmetric] s2_def [symmetric]
    using t(6,7) ph by (simp split: prod.splits sum.splits)
  moreover have "delivered i route body (drop (header_size + length route + length body - p)
      (unparsed (ss_rcs s r))) (ss_rcs s2 r)"
    using t by (simp add: delivered_def)
  ultimately show ?thesis by blast
qed

text \<open>The two outcomes of the parse loop on a piece of the frame.\<close>

lemma agrees_drop:
  "agrees f p u \<Longrightarrow> m \<le> length u \<Longrightarrow> p + m \<le> length f \<Longrightarrow> agrees f (p + m) (drop m u)"
  unfolding agrees_def by (metis (no_types, lifting) add.commute diff_diff_left drop_drop drop_take length_drop)

lemma parse_loop_partial:
  assumes rec: "receiving i route body v p (ss_rcs s r)"
    and c: "agrees (request_frame i route body v) p (unparsed (ss_rcs s r))"
    and f: "frame_accepted s r route body v"
    and short: "p + length (unparsed (ss_rcs s r)) < header_size + length route + length body"
  shows "\<exists>s'. parse_loop shard alloc r s = (s', Inr ()) \<and> frame_accepted s' r route body v \<and>
    unparsed (ss_rcs s' r) = [] \<and>
    receiving i route body v (p + length (unparsed (ss_rcs s r))) (ss_rcs s' r)"
proof -
  have payload: "\<exists>s'. parse_loop shard alloc r t = (s', Inr ()) \<and> frame_accepted s' r route body v \<and>
      unparsed (ss_rcs s' r) = [] \<and> receiving i route body v (q + length (unparsed (ss_rcs t r))) (ss_rcs s' r)"
    if a: "receiving i route body v q (ss_rcs t r)" "header_size \<le> q"
      "agrees (request_frame i route body v) q (unparsed (ss_rcs t r))" "frame_accepted t r route body v"
      "q + length (unparsed (ss_rcs t r)) < header_size + length route + length body" for q t
  proof -
    have "rc_phase (ss_rcs t r) = PP_request_payload" using a(1,2) by (simp add: receiving_def)
    then show ?thesis
      using parse_payload_partial [OF a, of shard alloc]
      by (auto simp: parse_loop.simps [of shard alloc r t] parse_once_def)
  qed
  show ?thesis
  proof (cases "p < header_size")
    case False
    then show ?thesis using payload [OF rec _ c f short] by simp
  next
    case True
    then have ph: "rc_phase (ss_rcs s r) = PP_header" using rec by (simp add: receiving_def)
    show ?thesis
    proof (cases "length (unparsed (ss_rcs s r)) < header_size - p")
      case short': True
      show ?thesis
        using parse_header_partial [OF rec True c short' f] ph
        by (auto simp: parse_loop.simps [of shard alloc r s] parse_once_def)
    next
      case False
      then have long: "header_size - p \<le> length (unparsed (ss_rcs s r))" by simp
      obtain s1 where s1: "parse_header r s = (s1, PS_continue)" "frame_accepted s1 r route body v"
        "unparsed (ss_rcs s1 r) = drop (header_size - p) (unparsed (ss_rcs s r))"
        "receiving i route body v header_size (ss_rcs s1 r)"
        using parse_header_full [OF rec True c long f] by blast
      have c1: "agrees (request_frame i route body v) header_size (unparsed (ss_rcs s1 r))"
        using agrees_drop [OF c long] True by (simp add: length_request_frame s1(3))
      have e: "header_size + length (unparsed (ss_rcs s1 r)) = p + length (unparsed (ss_rcs s r))"
        using True long by (simp add: s1(3))
      have "parse_loop shard alloc r s = parse_loop shard alloc r s1"
        by (simp add: parse_loop.simps [of shard alloc r s] parse_once_def ph s1(1))
      then show ?thesis
        using payload [OF s1(4) order_refl c1 s1(2)] short unfolding e by simp
    qed
  qed
qed

lemma parse_loop_full:
  assumes rec: "receiving i route body v p (ss_rcs s r)"
    and c: "agrees (request_frame i route body v) p (unparsed (ss_rcs s r))"
    and f: "frame_accepted s r route body v"
    and long: "header_size + length route + length body \<le> p + length (unparsed (ss_rcs s r))"
  shows "\<exists>s'. parse_loop shard alloc r s = dispatched shard alloc r s' \<and>
    delivered i route body (drop (header_size + length route + length body - p) (unparsed (ss_rcs s r))) (ss_rcs s' r)"
proof (cases "p < header_size")
  case False
  then show ?thesis using parse_payload_full [OF rec _ c f long] by simp
next
  case True
  then have ph: "rc_phase (ss_rcs s r) = PP_header" using rec by (simp add: receiving_def)
  have l: "header_size - p \<le> length (unparsed (ss_rcs s r))" using long by simp
  obtain s1 where s1: "parse_header r s = (s1, PS_continue)" "frame_accepted s1 r route body v"
    "unparsed (ss_rcs s1 r) = drop (header_size - p) (unparsed (ss_rcs s r))"
    "receiving i route body v header_size (ss_rcs s1 r)"
    using parse_header_full [OF rec True c l f] by blast
  have c1: "agrees (request_frame i route body v) header_size (unparsed (ss_rcs s1 r))"
    using agrees_drop [OF c l] True by (simp add: length_request_frame s1(3))
  have "header_size + length route + length body \<le> header_size + length (unparsed (ss_rcs s1 r))"
    using True l long by (simp add: s1(3))
  note d = parse_payload_full [OF s1(4) order_refl c1 s1(2) this, of shard alloc]
  have "parse_loop shard alloc r s = parse_loop shard alloc r s1"
    by (simp add: parse_loop.simps [of shard alloc r s] parse_once_def ph s1(1))
  moreover have "length route + length body + (header_size - p) = header_size + length route + length body - p"
    using True by simp
  ultimately show ?thesis using d unfolding s1(3) by simp
qed

subsection \<open>Reassembly\<close>

text \<open>The reactor's rounds for a connection on which the pieces arrive one after the other.\<close>

primrec feed ::
  "nat \<Rightarrow> (ServerState \<Rightarrow> nat) \<Rightarrow> nat \<Rightarrow> bstring list \<Rightarrow> ServerState \<Rightarrow> ServerState \<times> (exn + unit)" where
  "feed shard alloc r [] s = (s, Inr ())"
| "feed shard alloc r (d # ds) s =
     (case parse_loop shard alloc r (append_pending r d s) of
        (s, Inl e) \<Rightarrow> (s, Inl e)
      | (s, Inr _) \<Rightarrow> feed shard alloc r ds s)"

lemma mark_io_progress_keeps [simp]:
  "ss_rcs (mark_io_progress c s) = ss_rcs s" "ss_options (mark_io_progress c s) = ss_options s"
  "cn_wire_version (ss_conns (mark_io_progress c s) c') = cn_wire_version (ss_conns s c')"
  by (cases "clock_now (ss_world s)"; simp add: mark_io_progress_def clock_read_def)+

definition appended :: "bstring \<Rightarrow> ReactorConnection \<Rightarrow> ReactorConnection" where
  "appended d rc =
     (if rc_pending_offset rc \<noteq> 0 \<and> rc_pending_offset rc = length (rc_pending rc)
      then rc\<lparr>rc_pending := d, rc_pending_offset := 0\<rparr> else rc\<lparr>rc_pending := rc_pending rc @ d\<rparr>)"

lemma append_pending_rc: "ss_rcs (append_pending r d s) r = appended d (ss_rcs s r)"
  by (simp add: append_pending_def appended_def Let_def)

lemma append_pending_unparsed:
  "rc_pending_offset (ss_rcs s r) \<le> length (rc_pending (ss_rcs s r)) \<Longrightarrow>
     unparsed (ss_rcs (append_pending r d s) r) = unparsed (ss_rcs s r) @ d"
  by (simp add: append_pending_rc appended_def unparsed_def)

lemma append_pending_receiving:
  "receiving i route body v p (ss_rcs s r) \<Longrightarrow>
     receiving i route body v p (ss_rcs (append_pending r d s) r)"
  by (simp add: append_pending_rc appended_def receiving_def split: if_splits)

lemma append_pending_accepted:
  assumes "frame_accepted s r route body v"
  shows "frame_accepted (append_pending r d s) r route body v"
proof -
  have "rc_conn (ss_rcs (append_pending r d s) r) = rc_conn (ss_rcs s r)"
    by (simp add: append_pending_rc appended_def)
  moreover have "ss_options (append_pending r d s) = ss_options s"
    "cn_wire_version (ss_conns (append_pending r d s) c) = cn_wire_version (ss_conns s c)" for c
    by (simp_all add: append_pending_def Let_def)
  ultimately show ?thesis using assms by (simp add: frame_accepted_def strict_budget_def)
qed

lemma agrees_prefix:
  assumes "u @ w = drop p f @ rest"
  shows "agrees f p u"
proof -
  have "take (length u) (u @ w) = take (length u) (drop p f @ rest)"
    "take (length f - p) (u @ w) = take (length f - p) (drop p f @ rest)" by (simp_all add: assms)
  then show ?thesis
    by (cases "length u \<le> length f - p") (simp_all add: agrees_def)
qed

lemma feed_partial:
  assumes "receiving i route body v p (ss_rcs s r)" "unparsed (ss_rcs s r) = []"
    "frame_accepted s r route body v" "concat ds @ w = drop p (request_frame i route body v) @ rest"
    "p + length (concat ds) < header_size + length route + length body"
  shows "\<exists>s'. feed shard alloc r ds s = (s', Inr ()) \<and> frame_accepted s' r route body v \<and>
    unparsed (ss_rcs s' r) = [] \<and> receiving i route body v (p + length (concat ds)) (ss_rcs s' r)"
  using assms
proof (induction ds arbitrary: p s)
  case (Cons d ds)
  let ?t = "append_pending r d s" and ?f = "request_frame i route body v"
  have off: "rc_pending_offset (ss_rcs s r) \<le> length (rc_pending (ss_rcs s r))"
    using Cons.prems(1) by (simp add: receiving_def)
  have u: "unparsed (ss_rcs ?t r) = d" using append_pending_unparsed [OF off] Cons.prems(2) by simp
  have w: "d @ concat ds @ w = drop p ?f @ rest" using Cons.prems(4) by simp
  have c: "agrees ?f p (unparsed (ss_rcs ?t r))" unfolding u using w by (rule agrees_prefix)
  have lt: "p + length d < header_size + length route + length body" using Cons.prems(5) by simp
  obtain s1 where s1: "parse_loop shard alloc r ?t = (s1, Inr ())" "frame_accepted s1 r route body v"
    "unparsed (ss_rcs s1 r) = []" "receiving i route body v (p + length d) (ss_rcs s1 r)"
    using parse_loop_partial [OF append_pending_receiving [OF Cons.prems(1)] c
        append_pending_accepted [OF Cons.prems(3)]] lt unfolding u by blast
  have "concat ds @ w = drop (length d) (drop p ?f @ rest)" unfolding w [symmetric] by simp
  also have "\<dots> = drop (p + length d) ?f @ rest"
    using lt by (simp add: length_request_frame add.commute)
  finally have "concat ds @ w = drop (p + length d) ?f @ rest" .
  from Cons.IH [OF s1(4,3,2) this] Cons.prems(5) s1(1) show ?case by (simp add: add.assoc)
qed simp

lemma ready_receives:
  assumes "rc_phase rc = PP_header" "rc_header_received rc = 0" "length (rc_header rc) = header_size"
    "rc_pending_offset rc \<le> length (rc_pending rc)"
  shows "receiving i route body v 0 rc"
  using assms by (simp add: receiving_def header_size_def)

lemma reassembly:
  assumes "rc_phase (ss_rcs s r) = PP_header" "rc_header_received (ss_rcs s r) = 0"
    "length (rc_header (ss_rcs s r)) = header_size"
    "rc_pending_offset (ss_rcs s r) \<le> length (rc_pending (ss_rcs s r))"
    "unparsed (ss_rcs s r) = []" "frame_accepted s r route body v"
    and pieces: "concat ds @ d = request_frame i route body v @ rest"
    and last: "length (concat ds) < length (request_frame i route body v)"
  shows "\<exists>s1 s2. feed shard alloc r ds s = (s1, Inr ()) \<and>
    parse_loop shard alloc r (append_pending r d s1) = dispatched shard alloc r s2 \<and>
    delivered i route body rest (ss_rcs s2 r)"
proof -
  let ?f = "request_frame i route body v" and ?n = "length (concat ds)"
  have p0: "concat ds @ d = drop 0 ?f @ rest" "0 + ?n < header_size + length route + length body"
    using pieces last by (simp_all add: length_request_frame)
  obtain s1 where s1: "feed shard alloc r ds s = (s1, Inr ())" "frame_accepted s1 r route body v"
    "unparsed (ss_rcs s1 r) = []" "receiving i route body v ?n (ss_rcs s1 r)"
    using feed_partial [OF ready_receives [OF assms(1-4)] assms(5,6) p0] by auto
  have "rc_pending_offset (ss_rcs s1 r) \<le> length (rc_pending (ss_rcs s1 r))"
    using s1(4) by (simp add: receiving_def)
  then have u: "unparsed (ss_rcs (append_pending r d s1) r) = d"
    using append_pending_unparsed [of s1 r d] s1(3) by simp
  have "d = drop ?n (?f @ rest)" unfolding pieces [symmetric] by simp
  then have d: "d = drop ?n ?f @ rest" using last by simp
  have c: "agrees ?f ?n (unparsed (ss_rcs (append_pending r d s1) r))"
    unfolding u using agrees_prefix [of d "[]"] d by simp
  have len: "?n + length d = header_size + length route + length body + length rest"
    using arg_cong [OF pieces, of length] by (simp add: length_request_frame)
  have "drop (header_size + length route + length body - ?n) d = rest"
    using last unfolding d by (simp add: length_request_frame)
  then show ?thesis
    using parse_loop_full [OF append_pending_receiving [OF s1(4)] c append_pending_accepted [OF s1(2)],
        of shard alloc] s1(1) len unfolding u by auto
qed

text \<open>
  C9: a fixed request reaches the dispatcher with the identifier, the route and the body its
  sender wrote, in whatever pieces its frame arrives: every piece that does not complete the
  frame leaves the parser waiting, and the piece that completes it makes the parser dispatch
  exactly this request, with the bytes that follow the frame left for the next one.
\<close>

theorem request_reassembled:
  assumes "rc_phase (ss_rcs s r) = PP_header" "rc_header_received (ss_rcs s r) = 0"
    "length (rc_header (ss_rcs s r)) = header_size"
    "rc_pending_offset (ss_rcs s r) \<le> length (rc_pending (ss_rcs s r))"
    "unparsed (ss_rcs s r) = []" "frame_accepted s r route body v"
    and pieces: "concat ds @ d = request_frame i route body v @ rest"
    and last: "length (concat ds) < length (request_frame i route body v)"
  shows "\<exists>s1 s2. feed shard alloc r ds s = (s1, Inr ()) \<and>
    parse_loop shard alloc r (append_pending r d s1) = dispatched shard alloc r s2 \<and>
    delivered i route body rest (ss_rcs s2 r)"
  by (rule reassembly [OF assms])

text \<open>A fresh connection, and a small request cut after 5 and after 16 bytes.\<close>

definition parser_sample :: ServerState where
  "parser_sample = blank_state default_server_options"

definition sample_frame :: bstring where
  "sample_frame = request_frame 7 (str ''/a'') (str ''hi'') version"

lemma parser_sample_ready:
  "rc_phase (ss_rcs parser_sample 0) = PP_header" "rc_header_received (ss_rcs parser_sample 0) = 0"
  "length (rc_header (ss_rcs parser_sample 0)) = header_size"
  "rc_pending_offset (ss_rcs parser_sample 0) \<le> length (rc_pending (ss_rcs parser_sample 0))"
  "unparsed (ss_rcs parser_sample 0) = []"
  "frame_accepted parser_sample 0 (str ''/a'') (str ''hi'') version"
  by (simp_all add: parser_sample_def blank_state_def new_reactor_connection_def new_connection_def
      unparsed_def frame_accepted_def strict_budget_def default_server_options_def default_max_message_size_def
      max_wire_field_def str_def)

lemma sample_frame_length: "length sample_frame = 24"
  by (simp add: sample_frame_def length_request_frame header_size_def str_def)

lemma request_reassembled_witness:
  "\<exists>s1 s2. feed 0 (\<lambda>_. 0) 0 [take 5 sample_frame, take 11 (drop 5 sample_frame)] parser_sample = (s1, Inr ()) \<and>
     parse_loop 0 (\<lambda>_. 0) 0 (append_pending 0 (drop 16 sample_frame @ str ''E'') s1) = dispatched 0 (\<lambda>_. 0) 0 s2 \<and>
     delivered 7 (str ''/a'') (str ''hi'') (str ''E'') (ss_rcs s2 0)"
proof (rule request_reassembled [OF parser_sample_ready])
  have "take 5 sample_frame @ take 11 (drop 5 sample_frame) @ drop 11 (drop 5 sample_frame) = sample_frame"
    by (simp only: append_take_drop_id)
  then show "concat [take 5 sample_frame, take 11 (drop 5 sample_frame)] @ drop 16 sample_frame @ str ''E'' =
      request_frame 7 (str ''/a'') (str ''hi'') version @ str ''E''" by (simp add: sample_frame_def)
  show "length (concat [take 5 sample_frame, take 11 (drop 5 sample_frame)]) <
      length (request_frame 7 (str ''/a'') (str ''hi'') version)"
    unfolding sample_frame_def [symmetric] by (simp add: sample_frame_length)
qed

subsection \<open>The number of rounds\<close>

text \<open>
  C20: the parser cannot be made to spin: however the bytes read ahead look, the parse loop goes
  through at most twice as many continuing rounds as there are bytes, plus three.
\<close>

theorem parse_rounds_bounded:
  assumes "parse_run shard alloc r n s s'"
  shows "n \<le> 2 * length (rc_pending (ss_rcs s r)) + 3"
proof -
  have "n + parse_measure (ss_rcs s' r) \<le> parse_measure (ss_rcs s r)"
    using assms
  proof (induction rule: parse_run.induct)
    case (round n s s1 s2)
    with parse_once_decreases [OF round(2)] show ?case by simp
  qed simp
  moreover have "parse_measure (ss_rcs s r) \<le> 2 * length (rc_pending (ss_rcs s r)) + 3"
    by (auto simp: parse_measure_def available_def)
  ultimately show ?thesis by simp
qed

lemma parse_rounds_bounded_witness:
  "\<exists>s'. parse_run 0 (\<lambda>_. 0) 0 1 (append_pending 0 sample_frame parser_sample) s' \<and>
     1 \<le> 2 * length (rc_pending (ss_rcs (append_pending 0 sample_frame parser_sample) 0)) + 3"
proof -
  let ?s = "append_pending 0 sample_frame parser_sample"
  note rec = append_pending_receiving [OF ready_receives [OF parser_sample_ready(1-4)], of 7 "str ''/a''" "str ''hi''" version sample_frame]
  have u: "unparsed (ss_rcs ?s 0) = sample_frame"
    using append_pending_unparsed [OF parser_sample_ready(4)] parser_sample_ready(5) by simp
  have c: "agrees (request_frame 7 (str ''/a'') (str ''hi'') version) 0 (unparsed (ss_rcs ?s 0))"
    unfolding u by (simp add: agrees_def sample_frame_def)
  obtain s' where "parse_header 0 ?s = (s', PS_continue)"
    using parse_header_full [OF rec _ c _
        append_pending_accepted [OF parser_sample_ready(6)]]
    by (auto simp: u sample_frame_length header_size_def)
  moreover have "rc_phase (ss_rcs ?s 0) = PP_header" using rec by (simp add: receiving_def header_size_def)
  ultimately have run: "parse_run 0 (\<lambda>_. 0) 0 (Suc 0) ?s s'"
    by (intro parse_run.round [OF parse_run.none]) (simp add: parse_once_def)
  from parse_rounds_bounded [OF this] run show ?thesis by auto
qed

end
