(* ===== verification/Lease.thy ===== *)
theory Lease
  imports ParserProps
begin

text \<open>
  What a worker that holds the lease of a connection reads from and how it gives the connection
  back to the reactor (\<^verbatim>\<open>src/system/reactor/stream_io.hpp\<close> and \<^verbatim>\<open>rearm_connection\<close> of
  \<^verbatim>\<open>workers.cpp\<close>).
\<close>

subsection \<open>StreamByteSource\<close>

text \<open>
  The source reads the bytes the reactor had buffered first, then the socket. It refers to the
  owner's buffer and offset, so a read returns the new offset. The loop on the socket is that of
  \<open>read_direct\<close>: check the deadline, receive, wait when nothing is there.
\<close>

type_synonym source = "bstring \<times> nat"

definition source_read ::
  "fd \<Rightarrow> nat \<Rightarrow> msec \<Rightarrow> time \<Rightarrow> source \<Rightarrow> World \<Rightarrow> source \<times> World \<times> (exn + bstring)" where
  "source_read fd sz io_timeout deadline src w =
     (case src of (buffered, offset) \<Rightarrow>
        let n = (if offset < length buffered then min sz (length buffered - offset) else 0);
            out = take n (drop offset buffered)
        in case read_direct fd (sz - n) io_timeout deadline w of
             (w, Inl e) \<Rightarrow> ((buffered, offset + n), w, Inl e)
           | (w, Inr d) \<Rightarrow> ((buffered, offset + n), w, Inr (out @ d)))"

definition source_buffered :: "source \<Rightarrow> bool" where
  "source_buffered src \<longleftrightarrow> snd src < length (fst src)"

text \<open>The bytes a source will deliver.\<close>

definition source_bytes :: "fd \<Rightarrow> source \<Rightarrow> World \<Rightarrow> bstring" where
  "source_bytes fd src w = drop (snd src) (fst src) @ incoming w fd"

lemma source_read_exact:
  assumes "source_read fd sz t d src w = (src', w', Inr out)"
  shows "length out = sz" "source_bytes fd src w = out @ source_bytes fd src' w'"
    "w_sent w' = w_sent w"
proof -
  obtain b off where src: "src = (b, off)" by (cases src)
  define n where "n = (if off < length b then min sz (length b - off) else 0)"
  obtain d' where r: "read_direct fd (sz - n) t d w = (w', Inr d')" "src' = (b, off + n)"
    "out = take n (drop off b) @ d'"
    using assms by (auto simp: source_read_def src Let_def n_def [symmetric] split: prod.splits sum.splits)
  have n: "n \<le> sz" "n \<le> length b - off" by (auto simp: n_def)
  note x = read_direct_exact [OF r(1)]
  show "length out = sz" using x n by (simp add: r(3))
  show "w_sent w' = w_sent w" using x by simp
  have "drop off b = take n (drop off b) @ drop (off + n) b"
    by (metis append_take_drop_id drop_drop add.commute)
  moreover have "n < length b - off \<Longrightarrow> d' = []"
    using x by (auto simp: n_def split: if_splits)
  ultimately show "source_bytes fd src w = out @ source_bytes fd src' w'"
    using x n by (cases "n < length b - off") (simp_all add: source_bytes_def src r(2,3))
qed

lemma source_read_smooth:
  assumes "smooth w fd" "sz \<le> length (source_bytes fd src w)"
  shows "\<exists>src' w' out. source_read fd sz t deadline_max src w = (src', w', Inr out) \<and> smooth w' fd"
proof -
  obtain b off where src: "src = (b, off)" by (cases src)
  define n where "n = (if off < length b then min sz (length b - off) else 0)"
  have "sz - n \<le> length (incoming w fd)"
    using assms(2) by (auto simp: source_bytes_def src n_def)
  then obtain w' out where "read_direct fd (sz - n) t deadline_max w = (w', Inr out)" "smooth w' fd"
    using read_direct_smooth [OF assms(1) _ refl] by blast
  then show ?thesis by (simp add: source_read_def src Let_def n_def [symmetric])
qed

subsection \<open>rearm\_connection\<close>

definition on_world :: "(World \<Rightarrow> World \<times> 'r) \<Rightarrow> ServerState \<Rightarrow> ServerState \<times> 'r" where
  "on_world f s = (case f (ss_world s) of (w, r) \<Rightarrow> (s\<lparr>ss_world := w\<rparr>, r))"

text \<open>A parse state that is replaced closes the descriptors it never delivered.\<close>

definition discard_received :: "nat \<Rightarrow> ServerState \<Rightarrow> ServerState" where
  "discard_received r s =
     (let s = fold close_owned (rc_received_fds (ss_rcs s r)) s;
          s = drop_capabilities (rc_capabilities (ss_rcs s r)) s
      in rc_upd r (\<lambda>rc. rc\<lparr>rc_received_fds := [], rc_capabilities := no_capabilities\<rparr>) s)"

text \<open>The fields of the parse state the reactor gets back; the rest keeps its value.\<close>

definition rearmed :: "nat \<Rightarrow> u32 \<Rightarrow> bstring \<Rightarrow> nat \<Rightarrow> ReactorConnection \<Rightarrow> ReactorConnection" where
  "rearmed c generation buffered buffered_offset rc = rc
     \<lparr>rc_conn := c, rc_generation := generation, rc_registered_events := readable,
      rc_phase := PP_header, rc_header := replicate header_size 0, rc_header_received := 0,
      rc_route_buffer := [], rc_body_buffer := [], rc_payload_received := 0, rc_payload_total := 0,
      rc_request_id := 0, rc_arg1 := 0, rc_arg2 := 0, rc_reserved_request_bytes := 0,
      rc_arrival_time := 0, rc_deadline := deadline_max, rc_reactor_busy := False,
      rc_read_paused := False,
      rc_pending := (if buffered_offset < length buffered then drop buffered_offset buffered else []),
      rc_pending_offset := 0\<rparr>"

text \<open>Back into the readiness set: \<open>True\<close> when the registration failed.\<close>

definition rearm_failed :: "fd \<Rightarrow> u32 \<Rightarrow> ServerState \<Rightarrow> ServerState \<times> bool" where
  "rearm_failed fd generation s =
     (case on_world (readiness_errno Ctl_add fd readable (connection_token fd generation)) s of
        (s, None) \<Rightarrow> (s, False)
      | (s, Some e) \<Rightarrow>
          if e \<noteq> EEXIST then (s, True)
          else case on_world (readiness_errno Ctl_modify fd readable (connection_token fd generation)) s of
                 (s, None) \<Rightarrow> (s, False)
               | (s, Some _) \<Rightarrow> (s, True))"

text \<open>
  \<open>fresh\<close> is the id of the parse state the allocator would return. A worker's lease reuses the
  parse state that is in the table, a stream's lease always gets a new one.
\<close>

definition rearm_target :: "nat \<Rightarrow> nat \<Rightarrow> ServerState \<Rightarrow> nat \<times> ReactorConnection" where
  "rearm_target c fresh s =
     (let cn = ss_conns s c; may_reuse = (cn_worker_owned cn \<and> \<not> cn_stream_active cn)
      in case map_of (ss_connections s) (cn_fd cn) of
           Some r \<Rightarrow> if may_reuse \<and> rc_conn (ss_rcs s r) = c \<and> \<not> rc_reactor_busy (ss_rcs s r)
                     then (r, ss_rcs s r) else (fresh, new_reactor_connection c)
         | None \<Rightarrow> (fresh, new_reactor_connection c))"

definition rearm_connection ::
  "nat \<Rightarrow> nat \<Rightarrow> bstring \<Rightarrow> nat \<Rightarrow> ServerState \<Rightarrow> ServerState" where
  "rearm_connection c fresh buffered buffered_offset s =
     (let fd = cn_fd (ss_conns s c) in
      if cn_closing (ss_conns s c) then close_connection fd s
      else if \<not> ss_running s then s
      else let s = mark_io_progress c s;
               existing = map_of (ss_connections s) fd
           in case rearm_target c fresh s of (r, rc) \<Rightarrow>
                let s = (case existing of
                           Some r' \<Rightarrow> if r' \<noteq> r then discard_received r' s else s
                         | None \<Rightarrow> s)
                in case allocate_connection_generation s of (s, generation) \<Rightarrow>
                     let s = rc_upd r (\<lambda>_. rearmed c generation buffered buffered_offset rc) s;
                         s = s\<lparr>ss_connections := AList.update fd r (ss_connections s)\<rparr>;
                         s = conn_upd c (\<lambda>cn. cn\<lparr>cn_stream_active := False, cn_worker_owned := False\<rparr>) s
                     in case rearm_failed fd generation s of
                          (s, False) \<Rightarrow> s
                        | (s, True) \<Rightarrow>
                            close_connection fd (conn_upd c (\<lambda>cn. cn\<lparr>cn_closing := True\<rparr>) s))"

end
