(* ===== verification/Streams.thy ===== *)
theory Streams
  imports Lease
begin

text \<open>
  Streamed exchanges (\<^verbatim>\<open>src/system/reactor/stream.cpp\<close>). The stream's worker owns the socket:
  it reads the request's chunks through the reader it gives to the handler, drains what the handler
  left, and writes the response in chunks.
\<close>

subsection \<open>IncomingStream\<close>

record IncomingStream =
  is_source :: source
  is_fd :: fd
  is_chunk_type :: WireType
  is_end_type :: WireType
  is_max_size :: nat
  is_io_timeout :: msec
  is_deadline :: time
  is_total_size :: nat
  is_frame_remaining :: nat
  is_request_id :: u32
  is_ended :: bool

definition new_stream ::
  "source \<Rightarrow> fd \<Rightarrow> WireType \<Rightarrow> WireType \<Rightarrow> nat \<Rightarrow> msec \<Rightarrow> time \<Rightarrow> u32 \<Rightarrow> IncomingStream" where
  "new_stream src fd chunk_type end_type max_size io_timeout deadline request_id =
     \<lparr>is_source = src, is_fd = fd, is_chunk_type = chunk_type, is_end_type = end_type,
      is_max_size = max_size, is_io_timeout = io_timeout, is_deadline = deadline,
      is_total_size = 0, is_frame_remaining = 0, is_request_id = request_id, is_ended = False\<rparr>"

definition stream_source_read ::
  "nat \<Rightarrow> IncomingStream \<Rightarrow> World \<Rightarrow> IncomingStream \<times> World \<times> (exn + bstring)" where
  "stream_source_read sz st w =
     (case source_read (is_fd st) sz (is_io_timeout st) (is_deadline st) (is_source st) w of
        (src, w, r) \<Rightarrow> (st\<lparr>is_source := src\<rparr>, w, r))"

text \<open>
  What the header of the next frame means for the stream. The limit is never exceeded, so the
  subtraction \<open>max_size - total_size\<close> does not wrap.
\<close>

definition accept_stream_frame :: "DecodedHeader \<Rightarrow> IncomingStream \<Rightarrow> exn + IncomingStream" where
  "accept_stream_frame h st =
     (if dh_type h = is_end_type st
      then if dh_request_id h \<noteq> is_request_id st \<or> dh_arg1 h \<noteq> 0 \<or> dh_arg2 h \<noteq> 0
           then Inl (Runtime_error ''invalid stream end frame'')
           else Inr (st\<lparr>is_ended := True\<rparr>)
      else if dh_type h \<noteq> is_chunk_type st \<or> dh_request_id h \<noteq> is_request_id st \<or>
              dh_arg1 h = 0 \<or> dh_arg2 h \<noteq> 0
      then Inl (Runtime_error ''invalid stream chunk frame'')
      else let chunk_size = unat (dh_arg1 h)
           in if chunk_size > sz_max - is_total_size st \<or>
                 (is_max_size st \<noteq> 0 \<and> chunk_size > is_max_size st - is_total_size st)
              then Inl (Length_error ''stream exceeds max_stream_size'')
              else Inr (st\<lparr>is_total_size := is_total_size st + chunk_size,
                           is_frame_remaining := chunk_size\<rparr>))"

definition next_stream_frame ::
  "IncomingStream \<Rightarrow> World \<Rightarrow> IncomingStream \<times> World \<times> (exn + unit)" where
  "next_stream_frame st w =
     (case stream_source_read header_size st w of
        (st, w, Inl e) \<Rightarrow> (st, w, Inl e)
      | (st, w, Inr header) \<Rightarrow>
          (case decode_header header of
             Inl e \<Rightarrow> (st, w, Inl e)
           | Inr h \<Rightarrow> (case accept_stream_frame h st of
                         Inl e \<Rightarrow> (st, w, Inl e)
                       | Inr st \<Rightarrow> (st, w, Inr ()))))"

definition stream_payload ::
  "nat \<Rightarrow> IncomingStream \<Rightarrow> World \<Rightarrow> IncomingStream \<times> World \<times> (exn + bstring)" where
  "stream_payload capacity st w =
     (let sz = min capacity (is_frame_remaining st)
      in case stream_source_read sz st w of
           (st, w, Inl e) \<Rightarrow> (st, w, Inl e)
         | (st, w, Inr d) \<Rightarrow> (st\<lparr>is_frame_remaining := is_frame_remaining st - sz\<rparr>, w, Inr d))"

definition stream_read ::
  "nat \<Rightarrow> IncomingStream \<Rightarrow> World \<Rightarrow> IncomingStream \<times> World \<times> (exn + bstring)" where
  "stream_read capacity st w =
     (if is_ended st then (st, w, Inr [])
      else if is_frame_remaining st \<noteq> 0 then stream_payload capacity st w
      else case next_stream_frame st w of
             (st, w, Inl e) \<Rightarrow> (st, w, Inl e)
           | (st, w, Inr _) \<Rightarrow>
               if is_ended st then (st, w, Inr []) else stream_payload capacity st w)"

text \<open>The bytes the stream's connection will still deliver.\<close>

definition stream_bytes :: "IncomingStream \<Rightarrow> World \<Rightarrow> bstring" where
  "stream_bytes st w = source_bytes (is_fd st) (is_source st) w"

lemma stream_source_read_exact:
  assumes "stream_source_read sz st w = (st', w', Inr d)"
  shows "length d = sz" "stream_bytes st w = d @ stream_bytes st' w'"
    "st' = st\<lparr>is_source := is_source st'\<rparr>" "w_sent w' = w_sent w"
proof -
  obtain src where r: "source_read (is_fd st) sz (is_io_timeout st) (is_deadline st) (is_source st) w =
      (src, w', Inr d)" "st' = st\<lparr>is_source := src\<rparr>"
    using assms by (auto simp: stream_source_read_def split: prod.splits)
  note x = source_read_exact [OF r(1)]
  show "length d = sz" "stream_bytes st w = d @ stream_bytes st' w'"
    "st' = st\<lparr>is_source := is_source st'\<rparr>" "w_sent w' = w_sent w"
    using x by (simp_all add: r(2) stream_bytes_def)
qed

lemma accept_stream_frame_keeps:
  "accept_stream_frame h st = Inr st' \<Longrightarrow> stream_bytes st' w = stream_bytes st w"
  by (auto simp: accept_stream_frame_def stream_bytes_def Let_def split: if_splits)

lemma next_stream_frame_exact:
  assumes "next_stream_frame st w = (st', w', Inr ())"
  shows "\<exists>h. length h = header_size \<and> stream_bytes st w = h @ stream_bytes st' w'"
proof -
  obtain st1 h dh where r: "stream_source_read header_size st w = (st1, w', Inr h)"
    "decode_header h = Inr dh" "accept_stream_frame dh st1 = Inr st'"
    using assms by (auto simp: next_stream_frame_def split: prod.splits sum.splits)
  show ?thesis
    using stream_source_read_exact(1,2) [OF r(1)] accept_stream_frame_keeps [OF r(3), of w'] by auto
qed

lemma stream_payload_exact:
  assumes "stream_payload capacity st w = (st', w', Inr d)"
  shows "length d = min capacity (is_frame_remaining st)" "stream_bytes st w = d @ stream_bytes st' w'"
    "st' = st\<lparr>is_source := is_source st', is_frame_remaining := is_frame_remaining st - length d\<rparr>"
proof -
  obtain st1 where r: "stream_source_read (min capacity (is_frame_remaining st)) st w = (st1, w', Inr d)"
    "st' = st1\<lparr>is_frame_remaining := is_frame_remaining st1 - min capacity (is_frame_remaining st)\<rparr>"
    using assms by (auto simp: stream_payload_def Let_def split: prod.splits sum.splits)
  note x = stream_source_read_exact [OF r(1)]
  show "length d = min capacity (is_frame_remaining st)" by (rule x(1))
  show "stream_bytes st w = d @ stream_bytes st' w'" using x(2) by (simp add: r(2) stream_bytes_def)
  show "st' = st\<lparr>is_source := is_source st', is_frame_remaining := is_frame_remaining st - length d\<rparr>"
    unfolding x(1) r(2) by (subst x(3), subst (2) x(3)) simp
qed

lemma stream_read_shorter:
  assumes "stream_read capacity st w = (st', w', Inr d)" "d \<noteq> []"
  shows "length (stream_bytes st' w') < length (stream_bytes st w)"
proof (cases "is_frame_remaining st \<noteq> 0")
  case True
  then have "stream_payload capacity st w = (st', w', Inr d)"
    using assms by (simp add: stream_read_def split: if_splits)
  from stream_payload_exact(2) [OF this] assms(2) show ?thesis by simp
next
  case False
  then obtain st1 w1 where "next_stream_frame st w = (st1, w1, Inr ())"
    "stream_payload capacity st1 w1 = (st', w', Inr d)"
    using assms by (auto simp: stream_read_def split: if_splits prod.splits sum.splits)
  with next_stream_frame_exact [of st w st1 w1] stream_payload_exact(2) [of capacity st1 w1 st' w' d]
  show ?thesis using assms(2) by auto
qed

text \<open>\<^verbatim>\<open>drain\<close> reads until a read returns nothing.\<close>

function stream_drain :: "nat \<Rightarrow> IncomingStream \<Rightarrow> World \<Rightarrow> IncomingStream \<times> World \<times> (exn + unit)" where
  "stream_drain buffer_size st w =
     (case stream_read buffer_size st w of
        (st, w, Inl e) \<Rightarrow> (st, w, Inl e)
      | (st, w, Inr d) \<Rightarrow> if d \<noteq> [] then stream_drain buffer_size st w else (st, w, Inr ()))"
  by pat_completeness auto
termination
  by (relation "measure (\<lambda>(n, st, w). length (stream_bytes st w))")
    (auto dest: stream_read_shorter [OF sym])

declare stream_drain.simps [simp del]

subsection \<open>The exchange\<close>

text \<open>The reader of an error body hands out the body piece by piece; every call has the same capacity.\<close>

definition bounded_error_body_reader :: "bstring \<Rightarrow> nat \<Rightarrow> StreamReader" where
  "bounded_error_body_reader message max_message_size =
     (let body = bounded_error_body message max_message_size
      in (\<lambda>i capacity. Returned (take capacity (drop (i * capacity) body))))"

primrec run_program ::
  "stream_program \<Rightarrow> IncomingStream \<Rightarrow> World \<Rightarrow> IncomingStream \<times> World \<times> StreamResponse callback_result" where
  "run_program (Stream_read capacity k) =
     (\<lambda>st w. case stream_read capacity st w of (st, w, r) \<Rightarrow> run_program (k r) st w)"
| "run_program (Stream_done r) = (\<lambda>st w. (st, w, r))"

definition stream_handler_response ::
  "Request \<Rightarrow> ServerState \<Rightarrow> IncomingStream \<Rightarrow> World \<Rightarrow> IncomingStream \<times> World \<times> StreamResponse" where
  "stream_handler_response request s st w =
     (case find_stream_handler (ss_handler_registry s) (rq_route request) of
        None \<Rightarrow> (st, w, \<lparr>sr_status = 404, sr_body = None\<rparr>)
      | Some handler \<Rightarrow>
          (case run_program (handler request) st w of
             (st, w, Returned response) \<Rightarrow> (st, w, response)
           | (st, w, Threw_std what) \<Rightarrow>
               (st, w, \<lparr>sr_status = 500, sr_body =
                  (if so_include_handler_error_messages (ss_options s)
                   then Some (bounded_error_body_reader (str what) (so_max_message_size (ss_options s)))
                   else None)\<rparr>)
           | (st, w, Threw_other) \<Rightarrow> (st, w, \<lparr>sr_status = 500, sr_body = None\<rparr>)))"

lemma total_size_progress: "d \<noteq> [] \<Longrightarrow> length d \<le> m - t \<Longrightarrow> m - (t + length d) < m - t"
  by (cases d) auto

text \<open>
  The loop over the response body; \<open>i\<close> counts the calls of the reader. The total is bounded by
  \<^verbatim>\<open>SIZE_MAX\<close>, so the loop ends even when no stream limit is set.
\<close>

function stream_body_loop ::
  "fd \<Rightarrow> u32 \<Rightarrow> StreamReader \<Rightarrow> nat \<Rightarrow> nat \<Rightarrow> msec \<Rightarrow> time \<Rightarrow> byte \<Rightarrow> nat \<Rightarrow> nat \<Rightarrow> World \<Rightarrow>
     World \<times> (exn + unit)" where
  "stream_body_loop fd request_id body chunk max_size io_timeout deadline wire_version i total_size w =
     (case body i chunk of
        Threw_std what \<Rightarrow> (w, Inl (Std_exception what))
      | Threw_other \<Rightarrow> (w, Inl Unknown_exception)
      | Returned d \<Rightarrow>
          if d = [] then (w, Inr ())
          else if length d > chunk \<or> length d > sz_max - total_size \<or>
                  (max_size \<noteq> 0 \<and> length d > max_size - total_size)
          then (w, Inl (Length_error ''stream exceeds max_stream_size''))
          else case write_frame_with_payload fd WT_stream_response_chunk request_id
                      (word_of_nat (length d)) 0 d io_timeout deadline wire_version w of
                 (w, Inl e) \<Rightarrow> (w, Inl e)
               | (w, Inr _) \<Rightarrow>
                   stream_body_loop fd request_id body chunk max_size io_timeout deadline
                     wire_version (i + 1) (total_size + length d) w)"
  by pat_completeness auto
termination
  by (relation "measure (\<lambda>(fd, id, body, chunk, max_size, t, d, v, i, total_size, w). sz_max - total_size)")
    (auto simp: not_less intro: total_size_progress)

declare stream_body_loop.simps [simp del]

definition write_stream_response ::
  "fd \<Rightarrow> u32 \<Rightarrow> StreamResponse \<Rightarrow> ServerOptions \<Rightarrow> time \<Rightarrow> byte \<Rightarrow> World \<Rightarrow> World \<times> (exn + unit)" where
  "write_stream_response fd request_id response opts deadline wire_version w =
     (let response = (if sr_status response < 0 then \<lparr>sr_status = 500, sr_body = None\<rparr> else response)
      in case write_header_frame fd WT_stream_response request_id (word_of_int (sr_status response)) 0
                (so_io_timeout opts) deadline wire_version w of
           (w, Inl e) \<Rightarrow> (w, Inl e)
         | (w, Inr _) \<Rightarrow>
             (case (case sr_body response of
                      None \<Rightarrow> (w, Inr ())
                    | Some body \<Rightarrow>
                        stream_body_loop fd request_id body (so_stream_chunk_size opts)
                          (so_max_stream_size opts) (so_io_timeout opts) deadline wire_version 0 0 w) of
                (w, Inl e) \<Rightarrow> (w, Inl e)
              | (w, Inr _) \<Rightarrow>
                  write_header_frame fd WT_stream_response_end request_id 0 0 (so_io_timeout opts)
                    deadline wire_version w))"

text \<open>The \<^verbatim>\<open>try\<close> block of \<^verbatim>\<open>run_stream_exchange\<close>, with the source position it leaves.\<close>

definition stream_exchange ::
  "PendingJob \<Rightarrow> ServerState \<Rightarrow> source \<times> World \<times> (exn + unit)" where
  "stream_exchange job s =
     (let opts = ss_options s; cn = ss_conns s (pj_connection job);
          st = new_stream (pj_buffered job, pj_buffered_offset job) (cn_fd cn)
                 WT_stream_request_chunk WT_stream_request_end (so_max_stream_size opts)
                 (so_io_timeout opts) (pj_deadline job) (rq_request_id (pj_request job))
      in case stream_handler_response (pj_request job) s st (ss_world s) of
           (st, w, response) \<Rightarrow>
             (case stream_drain (so_stream_chunk_size opts) st w of
                (st, w, Inl e) \<Rightarrow> (is_source st, w, Inl e)
              | (st, w, Inr _) \<Rightarrow>
                  (case write_stream_response (cn_fd cn) (rq_request_id (pj_request job)) response opts
                          (pj_deadline job) (cn_wire_version cn) w of
                     (w, r) \<Rightarrow> (is_source st, w, r))))"

definition release_stream_slot :: "ServerState \<Rightarrow> ServerState" where
  "release_stream_slot s = s\<lparr>ss_active_streams := sz_sub (ss_active_streams s) 1\<rparr>"

text \<open>
  After a complete exchange the slot is free before the connection is rearmed; after a failed one
  the guard releases it when the function returns. The guard of the request bytes runs first.
\<close>

definition run_stream_exchange :: "nat \<Rightarrow> PendingJob \<Rightarrow> ServerState \<Rightarrow> ServerState" where
  "run_stream_exchange fresh job s =
     (let c = pj_connection job;
          release_bytes = (\<lambda>s. if pj_release_stream_request_bytes job
                               then release_connection_request_bytes c (pj_request_bytes job) s else s)
      in case stream_exchange job s of
           ((buffered, offset), w, Inr _) \<Rightarrow>
             release_bytes (rearm_connection c fresh buffered offset
               (release_stream_slot (s\<lparr>ss_world := w\<rparr>)))
         | ((buffered, offset), w, Inl _) \<Rightarrow>
             release_stream_slot (release_bytes (rearm_connection c fresh buffered offset
               (conn_upd c (\<lambda>cn. cn\<lparr>cn_closing := True\<rparr>) (s\<lparr>ss_world := w\<rparr>)))))"

end
