(* ===== verification/StreamProps.thy ===== *)
theory StreamProps
  imports Streams
begin

text \<open>
  What streamed exchanges promise: the body arrives as it was sent, the framing of the connection
  survives whatever the handler does, the connection goes back to the reactor with the bytes left
  over, and the number of concurrent exchanges is bounded.
\<close>

subsection \<open>Chunked bodies on the wire\<close>

definition chunk_header :: "WireType \<Rightarrow> u32 \<Rightarrow> bstring \<Rightarrow> byte \<Rightarrow> DecodedHeader" where
  "chunk_header type i d v = \<lparr>dh_type = type, dh_request_id = i, dh_arg1 = word_of_nat (length d),
     dh_arg2 = 0, dh_flags = 0, dh_version = v\<rparr>"

definition chunk_frames :: "WireType \<Rightarrow> WireType \<Rightarrow> u32 \<Rightarrow> byte \<Rightarrow> bstring list \<Rightarrow> bstring" where
  "chunk_frames chunk_type end_type i v ds =
     concat (map (\<lambda>d. encode_decoded (chunk_header chunk_type i d v) @ d) ds) @
     encode_decoded (chunk_header end_type i [] v)"

text \<open>Chunks a stream accepts from its current position on.\<close>

definition chunks_fit :: "IncomingStream \<Rightarrow> bstring list \<Rightarrow> bool" where
  "chunks_fit st ds \<longleftrightarrow> (\<forall>d\<in>set ds. d \<noteq> [] \<and> length d \<le> max_wire_field) \<and>
     is_total_size st + length (concat ds) \<le> sz_max \<and>
     (is_max_size st = 0 \<or> is_total_size st + length (concat ds) \<le> is_max_size st)"

definition stream_types_ok :: "IncomingStream \<Rightarrow> bool" where
  "stream_types_ok st \<longleftrightarrow> is_chunk_type st \<noteq> is_end_type st \<and>
     is_chunk_type st \<noteq> WT_cancel_request \<and> is_end_type st \<noteq> WT_cancel_request"

text \<open>
  The stream's position in a well-formed body: \<open>data\<close> is what it has not delivered yet, \<open>rest\<close> the
  bytes after the end frame.
\<close>

definition on_track :: "byte \<Rightarrow> IncomingStream \<Rightarrow> World \<Rightarrow> bstring \<Rightarrow> bstring \<Rightarrow> bool" where
  "on_track v st w data rest \<longleftrightarrow>
     smooth w (is_fd st) \<and> is_deadline st = deadline_max \<and> v \<in> {version, cancellable_version} \<and>
     (if is_ended st then data = [] \<and> stream_bytes st w = rest
      else \<exists>p ds. length p = is_frame_remaining st \<and> data = p @ concat ds \<and> chunks_fit st ds \<and>
             stream_types_ok st \<and>
             stream_bytes st w = p @ chunk_frames (is_chunk_type st) (is_end_type st)
               (is_request_id st) v ds @ rest)"

lemma chunk_header_sel [simp]:
  "dh_type (chunk_header t i d v) = t" "dh_request_id (chunk_header t i d v) = i"
  "dh_arg1 (chunk_header t i d v) = word_of_nat (length d)" "dh_arg2 (chunk_header t i d v) = 0"
  by (simp_all add: chunk_header_def)

lemma length_encode_decoded: "length (encode_decoded h) = header_size"
  by (simp add: encode_decoded_def)

lemma chunk_header_decodes:
  assumes "v \<in> {version, cancellable_version}" "t \<noteq> WT_cancel_request"
  shows "decode_header (encode_decoded (chunk_header t i d v)) = Inr (chunk_header t i d v)"
  using assms by (intro decode_encode_valid) (auto simp: valid_header_def chunk_header_def)

lemma stream_source_read_track:
  assumes "smooth w (is_fd st)" "is_deadline st = deadline_max" "stream_bytes st w = a @ b" "length a = n"
  shows "\<exists>src w'. stream_source_read n st w = (st\<lparr>is_source := src\<rparr>, w', Inr a) \<and>
    smooth w' (is_fd st) \<and> stream_bytes (st\<lparr>is_source := src\<rparr>) w' = b"
proof -
  have "n \<le> length (source_bytes (is_fd st) (is_source st) w)"
    using assms(3,4) by (simp add: stream_bytes_def)
  then obtain src w' out where r: "source_read (is_fd st) n (is_io_timeout st) deadline_max (is_source st) w =
      (src, w', Inr out)" "smooth w' (is_fd st)"
    using source_read_smooth [OF assms(1)] by blast
  note x = source_read_exact [OF r(1)]
  have "out = a" "source_bytes (is_fd st) src w' = b"
    using x(1,2) assms(3,4) by (simp_all add: stream_bytes_def)
  with r show ?thesis
    by (intro exI [of _ src] exI [of _ w']) (simp add: stream_source_read_def assms(2) stream_bytes_def)
qed

lemma on_track_openI:
  assumes "smooth w (is_fd st)" "is_deadline st = deadline_max" "v \<in> {version, cancellable_version}"
    "\<not> is_ended st" "length p = is_frame_remaining st" "chunks_fit st ds" "stream_types_ok st"
    "stream_bytes st w = p @ chunk_frames (is_chunk_type st) (is_end_type st) (is_request_id st) v ds @ rest"
  shows "on_track v st w (p @ concat ds) rest"
  unfolding on_track_def using assms by auto

lemma on_track_openE:
  assumes "on_track v st w data rest" "\<not> is_ended st"
  obtains p ds where "length p = is_frame_remaining st" "data = p @ concat ds" "chunks_fit st ds"
    "stream_types_ok st" "smooth w (is_fd st)" "is_deadline st = deadline_max" "v \<in> {version, cancellable_version}"
    "stream_bytes st w = p @ chunk_frames (is_chunk_type st) (is_end_type st) (is_request_id st) v ds @ rest"
  using assms unfolding on_track_def by auto

lemma stream_payload_track:
  assumes t: "on_track v st w data rest" "\<not> is_ended st" "is_frame_remaining st \<noteq> 0"
  shows "\<exists>st' w' d data'. stream_payload c st w = (st', w', Inr d) \<and> on_track v st' w' data' rest \<and>
    data = d @ data' \<and> (d = [] \<longrightarrow> c = 0)"
proof -
  obtain p ds where p: "length p = is_frame_remaining st" "data = p @ concat ds" "chunks_fit st ds"
    "stream_types_ok st" "smooth w (is_fd st)" "is_deadline st = deadline_max" "v \<in> {version, cancellable_version}"
    "stream_bytes st w = p @ chunk_frames (is_chunk_type st) (is_end_type st) (is_request_id st) v ds @ rest"
    by (rule on_track_openE [OF t(1,2)])
  let ?d = "take c p" and ?n = "min c (is_frame_remaining st)"
  have b: "stream_bytes st w = ?d @ drop c p @ chunk_frames (is_chunk_type st) (is_end_type st)
      (is_request_id st) v ds @ rest" unfolding p(8) by (simp flip: append_assoc)
  obtain src w' where r: "stream_source_read ?n st w = (st\<lparr>is_source := src\<rparr>, w', Inr ?d)"
    "smooth w' (is_fd st)" "stream_bytes (st\<lparr>is_source := src\<rparr>) w' =
      drop c p @ chunk_frames (is_chunk_type st) (is_end_type st) (is_request_id st) v ds @ rest"
    using stream_source_read_track [OF p(5,6) b, of ?n] p(1) by (auto simp: min.commute)
  let ?st = "st\<lparr>is_source := src, is_frame_remaining := is_frame_remaining st - ?n\<rparr>"
  have "stream_payload c st w = (?st, w', Inr ?d)" by (simp add: stream_payload_def r(1))
  moreover have "on_track v ?st w' (drop c p @ concat ds) rest"
    using t(2) p r(2,3)
    by (intro on_track_openI) (simp_all add: chunks_fit_def stream_types_ok_def stream_bytes_def)
  moreover have "data = ?d @ drop c p @ concat ds" unfolding p(2) by (simp flip: append_assoc)
  moreover have "?d = [] \<longrightarrow> c = 0" using p(1) t(3) by auto
  ultimately show ?thesis by blast
qed

lemma next_frame_track:
  assumes t: "on_track v st w data rest" "\<not> is_ended st" "is_frame_remaining st = 0"
  shows "\<exists>st' w'. next_stream_frame st w = (st', w', Inr ()) \<and> on_track v st' w' data rest \<and>
    (is_ended st' \<and> data = [] \<or> \<not> is_ended st' \<and> is_frame_remaining st' \<noteq> 0)"
proof -
  obtain p0 ds where q: "length p0 = is_frame_remaining st" "data = p0 @ concat ds" "chunks_fit st ds"
    "stream_types_ok st" "smooth w (is_fd st)" "is_deadline st = deadline_max" "v \<in> {version, cancellable_version}"
    "stream_bytes st w = p0 @ chunk_frames (is_chunk_type st) (is_end_type st) (is_request_id st) v ds @ rest"
    by (rule on_track_openE [OF t(1,2)])
  have p: "data = concat ds" "chunks_fit st ds"
    "stream_bytes st w = chunk_frames (is_chunk_type st) (is_end_type st) (is_request_id st) v ds @ rest"
    "is_chunk_type st \<noteq> is_end_type st" "is_chunk_type st \<noteq> WT_cancel_request"
    "is_end_type st \<noteq> WT_cancel_request" "smooth w (is_fd st)" "is_deadline st = deadline_max"
    "v \<in> {version, cancellable_version}"
    using q t(3) by (simp_all add: stream_types_ok_def)
  show ?thesis
  proof (cases ds)
    case Nil
    let ?h = "chunk_header (is_end_type st) (is_request_id st) [] v"
    have b: "stream_bytes st w = encode_decoded ?h @ rest" by (simp add: p(3) Nil chunk_frames_def)
    obtain src w' where r: "stream_source_read header_size st w = (st\<lparr>is_source := src\<rparr>, w', Inr (encode_decoded ?h))"
      "smooth w' (is_fd st)" "stream_bytes (st\<lparr>is_source := src\<rparr>) w' = rest"
      using stream_source_read_track [OF p(7,8) b length_encode_decoded] by auto
    have "next_stream_frame st w = (st\<lparr>is_source := src, is_ended := True\<rparr>, w', Inr ())"
      by (simp add: next_stream_frame_def r(1) chunk_header_decodes [OF p(9,6)] accept_stream_frame_def)
    then show ?thesis
      using r(2,3) p(8,9) by (auto simp: on_track_def p(1) Nil stream_bytes_def)
  next
    case (Cons d ds')
    let ?h = "chunk_header (is_chunk_type st) (is_request_id st) d v"
    let ?tail = "d @ chunk_frames (is_chunk_type st) (is_end_type st) (is_request_id st) v ds' @ rest"
    have b: "stream_bytes st w = encode_decoded ?h @ ?tail" by (simp add: p(3) Cons chunk_frames_def)
    obtain src w' where r: "stream_source_read header_size st w = (st\<lparr>is_source := src\<rparr>, w', Inr (encode_decoded ?h))"
      "smooth w' (is_fd st)" "stream_bytes (st\<lparr>is_source := src\<rparr>) w' = ?tail"
      using stream_source_read_track [OF p(7,8) b length_encode_decoded] by auto
    have d: "d \<noteq> []" "unat (word_of_nat (length d) :: u32) = length d"
      using p(2) by (simp_all add: Cons chunks_fit_def unat_of_nat max_wire_field_def)
    then have nz: "(word_of_nat (length d) :: u32) \<noteq> 0" by (metis length_0_conv unat_0)
    have fits: "length d \<le> sz_max - is_total_size st"
      "is_max_size st = 0 \<or> length d \<le> is_max_size st - is_total_size st"
      using p(2) by (auto simp: Cons chunks_fit_def)
    let ?st = "st\<lparr>is_source := src, is_total_size := is_total_size st + length d, is_frame_remaining := length d\<rparr>"
    have "next_stream_frame st w = (?st, w', Inr ())"
      using fits p(4) d nz
      by (auto simp: next_stream_frame_def r(1) chunk_header_decodes [OF p(9,5)] accept_stream_frame_def Let_def)
    moreover have "on_track v ?st w' data rest"
      using r(2,3) q(4) p t(2) on_track_openI [of w' ?st v d ds' rest]
      by (simp add: Cons chunks_fit_def stream_types_ok_def stream_bytes_def add.assoc)
    ultimately show ?thesis using d(1) t(2) by auto
  qed
qed

lemma stream_read_track:
  assumes t: "on_track v st w data rest"
  shows "\<exists>st' w' d data'. stream_read c st w = (st', w', Inr d) \<and> on_track v st' w' data' rest \<and>
    data = d @ data' \<and> (d = [] \<longrightarrow> c = 0 \<or> is_ended st')"
proof (cases "is_ended st")
  case True
  then show ?thesis using t by (auto simp: stream_read_def on_track_def)
next
  case False
  show ?thesis
  proof (cases "is_frame_remaining st = 0")
    case True
    obtain st1 w1 where n: "next_stream_frame st w = (st1, w1, Inr ())" "on_track v st1 w1 data rest"
      "is_ended st1 \<and> data = [] \<or> \<not> is_ended st1 \<and> is_frame_remaining st1 \<noteq> 0"
      using next_frame_track [OF t False True] by blast
    show ?thesis
    proof (cases "is_ended st1")
      case True
      then show ?thesis using n False \<open>is_frame_remaining st = 0\<close> by (auto simp: stream_read_def)
    next
      case open1: False
      then show ?thesis
        using stream_payload_track [OF n(2) open1, of c] n False \<open>is_frame_remaining st = 0\<close>
        by (auto simp: stream_read_def)
    qed
  next
    case rem: False
    then show ?thesis using stream_payload_track [OF t False rem, of c] False by (auto simp: stream_read_def)
  qed
qed

subsection \<open>Writing leaves the input alone\<close>

lemma kernel_send_recv: "w_recv (fst (kernel_send fd data p w)) = w_recv w"
  by (simp add: kernel_send_def Let_def split: list.split SendAnswer.split option.split)

lemma send_some_recv: "w_recv (fst (send_some fd parts passed i d w)) = w_recv w"
proof (induction fd parts passed i d w rule: send_some.induct)
  case (1 fd parts passed i d w)
  obtain w1 c where c: "check_deadline d ''send timed out'' w = (w1, c)" by fastforce
  obtain w2 q where q: "send_iovecs fd parts passed w1 = (w2, q)" by fastforce
  obtain w3 v where v: "wait_for_io i d ''send timed out'' w2 = (w3, v)" by fastforce
  have r: "w_recv w1 = w_recv w" "w_recv w2 = w_recv w1" "w_recv w3 = w_recv w2"
    using check_deadline_frame [of d "''send timed out''" w] c kernel_send_recv [of fd "concat parts" passed w1] q
      wait_for_io_frame [of i d "''send timed out''" w2] v by (simp_all add: send_iovecs_def)
  note IH = "1.IH" [OF c [symmetric] _ q [symmetric]]
  show ?case
  proof (cases c)
    case (Inl e)
    then show ?thesis using r by (simp add: send_some.simps [of fd parts passed i d w] c)
  next
    case ok: (Inr u)
    show ?thesis
    proof (cases q)
      case (Inr n)
      then show ?thesis using r ok q by (simp add: send_some.simps [of fd parts passed i d w] c)
    next
      case (Inl e)
      consider "e = EINTR" | "e = EAGAIN" | "e \<noteq> EINTR" "e \<noteq> EAGAIN" by blast
      then show ?thesis
      proof cases
        case 1
        from IH(1) [OF ok Inl 1] show ?thesis
          using r ok q Inl 1 by (simp add: send_some.simps [of fd parts passed i d w] c)
      next
        case 2
        show ?thesis
        proof (cases v)
          case (Inr u')
          from IH(2) [OF ok Inl _ 2 v [symmetric] Inr] show ?thesis
            using r ok q v Inl 2 Inr by (simp add: send_some.simps [of fd parts passed i d w] c)
        qed (use r ok q v Inl 2 in \<open>simp add: send_some.simps [of fd parts passed i d w] c\<close>)
      qed (use r ok q Inl in \<open>simp add: send_some.simps [of fd parts passed i d w] c\<close>)
    qed
  qed
qed

lemma write_exact_recv: "w_recv (fst (write_exact fd data i d w)) = w_recv w"
proof (induction fd data i d w rule: write_exact.induct)
  case (1 fd data i d w)
  obtain w1 q where q: "send_some fd [data] None i d w = (w1, q)" by fastforce
  then have "w_recv w1 = w_recv w" using send_some_recv [of fd "[data]" None i d w] by simp
  then show ?case
    using "1.IH" [OF _ q [symmetric]] q
    by (cases q) (simp_all add: write_exact.simps [of fd data i d w])
qed

lemma write_iovecs_loop_recv: "w_recv (fst (write_iovecs_loop fd parts passed i d w)) = w_recv w"
proof (induction fd parts passed i d w rule: write_iovecs_loop.induct)
  case (1 fd parts passed i d w)
  let ?parts = "skip_empty_parts parts"
  obtain w1 q where q: "send_some fd ?parts passed i d w = (w1, q)" by fastforce
  then have "w_recv w1 = w_recv w" using send_some_recv [of fd ?parts passed i d w] by simp
  then show ?case
    using "1.IH" [OF refl _ q [symmetric]] q
    by (cases q) (simp_all add: write_iovecs_loop.simps [of fd parts passed i d w] Let_def
        del: dropWhile_eq_Nil_conv)
qed

lemma stream_body_loop_recv:
  "w_recv (fst (stream_body_loop fd i body chunk mx t d v n total_size w)) = w_recv w"
proof (induction fd i body chunk mx t d v n total_size w rule: stream_body_loop.induct)
  case (1 fd i body chunk mx t d v n total_size w)
  show ?case
  proof (cases "body n chunk")
    case (Returned x)
    obtain w1 q where q: "write_frame_with_payload fd WT_stream_response_chunk i (word_of_nat (length x)) 0 x t d v w = (w1, q)"
      by fastforce
    then have "w_recv w1 = w_recv w"
      using write_iovecs_loop_recv [of fd _ None t d w]
      by (metis fst_conv write_frame_with_payload_def write_iovecs_exact_def)
    then show ?thesis
      using "1.IH" [OF Returned _ _ q [symmetric]] q Returned
      by (cases q) (simp_all add: stream_body_loop.simps [of fd i body chunk mx t d v n total_size w])
  qed (simp_all add: stream_body_loop.simps [of fd i body chunk mx t d v n total_size w])
qed

lemma write_stream_response_recv:
  "w_recv (fst (write_stream_response fd i response opts d v w)) = w_recv w"
proof -
  have h: "w_recv (fst (write_header_frame fd type i a1 a2 t d v w)) = w_recv w" for type i a1 a2 t w
    by (simp add: write_header_frame_def write_exact_recv)
  define r where "r = (if sr_status response < 0 then \<lparr>sr_status = 500, sr_body = None\<rparr> else response)"
  obtain w1 q1 where 1: "write_header_frame fd WT_stream_response i (word_of_int (sr_status r)) 0
      (so_io_timeout opts) d v w = (w1, q1)" by fastforce
  obtain w2 q2 where 2: "(case sr_body r of None \<Rightarrow> (w1, Inr ()) | Some body \<Rightarrow>
      stream_body_loop fd i body (so_stream_chunk_size opts) (so_max_stream_size opts)
        (so_io_timeout opts) d v 0 0 w1) = (w2, q2)" by fastforce
  have w1: "w_recv w1 = w_recv w" using h [of WT_stream_response] 1 by (metis fst_conv)
  have w2: "w_recv w2 = w_recv w1"
  proof (cases "sr_body r")
    case None
    then show ?thesis using 2 by simp
  next
    case (Some body)
    then show ?thesis using 2 stream_body_loop_recv [of fd i body _ _ _ d v 0 0 w1] by (metis fst_conv option.simps(5))
  qed
  show ?thesis
    unfolding write_stream_response_def Let_def r_def [symmetric] 1
    using w1 w2 2 h by (cases q1; cases q2) simp_all
qed

subsection \<open>The body a handler reads\<close>

text \<open>A handler that reads with one capacity until nothing comes, and the bytes it collects.\<close>

function stream_collect ::
  "nat \<Rightarrow> IncomingStream \<Rightarrow> World \<Rightarrow> IncomingStream \<times> World \<times> (exn + bstring)" where
  "stream_collect capacity st w =
     (case stream_read capacity st w of
        (st, w, Inl e) \<Rightarrow> (st, w, Inl e)
      | (st, w, Inr d) \<Rightarrow>
          if d = [] then (st, w, Inr [])
          else case stream_collect capacity st w of
                 (st, w, Inl e) \<Rightarrow> (st, w, Inl e)
               | (st, w, Inr ds) \<Rightarrow> (st, w, Inr (d @ ds)))"
  by pat_completeness auto
termination
  by (relation "measure (\<lambda>(n, st, w). length (stream_bytes st w))")
    (auto dest: stream_read_shorter [OF sym])

declare stream_collect.simps [simp del]

lemma stream_collect_track:
  assumes "on_track v st w data rest" "0 < c"
  shows "\<exists>st' w'. stream_collect c st w = (st', w', Inr data) \<and> is_ended st' \<and> on_track v st' w' [] rest"
  using assms(1)
proof (induction "length data" arbitrary: st w data rule: less_induct)
  case less
  obtain st' w' d data' where r: "stream_read c st w = (st', w', Inr d)" "on_track v st' w' data' rest"
    "data = d @ data'" "d = [] \<longrightarrow> is_ended st'"
    using stream_read_track [OF less.prems, of c] assms(2) by blast
  show ?case
  proof (cases "d = []")
    case True
    then have "is_ended st'" using r(4) by simp
    then have "data' = []" using r(2) by (simp add: on_track_def)
    then show ?thesis using r \<open>is_ended st'\<close> True by (simp add: stream_collect.simps [of c st w])
  next
    case False
    then have "length data' < length data" using r(3) by simp
    from less.hyps [OF this r(2)] show ?thesis
      using r(1,3) False by (auto simp: stream_collect.simps [of c st w])
  qed
qed

lemma new_stream_on_track:
  assumes "smooth w fd" "v \<in> {version, cancellable_version}" "ct \<noteq> et" "ct \<noteq> WT_cancel_request"
    "et \<noteq> WT_cancel_request" "\<forall>d\<in>set ds. d \<noteq> [] \<and> length d \<le> max_wire_field"
    "length (concat ds) \<le> sz_max" "mx = 0 \<or> length (concat ds) \<le> mx"
    "source_bytes fd src w = chunk_frames ct et i v ds @ rest"
  shows "on_track v (new_stream src fd ct et mx t deadline_max i) w (concat ds) rest"
  using on_track_openI [of w "new_stream src fd ct et mx t deadline_max i" v "[]" ds rest] assms
  by (simp add: new_stream_def chunks_fit_def stream_types_ok_def stream_bytes_def)

lemma run_program_track:
  "on_track v st w data rest \<Longrightarrow>
     \<exists>st' w' r data'. run_program prog st w = (st', w', r) \<and> on_track v st' w' data' rest"
proof (induction prog arbitrary: st w data)
  case (Stream_read capacity k)
  obtain st' w' d data' where r: "stream_read capacity st w = (st', w', Inr d)" "on_track v st' w' data' rest"
    using stream_read_track [OF Stream_read.prems, of capacity] by blast
  show ?case using Stream_read.IH [OF _ r(2), of "k (Inr d)"] r(1) by simp
qed auto

lemma stream_drain_track:
  assumes "on_track v st w data rest" "0 < c"
  shows "\<exists>st' w'. stream_drain c st w = (st', w', Inr ()) \<and> is_ended st' \<and> on_track v st' w' [] rest"
  using assms(1)
proof (induction "length data" arbitrary: st w data rule: less_induct)
  case less
  obtain st' w' d data' where r: "stream_read c st w = (st', w', Inr d)" "on_track v st' w' data' rest"
    "data = d @ data'" "d = [] \<longrightarrow> is_ended st'"
    using stream_read_track [OF less.prems, of c] assms(2) by blast
  show ?case
  proof (cases "d = []")
    case True
    then have "is_ended st'" using r(4) by simp
    then have "data' = []" using r(2) by (simp add: on_track_def)
    then show ?thesis using r \<open>is_ended st'\<close> True by (simp add: stream_drain.simps [of c st w])
  next
    case False
    then have "length data' < length data" using r(3) by simp
    from less.hyps [OF this r(2)] show ?thesis
      using r(1) False by (auto simp: stream_drain.simps [of c st w])
  qed
qed

text \<open>
  C27: the body of a streamed request reaches a handler exactly as it was cut into chunks and sent:
  reading with any capacity until nothing comes yields the concatenation of the chunks, whatever
  part of them the reactor had already buffered and however the rest is segmented, and leaves the
  connection at the first byte after the end frame.
\<close>

theorem stream_body_delivered:
  assumes "smooth w fd" "v \<in> {version, cancellable_version}"
    "\<forall>d\<in>set ds. d \<noteq> [] \<and> length d \<le> max_wire_field" "length (concat ds) \<le> sz_max"
    "max_size = 0 \<or> length (concat ds) \<le> max_size" "0 < capacity"
    "source_bytes fd src w = chunk_frames WT_stream_request_chunk WT_stream_request_end i v ds @ rest"
  shows "\<exists>st' w'. stream_collect capacity (new_stream src fd WT_stream_request_chunk WT_stream_request_end
      max_size io_timeout deadline_max i) w = (st', w', Inr (concat ds)) \<and>
    is_ended st' \<and> stream_bytes st' w' = rest"
proof -
  let ?st = "new_stream src fd WT_stream_request_chunk WT_stream_request_end max_size io_timeout deadline_max i"
  have "on_track v ?st w (concat ds) rest"
    using assms(1-5,7) by (intro new_stream_on_track) simp_all
  from stream_collect_track [OF this assms(6)] show ?thesis by (auto simp: on_track_def)
qed

definition sample_chunks :: "bstring list" where
  "sample_chunks = [str ''ab'', str ''c'']"

definition sample_stream :: bstring where
  "sample_stream = chunk_frames WT_stream_request_chunk WT_stream_request_end 9 version sample_chunks"

text \<open>The reactor has buffered the first 25 bytes, the rest comes in two segments.\<close>

definition stream_sample_world :: World where
  "stream_sample_world = quiet_world\<lparr>w_recv := (\<lambda>_. [RecvData (take 7 (drop 25 sample_stream)) [] False,
     RecvErr EINTR, RecvData (drop 32 sample_stream @ str ''E'') [] False])\<rparr>"

lemma sample_stream_length: "length sample_stream = 63"
  by (simp add: sample_stream_def chunk_frames_def sample_chunks_def length_encode_decoded header_size_def)

lemma stream_sample_bytes:
  "smooth stream_sample_world 4"
  "source_bytes 4 (take 25 sample_stream, 0) stream_sample_world = sample_stream @ str ''E''"
proof -
  show "smooth stream_sample_world 4"
    by (simp add: smooth_def stream_sample_world_def sample_stream_length)
  have "take 25 sample_stream @ take 7 (drop 25 sample_stream) @ drop 7 (drop 25 sample_stream) = sample_stream"
    by (simp only: append_take_drop_id)
  then show "source_bytes 4 (take 25 sample_stream, 0) stream_sample_world = sample_stream @ str ''E''"
    by (simp add: source_bytes_def incoming_def stream_sample_world_def)
qed

lemma stream_body_delivered_witness:
  "\<exists>st' w'. stream_collect 1 (new_stream (take 25 sample_stream, 0) 4 WT_stream_request_chunk
      WT_stream_request_end 3 0 deadline_max 9) stream_sample_world = (st', w', Inr (str ''abc'')) \<and>
    is_ended st' \<and> stream_bytes st' w' = str ''E''"
proof -
  have c: "concat sample_chunks = str ''abc''" "str ''ab'' \<noteq> []" "str ''c'' \<noteq> []"
    by (simp_all add: sample_chunks_def str_def)
  show ?thesis
    using stream_body_delivered [OF stream_sample_bytes(1), of version sample_chunks 3 1 "(take 25 sample_stream, 0)" 9 "str ''E''" 0]
      stream_sample_bytes(2) c(2,3) unfolding c(1)
    by (simp add: sample_stream_def sample_chunks_def max_wire_field_def sz_max_def)
qed

subsection \<open>Giving the connection back\<close>

lemma close_owned_input [simp]:
  "w_recv (ss_world (close_owned f s)) = w_recv (ss_world s)"
  "w_control (ss_world (close_owned f s)) = w_control (ss_world s)"
  by (simp_all add: close_owned_def socket_close_def add_effect_def)

lemma fold_close_owned_input [simp]:
  "w_recv (ss_world (fold close_owned fs s)) = w_recv (ss_world s)"
  "w_control (ss_world (fold close_owned fs s)) = w_control (ss_world s)"
  by (induction fs arbitrary: s) simp_all

lemma discard_received_keeps [simp]:
  "w_recv (ss_world (discard_received r s)) = w_recv (ss_world s)"
  "w_control (ss_world (discard_received r s)) = w_control (ss_world s)"
  "ss_conns (discard_received r s) = ss_conns s"
  "ss_connections (discard_received r s) = ss_connections s"
  "ss_active_streams (discard_received r s) = ss_active_streams s"
  "ss_next_connection_generation (discard_received r s) = ss_next_connection_generation s"
  "ss_pending_jobs (discard_received r s) = ss_pending_jobs s"
  "ss_max_concurrent_streams (discard_received r s) = ss_max_concurrent_streams s"
  by (simp_all add: discard_received_def Let_def drop_capabilities_def split: option.split)

lemma mark_io_progress_world [simp]:
  "w_recv (ss_world (mark_io_progress c s)) = w_recv (ss_world s)"
  "w_control (ss_world (mark_io_progress c s)) = w_control (ss_world s)"
  "ss_connections (mark_io_progress c s) = ss_connections s"
  "ss_running (mark_io_progress c s) = ss_running s"
  "ss_active_streams (mark_io_progress c s) = ss_active_streams s"
  "cn_fd (ss_conns (mark_io_progress c s) x) = cn_fd (ss_conns s x)"
  "ss_pending_jobs (mark_io_progress c s) = ss_pending_jobs s"
  "ss_max_concurrent_streams (mark_io_progress c s) = ss_max_concurrent_streams s"
  by (cases "w_clock (ss_world s)"; simp add: mark_io_progress_def clock_read_def clock_now_def)+

lemma allocate_generation_keeps [simp]:
  "ss_conns (fst (allocate_connection_generation s)) = ss_conns s"
  "ss_rcs (fst (allocate_connection_generation s)) = ss_rcs s"
  "ss_connections (fst (allocate_connection_generation s)) = ss_connections s"
  "ss_world (fst (allocate_connection_generation s)) = ss_world s"
  "ss_active_streams (fst (allocate_connection_generation s)) = ss_active_streams s"
  "ss_pending_jobs (fst (allocate_connection_generation s)) = ss_pending_jobs s"
  "ss_max_concurrent_streams (fst (allocate_connection_generation s)) = ss_max_concurrent_streams s"
  by (simp_all add: allocate_connection_generation_def Let_def)

lemma rearm_failed_keeps [simp]:
  "ss_conns (fst (rearm_failed fd g s)) = ss_conns s" "ss_rcs (fst (rearm_failed fd g s)) = ss_rcs s"
  "ss_connections (fst (rearm_failed fd g s)) = ss_connections s"
  "ss_active_streams (fst (rearm_failed fd g s)) = ss_active_streams s"
  "ss_pending_jobs (fst (rearm_failed fd g s)) = ss_pending_jobs s"
  "ss_max_concurrent_streams (fst (rearm_failed fd g s)) = ss_max_concurrent_streams s"
  by (simp_all add: rearm_failed_def on_world_def split: prod.split option.split)

lemma rearm_registers:
  assumes "w_control (ss_world s) = []"
  shows "\<exists>w. rearm_failed fd g s = (s\<lparr>ss_world := w\<rparr>, False) \<and> w_recv w = w_recv (ss_world s)"
proof -
  define w where "w = add_effect (Eff_control Ctl_add fd (to_native_mask readable) (connection_token fd g)) (ss_world s)"
  have "readiness_errno Ctl_add fd readable (connection_token fd g) (ss_world s) = (w, None)"
    using assms by (simp add: readiness_errno_def w_def add_effect_def)
  moreover have "w_recv w = w_recv (ss_world s)" by (simp add: w_def add_effect_def)
  ultimately show ?thesis by (auto simp: rearm_failed_def on_world_def)
qed


definition rearm_sample :: ServerState where
  "rearm_sample = (blank_state default_server_options)\<lparr>ss_running := True\<rparr>"


subsection \<open>The exchange keeps the framing\<close>

text \<open>The stream stays on its descriptor.\<close>

lemma stream_source_read_fd: "is_fd (fst (stream_source_read n st w)) = is_fd st"
  by (simp add: stream_source_read_def split: prod.split)

lemma stream_payload_fd: "is_fd (fst (stream_payload c st w)) = is_fd st"
  using stream_source_read_fd [of "min c (is_frame_remaining st)" st w]
  by (auto simp: stream_payload_def Let_def split: prod.splits sum.splits)

lemma accept_stream_frame_fd: "accept_stream_frame h st = Inr st' \<Longrightarrow> is_fd st' = is_fd st"
  by (auto simp: accept_stream_frame_def Let_def split: if_splits)

lemma next_stream_frame_fd: "is_fd (fst (next_stream_frame st w)) = is_fd st"
  using stream_source_read_fd [of header_size st w]
  by (auto simp: next_stream_frame_def split: prod.splits sum.splits dest: accept_stream_frame_fd)

lemma stream_read_fd: "is_fd (fst (stream_read c st w)) = is_fd st"
  using next_stream_frame_fd [of st w] stream_payload_fd [of c]
  by (auto simp: stream_read_def split: prod.splits sum.splits)

lemma run_program_fd: "is_fd (fst (run_program prog st w)) = is_fd st"
proof (induction prog arbitrary: st w)
  case (Stream_read capacity k)
  obtain st' w' r where r: "stream_read capacity st w = (st', w', r)" by (metis prod_cases3)
  show ?case using Stream_read.IH [of "k r" st' w'] stream_read_fd [of capacity st w] r by simp
qed simp

lemma stream_drain_fd: "is_fd (fst (stream_drain n st w)) = is_fd st"
proof (induction n st w rule: stream_drain.induct)
  case (1 n st w)
  obtain st' w' r where r: "stream_read n st w = (st', w', r)" by (metis prod_cases3)
  show ?case using "1.IH" [OF r [symmetric] refl] stream_read_fd [of n st w] r
    by (cases r) (simp_all add: stream_drain.simps [of n st w])
qed

lemma stream_handler_response_fd: "is_fd (fst (stream_handler_response request s st w)) = is_fd st"
proof (cases "find_stream_handler (ss_handler_registry s) (rq_route request)")
  case (Some h)
  obtain st' w' r where r: "run_program (h request) st w = (st', w', r)" by (metis prod_cases3)
  then show ?thesis using Some run_program_fd [of "h request" st w]
    by (cases r) (simp_all add: stream_handler_response_def)
qed (simp add: stream_handler_response_def)

text \<open>
  C29: whatever the handler of a streamed request does with its reader, after the exchange the
  connection stands at the first byte after the request's end frame: what the handler left is
  drained, nothing of the next frame is touched, also when writing the response fails.
\<close>

theorem stream_keeps_framing:
  assumes "smooth (ss_world s) fd" "fd = cn_fd (ss_conns s (pj_connection job))"
    "v \<in> {version, cancellable_version}" "pj_deadline job = deadline_max" "0 < so_stream_chunk_size (ss_options s)"
    "\<forall>d\<in>set ds. d \<noteq> [] \<and> length d \<le> max_wire_field" "length (concat ds) \<le> sz_max"
    "so_max_stream_size (ss_options s) = 0 \<or> length (concat ds) \<le> so_max_stream_size (ss_options s)"
    "source_bytes fd (pj_buffered job, pj_buffered_offset job) (ss_world s) =
       chunk_frames WT_stream_request_chunk WT_stream_request_end (rq_request_id (pj_request job)) v ds @ rest"
  shows "\<exists>src w r. stream_exchange job s = (src, w, r) \<and> source_bytes fd src w = rest"
proof -
  define st where "st = new_stream (pj_buffered job, pj_buffered_offset job) fd WT_stream_request_chunk
    WT_stream_request_end (so_max_stream_size (ss_options s)) (so_io_timeout (ss_options s)) deadline_max
    (rq_request_id (pj_request job))"
  have t: "on_track v st (ss_world s) (concat ds) rest"
    unfolding st_def using assms by (intro new_stream_on_track) simp_all
  have "\<exists>st1 w1 resp data. stream_handler_response (pj_request job) s st (ss_world s) = (st1, w1, resp) \<and>
      on_track v st1 w1 data rest"
  proof (cases "find_stream_handler (ss_handler_registry s) (rq_route (pj_request job))")
    case None
    then show ?thesis using t by (auto simp: stream_handler_response_def)
  next
    case (Some h)
    obtain st1 w1 r data where "run_program (h (pj_request job)) st (ss_world s) = (st1, w1, r)"
      "on_track v st1 w1 data rest" using run_program_track [OF t] by blast
    then show ?thesis using Some by (cases r) (auto simp: stream_handler_response_def)
  qed
  then obtain st1 w1 resp data where h: "stream_handler_response (pj_request job) s st (ss_world s) = (st1, w1, resp)"
    "on_track v st1 w1 data rest" by blast
  obtain st2 w2 where d: "stream_drain (so_stream_chunk_size (ss_options s)) st1 w1 = (st2, w2, Inr ())"
    "is_ended st2" "on_track v st2 w2 [] rest" using stream_drain_track [OF h(2) assms(5)] by blast
  obtain w3 q where wr: "write_stream_response fd (rq_request_id (pj_request job)) resp (ss_options s)
      (pj_deadline job) (cn_wire_version (ss_conns s (pj_connection job))) w2 = (w3, q)" by fastforce
  have "stream_exchange job s = (is_source st2, w3, q)"
    unfolding stream_exchange_def Let_def assms(2) [symmetric] assms(4) st_def [symmetric] h(1) prod.case d(1) sum.case
    using wr assms(4) by simp
  moreover have "w_recv w3 = w_recv w2"
    using write_stream_response_recv [of fd _ resp "ss_options s"] wr by (metis fst_conv)
  moreover have "is_fd st2 = fd"
    using stream_drain_fd [of "so_stream_chunk_size (ss_options s)" st1 w1] d(1) h(1)
      stream_handler_response_fd [of "pj_request job" s st "ss_world s"] by (simp add: st_def new_stream_def)
  ultimately show ?thesis using d(2,3) by (auto simp: on_track_def stream_bytes_def source_bytes_def incoming_def)
qed

definition stream_sample :: ServerState where
  "stream_sample = (blank_state default_server_options)
     \<lparr>ss_world := stream_sample_world, ss_conns := (\<lambda>_. new_connection 4 no_identity 0)\<rparr>"

definition stream_sample_job :: PendingJob where
  "stream_sample_job = pending_job 0 \<lparr>rq_route = str ''/up'', rq_body = [], rq_request_id = 9\<rparr> 0
     deadline_max None no_capabilities True False (take 25 sample_stream) 0"

lemma stream_keeps_framing_witness:
  "\<exists>src w r. stream_exchange stream_sample_job stream_sample = (src, w, r) \<and> source_bytes 4 src w = str ''E''"
proof -
  have nz: "str ''ab'' \<noteq> []" "str ''c'' \<noteq> []" by (simp_all add: str_def)
  show ?thesis
  proof (rule stream_keeps_framing [where v = version and ds = sample_chunks])
    show "smooth (ss_world stream_sample) 4" using stream_sample_bytes(1) by (simp add: stream_sample_def)
    show "source_bytes 4 (pj_buffered stream_sample_job, pj_buffered_offset stream_sample_job)
        (ss_world stream_sample) = chunk_frames WT_stream_request_chunk WT_stream_request_end
          (rq_request_id (pj_request stream_sample_job)) version sample_chunks @ str ''E''"
      using stream_sample_bytes(2)
      by (simp add: stream_sample_def stream_sample_job_def pending_job_def sample_stream_def)
    show "\<forall>d\<in>set sample_chunks. d \<noteq> [] \<and> length d \<le> max_wire_field"
      using nz by (simp add: sample_chunks_def max_wire_field_def)
  qed (simp_all add: stream_sample_def stream_sample_job_def pending_job_def blank_state_def
      new_connection_def default_server_options_def default_stream_chunk_size_def
      default_max_stream_size_def sample_chunks_def sz_max_def)
qed

subsection \<open>Stream slots\<close>

lemma rearm_connection_keeps [simp]:
  "ss_active_streams (rearm_connection c fresh b off s) = ss_active_streams s"
  "ss_pending_jobs (rearm_connection c fresh b off s) = ss_pending_jobs s"
  "ss_max_concurrent_streams (rearm_connection c fresh b off s) = ss_max_concurrent_streams s"
  by (simp_all add: rearm_connection_def Let_def split_beta split: option.split bool.split)

lemma run_stream_exchange_keeps:
  "ss_active_streams (run_stream_exchange fresh job s) = sz_sub (ss_active_streams s) 1"
  "ss_pending_jobs (run_stream_exchange fresh job s) = ss_pending_jobs s"
  "ss_max_concurrent_streams (run_stream_exchange fresh job s) = ss_max_concurrent_streams s"
  by (simp_all add: run_stream_exchange_def Let_def release_stream_slot_def split: prod.split sum.split)

abbreviation stream_jobs :: "ServerState \<Rightarrow> PendingJob list" where
  "stream_jobs s \<equiv> filter pj_is_stream (ss_pending_jobs s)"

text \<open>
  The life of a stream slot: a dispatched stream takes one, a worker takes the queued job and runs
  the exchange. \<open>n\<close> counts the workers that are in an exchange; every other step leaves the slots and
  the queued stream jobs alone. The dispatch happens while the workers are not stopping.
\<close>

inductive slot_step :: "ServerState \<times> nat \<Rightarrow> ServerState \<times> nat \<Rightarrow> bool" where
  dispatch: "\<not> ss_workers_stopping s \<Longrightarrow> slot_step (s, n) (dispatch_stream r s, n)"
| takes: "ss_pending_jobs s = job # jobs \<Longrightarrow> pj_is_stream job \<Longrightarrow>
    slot_step (s, n) (s\<lparr>ss_pending_jobs := jobs\<rparr>, Suc n)"
| exchange: "slot_step (s, Suc n) (run_stream_exchange fresh job s, n)"
| other: "ss_active_streams s' = ss_active_streams s \<Longrightarrow> stream_jobs s' = stream_jobs s \<Longrightarrow>
    ss_max_concurrent_streams s' = ss_max_concurrent_streams s \<Longrightarrow> slot_step (s, n) (s', n)"

definition slots_ok :: "ServerState \<times> nat \<Rightarrow> bool" where
  "slots_ok x \<longleftrightarrow> (case x of (s, n) \<Rightarrow>
     ss_active_streams s = n + length (stream_jobs s) \<and>
     ss_active_streams s \<le> ss_max_concurrent_streams s \<and> ss_max_concurrent_streams s \<le> sz_max)"

lemma dispatch_stream_slots:
  assumes "\<not> ss_workers_stopping s"
  shows "ss_max_concurrent_streams (dispatch_stream r s) = ss_max_concurrent_streams s"
    "if cn_active_regular (conn_of s r) = 0 \<and> cn_pending_serialized (conn_of s r) = 0 \<and>
        ss_active_streams s < ss_max_concurrent_streams s
     then ss_active_streams (dispatch_stream r s) = ss_active_streams s + 1 \<and>
       (\<exists>job. pj_is_stream job \<and> ss_pending_jobs (dispatch_stream r s) = ss_pending_jobs s @ [job])
     else ss_active_streams (dispatch_stream r s) = ss_active_streams s \<and>
       ss_pending_jobs (dispatch_stream r s) = ss_pending_jobs s"
  using assms
  by (auto simp: dispatch_stream_def Let_def try_acquire_stream_slot_def enqueue_worker_job_def pending_job_def
      record_stream_rejection_def record_stream_request_def)

lemma slot_step_ok:
  assumes "slot_step x y" "slots_ok x"
  shows "slots_ok y"
  using assms
proof (induction rule: slot_step.induct)
  case (dispatch s n r)
  from dispatch_stream_slots [OF dispatch(1), of r] dispatch(2) show ?case
    by (auto simp: slots_ok_def split: if_splits)
next
  case (takes s job jobs n)
  then show ?case by (simp add: slots_ok_def)
next
  case (exchange s n fresh job)
  then have "sz_sub (ss_active_streams s) 1 = ss_active_streams s - 1"
    by (intro sz_sub_exact) (auto simp: slots_ok_def sz_max_def)
  with exchange show ?case by (simp add: slots_ok_def run_stream_exchange_keeps)
next
  case (other s' s n)
  then show ?case by (simp add: slots_ok_def)
qed

lemma slot_run_ok: "slot_step\<^sup>*\<^sup>* x y \<Longrightarrow> slots_ok x \<Longrightarrow> slots_ok y"
  by (induction rule: rtranclp_induct) (auto intro: slot_step_ok)

text \<open>
  C30: the slot counter always equals the number of exchanges running plus the stream jobs queued, so
  never more than \<^verbatim>\<open>max_concurrent_streams\<close> exchanges run at a time, and every exchange, failed or
  complete, gives its slot back once.
\<close>

theorem stream_slots_bounded:
  assumes "slot_step\<^sup>*\<^sup>* (s, 0) (s', n)" "ss_active_streams s = 0" "stream_jobs s = []"
    "ss_max_concurrent_streams s \<le> sz_max"
  shows "ss_active_streams s' = n + length (stream_jobs s') \<and> n \<le> ss_max_concurrent_streams s'"
  using slot_run_ok [OF assms(1)] assms(2-4) by (auto simp: slots_ok_def)

lemma stream_slots_bounded_witness:
  "\<exists>s'. slot_step\<^sup>*\<^sup>* (blank_state default_server_options, 0) (s', 1) \<and>
     ss_active_streams s' = 1 + length (stream_jobs s') \<and> 1 \<le> ss_max_concurrent_streams s'"
proof -
  let ?s = "blank_state default_server_options"
  have i: "ss_active_streams ?s = 0" "stream_jobs ?s = []" "ss_max_concurrent_streams ?s \<le> sz_max"
    "\<not> ss_workers_stopping ?s"
    by (simp_all add: blank_state_def sz_max_def)
  have "cn_active_regular (conn_of ?s 0) = 0 \<and> cn_pending_serialized (conn_of ?s 0) = 0 \<and>
      ss_active_streams ?s < ss_max_concurrent_streams ?s" "ss_pending_jobs ?s = []"
    by (simp_all add: blank_state_def new_connection_def)
  then obtain job where job: "pj_is_stream job" "ss_pending_jobs (dispatch_stream 0 ?s) = [job]"
    using dispatch_stream_slots(2) [OF i(4), of 0] by auto
  let ?s' = "(dispatch_stream 0 ?s)\<lparr>ss_pending_jobs := []\<rparr>"
  have run: "slot_step\<^sup>*\<^sup>* (?s, 0) (?s', 1)"
    using slot_step.dispatch [OF i(4), of 0 0] slot_step.takes [OF job(2,1), of 0]
    by (auto intro: rtranclp.rtrancl_into_rtrancl)
  from stream_slots_bounded [OF this i(1-3)] run show ?thesis by blast
qed

end
