(* ===== verification/Client.thy ===== *)
theory Client
  imports StreamProps
begin

text \<open>
  The one-shot client (\<^verbatim>\<open>client_engine.cpp\<close>, \<^verbatim>\<open>client.cpp\<close>, \<^verbatim>\<open>transport.cpp\<close>): fixed requests, requests
  that pass a descriptor, idempotent requests with retries, and streamed exchanges. Every exchange
  runs on a connection of its own, which it closes however it ends.
\<close>

subsection \<open>Responses\<close>

definition read_response ::
  "BufferedReader \<Rightarrow> nat \<Rightarrow> msec \<Rightarrow> time \<Rightarrow> World \<Rightarrow> BufferedReader \<times> World \<times> (exn + Response)" where
  "read_response rd max_message_size io_timeout deadline w =
     (case reader_read rd header_size io_timeout deadline w of
        (rd, w, Inl e) \<Rightarrow> (rd, w, Inl e)
      | (rd, w, Inr header) \<Rightarrow>
          (case decode_header_expecting header WT_response of
             Inl e \<Rightarrow> (rd, w, Inl e)
           | Inr h \<Rightarrow>
               if dh_request_id h \<noteq> 0
               then (rd, w, Inl (Error EC_protocol ''unexpected response request_id'' None))
               else if dh_arg1 h > word_of_int int32_max
               then (rd, w, Inl (Error EC_protocol ''response status_code is out of range'' None))
               else if unat (dh_arg2 h) > max_message_size
               then (rd, w, Inl (Error EC_too_large ''response exceeds max_message_size'' None))
               else case reader_read rd (unat (dh_arg2 h)) io_timeout deadline w of
                      (rd, w, Inl e) \<Rightarrow> (rd, w, Inl e)
                    | (rd, w, Inr body) \<Rightarrow>
                        (rd, w, Inr \<lparr>rsp_status = uint (dh_arg1 h), rsp_body = body\<rparr>)))"

subsection \<open>One-shot requests\<close>

definition validate_client :: "bstring \<Rightarrow> ClientOptions \<Rightarrow> exn + unit" where
  "validate_client socket_path options =
     (case make_endpoint socket_path of Inl e \<Rightarrow> Inl e | Inr _ \<Rightarrow> validate_client_options options)"

text \<open>
  A connection for one exchange: \<open>exchange\<close> runs on the connected socket, whose owner closes it
  however the exchange ends.
\<close>

definition with_connection ::
  "bstring \<Rightarrow> ClientOptions \<Rightarrow> time \<Rightarrow> (fd \<Rightarrow> World \<Rightarrow> World \<times> (exn + 'a)) \<Rightarrow> World \<Rightarrow> World \<times> (exn + 'a)" where
  "with_connection socket_path options deadline exchange w =
     (case make_socket w of
        (w, Inl e) \<Rightarrow> (w, Inl e)
      | (w, Inr fd) \<Rightarrow>
          (case make_endpoint socket_path of
             Inl e \<Rightarrow> (socket_close fd w, Inl e)
           | Inr _ \<Rightarrow>
               (case connect_nonblocking (co_connect_timeout options) deadline w of
                  (w, Inl e) \<Rightarrow> (socket_close fd w, Inl e)
                | (w, Inr _) \<Rightarrow> (case exchange fd w of (w, r) \<Rightarrow> (socket_close fd w, r)))))"

definition request_exchange ::
  "ClientOptions \<Rightarrow> time \<Rightarrow> (World \<Rightarrow> World \<times> (exn + unit)) \<Rightarrow> fd \<Rightarrow> World \<Rightarrow> World \<times> (exn + Response)" where
  "request_exchange options deadline send fd w =
     (case send w of
        (w, Inl e) \<Rightarrow> (w, Inl e)
      | (w, Inr _) \<Rightarrow>
          (case read_response (new_reader fd) (co_max_message_size options) (co_io_timeout options) deadline w of
             (_, w, r) \<Rightarrow> (w, r)))"

definition client_request ::
  "bstring \<Rightarrow> ClientOptions \<Rightarrow> bstring \<Rightarrow> bstring \<Rightarrow> World \<Rightarrow> World \<times> (exn + Response)" where
  "client_request socket_path options route body w =
     (case validate_request_lengths (length route) (length body) (co_max_message_size options) of
        Inl e \<Rightarrow> (w, Inl e)
      | Inr _ \<Rightarrow>
          (case deadline_after (co_request_timeout options) w of (w, deadline) \<Rightarrow>
             with_connection socket_path options deadline
               (\<lambda>fd. request_exchange options deadline
                  (write_request_frame fd 0 route body (co_io_timeout options) deadline
                     (co_protocol_version options)) fd) w))"

definition write_request_frame_with_fd ::
  "fd \<Rightarrow> u32 \<Rightarrow> fd \<Rightarrow> bstring \<Rightarrow> bstring \<Rightarrow> msec \<Rightarrow> time \<Rightarrow> byte \<Rightarrow> World \<Rightarrow> World \<times> (exn + unit)" where
  "write_request_frame_with_fd fd request_id passed_fd route body io_timeout deadline wire_version w =
     (let header = encode_header WT_request request_id (of_nat (length route)) (of_nat (length body))
                     carries_fd_flag wire_version
      in write_iovecs_exact_with_fd fd [header, route, body] passed_fd io_timeout deadline w)"

definition client_request_fd ::
  "bstring \<Rightarrow> ClientOptions \<Rightarrow> bstring \<Rightarrow> fd \<Rightarrow> bstring \<Rightarrow> World \<Rightarrow> World \<times> (exn + Response)" where
  "client_request_fd socket_path options route passed_fd body w =
     (if passed_fd < 0 then (w, Inl (Invalid_argument ''request_fd requires a valid descriptor''))
      else case validate_request_lengths (length route) (length body) (co_max_message_size options) of
             Inl e \<Rightarrow> (w, Inl e)
           | Inr _ \<Rightarrow>
               (case deadline_after (co_request_timeout options) w of (w, deadline) \<Rightarrow>
                  with_connection socket_path options deadline
                    (\<lambda>fd. request_exchange options deadline
                       (write_request_frame_with_fd fd 0 passed_fd route body (co_io_timeout options) deadline
                          (co_protocol_version options)) fd) w))"

subsection \<open>Retries\<close>

text \<open>The back-off grows to at most its maximum.\<close>

definition next_backoff :: "msec \<Rightarrow> msec \<Rightarrow> msec" where
  "next_backoff max_backoff backoff =
     (if backoff < max_backoff then backoff + min backoff (max_backoff - backoff) else backoff)"

definition retryable :: "exn \<Rightarrow> bool" where
  "retryable e \<longleftrightarrow> error_kind e = Some EC_timeout \<or> error_kind e = Some EC_closed \<or>
     error_kind e = Some EC_unavailable"

text \<open>The second component is the pauses between the attempts, the zero ones left out.\<close>

function retry_loop ::
  "(World \<Rightarrow> World \<times> (exn + Response)) \<Rightarrow> RetryOptions \<Rightarrow> nat \<Rightarrow> msec \<Rightarrow> World \<Rightarrow>
     World \<times> msec list \<times> (exn + Response)" where
  "retry_loop req retry attempt backoff w =
     (case req w of
        (w, Inr response) \<Rightarrow> (w, [], Inr response)
      | (w, Inl e) \<Rightarrow>
          if \<not> retryable e \<or> attempt \<ge> ro_max_attempts retry then (w, [], Inl e)
          else case retry_loop req retry (attempt + 1) (next_backoff (ro_max_backoff retry) backoff) w of
                 (w, pauses, r) \<Rightarrow> (w, (if backoff > 0 then backoff # pauses else pauses), r))"
  by pat_completeness auto
termination
  by (relation "measure (\<lambda>(req, retry, attempt, backoff, w). ro_max_attempts retry - attempt)") auto

declare retry_loop.simps [simp del]

definition request_idempotent ::
  "bstring \<Rightarrow> ClientOptions \<Rightarrow> bstring \<Rightarrow> bstring \<Rightarrow> RetryOptions \<Rightarrow> World \<Rightarrow>
     World \<times> msec list \<times> (exn + Response)" where
  "request_idempotent socket_path options route body retry w =
     (if ro_max_attempts retry = 0 \<or> ro_initial_backoff retry < 0 \<or> ro_max_backoff retry < 0 \<or>
         ro_initial_backoff retry > ro_max_backoff retry
      then (w, [], Inl (Invalid_argument ''invalid idempotent request retry options''))
      else retry_loop (client_request socket_path options route body) retry 1 (ro_initial_backoff retry) w)"

subsection \<open>Streams (\<^verbatim>\<open>transport.cpp\<close>)\<close>

text \<open>\<open>i\<close> counts the calls of the reader of the request body.\<close>

function request_body_loop ::
  "fd \<Rightarrow> u32 \<Rightarrow> StreamReader \<Rightarrow> nat \<Rightarrow> nat \<Rightarrow> msec \<Rightarrow> time \<Rightarrow> byte \<Rightarrow> nat \<Rightarrow> nat \<Rightarrow> World \<Rightarrow>
     World \<times> (exn + unit)" where
  "request_body_loop fd request_id body chunk_size max_stream_size io_timeout deadline wire_version i total_size w =
     (case body i chunk_size of
        Threw_std what \<Rightarrow> (w, Inl (Std_exception what))
      | Threw_other \<Rightarrow> (w, Inl Unknown_exception)
      | Returned d \<Rightarrow>
          if d = [] then (w, Inr ())
          else if length d > chunk_size
          then (w, Inl (Runtime_error ''stream reader returned more bytes than its capacity''))
          else if length d > sz_max - total_size \<or>
                  (max_stream_size \<noteq> 0 \<and> length d > max_stream_size - total_size)
          then (w, Inl (Length_error ''stream exceeds max_stream_size''))
          else case write_frame_with_payload fd WT_stream_request_chunk request_id
                      (word_of_nat (length d)) 0 d io_timeout deadline wire_version w of
                 (w, Inl e) \<Rightarrow> (w, Inl e)
               | (w, Inr _) \<Rightarrow>
                   request_body_loop fd request_id body chunk_size max_stream_size io_timeout deadline
                     wire_version (i + 1) (total_size + length d) w)"
  by pat_completeness auto
termination
  by (relation "measure (\<lambda>(fd, id, body, chunk, max_size, t, d, v, i, total_size, w). sz_max - total_size)")
    (auto simp: not_less intro: total_size_progress)

declare request_body_loop.simps [simp del]

definition write_stream_request ::
  "fd \<Rightarrow> u32 \<Rightarrow> bstring \<Rightarrow> StreamReader option \<Rightarrow> nat \<Rightarrow> nat \<Rightarrow> msec \<Rightarrow> time \<Rightarrow> byte \<Rightarrow> World \<Rightarrow>
     World \<times> (exn + unit)" where
  "write_stream_request fd request_id route body chunk_size max_stream_size io_timeout deadline wire_version w =
     (case write_frame_with_payload fd WT_stream_request request_id (word_of_nat (length route)) 0 route
             io_timeout deadline wire_version w of
        (w, Inl e) \<Rightarrow> (w, Inl e)
      | (w, Inr _) \<Rightarrow>
          (case (case body of
                   None \<Rightarrow> (w, Inr ())
                 | Some body \<Rightarrow> request_body_loop fd request_id body chunk_size max_stream_size io_timeout
                                 deadline wire_version 0 0 w) of
             (w, Inl e) \<Rightarrow> (w, Inl e)
           | (w, Inr _) \<Rightarrow>
               write_header_frame fd WT_stream_request_end request_id 0 0 io_timeout deadline wire_version w))"

text \<open>
  The consumer of the response: what it does on its \<open>k\<close>-th call. The pieces it was given are
  collected; their number is \<open>k\<close>.
\<close>

type_synonym ChunkConsumer = "nat \<Rightarrow> bstring \<Rightarrow> unit callback_result"

definition consume_chunk :: "ChunkConsumer option \<Rightarrow> bstring \<Rightarrow> bstring list \<Rightarrow> bstring list \<times> (exn + unit)" where
  "consume_chunk consumer d got =
     (case consumer of
        None \<Rightarrow> (got, Inr ())
      | Some f \<Rightarrow>
          (got @ [d],
           case f (length got) d of
             Returned _ \<Rightarrow> Inr ()
           | Threw_std what \<Rightarrow> Inl (Std_exception what)
           | Threw_other \<Rightarrow> Inl Unknown_exception))"

text \<open>
  A chunk is handed on in pieces of the buffer's size. With an empty buffer the loop would never
  end (\<open>None\<close>); the constructor of a client refuses such options.
\<close>

function deliver_chunk ::
  "BufferedReader \<Rightarrow> nat \<Rightarrow> nat \<Rightarrow> ChunkConsumer option \<Rightarrow> msec \<Rightarrow> time \<Rightarrow> bstring list \<Rightarrow> World \<Rightarrow>
     (BufferedReader \<times> World \<times> bstring list \<times> (exn + unit)) option" where
  "deliver_chunk rd remaining buffer_size consumer io_timeout deadline got w =
     (if remaining = 0 then Some (rd, w, got, Inr ())
      else if buffer_size = 0 then None
      else let n = min remaining buffer_size
           in case reader_read rd n io_timeout deadline w of
                (rd, w, Inl e) \<Rightarrow> Some (rd, w, got, Inl e)
              | (rd, w, Inr d) \<Rightarrow>
                  (case consume_chunk consumer d got of
                     (got, Inl e) \<Rightarrow> Some (rd, w, got, Inl e)
                   | (got, Inr _) \<Rightarrow>
                       deliver_chunk rd (remaining - n) buffer_size consumer io_timeout deadline got w))"
  by pat_completeness auto
termination
  by (relation "measure (\<lambda>(rd, remaining, rest). remaining)") auto

declare deliver_chunk.simps [simp del]

datatype ChunkHeader = CH_end | CH_chunk nat

definition check_chunk_header :: "ClientOptions \<Rightarrow> nat \<Rightarrow> bstring \<Rightarrow> exn + ChunkHeader" where
  "check_chunk_header options total_size header =
     (case decode_header header of
        Inl e \<Rightarrow> Inl e
      | Inr h \<Rightarrow>
          if dh_type h = WT_stream_response_end
          then if dh_request_id h \<noteq> 0 \<or> dh_arg1 h \<noteq> 0 \<or> dh_arg2 h \<noteq> 0
               then Inl (Error EC_protocol ''invalid stream end frame'' None) else Inr CH_end
          else if dh_type h \<noteq> WT_stream_response_chunk \<or> dh_request_id h \<noteq> 0 \<or> dh_arg1 h = 0 \<or> dh_arg2 h \<noteq> 0
          then Inl (Error EC_protocol ''invalid stream chunk frame'' None)
          else if unat (dh_arg1 h) > sz_max - total_size \<or>
                  (co_max_stream_size options \<noteq> 0 \<and> unat (dh_arg1 h) > co_max_stream_size options - total_size)
          then Inl (Error EC_too_large ''stream exceeds max_stream_size'' None)
          else Inr (CH_chunk (unat (dh_arg1 h))))"

lemma check_chunk_progress:
  assumes "check_chunk_header options n header = Inr (CH_chunk k)" shows "sz_max - (n + k) < sz_max - n"
proof -
  have "0 < k" "k \<le> sz_max - n"
    using assms by (auto simp: check_chunk_header_def unat_gt_0 not_less split: sum.splits if_splits)
  then show ?thesis by simp
qed

function response_chunk_loop ::
  "ClientOptions \<Rightarrow> time \<Rightarrow> ChunkConsumer option \<Rightarrow> BufferedReader \<Rightarrow> nat \<Rightarrow> bstring list \<Rightarrow> World \<Rightarrow>
     (World \<times> bstring list \<times> (exn + unit)) option" where
  "response_chunk_loop options deadline consumer rd total_size got w =
     (case reader_read rd header_size (co_io_timeout options) deadline w of
        (rd, w, Inl e) \<Rightarrow> Some (w, got, Inl e)
      | (rd, w, Inr header) \<Rightarrow>
          (case check_chunk_header options total_size header of
             Inl e \<Rightarrow> Some (w, got, Inl e)
           | Inr CH_end \<Rightarrow> Some (w, got, Inr ())
           | Inr (CH_chunk n) \<Rightarrow>
               (case deliver_chunk rd n (co_stream_chunk_size options) consumer (co_io_timeout options) deadline
                       got w of
                  None \<Rightarrow> None
                | Some (rd, w, got, Inl e) \<Rightarrow> Some (w, got, Inl e)
                | Some (rd, w, got, Inr _) \<Rightarrow>
                    response_chunk_loop options deadline consumer rd (total_size + n) got w)))"
  by pat_completeness auto
termination
  by (relation "measure (\<lambda>(options, deadline, consumer, rd, total_size, rest). sz_max - total_size)")
    (auto dest: check_chunk_progress)

declare response_chunk_loop.simps [simp del]

text \<open>The status of the response and the chunks of its body.\<close>

definition read_stream_response ::
  "ClientOptions \<Rightarrow> time \<Rightarrow> ChunkConsumer option \<Rightarrow> BufferedReader \<Rightarrow> World \<Rightarrow>
     (World \<times> bstring list \<times> (exn + Status)) option" where
  "read_stream_response options deadline consumer rd w =
     (case reader_read rd header_size (co_io_timeout options) deadline w of
        (rd, w, Inl e) \<Rightarrow> Some (w, [], Inl e)
      | (rd, w, Inr header) \<Rightarrow>
          (case decode_header_expecting header WT_stream_response of
             Inl e \<Rightarrow> Some (w, [], Inl e)
           | Inr h \<Rightarrow>
               if dh_request_id h \<noteq> 0 \<or> dh_arg1 h > word_of_int int32_max \<or> dh_arg2 h \<noteq> 0
               then Some (w, [], Inl (Error EC_protocol ''invalid stream response header'' None))
               else map_option (\<lambda>(w, got, r). (w, got, map_sum id (\<lambda>_. uint (dh_arg1 h)) r))
                      (response_chunk_loop options deadline consumer rd 0 [] w)))"

text \<open>The exchange on a connected socket.\<close>

definition stream_exchange_client ::
  "ClientOptions \<Rightarrow> time \<Rightarrow> bstring \<Rightarrow> StreamReader option \<Rightarrow> ChunkConsumer option \<Rightarrow> fd \<Rightarrow> World \<Rightarrow>
     (World \<times> bstring list \<times> (exn + Status)) option" where
  "stream_exchange_client options deadline route request_body consumer fd w =
     (case write_stream_request fd 0 route request_body (co_stream_chunk_size options) (co_max_stream_size options)
             (co_io_timeout options) deadline (co_protocol_version options) w of
        (w, Inl e) \<Rightarrow> Some (w, [], Inl e)
      | (w, Inr _) \<Rightarrow> read_stream_response options deadline consumer (new_reader fd) w)"

definition run_oneshot_stream ::
  "bstring \<Rightarrow> ClientOptions \<Rightarrow> bstring \<Rightarrow> StreamReader option \<Rightarrow> ChunkConsumer option \<Rightarrow> World \<Rightarrow>
     (World \<times> bstring list \<times> (exn + Status)) option" where
  "run_oneshot_stream socket_path options route request_body consumer w =
     (if route = [] then Some (w, [], Inl (Invalid_argument ''route must not be empty''))
      else if length route > co_max_message_size options \<or> length route > max_wire_field
      then Some (w, [], Inl (Length_error ''route exceeds max_message_size''))
      else case deadline_after (co_stream_timeout options) w of (w, deadline) \<Rightarrow>
             (case make_socket w of
                (w, Inl e) \<Rightarrow> Some (w, [], Inl e)
              | (w, Inr fd) \<Rightarrow>
                 (case make_endpoint socket_path of
                    Inl e \<Rightarrow> Some (socket_close fd w, [], Inl e)
                  | Inr _ \<Rightarrow>
                      (case connect_nonblocking (co_connect_timeout options) deadline w of
                         (w, Inl e) \<Rightarrow> Some (socket_close fd w, [], Inl e)
                       | (w, Inr _) \<Rightarrow>
                           map_option (\<lambda>(w, got, r). (socket_close fd w, got, r))
                             (stream_exchange_client options deadline route request_body consumer fd w)))))"

end
