(* ===== verification/Session.thy ===== *)
theory Session
  imports Client
begin

text \<open>
  The multiplexed client session (\<^verbatim>\<open>src/system/runtime/session_engine.hpp\<close>, \<^verbatim>\<open>session_engine.cpp\<close>,
  \<^verbatim>\<open>src/user/cpp/core/session.cpp\<close>): a table of requests in flight, cut into shards, the sections of a
  request, the reader thread that delivers responses, and the life of a session. Every section under
  a lock is one definition.
\<close>

subsection \<open>State\<close>

definition inflight_shard_count :: nat where "inflight_shard_count = 16"
definition cached_inflight_slots :: nat where "cached_inflight_slots = 64"

definition cached_slots_per_shard :: nat where
  "cached_slots_per_shard = (cached_inflight_slots + inflight_shard_count - 1) div inflight_shard_count"

text \<open>\<^verbatim>\<open>EASY_UDS_SESSION_SPIN_US\<close> microseconds.\<close>

definition session_spin_duration :: time where "session_spin_duration = 100 * 1000"

record Slot =
  sl_done :: bool
  sl_response :: Response
  sl_error :: "exn option"

definition empty_slot :: Slot where
  "empty_slot = \<lparr>sl_done = False, sl_response = Response_ok [], sl_error = None\<rparr>"

text \<open>
  A shard of the in-flight table: the entries, with the addresses of the slots, and the number of
  map nodes kept for reuse.
\<close>

record InflightShard =
  sh_inflight :: "(u32 \<times> nat) list"
  sh_free :: nat

record CounterShard =
  ct_started :: u64
  ct_completed :: u64
  ct_timed_out :: u64
  ct_failed :: u64

text \<open>
  The slots are on the stacks of the callers and the cancellation flags belong to their users; both
  are reached through addresses.
\<close>

record SessionState =
  se_socket_path :: bstring
  se_options :: ClientOptions
  se_fd :: fd
  se_broken :: bool
  se_reader_stop :: bool
  se_next_id :: u32
  se_shards :: "InflightShard list"
  se_counters :: "CounterShard list option"
  se_slots :: "nat \<Rightarrow> Slot"
  se_cancelled :: "nat \<Rightarrow> bool"
  se_world :: World

definition new_session_state :: "bstring \<Rightarrow> ClientOptions \<Rightarrow> fd \<Rightarrow> World \<Rightarrow> SessionState" where
  "new_session_state socket_path options fd w =
     \<lparr>se_socket_path = socket_path, se_options = options, se_fd = fd, se_broken = False, se_reader_stop = False,
      se_next_id = 1,
      se_shards = replicate inflight_shard_count \<lparr>sh_inflight = [], sh_free = 0\<rparr>,
      se_counters = (if co_stats options = SM_basic
                     then Some (replicate inflight_shard_count
                       \<lparr>ct_started = 0, ct_completed = 0, ct_timed_out = 0, ct_failed = 0\<rparr>)
                     else None),
      se_slots = (\<lambda>_. empty_slot), se_cancelled = (\<lambda>_. False), se_world = w\<rparr>"

subsection \<open>The in-flight table\<close>

definition shard_find :: "u32 \<Rightarrow> InflightShard \<Rightarrow> nat option" where
  "shard_find request_id sh = map_of (sh_inflight sh) request_id"

definition shard_insert :: "u32 \<Rightarrow> nat \<Rightarrow> InflightShard \<Rightarrow> exn + InflightShard" where
  "shard_insert request_id slot sh =
     (if sh_free sh = 0
      then Inr (if shard_find request_id sh = None
                then sh\<lparr>sh_inflight := (request_id, slot) # sh_inflight sh\<rparr> else sh)
      else if shard_find request_id sh \<noteq> None then Inl (Logic_error ''duplicate session request_id'')
      else Inr (sh\<lparr>sh_inflight := (request_id, slot) # sh_inflight sh, sh_free := sh_free sh - 1\<rparr>))"

definition shard_erase :: "u32 \<Rightarrow> InflightShard \<Rightarrow> InflightShard" where
  "shard_erase request_id sh =
     (let found = shard_find request_id sh \<noteq> None;
          sh = sh\<lparr>sh_inflight := AList.delete request_id (sh_inflight sh)\<rparr>
      in if found \<and> sh_free sh < cached_slots_per_shard then sh\<lparr>sh_free := sh_free sh + 1\<rparr> else sh)"

definition shard_index :: "u32 \<Rightarrow> nat" where
  "shard_index request_id = unat request_id mod inflight_shard_count"

definition shard_for :: "u32 \<Rightarrow> SessionState \<Rightarrow> InflightShard" where
  "shard_for request_id s = se_shards s ! shard_index request_id"

definition set_shard :: "u32 \<Rightarrow> InflightShard \<Rightarrow> SessionState \<Rightarrow> SessionState" where
  "set_shard request_id sh s = s\<lparr>se_shards := (se_shards s)[shard_index request_id := sh]\<rparr>"

text \<open>\<^verbatim>\<open>if (auto* counters = counters_for(id)) ...\<close>\<close>

definition count_request :: "u32 \<Rightarrow> (CounterShard \<Rightarrow> CounterShard) \<Rightarrow> SessionState \<Rightarrow> SessionState" where
  "count_request request_id f s =
     s\<lparr>se_counters := map_option (\<lambda>cs. cs[shard_index request_id := f (cs ! shard_index request_id)]) (se_counters s)\<rparr>"

definition slot_upd :: "nat \<Rightarrow> (Slot \<Rightarrow> Slot) \<Rightarrow> SessionState \<Rightarrow> SessionState" where
  "slot_upd a f s = s\<lparr>se_slots := (se_slots s)(a := f (se_slots s a))\<rparr>"

definition se_on_world :: "(World \<Rightarrow> World \<times> 'a) \<Rightarrow> SessionState \<Rightarrow> SessionState \<times> 'a" where
  "se_on_world f s = (case f (se_world s) of (w, x) \<Rightarrow> (s\<lparr>se_world := w\<rparr>, x))"

definition session_shutdown :: "SessionState \<Rightarrow> SessionState" where
  "session_shutdown s = s\<lparr>se_world := socket_shutdown (se_fd s) (se_world s)\<rparr>"

subsection \<open>A request of a session\<close>

definition session_closed :: exn where
  "session_closed = Error EC_closed ''session connection is no longer usable'' None"

definition fetch_id :: "SessionState \<Rightarrow> SessionState \<times> u32" where
  "fetch_id s = (s\<lparr>se_next_id := se_next_id s + 1\<rparr>, se_next_id s)"

text \<open>
  The section under the lock of the shard: \<open>Inr True\<close> when the request is registered, \<open>Inr False\<close> when
  the identifier is taken.
\<close>

definition claim_id :: "u32 \<Rightarrow> nat \<Rightarrow> SessionState \<Rightarrow> SessionState \<times> (exn + bool)" where
  "claim_id request_id slot s =
     (if se_broken s then (s, Inl session_closed)
      else if shard_find request_id (shard_for request_id s) \<noteq> None then (s, Inr False)
      else case shard_insert request_id slot (shard_for request_id s) of
             Inl e \<Rightarrow> (s, Inl e)
           | Inr sh \<Rightarrow> (count_request request_id (\<lambda>c. c\<lparr>ct_started := ct_started c + 1\<rparr>) (set_shard request_id sh s), Inr True))"

text \<open>The loop for an identifier; \<open>fuel\<close> bounds its rounds (\<open>None\<close>: it has not ended).\<close>

fun allocate_id :: "nat \<Rightarrow> nat \<Rightarrow> SessionState \<Rightarrow> (SessionState \<times> (exn + u32)) option" where
  "allocate_id 0 slot s = None"
| "allocate_id (Suc fuel) slot s =
     (case fetch_id s of (s, request_id) \<Rightarrow>
        if request_id = 0 then allocate_id fuel slot s
        else (case claim_id request_id slot s of
                (s, Inl e) \<Rightarrow> Some (s, Inl e)
              | (s, Inr True) \<Rightarrow> Some (s, Inr request_id)
              | (s, Inr False) \<Rightarrow> allocate_id fuel slot s))"

text \<open>Sending, under \<^verbatim>\<open>send_mutex\<close>, and the two sections of the handler for its failure.\<close>

definition send_session_request ::
  "u32 \<Rightarrow> bstring \<Rightarrow> bstring \<Rightarrow> time \<Rightarrow> SessionState \<Rightarrow> SessionState \<times> (exn + unit)" where
  "send_session_request request_id route body deadline s =
     (case se_on_world (write_request_frame (se_fd s) request_id route body (co_io_timeout (se_options s)) deadline
             (co_protocol_version (se_options s))) s of
        (s, Inl e) \<Rightarrow> (s\<lparr>se_broken := True\<rparr>, Inl e)
      | (s, Inr _) \<Rightarrow> (s, Inr ()))"

definition abandon_request :: "u32 \<Rightarrow> SessionState \<Rightarrow> SessionState" where
  "abandon_request request_id s =
     (let s = count_request request_id (\<lambda>c. c\<lparr>ct_failed := ct_failed c + 1\<rparr>) s;
          s = set_shard request_id (shard_erase request_id (shard_for request_id s)) s
      in session_shutdown s)"

text \<open>
  Waiting for the slot. \<open>env\<close> is what the other threads do, one step of it for every wait; without a
  further step the wait has not ended (\<open>None\<close>).
\<close>

type_synonym environment = "(SessionState \<Rightarrow> SessionState) list"

fun spin_wait ::
  "environment \<Rightarrow> nat \<Rightarrow> time \<Rightarrow> time \<Rightarrow> SessionState \<Rightarrow> (SessionState \<times> environment) option" where
  "spin_wait env slot spin_deadline deadline s =
     (if sl_done (se_slots s slot) then Some (s, env)
      else case se_on_world clock_now s of (s, now) \<Rightarrow>
             if now \<ge> spin_deadline \<or> now \<ge> deadline then Some (s, env)
             else (case env of [] \<Rightarrow> None | f # env \<Rightarrow> spin_wait env slot spin_deadline deadline (f s)))"

datatype wait_result = WR_done | WR_cancelled | WR_timed_out

definition is_cancelled :: "nat option \<Rightarrow> SessionState \<Rightarrow> bool" where
  "is_cancelled cancellation s = (case cancellation of None \<Rightarrow> False | Some c \<Rightarrow> se_cancelled s c)"

fun await_slot ::
  "environment \<Rightarrow> nat \<Rightarrow> nat option \<Rightarrow> time \<Rightarrow> SessionState \<Rightarrow> (SessionState \<times> environment \<times> wait_result) option" where
  "await_slot env slot cancellation deadline s =
     (if sl_done (se_slots s slot) then Some (s, env, WR_done)
      else if is_cancelled cancellation s then Some (s, env, WR_cancelled)
      else case se_on_world clock_now s of (s, now) \<Rightarrow>
             if now \<ge> deadline then Some (s, env, WR_timed_out)
             else (case env of [] \<Rightarrow> None | f # env \<Rightarrow> await_slot env slot cancellation deadline (f s)))"

declare spin_wait.simps [simp del] await_slot.simps [simp del]

definition send_cancel :: "u32 \<Rightarrow> SessionState \<Rightarrow> SessionState" where
  "send_cancel request_id s =
     (let header = encode_header WT_cancel_request request_id 0 0 0 (co_protocol_version (se_options s))
      in case se_on_world (write_exact (se_fd s) header (co_io_timeout (se_options s)) deadline_max) s of
           (s, Inl e) \<Rightarrow> session_shutdown (s\<lparr>se_broken := True\<rparr>)
         | (s, Inr _) \<Rightarrow> s)"

text \<open>The wait as a whole: the flags \<^verbatim>\<open>timed_out\<close> and \<^verbatim>\<open>cancelled\<close>.\<close>

definition wait_for_response ::
  "environment \<Rightarrow> u32 \<Rightarrow> nat \<Rightarrow> nat option \<Rightarrow> time \<Rightarrow> SessionState \<Rightarrow> (SessionState \<times> bool \<times> bool) option" where
  "wait_for_response env request_id slot cancellation deadline s =
     (case se_on_world clock_now s of (s, now) \<Rightarrow>
        (case spin_wait env slot (now + session_spin_duration) deadline s of
           None \<Rightarrow> None
         | Some (s, env) \<Rightarrow>
             (case await_slot env slot cancellation deadline s of
                None \<Rightarrow> None
              | Some (s, env, r) \<Rightarrow>
                  if r = WR_cancelled \<and> co_protocol_version (se_options s) \<ge> cancellable_version
                  then (case await_slot env slot None deadline (send_cancel request_id s) of
                          None \<Rightarrow> None
                        | Some (s, env, r) \<Rightarrow> Some (s, r \<noteq> WR_done, True))
                  else Some (s, r = WR_timed_out, r = WR_cancelled))))"

text \<open>The end of a request: its outcome is counted and its entry removed under the lock of the shard.\<close>

definition finish_request :: "u32 \<Rightarrow> nat \<Rightarrow> bool \<Rightarrow> bool \<Rightarrow> SessionState \<Rightarrow> SessionState \<times> (exn + Response)" where
  "finish_request request_id slot timed_out cancelled s =
     (let sl = se_slots s slot;
          s = count_request request_id (\<lambda>c.
                if timed_out then c\<lparr>ct_timed_out := ct_timed_out c + 1\<rparr>
                else if sl_error sl \<noteq> None then c\<lparr>ct_failed := ct_failed c + 1\<rparr>
                else c\<lparr>ct_completed := ct_completed c + 1\<rparr>) s;
          s = set_shard request_id (shard_erase request_id (shard_for request_id s)) s
      in if timed_out
         then (session_shutdown (s\<lparr>se_broken := True\<rparr>), throw_system_error ''request timed out'' ETIMEDOUT)
         else if cancelled then (s, Inl (Error EC_cancelled ''request cancelled'' None))
         else (s, case sl_error sl of Some e \<Rightarrow> Inl e | None \<Rightarrow> Inr (sl_response sl)))"

definition request_impl ::
  "nat \<Rightarrow> environment \<Rightarrow> nat \<Rightarrow> bstring \<Rightarrow> bstring \<Rightarrow> nat option \<Rightarrow> SessionState option \<Rightarrow>
     (SessionState option \<times> (exn + Response)) option" where
  "request_impl fuel env slot route body cancellation session =
     (case session of
        None \<Rightarrow> Some (None, Inl (Logic_error ''session has been moved from''))
      | Some s \<Rightarrow>
          (case validate_request_lengths (length route) (length body) (co_max_message_size (se_options s)) of
             Inl e \<Rightarrow> Some (Some s, Inl e)
           | Inr _ \<Rightarrow>
               if se_broken s then Some (Some s, Inl session_closed)
               else (case allocate_id fuel slot (slot_upd slot (\<lambda>_. empty_slot) s) of
                       None \<Rightarrow> None
                     | Some (s, Inl e) \<Rightarrow> Some (Some s, Inl e)
                     | Some (s, Inr request_id) \<Rightarrow>
                         (case se_on_world (deadline_after (co_request_timeout (se_options s))) s of (s, deadline) \<Rightarrow>
                            (case send_session_request request_id route body deadline s of
                               (s, Inl e) \<Rightarrow> Some (Some (abandon_request request_id s), Inl e)
                             | (s, Inr _) \<Rightarrow>
                                 (case wait_for_response env request_id slot cancellation deadline s of
                                    None \<Rightarrow> None
                                  | Some (s, timed_out, cancelled) \<Rightarrow>
                                      (case finish_request request_id slot timed_out cancelled s of
                                         (s, r) \<Rightarrow> Some (Some s, r))))))))"

definition session_request ::
  "nat \<Rightarrow> environment \<Rightarrow> nat \<Rightarrow> bstring \<Rightarrow> bstring \<Rightarrow> SessionState option \<Rightarrow>
     (SessionState option \<times> (exn + Response)) option" where
  "session_request fuel env slot route body session = request_impl fuel env slot route body None session"

definition session_request_cancellable ::
  "nat \<Rightarrow> environment \<Rightarrow> nat \<Rightarrow> bstring \<Rightarrow> bstring \<Rightarrow> nat \<Rightarrow> SessionState option \<Rightarrow>
     (SessionState option \<times> (exn + Response)) option" where
  "session_request_cancellable fuel env slot route body cancellation session =
     (case session of
        None \<Rightarrow> Some (None, Inl (Logic_error ''session has been moved from''))
      | Some s \<Rightarrow>
          if co_protocol_version (se_options s) < cancellable_version
          then Some (session, Inl (Invalid_argument ''cancellable requests require protocol_version 3''))
          else request_impl fuel env slot route body (Some cancellation) session)"

subsection \<open>The reader thread (\<^verbatim>\<open>session_engine.cpp\<close>)\<close>

definition read_session_response ::
  "ClientOptions \<Rightarrow> BufferedReader \<Rightarrow> World \<Rightarrow> BufferedReader \<times> World \<times> (exn + u32 \<times> Response)" where
  "read_session_response options rd w =
     (case (if br_size rd = 0 then wait_for_io 0 deadline_max ''receive timed out'' w else (w, Inr ())) of
        (w, Inl e) \<Rightarrow> (rd, w, Inl e)
      | (w, Inr _) \<Rightarrow>
          (case reader_read rd header_size (co_io_timeout options) deadline_max w of
             (rd, w, Inl e) \<Rightarrow> (rd, w, Inl e)
           | (rd, w, Inr header) \<Rightarrow>
               (case decode_header_expecting header WT_response of
                  Inl e \<Rightarrow> (rd, w, Inl e)
                | Inr h \<Rightarrow>
                    if dh_arg1 h > word_of_int int32_max
                    then (rd, w, Inl (Error EC_protocol ''response status_code is out of range'' None))
                    else if unat (dh_arg2 h) > co_max_message_size options
                    then (rd, w, Inl (Error EC_too_large ''response exceeds max_message_size'' None))
                    else (case reader_read rd (unat (dh_arg2 h)) (co_io_timeout options) deadline_max w of
                            (rd, w, Inl e) \<Rightarrow> (rd, w, Inl e)
                          | (rd, w, Inr body) \<Rightarrow>
                              (rd, w, Inr (dh_request_id h, \<lparr>rsp_status = uint (dh_arg1 h), rsp_body = body\<rparr>))))))"

text \<open>The section under the locks of the shard and of the slot.\<close>

definition deliver_response :: "u32 \<Rightarrow> Response \<Rightarrow> SessionState \<Rightarrow> SessionState \<times> (exn + unit)" where
  "deliver_response request_id response s =
     (case shard_find request_id (shard_for request_id s) of
        None \<Rightarrow> (s, Inl (Error EC_protocol ''unexpected response request_id'' None))
      | Some slot \<Rightarrow>
          if sl_done (se_slots s slot)
          then (s, Inl (Error EC_protocol ''duplicate response request_id'' None))
          else (slot_upd slot (\<lambda>sl. sl\<lparr>sl_response := response, sl_done := True\<rparr>) s, Inr ()))"

definition fail_slot :: "exn \<Rightarrow> nat \<Rightarrow> SessionState \<Rightarrow> SessionState" where
  "fail_slot e slot s =
     (if sl_done (se_slots s slot) then s else slot_upd slot (\<lambda>sl. sl\<lparr>sl_error := Some e, sl_done := True\<rparr>) s)"

definition fail_shard :: "exn \<Rightarrow> nat \<Rightarrow> SessionState \<Rightarrow> SessionState" where
  "fail_shard e k s = fold (\<lambda>(request_id, slot). fail_slot e slot) (sh_inflight (se_shards s ! k)) s"

definition fail_all :: "exn \<Rightarrow> SessionState \<Rightarrow> SessionState" where
  "fail_all e s = fold (fail_shard e) [0..<inflight_shard_count] (s\<lparr>se_broken := True\<rparr>)"

text \<open>Before every round the other threads take a step of \<open>env\<close>; with none left the loop has not ended.\<close>

fun session_reader_loop :: "environment \<Rightarrow> BufferedReader \<Rightarrow> SessionState \<Rightarrow> SessionState option" where
  "session_reader_loop [] rd s = None"
| "session_reader_loop (f # env) rd s =
     (let s = f s in
      if se_reader_stop s then Some s
      else case read_session_response (se_options s) rd (se_world s) of
             (rd, w, Inl e) \<Rightarrow> Some (fail_all e (s\<lparr>se_world := w\<rparr>))
           | (rd, w, Inr (request_id, response)) \<Rightarrow>
               (case deliver_response request_id response (s\<lparr>se_world := w\<rparr>) of
                  (s, Inl e) \<Rightarrow> Some (fail_all e s)
                | (s, Inr _) \<Rightarrow> session_reader_loop env rd s))"

subsection \<open>Construction, shutdown, status and statistics\<close>

text \<open>\<open>spawn\<close> is the exception that starting the reader thread may raise.\<close>

definition new_session ::
  "exn option \<Rightarrow> bstring \<Rightarrow> ClientOptions \<Rightarrow> World \<Rightarrow> World \<times> (exn + SessionState)" where
  "new_session spawn socket_path options w =
     (case deadline_after (co_request_timeout options) w of (w, deadline) \<Rightarrow>
        (case make_socket w of
           (w, Inl e) \<Rightarrow> (w, Inl e)
         | (w, Inr fd) \<Rightarrow>
             (case make_endpoint socket_path of
                Inl e \<Rightarrow> (socket_close fd w, Inl e)
              | Inr _ \<Rightarrow>
                  (case connect_nonblocking (co_connect_timeout options) deadline w of
                     (w, Inl e) \<Rightarrow> (socket_close fd w, Inl e)
                   | (w, Inr _) \<Rightarrow>
                       (case spawn of
                          Some e \<Rightarrow> (socket_close fd w, Inl e)
                        | None \<Rightarrow> (w, Inr (new_session_state socket_path options fd w)))))))"

text \<open>\<open>join\<close> is what the reader thread does until it ends. The result is the world that is left.\<close>

definition shutdown_session_state ::
  "(SessionState \<Rightarrow> SessionState) \<Rightarrow> SessionState option \<Rightarrow> World option" where
  "shutdown_session_state join session =
     (case session of
        None \<Rightarrow> None
      | Some s \<Rightarrow>
          let s = s\<lparr>se_reader_stop := True\<rparr>;
              s = (if se_fd s \<ge> 0 then session_shutdown s else s);
              s = join s
          in Some (socket_close (se_fd s) (se_world s)))"

datatype SessionStatus = SST_active | SST_broken | SST_moved_from

definition session_status :: "SessionState option \<Rightarrow> SessionStatus" where
  "session_status session =
     (case session of None \<Rightarrow> SST_moved_from | Some s \<Rightarrow> if se_broken s then SST_broken else SST_active)"

definition session_valid :: "SessionState option \<Rightarrow> bool" where
  "session_valid session \<longleftrightarrow> session_status session = SST_active"

record SessionStats =
  sst_inflight :: nat
  sst_counters :: "CounterShard option"

definition add_counters :: "CounterShard \<Rightarrow> CounterShard \<Rightarrow> CounterShard" where
  "add_counters a b = \<lparr>ct_started = ct_started a + ct_started b, ct_completed = ct_completed a + ct_completed b,
     ct_timed_out = ct_timed_out a + ct_timed_out b, ct_failed = ct_failed a + ct_failed b\<rparr>"

definition session_stats :: "SessionState option \<Rightarrow> exn + SessionStats" where
  "session_stats session =
     (case session of
        None \<Rightarrow> Inl (Logic_error ''session has been moved from'')
      | Some s \<Rightarrow>
          Inr \<lparr>sst_inflight = sum_list (map (\<lambda>sh. length (sh_inflight sh)) (se_shards s)),
               sst_counters = map_option
                 (\<lambda>cs. fold (\<lambda>c n. add_counters n c) cs
                    \<lparr>ct_started = 0, ct_completed = 0, ct_timed_out = 0, ct_failed = 0\<rparr>) (se_counters s)\<rparr>)"

definition session_request_stream ::
  "bstring \<Rightarrow> StreamReader option \<Rightarrow> ChunkConsumer option \<Rightarrow> SessionState option \<Rightarrow>
     (SessionState option \<times> bstring list \<times> (exn + Status)) option" where
  "session_request_stream route request_body consumer session =
     (case session of
        None \<Rightarrow> Some (None, [], Inl (Logic_error ''session has been moved from''))
      | Some s \<Rightarrow>
          map_option (\<lambda>(w, got, r). (Some (s\<lparr>se_world := w\<rparr>), got, r))
            (run_oneshot_stream (se_socket_path s) (se_options s) route request_body consumer (se_world s)))"

end
