(* ===== verification/ClientProps.thy ===== *)
theory ClientProps
  imports Client
begin

text \<open>
  What the one-shot client promises: a request brings back the response the server wrote for it, a
  streamed response arrives as the server's body produced it, retries are bounded, and a streamed
  exchange always ends.
\<close>

subsection \<open>Fixed responses\<close>

text \<open>Reads in a row, from a kernel that delivers.\<close>

lemma reader_read_next:
  assumes "reader_ok rd" "smooth w (br_fd rd)" "unread rd w = d @ rest" "length d = n"
  obtains rd' w' where "reader_read rd n i deadline_max w = (rd', w', Inr d)" "reader_ok rd'"
    "smooth w' (br_fd rd')" "br_fd rd' = br_fd rd" "unread rd' w' = rest" "w_sent w' = w_sent w"
proof -
  obtain rd' w' b where r: "reader_read rd n i deadline_max w = (rd', w', Inr b)" "smooth w' (br_fd rd)"
    using read_loop_smooth [of w rd n 0 deadline_max "[]" i] assms by (auto simp: reader_read_def)
  note s = reader_read_sound [OF assms(1) r(1)]
  have "d @ rest = b @ unread rd' w'" "length d = length b" using s assms(3,4) by simp_all
  then have b: "b = d" "unread rd' w' = rest" by simp_all
  show ?thesis
  proof (rule that)
    show "reader_read rd n i deadline_max w = (rd', w', Inr d)" using r(1) b(1) by simp
    show "reader_ok rd'" "br_fd rd' = br_fd rd" "w_sent w' = w_sent w" using s by simp_all
    then show "smooth w' (br_fd rd')" using r(2) by simp
    show "unread rd' w' = rest" by (rule b(2))
  qed
qed

definition plain_header :: "WireType \<Rightarrow> u32 \<Rightarrow> u32 \<Rightarrow> u32 \<Rightarrow> byte \<Rightarrow> DecodedHeader" where
  "plain_header t i a1 a2 v = \<lparr>dh_type = t, dh_request_id = i, dh_arg1 = a1, dh_arg2 = a2,
     dh_flags = 0, dh_version = v\<rparr>"

lemma plain_header_sel [simp]:
  "dh_type (plain_header t i a1 a2 v) = t" "dh_request_id (plain_header t i a1 a2 v) = i"
  "dh_arg1 (plain_header t i a1 a2 v) = a1" "dh_arg2 (plain_header t i a1 a2 v) = a2"
  "dh_flags (plain_header t i a1 a2 v) = 0" "dh_version (plain_header t i a1 a2 v) = v"
  by (simp_all add: plain_header_def)

lemma plain_header_decodes:
  assumes "v \<in> {version, cancellable_version}" "t \<noteq> WT_cancel_request"
  shows "decode_header (encode_header t i a1 a2 0 v) = Inr (plain_header t i a1 a2 v)"
proof -
  have "valid_header (plain_header t i a1 a2 v)"
    using assms unfolding valid_header_def plain_header_sel by auto
  from decode_encode_valid [OF this] show ?thesis unfolding encode_decoded_def plain_header_sel .
qed

lemma plain_header_expected:
  assumes "v \<in> {version, cancellable_version}" "t \<noteq> WT_cancel_request"
  shows "decode_header_expecting (encode_header t i a1 a2 0 v) t = Inr (plain_header t i a1 a2 v)"
  unfolding decode_header_expecting_def plain_header_decodes [OF assms] by simp

text \<open>A status that fits its field on the wire.\<close>

definition wire_status :: "Status \<Rightarrow> bool" where
  "wire_status st \<longleftrightarrow> 0 \<le> st \<and> st \<le> int32_max"

lemma status_field:
  assumes "wire_status st"
  shows "uint (word_of_int st :: u32) = st" "\<not> (word_of_int st :: u32) > word_of_int int32_max"
proof -
  have b: "0 \<le> st" "st \<le> 2147483647" using assms by (simp_all add: wire_status_def int32_max_def)
  have i: "uint (word_of_int int32_max :: u32) = 2147483647" by (simp add: int32_max_def)
  show u: "uint (word_of_int st :: u32) = st" using b by (simp add: uint_word_of_int)
  show "\<not> (word_of_int st :: u32) > word_of_int int32_max"
    by (subst word_less_def, subst u, subst i) (use b in simp)
qed

lemma length_field: "n \<le> max_wire_field \<Longrightarrow> unat (word_of_nat n :: u32) = n"
  by (simp add: max_wire_field_def unat_of_nat)

lemma response_wire_version:
  "cn_wire_version cn \<in> {0, version, cancellable_version} \<Longrightarrow>
   (if cn_wire_version cn = 0 then version else cn_wire_version cn) \<in> {version, cancellable_version}"
  by auto

lemma read_response_frame:
  assumes "reader_ok rd" "smooth w (br_fd rd)"
    and u: "unread rd w = frame_bytes (response_frame cn 0 r d) @ rest"
    and v: "cn_wire_version cn \<in> {0, version, cancellable_version}"
    and st: "wire_status (rsp_status r)"
    and l: "length (rsp_body r) \<le> max_size" "length (rsp_body r) \<le> max_wire_field"
  shows "\<exists>rd' w'. read_response rd max_size i deadline_max w = (rd', w', Inr r) \<and> unread rd' w' = rest \<and>
           w_sent w' = w_sent w"
proof -
  define v where "v = (if cn_wire_version cn = 0 then version else cn_wire_version cn)"
  have v: "v \<in> {version, cancellable_version}" unfolding v_def by (rule response_wire_version [OF v])
  let ?h = "encode_header WT_response 0 (word_of_int (rsp_status r)) (word_of_nat (length (rsp_body r))) 0 v"
  have h: "unread rd w = ?h @ rsp_body r @ rest"
    using u by (simp add: frame_bytes_def response_frame_def v_def)
  obtain rd1 w1 where 1: "reader_read rd header_size i deadline_max w = (rd1, w1, Inr ?h)"
    "reader_ok rd1" "smooth w1 (br_fd rd1)" "br_fd rd1 = br_fd rd" "unread rd1 w1 = rsp_body r @ rest"
    "w_sent w1 = w_sent w"
    by (rule reader_read_next [OF assms(1,2) h length_encode_header])
  obtain rd2 w2 where 2: "reader_read rd1 (length (rsp_body r)) i deadline_max w1 = (rd2, w2, Inr (rsp_body r))"
    "reader_ok rd2" "smooth w2 (br_fd rd2)" "br_fd rd2 = br_fd rd1" "unread rd2 w2 = rest"
    "w_sent w2 = w_sent w1"
    by (rule reader_read_next [OF 1(2,3,5) refl])
  have nc: "WT_response \<noteq> WT_cancel_request" by simp
  have "read_response rd max_size i deadline_max w = (rd2, w2, Inr r)"
    unfolding read_response_def 1(1) prod.case sum.case plain_header_expected [OF v nc]
    using l status_field [OF st] 2(1) by (simp add: length_field)
  from this 2(5) trans [OF 2(6) 1(6)] show ?thesis by (intro exI conjI)
qed

subsection \<open>Writes to a kernel that takes data\<close>

fun sending_answer :: "SendAnswer \<Rightarrow> bool" where
  "sending_answer (SendAccept n) \<longleftrightarrow> 0 < n"
| "sending_answer (SendErr e) \<longleftrightarrow> e = EINTR"

definition sends_smoothly :: "World \<Rightarrow> fd \<Rightarrow> bool" where
  "sends_smoothly w fd \<longleftrightarrow> list_all sending_answer (w_send w fd)"

lemma kernel_send_smooth:
  assumes "sends_smoothly w fd" "data \<noteq> []" "kernel_send fd data p w = (w', x)"
  shows "sends_smoothly w' fd \<and> (x = Inl EINTR \<or> (\<exists>n. x = Inr n \<and> 0 < n))"
  using assms by (auto simp: kernel_send_def sends_smoothly_def Let_def split: list.splits SendAnswer.splits)

lemma send_some_smooth:
  "sends_smoothly w fd \<Longrightarrow> concat parts \<noteq> [] \<Longrightarrow> d = deadline_max \<Longrightarrow>
     \<exists>w' n. send_some fd parts p i d w = (w', Inr n) \<and> sends_smoothly w' fd"
proof (induction fd parts p i d w rule: send_some.induct)
  case (1 fd parts p i d w)
  obtain w1 x where k: "send_iovecs fd parts p w = (w1, x)" by fastforce
  have c: "check_deadline d ''send timed out'' w = (w, Inr ())"
    using "1.prems"(3) by (simp add: check_deadline_def)
  have s: "sends_smoothly w1 fd" "x = Inl EINTR \<or> (\<exists>n. x = Inr n \<and> 0 < n)"
    using kernel_send_smooth [OF "1.prems"(1,2), of p w1 x] k by (simp_all add: send_iovecs_def)
  from s(2) show ?case
  proof
    assume x: "x = Inl EINTR"
    from "1.IH"(1) [OF c [symmetric] refl k [symmetric] x refl s(1) "1.prems"(2,3)] show ?thesis
      using c k x by (subst send_some.simps) simp
  next
    assume "\<exists>n. x = Inr n \<and> 0 < n"
    then show ?thesis using c k s(1) by (subst send_some.simps) auto
  qed
qed

lemma write_iovecs_loop_smooth:
  "sends_smoothly w fd \<Longrightarrow> d = deadline_max \<Longrightarrow>
     \<exists>w'. write_iovecs_loop fd parts p i d w = (w', Inr ()) \<and> sends_smoothly w' fd"
proof (induction fd parts p i d w rule: write_iovecs_loop.induct)
  case (1 fd parts p i d w)
  show ?case
  proof (cases "skip_empty_parts parts = []")
    case True
    then show ?thesis using "1.prems"(1) by (subst write_iovecs_loop.simps) simp
  next
    case False
    then have "concat (skip_empty_parts parts) \<noteq> []" by (simp only: concat_skip_empty_parts skip_empty_parts_Nil not_False_eq_True)
    from send_some_smooth [OF "1.prems"(1) this "1.prems"(2)] obtain w1 n where
      s: "send_some fd (skip_empty_parts parts) p i d w = (w1, Inr n)" "sends_smoothly w1 fd" by blast
    from "1.IH" [OF refl False s(1) [symmetric] refl s(2) "1.prems"(2)] show ?thesis
      using False s(1) by (subst write_iovecs_loop.simps) (simp only: Let_def if_False prod.case sum.case)
  qed
qed

subsection \<open>A request and its response\<close>

lemma wrote_all:
  assumes "wrote fd data None w w' (Inr ())"
  shows "w_sent w' = (w_sent w)(fd := w_sent w fd @ data)"
proof -
  obtain k where "k = length data" "accepted fd data None k w w'"
    using assms unfolding wrote_def by blast
  then show ?thesis by (simp add: accepted_def)
qed

text \<open>The client gets a connected socket.\<close>

definition connects :: "bstring \<Rightarrow> ClientOptions \<Rightarrow> World \<Rightarrow> fd \<Rightarrow> World \<Rightarrow> bool" where
  "connects path options w fd w2 \<longleftrightarrow>
     (\<exists>w1 ep. make_socket w = (w1, Inr fd) \<and> make_endpoint path = Inr ep \<and>
        connect_nonblocking (co_connect_timeout options) deadline_max w1 = (w2, Inr ()))"

lemma write_request_frame_sent:
  assumes "write_request_frame fd 0 route body i d v w = (w', Inr ())"
  shows "w_sent w' = (w_sent w)(fd := w_sent w fd @ request_frame 0 route body v)" "w_recv w' = w_recv w"
proof -
  let ?h = "encode_header WT_request 0 (of_nat (length route)) (of_nat (length body)) 0 v"
  have l: "write_iovecs_loop fd [?h, route, body] None i d w = (w', Inr ())"
    using assms by (simp add: write_request_frame_def write_iovecs_exact_def)
  show "w_sent w' = (w_sent w)(fd := w_sent w fd @ request_frame 0 route body v)"
    unfolding wrote_all [OF write_iovecs_loop_wrote [OF l]]
    by (simp add: request_frame_def encode_decoded_def request_header_def)
  show "w_recv w' = w_recv w"
    using write_iovecs_loop_recv [of fd "[?h, route, body]" None i d w] l by simp
qed

lemma socket_close_streams [simp]: "w_sent (socket_close fd w) = w_sent w" "w_recv (socket_close fd w) = w_recv w"
  by (simp_all add: socket_close_def add_effect_def)

text \<open>A call that returns a response has sent its request's frame on one descriptor and nothing else.\<close>

lemma make_socket_sent: "w_sent (fst (make_socket w)) = w_sent w"
  by (simp add: make_socket_def create_stream_socket_def set_nonblocking_def lifecycle_set_nonblocking_def
      kernel_fcntl_def split_beta split: list.split sum.split option.split)

lemma connect_nonblocking_sent: "w_sent (fst (connect_nonblocking t d w)) = w_sent w"
proof -
  have c: "w_sent (fst (connect_socket w)) = w_sent w" "w_sent (fst (query_socket_error v)) = w_sent v" for v
    by (simp_all add: connect_socket_def query_socket_error_def split: list.split)
  then show ?thesis
    by (simp add: connect_nonblocking_def split_beta Let_def frame_simps split: option.split sum.split)
qed

lemma read_response_sent:
  assumes "read_response (new_reader fd) max_size i d w = (rd, w', Inr x)"
  shows "w_sent w' = w_sent w"
proof -
  obtain rd1 w1 y where 1: "reader_read (new_reader fd) header_size i d w = (rd1, w1, y)" by (metis prod_cases3)
  obtain h where h: "y = Inr h" using assms unfolding read_response_def 1 by (cases y) simp_all
  note s = reader_read_sound [OF new_reader_ok(1) 1 [unfolded h]]
  obtain n out rd2 where 2: "reader_read rd1 n i d w1 = (rd2, w', Inr out)"
    using assms unfolding read_response_def 1 h by (auto split: sum.splits if_splits prod.splits)
  from reader_read_sound [OF _ 2] s show ?thesis by simp
qed

lemma client_request_sends:
  assumes "client_request path options route body w = (w', Inr x)"
  shows "\<exists>fd. w_sent w' = (w_sent w)(fd := w_sent w fd @ request_frame 0 route body (co_protocol_version options))"
proof -
  obtain w0 d where 0: "deadline_after (co_request_timeout options) w = (w0, d)" by fastforce
  obtain w1 s where 1: "make_socket w0 = (w1, s)" by fastforce
  obtain w2 c where 2: "connect_nonblocking (co_connect_timeout options) d w1 = (w2, c)" by fastforce
  have "with_connection path options d (\<lambda>fd. request_exchange options d (write_request_frame fd 0 route body
      (co_io_timeout options) d (co_protocol_version options)) fd) w0 = (w', Inr x)"
    using assms by (simp add: client_request_def 0 split: sum.splits)
  note run = this [unfolded with_connection_def 1 prod.case 2]
  obtain fd where fd: "s = Inr fd" using run by (cases s) simp_all
  obtain ep where "make_endpoint path = Inr ep" "c = Inr ()"
    using run fd by (cases "make_endpoint path"; cases c) simp_all
  note run2 = run [unfolded fd this sum.case request_exchange_def]
  obtain w3 y where 3: "write_request_frame fd 0 route body (co_io_timeout options) d (co_protocol_version options) w2
      = (w3, y)" by fastforce
  have y: "y = Inr ()" using run2 unfolding 3 by (cases y) simp_all
  obtain rd w4 z where 4: "read_response (new_reader fd) (co_max_message_size options) (co_io_timeout options) d w3
      = (rd, w4, z)" by (metis prod_cases3)
  have w': "w' = socket_close fd w4" "z = Inr x" using run2 by (simp_all add: 3 y 4)
  have "w_sent w4 = w_sent w3" by (rule read_response_sent [OF 4 [unfolded w'(2)]])
  moreover have "w_sent w3 = (w_sent w2)(fd := w_sent w2 fd @ request_frame 0 route body (co_protocol_version options))"
    by (rule write_request_frame_sent(1) [OF 3 [unfolded y]])
  moreover have "w_sent w2 = w_sent w"
    using connect_nonblocking_sent [of "co_connect_timeout options" d w1] make_socket_sent [of w0]
      deadline_after_frame(3) [of "co_request_timeout options" w] 0 1 2 by simp
  ultimately show ?thesis by (intro exI [of _ fd]) (simp add: w'(1))
qed

lemma client_request_answered:
  assumes "co_request_timeout options = 0" "connects path options w fd w2"
    and valid: "validate_request_lengths (length route) (length body) (co_max_message_size options) = Inr ()"
    and sends: "sends_smoothly w2 fd"
    and recv: "smooth w2 fd" "incoming w2 fd = frame_bytes (response_frame cn 0 r d) @ rest"
    and resp: "cn_wire_version cn \<in> {0, version, cancellable_version}" "wire_status (rsp_status r)"
      "length (rsp_body r) \<le> co_max_message_size options" "length (rsp_body r) \<le> max_wire_field"
  shows "\<exists>w'. client_request path options route body w = (w', Inr r) \<and>
           w_sent w' fd = w_sent w2 fd @ request_frame 0 route body (co_protocol_version options)"
proof -
  obtain w1 ep where 1: "make_socket w = (w1, Inr fd)" "make_endpoint path = Inr ep"
    "connect_nonblocking (co_connect_timeout options) deadline_max w1 = (w2, Inr ())"
    using assms(2) unfolding connects_def by blast
  obtain w3 where 3: "write_request_frame fd 0 route body (co_io_timeout options) deadline_max
      (co_protocol_version options) w2 = (w3, Inr ())"
    using write_iovecs_loop_smooth [OF sends refl]
    unfolding write_request_frame_def write_iovecs_exact_def Let_def by blast
  note w3 = write_request_frame_sent [OF 3]
  have i: "smooth w3 (br_fd (new_reader fd))"
    "unread (new_reader fd) w3 = frame_bytes (response_frame cn 0 r d) @ rest"
    using recv w3(2) by (simp_all add: new_reader_ok smooth_def incoming_def)
  obtain rd' w4 where 4: "read_response (new_reader fd) (co_max_message_size options) (co_io_timeout options)
      deadline_max w3 = (rd', w4, Inr r)" "w_sent w4 = w_sent w3"
    using read_response_frame [OF new_reader_ok(1) i resp] by blast
  have "client_request path options route body w = (socket_close fd w4, Inr r)"
    by (simp add: client_request_def valid deadline_after_def assms(1) with_connection_def 1
        request_exchange_def 3 4(1))
  then show ?thesis using 4(2) w3(1) by simp
qed

text \<open>
  C4: a request over a connection of its own: when the socket connects, the kernel takes
  bytes and delivers the bytes the server writes for a response to request 0, in whatever pieces, the
  client returns exactly that response, and what it sent is exactly the request's frame.
\<close>

theorem client_request_roundtrip:
  assumes "co_request_timeout options = 0" "connects path options w fd w2"
    and valid: "validate_request_lengths (length route) (length body) (co_max_message_size options) = Inr ()"
    and sends: "sends_smoothly w2 fd"
    and recv: "smooth w2 fd" "incoming w2 fd = frame_bytes (response_frame cn 0 r d) @ rest"
    and resp: "cn_wire_version cn \<in> {0, version, cancellable_version}" "wire_status (rsp_status r)"
      "length (rsp_body r) \<le> co_max_message_size options" "length (rsp_body r) \<le> max_wire_field"
  shows "\<exists>w'. client_request path options route body w = (w', Inr r) \<and>
           w_sent w' fd = w_sent w2 fd @ request_frame 0 route body (co_protocol_version options)"
  by (rule client_request_answered [OF assms])

definition client_sample_options :: ClientOptions where
  "client_sample_options = default_client_options\<lparr>co_request_timeout := 0\<rparr>"

definition client_sample_response :: bstring where
  "client_sample_response = frame_bytes (response_frame (new_connection 4 no_identity 0) 0 (Response_ok (str ''pong'')) 0)"

text \<open>The response arrives in two segments after an interrupted call.\<close>

definition client_sample_world :: World where
  "client_sample_world = quiet_world\<lparr>w_socket := [Inr 5], w_connect := [None],
     w_send := (\<lambda>_. [SendErr EINTR, SendAccept 3, SendAccept 99]),
     w_recv := (\<lambda>_. [RecvErr EINTR, RecvData (take 9 client_sample_response) [] False,
                     RecvData (drop 9 client_sample_response) [] False])\<rparr>"

lemma client_sample_sel [simp]:
  "w_socket client_sample_world = [Inr 5]" "w_connect client_sample_world = [None]"
  "w_fcntl client_sample_world = []"
  by (simp_all add: client_sample_world_def quiet_world_def)

definition client_sample_connected :: World where
  "client_sample_connected = client_sample_world\<lparr>w_socket := [], w_connect := []\<rparr>"

lemma client_sample_connects:
  "connects (str ''/s'') client_sample_options client_sample_world 5 client_sample_connected"
  by (simp add: connects_def client_sample_connected_def make_socket_def
      create_stream_socket_def set_nonblocking_def lifecycle_set_nonblocking_def kernel_fcntl_def
      make_endpoint_def str_def sun_path_size_def connect_nonblocking_def connect_socket_def)

lemma client_sample_incoming:
  "sends_smoothly client_sample_connected 5" "smooth client_sample_connected 5"
  "incoming client_sample_connected 5 = client_sample_response @ []"
proof -
  have l: "length client_sample_response = 24"
    by (simp add: client_sample_response_def frame_bytes_def response_frame_def header_size_def str_def
        Response_ok_def)
  show "sends_smoothly client_sample_connected 5"
    by (simp add: sends_smoothly_def client_sample_connected_def client_sample_world_def)
  show "smooth client_sample_connected 5"
    by (simp add: smooth_def client_sample_connected_def client_sample_world_def l flip: length_greater_0_conv)
  show "incoming client_sample_connected 5 = client_sample_response @ []"
    by (simp add: incoming_def client_sample_connected_def client_sample_world_def)
qed

lemma client_sample_answered:
  "\<exists>w'. client_request (str ''/s'') client_sample_options (str ''/a'') (str ''hi'') client_sample_world =
     (w', Inr (Response_ok (str ''pong'')))"
proof -
  have "\<exists>w'. client_request (str ''/s'') client_sample_options (str ''/a'') (str ''hi'') client_sample_world =
      (w', Inr (Response_ok (str ''pong''))) \<and>
      w_sent w' 5 = w_sent client_sample_connected 5 @
        request_frame 0 (str ''/a'') (str ''hi'') (co_protocol_version client_sample_options)"
    by (rule client_request_answered [OF _ client_sample_connects _ client_sample_incoming(1,2)
          client_sample_incoming(3) [unfolded client_sample_response_def]])
      (simp_all add: client_sample_options_def default_client_options_def validate_request_lengths_def str_def
        max_wire_field_def default_max_message_size_def new_connection_def wire_status_def int32_max_def status_ok_def
        Response_ok_def)
  then show ?thesis by blast
qed

lemma client_request_roundtrip_witness:
  "\<exists>w'. client_request (str ''/s'') client_sample_options (str ''r'') (str ''hi'') client_sample_world =
     (w', Inr (Response_ok (str ''pong''))) \<and> w_sent w' 5 = request_frame 0 (str ''r'') (str ''hi'') 2"
proof -
  have s: "w_sent client_sample_connected 5 = []" "co_protocol_version client_sample_options = 2"
    by (simp_all add: client_sample_connected_def client_sample_world_def quiet_world_def
        client_sample_options_def default_client_options_def)
  have "\<exists>w'. client_request (str ''/s'') client_sample_options (str ''r'') (str ''hi'') client_sample_world =
      (w', Inr (Response_ok (str ''pong''))) \<and>
      w_sent w' 5 = w_sent client_sample_connected 5 @
        request_frame 0 (str ''r'') (str ''hi'') (co_protocol_version client_sample_options)"
    by (rule client_request_roundtrip [OF _ client_sample_connects _ client_sample_incoming(1,2)
          client_sample_incoming(3) [unfolded client_sample_response_def]])
      (simp_all add: client_sample_options_def default_client_options_def validate_request_lengths_def str_def
        max_wire_field_def default_max_message_size_def new_connection_def wire_status_def int32_max_def status_ok_def
        Response_ok_def)
  then show ?thesis unfolding s by simp
qed

subsection \<open>The server's side of a streamed response\<close>

text \<open>What a reader of a body returns, call by call, before it returns nothing.\<close>

fun produces :: "StreamReader \<Rightarrow> nat \<Rightarrow> nat \<Rightarrow> bstring list \<Rightarrow> bool" where
  "produces body chunk i [] \<longleftrightarrow> body i chunk = Returned []"
| "produces body chunk i (d # ds) \<longleftrightarrow> body i chunk = Returned d \<and> d \<noteq> [] \<and> produces body chunk (i + 1) ds"

definition within_limit :: "nat \<Rightarrow> nat \<Rightarrow> bool" where
  "within_limit limit n \<longleftrightarrow> n \<le> sz_max \<and> (limit = 0 \<or> n \<le> limit)"

abbreviation chunk_frame :: "WireType \<Rightarrow> u32 \<Rightarrow> byte \<Rightarrow> bstring \<Rightarrow> bstring" where
  "chunk_frame t i v d \<equiv> encode_decoded (chunk_header t i d v) @ d"

lemma write_frame_sent:
  assumes "write_frame_with_payload fd t i (word_of_nat (length data)) 0 data io d v w = (w', Inr ())"
  shows "w_sent w' = (w_sent w)(fd := w_sent w fd @ chunk_frame t i v data)"
proof -
  let ?h = "encode_header t i (word_of_nat (length data)) 0 0 v"
  have l: "write_iovecs_loop fd [?h, data] None io d w = (w', Inr ())"
    using assms by (simp add: write_frame_with_payload_def write_iovecs_exact_def)
  show ?thesis
    unfolding wrote_all [OF write_iovecs_loop_wrote [OF l]] by (simp add: encode_decoded_def chunk_header_def)
qed

lemma write_header_sent:
  assumes "write_header_frame fd t i a1 a2 io d v w = (w', Inr ())"
  shows "w_sent w' = (w_sent w)(fd := w_sent w fd @ encode_header t i a1 a2 0 v)"
  by (rule wrote_all [OF write_exact_wrote [OF assms [unfolded write_header_frame_def]]])

lemma stream_body_loop_frames:
  "stream_body_loop fd rid body chunk limit io d v i n w = (w', Inr ()) \<Longrightarrow> within_limit limit n \<Longrightarrow>
     \<exists>ds. produces body chunk i ds \<and> (\<forall>x\<in>set ds. x \<noteq> [] \<and> length x \<le> chunk) \<and>
       within_limit limit (n + length (concat ds)) \<and>
       w_sent w' = (w_sent w)(fd := w_sent w fd @
         concat (map (chunk_frame WT_stream_response_chunk rid v) ds))"
proof (induction fd rid body chunk limit io d v i n w arbitrary: w' rule: stream_body_loop.induct)
  case (1 fd rid body chunk limit io d v i n w)
  note step = "1.prems"(1) [unfolded stream_body_loop.simps [of fd rid body chunk limit io d v i n w]]
  obtain x where b: "body i chunk = Returned x"
    by (cases "body i chunk"; use step in simp)
  show ?case
  proof (cases "x = []")
    case True
    then show ?thesis using step b "1.prems"(2) by (intro exI [of _ "[]"]) simp
  next
    case False
    have l: "\<not> (chunk < length x \<or> sz_max - n < length x \<or> limit \<noteq> 0 \<and> limit - n < length x)"
    proof
      assume "chunk < length x \<or> sz_max - n < length x \<or> limit \<noteq> 0 \<and> limit - n < length x"
      from step [unfolded b callback_result.case if_not_P [OF False] if_P [OF this]] show False by simp
    qed
    obtain w1 y where 1: "write_frame_with_payload fd WT_stream_response_chunk rid (word_of_nat (length x)) 0 x io d v w
      = (w1, y)" by fastforce
    have y: "y = Inr ()" and
      rest: "stream_body_loop fd rid body chunk limit io d v (i + 1) (n + length x) w1 = (w', Inr ())"
      using step unfolding b callback_result.case if_not_P [OF False] if_not_P [OF l] 1 prod.case
      by (cases y; simp)+
    have "within_limit limit (n + length x)"
      using l "1.prems"(2) by (auto simp: within_limit_def)
    from "1.IH" [OF b False l 1 [symmetric] y rest this] obtain ds where
      "produces body chunk (i + 1) ds" "\<forall>x\<in>set ds. x \<noteq> [] \<and> length x \<le> chunk"
      "within_limit limit (n + length x + length (concat ds))"
      "w_sent w' = (w_sent w1)(fd := w_sent w1 fd @ concat (map (chunk_frame WT_stream_response_chunk rid v) ds))"
      by (elim exE conjE)
    note ds = this
    have "w_sent w' = (w_sent w)(fd := w_sent w fd @
        concat (map (chunk_frame WT_stream_response_chunk rid v) (x # ds)))"
      unfolding ds(4) write_frame_sent [OF 1 [unfolded y]] by simp
    then show ?thesis
      using b False l ds(1-3) by (intro exI [of _ "x # ds"] conjI) (simp_all add: add.assoc)
  qed
qed

text \<open>The status and the body a response is written with.\<close>

definition sent_response :: "StreamResponse \<Rightarrow> StreamResponse" where
  "sent_response r = (if sr_status r < 0 then \<lparr>sr_status = 500, sr_body = None\<rparr> else r)"

fun produced_by :: "StreamReader option \<Rightarrow> nat \<Rightarrow> bstring list \<Rightarrow> bool" where
  "produced_by None chunk ds \<longleftrightarrow> ds = []"
| "produced_by (Some body) chunk ds \<longleftrightarrow> produces body chunk 0 ds"

definition stream_response_bytes :: "Status \<Rightarrow> u32 \<Rightarrow> byte \<Rightarrow> bstring list \<Rightarrow> bstring" where
  "stream_response_bytes st i v ds =
     encode_header WT_stream_response i (word_of_int st) 0 0 v @
     chunk_frames WT_stream_response_chunk WT_stream_response_end i v ds"

lemma within_limit_0 [simp]: "within_limit limit 0"
  by (simp add: within_limit_def)

lemma write_stream_response_frames:
  assumes "write_stream_response fd i r opts d v w = (w', Inr ())"
  shows "\<exists>ds. produced_by (sr_body (sent_response r)) (so_stream_chunk_size opts) ds \<and>
    (\<forall>x\<in>set ds. x \<noteq> [] \<and> length x \<le> so_stream_chunk_size opts) \<and>
    within_limit (so_max_stream_size opts) (length (concat ds)) \<and>
    w_sent w' fd = w_sent w fd @ stream_response_bytes (sr_status (sent_response r)) i v ds"
proof -
  let ?r = "sent_response r" and ?c = "so_stream_chunk_size opts" and ?io = "so_io_timeout opts"
  note step = assms [unfolded write_stream_response_def Let_def, folded sent_response_def]
  obtain w1 x where 1: "write_header_frame fd WT_stream_response i (word_of_int (sr_status ?r)) 0 ?io d v w = (w1, x)"
    by fastforce
  have x: "x = Inr ()" using step unfolding 1 by (cases x) simp_all
  define loop where "loop = (case sr_body ?r of None \<Rightarrow> (w1, Inr ())
    | Some body \<Rightarrow> stream_body_loop fd i body ?c (so_max_stream_size opts) ?io d v 0 0 w1)"
  obtain w2 y where 2: "loop = (w2, y)" by fastforce
  note step2 = step [unfolded 1 x prod.case sum.case, folded loop_def, unfolded 2]
  have y: "y = Inr ()" using step2 by (cases y) simp_all
  have 3: "write_header_frame fd WT_stream_response_end i 0 0 ?io d v w2 = (w', Inr ())"
    using step2 unfolding y by simp
  obtain ds where ds: "produced_by (sr_body ?r) ?c ds" "\<forall>x\<in>set ds. x \<noteq> [] \<and> length x \<le> ?c"
    "within_limit (so_max_stream_size opts) (length (concat ds))"
    "w_sent w2 = (w_sent w1)(fd := w_sent w1 fd @ concat (map (chunk_frame WT_stream_response_chunk i v) ds))"
  proof (cases "sr_body ?r")
    case None
    then show ?thesis using 2 y that [of "[]"] by (simp add: loop_def)
  next
    case (Some body)
    have "stream_body_loop fd i body ?c (so_max_stream_size opts) ?io d v 0 0 w1 = (w2, Inr ())"
      using 2 y Some by (simp add: loop_def)
    from stream_body_loop_frames [OF this within_limit_0] show ?thesis
      using Some that by auto
  qed
  have "w_sent w' fd = w_sent w fd @ stream_response_bytes (sr_status ?r) i v ds"
    unfolding write_header_sent [OF 3] ds(4) write_header_sent [OF 1 [unfolded x]]
    by (simp add: stream_response_bytes_def chunk_frames_def encode_decoded_def chunk_header_def)
  then show ?thesis using ds(1-3) by blast
qed

subsection \<open>The client's side of a streamed response\<close>

definition accepting :: "ChunkConsumer \<Rightarrow> bool" where
  "accepting f \<longleftrightarrow> (\<forall>k d. f k d = Returned ())"

lemma consume_accepting: "accepting f \<Longrightarrow> consume_chunk (Some f) d got = (got @ [d], Inr ())"
  by (simp add: consume_chunk_def accepting_def)

lemma deliver_chunk_all:
  "reader_ok rd \<Longrightarrow> smooth w (br_fd rd) \<Longrightarrow> unread rd w = d @ rest \<Longrightarrow> 0 < b \<Longrightarrow> accepting f \<Longrightarrow>
     \<exists>rd' w' ps. deliver_chunk rd (length d) b (Some f) i deadline_max got w = Some (rd', w', got @ ps, Inr ()) \<and>
       concat ps = d \<and> (\<forall>p\<in>set ps. length p \<le> b) \<and> reader_ok rd' \<and> smooth w' (br_fd rd') \<and> unread rd' w' = rest"
proof (induction "length d" arbitrary: rd w d got rule: less_induct)
  case less
  show ?case
  proof (cases "d = []")
    case True
    then show ?thesis using less.prems by (subst deliver_chunk.simps) auto
  next
    case False
    define n where "n = min (length d) b"
    have n: "0 < n" "n \<le> length d" "n \<le> b" using False less.prems(4) by (auto simp: n_def)
    have u: "unread rd w = take n d @ drop n d @ rest" using less.prems(3) by simp
    obtain rd1 w1 where 1: "reader_read rd n i deadline_max w = (rd1, w1, Inr (take n d))" "reader_ok rd1"
      "smooth w1 (br_fd rd1)" "br_fd rd1 = br_fd rd" "unread rd1 w1 = drop n d @ rest" "w_sent w1 = w_sent w"
      by (rule reader_read_next [OF less.prems(1,2) u]) (use n in auto)
    have "length (drop n d) < length d" using n by simp
    from less.hyps [OF this 1(2,3,5) less.prems(4,5), of "got @ [take n d]"] obtain rd' w' ps where
      2: "deliver_chunk rd1 (length (drop n d)) b (Some f) i deadline_max (got @ [take n d]) w1 =
        Some (rd', w', (got @ [take n d]) @ ps, Inr ())"
      "concat ps = drop n d" "\<forall>p\<in>set ps. length p \<le> b" "reader_ok rd'" "smooth w' (br_fd rd')" "unread rd' w' = rest"
      by (elim exE conjE)
    have "deliver_chunk rd (length d) b (Some f) i deadline_max got w = Some (rd', w', got @ (take n d # ps), Inr ())"
      using False less.prems(4) 2(1)
      by (subst deliver_chunk.simps)
        (simp add: Let_def 1(1) consume_accepting [OF less.prems(5)] flip: n_def)
    then show ?thesis
      using 2 n by (intro exI [of _ rd'] exI [of _ w'] exI [of _ "take n d # ps"]) simp
  qed
qed

lemma check_chunk_header_frame:
  assumes v: "v \<in> {version, cancellable_version}" and d: "d \<noteq> []" "length d \<le> max_wire_field"
    and l: "within_limit (co_max_stream_size options) (n + length d)"
  shows "check_chunk_header options n (encode_decoded (chunk_header WT_stream_response_chunk 0 d v)) =
    Inr (CH_chunk (length d))"
proof -
  have "unat (word_of_nat (length d) :: u32) = length d" by (rule length_field [OF d(2)])
  moreover from this d(1) have "(word_of_nat (length d) :: u32) \<noteq> 0" by (metis length_0_conv unat_0)
  ultimately show ?thesis
    using l by (auto simp: check_chunk_header_def chunk_header_decodes [OF v] within_limit_def)
qed

lemma check_end_header_frame:
  assumes "v \<in> {version, cancellable_version}"
  shows "check_chunk_header options n (encode_decoded (chunk_header WT_stream_response_end 0 [] v)) = Inr CH_end"
  by (simp add: check_chunk_header_def chunk_header_decodes [OF assms])

lemma response_chunk_loop_all:
  assumes "v \<in> {version, cancellable_version}" "0 < co_stream_chunk_size options" "accepting f"
  shows "reader_ok rd \<Longrightarrow> smooth w (br_fd rd) \<Longrightarrow>
    unread rd w = chunk_frames WT_stream_response_chunk WT_stream_response_end 0 v ds @ rest \<Longrightarrow>
    \<forall>d\<in>set ds. d \<noteq> [] \<and> length d \<le> max_wire_field \<Longrightarrow>
    within_limit (co_max_stream_size options) (n + length (concat ds)) \<Longrightarrow>
    \<exists>w' ps. response_chunk_loop options deadline_max (Some f) rd n got w = Some (w', got @ ps, Inr ()) \<and>
      concat ps = concat ds \<and> (\<forall>p\<in>set ps. length p \<le> co_stream_chunk_size options)"
proof (induction ds arbitrary: rd w n got)
  case Nil
  let ?h = "encode_decoded (chunk_header WT_stream_response_end 0 [] v)"
  have u: "unread rd w = ?h @ rest" using Nil.prems(3) by (simp add: chunk_frames_def)
  obtain rd1 w1 where 1: "reader_read rd header_size (co_io_timeout options) deadline_max w = (rd1, w1, Inr ?h)"
    "reader_ok rd1" "smooth w1 (br_fd rd1)" "br_fd rd1 = br_fd rd" "unread rd1 w1 = rest" "w_sent w1 = w_sent w"
    by (rule reader_read_next [OF Nil.prems(1,2) u length_encode_decoded])
  show ?case
    by (subst response_chunk_loop.simps) (simp add: 1(1) check_end_header_frame [OF assms(1)])
next
  case (Cons d ds)
  let ?h = "encode_decoded (chunk_header WT_stream_response_chunk 0 d v)"
  let ?ds = "chunk_frames WT_stream_response_chunk WT_stream_response_end 0 v ds"
  have u: "unread rd w = ?h @ d @ ?ds @ rest" using Cons.prems(3) by (simp add: chunk_frames_def)
  obtain rd1 w1 where 1: "reader_read rd header_size (co_io_timeout options) deadline_max w = (rd1, w1, Inr ?h)"
    "reader_ok rd1" "smooth w1 (br_fd rd1)" "br_fd rd1 = br_fd rd" "unread rd1 w1 = d @ ?ds @ rest"
    "w_sent w1 = w_sent w"
    by (rule reader_read_next [OF Cons.prems(1,2) u length_encode_decoded])
  obtain rd2 w2 ps where
    2: "deliver_chunk rd1 (length d) (co_stream_chunk_size options) (Some f) (co_io_timeout options) deadline_max
        got w1 = Some (rd2, w2, got @ ps, Inr ())"
    "concat ps = d" "\<forall>p\<in>set ps. length p \<le> co_stream_chunk_size options" "reader_ok rd2" "smooth w2 (br_fd rd2)"
    "unread rd2 w2 = ?ds @ rest"
    using deliver_chunk_all [OF 1(2,3,5) assms(2,3), of "co_io_timeout options" got] by (elim exE conjE)
  have d: "d \<noteq> []" "length d \<le> max_wire_field" "\<forall>d\<in>set ds. d \<noteq> [] \<and> length d \<le> max_wire_field"
    using Cons.prems(4) by simp_all
  have l: "within_limit (co_max_stream_size options) (n + length d)"
    "within_limit (co_max_stream_size options) (n + length d + length (concat ds))"
    using Cons.prems(5) by (auto simp: within_limit_def)
  from Cons.IH [OF 2(4,5,6) d(3) l(2), of "got @ ps"] obtain w' qs where
    3: "response_chunk_loop options deadline_max (Some f) rd2 (n + length d) (got @ ps) w2 =
        Some (w', (got @ ps) @ qs, Inr ())"
    "concat qs = concat ds" "\<forall>p\<in>set qs. length p \<le> co_stream_chunk_size options"
    by (elim exE conjE)
  have "response_chunk_loop options deadline_max (Some f) rd n got w = Some (w', got @ (ps @ qs), Inr ())"
    using 3(1) by (subst response_chunk_loop.simps)
      (simp add: 1(1) check_chunk_header_frame [OF assms(1) d(1,2) l(1)] 2(1))
  then show ?case
    using 2(2,3) 3(2,3) by (intro exI [of _ w'] exI [of _ "ps @ qs"]) auto
qed

text \<open>
  C5: a streamed response arrives as the server's body produced it: when the server has written a
  response to request 0 and the kernel delivers these bytes in whatever pieces, the client returns
  its status, and the pieces it hands to its consumer, none longer than the client's chunk size,
  are together exactly the chunks the reader of the body returned before its end.
\<close>

theorem stream_response_received:
  assumes written: "write_stream_response sfd 0 r opts d v ws = (ws', Inr ())" "w_sent ws sfd = []"
    and v: "v \<in> {version, cancellable_version}" and st: "wire_status (sr_status (sent_response r))"
    and limits: "so_stream_chunk_size opts \<le> max_wire_field"
      "co_max_stream_size options = 0 \<or>
       so_max_stream_size opts \<noteq> 0 \<and> so_max_stream_size opts \<le> co_max_stream_size options"
    and client: "0 < co_stream_chunk_size options" "accepting f"
    and recv: "smooth w fd" "incoming w fd = w_sent ws' sfd @ rest"
  shows "\<exists>ds w' ps. produced_by (sr_body (sent_response r)) (so_stream_chunk_size opts) ds \<and>
    read_stream_response options deadline_max (Some f) (new_reader fd) w =
      Some (w', ps, Inr (sr_status (sent_response r))) \<and>
    concat ps = concat ds \<and> (\<forall>p\<in>set ps. length p \<le> co_stream_chunk_size options)"
proof -
  let ?st = "sr_status (sent_response r)"
  let ?h = "encode_header WT_stream_response 0 (word_of_int ?st) 0 0 v"
  obtain ds where ds: "produced_by (sr_body (sent_response r)) (so_stream_chunk_size opts) ds"
    "\<forall>x\<in>set ds. x \<noteq> [] \<and> length x \<le> so_stream_chunk_size opts"
    "within_limit (so_max_stream_size opts) (length (concat ds))"
    "w_sent ws' sfd = w_sent ws sfd @ stream_response_bytes ?st 0 v ds"
    using write_stream_response_frames [OF written(1)] by (elim exE conjE)
  have u: "unread (new_reader fd) w =
      ?h @ chunk_frames WT_stream_response_chunk WT_stream_response_end 0 v ds @ rest"
    using recv(2) ds(4) written(2) by (simp add: new_reader_ok stream_response_bytes_def)
  obtain rd1 w1 where 1: "reader_read (new_reader fd) header_size (co_io_timeout options) deadline_max w =
      (rd1, w1, Inr ?h)" "reader_ok rd1" "smooth w1 (br_fd rd1)" "br_fd rd1 = br_fd (new_reader fd)"
    "unread rd1 w1 = chunk_frames WT_stream_response_chunk WT_stream_response_end 0 v ds @ rest"
    "w_sent w1 = w_sent w"
    by (rule reader_read_next [OF new_reader_ok(1) _ u length_encode_header])
      (simp add: new_reader_ok(3) recv(1))
  have ok: "\<forall>x\<in>set ds. x \<noteq> [] \<and> length x \<le> max_wire_field"
    "within_limit (co_max_stream_size options) (0 + length (concat ds))"
    using ds(2,3) limits by (auto simp: within_limit_def)
  from response_chunk_loop_all [OF v client 1(2,3,5) ok, of "[]"] obtain w' ps where
    2: "response_chunk_loop options deadline_max (Some f) rd1 0 [] w1 = Some (w', [] @ ps, Inr ())"
    "concat ps = concat ds" "\<forall>p\<in>set ps. length p \<le> co_stream_chunk_size options"
    by (elim exE conjE)
  have nc: "WT_stream_response \<noteq> WT_cancel_request" by simp
  have "read_stream_response options deadline_max (Some f) (new_reader fd) w = Some (w', ps, Inr ?st)"
    unfolding read_stream_response_def 1(1) prod.case sum.case plain_header_expected [OF v nc] plain_header_sel 2(1)
    using status_field [OF st] by simp
  then show ?thesis using ds(1) 2(2,3) by blast
qed

lemma write_exact_smooth:
  "sends_smoothly w fd \<Longrightarrow> d = deadline_max \<Longrightarrow>
     \<exists>w'. write_exact fd data i d w = (w', Inr ()) \<and> sends_smoothly w' fd"
proof (induction fd data i d w rule: write_exact.induct)
  case (1 fd data i d w)
  show ?case
  proof (cases "data = []")
    case True
    then show ?thesis using "1.prems"(1) by (subst write_exact.simps) simp
  next
    case False
    then have "concat [data] \<noteq> []" by simp
    from send_some_smooth [OF "1.prems"(1) this "1.prems"(2)] obtain w1 n where
      s: "send_some fd [data] None i d w = (w1, Inr n)" "sends_smoothly w1 fd" by blast
    from "1.IH" [OF False s(1) [symmetric] refl s(2) "1.prems"(2)] show ?thesis
      using False s(1) by (subst write_exact.simps) (simp only: if_False prod.case sum.case)
  qed
qed

text \<open>A reader that returns its text at once.\<close>

definition text_reader :: "bstring \<Rightarrow> StreamReader" where
  "text_reader d i n = Returned (if i = 0 then d else [])"

definition stream_sample_response :: StreamResponse where
  "stream_sample_response = \<lparr>sr_status = 200, sr_body = Some (text_reader (str ''abc''))\<rparr>"

lemma stream_sample_written:
  obtains ws' where "write_stream_response 4 0 stream_sample_response default_server_options deadline_max 2 quiet_world
    = (ws', Inr ())"
proof -
  let ?io = "so_io_timeout default_server_options"
  have q: "sends_smoothly quiet_world 4" by (simp add: sends_smoothly_def quiet_world_def)
  obtain w1 where 1: "write_header_frame 4 WT_stream_response 0 200 0 ?io deadline_max 2 quiet_world = (w1, Inr ())"
    "sends_smoothly w1 4"
    using write_exact_smooth [OF q refl] unfolding write_header_frame_def by blast
  obtain w2 where 2: "write_frame_with_payload 4 WT_stream_response_chunk 0 (word_of_nat (length (str ''abc''))) 0
      (str ''abc'') ?io deadline_max 2 w1 = (w2, Inr ())" "sends_smoothly w2 4"
    using write_iovecs_loop_smooth [OF 1(2) refl]
    unfolding write_frame_with_payload_def write_iovecs_exact_def Let_def by blast
  obtain w3 where 3: "write_header_frame 4 WT_stream_response_end 0 0 0 ?io deadline_max 2 w2 = (w3, Inr ())"
    using write_exact_smooth [OF 2(2) refl] unfolding write_header_frame_def by blast
  have c: "so_stream_chunk_size default_server_options = 65536" "so_max_stream_size default_server_options = 1073741824"
    by (simp_all add: option_defaults)
  have l: "length (str ''abc'') = 3" "str ''abc'' \<noteq> []" by (simp_all add: str_def)
  have b: "stream_body_loop 4 0 (text_reader (str ''abc'')) 65536 1073741824 ?io deadline_max 2 0 0 w1 = (w2, Inr ())"
    using 2(1) l
    by (simp add: stream_body_loop.simps [of _ _ _ _ _ _ _ _ 0] stream_body_loop.simps [of _ _ _ _ _ _ _ _ "Suc 0"]
        text_reader_def sz_max_def)
  have "write_stream_response 4 0 stream_sample_response default_server_options deadline_max 2 quiet_world =
      (w3, Inr ())"
    using 1(1) b 3 by (simp add: write_stream_response_def stream_sample_response_def c)
  then show ?thesis by (rule that)
qed

lemma sample_produced:
  "produced_by (sr_body (sent_response stream_sample_response)) (so_stream_chunk_size default_server_options) ds \<longleftrightarrow>
   ds = [str ''abc'']"
proof -
  have "str ''abc'' \<noteq> []" by (simp add: str_def)
  then show ?thesis
    by (cases ds; cases "tl ds")
      (auto simp: sent_response_def stream_sample_response_def text_reader_def)
qed

definition sample_response_stream :: bstring where
  "sample_response_stream = stream_response_bytes 200 0 2 [str ''abc'']"

definition stream_client_world :: World where
  "stream_client_world = quiet_world\<lparr>w_recv := (\<lambda>_. [RecvData (take 30 sample_response_stream) [] False,
     RecvErr EINTR, RecvData (drop 30 sample_response_stream @ str ''E'') [] False])\<rparr>"

lemma stream_client_incoming:
  "smooth stream_client_world 5" "incoming stream_client_world 5 = sample_response_stream @ str ''E''"
proof -
  have "0 < length sample_response_stream"
    by (simp add: sample_response_stream_def stream_response_bytes_def header_size_def)
  then show "smooth stream_client_world 5" by (simp add: smooth_def stream_client_world_def str_def)
  have "take 30 sample_response_stream @ drop 30 sample_response_stream = sample_response_stream" by simp
  then show "incoming stream_client_world 5 = sample_response_stream @ str ''E''"
    by (simp add: incoming_def stream_client_world_def)
qed

lemma stream_response_received_witness:
  "\<exists>w' ps. read_stream_response client_sample_options deadline_max (Some (\<lambda>_ _. Returned ())) (new_reader 5)
      stream_client_world = Some (w', ps, Inr 200) \<and> concat ps = str ''abc''"
proof -
  obtain ws' where w: "write_stream_response 4 0 stream_sample_response default_server_options deadline_max 2
      quiet_world = (ws', Inr ())"
    by (rule stream_sample_written)
  have r: "sr_status (sent_response stream_sample_response) = 200" "w_sent quiet_world 4 = []"
    by (simp_all add: sent_response_def stream_sample_response_def quiet_world_def)
  have "w_sent ws' 4 = sample_response_stream"
    using write_stream_response_frames [OF w] r by (auto simp: sample_produced sample_response_stream_def)
  then have i: "incoming stream_client_world 5 = w_sent ws' 4 @ str ''E''"
    using stream_client_incoming(2) by simp
  have "\<exists>ds w' ps. produced_by (sr_body (sent_response stream_sample_response))
        (so_stream_chunk_size default_server_options) ds \<and>
      read_stream_response client_sample_options deadline_max (Some (\<lambda>_ _. Returned ())) (new_reader 5)
        stream_client_world = Some (w', ps, Inr (sr_status (sent_response stream_sample_response))) \<and>
      concat ps = concat ds \<and> (\<forall>p\<in>set ps. length p \<le> co_stream_chunk_size client_sample_options)"
    by (rule stream_response_received [OF w r(2) _ _ _ _ _ _ stream_client_incoming(1) i])
      (simp_all add: r version_def wire_status_def int32_max_def option_defaults max_wire_field_def
        client_sample_options_def accepting_def)
  then show ?thesis by (auto simp: sample_produced r)
qed

subsection \<open>Retries\<close>

text \<open>The attempts in a row, the next one from where the last one left the world.\<close>

fun nth_attempt :: "(World \<Rightarrow> World \<times> 'a) \<Rightarrow> nat \<Rightarrow> World \<Rightarrow> World \<times> 'a" where
  "nth_attempt req 0 w = req w"
| "nth_attempt req (Suc n) w = nth_attempt req n (fst (req w))"

definition fails_retryably :: "exn + Response \<Rightarrow> bool" where
  "fails_retryably r \<longleftrightarrow> (case r of Inl e \<Rightarrow> retryable e | Inr _ \<Rightarrow> False)"

lemma next_backoff_bounds:
  "0 \<le> b \<Longrightarrow> b \<le> m \<Longrightarrow> b \<le> next_backoff m b \<and> next_backoff m b \<le> m"
  by (auto simp: next_backoff_def)

lemma retry_loop_runs:
  "retry_loop req retry a b w = (w', pauses, r) \<Longrightarrow> a \<le> ro_max_attempts retry \<Longrightarrow> 0 \<le> b \<Longrightarrow> b \<le> ro_max_backoff retry \<Longrightarrow>
   \<exists>n. a + n \<le> ro_max_attempts retry \<and> nth_attempt req n w = (w', r) \<and>
     (\<forall>k<n. fails_retryably (snd (nth_attempt req k w))) \<and>
     (fails_retryably r \<longrightarrow> a + n = ro_max_attempts retry) \<and>
     length pauses \<le> n \<and> (0 < b \<longrightarrow> length pauses = n) \<and> sorted pauses \<and>
     (\<forall>p\<in>set pauses. 0 < p \<and> b \<le> p \<and> p \<le> ro_max_backoff retry)"
proof (induction req retry a b w arbitrary: w' pauses r rule: retry_loop.induct)
  case (1 req retry a b w)
  note step = "1.prems"(1) [unfolded retry_loop.simps [of req retry a b w]]
  obtain w1 x where 1: "req w = (w1, x)" by fastforce
  show ?case
  proof (cases "fails_retryably x \<and> a < ro_max_attempts retry")
    case False
    then have "w' = w1 \<and> pauses = [] \<and> r = x \<and> (fails_retryably x \<longrightarrow> a = ro_max_attempts retry)"
      using step 1 "1.prems"(2) by (cases x) (auto simp: fails_retryably_def)
    then show ?thesis using 1 "1.prems"(2) by (intro exI [of _ 0]) auto
  next
    case True
    then obtain e where e: "x = Inl e" "retryable e" by (cases x) (auto simp: fails_retryably_def)
    have c: "\<not> (\<not> retryable e \<or> ro_max_attempts retry \<le> a)" using e True by simp
    let ?b = "next_backoff (ro_max_backoff retry) b"
    note bb = next_backoff_bounds [OF "1.prems"(3,4)]
    obtain w2 ps y where 2: "retry_loop req retry (a + 1) ?b w1 = (w2, ps, y)" by (metis prod_cases3)
    have r: "w' = w2" "r = y" "pauses = (if b > 0 then b # ps else ps)"
      using step unfolding 1 e prod.case sum.case if_not_P [OF c] 2 by simp_all
    from "1.IH" [OF 1 [symmetric] e(1) c 2] True bb "1.prems"(3) obtain n where
      n: "a + 1 + n \<le> ro_max_attempts retry" "nth_attempt req n w1 = (w2, y)"
      "\<forall>k<n. fails_retryably (snd (nth_attempt req k w1))" "fails_retryably y \<longrightarrow> a + 1 + n = ro_max_attempts retry"
      "length ps \<le> n" "0 < ?b \<longrightarrow> length ps = n" "sorted ps"
      "\<forall>p\<in>set ps. 0 < p \<and> ?b \<le> p \<and> p \<le> ro_max_backoff retry"
      by auto
    have k: "\<forall>k<Suc n. fails_retryably (snd (nth_attempt req k w))"
      using n(3) 1 True by (auto simp: less_Suc_eq_0_disj)
    show ?thesis
      using n k 1 r bb "1.prems"(3,4) by (intro exI [of _ "Suc n"]) auto
  qed
qed

text \<open>
  C8: an idempotent request is attempted at most \<^verbatim>\<open>max_attempts\<close> times and returns what its last attempt
  returned; every attempt before that failed with a retryable error, and a retryable error is
  returned only after the last allowed attempt. The pauses never shrink and never exceed
  \<^verbatim>\<open>max_backoff\<close>, and unless the initial back-off is zero there is one before every further attempt.
\<close>

theorem retry_bounded:
  assumes "ro_max_attempts retry \<noteq> 0" "0 \<le> ro_initial_backoff retry"
    "ro_initial_backoff retry \<le> ro_max_backoff retry"
    and run: "request_idempotent path options route body retry w = (w', pauses, r)"
  shows "\<exists>n. n < ro_max_attempts retry \<and> nth_attempt (client_request path options route body) n w = (w', r) \<and>
     (\<forall>k<n. fails_retryably (snd (nth_attempt (client_request path options route body) k w))) \<and>
     (fails_retryably r \<longrightarrow> n + 1 = ro_max_attempts retry) \<and>
     length pauses \<le> n \<and> (0 < ro_initial_backoff retry \<longrightarrow> length pauses = n) \<and> sorted pauses \<and>
     (\<forall>p\<in>set pauses. ro_initial_backoff retry \<le> p \<and> p \<le> ro_max_backoff retry)"
proof -
  have "retry_loop (client_request path options route body) retry 1 (ro_initial_backoff retry) w = (w', pauses, r)"
    using run assms(1-3) by (simp add: request_idempotent_def)
  from retry_loop_runs [OF this _ assms(2,3)] assms(1) obtain n where
    "1 + n \<le> ro_max_attempts retry" "nth_attempt (client_request path options route body) n w = (w', r)"
    "\<forall>k<n. fails_retryably (snd (nth_attempt (client_request path options route body) k w))"
    "fails_retryably r \<longrightarrow> 1 + n = ro_max_attempts retry" "length pauses \<le> n"
    "0 < ro_initial_backoff retry \<longrightarrow> length pauses = n" "sorted pauses"
    "\<forall>p\<in>set pauses. 0 < p \<and> ro_initial_backoff retry \<le> p \<and> p \<le> ro_max_backoff retry"
    by auto
  then show ?thesis by (intro exI [of _ n]) simp
qed

text \<open>Every attempt to connect is refused.\<close>

definition refused_world :: World where
  "refused_world = quiet_world\<lparr>w_socket := [Inr 5, Inr 6, Inr 7], w_connect := [Some ECONNREFUSED, Some ECONNREFUSED,
     Some ECONNREFUSED]\<rparr>"

lemma retry_bounded_witness:
  "\<exists>w' pauses r n. request_idempotent (str ''/s'') client_sample_options (str ''r'') [] default_retry_options refused_world =
     (w', pauses, r) \<and> n < 3 \<and>
     nth_attempt (client_request (str ''/s'') client_sample_options (str ''r'') []) n refused_world = (w', r) \<and>
     length pauses = n \<and> (\<forall>p\<in>set pauses. 5 \<le> p \<and> p \<le> 100)"
proof -
  obtain w' pauses r where q: "request_idempotent (str ''/s'') client_sample_options (str ''r'') [] default_retry_options
      refused_world = (w', pauses, r)" by (metis prod_cases3)
  have d: "ro_max_attempts default_retry_options = 3" "ro_initial_backoff default_retry_options = 5"
    "ro_max_backoff default_retry_options = 100" by (simp_all add: default_retry_options_def)
  from retry_bounded [OF _ _ _ q, unfolded d] q show ?thesis by auto
qed

subsection \<open>Streamed exchanges end\<close>

lemma deliver_chunk_returns: "0 < b \<Longrightarrow> deliver_chunk rd n b f i d got w \<noteq> None"
proof (induction rd n b f i d got w rule: deliver_chunk.induct)
  case (1 rd n b f i d got w)
  then show ?case
    by (subst deliver_chunk.simps) (auto simp: Let_def split: prod.split sum.split)
qed

lemma response_chunk_loop_returns:
  "0 < co_stream_chunk_size options \<Longrightarrow> response_chunk_loop options d f rd n got w \<noteq> None"
proof (induction options d f rd n got w rule: response_chunk_loop.induct)
  case (1 options d f rd n got w)
  obtain rd1 w1 x where 1: "reader_read rd header_size (co_io_timeout options) d w = (rd1, w1, x)" by (metis prod_cases3)
  note step = response_chunk_loop.simps [of options d f rd n got w, unfolded 1 prod.case]
  show ?case
  proof (cases x)
    case (Inl e)
    then show ?thesis unfolding step by simp
  next
    case x: (Inr header)
    show ?thesis
    proof (cases "check_chunk_header options n header")
      case (Inl e)
      then show ?thesis unfolding step x by simp
    next
      case c: (Inr ch)
      show ?thesis
      proof (cases ch)
        case CH_end
        then show ?thesis unfolding step x sum.case c by simp
      next
        case (CH_chunk k)
        obtain rd2 w2 got2 y where
          2: "deliver_chunk rd1 k (co_stream_chunk_size options) f (co_io_timeout options) d got w1 =
            Some (rd2, w2, got2, y)"
          using deliver_chunk_returns [OF "1.prems"] by (metis option.exhaust prod_cases4)
        note ih = "1.IH" [OF 1 [symmetric] refl x c CH_chunk 2 refl refl refl _ "1.prems"]
        show ?thesis
          unfolding step x sum.case c CH_chunk ChunkHeader.case 2 option.case prod.case
          using ih by (cases y) simp_all
      qed
    qed
  qed
qed

text \<open>
  A streamed exchange of a client always ends: with options the constructor of the client accepts,
  whatever the kernel, the server and the consumer do, the call returns a status or throws.
\<close>

theorem stream_exchange_returns:
  assumes "validate_client path options = Inr ()"
  shows "run_oneshot_stream path options route body consumer w \<noteq> None"
proof -
  have c: "0 < co_stream_chunk_size options"
    using assms by (auto simp: validate_client_def validate_client_options_iff client_options_ok_def split: sum.splits)
  have r: "read_stream_response options d f rd w' \<noteq> None" for d f rd w'
    using response_chunk_loop_returns [OF c]
    by (auto simp: read_stream_response_def split: prod.split sum.split)
  have "stream_exchange_client options d route body f fd w' \<noteq> None" for d f fd w'
    using r by (auto simp: stream_exchange_client_def split: prod.split sum.split)
  then show ?thesis by (simp add: run_oneshot_stream_def del: not_None_eq split: prod.split sum.split)
qed

end
