(* ===== verification/SessionProps.thy ===== *)
theory SessionProps
  imports Session ClientProps
begin

text \<open>
  What a session promises: concurrent requests get their own responses, no call is left waiting when
  the reader thread ends, the statistics add up, and the search for an identifier ends. The threads
  are interleaved section by section in a step relation; the in-flight table is used through the
  interface of a sharded table, which the shards with their node caches implement.
\<close>

subsection \<open>Tables in shards\<close>

text \<open>
  What a caller may rely on when it registers and removes requests: a table with lookup, insertion
  of a key that is not there, and removal.
\<close>

locale inflight_table =
  fixes find :: "'k \<Rightarrow> 't \<Rightarrow> 'v option"
    and ins :: "'k \<Rightarrow> 'v \<Rightarrow> 't \<Rightarrow> 'e + 't"
    and erase :: "'k \<Rightarrow> 't \<Rightarrow> 't"
    and entries :: "'t \<Rightarrow> nat"
    and invar :: "'t \<Rightarrow> bool"
  assumes ins_fresh: "invar t \<Longrightarrow> find k t = None \<Longrightarrow>
      \<exists>t'. ins k v t = Inr t' \<and> invar t' \<and> find j t' = (if j = k then Some v else find j t) \<and>
        entries t' = Suc (entries t)"
    and erase_find: "invar t \<Longrightarrow> find j (erase k t) = (if j = k then None else find j t)"
    and erase_invar: "invar t \<Longrightarrow> invar (erase k t)"
    and erase_entries: "invar t \<Longrightarrow> find k t \<noteq> None \<Longrightarrow> Suc (entries (erase k t)) = entries t"
begin

lemma ins_fresh_all:
  assumes "invar t" "find k t = None" "ins k v t = Inr t'"
  shows "invar t'" "find j t' = (if j = k then Some v else find j t)" "entries t' = Suc (entries t)"
  using ins_fresh [OF assms(1,2), of v j] assms(3) by auto

lemma ins_never_fails: "invar t \<Longrightarrow> find k t = None \<Longrightarrow> ins k v t \<noteq> Inl e"
  using ins_fresh [of t k v] by fastforce

end

text \<open>A table cut into \<open>n\<close> shards; a key lives in the shard its index names.\<close>

locale sharded_table = inflight_table find ins erase entries invar
  for find :: "'k \<Rightarrow> 't \<Rightarrow> 'v option" and ins :: "'k \<Rightarrow> 'v \<Rightarrow> 't \<Rightarrow> 'e + 't" and erase and entries and invar +
  fixes index :: "'k \<Rightarrow> nat" and n :: nat
  assumes index_less: "index k < n"
begin

lemma find_other_shard:
  assumes "length ts = n" "invar (ts ! index k)"
    and "\<And>j. j \<noteq> k \<Longrightarrow> find j t' = find j (ts ! index k)"
  shows "j \<noteq> k \<Longrightarrow> find j (ts[index k := t'] ! index j) = find j (ts ! index j)"
  using assms index_less [of k] by (cases "index j = index k") simp_all

lemma find_after_insert:
  assumes "length ts = n" "invar (ts ! index k)" "find k (ts ! index k) = None" "ins k v (ts ! index k) = Inr t'"
  shows "find j (ts[index k := t'] ! index j) = (if j = k then Some v else find j (ts ! index j))"
proof (cases "j = k")
  case True
  then show ?thesis using ins_fresh_all(2) [OF assms(2-4), of k] assms(1) index_less [of k] by simp
next
  case False
  then show ?thesis
    using find_other_shard [OF assms(1,2), where t' = t'] ins_fresh_all(2) [OF assms(2-4)] by simp
qed

lemma find_after_erase:
  assumes "length ts = n" "invar (ts ! index k)"
  shows "find j (ts[index k := erase k (ts ! index k)] ! index j) = (if j = k then None else find j (ts ! index j))"
proof (cases "j = k")
  case True
  then show ?thesis using erase_find [OF assms(2), of k] assms(1) index_less [of k] by simp
next
  case False
  then show ?thesis
    using find_other_shard [OF assms(1,2), where t' = "erase k (ts ! index k)"] erase_find [OF assms(2)] by simp
qed

end

text \<open>A shard with its cache of nodes is such a table.\<close>

definition shard_ok :: "InflightShard \<Rightarrow> bool" where
  "shard_ok sh \<longleftrightarrow> distinct (map fst (sh_inflight sh)) \<and> sh_free sh \<le> cached_slots_per_shard"

definition shard_size :: "InflightShard \<Rightarrow> nat" where
  "shard_size sh = length (sh_inflight sh)"

lemma length_delete:
  "distinct (map fst al) \<Longrightarrow> map_of al k \<noteq> None \<Longrightarrow> Suc (length (AList.delete k al)) = length al"
proof (induction al)
  case (Cons p al)
  have "fst p = k \<Longrightarrow> AList.delete k al = al"
    using Cons.prems(1) by auto
  then show ?case using Cons by (cases p; cases "fst p = k") simp_all
qed simp

interpretation shards: sharded_table shard_find shard_insert shard_erase shard_size shard_ok
  shard_index inflight_shard_count
proof unfold_locales
  fix t k j and v :: nat
  assume t: "shard_ok t"
  show "shard_find j (shard_erase k t) = (if j = k then None else shard_find j t)"
    by (simp add: shard_erase_def shard_find_def Let_def AList.delete_conv')
  show "shard_ok (shard_erase k t)"
    using t by (auto simp: shard_ok_def shard_erase_def Let_def intro: AList.distinct_delete)
  { assume "shard_find k t = None"
    then show "\<exists>t'. shard_insert k v t = Inr t' \<and> shard_ok t' \<and>
        shard_find j t' = (if j = k then Some v else shard_find j t) \<and> shard_size t' = Suc (shard_size t)"
      using t by (auto simp: shard_insert_def shard_find_def shard_ok_def shard_size_def map_of_eq_None_iff) }
  { assume "shard_find k t \<noteq> None"
    then show "Suc (shard_size (shard_erase k t)) = shard_size t"
      using t length_delete [of "sh_inflight t" k]
      by (simp add: shard_erase_def shard_find_def shard_ok_def shard_size_def Let_def) }
next
  show "shard_index k < inflight_shard_count" for k
    by (simp add: shard_index_def inflight_shard_count_def)
qed

subsection \<open>Threads of a session\<close>

text \<open>
  Where a caller, named by the address of its slot, and the reader thread are; the log holds the
  registrations and the responses the reader has received, the latest first.
\<close>

datatype call_phase = CP_idle | CP_ready | CP_have u32 | CP_registered u32 | CP_send_failed u32 exn | CP_sent u32
  | CP_finished "exn + Response"

datatype reader_phase = RP_running | RP_failing exn nat | RP_ended

datatype session_event = EvRegister nat u32 | EvResponse u32 Response

record SessionRun =
  ru_state :: SessionState
  ru_calls :: "nat \<Rightarrow> call_phase"
  ru_reader :: reader_phase
  ru_log :: "session_event list"

definition call_to :: "nat \<Rightarrow> call_phase \<Rightarrow> SessionState \<Rightarrow> SessionRun \<Rightarrow> SessionRun" where
  "call_to a p s r = r\<lparr>ru_state := s, ru_calls := (ru_calls r)(a := p)\<rparr>"

definition log_event :: "session_event \<Rightarrow> SessionRun \<Rightarrow> SessionRun" where
  "log_event e r = r\<lparr>ru_log := e # ru_log r\<rparr>"

text \<open>
  One section of one thread at a time, in any order. Responses, their order and the errors of the
  reader are arbitrary, and so is what happens to the world in between.
\<close>

inductive session_step :: "SessionRun \<Rightarrow> SessionRun \<Rightarrow> bool" where
  world: "session_step r (r\<lparr>ru_state := (ru_state r)\<lparr>se_world := w, se_cancelled := c\<rparr>\<rparr>)"
| enter: "ru_calls r a = CP_idle \<Longrightarrow> \<not> se_broken (ru_state r) \<Longrightarrow>
    session_step r (call_to a CP_ready (slot_upd a (\<lambda>_. empty_slot) (ru_state r)) r)"
| enter_broken: "ru_calls r a = CP_idle \<Longrightarrow> se_broken (ru_state r) \<Longrightarrow>
    session_step r (call_to a (CP_finished (Inl session_closed)) (ru_state r) r)"
| fetch: "ru_calls r a = CP_ready \<Longrightarrow> fetch_id (ru_state r) = (s, i) \<Longrightarrow>
    session_step r (call_to a (if i = 0 then CP_ready else CP_have i) s r)"
| claim: "ru_calls r a = CP_have i \<Longrightarrow> claim_id i a (ru_state r) = (s, Inr True) \<Longrightarrow>
    session_step r (log_event (EvRegister a i) (call_to a (CP_registered i) s r))"
| claim_taken: "ru_calls r a = CP_have i \<Longrightarrow> claim_id i a (ru_state r) = (s, Inr False) \<Longrightarrow>
    session_step r (call_to a CP_ready s r)"
| claim_closed: "ru_calls r a = CP_have i \<Longrightarrow> claim_id i a (ru_state r) = (s, Inl e) \<Longrightarrow>
    session_step r (call_to a (CP_finished (Inl e)) s r)"
| send: "ru_calls r a = CP_registered i \<Longrightarrow> send_session_request i route body d (ru_state r) = (s, Inr ()) \<Longrightarrow>
    session_step r (call_to a (CP_sent i) s r)"
| send_fails: "ru_calls r a = CP_registered i \<Longrightarrow> send_session_request i route body d (ru_state r) = (s, Inl e) \<Longrightarrow>
    session_step r (call_to a (CP_send_failed i e) s r)"
| abandon: "ru_calls r a = CP_send_failed i e \<Longrightarrow>
    session_step r (call_to a (CP_finished (Inl e)) (abandon_request i (ru_state r)) r)"
| cancel: "ru_calls r a = CP_sent i \<Longrightarrow>
    session_step r (call_to a (CP_sent i) (send_cancel i (ru_state r)) r)"
| finish: "ru_calls r a = CP_sent i \<Longrightarrow> timed_out \<or> sl_done (se_slots (ru_state r) a) \<Longrightarrow>
    finish_request i a timed_out cancelled (ru_state r) = (s, x) \<Longrightarrow>
    session_step r (call_to a (CP_finished x) s r)"
| leave: "ru_calls r a = CP_finished x \<Longrightarrow> session_step r (call_to a CP_idle (ru_state r) r)"
| deliver: "ru_reader r = RP_running \<Longrightarrow> deliver_response i x (ru_state r) = (s, Inr ()) \<Longrightarrow>
    session_step r (log_event (EvResponse i x) (r\<lparr>ru_state := s\<rparr>))"
| deliver_fails: "ru_reader r = RP_running \<Longrightarrow> deliver_response i x (ru_state r) = (s, Inl e) \<Longrightarrow>
    session_step r (log_event (EvResponse i x)
      (r\<lparr>ru_state := s\<lparr>se_broken := True\<rparr>, ru_reader := RP_failing e 0\<rparr>))"
| read_fails: "ru_reader r = RP_running \<Longrightarrow>
    session_step r (r\<lparr>ru_state := (ru_state r)\<lparr>se_broken := True\<rparr>, ru_reader := RP_failing e 0\<rparr>)"
| fail: "ru_reader r = RP_failing e k \<Longrightarrow> k < inflight_shard_count \<Longrightarrow>
    session_step r (r\<lparr>ru_state := fail_shard e k (ru_state r), ru_reader := RP_failing e (k + 1)\<rparr>)"
| end_reader: "ru_reader r = RP_failing e inflight_shard_count \<Longrightarrow>
    session_step r (r\<lparr>ru_reader := RP_ended\<rparr>)"

definition initial_run :: "bstring \<Rightarrow> ClientOptions \<Rightarrow> fd \<Rightarrow> World \<Rightarrow> SessionRun" where
  "initial_run path options fd w = \<lparr>ru_state = new_session_state path options fd w, ru_calls = (\<lambda>_. CP_idle),
     ru_reader = RP_running, ru_log = []\<rparr>"

subsection \<open>The effects of the sections\<close>

definition inflight_ok :: "SessionState \<Rightarrow> bool" where
  "inflight_ok s \<longleftrightarrow> length (se_shards s) = inflight_shard_count \<and>
     (\<forall>k<inflight_shard_count. shard_ok (se_shards s ! k) \<and>
        (\<forall>(i, a)\<in>set (sh_inflight (se_shards s ! k)). shard_index i = k))"

definition session_find :: "SessionState \<Rightarrow> u32 \<Rightarrow> nat option" where
  "session_find s i = shard_find i (shard_for i s)"

lemma shard_for_ok: "inflight_ok s \<Longrightarrow> shard_ok (shard_for i s)"
  using shards.index_less [of i] by (simp add: inflight_ok_def shard_for_def)

lemma frames [simp]:
  "se_shards (count_request i f s) = se_shards s" "se_slots (count_request i f s) = se_slots s"
  "se_broken (count_request i f s) = se_broken s"
  "se_slots (set_shard i sh s) = se_slots s" "se_broken (set_shard i sh s) = se_broken s"
  "se_counters (set_shard i sh s) = se_counters s"
  "se_shards (slot_upd a g s) = se_shards s" "se_broken (slot_upd a g s) = se_broken s"
  "se_counters (slot_upd a g s) = se_counters s" "se_slots (slot_upd a g s) = (se_slots s)(a := g (se_slots s a))"
  "se_shards (session_shutdown s) = se_shards s" "se_slots (session_shutdown s) = se_slots s"
  "se_broken (session_shutdown s) = se_broken s" "se_counters (session_shutdown s) = se_counters s"
  "shard_for i (count_request j f s) = shard_for i s"
  by (simp_all add: count_request_def set_shard_def slot_upd_def session_shutdown_def shard_for_def)

lemma session_find_cong: "se_shards s' = se_shards s \<Longrightarrow> session_find s' = session_find s"
  by (simp add: session_find_def shard_for_def fun_eq_iff)

lemma inflight_ok_cong: "se_shards s' = se_shards s \<Longrightarrow> inflight_ok s' = inflight_ok s"
  by (simp add: inflight_ok_def)

lemma session_find_frames [simp]:
  "session_find (count_request i f s) = session_find s" "session_find (slot_upd a g s) = session_find s"
  "session_find (session_shutdown s) = session_find s" "session_find (s\<lparr>se_broken := b\<rparr>) = session_find s"
  "session_find (s\<lparr>se_world := w\<rparr>) = session_find s" "session_find (s\<lparr>se_next_id := n\<rparr>) = session_find s"
  "session_find (s\<lparr>se_world := w, se_cancelled := c\<rparr>) = session_find s"
  by (rule session_find_cong, simp)+

lemma inflight_ok_frames [simp]:
  "inflight_ok (count_request i f s) = inflight_ok s" "inflight_ok (slot_upd a g s) = inflight_ok s"
  "inflight_ok (session_shutdown s) = inflight_ok s" "inflight_ok (s\<lparr>se_broken := b\<rparr>) = inflight_ok s"
  "inflight_ok (s\<lparr>se_world := w\<rparr>) = inflight_ok s" "inflight_ok (s\<lparr>se_next_id := n\<rparr>) = inflight_ok s"
  "inflight_ok (s\<lparr>se_world := w, se_cancelled := c\<rparr>) = inflight_ok s"
  by (rule inflight_ok_cong, simp)+

lemma table_entry:
  assumes "inflight_ok s" "k < inflight_shard_count"
  shows "(i, a) \<in> set (sh_inflight (se_shards s ! k)) \<longleftrightarrow> shard_index i = k \<and> session_find s i = Some a"
proof -
  have "distinct (map fst (sh_inflight (se_shards s ! k)))"
    "(i, a) \<in> set (sh_inflight (se_shards s ! k)) \<Longrightarrow> shard_index i = k"
    using assms by (auto simp: inflight_ok_def shard_ok_def)
  then show ?thesis
    by (auto simp: session_find_def shard_find_def shard_for_def map_of_eq_Some_iff dest: map_of_SomeD)
qed

lemma set_shard_table:
  assumes "inflight_ok s" "shard_ok sh" "set (sh_inflight sh) \<subseteq> insert (i, a) (set (sh_inflight (shard_for i s)))"
  shows "inflight_ok (set_shard i sh s)"
proof -
  have len: "length (se_shards s) = inflight_shard_count" using assms(1) by (simp add: inflight_ok_def)
  have idx: "shard_index j = k"
    if k: "k < inflight_shard_count" and m: "(j, b) \<in> set (sh_inflight ((se_shards s)[shard_index i := sh] ! k))" for k j b
  proof (cases "k = shard_index i")
    case True
    then have "(j, b) \<in> set (sh_inflight sh)" using m k len by simp
    then have "(j, b) = (i, a) \<or> (j, b) \<in> set (sh_inflight (se_shards s ! k))"
      using assms(3) True by (auto simp: shard_for_def)
    then show ?thesis
    proof
      assume "(j, b) = (i, a)"
      then show ?thesis using True by simp
    next
      assume "(j, b) \<in> set (sh_inflight (se_shards s ! k))"
      then show ?thesis by (simp only: table_entry [OF assms(1) k])
    qed
  next
    case False
    then have "(j, b) \<in> set (sh_inflight (se_shards s ! k))" using m by simp
    then show ?thesis by (simp only: table_entry [OF assms(1) k])
  qed
  have ok: "shard_ok ((se_shards s)[shard_index i := sh] ! k)" if "k < inflight_shard_count" for k
    using that assms(1,2) by (cases "k = shard_index i") (simp_all add: inflight_ok_def)
  show ?thesis
    unfolding inflight_ok_def
  proof (intro conjI allI impI)
    show "length (se_shards (set_shard i sh s)) = inflight_shard_count"
      using assms(1) by (simp add: inflight_ok_def set_shard_def)
    fix k assume k: "k < inflight_shard_count"
    show "shard_ok (se_shards (set_shard i sh s) ! k)" using ok [OF k] by (simp add: set_shard_def)
    show "\<forall>(i, a)\<in>set (sh_inflight (se_shards (set_shard i sh s) ! k)). shard_index i = k"
    proof clarify
      fix j b assume "(j, b) \<in> set (sh_inflight (se_shards (set_shard i sh s) ! k))"
      then show "shard_index j = k" by (intro idx [OF k]) (simp add: set_shard_def)
    qed
  qed
qed

lemma erase_effect:
  assumes "inflight_ok s"
  shows "inflight_ok (set_shard i (shard_erase i (shard_for i s)) s)"
    "session_find (set_shard i (shard_erase i (shard_for i s)) s) = (session_find s)(i := None)"
proof -
  have "set (sh_inflight (shard_erase i (shard_for i s))) \<subseteq> insert (i, 0) (set (sh_inflight (shard_for i s)))"
    by (auto simp: shard_erase_def Let_def AList.delete_eq)
  from set_shard_table [OF assms shards.erase_invar [OF shard_for_ok [OF assms]] this]
  show "inflight_ok (set_shard i (shard_erase i (shard_for i s)) s)" .
  show "session_find (set_shard i (shard_erase i (shard_for i s)) s) = (session_find s)(i := None)"
    using shards.find_after_erase [of "se_shards s" i] assms shard_for_ok [OF assms, of i]
    by (simp add: fun_eq_iff session_find_def shard_for_def set_shard_def inflight_ok_def)
qed

lemma claim_effect:
  assumes "inflight_ok s" "claim_id i a s = (s', Inr True)"
  shows "\<not> se_broken s" "session_find s i = None" "inflight_ok s'" "session_find s' = (session_find s)(i := Some a)"
    "se_slots s' = se_slots s" "se_broken s' = se_broken s"
proof -
  show b: "\<not> se_broken s" and f: "session_find s i = None"
    using assms(2) by (auto simp: claim_id_def session_find_def split: if_splits sum.splits)
  obtain sh where sh: "shard_insert i a (shard_for i s) = Inr sh"
    "s' = count_request i (\<lambda>c. c\<lparr>ct_started := ct_started c + 1\<rparr>) (set_shard i sh s)"
    using assms(2) by (auto simp: claim_id_def split: if_splits sum.splits)
  note ok = shard_for_ok [OF assms(1), of i]
  have "set (sh_inflight sh) \<subseteq> insert (i, a) (set (sh_inflight (shard_for i s)))"
    using sh(1) by (auto simp: shard_insert_def split: if_splits)
  from set_shard_table [OF assms(1) shards.ins_fresh_all(1) [OF ok f [unfolded session_find_def] sh(1)] this]
  show "inflight_ok s'" by (simp add: sh(2))
  show "session_find s' = (session_find s)(i := Some a)"
    using shards.find_after_insert [of "se_shards s" i a sh] assms(1) ok f sh(1)
    by (simp add: fun_eq_iff session_find_def shard_for_def set_shard_def inflight_ok_def sh(2))
  show "se_slots s' = se_slots s" "se_broken s' = se_broken s" by (simp_all add: sh(2))
qed

lemma claim_refused: "claim_id i a s = (s', Inr False) \<Longrightarrow> s' = s" "claim_id i a s = (s', Inl e) \<Longrightarrow> s' = s"
  by (auto simp: claim_id_def split: if_splits sum.splits)

lemma abandon_effect:
  assumes "inflight_ok s"
  shows "inflight_ok (abandon_request i s)" "session_find (abandon_request i s) = (session_find s)(i := None)"
    "se_slots (abandon_request i s) = se_slots s" "se_broken (abandon_request i s) = se_broken s"
  using erase_effect [of "count_request i (\<lambda>c. c\<lparr>ct_failed := ct_failed c + 1\<rparr>) s" i] assms
  by (simp_all add: abandon_request_def Let_def)

lemma finish_effect:
  assumes "inflight_ok s" "finish_request i a timed_out cancelled s = (s', x)"
  shows "inflight_ok s'" "session_find s' = (session_find s)(i := None)" "se_slots s' = se_slots s"
    "se_broken s \<Longrightarrow> se_broken s'" "x = Inr r \<Longrightarrow> \<not> timed_out \<and> sl_error (se_slots s a) = None \<and> r = sl_response (se_slots s a)"
proof -
  define t where "t = count_request i (\<lambda>c. if timed_out then c\<lparr>ct_timed_out := ct_timed_out c + 1\<rparr>
    else if sl_error (se_slots s a) \<noteq> None then c\<lparr>ct_failed := ct_failed c + 1\<rparr>
    else c\<lparr>ct_completed := ct_completed c + 1\<rparr>) s"
  have t: "inflight_ok t" "session_find t = session_find s" "se_slots t = se_slots s" "se_broken t = se_broken s"
    using assms(1) by (simp_all add: t_def)
  note step = assms(2) [unfolded finish_request_def Let_def, folded t_def]
  show "inflight_ok s'" "session_find s' = (session_find s)(i := None)" "se_slots s' = se_slots s"
    "se_broken s \<Longrightarrow> se_broken s'"
    using step erase_effect [OF t(1), of i] t by (auto split: if_splits)
  show "x = Inr r \<Longrightarrow> \<not> timed_out \<and> sl_error (se_slots s a) = None \<and> r = sl_response (se_slots s a)"
    using step by (auto simp: throw_system_error_def split: if_splits option.splits)
qed

lemma deliver_effect:
  assumes "deliver_response i x s = (s', Inr ())"
  obtains a where "session_find s i = Some a" "\<not> sl_done (se_slots s a)"
    "s' = slot_upd a (\<lambda>sl. sl\<lparr>sl_response := x, sl_done := True\<rparr>) s"
  using assms by (auto simp: deliver_response_def session_find_def split: option.splits if_splits)

lemma deliver_refused: "deliver_response i x s = (s', Inl e) \<Longrightarrow> s' = s"
  "deliver_response i x s = (s', Inl e) \<Longrightarrow> session_find s i = Some a \<Longrightarrow> sl_done (se_slots s a)"
  by (auto simp: deliver_response_def session_find_def split: option.splits if_splits)

lemma send_effect:
  assumes "send_session_request i route body d s = (s', x)"
  shows "se_shards s' = se_shards s" "se_slots s' = se_slots s" "se_broken s \<Longrightarrow> se_broken s'"
    "se_counters s' = se_counters s"
  using assms by (auto simp: send_session_request_def se_on_world_def split: prod.splits sum.splits)

lemma cancel_effect:
  "se_shards (send_cancel i s) = se_shards s" "se_slots (send_cancel i s) = se_slots s"
  "se_broken s \<Longrightarrow> se_broken (send_cancel i s)" "se_counters (send_cancel i s) = se_counters s"
  by (simp_all add: send_cancel_def se_on_world_def Let_def split: prod.split sum.split)

lemma fail_slot_effect [simp]:
  "se_slots (fail_slot e b s) = (if sl_done (se_slots s b) then se_slots s
     else (se_slots s)(b := (se_slots s b)\<lparr>sl_error := Some e, sl_done := True\<rparr>))"
  "se_shards (fail_slot e b s) = se_shards s" "se_broken (fail_slot e b s) = se_broken s"
  "se_counters (fail_slot e b s) = se_counters s"
  by (simp_all add: fail_slot_def)

lemma fail_fold:
  "se_slots (fold (\<lambda>(i, b). fail_slot e b) es s) a =
     (if a \<in> snd ` set es \<and> \<not> sl_done (se_slots s a)
      then (se_slots s a)\<lparr>sl_error := Some e, sl_done := True\<rparr> else se_slots s a)"
  "se_shards (fold (\<lambda>(i, b). fail_slot e b) es s) = se_shards s"
  "se_broken (fold (\<lambda>(i, b). fail_slot e b) es s) = se_broken s"
  "se_counters (fold (\<lambda>(i, b). fail_slot e b) es s) = se_counters s"
  by (induction es arbitrary: s; force)+

lemma fail_shard_effect:
  assumes "inflight_ok s" "k < inflight_shard_count"
  shows "session_find (fail_shard e k s) = session_find s" "inflight_ok (fail_shard e k s)"
    "se_broken (fail_shard e k s) = se_broken s" "se_counters (fail_shard e k s) = se_counters s"
    "se_slots (fail_shard e k s) a =
       (if (\<exists>i. session_find s i = Some a \<and> shard_index i = k) \<and> \<not> sl_done (se_slots s a)
        then (se_slots s a)\<lparr>sl_error := Some e, sl_done := True\<rparr> else se_slots s a)"
proof -
  show "session_find (fail_shard e k s) = session_find s" "inflight_ok (fail_shard e k s)"
    "se_broken (fail_shard e k s) = se_broken s" "se_counters (fail_shard e k s) = se_counters s"
    using assms(1) session_find_cong [of "fail_shard e k s" s] inflight_ok_cong [of "fail_shard e k s" s]
    by (simp_all add: fail_shard_def fail_fold)
  have "a \<in> snd ` set (sh_inflight (se_shards s ! k)) \<longleftrightarrow> (\<exists>i. session_find s i = Some a \<and> shard_index i = k)"
    using table_entry [OF assms, of _ a] by force
  then show "se_slots (fail_shard e k s) a =
       (if (\<exists>i. session_find s i = Some a \<and> shard_index i = k) \<and> \<not> sl_done (se_slots s a)
        then (se_slots s a)\<lparr>sl_error := Some e, sl_done := True\<rparr> else se_slots s a)"
    by (simp add: fail_shard_def fail_fold)
qed

subsection \<open>What holds between the sections\<close>

text \<open>
  The responses received under an identifier since it was registered last, the latest first, and the
  caller that registered it last.
\<close>

fun answers :: "u32 \<Rightarrow> session_event list \<Rightarrow> Response list" where
  "answers i [] = []"
| "answers i (EvRegister a j # es) = (if j = i then [] else answers i es)"
| "answers i (EvResponse j x # es) = (if j = i then x # answers i es else answers i es)"

fun owner :: "u32 \<Rightarrow> session_event list \<Rightarrow> nat option" where
  "owner i [] = None"
| "owner i (EvRegister a j # es) = (if j = i then Some a else owner i es)"
| "owner i (EvResponse j x # es) = owner i es"

fun phase_id :: "call_phase \<Rightarrow> u32 option" where
  "phase_id (CP_registered i) = Some i"
| "phase_id (CP_send_failed i e) = Some i"
| "phase_id (CP_sent i) = Some i"
| "phase_id _ = None"

fun preparing :: "call_phase \<Rightarrow> bool" where
  "preparing CP_ready \<longleftrightarrow> True"
| "preparing (CP_have i) \<longleftrightarrow> True"
| "preparing _ \<longleftrightarrow> False"

definition slot_matches :: "Slot \<Rightarrow> Response list \<Rightarrow> bool" where
  "slot_matches sl xs \<longleftrightarrow> (\<not> sl_done sl \<longrightarrow> sl_error sl = None \<and> xs = []) \<and>
     (sl_done sl \<and> sl_error sl = None \<longrightarrow> xs \<noteq> [] \<and> last xs = sl_response sl)"

fun reader_inv :: "reader_phase \<Rightarrow> SessionState \<Rightarrow> bool" where
  "reader_inv RP_running s \<longleftrightarrow> True"
| "reader_inv (RP_failing e k) s \<longleftrightarrow> se_broken s \<and>
     (\<forall>i a. session_find s i = Some a \<and> shard_index i < k \<longrightarrow> sl_done (se_slots s a))"
| "reader_inv RP_ended s \<longleftrightarrow> se_broken s \<and> (\<forall>i a. session_find s i = Some a \<longrightarrow> sl_done (se_slots s a))"

definition session_inv :: "SessionRun \<Rightarrow> bool" where
  "session_inv r \<longleftrightarrow> inflight_ok (ru_state r) \<and>
     (\<forall>i a. session_find (ru_state r) i = Some a \<longleftrightarrow> phase_id (ru_calls r a) = Some i) \<and>
     (\<forall>a. preparing (ru_calls r a) \<longrightarrow> se_slots (ru_state r) a = empty_slot) \<and>
     (\<forall>a i. phase_id (ru_calls r a) = Some i \<longrightarrow> owner i (ru_log r) = Some a \<and>
        slot_matches (se_slots (ru_state r) a) (answers i (ru_log r))) \<and>
     reader_inv (ru_reader r) (ru_state r)"

lemma session_invD:
  assumes "session_inv r"
  shows "inflight_ok (ru_state r)" "session_find (ru_state r) i = Some a \<longleftrightarrow> phase_id (ru_calls r a) = Some i"
    "preparing (ru_calls r a) \<Longrightarrow> se_slots (ru_state r) a = empty_slot"
    "phase_id (ru_calls r a) = Some i \<Longrightarrow> owner i (ru_log r) = Some a"
    "phase_id (ru_calls r a) = Some i \<Longrightarrow> slot_matches (se_slots (ru_state r) a) (answers i (ru_log r))"
    "reader_inv (ru_reader r) (ru_state r)"
  using assms by (simp_all add: session_inv_def)

lemma call_to_sel [simp]:
  "ru_state (call_to a p s r) = s" "ru_calls (call_to a p s r) = (ru_calls r)(a := p)"
  "ru_reader (call_to a p s r) = ru_reader r" "ru_log (call_to a p s r) = ru_log r"
  "ru_state (log_event v r) = ru_state r" "ru_calls (log_event v r) = ru_calls r"
  "ru_reader (log_event v r) = ru_reader r" "ru_log (log_event v r) = v # ru_log r"
  by (simp_all add: call_to_def log_event_def)

lemma reader_inv_mono:
  assumes "reader_inv p s" "\<And>i a. session_find s' i = Some a \<Longrightarrow> session_find s i = Some a \<or> p = RP_running"
    "\<And>a. sl_done (se_slots s a) \<Longrightarrow> sl_done (se_slots s' a)" "se_broken s \<Longrightarrow> se_broken s'"
  shows "reader_inv p s'"
  using assms by (cases p) (simp_all, blast+)

text \<open>A caller moves on and the table, the slots and the log stay as they are.\<close>

lemma inv_call_moves:
  assumes inv: "session_inv r" and s: "session_find s = session_find (ru_state r)" "inflight_ok s"
    "se_slots s = se_slots (ru_state r)" "se_broken (ru_state r) \<Longrightarrow> se_broken s"
    and p: "phase_id p = phase_id (ru_calls r a)" "preparing p \<Longrightarrow> preparing (ru_calls r a)"
  shows "session_inv (call_to a p s r)"
proof -
  note i = session_invD [OF inv]
  have "reader_inv (ru_reader r) s"
    by (rule reader_inv_mono [OF i(6)]) (use s in simp_all)
  then show ?thesis
    unfolding session_inv_def call_to_sel s(1,3)
    using s(2) i(2-5) p by (simp split: if_split)
qed

lemma inv_state_moves:
  assumes inv: "session_inv r" and s: "session_find s = session_find (ru_state r)" "inflight_ok s"
    "se_slots s = se_slots (ru_state r)" "se_broken (ru_state r) \<Longrightarrow> se_broken s"
  shows "session_inv (r\<lparr>ru_state := s\<rparr>)"
proof -
  have "session_inv (call_to a (ru_calls r a) s r)" for a
    by (rule inv_call_moves [OF inv s]) simp_all
  then show ?thesis by (simp add: call_to_def)
qed

lemma inv_enter:
  assumes inv: "session_inv r" and a: "ru_calls r a = CP_idle"
  shows "session_inv (call_to a CP_ready (slot_upd a (\<lambda>_. empty_slot) (ru_state r)) r)"
proof -
  note i = session_invD [OF inv]
  let ?s = "slot_upd a (\<lambda>_. empty_slot) (ru_state r)"
  have no: "session_find (ru_state r) j \<noteq> Some a" for j using i(2) [of j a] a by simp
  have "reader_inv (ru_reader r) ?s"
    using i(6) no by (cases "ru_reader r") auto
  then show ?thesis
    unfolding session_inv_def call_to_sel
    using i(1-5) a by (simp split: if_split) 
qed

lemma inv_claim:
  assumes inv: "session_inv r" and a: "ru_calls r a = CP_have i" "claim_id i a (ru_state r) = (s, Inr True)"
  shows "session_inv (log_event (EvRegister a i) (call_to a (CP_registered i) s r))"
proof -
  note d = session_invD [OF inv]
  note c = claim_effect [OF d(1) a(2)]
  have run: "ru_reader r = RP_running"
    using d(6) c(1) by (cases "ru_reader r") simp_all
  have empty: "se_slots (ru_state r) a = empty_slot" using d(3) [of a] a(1) by simp
  have other: "phase_id (ru_calls r b) \<noteq> Some i" for b using d(2) [of i b] c(2) by simp
  have m: "slot_matches empty_slot []" by (simp add: slot_matches_def empty_slot_def)
  have "session_find s j = Some b \<longleftrightarrow> phase_id (((ru_calls r)(a := CP_registered i)) b) = Some j" for j b
    using d(2) [of j b] other a(1) unfolding c(4) by auto
  moreover have "owner j (EvRegister a i # ru_log r) = Some b \<and>
      slot_matches (se_slots s b) (answers j (EvRegister a i # ru_log r))"
    if "phase_id (((ru_calls r)(a := CP_registered i)) b) = Some j" for b j
    using that d(4,5) [of b j] other [of b] empty m unfolding c(5) by (cases "b = a") auto
  ultimately show ?thesis
    unfolding session_inv_def call_to_sel run using c(3) d(3) by (simp add: c(5))
qed

lemma inv_remove:
  assumes inv: "session_inv r" and a: "phase_id (ru_calls r a) = Some i"
    and s: "inflight_ok s" "session_find s = (session_find (ru_state r))(i := None)" "se_slots s = se_slots (ru_state r)"
      "se_broken (ru_state r) \<Longrightarrow> se_broken s"
  shows "session_inv (call_to a (CP_finished x) s r)"
proof -
  note d = session_invD [OF inv]
  have "reader_inv (ru_reader r) s"
    by (rule reader_inv_mono [OF d(6)]) (use s in \<open>auto split: if_splits\<close>)
  moreover have "session_find s j = Some b \<longleftrightarrow> phase_id (((ru_calls r)(a := CP_finished x)) b) = Some j" for j b
  proof (cases "b = a")
    case True
    then show ?thesis using a d(2) [of j a] by (simp add: s(2))
  next
    case False
    then have "session_find (ru_state r) i \<noteq> Some b"
      using a d(2) [of i a] by auto
    then show ?thesis using False d(2) [of j b] by (auto simp: s(2))
  qed
  ultimately show ?thesis
    unfolding session_inv_def call_to_sel using s(1) d(3-5) by (simp add: s(3))
qed

lemma inv_deliver:
  assumes inv: "session_inv r" and run: "ru_reader r = RP_running"
    and x: "deliver_response i x (ru_state r) = (s, Inr ())"
  shows "session_inv (log_event (EvResponse i x) (r\<lparr>ru_state := s\<rparr>))"
proof -
  note d = session_invD [OF inv]
  obtain a where a: "session_find (ru_state r) i = Some a" "\<not> sl_done (se_slots (ru_state r) a)"
    "s = slot_upd a (\<lambda>sl. sl\<lparr>sl_response := x, sl_done := True\<rparr>) (ru_state r)"
    by (rule deliver_effect [OF x])
  have p: "phase_id (ru_calls r a) = Some i" using a(1) d(2) by simp
  have m: "sl_error (se_slots (ru_state r) a) = None" "answers i (ru_log r) = []"
    using d(5) [OF p] a(2) by (simp_all add: slot_matches_def)
  have other: "j \<noteq> i" if "phase_id (ru_calls r b) = Some j" "b \<noteq> a" for b j
    using that a(1) d(2) [of i b] by auto
  have np: "\<not> preparing (ru_calls r a)" using p by (cases "ru_calls r a") simp_all
  have "slot_matches (se_slots s b) (answers j (EvResponse i x # ru_log r))"
    if "phase_id (ru_calls r b) = Some j" for b j
  proof (cases "b = a")
    case True
    then have "j = i" using that p by simp
    then show ?thesis using True m by (simp add: a(3) slot_matches_def)
  next
    case False
    then show ?thesis using other [OF that False] d(5) [OF that] by (simp add: a(3))
  qed
  moreover have "preparing (ru_calls r b) \<longrightarrow> se_slots s b = empty_slot" for b
    using np d(3) [of b] by (cases "b = a") (auto simp: a(3))
  ultimately show ?thesis
    unfolding session_inv_def call_to_sel using d(1,2,4) run by (simp add: a(3))
qed

lemma inv_deliver_fails:
  assumes inv: "session_inv r" and x: "deliver_response i x (ru_state r) = (s, Inl e)"
  shows "session_inv (log_event (EvResponse i x) (r\<lparr>ru_state := s\<lparr>se_broken := True\<rparr>, ru_reader := RP_failing e 0\<rparr>))"
proof -
  note d = session_invD [OF inv] and s = deliver_refused(1) [OF x]
  have "slot_matches (se_slots (ru_state r) b) (answers j (EvResponse i x # ru_log r))"
    if "phase_id (ru_calls r b) = Some j" for b j
  proof (cases "j = i")
    case True
    then have "session_find (ru_state r) i = Some b" using that d(2) by simp
    from deliver_refused(2) [OF x this] d(5) [OF that] show ?thesis
      using True by (auto simp: slot_matches_def)
  qed (use d(5) [OF that] in simp)
  then show ?thesis
    unfolding session_inv_def call_to_sel using d(1-4) by (simp add: s)
qed

lemma inv_fail:
  assumes inv: "session_inv r" and k: "ru_reader r = RP_failing e k" "k < inflight_shard_count"
  shows "session_inv (r\<lparr>ru_state := fail_shard e k (ru_state r), ru_reader := RP_failing e (k + 1)\<rparr>)"
proof -
  note d = session_invD [OF inv] and f = fail_shard_effect [OF session_invD(1) [OF inv] k(2), of e]
  have "slot_matches (se_slots (fail_shard e k (ru_state r)) b) (answers j (ru_log r))"
    if "phase_id (ru_calls r b) = Some j" for b j
    using d(5) [OF that] by (simp add: f(5) slot_matches_def)
  moreover have "se_slots (fail_shard e k (ru_state r)) b = empty_slot" if "preparing (ru_calls r b)" for b
  proof -
    have "phase_id (ru_calls r b) = None" using that by (cases "ru_calls r b") simp_all
    then have "session_find (ru_state r) j \<noteq> Some b" for j using d(2) [of j b] by simp
    then show ?thesis using d(3) [OF that] by (simp add: f(5))
  qed
  moreover have "sl_done (se_slots (fail_shard e k (ru_state r)) b)"
    if "session_find (ru_state r) j = Some b" "shard_index j < k + 1" for j b
  proof (cases "shard_index j = k")
    case True
    then show ?thesis using that(1) by (auto simp: f(5))
  next
    case False
    then have "shard_index j < k" using that(2) by simp
    then have "sl_done (se_slots (ru_state r) b)" using that(1) d(6) k(1) by auto
    then show ?thesis by (simp add: f(5))
  qed
  ultimately show ?thesis
    unfolding session_inv_def using d(1,2,4,6) k(1) by (simp add: f(1-4))
qed

lemma session_step_inv: "session_step r r' \<Longrightarrow> session_inv r \<Longrightarrow> session_inv r'"
proof (induction rule: session_step.induct)
  case (world r w c)
  then show ?case by (intro inv_state_moves) (simp_all add: session_invD(1))
next
  case (enter r a)
  then show ?case by (simp add: inv_enter)
next
  case (enter_broken r a)
  then show ?case by (intro inv_call_moves) (simp_all add: session_invD(1))
next
  case (fetch r a s i)
  then show ?case by (intro inv_call_moves) (auto simp: fetch_id_def session_invD(1))
next
  case (claim r a i s)
  then show ?case by (simp add: inv_claim)
next
  case (claim_taken r a i s)
  note s = claim_refused(1) [OF claim_taken(2)]
  show ?case using claim_taken(1,3) by (intro inv_call_moves) (simp_all add: s session_invD(1))
next
  case (claim_closed r a i s e)
  note s = claim_refused(2) [OF claim_closed(2)]
  show ?case using claim_closed(1,3) by (intro inv_call_moves) (simp_all add: s session_invD(1))
next
  case (send r a i route body d s)
  note f = send_effect [OF send(2)]
  show ?case
    using send f inflight_ok_cong [OF f(1)] by (intro inv_call_moves) (simp_all add: session_invD(1) session_find_cong [OF f(1)])
next
  case (send_fails r a i route body d s e)
  note f = send_effect [OF send_fails(2)]
  show ?case
    using send_fails f inflight_ok_cong [OF f(1)]
    by (intro inv_call_moves) (simp_all add: session_invD(1) session_find_cong [OF f(1)])
next
  case (abandon r a i e)
  note f = abandon_effect [OF session_invD(1) [OF abandon(2)], of i]
  show ?case using abandon f by (intro inv_remove [where i = i]) simp_all
next
  case (cancel r a i)
  note f = cancel_effect [where i = i and s = "ru_state r"]
  show ?case
    using cancel f inflight_ok_cong [OF f(1)] by (intro inv_call_moves) (simp_all add: session_invD(1) session_find_cong [OF f(1)])
next
  case (finish r a i timed_out cancelled s x)
  note f = finish_effect [OF session_invD(1) [OF finish(4)] finish(3)]
  show ?case using finish(1,4) f(1-4) by (intro inv_remove [where i = i]) simp_all
next
  case (leave r a x)
  then show ?case by (intro inv_call_moves) (simp_all add: session_invD(1))
next
  case (deliver r i x s)
  then show ?case by (simp add: inv_deliver)
next
  case (deliver_fails r i x s e)
  then show ?case by (simp add: inv_deliver_fails)
next
  case (read_fails r e)
  then show ?case by (simp add: session_inv_def)
next
  case (fail r e k)
  then show ?case by (intro inv_fail)
next
  case (end_reader r e)
  then show ?case using shards.index_less by (simp add: session_inv_def)
qed

lemma initial_run_inv: "session_inv (initial_run path options fd w)"
proof -
  let ?s = "new_session_state path options fd w"
  have "session_find ?s i = None" for i
    using shards.index_less [of i]
    by (simp add: session_find_def shard_find_def shard_for_def new_session_state_def)
  moreover have "inflight_ok ?s" by (simp add: inflight_ok_def new_session_state_def shard_ok_def)
  ultimately show ?thesis by (simp add: session_inv_def initial_run_def)
qed

definition session_reachable :: "SessionRun \<Rightarrow> bool" where
  "session_reachable r \<longleftrightarrow> (\<exists>path options fd w. session_step\<^sup>*\<^sup>* (initial_run path options fd w) r)"

lemma reachable_inv: "session_reachable r \<Longrightarrow> session_inv r"
proof -
  have "session_step\<^sup>*\<^sup>* r0 r \<Longrightarrow> session_inv r0 \<Longrightarrow> session_inv r" for r0 r
    by (induction rule: rtranclp_induct) (simp_all add: session_step_inv)
  then show "session_reachable r \<Longrightarrow> session_inv r"
    using initial_run_inv by (auto simp: session_reachable_def)
qed

text \<open>
  C2: concurrent requests of a session do not get each other's responses: in whatever order the
  threads run and the server answers, the response a call returns is the first one the reader
  received under the call's identifier after the call had registered it, and no other call has
  registered that identifier since.
\<close>

theorem session_returns_own_response:
  assumes "session_reachable r" "ru_calls r a = CP_sent i"
    "timed_out \<or> sl_done (se_slots (ru_state r) a)"
    "finish_request i a timed_out cancelled (ru_state r) = (s, Inr x)"
  shows "owner i (ru_log r) = Some a \<and> answers i (ru_log r) \<noteq> [] \<and> x = last (answers i (ru_log r))"
proof -
  note inv = reachable_inv [OF assms(1)]
  have p: "phase_id (ru_calls r a) = Some i" using assms(2) by simp
  note d = session_invD(4,5) [OF inv p]
  have "\<not> timed_out \<and> sl_error (se_slots (ru_state r) a) = None \<and> x = sl_response (se_slots (ru_state r) a)"
    by (rule finish_effect(5) [OF session_invD(1) [OF inv] assms(4) refl])
  then show ?thesis
    using d assms(3) by (simp_all add: slot_matches_def)
qed

text \<open>A call that is answered: it enters, gets identifier 1, registers, sends, and the reader delivers.\<close>

definition session_sample_options :: ClientOptions where
  "session_sample_options = client_sample_options\<lparr>co_stats := SM_basic\<rparr>"

lemma session_sample_run:
  obtains r where "session_reachable r" "ru_calls r 7 = CP_sent 1" "sl_done (se_slots (ru_state r) 7)"
    "sl_error (se_slots (ru_state r) 7) = None" "sl_response (se_slots (ru_state r) 7) = Response_ok (str ''pong'')"
    "answers 1 (ru_log r) = [Response_ok (str ''pong'')]" "ru_reader r = RP_running"
    "se_counters (ru_state r) \<noteq> None"
proof -
  let ?x = "Response_ok (str ''pong'')"
  define r0 where "r0 = initial_run (str ''/s'') session_sample_options 5 quiet_world"
  define r1 where "r1 = call_to 7 CP_ready (slot_upd 7 (\<lambda>_. empty_slot) (ru_state r0)) r0"
  define r2 where "r2 = call_to 7 (CP_have 1) (fst (fetch_id (ru_state r1))) r1"
  have s1: "session_step r0 r1"
    unfolding r1_def by (rule session_step.enter) (simp_all add: r0_def initial_run_def new_session_state_def)
  have "fetch_id (ru_state r1) = (fst (fetch_id (ru_state r1)), 1)"
    by (simp add: fetch_id_def r1_def r0_def initial_run_def new_session_state_def slot_upd_def)
  from session_step.fetch [OF _ this, of 7] have s2: "session_step r1 r2" by (simp add: r1_def r2_def)
  have inv2: "session_inv r2" using s1 s2 session_step_inv initial_run_inv by (metis r0_def)
  have f: "session_find (ru_state r2) 1 = None" "\<not> se_broken (ru_state r2)"
    "se_options (ru_state r2) = session_sample_options" "se_fd (ru_state r2) = 5" "se_world (ru_state r2) = quiet_world"
    using shards.index_less [of 1]
    by (simp_all add: r2_def r1_def r0_def fetch_id_def initial_run_def new_session_state_def slot_upd_def
        session_find_def shard_find_def shard_for_def)
  obtain sh where sh: "shard_insert 1 7 (shard_for 1 (ru_state r2)) = Inr sh"
    using shards.ins_fresh [OF shard_for_ok [OF session_invD(1) [OF inv2]] f(1) [unfolded session_find_def]] by blast
  define s3 where "s3 = count_request 1 (\<lambda>c. c\<lparr>ct_started := ct_started c + 1\<rparr>) (set_shard 1 sh (ru_state r2))"
  have c: "claim_id 1 7 (ru_state r2) = (s3, Inr True)"
    using f(1,2) sh by (simp add: claim_id_def session_find_def s3_def)
  note e3 = claim_effect [OF session_invD(1) [OF inv2] c]
  have w3: "se_options s3 = session_sample_options" "se_fd s3 = 5" "se_world s3 = quiet_world"
    using f(3-5) by (simp_all add: s3_def count_request_def set_shard_def)
  define r3 where "r3 = log_event (EvRegister 7 1) (call_to 7 (CP_registered 1) s3 r2)"
  have s3: "session_step r2 r3" unfolding r3_def by (rule session_step.claim [OF _ c]) (simp add: r2_def)
  have "sends_smoothly quiet_world 5" by (simp add: sends_smoothly_def quiet_world_def)
  then obtain w where w: "write_request_frame 5 1 (str ''r'') [] (co_io_timeout session_sample_options) deadline_max
      (co_protocol_version session_sample_options) quiet_world = (w, Inr ())"
    using write_iovecs_loop_smooth [OF _ refl] unfolding write_request_frame_def write_iovecs_exact_def Let_def by blast
  have snd: "send_session_request 1 (str ''r'') [] deadline_max s3 = (s3\<lparr>se_world := w\<rparr>, Inr ())"
    by (simp add: send_session_request_def se_on_world_def w3 w)
  define r4 where "r4 = call_to 7 (CP_sent 1) (s3\<lparr>se_world := w\<rparr>) r3"
  have s4: "session_step r3 r4" unfolding r4_def by (rule session_step.send) (use snd in \<open>simp_all add: r3_def\<close>)
  have slot: "se_slots (ru_state r4) 7 = empty_slot"
    by (simp add: r4_def e3(5) r2_def r1_def fetch_id_def)
  have d: "deliver_response 1 ?x (ru_state r4) =
      (slot_upd 7 (\<lambda>sl. sl\<lparr>sl_response := ?x, sl_done := True\<rparr>) (ru_state r4), Inr ())"
    using e3(4) slot
    by (simp add: deliver_response_def r4_def empty_slot_def flip: session_find_def)
  define r5 where "r5 = log_event (EvResponse 1 ?x) (r4\<lparr>ru_state := slot_upd 7
    (\<lambda>sl. sl\<lparr>sl_response := ?x, sl_done := True\<rparr>) (ru_state r4)\<rparr>)"
  have s5: "session_step r4 r5"
    unfolding r5_def by (rule session_step.deliver [OF _ d]) (simp add: r4_def r3_def r2_def r1_def r0_def initial_run_def)
  have k: "se_counters (ru_state r4) \<noteq> None"
    by (simp add: r4_def s3_def count_request_def r2_def r1_def r0_def fetch_id_def initial_run_def
        new_session_state_def session_sample_options_def)
  have m: "ru_reader r5 = RP_running"
    by (simp add: r5_def r4_def r3_def r2_def r1_def r0_def initial_run_def)
  have "session_step\<^sup>*\<^sup>* r0 r5"
    using s1 s2 s3 s4 s5 by (meson converse_rtranclp_into_rtranclp rtranclp.rtrancl_refl)
  then have "session_reachable r5" by (auto simp: session_reachable_def r0_def)
  then show ?thesis
    by (rule that) (use k m in \<open>simp_all add: r5_def slot\<close>, simp_all add: r4_def r3_def empty_slot_def)
qed

lemma session_returns_own_response_witness:
  "\<exists>r s x. session_reachable r \<and> ru_calls r 7 = CP_sent 1 \<and> finish_request 1 7 False False (ru_state r) = (s, Inr x) \<and>
     owner 1 (ru_log r) = Some 7 \<and> x = Response_ok (str ''pong'')"
proof -
  obtain r where r: "session_reachable r" "ru_calls r 7 = CP_sent 1" "sl_done (se_slots (ru_state r) 7)"
    "sl_error (se_slots (ru_state r) 7) = None" "sl_response (se_slots (ru_state r) 7) = Response_ok (str ''pong'')"
    "answers 1 (ru_log r) = [Response_ok (str ''pong'')]" "ru_reader r = RP_running"
    "se_counters (ru_state r) \<noteq> None"
    by (rule session_sample_run)
  obtain s where "finish_request 1 7 False False (ru_state r) = (s, Inr (Response_ok (str ''pong'')))"
    using r(4,5) by (simp add: finish_request_def Let_def)
  with session_returns_own_response [OF r(1,2) _ this] r show ?thesis by auto
qed

text \<open>
  C3: no call is left waiting: once the reader thread has ended, every call that waits for a response
  finds its slot done, the session reports that it is broken, and nothing registers any more.
\<close>

theorem session_no_call_waits:
  assumes "session_reachable r" "ru_reader r = RP_ended"
  shows "(\<forall>a i. ru_calls r a = CP_sent i \<longrightarrow> sl_done (se_slots (ru_state r) a)) \<and>
    session_status (Some (ru_state r)) = SST_broken \<and>
    claim_id j b (ru_state r) = (ru_state r, Inl session_closed)"
proof -
  note d = session_invD [OF reachable_inv [OF assms(1)]]
  have "sl_done (se_slots (ru_state r) a)" if "ru_calls r a = CP_sent i" for a i
    using that d(2) [of i a] d(6) assms(2) by simp
  then show ?thesis using d(6) assms(2) by (simp add: session_status_def claim_id_def)
qed

text \<open>A failing reader reaches its end by its own steps.\<close>

lemma reader_ends:
  "ru_reader r = RP_failing e k \<Longrightarrow> k \<le> inflight_shard_count \<Longrightarrow>
   \<exists>r'. session_step\<^sup>*\<^sup>* r r' \<and> ru_reader r' = RP_ended \<and> ru_calls r' = ru_calls r"
proof (induction "inflight_shard_count - k" arbitrary: r k)
  case 0
  then have "session_step r (r\<lparr>ru_reader := RP_ended\<rparr>)" by (intro session_step.end_reader) simp
  then show ?case by (intro exI [of _ "r\<lparr>ru_reader := RP_ended\<rparr>"]) auto
next
  case (Suc n)
  let ?r = "r\<lparr>ru_state := fail_shard e k (ru_state r), ru_reader := RP_failing e (k + 1)\<rparr>"
  have s: "session_step r ?r" using Suc.hyps(2) Suc.prems(1) by (intro session_step.fail) simp_all
  have "n = inflight_shard_count - (k + 1)" "k + 1 \<le> inflight_shard_count" using Suc.hyps(2) by simp_all
  then obtain r' where "session_step\<^sup>*\<^sup>* ?r r'" "ru_reader r' = RP_ended" "ru_calls r' = ru_calls r"
    using Suc.hyps(1) [of "k + 1" ?r] by auto
  moreover from s this(1) have "session_step\<^sup>*\<^sup>* r r'" by (rule converse_rtranclp_into_rtranclp)
  ultimately show ?case by blast
qed

lemma session_no_call_waits_witness:
  "\<exists>r. session_reachable r \<and> ru_reader r = RP_ended \<and> ru_calls r 7 = CP_sent 1 \<and>
     sl_done (se_slots (ru_state r) 7) \<and> claim_id 2 8 (ru_state r) = (ru_state r, Inl session_closed)"
proof -
  obtain r where r: "session_reachable r" "ru_calls r 7 = CP_sent 1" "ru_reader r = RP_running"
    by (rule session_sample_run)
  let ?r = "r\<lparr>ru_state := (ru_state r)\<lparr>se_broken := True\<rparr>, ru_reader := RP_failing Unknown_exception 0\<rparr>"
  have s: "session_step r ?r" by (rule session_step.read_fails [OF r(3)])
  obtain r' where r': "session_step\<^sup>*\<^sup>* ?r r'" "ru_reader r' = RP_ended" "ru_calls r' = ru_calls ?r"
    using reader_ends [of ?r Unknown_exception 0] by auto
  have "session_reachable r'"
    using r(1) s r'(1) unfolding session_reachable_def by (meson rtranclp.rtrancl_into_rtrancl rtranclp_trans)
  with session_no_call_waits [OF this r'(2), of 2 8] r' r(2) show ?thesis by auto
qed

subsection \<open>Statistics\<close>

definition balanced :: "CounterShard \<Rightarrow> nat \<Rightarrow> bool" where
  "balanced c n \<longleftrightarrow> ct_started c = ct_completed c + ct_timed_out c + ct_failed c + of_nat n"

definition counted :: "SessionState \<Rightarrow> bool" where
  "counted s \<longleftrightarrow> (case se_counters s of None \<Rightarrow> True
     | Some cs \<Rightarrow> length cs = inflight_shard_count \<and>
         (\<forall>k<inflight_shard_count. balanced (cs ! k) (shard_size (se_shards s ! k))))"

lemma counted_cong: "se_counters s' = se_counters s \<Longrightarrow> se_shards s' = se_shards s \<Longrightarrow> counted s' = counted s"
  by (simp add: counted_def split: option.split)

lemma counted_frames [simp]:
  "counted (slot_upd a g s) = counted s" "counted (session_shutdown s) = counted s"
  "counted (s\<lparr>se_broken := b\<rparr>) = counted s" "counted (s\<lparr>se_world := w, se_cancelled := c\<rparr>) = counted s"
  "counted (s\<lparr>se_next_id := n\<rparr>) = counted s"
  by (rule counted_cong; simp)+

lemma counted_update:
  assumes "counted s" "inflight_ok s" "\<And>c. balanced c (shard_size (shard_for i s)) \<Longrightarrow> balanced (f c) (shard_size sh)"
  shows "counted (set_shard i sh (count_request i f s))"
proof (cases "se_counters s")
  case None
  then show ?thesis by (simp add: counted_def count_request_def set_shard_def)
next
  case (Some cs)
  have l: "length cs = inflight_shard_count" "length (se_shards s) = inflight_shard_count"
    "shard_index i < inflight_shard_count"
    using assms(1,2) Some shards.index_less by (simp_all add: counted_def inflight_ok_def)
  have "balanced (cs ! k) (shard_size (se_shards s ! k))" if "k < inflight_shard_count" for k
    using assms(1) Some that by (simp add: counted_def)
  then show ?thesis
    using l assms(3) [of "cs ! shard_index i"] Some
    by (simp add: counted_def count_request_def set_shard_def shard_for_def nth_list_update)
qed

lemma balanced_removed:
  assumes "inflight_ok s" "session_find s i \<noteq> None" "balanced c (shard_size (shard_for i s))"
    "ct_completed c' + ct_timed_out c' + ct_failed c' = ct_completed c + ct_timed_out c + ct_failed c + 1"
    "ct_started c' = ct_started c"
  shows "balanced c' (shard_size (shard_erase i (shard_for i s)))"
proof -
  have "shard_size (shard_for i s) = Suc (shard_size (shard_erase i (shard_for i s)))"
    using shards.erase_entries [OF shard_for_ok [OF assms(1)], of i i] assms(2) by (simp add: session_find_def)
  then show ?thesis using assms(3-5) by (simp add: balanced_def add.assoc)
qed

lemma counted_abandon:
  assumes "counted s" "inflight_ok s" "session_find s i \<noteq> None"
  shows "counted (abandon_request i s)"
  using counted_update [OF assms(1,2), of i "\<lambda>c. c\<lparr>ct_failed := ct_failed c + 1\<rparr>"]
    balanced_removed [OF assms(2,3)] by (simp add: abandon_request_def Let_def)

lemma counted_finish:
  assumes "counted s" "inflight_ok s" "session_find s i \<noteq> None" "finish_request i a timed_out cancelled s = (s', x)"
  shows "counted s'"
proof -
  let ?f = "\<lambda>c. if timed_out then c\<lparr>ct_timed_out := ct_timed_out c + 1\<rparr>
    else if sl_error (se_slots s a) \<noteq> None then c\<lparr>ct_failed := ct_failed c + 1\<rparr>
    else c\<lparr>ct_completed := ct_completed c + 1\<rparr>"
  have "counted (set_shard i (shard_erase i (shard_for i s)) (count_request i ?f s))"
  proof (rule counted_update [OF assms(1,2)])
    fix c assume c: "balanced c (shard_size (shard_for i s))"
    show "balanced (?f c) (shard_size (shard_erase i (shard_for i s)))"
      by (rule balanced_removed [OF assms(2,3) c]) simp_all
  qed
  then show ?thesis
    using assms(4) by (auto simp: finish_request_def Let_def split: if_splits)
qed

lemma counted_claim:
  assumes "counted s" "inflight_ok s" "claim_id i a s = (s', Inr True)"
  shows "counted s'"
proof -
  obtain sh where sh: "shard_insert i a (shard_for i s) = Inr sh"
    "s' = count_request i (\<lambda>c. c\<lparr>ct_started := ct_started c + 1\<rparr>) (set_shard i sh s)"
    using assms(3) by (auto simp: claim_id_def split: if_splits sum.splits)
  have "shard_size sh = Suc (shard_size (shard_for i s))"
    by (rule shards.ins_fresh_all(3) [OF shard_for_ok [OF assms(2)]
          claim_effect(2) [OF assms(2,3), unfolded session_find_def] sh(1)])
  then have "counted (set_shard i sh (count_request i (\<lambda>c. c\<lparr>ct_started := ct_started c + 1\<rparr>) s))"
    by (intro counted_update [OF assms(1,2)]) (simp add: balanced_def)
  moreover have "counted s' = counted (set_shard i sh (count_request i (\<lambda>c. c\<lparr>ct_started := ct_started c + 1\<rparr>) s))"
    by (rule counted_cong) (simp_all add: sh(2) count_request_def set_shard_def)
  ultimately show ?thesis by simp
qed

lemma session_step_counted:
  "session_step r r' \<Longrightarrow> session_inv r \<Longrightarrow> counted (ru_state r) \<Longrightarrow> counted (ru_state r')"
proof (induction rule: session_step.induct)
  case (fetch r a s i)
  then show ?case by (auto simp: fetch_id_def)
next
  case (claim r a i s)
  then show ?case using counted_claim session_invD(1) by simp
next
  case (claim_taken r a i s)
  then show ?case using claim_refused(1) [OF claim_taken(2)] by simp
next
  case (claim_closed r a i s e)
  then show ?case using claim_refused(2) [OF claim_closed(2)] by simp
next
  case (send r a i route body d s)
  note f = send_effect [OF send(2)]
  show ?case using send(4) counted_cong [OF f(4,1)] by simp
next
  case (send_fails r a i route body d s e)
  note f = send_effect [OF send_fails(2)]
  show ?case using send_fails(4) counted_cong [OF f(4,1)] by simp
next
  case (abandon r a i e)
  note d = session_invD [OF abandon(2)]
  show ?case using counted_abandon [OF abandon(3) d(1), of i] d(2) [of i a] abandon(1) by simp
next
  case (cancel r a i)
  note f = cancel_effect [where i = i and s = "ru_state r"]
  show ?case using cancel(3) counted_cong [OF f(4,1)] by simp
next
  case (finish r a i timed_out cancelled s x)
  note d = session_invD [OF finish(4)]
  show ?case using counted_finish [OF finish(5) d(1) _ finish(3)] d(2) [of i a] finish(1) by simp
next
  case (deliver r i x s)
  show ?case by (rule deliver_effect [OF deliver(2)]) (use deliver(4) in simp)
next
  case (deliver_fails r i x s e)
  then show ?case using deliver_refused(1) [OF deliver_fails(2)] by simp
next
  case (fail r e k)
  have "se_shards (fail_shard e k (ru_state r)) = se_shards (ru_state r)"
    "se_counters (fail_shard e k (ru_state r)) = se_counters (ru_state r)"
    by (simp_all add: fail_shard_def fail_fold)
  then show ?case using fail(4) counted_cong [of "fail_shard e k (ru_state r)" "ru_state r"] by simp
qed simp_all

lemma initial_counted: "counted (new_session_state path options fd w)"
  by (simp add: counted_def new_session_state_def balanced_def shard_size_def)

lemma reachable_counted: "session_reachable r \<Longrightarrow> counted (ru_state r)"
proof -
  have "session_step\<^sup>*\<^sup>* r0 r \<Longrightarrow> session_inv r0 \<Longrightarrow> counted (ru_state r0) \<Longrightarrow> session_inv r \<and> counted (ru_state r)" for r0 r
    by (induction rule: rtranclp_induct) (simp_all add: session_step_inv session_step_counted)
  then show "session_reachable r \<Longrightarrow> counted (ru_state r)"
    using initial_run_inv initial_counted by (fastforce simp: session_reachable_def initial_run_def)
qed

lemma balanced_fold:
  "list_all2 (\<lambda>c sh. balanced c (shard_size sh)) cs shs \<Longrightarrow> balanced z n \<Longrightarrow>
   balanced (fold (\<lambda>c n. add_counters n c) cs z) (n + sum_list (map shard_size shs))"
proof (induction cs shs arbitrary: z n rule: list_all2_induct)
  case (Cons c cs sh shs)
  have "balanced (add_counters z c) (n + shard_size sh)"
    using Cons.hyps(1) Cons.prems by (simp add: balanced_def add_counters_def algebra_simps)
  from Cons.IH [OF this] show ?case by (simp add: add.assoc)
qed simp

text \<open>
  C6: the statistics of a session add up at every moment: every request that was started is counted
  as completed, timed out or failed exactly once, or is still in flight; this holds modulo the
  width of the counters.
\<close>

theorem session_stats_balanced:
  assumes "session_reachable r" "session_stats (Some (ru_state r)) = Inr st"
  shows "case sst_counters st of None \<Rightarrow> True
    | Some c \<Rightarrow> ct_started c = ct_completed c + ct_timed_out c + ct_failed c + of_nat (sst_inflight st)"
proof (cases "se_counters (ru_state r)")
  case None
  then show ?thesis using assms(2) by (auto simp: session_stats_def)
next
  case (Some cs)
  let ?shs = "se_shards (ru_state r)" and ?z = "\<lparr>ct_started = 0, ct_completed = 0, ct_timed_out = 0, ct_failed = 0\<rparr>"
  have l: "length ?shs = inflight_shard_count"
    using session_invD(1) [OF reachable_inv [OF assms(1)]] by (simp add: inflight_ok_def)
  have "list_all2 (\<lambda>c sh. balanced c (shard_size sh)) cs ?shs"
    using reachable_counted [OF assms(1)] l Some by (simp add: counted_def list_all2_conv_all_nth)
  from balanced_fold [OF this, of ?z 0]
  have "balanced (fold (\<lambda>c n. add_counters n c) cs ?z) (sum_list (map shard_size ?shs))"
    by (simp add: balanced_def)
  moreover have "shard_size = (\<lambda>sh. length (sh_inflight sh))" by (simp add: fun_eq_iff shard_size_def)
  ultimately show ?thesis
    using assms(2) Some by (auto simp: session_stats_def balanced_def)
qed

lemma session_stats_balanced_witness:
  "\<exists>r st c. session_reachable r \<and> ru_calls r 7 = CP_sent 1 \<and> session_stats (Some (ru_state r)) = Inr st \<and>
     sst_counters st = Some c \<and>
     ct_started c = ct_completed c + ct_timed_out c + ct_failed c + of_nat (sst_inflight st)"
proof -
  obtain r where r: "session_reachable r" "ru_calls r 7 = CP_sent 1" "se_counters (ru_state r) \<noteq> None"
    by (rule session_sample_run)
  obtain st where st: "session_stats (Some (ru_state r)) = Inr st" by (simp add: session_stats_def)
  moreover from this r(3) obtain c where "sst_counters st = Some c" by (auto simp: session_stats_def)
  ultimately show ?thesis using session_stats_balanced [OF r(1) st] r(1,2) by auto
qed

subsection \<open>Identifiers\<close>

lemma allocate_id_finds:
  assumes "\<forall>k<m. se_next_id s + of_nat k = 0 \<or> session_find s (se_next_id s + of_nat k) \<noteq> None"
    "se_next_id s + of_nat m \<noteq> 0" "session_find s (se_next_id s + of_nat m) = None"
    "inflight_ok s" "\<not> se_broken s" "m < fuel"
  shows "\<exists>s'. allocate_id fuel a s = Some (s', Inr (se_next_id s + of_nat m)) \<and>
    session_find s' = (session_find s)(se_next_id s + of_nat m \<mapsto> a)"
  using assms
proof (induction fuel arbitrary: s m)
  case (Suc fuel)
  let ?s = "s\<lparr>se_next_id := se_next_id s + 1\<rparr>" and ?i = "se_next_id s"
  show ?case
  proof (cases m)
    case 0
    have f: "shard_find ?i (shard_for ?i ?s) = None" using Suc.prems(3) 0 by (simp add: session_find_def shard_for_def)
    have t: "inflight_ok ?s" using Suc.prems(4) by simp
    obtain sh where sh: "shard_insert ?i a (shard_for ?i ?s) = Inr sh"
      using shards.ins_fresh [OF shard_for_ok [OF t] f, of a 0] by blast
    define s' where "s' = count_request ?i (\<lambda>c. c\<lparr>ct_started := ct_started c + 1\<rparr>) (set_shard ?i sh ?s)"
    have c: "claim_id ?i a ?s = (s', Inr True)" using sh Suc.prems(5) f by (simp add: claim_id_def s'_def)
    show ?thesis
      using claim_effect(4) [OF t c] Suc.prems(2) 0 c by (simp add: fetch_id_def fun_eq_iff)
  next
    case (Suc n)
    have eq: "se_next_id ?s + of_nat k = ?i + of_nat (Suc k)" for k by (simp add: add.assoc)
    have "\<forall>k<n. se_next_id ?s + of_nat k = 0 \<or> session_find ?s (se_next_id ?s + of_nat k) \<noteq> None"
      unfolding eq using Suc.prems(1) Suc by (auto simp del: of_nat_Suc)
    then have ih: "\<exists>s'. allocate_id fuel a ?s = Some (s', Inr (?i + of_nat (Suc n))) \<and>
        session_find s' = (session_find s)(?i + of_nat (Suc n) \<mapsto> a)"
      using Suc.IH [of n ?s] Suc.prems Suc unfolding eq by (simp add: fun_upd_def del: of_nat_Suc)
    have "?i = 0 \<or> shard_find ?i (shard_for ?i ?s) \<noteq> None"
      using Suc.prems(1) Suc by (force simp: session_find_def shard_for_def)
    then have "allocate_id (Suc fuel) a s = allocate_id fuel a ?s"
      using Suc.prems(5) by (auto simp: fetch_id_def claim_id_def)
    then show ?thesis using ih Suc by (simp add: fun_upd_def)
  qed
qed simp

text \<open>Among \<open>n + 1\<close> consecutive identifiers one is outside a set of \<open>n\<close>.\<close>

lemma consecutive_fresh:
  fixes x :: u32
  assumes "card A < 2 ^ 32"
  shows "\<exists>m \<le> card A. x + of_nat m \<notin> A \<and> (\<forall>k<m. x + of_nat k \<in> A)"
proof -
  have inj: "inj_on (\<lambda>m. x + of_nat m) {..card A}"
  proof (rule inj_onI)
    fix m n assume mn: "m \<in> {..card A}" "n \<in> {..card A}" "x + of_nat m = x + of_nat n"
    then have "unat (of_nat m :: u32) = unat (of_nat n :: u32)" by simp
    then show "m = n" using mn(1,2) assms by (simp add: unat_of_nat)
  qed
  have "\<not> (\<lambda>m. x + of_nat m) ` {..card A} \<subseteq> A"
  proof
    assume "(\<lambda>m. x + of_nat m) ` {..card A} \<subseteq> A"
    then have "card {..card A} \<le> card A" using card_inj_on_le [OF inj] by simp
    then show False by simp
  qed
  then obtain m0 where m0: "m0 \<le> card A" "x + of_nat m0 \<notin> A" by blast
  define m where "m = (LEAST m. x + of_nat m \<notin> A)"
  have "x + of_nat m \<notin> A" unfolding m_def by (rule LeastI [of "\<lambda>m. x + of_nat m \<notin> A", OF m0(2)])
  moreover have "m \<le> m0" unfolding m_def by (rule Least_le [of "\<lambda>m. x + of_nat m \<notin> A", OF m0(2)])
  moreover have "\<forall>k<m. x + of_nat k \<in> A" unfolding m_def using not_less_Least [of _ "\<lambda>m. x + of_nat m \<notin> A"] by blast
  ultimately show ?thesis using m0(1) by (intro exI [of _ m]) auto
qed

text \<open>
  C7: the search for an identifier ends: with \<open>n\<close> requests in flight, fewer than the identifiers there
  are, at most \<open>n + 2\<close> rounds register the call under an identifier that is not 0 and that no other
  request in flight has, and every other entry of the table stays.
\<close>

theorem allocate_id_fresh:
  assumes "inflight_ok s" "\<not> se_broken s" "card {i. session_find s i \<noteq> None} + 1 < 2 ^ 32"
    "card {i. session_find s i \<noteq> None} + 2 \<le> fuel"
  shows "\<exists>s' i. allocate_id fuel a s = Some (s', Inr i) \<and> i \<noteq> 0 \<and> session_find s i = None \<and>
    session_find s' = (session_find s)(i \<mapsto> a)"
proof -
  let ?I = "{i. session_find s i \<noteq> None}"
  have c: "card (insert 0 ?I) \<le> card ?I + 1" by (simp add: card_insert_if)
  then have "card (insert 0 ?I) < 2 ^ 32" using assms(3) by simp
  from consecutive_fresh [OF this, of "se_next_id s"] obtain m where
    m: "m \<le> card (insert 0 ?I)" "se_next_id s + of_nat m \<notin> insert 0 ?I" "\<forall>k<m. se_next_id s + of_nat k \<in> insert 0 ?I"
    by blast
  have "m < fuel" using m(1) c assms(4) by simp
  with allocate_id_finds [of m s fuel a] m assms(1,2) show ?thesis by auto
qed

lemma allocate_id_fresh_witness:
  "\<exists>s' i. allocate_id 2 7 (new_session_state (str ''/s'') client_sample_options 5 quiet_world) = Some (s', Inr i) \<and>
     i \<noteq> 0 \<and> session_find s' i = Some 7"
proof -
  let ?s = "new_session_state (str ''/s'') client_sample_options 5 quiet_world"
  have t: "inflight_ok ?s" "\<not> se_broken ?s" by (simp_all add: inflight_ok_def new_session_state_def shard_ok_def)
  have "session_find ?s i = None" for i
    using shards.index_less [of i]
    by (simp add: session_find_def shard_find_def shard_for_def new_session_state_def)
  then have "card {i. session_find ?s i \<noteq> None} = 0" by simp
  then have c: "card {i. session_find ?s i \<noteq> None} + 1 < 2 ^ 32" "card {i. session_find ?s i \<noteq> None} + 2 \<le> 2"
    by simp_all
  obtain s' i where "allocate_id 2 7 ?s = Some (s', Inr i)" "i \<noteq> 0" "session_find s' = (session_find ?s)(i \<mapsto> 7)"
    using allocate_id_fresh [OF t c, of 7] by (elim exE conjE)
  then show ?thesis by (intro exI [of _ s'] exI [of _ i]) simp
qed

end
