(* ===== verification/InputFrames.thy ===== *)
theory InputFrames
  imports StreamProps
begin

text \<open>
  Operations that read nothing from a connection: what they leave of the kernel's input and of the
  connections' descriptors. Needed to see that a worker's loop over a leased connection ends.
\<close>

lemma fold_refresh_recv [simp]:
  "w_recv (ss_world (fold (\<lambda>c s. fst (refresh_connection_events c s)) cs s)) = w_recv (ss_world s)"
  by (induction cs arbitrary: s) simp_all

lemma resume_recv [simp]: "w_recv (ss_world (resume_paused_connections c s)) = w_recv (ss_world s)"
  by (simp add: resume_paused_connections_def split_beta Let_def)

lemma release_recv [simp]:
  "w_recv (ss_world (release_connection_request_bytes c n s)) = w_recv (ss_world s)"
  "w_recv (ss_world (release_connection_request c n s)) = w_recv (ss_world s)"
  by (simp_all add: release_connection_request_bytes_def release_connection_request_def Let_def)

lemma account_world [simp]:
  "ss_world (account_connection_request c n s) = ss_world s"
  "ss_world (account_connection_request_count c s) = ss_world s"
  by (simp_all add: account_connection_request_def account_connection_request_count_def Let_def)

lemma send_frame_once_recv: "w_recv (fst (send_frame_once fd f w)) = w_recv w"
proof (induction fd f w rule: send_frame_once.induct)
  case (1 fd f w)
  obtain w1 q where q: "send_iovecs fd (remaining_parts f) None w = (w1, q)" by fastforce
  then have "w_recv w1 = w_recv w"
    using kernel_send_recv [of fd "concat (remaining_parts f)" None w] by (simp add: send_iovecs_def)
  then show ?case
    using "1.IH" [OF q [symmetric]] q by (cases q) (simp_all add: send_frame_once.simps [of fd f w])
qed

lemma mark_output_progress_recv [simp]:
  "w_recv (ss_world (mark_output_progress c s)) = w_recv (ss_world s)"
  by (simp add: mark_output_progress_def split_beta)

lemma queue_frame_recv [simp]: "w_recv (ss_world (fst (queue_frame c f s))) = w_recv (ss_world s)"
  by (simp add: queue_frame_def Let_def split_beta reserve_global_output_def)

lemma enqueue_frame_recv [simp]: "w_recv (ss_world (fst (enqueue_frame c f s))) = w_recv (ss_world s)"
proof -
  obtain w q where q: "send_frame_once (cn_fd (ss_conns s c)) f (ss_world s) = (w, q)" by fastforce
  then have "w_recv w = w_recv (ss_world s)"
    using send_frame_once_recv [of "cn_fd (ss_conns s c)" f "ss_world s"] by simp
  then show ?thesis by (cases q) (simp_all add: enqueue_frame_def q Let_def)
qed

lemma drop_recv [simp]:
  "w_recv (ss_world (drop_capabilities caps s)) = w_recv (ss_world s)"
  "ss_world (drop_output c s) = ss_world s"
  "w_recv (ss_world (drop_reactor_connection r s)) = w_recv (ss_world s)"
  by (simp_all add: drop_capabilities_def drop_output_def drop_reactor_connection_def Let_def split: option.split)

lemma close_connection_recv [simp]: "w_recv (ss_world (close_connection fd s)) = w_recv (ss_world s)"
  by (simp add: close_connection_def Let_def split: option.split)

lemma send_response_recv [simp]: "w_recv (ss_world (fst (send_response c i r d s))) = w_recv (ss_world s)"
proof -
  obtain w q where q: "check_deadline d ''send timed out'' (ss_world s) = (w, q)" by fastforce
  then have w: "w_recv w = w_recv (ss_world s)"
    using check_deadline_frame [of d "''send timed out''" "ss_world s"] by simp
  define s1 where "s1 = s\<lparr>ss_world := w\<rparr>"
  obtain s2 e where e: "enqueue_frame c (response_frame (ss_conns s1 c) i r d) s1 = (s2, e)" by fastforce
  have "w_recv (ss_world s2) = w_recv (ss_world s)"
    using enqueue_frame_recv [of c "response_frame (ss_conns s1 c) i r d" s1, unfolded e] w
    by (simp add: s1_def)
  moreover have "w_recv (ss_world s1) = w_recv (ss_world s)" using w by (simp add: s1_def)
  ultimately show ?thesis
    by (cases q; cases e)
      (simp_all add: send_response_def q Let_def s1_def [symmetric] e split_beta split: bool.split)
qed

lemma write_response_recv [simp]:
  "w_recv (ss_world (fst (write_fixed_response c i r d s))) = w_recv (ss_world s)"
  "w_recv (ss_world (fst (write_error_response c i m d st s))) = w_recv (ss_world s)"
  by (simp_all add: write_fixed_response_eq write_error_response_def)

text \<open>An operation that reads nothing and keeps every connection on its descriptor.\<close>

definition input_kept :: "ServerState \<Rightarrow> ServerState \<Rightarrow> bool" where
  "input_kept s s' \<longleftrightarrow> w_recv (ss_world s') = w_recv (ss_world s) \<and>
     (\<forall>x. cn_fd (ss_conns s' x) = cn_fd (ss_conns s x))"

lemma input_kept_trans: "input_kept s s' \<Longrightarrow> input_kept s' s'' \<Longrightarrow> input_kept s s''"
  by (simp add: input_kept_def)

lemma fold_input_kept: "(\<And>x s. input_kept s (f x s)) \<Longrightarrow> input_kept s (fold f xs s)"
proof (induction xs arbitrary: s)
  case Nil
  show ?case by (simp add: input_kept_def)
next
  case (Cons x xs)
  then show ?case using input_kept_trans by fastforce
qed

lemma input_kept_or_closing: "input_kept s (fst sr) \<Longrightarrow> input_kept s (or_closing c sr)"
  by (cases sr; cases "snd sr") (simp_all add: or_closing_def input_kept_def)

lemma input_kept_write:
  "input_kept s (fst (write_fixed_response c i r d s))"
  "input_kept s (fst (write_error_response c i m d st s))"
  by (simp_all add: input_kept_def)

lemma input_kept_drop: "input_kept s (drop_capabilities caps s)" "input_kept s (drop_job job s)"
  by (simp_all add: input_kept_def drop_job_def)

lemma input_kept_closing: "input_kept s (conn_upd c (\<lambda>cn. cn\<lparr>cn_closing := b\<rparr>) s)"
  by (simp add: input_kept_def)

lemma input_kept_superseded: "input_kept s (finish_superseded_job job s)"
proof -
  have "input_kept s (record_serialized_superseded s)"
    by (simp add: input_kept_def record_serialized_superseded_def)
  from input_kept_trans [OF this input_kept_or_closing [OF input_kept_write(2)]]
  show ?thesis
    by (simp add: finish_superseded_job_def Let_def input_kept_def complete_serialized_def)
qed

lemma scheduler_input [simp]:
  "ss_world (activity_upd d f s) = ss_world s" "ss_conns (activity_upd d f s) = ss_conns s"
  "ss_world (serialized_domain_activity d s) = ss_world s" "ss_conns (serialized_domain_activity d s) = ss_conns s"
  "ss_world (fst (ensure_serialized_worker_count n s)) = ss_world s"
  "ss_conns (fst (ensure_serialized_worker_count n s)) = ss_conns s"
  by (simp_all add: activity_upd_def serialized_domain_activity_def ensure_serialized_worker_count_def
      split: option.split)

lemma insert_serialized_input [simp]:
  "ss_world (fst (insert_serialized sched job s)) = ss_world s"
  "ss_conns (fst (insert_serialized sched job s)) = ss_conns s"
  by (simp_all add: insert_serialized_def Let_def split: prod.split)

lemma account_serialized_input: "input_kept s (account_serialized a b job s)"
  by (simp add: account_serialized_def input_kept_def Let_def split: option.split)

lemma admit_serialized_input: "input_kept s (fst (admit_serialized_job sched job a b s))"
proof -
  define s1 where "s1 = serialized_domain_activity (rs_domain sched) s"
  obtain s2 e where e: "ensure_serialized_worker_count (desired_serialized_worker_count s1 (rs_domain sched)) s1 = (s2, e)"
    by fastforce
  have k: "ss_world s2 = ss_world s" "ss_conns s2 = ss_conns s"
    using scheduler_input(5,6) [of _ s1] e by (metis fst_conv s1_def scheduler_input(3,4))+
  obtain s3 gone where i: "insert_serialized sched job s2 = (s3, gone)" by fastforce
  have k3: "ss_world s3 = ss_world s" "ss_conns s3 = ss_conns s"
    using insert_serialized_input [of sched job s2] i k by simp_all
  have "input_kept s (account_serialized a b job s3)"
    using account_serialized_input [of s3 a b job] k3 by (simp add: input_kept_def)
  then show ?thesis
    unfolding admit_serialized_job_def Let_def s1_def [symmetric] e prod.case i
    using k by (simp add: input_kept_def record_serialized_busy_rejection_def)
qed

lemma enqueue_serialized_input: "input_kept s (fst (enqueue_serialized_job job a b s))"
proof (cases "route_scheduling (sj_handler job)")
  case (Inr sched)
  obtain s1 x gone where r: "admit_serialized_job sched job a b s = (s1, x, gone)" by (metis prod_cases3)
  have "input_kept s s1" using admit_serialized_input [of s sched job a b] r by simp
  then have "input_kept s (fold finish_superseded_job gone s1)"
    by (rule input_kept_trans) (rule fold_input_kept, rule input_kept_superseded)
  then have "input_kept s (fold drop_job gone (fold finish_superseded_job gone s1))"
    by (rule input_kept_trans) (rule fold_input_kept, rule input_kept_drop)
  then show ?thesis by (simp add: enqueue_serialized_job_def Inr r)
qed (simp add: enqueue_serialized_job_def input_kept_def)

lemma rearm_connection_input: "input_kept s (rearm_connection c fresh b off s)"
proof -
  have c: "w_recv (ss_world (fst (on_world (readiness_errno k fd e t) s))) = w_recv (ss_world s)" for k fd e t s
    by (simp add: on_world_def readiness_errno_def add_effect_def Let_def split: list.split)
  have f: "w_recv (ss_world (fst (rearm_failed fd g s))) = w_recv (ss_world s)" for fd g s
    using c by (simp add: rearm_failed_def split_beta split: option.split)
  show ?thesis
    by (simp add: rearm_connection_def Let_def split_beta input_kept_def f split: option.split bool.split)
qed

end
