(* ===== verification/Workers.thy ===== *)
theory Workers
  imports InputFrames
begin

text \<open>
  The workers of the fixed-request pool (\<^verbatim>\<open>src/system/reactor/workers.cpp\<close>). A worker answers
  a queued request and may then lease the connection to read and serve the next requests itself.
\<close>

subsection \<open>Serving one request\<close>

text \<open>
  \<^verbatim>\<open>serve_fixed_request\<close>, the path of a request read by a worker that leases the connection. The
  boolean tells whether the request is complete when the function returns.
\<close>

definition serve_serialized ::
  "nat \<Rightarrow> SerializedJob \<Rightarrow> ServerState \<Rightarrow> ServerState \<times> (exn + bool)" where
  "serve_serialized c job s =
     (case enqueue_serialized_job job False False s of
        (s, Inl _) \<Rightarrow> (drop_job job (conn_upd c (\<lambda>cn. cn\<lparr>cn_closing := True\<rparr>) s), Inr True)
      | (s, Inr SA_busy) \<Rightarrow>
          (case write_error_response c (rq_request_id (sj_request job))
                  (str ''serialization domain is busy'') deadline_max status_conflict s of
             (s, Inl e) \<Rightarrow> (drop_job job s, Inl e)
           | (s, Inr _) \<Rightarrow> (drop_job job s, Inr True))
      | (s, Inr SA_stopping) \<Rightarrow>
          (drop_job job (conn_upd c (\<lambda>cn. cn\<lparr>cn_closing := True\<rparr>) s), Inr True)
      | (s, Inr SA_accepted) \<Rightarrow> (s, Inr False))"

definition serve_fixed_request ::
  "nat \<Rightarrow> Request \<Rightarrow> Capabilities \<Rightarrow> time \<Rightarrow> time \<Rightarrow> ServerState \<Rightarrow> ServerState \<times> (exn + bool)" where
  "serve_fixed_request c request caps arrival_time deadline s =
     (case find_request_handler (ss_handler_registry s) (rq_route request) of
        None \<Rightarrow>
          let response = (case authorize_request request caps c arrival_time deadline s of
                            Some response \<Rightarrow> response
                          | None \<Rightarrow> \<lparr>rsp_status = 404, rsp_body = bounded_error_body
                                      (str ''Not Found'') (so_max_message_size (ss_options s))\<rparr>)
          in (drop_capabilities caps (or_closing c
                (write_fixed_response c (rq_request_id request) response deadline s)), Inr True)
      | Some handler \<Rightarrow>
          if he_serialized handler
          then serve_serialized c
                 \<lparr>sj_connection = Some c, sj_request = request, sj_capabilities = caps,
                  sj_arrival_time = arrival_time, sj_deadline = deadline, sj_handler = Some handler,
                  sj_maintenance = None,
                  sj_request_bytes = length (rq_route request) + length (rq_body request) +
                    cap_wire_resource_bytes caps\<rparr> s
          else (drop_capabilities caps (or_closing c
                  (write_fixed_response c (rq_request_id request)
                     (invoke_request_handler handler request caps c arrival_time deadline s) deadline s)),
                Inr True))"

subsection \<open>The continuation lease\<close>

text \<open>The checks before the lock and under the lock.\<close>

definition may_continue :: "nat \<Rightarrow> ServerState \<Rightarrow> bool" where
  "may_continue c s \<longleftrightarrow>
     \<not> (so_max_total_inflight_bytes (ss_options s) \<noteq> 0 \<or> \<not> ss_running s \<or>
        \<not> cn_session_capable (ss_conns s c) \<or> cn_closing (ss_conns s c) \<or>
        cn_active_regular (ss_conns s c) \<noteq> 0 \<or> cn_pending_serialized (ss_conns s c) \<noteq> 0)"

definition lease_refused :: "nat \<Rightarrow> nat \<Rightarrow> ServerState \<Rightarrow> bool" where
  "lease_refused c r s \<longleftrightarrow>
     (let rc = ss_rcs s r; cn = ss_conns s c
      in rc_conn rc \<noteq> c \<or> rc_reactor_busy rc \<or> rc_phase rc \<noteq> PP_header \<or> rc_read_paused rc \<or>
         rc_pending_offset rc \<noteq> length (rc_pending rc) \<or> cn_stream_active cn \<or> cn_worker_owned cn \<or>
         cn_closing cn \<or> cn_active_regular cn \<noteq> 0 \<or> cn_pending_serialized cn \<noteq> 0)"

definition try_acquire_continuation_lease :: "nat \<Rightarrow> ServerState \<Rightarrow> ServerState \<times> bool" where
  "try_acquire_continuation_lease c s =
     (if \<not> may_continue c s then (s, False)
      else case map_of (ss_connections s) (cn_fd (ss_conns s c)) of
             None \<Rightarrow> (s, False)
           | Some r \<Rightarrow>
               if lease_refused c r s then (s, False)
               else case on_world (readiness_errno Ctl_remove (cn_fd (ss_conns s c)) 0 0) s of
                      (s, e) \<Rightarrow>
                        if e \<noteq> None \<and> e \<noteq> Some ENOENT
                        then (conn_upd c (\<lambda>cn. cn\<lparr>cn_closing := True\<rparr>) s, False)
                        else (conn_upd c (\<lambda>cn. cn\<lparr>cn_worker_owned := True\<rparr>) s, True))"

definition complete_regular_request ::
  "nat \<Rightarrow> nat \<Rightarrow> bool \<Rightarrow> ServerState \<Rightarrow> ServerState \<times> bool" where
  "complete_regular_request c request_bytes release_accounting s =
     (let previous = cn_active_regular (ss_conns s c);
          s = conn_upd c (\<lambda>cn. cn\<lparr>cn_active_regular := sz_sub (cn_active_regular cn) 1\<rparr>) s;
          s = (if release_accounting then release_connection_request c request_bytes s else s)
      in if previous \<noteq> 1 then (s, False)
         else if cn_closing (ss_conns s c) then (wake_reactor s, False)
         else try_acquire_continuation_lease c s)"

subsection \<open>continue\_connection\<close>

text \<open>
  One round of the loop ends the function (\<open>CR_return\<close>), leaves the loop (\<open>CR_break\<close>) or starts the
  next round with what is then buffered. \<open>allocf\<close> and \<open>allocr\<close> are the allocators of cancellation
  flags and of parse states.
\<close>

datatype continue_result = CR_return | CR_break | CR_loop source

text \<open>The two \<^verbatim>\<open>catch\<close> clauses.\<close>

definition continue_failed ::
  "nat \<Rightarrow> nat \<Rightarrow> source \<Rightarrow> bool \<Rightarrow> exn \<Rightarrow> ServerState \<Rightarrow> ServerState \<times> continue_result" where
  "continue_failed c fresh src request_started e s =
     (let s = (if error_kind e = Some EC_timeout \<and> \<not> request_started then s
               else conn_upd c (\<lambda>cn. cn\<lparr>cn_closing := True\<rparr>) s)
      in (rearm_connection c fresh (fst src) (snd src) s, CR_return))"

text \<open>
  The part after the payload has been read. The buffer is given back to the reactor before the
  request is served, so the catch clause finds it empty.
\<close>

definition continue_serve ::
  "nat \<Rightarrow> (ServerState \<Rightarrow> nat) \<Rightarrow> (ServerState \<Rightarrow> nat) \<Rightarrow> nat \<Rightarrow> source \<Rightarrow> Request \<Rightarrow> byte \<Rightarrow> time \<Rightarrow>
     time \<Rightarrow> ServerState \<Rightarrow> ServerState \<times> continue_result" where
  "continue_serve shard allocf allocr c src request wire_version arrival_time deadline s =
     (case register_cancellation c (rq_request_id request) wire_version (allocf s) s of
        (s, cancelled) \<Rightarrow>
          let caps = no_capabilities\<lparr>cap_peer := cn_peer (ss_conns s c), cap_cancelled := cancelled\<rparr>;
              request_bytes = length (rq_route request) + length (rq_body request) +
                cap_wire_resource_bytes caps;
              s = record_fixed_request shard s;
              s = conn_upd c (\<lambda>cn. cn\<lparr>cn_active_regular := sz_add (cn_active_regular cn) 1\<rparr>) s;
              s = account_connection_request c request_bytes s;
              s = (if rq_request_id request \<noteq> 0
                   then conn_upd c (\<lambda>cn. cn\<lparr>cn_session_capable := True\<rparr>) s else s);
              s = rearm_connection c (allocr s) (fst src) (snd src) s
          in case serve_fixed_request c request caps arrival_time deadline s of
               (s, Inl e) \<Rightarrow> continue_failed c (allocr s) ([], snd src) True e s
             | (s, Inr completed_inline) \<Rightarrow>
                 (case complete_regular_request c request_bytes completed_inline s of
                    (s, False) \<Rightarrow> (s, CR_return)
                  | (s, True) \<Rightarrow> (s, CR_loop ([], 0))))"

text \<open>A read from the leased connection; an empty part of the payload is not read at all.\<close>

definition lease_read ::
  "nat \<Rightarrow> nat \<Rightarrow> time \<Rightarrow> source \<Rightarrow> ServerState \<Rightarrow> ServerState \<times> source \<times> (exn + bstring)" where
  "lease_read c n deadline src s =
     (case source_read (cn_fd (ss_conns s c)) n (so_io_timeout (ss_options s)) deadline src (ss_world s) of
        (src, w, r) \<Rightarrow> (s\<lparr>ss_world := w\<rparr>, src, r))"

definition lease_part ::
  "nat \<Rightarrow> nat \<Rightarrow> time \<Rightarrow> source \<Rightarrow> ServerState \<Rightarrow> ServerState \<times> source \<times> (exn + bstring)" where
  "lease_part c n deadline src s =
     (if n = 0 then (s, src, Inr []) else lease_read c n deadline src s)"

definition continue_request ::
  "nat \<Rightarrow> (ServerState \<Rightarrow> nat) \<Rightarrow> (ServerState \<Rightarrow> nat) \<Rightarrow> nat \<Rightarrow> source \<Rightarrow> DecodedHeader \<Rightarrow> time \<Rightarrow>
     time \<Rightarrow> ServerState \<Rightarrow> ServerState \<times> continue_result" where
  "continue_request shard allocf allocr c src h arrival_time deadline s =
     (case validate_request_lengths (unat (dh_arg1 h)) (unat (dh_arg2 h))
             (so_max_message_size (ss_options s)) of
        Inl e \<Rightarrow> continue_failed c (allocr s) src True e s
      | Inr _ \<Rightarrow>
          (case lease_part c (unat (dh_arg1 h)) deadline src s of
             (s, src, Inl e) \<Rightarrow> continue_failed c (allocr s) src True e s
           | (s, src, Inr route) \<Rightarrow>
               (case lease_part c (unat (dh_arg2 h)) deadline src s of
                  (s, src, Inl e) \<Rightarrow> continue_failed c (allocr s) src True e s
                | (s, src, Inr body) \<Rightarrow>
                    continue_serve shard allocf allocr c src
                      \<lparr>rq_route = route, rq_body = body, rq_request_id = dh_request_id h\<rparr>
                      (dh_version h) arrival_time deadline s)))"

definition continue_frame ::
  "nat \<Rightarrow> (ServerState \<Rightarrow> nat) \<Rightarrow> (ServerState \<Rightarrow> nat) \<Rightarrow> nat \<Rightarrow> source \<Rightarrow> bstring \<Rightarrow> DecodedHeader \<Rightarrow>
     time \<Rightarrow> time \<Rightarrow> ServerState \<Rightarrow> ServerState \<times> continue_result" where
  "continue_frame shard allocf allocr c src header h arrival_time deadline s =
     (let s = (if cn_wire_version (ss_conns s c) = 0
               then conn_upd c (\<lambda>cn. cn\<lparr>cn_wire_version := dh_version h\<rparr>) s else s)
      in if cn_wire_version (ss_conns s c) \<noteq> dh_version h
         then continue_failed c (allocr s) src True
                (Runtime_error ''protocol version changed on connection'') s
         else if dh_type h = WT_cancel_request
         then (cancel_request c (dh_request_id h) s, CR_loop src)
         else if dh_flags h AND carries_fd_flag \<noteq> 0
         then continue_failed c (allocr s) src True
                (Runtime_error ''fd flag is not supported on persistent-session requests'') s
         else if dh_flags h AND carries_windows_handle_flag \<noteq> 0
         then continue_failed c (allocr s) src True
                (Runtime_error ''Windows handle transfer is only supported on one-shot requests'') s
         else if dh_type h = WT_stream_request
         then (rearm_connection c (allocr s) (header @ drop (snd src) (fst src)) 0 s, CR_return)
         else if dh_type h \<noteq> WT_request
         then continue_failed c (allocr s) src True
                (Runtime_error ''unexpected frame on persistent connection'') s
         else continue_request shard allocf allocr c src h arrival_time deadline s)"

definition continue_round ::
  "nat \<Rightarrow> (ServerState \<Rightarrow> nat) \<Rightarrow> (ServerState \<Rightarrow> nat) \<Rightarrow> nat \<Rightarrow> source \<Rightarrow> ServerState \<Rightarrow>
     ServerState \<times> continue_result" where
  "continue_round shard allocf allocr c src s =
     (let grace = so_session_idle_grace (ss_options s) in
      if \<not> source_buffered src \<and> grace = 0 then (s, CR_break)
      else case (if source_buffered src then (s, Inr ())
                 else on_world (\<lambda>w. case deadline_after grace w of (w, d) \<Rightarrow>
                                  wait_for_io 0 d ''receive timed out'' w) s) of
             (s, Inl e) \<Rightarrow> continue_failed c (allocr s) src False e s
           | (s, Inr _) \<Rightarrow>
               (case clock_read s of (s, arrival_time) \<Rightarrow>
                  let deadline = deadline_from arrival_time (so_request_timeout (ss_options s))
                  in case lease_read c header_size deadline src s of
                       (s, src, Inl e) \<Rightarrow> continue_failed c (allocr s) src True e s
                     | (s, src, Inr header) \<Rightarrow>
                         (case decode_header header of
                            Inl e \<Rightarrow> continue_failed c (allocr s) src True e s
                          | Inr h \<Rightarrow>
                              continue_frame shard allocf allocr c src header h
                                arrival_time deadline s)))"

text \<open>The loop ends because every round that goes on has taken a header from the connection.\<close>

abbreviation lease_bytes :: "nat \<Rightarrow> source \<Rightarrow> ServerState \<Rightarrow> bstring" where
  "lease_bytes c src s \<equiv> source_bytes (cn_fd (ss_conns s c)) src (ss_world s)"

lemma input_kept_bytes: "input_kept s s' \<Longrightarrow> lease_bytes c src s' = lease_bytes c src s"
  by (simp add: input_kept_def source_bytes_def incoming_def)

lemma continue_failed_returns [simp]: "continue_failed c fresh src b e s \<noteq> (s', CR_loop src')"
  by (simp add: continue_failed_def Let_def)

lemma try_acquire_input: "input_kept s (fst (try_acquire_continuation_lease c s))"
proof -
  have "w_recv (ss_world (fst (on_world (readiness_errno k fd e t) s))) = w_recv (ss_world s) \<and>
      ss_conns (fst (on_world (readiness_errno k fd e t) s)) = ss_conns s" for k fd e t
    by (simp add: on_world_def readiness_errno_def add_effect_def Let_def split: list.split)
  then show ?thesis
    by (simp add: try_acquire_continuation_lease_def input_kept_def split_beta split: option.split)
qed

lemma complete_regular_input: "input_kept s (fst (complete_regular_request c n b s))"
proof -
  define s1 where "s1 = (if b then release_connection_request c n
      (conn_upd c (\<lambda>cn. cn\<lparr>cn_active_regular := sz_sub (cn_active_regular cn) 1\<rparr>) s)
    else conn_upd c (\<lambda>cn. cn\<lparr>cn_active_regular := sz_sub (cn_active_regular cn) 1\<rparr>) s)"
  have k: "input_kept s s1" by (simp add: s1_def input_kept_def)
  then have "input_kept s (wake_reactor s1)" by (simp add: input_kept_def)
  with k input_kept_trans [OF k try_acquire_input [of s1 c]] show ?thesis
    unfolding complete_regular_request_def Let_def s1_def [symmetric] by simp
qed

lemma serve_serialized_input: "input_kept s (fst (serve_serialized c job s))"
proof -
  obtain s1 x where e: "enqueue_serialized_job job False False s = (s1, x)" by fastforce
  have k: "input_kept s s1" using enqueue_serialized_input [of s job False False] e by simp
  obtain s2 y where w: "write_error_response c (rq_request_id (sj_request job))
      (str ''serialization domain is busy'') deadline_max status_conflict s1 = (s2, y)" by fastforce
  have k2: "input_kept s s2" using input_kept_trans [OF k input_kept_write(2)] w by (metis fst_conv)
  have "input_kept s (drop_job job (conn_upd c (\<lambda>cn. cn\<lparr>cn_closing := True\<rparr>) s1))"
    by (rule input_kept_trans [OF input_kept_trans [OF k input_kept_closing] input_kept_drop(2)])
  moreover have "input_kept s (drop_job job s2)" by (rule input_kept_trans [OF k2 input_kept_drop(2)])
  ultimately show ?thesis
    using k by (auto simp: serve_serialized_def e w split: sum.split SerializedAdmission.split)
qed

lemma serve_fixed_input: "input_kept s (fst (serve_fixed_request c q caps a d s))"
proof -
  have "input_kept s (drop_capabilities caps (or_closing c (write_fixed_response c i r d s)))" for i r
    by (rule input_kept_trans [OF input_kept_or_closing [OF input_kept_write(1)] input_kept_drop(1)])
  then show ?thesis
    using serve_serialized_input by (auto simp: serve_fixed_request_def Let_def split: option.split)
qed

lemma register_cancellation_input: "input_kept s (fst (register_cancellation c i v f s))"
  by (simp add: register_cancellation_def input_kept_def Let_def)

lemma continue_serve_loop:
  assumes "continue_serve shard allocf allocr c src q v a d s = (s', CR_loop src')"
  shows "src' = ([], 0)" "input_kept s s'"
proof -
  obtain s1 cancelled where e: "register_cancellation c (rq_request_id q) v (allocf s) s = (s1, cancelled)" by fastforce
  define caps where "caps = no_capabilities\<lparr>cap_peer := cn_peer (ss_conns s1 c), cap_cancelled := cancelled\<rparr>"
  define n where "n = length (rq_route q) + length (rq_body q) + cap_wire_resource_bytes caps"
  define s2 where "s2 = account_connection_request c n (conn_upd c (\<lambda>cn. cn
      \<lparr>cn_active_regular := sz_add (cn_active_regular cn) 1\<rparr>) (record_fixed_request shard s1))"
  define s3 where "s3 = (if rq_request_id q \<noteq> 0 then conn_upd c (\<lambda>cn. cn\<lparr>cn_session_capable := True\<rparr>) s2 else s2)"
  define s4 where "s4 = rearm_connection c (allocr s3) (fst src) (snd src) s3"
  obtain s5 x where x: "serve_fixed_request c q caps a d s4 = (s5, x)" by fastforce
  note u = assms [unfolded continue_serve_def Let_def e prod.case caps_def [symmetric] n_def [symmetric]
      s2_def [symmetric] s3_def [symmetric] s4_def [symmetric] x]
  obtain b where b: "x = Inr b"
    using u by (cases x) auto
  obtain s6 go where g: "complete_regular_request c n b s5 = (s6, go)" by fastforce
  have go: "go" "s' = s6" "src' = ([], 0)" using u b g by (auto split: bool.splits)
  have "input_kept s s1" using register_cancellation_input [of s c "rq_request_id q" v "allocf s"] e by simp
  moreover have "input_kept s1 s3" by (simp add: s3_def s2_def input_kept_def record_fixed_request_def)
  moreover have "input_kept s3 s4" unfolding s4_def by (rule rearm_connection_input)
  moreover have "input_kept s4 s5" using serve_fixed_input [of s4 c q caps a d] x by simp
  moreover have "input_kept s5 s6" using complete_regular_input [of s5 c n b] g by simp
  ultimately show "src' = ([], 0)" "input_kept s s'" using go by (auto simp: input_kept_def)
qed

lemma lease_bytes_empty: "length (lease_bytes c ([], 0) s) \<le> length (lease_bytes c src s)"
  by (simp add: source_bytes_def)

lemma lease_read_shorter:
  assumes "lease_read c n d src s = (s', src', Inr out)"
  shows "length (lease_bytes c src' s') + n = length (lease_bytes c src s)"
proof -
  obtain w where w: "source_read (cn_fd (ss_conns s c)) n (so_io_timeout (ss_options s)) d src (ss_world s) =
      (src', w, Inr out)" "s' = s\<lparr>ss_world := w\<rparr>"
    using assms by (auto simp: lease_read_def split: prod.splits)
  show ?thesis using source_read_exact(1,2) [OF w(1)] by (simp add: w(2))
qed

lemma lease_part_shorter:
  "lease_part c n d src s = (s', src', Inr out) \<Longrightarrow>
     length (lease_bytes c src' s') + n = length (lease_bytes c src s)"
  by (auto simp: lease_part_def split: if_splits dest: lease_read_shorter)

lemma continue_request_loop:
  assumes "continue_request shard allocf allocr c src h a d s = (s', CR_loop src')"
  shows "length (lease_bytes c src' s') \<le> length (lease_bytes c src s)"
proof -
  obtain s1 src1 x where r1: "lease_part c (unat (dh_arg1 h)) d src s = (s1, src1, x)" by (metis prod_cases3)
  obtain s2 src2 y where r2: "lease_part c (unat (dh_arg2 h)) d src1 s1 = (s2, src2, y)" by (metis prod_cases3)
  obtain route body where ok: "x = Inr route" "y = Inr body"
    "continue_serve shard allocf allocr c src2 \<lparr>rq_route = route, rq_body = body, rq_request_id = dh_request_id h\<rparr>
       (dh_version h) a d s2 = (s', CR_loop src')"
    using assms by (auto simp: continue_request_def r1 r2 split: sum.splits)
  note k = continue_serve_loop [OF ok(3)]
  have "length (lease_bytes c src' s') \<le> length (lease_bytes c src2 s2)"
    unfolding k(1) using lease_bytes_empty [of s2 c src2] input_kept_bytes [OF k(2), of c "([], 0)"] by simp
  then show ?thesis
    using lease_part_shorter [OF r1 [unfolded ok(1)]] lease_part_shorter [OF r2 [unfolded ok(2)]] by simp
qed

lemma cancel_request_input: "input_kept s (cancel_request c i s)"
  by (simp add: cancel_request_def input_kept_def split: option.split)

lemma continue_frame_loop:
  assumes "continue_frame shard allocf allocr c src header h a d s = (s', CR_loop src')"
  shows "length (lease_bytes c src' s') \<le> length (lease_bytes c src s)"
proof -
  define s1 where "s1 = (if cn_wire_version (ss_conns s c) = 0
     then conn_upd c (\<lambda>cn. cn\<lparr>cn_wire_version := dh_version h\<rparr>) s else s)"
  have k: "input_kept s s1" by (simp add: s1_def input_kept_def)
  note u = assms [unfolded continue_frame_def Let_def s1_def [symmetric]]
  have "cn_wire_version (ss_conns s1 c) = dh_version h"
    by (rule ccontr) (use u in \<open>simp only: if_True if_False continue_failed_returns not_False_eq_True\<close>)
  then have v: "\<not> cn_wire_version (ss_conns s1 c) \<noteq> dh_version h" by simp
  note u1 = u [unfolded if_not_P [OF v]]
  show ?thesis
  proof (cases "dh_type h = WT_cancel_request")
    case True
    then have "s' = cancel_request c (dh_request_id h) s1" "src' = src"
      using u1 [unfolded if_P [OF True]] by auto
    then have "input_kept s s'" using input_kept_trans [OF k cancel_request_input] by simp
    from input_kept_bytes [OF this, of c src] \<open>src' = src\<close> show ?thesis by simp
  next
    case False
    note u2 = u1 [unfolded if_not_P [OF False]]
    have f1: "\<not> dh_flags h AND carries_fd_flag \<noteq> 0"
      by (rule notI) (use u2 in \<open>simp only: not_False_eq_True if_True continue_failed_returns\<close>)
    note u3 = u2 [unfolded if_not_P [OF f1]]
    have f2: "\<not> dh_flags h AND carries_windows_handle_flag \<noteq> 0"
      by (rule notI) (use u3 in \<open>simp only: not_False_eq_True if_True continue_failed_returns\<close>)
    note u4 = u3 [unfolded if_not_P [OF f2]]
    have f3: "dh_type h \<noteq> WT_stream_request"
      by (rule notI) (use u4 in \<open>simp only: if_True prod.inject continue_result.distinct simp_thms\<close>)
    note u5 = u4 [unfolded if_not_P [OF f3]]
    have f4: "\<not> dh_type h \<noteq> WT_request"
      by (rule notI) (use u5 in \<open>simp only: not_False_eq_True if_True continue_failed_returns\<close>)
    from continue_request_loop [OF u5 [unfolded if_not_P [OF f4]]] input_kept_bytes [OF k, of c src]
    show ?thesis by simp
  qed
qed

lemma continue_round_shorter:
  assumes "continue_round shard allocf allocr c src s = (s', CR_loop src')"
  shows "length (lease_bytes c src' s') < length (lease_bytes c src s)"
proof -
  let ?wait = "\<lambda>w. case deadline_after (so_session_idle_grace (ss_options s)) w of (w, d) \<Rightarrow>
     wait_for_io 0 d ''receive timed out'' w"
  obtain s1 x where 1: "(if source_buffered src then (s, Inr ()) else on_world ?wait s) = (s1, x)" by fastforce
  obtain s2 a where 2: "clock_read s1 = (s2, a)" by fastforce
  obtain s3 src1 y where 3: "lease_read c header_size (deadline_from a (so_request_timeout (ss_options s2))) src s2 =
      (s3, src1, y)" by (metis prod_cases3)
  note u = assms [unfolded continue_round_def Let_def 1]
  have go: "\<not> (\<not> source_buffered src \<and> so_session_idle_grace (ss_options s) = 0)"
    using assms by (auto simp: continue_round_def)
  note u1 = u [unfolded if_not_P [OF go] prod.case]
  obtain v where x: "x = Inr v" using u1 by (cases x) (simp_all only: sum.case continue_failed_returns)
  note u2 = u1 [unfolded x sum.case 2 prod.case 3]
  obtain header where y: "y = Inr header" using u2 by (cases y) (simp_all only: sum.case continue_failed_returns)
  note u3 = u2 [unfolded y sum.case]
  obtain h where h: "decode_header header = Inr h"
    using u3 by (cases "decode_header header") (simp_all only: sum.case continue_failed_returns)
  have ok: "y = Inr header"
    "continue_frame shard allocf allocr c src1 header h a (deadline_from a (so_request_timeout (ss_options s2))) s3 =
      (s', CR_loop src')"
    using y u3 [unfolded h sum.case] by simp_all
  have "w_recv (ss_world s1) = w_recv (ss_world s)" "ss_conns s1 = ss_conns s"
    using 1 deadline_after_frame wait_for_io_frame
    by (auto simp: on_world_def split_beta split: if_splits)
  moreover have "w_recv (ss_world s2) = w_recv (ss_world s1)" "ss_conns s2 = ss_conns s1"
    using clock_read_world(3) [of s1] clock_read_frame [of s1] 2 by simp_all
  ultimately have k: "input_kept s s2" by (simp add: input_kept_def)
  show ?thesis
    using continue_frame_loop [OF ok(2)] lease_read_shorter [OF 3 [unfolded ok(1)]] input_kept_bytes [OF k, of c src]
    by (simp add: header_size_def)
qed

function continue_connection ::
  "nat \<Rightarrow> (ServerState \<Rightarrow> nat) \<Rightarrow> (ServerState \<Rightarrow> nat) \<Rightarrow> nat \<Rightarrow> source \<Rightarrow> ServerState \<Rightarrow> ServerState" where
  "continue_connection shard allocf allocr c src s =
     (if ss_running s \<and> \<not> cn_closing (ss_conns s c)
      then case continue_round shard allocf allocr c src s of
             (s, CR_return) \<Rightarrow> s
           | (s, CR_break) \<Rightarrow> rearm_connection c (allocr s) (fst src) (snd src) s
           | (s, CR_loop src) \<Rightarrow> continue_connection shard allocf allocr c src s
      else rearm_connection c (allocr s) (fst src) (snd src) s)"
  by pat_completeness auto
termination
  by (relation "measure (\<lambda>(shard, allocf, allocr, c, src, s). length (lease_bytes c src s))")
    (auto dest: continue_round_shorter [OF sym])

declare continue_connection.simps [simp del]

subsection \<open>worker\_loop\<close>

text \<open>The part of an iteration that answers a fixed request.\<close>

definition answer_job :: "PendingJob \<Rightarrow> ServerState \<Rightarrow> ServerState" where
  "answer_job job s =
     (let c = pj_connection job; request = pj_request job in
      case clock_read s of (s, now) \<Rightarrow>
        if now \<ge> pj_deadline job
        then or_closing c (write_error_response c (rq_request_id request)
               (str ''request timed out before execution'') deadline_max 408 (record_queue_timeout s))
        else if ss_running s
        then or_closing c (write_fixed_response c (rq_request_id request)
               (invoke_request_handler (the (pj_handler job)) request (pj_capabilities job) c
                  (pj_arrival_ticks job) (pj_deadline job) s) (pj_deadline job) s)
        else s)"

definition run_worker_job ::
  "nat \<Rightarrow> (ServerState \<Rightarrow> nat) \<Rightarrow> (ServerState \<Rightarrow> nat) \<Rightarrow> PendingJob \<Rightarrow> ServerState \<Rightarrow> ServerState" where
  "run_worker_job shard allocf allocr job s =
     (if pj_is_stream job then run_stream_exchange (allocr s) job s
      else case complete_regular_request (pj_connection job) (pj_request_bytes job) True (answer_job job s) of
             (s, False) \<Rightarrow> s
           | (s, True) \<Rightarrow>
               continue_connection shard allocf allocr (pj_connection job) (pj_buffered job, 0) s)"

text \<open>A whole iteration, when no other thread interferes; \<open>None\<close> when there is no job.\<close>

definition worker_iteration ::
  "nat \<Rightarrow> (ServerState \<Rightarrow> nat) \<Rightarrow> (ServerState \<Rightarrow> nat) \<Rightarrow> ServerState \<Rightarrow> ServerState option" where
  "worker_iteration shard allocf allocr s =
     (case ss_pending_jobs s of
        [] \<Rightarrow> None
      | job # jobs \<Rightarrow>
          Some (drop_capabilities (pj_capabilities job)
            (run_worker_job shard allocf allocr job (s\<lparr>ss_pending_jobs := jobs\<rparr>))))"

end
