(* ===== verification/EventLoop.thy ===== *)
theory EventLoop
  imports Workers
begin

text \<open>
  The reactor thread (\<^verbatim>\<open>src/system/reactor/event_loop.cpp\<close>): connections whose reading was resumed,
  deadlines, the accept loop, readiness events, and the loop around them.
\<close>

subsection \<open>The kernel's side (\<^verbatim>\<open>linux/endpoint.cpp\<close>, \<^verbatim>\<open>peer_identity.cpp\<close>, \<^verbatim>\<open>readiness.cpp\<close>)\<close>

text \<open>Without a client that waits, \<^verbatim>\<open>accept4\<close> on the non-blocking listener fails with \<^verbatim>\<open>EAGAIN\<close>.\<close>

definition accept_socket :: "World \<Rightarrow> World \<times> (errno + fd)" where
  "accept_socket w =
     (case w_accept w of [] \<Rightarrow> (w, Inl EAGAIN) | a # as \<Rightarrow> (w\<lparr>w_accept := as\<rparr>, a))"

definition capture :: "World \<Rightarrow> World \<times> Identity" where
  "capture w = (case w_peer w of [] \<Rightarrow> (w, no_identity) | i # is \<Rightarrow> (w\<lparr>w_peer := is\<rparr>, i))"

text \<open>\<open>None\<close>: the call blocks, and nothing more is known of it.\<close>

definition readiness_wait :: "int \<Rightarrow> World \<Rightarrow> World \<times> (errno + (u32 \<times> u64) list) option" where
  "readiness_wait timeout_ms w =
     (let w = add_effect (Eff_wait timeout_ms) w
      in case w_events w of
           [] \<Rightarrow> (w, None)
         | Inl e # as \<Rightarrow> (w\<lparr>w_events := as\<rparr>, Some (Inl e))
         | Inr evs # as \<Rightarrow>
             (w\<lparr>w_events := as\<rparr>,
              Some (Inr (map (\<lambda>(m, token). (from_native_mask m, token)) (take max_events evs)))))"

definition readiness_consume :: "fd \<Rightarrow> World \<Rightarrow> World" where
  "readiness_consume wake_fd w = (if wake_fd < 0 then w else add_effect (Eff_drain wake_fd) w)"

subsection \<open>Resumed connections\<close>

text \<open>\<^verbatim>\<open>consume\<close> under the \<^verbatim>\<open>catch\<close> clause both callers have, and the end of the reactor's turn.\<close>

definition consume_or_close ::
  "nat \<Rightarrow> (ServerState \<Rightarrow> nat) \<Rightarrow> nat \<Rightarrow> ServerState \<Rightarrow> ServerState" where
  "consume_or_close shard alloc r s =
     (case consume shard alloc r s of
        (s, Inl _) \<Rightarrow> conn_upd (rc_conn (ss_rcs s r)) (\<lambda>cn. cn\<lparr>cn_closing := True\<rparr>) s
      | (s, Inr _) \<Rightarrow> s)"

definition reactor_idle :: "fd \<Rightarrow> nat \<Rightarrow> ServerState \<Rightarrow> ServerState" where
  "reactor_idle fd r s =
     (if map_of (ss_connections s) fd = Some r
      then rc_upd r (\<lambda>rc. rc\<lparr>rc_reactor_busy := False\<rparr>) s else s)"

definition read_turn :: "nat \<Rightarrow> (ServerState \<Rightarrow> nat) \<Rightarrow> fd \<Rightarrow> nat \<Rightarrow> ServerState \<Rightarrow> ServerState" where
  "read_turn shard alloc fd r s =
     (let s = consume_or_close shard alloc r s
      in if cn_closing (ss_conns s (rc_conn (ss_rcs s r))) then close_connection fd s
         else reactor_idle fd r s)"

definition not_resumable :: "nat \<Rightarrow> ServerState \<Rightarrow> bool" where
  "not_resumable r s \<longleftrightarrow>
     (let rc = ss_rcs s r; cn = ss_conns s (rc_conn rc)
      in map_of (ss_connections s) (cn_fd cn) \<noteq> Some r \<or> rc_read_paused rc \<or> rc_reactor_busy rc \<or>
         cn_closing cn \<or> cn_stream_active cn \<or> cn_worker_owned cn)"

definition resume_one :: "nat \<Rightarrow> (ServerState \<Rightarrow> nat) \<Rightarrow> nat \<Rightarrow> ServerState \<Rightarrow> ServerState" where
  "resume_one shard alloc r s =
     (if not_resumable r s then s
      else read_turn shard alloc (cn_fd (ss_conns s (rc_conn (ss_rcs s r)))) r
             (rc_upd r (\<lambda>rc. rc\<lparr>rc_reactor_busy := True\<rparr>) s))"

primrec process_resumed :: "nat \<Rightarrow> nat \<Rightarrow> (ServerState \<Rightarrow> nat) \<Rightarrow> ServerState \<Rightarrow> ServerState" where
  "process_resumed 0 shard alloc s = s"
| "process_resumed (Suc n) shard alloc s =
     (case ss_resumed_connections s of
        [] \<Rightarrow> s
      | r # rs \<Rightarrow>
          process_resumed n shard alloc (resume_one shard alloc r (s\<lparr>ss_resumed_connections := rs\<rparr>)))"

definition process_resumed_connections ::
  "nat \<Rightarrow> (ServerState \<Rightarrow> nat) \<Rightarrow> ServerState \<Rightarrow> ServerState" where
  "process_resumed_connections = process_resumed 64"

subsection \<open>Deadlines\<close>

definition reactor_deadline :: "nat \<Rightarrow> ServerState \<Rightarrow> time" where
  "reactor_deadline r s =
     (let rc = ss_rcs s r; c = rc_conn rc; cn = ss_conns s c;
          d = earlier_deadline (rc_deadline rc) (connection_output_deadline c s);
          partial_request = (rc_phase rc \<noteq> PP_header \<or> rc_pending_offset rc \<noteq> length (rc_pending rc));
          response_pending = (cn_active_regular cn \<noteq> 0 \<or> cn_pending_serialized cn \<noteq> 0)
      in if partial_request \<or> \<not> response_pending
         then earlier_deadline d (connection_inactivity_deadline cn (so_io_timeout (ss_options s)))
         else d)"

definition leased :: "nat \<Rightarrow> ServerState \<Rightarrow> bool" where
  "leased r s \<longleftrightarrow> cn_stream_active (ss_conns s (rc_conn (ss_rcs s r))) \<or>
     cn_worker_owned (ss_conns s (rc_conn (ss_rcs s r)))"

definition expire_step ::
  "ServerState \<Rightarrow> time \<Rightarrow> fd \<times> nat \<Rightarrow> fd list \<times> time \<Rightarrow> fd list \<times> time" where
  "expire_step s now =
     (\<lambda>(fd, r) (expired, next_deadline).
        if leased r s then (expired, next_deadline)
        else if cn_closing (ss_conns s (rc_conn (ss_rcs s r))) then (expired @ [fd], next_deadline)
        else let d = reactor_deadline r s
             in if d \<noteq> deadline_max \<and> now \<ge> d then (expired @ [fd], next_deadline)
                else (expired, earlier_deadline next_deadline d))"

definition expire_scan :: "time \<Rightarrow> ServerState \<Rightarrow> fd list \<times> time" where
  "expire_scan now s = fold (expire_step s now) (ss_connections s) ([], deadline_max)"

definition expire_reactor_connections :: "ServerState \<Rightarrow> ServerState \<times> time" where
  "expire_reactor_connections s =
     (case clock_read s of (s, now) \<Rightarrow>
        case expire_scan now s of (expired, next_deadline) \<Rightarrow>
          (fold close_connection expired s, next_deadline))"

subsection \<open>Accepting\<close>

text \<open>
  \<open>allocc\<close> and \<open>allocr\<close> are the allocators of connections and parse states. A connection whose
  registration fails is destroyed at once, and its destructor closes the descriptor.
\<close>

definition accept_client ::
  "(ServerState \<Rightarrow> nat) \<Rightarrow> (ServerState \<Rightarrow> nat) \<Rightarrow> fd \<Rightarrow> ServerState \<Rightarrow> ServerState" where
  "accept_client allocc allocr client_fd s =
     (if length (ss_connections s) \<ge> so_max_connections (ss_options s)
      then world_upd (socket_close client_fd) (record_rejected_connection s)
      else case on_world capture s of (s, identity) \<Rightarrow>
           case clock_read s of (s, now) \<Rightarrow>
             let c = allocc s; r = allocr s;
                 s = conn_upd c (\<lambda>_. new_connection client_fd identity now) s
             in case allocate_connection_generation s of (s, generation) \<Rightarrow>
                  let s = rc_upd r (\<lambda>_. (new_reactor_connection c)
                            \<lparr>rc_generation := generation, rc_registered_events := readable\<rparr>) s;
                      s = s\<lparr>ss_connections := AList.update client_fd r (ss_connections s)\<rparr>
                  in case on_world (readiness_control Ctl_add client_fd readable
                                      (connection_token client_fd generation)) s of
                       (s, False) \<Rightarrow> world_upd (socket_close client_fd)
                          (s\<lparr>ss_connections := AList.delete client_fd (ss_connections s)\<rparr>)
                     | (s, True) \<Rightarrow> record_accepted_connection s)"

function accept_batch ::
  "(ServerState \<Rightarrow> nat) \<Rightarrow> (ServerState \<Rightarrow> nat) \<Rightarrow> nat \<Rightarrow> ServerState \<Rightarrow> ServerState \<times> (exn + unit)" where
  "accept_batch allocc allocr n_accepted s =
     (if n_accepted < max_accept_batch
      then case on_world accept_socket s of
             (s, Inl e) \<Rightarrow>
               if e = EINTR \<or> e = ECONNABORTED then accept_batch allocc allocr n_accepted s
               else if e = EAGAIN then (s, Inr ())
               else (s, throw_system_error ''accept failed'' e)
           | (s, Inr client_fd) \<Rightarrow>
               accept_batch allocc allocr (n_accepted + 1) (accept_client allocc allocr client_fd s)
      else (s, Inr ()))"
  by pat_completeness auto
termination
  by (relation "measures [\<lambda>(allocc, allocr, n_accepted, s). max_accept_batch - n_accepted,
        \<lambda>(allocc, allocr, n_accepted, s). length (w_accept (ss_world s))]")
    (auto simp: on_world_def accept_socket_def split: list.splits)

declare accept_batch.simps [simp del]

subsection \<open>Events\<close>

text \<open>The rest of a connection's event, once the reactor has claimed the connection.\<close>

definition claimed_event ::
  "nat \<Rightarrow> (ServerState \<Rightarrow> nat) \<Rightarrow> u32 \<Rightarrow> fd \<Rightarrow> nat \<Rightarrow> bool \<Rightarrow> ServerState \<Rightarrow> ServerState" where
  "claimed_event shard alloc m fd r read_allowed s =
     (if m AND (ev_error OR hangup OR peer_hangup) \<noteq> 0 then close_connection fd s
      else case (if m AND writable \<noteq> 0 then flush_connection_output r s
                 else (s, True)) of
             (s, False) \<Rightarrow> close_connection fd s
           | (s, True) \<Rightarrow>
               if m AND readable \<noteq> 0 \<and> read_allowed then read_turn shard alloc fd r s
               else reactor_idle fd r s)"

definition connection_event ::
  "nat \<Rightarrow> (ServerState \<Rightarrow> nat) \<Rightarrow> u32 \<Rightarrow> fd \<Rightarrow> u32 \<Rightarrow> ServerState \<Rightarrow> ServerState" where
  "connection_event shard alloc m fd generation s =
     (case map_of (ss_connections s) fd of
        None \<Rightarrow> s
      | Some r \<Rightarrow>
          if rc_generation (ss_rcs s r) \<noteq> generation then s
          else if cn_closing (ss_conns s (rc_conn (ss_rcs s r))) then close_connection fd s
          else if leased r s then s
          else claimed_event shard alloc m fd r (\<not> rc_read_paused (ss_rcs s r))
                 (rc_upd r (\<lambda>rc. rc\<lparr>rc_reactor_busy := True\<rparr>) s))"

datatype event_result = EV_next | EV_stop | EV_throw exn

text \<open>The casts that take the descriptor and the generation out of a token.\<close>

definition event_fd :: "u64 \<Rightarrow> fd" where
  "event_fd token = sint (ucast token :: u32)"

definition event_generation :: "u64 \<Rightarrow> u32" where
  "event_generation token = ucast (drop_bit 32 token)"

definition reactor_event ::
  "nat \<Rightarrow> (ServerState \<Rightarrow> nat) \<Rightarrow> (ServerState \<Rightarrow> nat) \<Rightarrow> (ServerState \<Rightarrow> nat) \<Rightarrow> u32 \<times> u64 \<Rightarrow>
     ServerState \<Rightarrow> ServerState \<times> event_result" where
  "reactor_event shard alloc allocc allocr =
     (\<lambda>(m, token) s.
        if token = listener_token
        then if m AND (ev_error OR hangup) \<noteq> 0
             then (s, EV_throw (Runtime_error ''listening socket failed''))
             else case accept_batch allocc allocr 0 s of
                    (s, Inl e) \<Rightarrow> (s, EV_throw e)
                  | (s, Inr _) \<Rightarrow> (s, EV_next)
        else if token = wake_token
        then (world_upd (readiness_consume (ss_wakeup_fd s)) (s\<lparr>ss_wake_pending := False\<rparr>), EV_stop)
        else (connection_event shard alloc m (event_fd token) (event_generation token) s, EV_next))"

datatype reactor_result = RX_continue | RX_break | RX_throw exn | RX_blocked

fun process_events ::
  "nat \<Rightarrow> (ServerState \<Rightarrow> nat) \<Rightarrow> (ServerState \<Rightarrow> nat) \<Rightarrow> (ServerState \<Rightarrow> nat) \<Rightarrow> (u32 \<times> u64) list \<Rightarrow>
     ServerState \<Rightarrow> ServerState \<times> reactor_result" where
  "process_events shard alloc allocc allocr [] s = (s, RX_continue)"
| "process_events shard alloc allocc allocr (event # events) s =
     (case reactor_event shard alloc allocc allocr event s of
        (s, EV_next) \<Rightarrow> process_events shard alloc allocc allocr events s
      | (s, EV_stop) \<Rightarrow> (s, RX_continue)
      | (s, EV_throw e) \<Rightarrow> (s, RX_throw e))"

subsection \<open>run\_reactor\<close>

definition reactor_iteration ::
  "nat \<Rightarrow> (ServerState \<Rightarrow> nat) \<Rightarrow> (ServerState \<Rightarrow> nat) \<Rightarrow> (ServerState \<Rightarrow> nat) \<Rightarrow>
     ServerState \<Rightarrow> ServerState \<times> reactor_result" where
  "reactor_iteration shard alloc allocc allocr s =
     (let s = process_resumed_connections shard alloc s
      in case expire_reactor_connections s of (s, next_deadline) \<Rightarrow>
         case on_world (poll_timeout_clock next_deadline) s of (s, timeout_ms) \<Rightarrow>
           (case on_world (readiness_wait timeout_ms) s of
              (s, None) \<Rightarrow> (s, RX_blocked)
            | (s, Some (Inl e)) \<Rightarrow>
                if e = EINTR then (s, RX_continue)
                else if \<not> ss_running s then (s, RX_break)
                else (s, RX_throw (Error (classify_system_error (Some e)) ''readiness wait failed'' (Some e)))
            | (s, Some (Inr events)) \<Rightarrow> process_events shard alloc allocc allocr events s))"

text \<open>
  The reactor runs until the server stops. \<open>others\<close> is what the other threads do before each of
  its rounds; after the last of them the reactor still runs or is blocked (\<open>None\<close>).
\<close>

primrec run_reactor ::
  "(ServerState \<Rightarrow> ServerState) list \<Rightarrow> nat \<Rightarrow> (ServerState \<Rightarrow> nat) \<Rightarrow> (ServerState \<Rightarrow> nat) \<Rightarrow>
     (ServerState \<Rightarrow> nat) \<Rightarrow> ServerState \<Rightarrow> ServerState \<times> (exn + unit) option" where
  "run_reactor [] shard alloc allocc allocr s = (s, None)"
| "run_reactor (other # others) shard alloc allocc allocr s =
     (let s = other s in
      if \<not> ss_running s then (s, Some (Inr ()))
      else case reactor_iteration shard alloc allocc allocr s of
             (s, RX_continue) \<Rightarrow> run_reactor others shard alloc allocc allocr s
           | (s, RX_break) \<Rightarrow> (s, Some (Inr ()))
           | (s, RX_throw e) \<Rightarrow> (s, Some (Inl e))
           | (s, RX_blocked) \<Rightarrow> (s, None))"

end
