(* ===== verification/ServerPath.thy ===== *)
theory ServerPath
  imports EventLoop
begin

text \<open>
  The socket path of a server (\<^verbatim>\<open>src/system/platform/linux/server_path.cpp\<close> and the first part of
  \<^verbatim>\<open>src/system/runtime/server.cpp\<close>): the instance lock and the removal of a stale socket.
\<close>

subsection \<open>Paths (\<^verbatim>\<open>linux/server_path.cpp\<close>)\<close>

text \<open>A path in a message.\<close>

definition text_of :: "bstring \<Rightarrow> string" where
  "text_of p = map (\<lambda>b. char_of (unat b)) p"

text \<open>\<open>Inl e\<close> is a lookup that found no entry, with its \<^verbatim>\<open>errno\<close>.\<close>

definition inspect :: "bstring \<Rightarrow> World \<Rightarrow> World \<times> (errno + PathIdentity)" where
  "inspect path w =
     (case w_lstat w of
        [] \<Rightarrow> (add_effect (Eff_lstat path (Inl ENOENT)) w, Inl ENOENT)
      | a # as \<Rightarrow> (add_effect (Eff_lstat path a) (w\<lparr>w_lstat := as\<rparr>), a))"

definition same_identity :: "PathIdentity \<Rightarrow> PathIdentity \<Rightarrow> bool" where
  "same_identity l r \<longleftrightarrow> pi_device l = pi_device r \<and> pi_inode l = pi_inode r"

definition is_owned_socket :: "PathIdentity \<Rightarrow> nat \<Rightarrow> bool" where
  "is_owned_socket i user \<longleftrightarrow> pi_kind i = EK_socket \<and> pi_owner i = user"

definition is_owned_regular_single_link :: "PathIdentity \<Rightarrow> nat \<Rightarrow> bool" where
  "is_owned_regular_single_link i user \<longleftrightarrow>
     pi_kind i = EK_regular \<and> pi_owner i = user \<and> pi_links i = 1"

definition unlink_socket_path :: "bstring \<Rightarrow> World \<Rightarrow> World \<times> errno option" where
  "unlink_socket_path path w =
     (let w = add_effect (Eff_unlink path) w
      in case w_unlink w of [] \<Rightarrow> (w, None) | a # as \<Rightarrow> (w\<lparr>w_unlink := as\<rparr>, a))"

definition chmod_socket_path :: "bstring \<Rightarrow> nat \<Rightarrow> World \<Rightarrow> World \<times> errno option" where
  "chmod_socket_path path permissions w =
     (let w = add_effect (Eff_chmod path permissions) w
      in case w_chmod w of [] \<Rightarrow> (w, None) | a # as \<Rightarrow> (w\<lparr>w_chmod := as\<rparr>, a))"

definition lock_path :: "bstring \<Rightarrow> bstring" where
  "lock_path socket_path = socket_path @ str ''.lock''"

subsection \<open>The instance lock\<close>

datatype LockStatus = LS_acquired | LS_busy | LS_invalid_entry | LS_error
datatype LockFailure = LF_none | LF_open | LF_close_on_exec | LF_stat | LF_flock | LF_chmod

record LockResult =
  lr_status :: LockStatus
  lr_failure :: LockFailure
  lr_setup_failure :: SetupFailure
  lr_fd :: fd
  lr_native_error :: "errno option"

definition lock_failed :: "LockStatus \<Rightarrow> LockFailure \<Rightarrow> SetupFailure \<Rightarrow> errno option \<Rightarrow> LockResult" where
  "lock_failed st f sf e =
     \<lparr>lr_status = st, lr_failure = f, lr_setup_failure = sf, lr_fd = invalid_socket, lr_native_error = e\<rparr>"

text \<open>The kernel's answers to the calls on the lock file.\<close>

definition kernel_open :: "World \<Rightarrow> World \<times> (errno + fd)" where
  "kernel_open w = (case w_open w of [] \<Rightarrow> (w, Inl ENOENT) | a # as \<Rightarrow> (w\<lparr>w_open := as\<rparr>, a))"

definition kernel_fstat :: "World \<Rightarrow> World \<times> (errno + PathIdentity)" where
  "kernel_fstat w = (case w_fstat w of [] \<Rightarrow> (w, Inl EIO) | a # as \<Rightarrow> (w\<lparr>w_fstat := as\<rparr>, a))"

definition kernel_flock :: "World \<Rightarrow> World \<times> errno option" where
  "kernel_flock w = (case w_flock w of [] \<Rightarrow> (w, None) | a # as \<Rightarrow> (w\<lparr>w_flock := as\<rparr>, a))"

definition kernel_fchmod :: "World \<Rightarrow> World \<times> errno option" where
  "kernel_fchmod w = (case w_fchmod w of [] \<Rightarrow> (w, None) | a # as \<Rightarrow> (w\<lparr>w_fchmod := as\<rparr>, a))"

text \<open>Every early return destroys the owner of the descriptor, which closes it.\<close>

definition acquire_lock :: "World \<Rightarrow> World \<times> LockResult" where
  "acquire_lock w =
     (case kernel_open w of
        (w, Inl e) \<Rightarrow> (w, lock_failed LS_error LF_open SF_none (Some e))
      | (w, Inr fd) \<Rightarrow>
          (case lifecycle_set_close_on_exec w of
             (w, Some e, sf) \<Rightarrow> (socket_close fd w, lock_failed LS_error LF_close_on_exec sf (Some e))
           | (w, None, _) \<Rightarrow>
               (case kernel_fstat w of
                  (w, Inl e) \<Rightarrow> (socket_close fd w, lock_failed LS_error LF_stat SF_none (Some e))
                | (w, Inr i) \<Rightarrow>
                    if \<not> is_owned_regular_single_link i (w_euid w)
                    then (socket_close fd w, lock_failed LS_invalid_entry LF_stat SF_none None)
                    else case kernel_flock w of
                           (w, Some e) \<Rightarrow>
                             (socket_close fd w,
                              lock_failed (if e = EAGAIN then LS_busy else LS_error) LF_flock SF_none (Some e))
                         | (w, None) \<Rightarrow>
                             (case kernel_fchmod w of
                                (w, Some e) \<Rightarrow> (socket_close fd w, lock_failed LS_error LF_chmod SF_none (Some e))
                              | (w, None) \<Rightarrow>
                                  (w, \<lparr>lr_status = LS_acquired, lr_failure = LF_none, lr_setup_failure = SF_none,
                                       lr_fd = fd, lr_native_error = None\<rparr>)))))"

definition acquire_instance_lock :: "bstring \<Rightarrow> World \<Rightarrow> World \<times> (exn + fd)" where
  "acquire_instance_lock socket_path w =
     (case acquire_lock w of (w, result) \<Rightarrow>
        (w,
         if lr_status result = LS_busy
         then throw_system_error ''socket path is already owned by another easy-uds server'' EADDRINUSE
         else if lr_status result = LS_invalid_entry
         then Inl (Runtime_error (''server lock path must be a singly-linked regular file owned by the current user: ''
                @ text_of (lock_path socket_path)))
         else if lr_status result \<noteq> LS_acquired
         then throw_system_error
                (case lr_failure result of
                   LF_open \<Rightarrow> ''open server lock file failed''
                 | LF_close_on_exec \<Rightarrow>
                     if lr_setup_failure result = SF_close_on_exec_getfd then ''fcntl(F_GETFD) failed''
                     else ''fcntl(F_SETFD) failed''
                 | LF_stat \<Rightarrow> ''fstat server lock file failed''
                 | LF_flock \<Rightarrow> ''flock server lock file failed''
                 | LF_chmod \<Rightarrow> ''chmod server lock file failed''
                 | LF_none \<Rightarrow> ''server lock setup failed'')
                (the (lr_native_error result))
         else Inr (lr_fd result)))"

subsection \<open>Stale sockets\<close>

definition verify_owned_socket_candidate :: "PathIdentity \<Rightarrow> bstring \<Rightarrow> World \<Rightarrow> exn + unit" where
  "verify_owned_socket_candidate info socket_path w =
     (if pi_kind info \<noteq> EK_socket
      then Inl (Runtime_error (''socket path exists and is not a Unix-domain socket: '' @ text_of socket_path))
      else if pi_owner info \<noteq> w_euid w
      then Inl (Runtime_error (''refusing to remove a Unix-domain socket owned by another user: '' @ text_of socket_path))
      else Inr ())"

text \<open>
  A lookup of the path with the checks each of the three lookups makes; \<open>None\<close> when there is no
  entry any more.
\<close>

definition inspect_candidate :: "bstring \<Rightarrow> World \<Rightarrow> World \<times> (exn + PathIdentity option)" where
  "inspect_candidate socket_path w =
     (case inspect socket_path w of
        (w, Inl e) \<Rightarrow> (w, if e = ENOENT then Inr None else throw_system_error ''lstat socket path failed'' e)
      | (w, Inr i) \<Rightarrow>
          (w, case verify_owned_socket_candidate i socket_path w of Inl x \<Rightarrow> Inl x | Inr _ \<Rightarrow> Inr (Some i)))"

datatype stale_result = SR_return | SR_break | SR_again

text \<open>The connection attempt: \<open>SR_again\<close> when it was refused, which leaves the socket open.\<close>

definition probe_result :: "bstring \<Rightarrow> exn + unit \<Rightarrow> exn + stale_result" where
  "probe_result socket_path r =
     (case r of
        Inr _ \<Rightarrow> Inl (Error EC_busy (''socket path is already in use: '' @ text_of socket_path) (Some EADDRINUSE))
      | Inl (Error k m c) \<Rightarrow>
          if c = Some ENOENT then Inr SR_return
          else if c \<noteq> Some ECONNREFUSED then Inl (Error k m c)
          else Inr SR_again
      | Inl e \<Rightarrow> Inl e)"

definition recheck_stale ::
  "bstring \<Rightarrow> PathIdentity \<Rightarrow> msec \<Rightarrow> time \<Rightarrow> World \<Rightarrow> World \<times> (exn + stale_result)" where
  "recheck_stale socket_path before_identity grace_period grace_deadline w =
     (case inspect_candidate socket_path w of
        (w, Inl e) \<Rightarrow> (w, Inl e)
      | (w, Inr None) \<Rightarrow> (w, Inr SR_return)
      | (w, Inr (Some current)) \<Rightarrow>
          if \<not> same_identity before_identity current
          then (w, Inl (Runtime_error (''socket path changed while checking whether it is stale: '' @ text_of socket_path)))
          else if grace_period = 0 then (w, Inr SR_break)
          else case clock_now w of (w, now) \<Rightarrow>
                 (w, Inr (if now \<ge> grace_deadline then SR_break else SR_again)))"

definition stale_round ::
  "bstring \<Rightarrow> PathIdentity \<Rightarrow> msec \<Rightarrow> time \<Rightarrow> World \<Rightarrow> World \<times> (exn + stale_result)" where
  "stale_round socket_path before_identity grace_period grace_deadline w =
     (case make_socket w of
        (w, Inl e) \<Rightarrow> (w, Inl e)
      | (w, Inr probe) \<Rightarrow>
          (case make_endpoint socket_path of
             Inl e \<Rightarrow> (socket_close probe w, Inl e)
           | Inr _ \<Rightarrow>
               (case connect_nonblocking 100 deadline_max w of (w, r) \<Rightarrow>
                  case probe_result socket_path r of
                    Inl e \<Rightarrow> (socket_close probe w, Inl e)
                  | Inr SR_again \<Rightarrow>
                      (case recheck_stale socket_path before_identity grace_period grace_deadline w of
                         (w, r) \<Rightarrow> (socket_close probe w, r))
                  | Inr r \<Rightarrow> (socket_close probe w, Inr r))))"

text \<open>The loop ends because every round that goes on has opened a socket.\<close>

definition unmoved :: "World \<Rightarrow> World \<Rightarrow> bool" where
  "unmoved w w' \<longleftrightarrow> w_socket w' = w_socket w \<and> w_effects w' = w_effects w \<and> w_euid w' = w_euid w"

lemma unmoved_refl [simp]: "unmoved w w"
  by (simp add: unmoved_def)

lemma unmoved_trans: "unmoved w w' \<Longrightarrow> unmoved w' w'' \<Longrightarrow> unmoved w w''"
  by (simp add: unmoved_def)

lemma unmoved_clock: "unmoved w (fst (clock_now w))"
  by (simp add: unmoved_def clock_now_def split: list.split)

lemma unmoved_deadline: "unmoved w (fst (deadline_after t w))" "unmoved w (fst (poll_timeout_clock d w))"
  using unmoved_clock by (simp_all add: deadline_after_def poll_timeout_clock_def split_beta)

lemma unmoved_wait_once: "unmoved w (fst (wait_once w))"
  by (auto simp: unmoved_def wait_once_def kernel_poll_def split: list.splits PollAnswer.splits)

lemma unmoved_wait_loop: "unmoved w (fst (wait_loop d op w))"
proof (induction d op w rule: wait_loop.induct)
  case (1 d op w)
  obtain w1 t where a: "poll_timeout_clock d w = (w1, t)" by fastforce
  obtain w2 s e where b: "wait_once w1 = (w2, s, e)" by (metis prod_cases3)
  have f: "unmoved w w1" using unmoved_deadline(2) [of w d] a by simp
  have g: "unmoved w w2" using unmoved_trans [OF f unmoved_wait_once] b by (metis fst_conv)
  show ?case
    using 1 a b f g unmoved_trans [OF g] by (subst wait_loop.simps) (cases s; simp)
qed

lemma unmoved_wait: "unmoved w (fst (wait_for_io i d op w))"
  using unmoved_wait_loop unmoved_trans [OF unmoved_deadline(1) unmoved_wait_loop]
  by (simp add: wait_for_io_def split_beta)

lemma unmoved_connect: "unmoved w (fst (connect_nonblocking t d w))"
proof -
  obtain w1 e where 1: "connect_socket w = (w1, e)" by fastforce
  have k1: "unmoved w w1" using 1 by (auto simp: connect_socket_def unmoved_def split: list.splits)
  define dd where "dd = (if t > 0 then case deadline_after t w1 of (w, x) \<Rightarrow> (w, earlier_deadline d x) else (w1, d))"
  obtain w2 dl where 2: "dd = (w2, dl)" by fastforce
  have "unmoved w (fst dd)"
    using k1 unmoved_trans [OF k1 unmoved_deadline(1)] by (simp add: dd_def split_beta)
  then have k2: "unmoved w w2" using 2 by simp
  obtain w3 x where 3: "wait_for_io 0 dl ''connect timed out'' w2 = (w3, x)" by fastforce
  have k3: "unmoved w w3" using unmoved_trans [OF k2 unmoved_wait] 3 by (metis fst_conv)
  have k4: "unmoved w (fst (query_socket_error w3))"
    using k3 by (auto simp: query_socket_error_def unmoved_def split: list.split)
  show ?thesis
    unfolding connect_nonblocking_def 1 prod.case dd_def [symmetric] 2 Let_def 3
    using k1 k3 k4 by (simp add: split_beta split: option.split sum.split)
qed

lemma unmoved_nonblocking: "unmoved w (fst (set_nonblocking w))"
proof -
  have f: "unmoved w (fst (kernel_fcntl w))" for w
    by (simp add: unmoved_def kernel_fcntl_def split: list.split)
  have "unmoved w (fst (lifecycle_set_nonblocking w))"
    using f [of w] unmoved_trans [OF f f, of w]
    by (simp add: lifecycle_set_nonblocking_def split_beta split: sum.split)
  then show ?thesis by (simp add: set_nonblocking_def split_beta split: option.split)
qed

lemma make_socket_shorter:
  assumes "make_socket w = (w', Inr fd)" shows "length (w_socket w') < length (w_socket w)"
proof -
  obtain w1 x where 1: "create_stream_socket w = (w1, x)" by fastforce
  obtain w2 y where 2: "set_nonblocking w1 = (w2, y)" by fastforce
  have "x = Inr fd" "w' = w2"
    using assms 2 by (auto simp: make_socket_def 1 throw_system_error_def split: sum.splits)
  moreover have "w_socket w2 = w_socket w1" using unmoved_nonblocking [of w1] 2 by (simp add: unmoved_def)
  ultimately show ?thesis using 1 by (auto simp: create_stream_socket_def split: list.splits)
qed

lemma inspect_socket [simp]:
  "w_socket (fst (inspect p w)) = w_socket w" "w_euid (fst (inspect p w)) = w_euid w"
  by (simp_all add: inspect_def add_effect_def split: list.split)

lemma inspect_candidate_world [simp]: "fst (inspect_candidate p w) = fst (inspect p w)"
  by (simp add: inspect_candidate_def split_beta split: sum.split)

lemma recheck_stale_socket: "w_socket (fst (recheck_stale p i g d w)) = w_socket w"
proof -
  obtain w1 x where 1: "inspect_candidate p w = (w1, x)" by fastforce
  have "w_socket w1 = w_socket w" using inspect_candidate_world [of p w] 1 by simp
  then show ?thesis
    unfolding recheck_stale_def 1 prod.case using unmoved_clock [of w1]
    by (simp add: unmoved_def split_beta split: sum.split option.split)
qed

lemma stale_round_shorter:
  assumes "stale_round p i g d w = (w', Inr SR_again)"
  shows "length (w_socket w') < length (w_socket w)"
proof -
  obtain w1 x where 1: "make_socket w = (w1, x)" by fastforce
  obtain w2 r where 2: "connect_nonblocking 100 deadline_max w1 = (w2, r)" by fastforce
  obtain w3 y where 3: "recheck_stale p i g d w2 = (w3, y)" by fastforce
  note u = assms [unfolded stale_round_def 1 prod.case 2 3]
  obtain fd where x: "x = Inr fd" using u by (cases x) simp_all
  have w': "w' = socket_close fd w3"
    using u x by (auto split: sum.splits stale_result.splits)
  have "w_socket w3 = w_socket w1"
    using recheck_stale_socket [of p i g d w2] 3 unmoved_connect [of w1 100 deadline_max] 2 by (simp add: unmoved_def)
  then show ?thesis
    using make_socket_shorter [OF 1 [unfolded x]] by (simp add: w' socket_close_def add_effect_def)
qed

function stale_loop ::
  "bstring \<Rightarrow> PathIdentity \<Rightarrow> msec \<Rightarrow> time \<Rightarrow> World \<Rightarrow> World \<times> (exn + stale_result)" where
  "stale_loop socket_path before_identity grace_period grace_deadline w =
     (case stale_round socket_path before_identity grace_period grace_deadline w of
        (w, Inr SR_again) \<Rightarrow> stale_loop socket_path before_identity grace_period grace_deadline w
      | (w, r) \<Rightarrow> (w, r))"
  by pat_completeness auto
termination
  by (relation "measure (\<lambda>(p, i, g, d, w). length (w_socket w))") (auto dest: stale_round_shorter [OF sym])

declare stale_loop.simps [simp del]

definition remove_candidate :: "bstring \<Rightarrow> PathIdentity \<Rightarrow> World \<Rightarrow> World \<times> (exn + unit)" where
  "remove_candidate socket_path before_identity w =
     (case inspect_candidate socket_path w of
        (w, Inl e) \<Rightarrow> (w, Inl e)
      | (w, Inr None) \<Rightarrow> (w, Inr ())
      | (w, Inr (Some after_identity)) \<Rightarrow>
          if \<not> same_identity before_identity after_identity
          then (w, Inl (Runtime_error (''socket path changed before stale-socket removal: '' @ text_of socket_path)))
          else case unlink_socket_path socket_path w of
                 (w, Some e) \<Rightarrow> (w, if e \<noteq> ENOENT then throw_system_error ''remove stale socket failed'' e else Inr ())
               | (w, None) \<Rightarrow> (w, Inr ()))"

definition remove_stale_socket :: "bstring \<Rightarrow> msec \<Rightarrow> World \<Rightarrow> World \<times> (exn + unit)" where
  "remove_stale_socket socket_path grace_period w =
     (case inspect_candidate socket_path w of
        (w, Inl e) \<Rightarrow> (w, Inl e)
      | (w, Inr None) \<Rightarrow> (w, Inr ())
      | (w, Inr (Some before_identity)) \<Rightarrow>
          (case deadline_after grace_period w of (w, grace_deadline) \<Rightarrow>
             case stale_loop socket_path before_identity grace_period grace_deadline w of
               (w, Inl e) \<Rightarrow> (w, Inl e)
             | (w, Inr SR_break) \<Rightarrow> remove_candidate socket_path before_identity w
             | (w, Inr _) \<Rightarrow> (w, Inr ())))"

end
