(* ===== verification/Lifecycle.thy ===== *)
theory Lifecycle
  imports ServerPath
begin

text \<open>
  The life of a server (\<^verbatim>\<open>src/system/runtime/server.cpp\<close>): construction, run, stop, maintenance and
  statistics. The threads a run starts are parameters of it.
\<close>

subsection \<open>Construction\<close>

text \<open>
  The second component is the \<^verbatim>\<open>errno\<close> the calls leave behind, if one of them failed; a call that
  succeeds does not reset it.
\<close>

definition unlink_owned_socket :: "ServerState \<Rightarrow> ServerState \<times> errno option" where
  "unlink_owned_socket s =
     (case on_world (inspect (ss_socket_path s)) s of
        (s, Inl e) \<Rightarrow> (s, Some e)
      | (s, Inr current) \<Rightarrow>
          if ss_socket_identity_valid s \<and> is_owned_socket current (w_euid (ss_world s)) \<and>
             same_identity current \<lparr>pi_kind = EK_socket, pi_owner = w_euid (ss_world s),
               pi_device = ss_socket_device s, pi_inode = ss_socket_inode s, pi_links = 0\<rparr>
          then on_world (unlink_socket_path (ss_socket_path s)) s
          else (s, None))"

definition bind_socket :: "fd \<Rightarrow> bstring \<Rightarrow> World \<Rightarrow> World \<times> errno option" where
  "bind_socket fd endpoint w =
     (let w = add_effect (Eff_bind fd endpoint) w
      in case w_bind w of [] \<Rightarrow> (w, None) | a # as \<Rightarrow> (w\<lparr>w_bind := as\<rparr>, a))"

definition listen_socket :: "fd \<Rightarrow> int \<Rightarrow> World \<Rightarrow> World \<times> errno option" where
  "listen_socket fd backlog w =
     (let w = add_effect (Eff_listen fd backlog) w
      in case w_listen w of [] \<Rightarrow> (w, None) | a # as \<Rightarrow> (w\<lparr>w_listen := as\<rparr>, a))"

definition create_poller :: "World \<Rightarrow> World \<times> (errno + fd)" where
  "create_poller w = (case w_poller w of [] \<Rightarrow> (w, Inl (E_other 24)) | a # as \<Rightarrow> (w\<lparr>w_poller := as\<rparr>, a))"

definition create_wakeup :: "World \<Rightarrow> World \<times> (errno + fd)" where
  "create_wakeup w = (case w_wakeup w of [] \<Rightarrow> (w, Inl (E_other 24)) | a # as \<Rightarrow> (w\<lparr>w_wakeup := as\<rparr>, a))"

definition initial_state :: "bstring \<Rightarrow> ServerOptions \<Rightarrow> World \<Rightarrow> ServerState" where
  "initial_state socket_path options w =
     (blank_state options)
       \<lparr>ss_socket_path := socket_path,
        ss_counters := (if so_stats options = SM_basic then Some new_counters else None),
        ss_max_concurrent_streams :=
          (if so_max_concurrent_streams options = 0 then max 1 (so_worker_threads options - 1)
           else so_max_concurrent_streams options),
        ss_max_serialized_concurrency :=
          (if so_max_concurrent_serialized_domains options = 0 then so_worker_threads options
           else so_max_concurrent_serialized_domains options),
        ss_world := w\<rparr>"

text \<open>
  The steps on the bound socket; on an exception the caller closes the listener and the lock.
  After a failure to create the wakeup event the error reported is the current \<^verbatim>\<open>errno\<close>.
\<close>

definition start_listening :: "PathIdentity \<Rightarrow> fd \<Rightarrow> ServerState \<Rightarrow> ServerState \<times> (exn + fd)" where
  "start_listening identity listener s =
     (case on_world (chmod_socket_path (ss_socket_path s) (so_socket_permissions (ss_options s))) s of
        (s, Some e) \<Rightarrow> (fst (unlink_owned_socket s), throw_system_error ''chmod socket path failed'' e)
      | (s, None) \<Rightarrow>
          (case on_world (inspect (ss_socket_path s)) s of (s, after_chmod) \<Rightarrow>
             if (case after_chmod of
                   Inl _ \<Rightarrow> True
                 | Inr i \<Rightarrow> \<not> same_identity identity i \<or> \<not> is_owned_socket i (w_euid (ss_world s)))
             then (fst (unlink_owned_socket s),
                   Inl (Runtime_error ''socket path changed while applying permissions''))
             else case on_world (listen_socket listener (so_listen_backlog (ss_options s))) s of
                    (s, Some e) \<Rightarrow> (fst (unlink_owned_socket s), throw_system_error ''listen failed'' e)
                  | (s, None) \<Rightarrow>
                      (case on_world create_wakeup s of
                         (s, Inl e) \<Rightarrow>
                           (case unlink_owned_socket s of (s, e') \<Rightarrow>
                              (s, throw_system_error ''wakeup event creation failed''
                                    (case e' of None \<Rightarrow> e | Some e' \<Rightarrow> e')))
                       | (s, Inr wakeup_fd) \<Rightarrow> (s, Inr wakeup_fd))))"

definition publish_socket :: "fd \<Rightarrow> ServerState \<Rightarrow> ServerState \<times> (exn + fd)" where
  "publish_socket listener s =
     (case on_world (inspect (ss_socket_path s)) s of
        (s, Inl e) \<Rightarrow> (s, throw_system_error ''lstat bound socket failed'' e)
      | (s, Inr identity) \<Rightarrow>
          if \<not> is_owned_socket identity (w_euid (ss_world s))
          then (s, Inl (Runtime_error ''bound socket path was replaced before initialization completed''))
          else start_listening identity listener
                 (s\<lparr>ss_socket_device := pi_device identity, ss_socket_inode := pi_inode identity,
                     ss_socket_identity_valid := True\<rparr>))"

definition construct_locked :: "fd \<Rightarrow> bstring \<Rightarrow> ServerOptions \<Rightarrow> World \<Rightarrow> World \<times> (exn + ServerState)" where
  "construct_locked instance_lock socket_path options w =
     (case remove_stale_socket socket_path (so_stale_socket_grace_period options) w of
        (w, Inl e) \<Rightarrow> (socket_close instance_lock w, Inl e)
      | (w, Inr _) \<Rightarrow>
          (case make_socket w of
             (w, Inl e) \<Rightarrow> (socket_close instance_lock w, Inl e)
           | (w, Inr listener) \<Rightarrow>
               let cleanup = (\<lambda>w. socket_close instance_lock (socket_close listener w))
               in case make_endpoint socket_path of
                    Inl e \<Rightarrow> (cleanup w, Inl e)
                  | Inr address \<Rightarrow>
                      (case bind_socket listener address w of
                         (w, Some e) \<Rightarrow> (cleanup w, throw_system_error ''bind failed'' e)
                       | (w, None) \<Rightarrow>
                           (case publish_socket listener (initial_state socket_path options w) of
                              (s, Inl e) \<Rightarrow> (cleanup (ss_world s), Inl e)
                            | (s, Inr wakeup_fd) \<Rightarrow>
                                (ss_world s, Inr (s\<lparr>ss_listener_fd := listener, ss_wakeup_fd := wakeup_fd,
                                                   ss_instance_lock_fd := instance_lock\<rparr>))))))"

definition new_server :: "bstring \<Rightarrow> ServerOptions \<Rightarrow> World \<Rightarrow> World \<times> (exn + ServerState)" where
  "new_server socket_path options w =
     (case make_endpoint socket_path of
        Inl e \<Rightarrow> (w, Inl e)
      | Inr _ \<Rightarrow>
          (case validate_server_options options of
             Inl e \<Rightarrow> (w, Inl e)
           | Inr _ \<Rightarrow>
               (case acquire_instance_lock socket_path w of
                  (w, Inl e) \<Rightarrow> (w, Inl e)
                | (w, Inr instance_lock) \<Rightarrow> construct_locked instance_lock socket_path options w)))"

subsection \<open>Stopping\<close>

definition close_lifecycle_fds_locked :: "ServerState \<Rightarrow> ServerState" where
  "close_lifecycle_fds_locked s =
     (let s = (if ss_listener_fd s \<ge> 0
               then (world_upd (socket_close (ss_listener_fd s)) s)\<lparr>ss_listener_fd := -1\<rparr> else s);
          s = (world_upd (readiness_close (ss_wakeup_fd s)) s)\<lparr>ss_wakeup_fd := -1\<rparr>;
          s = (if ss_instance_lock_fd s \<ge> 0
               then (world_upd (socket_close (ss_instance_lock_fd s)) s)\<lparr>ss_instance_lock_fd := -1\<rparr> else s)
      in (world_upd (readiness_close (ss_readiness_fd s)) s)\<lparr>ss_readiness_fd := -1\<rparr>)"

definition stop_state :: "ServerState \<Rightarrow> ServerState" where
  "stop_state s =
     (let s = s\<lparr>ss_running := False\<rparr>;
          s = s\<lparr>ss_stopped := True\<rparr>;
          close_without_run = (\<not> ss_run_active s);
          s = world_upd (readiness_signal (ss_wakeup_fd s)) s;
          s = fst (unlink_owned_socket s);
          s = fold (\<lambda>(fd, r). world_upd (socket_shutdown fd)) (ss_connections s) s;
          s = s\<lparr>ss_workers_stopping := True\<rparr>;
          s = s\<lparr>ss_serialized_stopping := True\<rparr>
      in if close_without_run \<and> \<not> ss_run_active s then close_lifecycle_fds_locked s else s)"

definition end_run :: "ServerState \<Rightarrow> ServerState" where
  "end_run s =
     (let s = s\<lparr>ss_running := False\<rparr>;
          s = fst (unlink_owned_socket s)
      in (close_lifecycle_fds_locked s)\<lparr>ss_run_active := False\<rparr>)"

text \<open>The destructor returns when no \<^verbatim>\<open>run\<close> is active (\<open>None\<close>: it waits).\<close>

definition destroy_server :: "ServerState \<Rightarrow> ServerState option" where
  "destroy_server s =
     (let s = stop_state s in if ss_run_active s then None else Some s)"

subsection \<open>Running\<close>

text \<open>The registrations in the readiness set, between the two sections under \<^verbatim>\<open>lifecycle_mutex\<close>.\<close>

definition setup_run :: "ServerState \<Rightarrow> ServerState \<times> (exn + unit)" where
  "setup_run s =
     (case on_world create_poller s of
        (s, Inl e) \<Rightarrow> (s, throw_system_error ''readiness set creation failed'' e)
      | (s, Inr readiness_fd) \<Rightarrow>
          let s = s\<lparr>ss_readiness_fd := readiness_fd\<rparr>
          in case on_world (readiness_errno Ctl_add (ss_listener_fd s) readable listener_token) s of
               (s, Some e) \<Rightarrow> (s, throw_system_error ''readiness listener registration failed'' e)
             | (s, None) \<Rightarrow>
                 (case on_world (readiness_errno Ctl_add (ss_wakeup_fd s) readable wake_token) s of
                    (s, Some e) \<Rightarrow> (s, throw_system_error ''readiness wakeup registration failed'' e)
                  | (s, None) \<Rightarrow> (s, Inr ())))"

definition begin_run :: "ServerState \<Rightarrow> ServerState \<times> (exn + unit)" where
  "begin_run s =
     (if ss_run_started s then (s, Inl (Logic_error ''server run() can only be called once''))
      else let s = s\<lparr>ss_run_started := True\<rparr>
           in if ss_stopped s \<or> ss_listener_fd s < 0 \<or> ss_wakeup_fd s < 0
              then (s, Inl (Logic_error ''server has already been stopped''))
              else (s\<lparr>ss_run_active := True\<rparr>, Inr ()))"

definition close_connections :: "ServerState \<Rightarrow> ServerState" where
  "close_connections s =
     (fold (\<lambda>(fd, r) s. world_upd (socket_shutdown fd)
              (conn_upd (rc_conn (ss_rcs s r)) (\<lambda>cn. cn\<lparr>cn_closing := True\<rparr>) s)) (ss_connections s) s)
       \<lparr>ss_connections := []\<rparr>"

text \<open>
  After the reactor has ended: stop, join, close. \<open>finish\<close> is what the workers still do before
  they are joined.
\<close>

definition shut_down_run :: "(ServerState \<Rightarrow> ServerState) \<Rightarrow> exn + unit \<Rightarrow> ServerState \<Rightarrow> ServerState \<times> (exn + unit)" where
  "shut_down_run finish r s =
     (let s = (case r of Inl e \<Rightarrow> s\<lparr>ss_reactor_error := Some e\<rparr> | Inr _ \<Rightarrow> s);
          s = stop_state s;
          s = finish s;
          s = join_serialized_workers s;
          s = close_connections s
      in (s, case ss_reactor_error s of Some e \<Rightarrow> Inl e | None \<Rightarrow> Inr ()))"

text \<open>
  \<open>between\<close> is what other threads do between the registrations and the second check, \<open>spawn\<close> the
  exception that starting the threads may raise, \<open>reactor\<close> the run of the reactor (\<open>None\<close> while it
  has not ended).
\<close>

definition run_server ::
  "(ServerState \<Rightarrow> ServerState) \<Rightarrow> exn option \<Rightarrow> (ServerState \<Rightarrow> ServerState \<times> (exn + unit) option) \<Rightarrow>
     (ServerState \<Rightarrow> ServerState) \<Rightarrow> ServerState \<Rightarrow> ServerState \<times> (exn + unit) option" where
  "run_server between spawn reactor finish s =
     (case begin_run s of
        (s, Inl e) \<Rightarrow> (s, Some (Inl e))
      | (s, Inr _) \<Rightarrow>
          (case setup_run s of
             (s, Inl e) \<Rightarrow> (end_run s, Some (Inl e))
           | (s, Inr _) \<Rightarrow>
               let s = between s in
               if ss_stopped s
               then (end_run s, Some (Inl (Logic_error ''server was stopped during run setup'')))
               else let s = s\<lparr>ss_running := True\<rparr> in
                    case spawn of
                      Some e \<Rightarrow> (end_run (join_serialized_workers (finish (stop_state s))), Some (Inl e))
                    | None \<Rightarrow>
                        (case reactor s of
                           (s, None) \<Rightarrow> (s, None)
                         | (s, Some r) \<Rightarrow>
                             (case shut_down_run finish r s of (s, r) \<Rightarrow> (end_run s, Some r)))))"

subsection \<open>Maintenance and statistics\<close>

definition enqueue_maintenance :: "(unit callback_result) option \<Rightarrow> ServerState \<Rightarrow> ServerState \<times> (exn + unit)" where
  "enqueue_maintenance task s =
     (if task = None then (s, Inl (Invalid_argument ''maintenance task must not be empty''))
      else case enqueue_serialized_job
                  \<lparr>sj_connection = None, sj_request = \<lparr>rq_route = [], rq_body = [], rq_request_id = 0\<rparr>,
                   sj_capabilities = no_capabilities, sj_arrival_time = 0, sj_deadline = deadline_max,
                   sj_handler = None, sj_maintenance = task, sj_request_bytes = 0\<rparr> False False s of
             (s, Inl e) \<Rightarrow> (s, Inl e)
           | (s, Inr a) \<Rightarrow>
               (s, if a \<noteq> SA_accepted then Inl (Logic_error ''server is not running'') else Inr ()))"

record ServerStatsCounters =
  st_accepted_connections :: u64
  st_rejected_connections :: u64
  st_fixed_requests_dispatched :: u64
  st_stream_requests_started :: u64
  st_stream_requests_rejected :: u64
  st_requests_timed_out_before_execution :: u64
  st_serialized_requests_superseded :: u64
  st_serialized_requests_rejected_busy :: u64

record ServerStats =
  st_running :: bool
  st_active_connections :: nat
  st_active_streams :: nat
  st_inflight_requests :: nat
  st_retained_request_bytes :: nat
  st_queued_output_bytes :: nat
  st_worker_queue_depth :: nat
  st_serialized_queue_depth :: nat
  st_active_serialized_domains :: nat
  st_counters :: "ServerStatsCounters option"

definition stats :: "ServerState \<Rightarrow> ServerStats" where
  "stats s =
     \<lparr>st_running = ss_running s,
      st_active_connections = length (ss_connections s),
      st_active_streams = ss_active_streams s,
      st_inflight_requests =
        fold (\<lambda>(fd, r) n. sz_add n (cn_inflight_requests (ss_conns s (rc_conn (ss_rcs s r))))) (ss_connections s) 0,
      st_retained_request_bytes = ss_total_inflight_request_bytes s,
      st_queued_output_bytes = ss_total_queued_output_bytes s,
      st_worker_queue_depth = length (ss_pending_jobs s),
      st_serialized_queue_depth = length (ss_pending_serialized s),
      st_active_serialized_domains = ss_active_domain_count s,
      st_counters = map_option (\<lambda>c.
        \<lparr>st_accepted_connections = sc_accepted_connections c,
         st_rejected_connections = sc_rejected_connections c,
         st_fixed_requests_dispatched = sum_list (sc_fixed_requests c),
         st_stream_requests_started = sc_stream_requests c,
         st_stream_requests_rejected = sc_stream_rejections c,
         st_requests_timed_out_before_execution = sc_queue_timeouts c,
         st_serialized_requests_superseded = sc_serialized_superseded c,
         st_serialized_requests_rejected_busy = sc_serialized_busy_rejections c\<rparr>) (ss_counters s)\<rparr>"

end
