(* ===== verification/LifecycleProps.thy ===== *)
theory LifecycleProps
  imports Lifecycle
begin

text \<open>
  Properties of the life of a server: what it removes from the file system, the instance lock, and
  the race between stop and run.
\<close>

subsection \<open>What is ever removed from the file system\<close>

text \<open>
  A trace of effects in which every removal of a path directly follows a lookup of that path that
  showed a socket of the given user.
\<close>

fun unlinks_ok :: "nat \<Rightarrow> effect option \<Rightarrow> effect list \<Rightarrow> bool" where
  "unlinks_ok u prev [] = True"
| "unlinks_ok u prev (Eff_unlink p # es) =
     ((case prev of Some (Eff_lstat q (Inr i)) \<Rightarrow> q = p \<and> is_owned_socket i u | _ \<Rightarrow> False) \<and>
      unlinks_ok u (Some (Eff_unlink p)) es)"
| "unlinks_ok u prev (e # es) = unlinks_ok u (Some e) es"

lemma unlinks_ok_None: "unlinks_ok u None es \<Longrightarrow> unlinks_ok u prev es"
proof (cases es)
  case (Cons e es')
  then show "unlinks_ok u None es \<Longrightarrow> unlinks_ok u prev es" by (cases e) simp_all
qed simp

lemma unlinks_ok_append: "unlinks_ok u prev xs \<Longrightarrow> unlinks_ok u None ys \<Longrightarrow> unlinks_ok u prev (xs @ ys)"
  by (induction u prev xs rule: unlinks_ok.induct) (auto simp: unlinks_ok_None)

definition traced :: "World \<Rightarrow> World \<Rightarrow> bool" where
  "traced w w' \<longleftrightarrow> w_euid w' = w_euid w \<and>
     (\<exists>es. w_effects w' = w_effects w @ es \<and> unlinks_ok (w_euid w) None es)"

lemma traced_trans: "traced w w' \<Longrightarrow> traced w' w'' \<Longrightarrow> traced w w''"
  unfolding traced_def using unlinks_ok_append by fastforce

lemma traced_unmoved: "unmoved w w' \<Longrightarrow> traced w w'"
  by (auto simp: traced_def unmoved_def)

lemma traced_refl [simp]: "traced w w"
  by (rule traced_unmoved) simp

lemma traced_effect:
  "w_euid w' = w_euid w \<Longrightarrow> w_effects w' = w_effects w @ [e] \<Longrightarrow> unlinks_ok (w_euid w) None [e] \<Longrightarrow> traced w w'"
  by (auto simp: traced_def)

lemma traced_close: "traced w (socket_close fd w)"
  by (simp add: socket_close_def add_effect_def traced_def)

lemma traced_inspect: "traced w (fst (inspect p w))"
  by (simp add: inspect_def add_effect_def traced_def split: list.split)

lemma traced_checked_unlink:
  assumes "inspect p w = (w1, Inr i)" "is_owned_socket i (w_euid w1)"
  shows "traced w (fst (unlink_socket_path p w1))"
proof -
  have "w_effects w1 = w_effects w @ [Eff_lstat p (Inr i)]" "w_euid w1 = w_euid w"
    using assms(1) by (auto simp: inspect_def add_effect_def split: list.splits)
  then show ?thesis
    using assms(2) by (simp add: unlink_socket_path_def add_effect_def traced_def Let_def split: list.split)
qed

lemma inspect_candidate_owned:
  assumes "inspect_candidate p w = (w1, Inr (Some i))"
  shows "inspect p w = (w1, Inr i)" "is_owned_socket i (w_euid w1)"
  using assms
  by (auto simp: inspect_candidate_def verify_owned_socket_candidate_def is_owned_socket_def throw_system_error_def
      split: prod.splits sum.splits if_splits)

lemma traced_candidate: "traced w (fst (inspect_candidate p w))"
  using traced_inspect by simp

lemma traced_make_socket: "traced w (fst (make_socket w))"
proof -
  obtain w1 x where 1: "create_stream_socket w = (w1, x)" by fastforce
  have k: "traced w w1" using 1 by (auto simp: create_stream_socket_def traced_def split: list.splits)
  note k2 = traced_trans [OF k traced_unmoved [OF unmoved_nonblocking]]
  show ?thesis
    unfolding make_socket_def 1 prod.case
    using k k2 traced_trans [OF k2 traced_close] by (simp add: split_beta split: sum.split)
qed

lemma traced_stale_round: "traced w (fst (stale_round p i g d w))"
proof -
  obtain w1 x where 1: "make_socket w = (w1, x)" by fastforce
  obtain w2 r where 2: "connect_nonblocking 100 deadline_max w1 = (w2, r)" by fastforce
  obtain w3 y where 3: "inspect_candidate p w2 = (w3, y)" by fastforce
  obtain w4 z where 4: "recheck_stale p i g d w2 = (w4, z)" by fastforce
  have k1: "traced w w1" using traced_make_socket [of w] 1 by simp
  have k2: "traced w w2"
    using traced_trans [OF k1 traced_unmoved [OF unmoved_connect]] 2 by (metis fst_conv)
  have k3: "traced w w3" using traced_trans [OF k2 traced_candidate] 3 by (metis fst_conv)
  have "traced w (fst (recheck_stale p i g d w2))"
    unfolding recheck_stale_def 3 prod.case
    using k3 traced_trans [OF k3 traced_unmoved [OF unmoved_clock]]
    by (simp add: split_beta split: sum.split option.split)
  then have k4: "traced w w4" using 4 by simp
  show ?thesis
    unfolding stale_round_def 1 prod.case 2 4
    using k1 traced_trans [OF k1 traced_close] traced_trans [OF k2 traced_close] traced_trans [OF k4 traced_close]
    by (simp split: sum.split stale_result.split)
qed

lemma traced_stale_loop: "traced w (fst (stale_loop p i g d w))"
proof (induction p i g d w rule: stale_loop.induct)
  case (1 p i g d w)
  obtain w1 x where e: "stale_round p i g d w = (w1, x)" by fastforce
  have k: "traced w w1" using traced_stale_round [of w p i g d] e by simp
  show ?case
    using k traced_trans [OF k "1.IH" [OF e [symmetric]]]
    by (subst stale_loop.simps) (auto simp: e split: sum.split stale_result.split)
qed

lemma traced_remove_candidate: "traced w (fst (remove_candidate p i w))"
proof -
  obtain w1 x where 1: "inspect_candidate p w = (w1, x)" by fastforce
  have k: "traced w w1" using traced_candidate [of w p] 1 by simp
  have "traced w (fst (unlink_socket_path p w1))" if "x = Inr (Some j)" for j
    using traced_checked_unlink inspect_candidate_owned 1 that by blast
  then show ?thesis
    unfolding remove_candidate_def 1 prod.case using k
    by (simp add: split_beta split: sum.split option.split)
qed

lemma traced_remove_stale: "traced w (fst (remove_stale_socket p g w))"
proof -
  obtain w1 x where 1: "inspect_candidate p w = (w1, x)" by fastforce
  obtain w2 d where 2: "deadline_after g w1 = (w2, d)" by fastforce
  have k1: "traced w w1" using traced_candidate [of w p] 1 by simp
  have k2: "traced w w2"
    using traced_trans [OF k1 traced_unmoved [OF unmoved_deadline(1)]] 2 by (metis fst_conv)
  note k3 = traced_trans [OF k2 traced_stale_loop]
  show ?thesis
    unfolding remove_stale_socket_def 1 prod.case 2
    using k1 k3 traced_trans [OF k3 traced_remove_candidate]
    by (simp add: split_beta split: sum.split option.split stale_result.split)
qed

abbreviation traced_state :: "ServerState \<Rightarrow> ServerState \<Rightarrow> bool" where
  "traced_state s s' \<equiv> traced (ss_world s) (ss_world s')"

lemma on_world_eq: "on_world f s = (s1, x) \<longleftrightarrow> (\<exists>w. f (ss_world s) = (w, x) \<and> s1 = s\<lparr>ss_world := w\<rparr>)"
  by (auto simp: on_world_def split: prod.splits)

lemma on_world_traced:
  assumes "on_world f s = (s1, x)" "\<And>w. traced w (fst (f w))" shows "traced_state s s1"
proof -
  have "ss_world s1 = fst (f (ss_world s))" using assms(1) by (auto simp: on_world_def split: prod.splits)
  then show ?thesis using assms(2) by simp
qed

lemma traced_unlink_owned: "traced_state s (fst (unlink_owned_socket s))"
proof -
  obtain s1 x where 1: "on_world (inspect (ss_socket_path s)) s = (s1, x)" by fastforce
  then obtain w where w: "inspect (ss_socket_path s) (ss_world s) = (w, x)" "s1 = s\<lparr>ss_world := w\<rparr>"
    by (auto simp: on_world_eq)
  have k: "traced_state s s1" using traced_inspect [of "ss_world s" "ss_socket_path s"] w by simp
  have u: "traced_state s (fst (on_world (unlink_socket_path (ss_socket_path s1)) s1))"
    if "x = Inr i" "is_owned_socket i (w_euid (ss_world s1))" for i
    using traced_checked_unlink [OF w(1) [unfolded that(1)]] that(2) w(2) by (simp add: on_world_def split_beta)
  show ?thesis
    unfolding unlink_owned_socket_def 1 prod.case using k u by (simp split: sum.split)
qed

lemma traced_setup_calls:
  "traced w (fst (chmod_socket_path p m w))" "traced w (fst (listen_socket fd b w))"
  "traced w (fst (bind_socket fd a w))" "traced w (fst (create_wakeup w))"
  by (simp_all add: chmod_socket_path_def listen_socket_def bind_socket_def create_wakeup_def add_effect_def
      traced_def Let_def split: list.split)

lemma traced_start_listening: "traced_state s (fst (start_listening i listener s))"
proof -
  obtain s1 a where 1: "on_world (chmod_socket_path (ss_socket_path s) (so_socket_permissions (ss_options s))) s = (s1, a)"
    by fastforce
  obtain s2 b where 2: "on_world (inspect (ss_socket_path s1)) s1 = (s2, b)" by fastforce
  obtain s3 c where 3: "on_world (listen_socket listener (so_listen_backlog (ss_options s2))) s2 = (s3, c)" by fastforce
  obtain s4 d where 4: "on_world create_wakeup s3 = (s4, d)" by fastforce
  have k1: "traced_state s s1" by (rule on_world_traced [OF 1 traced_setup_calls(1)])
  have k2: "traced_state s s2" by (rule traced_trans [OF k1 on_world_traced [OF 2 traced_inspect]])
  have k3: "traced_state s s3" by (rule traced_trans [OF k2 on_world_traced [OF 3 traced_setup_calls(2)]])
  have k4: "traced_state s s4" by (rule traced_trans [OF k3 on_world_traced [OF 4 traced_setup_calls(4)]])
  show ?thesis
    unfolding start_listening_def 1 prod.case 2 3 4
    using traced_trans [OF k1 traced_unlink_owned] traced_trans [OF k2 traced_unlink_owned]
      traced_trans [OF k3 traced_unlink_owned] traced_trans [OF k4 traced_unlink_owned] k4
    by (simp add: split_beta split: option.split sum.split)
qed

lemma traced_publish: "traced_state s (fst (publish_socket listener s))"
proof -
  obtain s1 x where 1: "on_world (inspect (ss_socket_path s)) s = (s1, x)" by fastforce
  have k1: "traced_state s s1" by (rule on_world_traced [OF 1 traced_inspect])
  have "traced_state s (fst (start_listening i listener (s1\<lparr>ss_socket_device := pi_device i, ss_socket_inode := pi_inode i,
      ss_socket_identity_valid := True\<rparr>)))" for i
    by (rule traced_trans [OF _ traced_start_listening]) (use k1 in simp)
  then show ?thesis
    unfolding publish_socket_def 1 prod.case using k1 by (simp split: sum.split)
qed

lemma traced_construct: "traced w (fst (construct_locked lock p opts w))"
proof -
  obtain w1 x where 1: "remove_stale_socket p (so_stale_socket_grace_period opts) w = (w1, x)" by fastforce
  obtain w2 y where 2: "make_socket w1 = (w2, y)" by fastforce
  have k1: "traced w w1" using traced_remove_stale 1 by (metis fst_conv)
  have k2: "traced w w2" using traced_trans [OF k1 traced_make_socket] 2 by (metis fst_conv)
  have cleanup: "traced w (socket_close lock (socket_close fd w'))" if "traced w w'" for fd w'
    by (rule traced_trans [OF traced_trans [OF that traced_close] traced_close])
  have pub: "traced w (ss_world (fst (publish_socket fd (initial_state p opts w3))))" if "traced w w3" for fd w3
    by (rule traced_trans [OF _ traced_publish]) (use that in \<open>simp add: initial_state_def\<close>)
  note k3 = traced_trans [OF k2 traced_setup_calls(3)]
  show ?thesis
    unfolding construct_locked_def 1 prod.case 2 Let_def
    using traced_trans [OF k1 traced_close] traced_trans [OF k2 traced_close] cleanup [OF k2] cleanup [OF k3]
      cleanup [OF pub [OF k3]] pub [OF k3]
    by (simp add: split_beta split: sum.split option.split)
qed

definition closes_only :: "World \<Rightarrow> World \<Rightarrow> bool" where
  "closes_only w w' \<longleftrightarrow> w_euid w' = w_euid w \<and>
     (w_effects w' = w_effects w \<or> (\<exists>fd. w_effects w' = w_effects w @ [Eff_close fd]))"

lemma closes_only_close: "unmoved w w' \<Longrightarrow> closes_only w w'" "unmoved w w' \<Longrightarrow> closes_only w (socket_close fd w')"
  by (auto simp: closes_only_def unmoved_def socket_close_def add_effect_def)

lemma unmoved_lock_calls:
  "unmoved w (fst (kernel_open w))" "unmoved w (fst (kernel_fstat w))" "unmoved w (fst (kernel_flock w))"
  "unmoved w (fst (kernel_fchmod w))" "unmoved w (fst (lifecycle_set_close_on_exec w))"
proof -
  have f: "unmoved w (fst (kernel_fcntl w))" for w
    by (simp add: unmoved_def kernel_fcntl_def split: list.split)
  show "unmoved w (fst (lifecycle_set_close_on_exec w))"
    using f [of w] unmoved_trans [OF f f, of w]
    by (simp add: lifecycle_set_close_on_exec_def split_beta split: sum.split)
qed (simp_all add: unmoved_def kernel_open_def kernel_fstat_def kernel_flock_def kernel_fchmod_def split: list.split)

lemma lock_trace: "closes_only w (fst (acquire_lock w))"
proof -
  obtain w1 x where 1: "kernel_open w = (w1, x)" by fastforce
  obtain w2 e sf where 2: "lifecycle_set_close_on_exec w1 = (w2, e, sf)" by (metis prod_cases3)
  obtain w3 y where 3: "kernel_fstat w2 = (w3, y)" by fastforce
  obtain w4 z where 4: "kernel_flock w3 = (w4, z)" by fastforce
  obtain w5 v where 5: "kernel_fchmod w4 = (w5, v)" by fastforce
  have k1: "unmoved w w1" using unmoved_lock_calls(1) [of w] 1 by simp
  have k2: "unmoved w w2" using unmoved_trans [OF k1] unmoved_lock_calls(5) [of w1] 2 by simp
  have k3: "unmoved w w3" using unmoved_trans [OF k2] unmoved_lock_calls(2) [of w2] 3 by simp
  have k4: "unmoved w w4" using unmoved_trans [OF k3] unmoved_lock_calls(3) [of w3] 4 by simp
  have k5: "unmoved w w5" using unmoved_trans [OF k4] unmoved_lock_calls(4) [of w4] 5 by simp
  show ?thesis
    unfolding acquire_lock_def 1 prod.case 2 3 4 5
    using k1 k2 k3 k4 k5 closes_only_close by (simp split: sum.split option.split)
qed

text \<open>
  C36: whatever the kernel answers, everything the construction of a server removes from the file
  system is a path that the call directly before showed to be a socket of the server's own user.
\<close>

theorem construction_unlinks_guarded:
  "case new_server p opts w of (w', result) \<Rightarrow>
     \<exists>es. w_effects w' = w_effects w @ es \<and> unlinks_ok (w_euid w) None es"
proof -
  obtain w1 x where 1: "acquire_lock w = (w1, x)" by fastforce
  have l: "traced w w1" using lock_trace [of w] 1 by (auto simp: traced_def closes_only_def)
  have "traced w (fst (new_server p opts w))"
    using l traced_trans [OF l traced_construct]
    by (simp add: new_server_def acquire_instance_lock_def 1 split: sum.split)
  then show ?thesis by (simp add: traced_def split_beta)
qed

text \<open>
  A server that does not get the instance lock because another one holds it throws \<^verbatim>\<open>busy\<close> and
  has touched nothing: besides closing its descriptor of the lock file it made no call that has
  an effect.
\<close>

theorem lock_excludes:
  assumes "make_endpoint p = Inr a" "validate_server_options opts = Inr ()"
    "acquire_lock w = (w1, result)" "lr_status result = LS_busy"
  shows "new_server p opts w =
      (w1, Inl (Error EC_busy ''socket path is already owned by another easy-uds server'' (Some EADDRINUSE))) \<and>
    (w_effects w1 = w_effects w \<or> (\<exists>fd. w_effects w1 = w_effects w @ [Eff_close fd]))"
  using assms lock_trace [of w]
  by (simp add: new_server_def acquire_instance_lock_def throw_system_error_def classify_system_error_def
      closes_only_def)

definition lock_sample :: World where
  "lock_sample = quiet_world\<lparr>w_open := [Inr 3], w_fcntl := [Inr 0, Inr 0],
     w_fstat := [Inr \<lparr>pi_kind = EK_regular, pi_owner = 0, pi_device = 1, pi_inode = 2, pi_links = 1\<rparr>],
     w_flock := [Some EAGAIN]\<rparr>"

lemma lock_sample_busy: "\<exists>w1 result. acquire_lock lock_sample = (w1, result) \<and> lr_status result = LS_busy"
  by (simp add: acquire_lock_def lock_sample_def kernel_open_def lifecycle_set_close_on_exec_def kernel_fcntl_def
      kernel_fstat_def kernel_flock_def is_owned_regular_single_link_def lock_failed_def)
    (simp add: quiet_world_def)

lemma lock_excludes_witness:
  "\<exists>w1. new_server (str ''/s'') default_server_options lock_sample =
     (w1, Inl (Error EC_busy ''socket path is already owned by another easy-uds server'' (Some EADDRINUSE)))"
proof -
  obtain w1 result where "acquire_lock lock_sample = (w1, result)" "lr_status result = LS_busy"
    using lock_sample_busy by blast
  moreover have "make_endpoint (str ''/s'') = Inr (str ''/s'' @ [0])"
    by (simp add: make_endpoint_def str_def sun_path_size_def)
  moreover have "validate_server_options default_server_options = Inr ()"
    by (simp add: validate_server_options_def validator_defs and_then_def option_defaults max_wire_field_def
        header_size_def sz_max_def)
  ultimately show ?thesis using lock_excludes by blast
qed

subsection \<open>Stopping\<close>

definition own_socket :: "ServerState \<Rightarrow> bool" where
  "own_socket s \<longleftrightarrow> ss_socket_identity_valid s \<and>
     (case w_lstat (ss_world s) of
        Inr i # _ \<Rightarrow> pi_kind i = EK_socket \<and> pi_owner i = w_euid (ss_world s) \<and>
          pi_device i = ss_socket_device s \<and> pi_inode i = ss_socket_inode s
      | _ \<Rightarrow> False)"

definition removals :: "World \<Rightarrow> bstring list" where
  "removals w = concat (map (\<lambda>e. case e of Eff_unlink p \<Rightarrow> [p] | _ \<Rightarrow> []) (w_effects w))"

lemma removals_effects [simp]:
  "removals (socket_close fd w) = removals w" "removals (socket_shutdown fd w) = removals w"
  "removals (readiness_close fd w) = removals w" "removals (readiness_signal fd w) = removals w"
  by (simp_all add: removals_def socket_close_def socket_shutdown_def readiness_close_def readiness_signal_def
      add_effect_def)

lemma close_lifecycle_removals [simp]: "removals (ss_world (close_lifecycle_fds_locked s)) = removals (ss_world s)"
  by (simp add: close_lifecycle_fds_locked_def world_upd_def Let_def)

lemma shutdown_all_removals [simp]:
  "removals (ss_world (fold (\<lambda>(fd, r). world_upd (socket_shutdown fd)) es s)) = removals (ss_world s)"
  by (induction es arbitrary: s) (auto simp: world_upd_def)

lemma unlink_owned_removals:
  "removals (ss_world (fst (unlink_owned_socket s))) =
     removals (ss_world s) @ (if own_socket s then [ss_socket_path s] else [])"
proof (cases "w_lstat (ss_world s)")
  case Nil
  then show ?thesis
    by (simp add: unlink_owned_socket_def own_socket_def on_world_def inspect_def add_effect_def removals_def)
next
  case (Cons a as)
  then show ?thesis
    by (cases a) (auto simp: unlink_owned_socket_def own_socket_def on_world_def inspect_def add_effect_def
        removals_def is_owned_socket_def same_identity_def unlink_socket_path_def Let_def split: list.split)
qed

text \<open>
  C37: stopping a server removes its socket path exactly when the path still names the socket it
  created, by device and inode, and this socket belongs to its user; a path that was taken over
  by something else is left alone.
\<close>

theorem stop_removes_own:
  "removals (ss_world (stop_state s)) =
     removals (ss_world s) @ (if own_socket s then [ss_socket_path s] else [])"
proof -
  let ?s = "world_upd (readiness_signal (ss_wakeup_fd s)) (s\<lparr>ss_running := False, ss_stopped := True\<rparr>)"
  have "own_socket ?s = own_socket s" "removals (ss_world ?s) = removals (ss_world s)"
    by (simp_all add: own_socket_def world_upd_def readiness_signal_def add_effect_def removals_def
        split: list.split sum.split)
  then show ?thesis
    using unlink_owned_removals [of ?s] by (simp add: stop_state_def Let_def) 
qed

lemma unlink_owned_frame:
  "ss_stopped (fst (unlink_owned_socket s)) = ss_stopped s" "ss_run_started (fst (unlink_owned_socket s)) = ss_run_started s"
  by (simp_all add: unlink_owned_socket_def on_world_def split_beta split: sum.split)

lemma stop_state_flags: "ss_stopped (stop_state s)" "ss_run_started (stop_state s) = ss_run_started s"
proof -
  have sh: "ss_stopped (fold (\<lambda>(fd, r). world_upd (socket_shutdown fd)) es s) = ss_stopped s"
    "ss_run_started (fold (\<lambda>(fd, r). world_upd (socket_shutdown fd)) es s) = ss_run_started s" for es s
    by (induction es arbitrary: s) (auto simp: world_upd_def)
  have cl: "ss_stopped (close_lifecycle_fds_locked s) = ss_stopped s"
    "ss_run_started (close_lifecycle_fds_locked s) = ss_run_started s" for s
    by (simp_all add: close_lifecycle_fds_locked_def world_upd_def Let_def)
  show "ss_stopped (stop_state s)" "ss_run_started (stop_state s) = ss_run_started s"
    by (simp_all add: stop_state_def Let_def sh cl unlink_owned_frame world_upd_def)
qed

text \<open>
  A stop wins over a run that has not begun to serve: a server stopped before \<^verbatim>\<open>run\<close> refuses to
  run, and one stopped while \<^verbatim>\<open>run\<close> sets up never starts its reactor.
\<close>

theorem stop_prevents_run:
  "run_server stop_state spawn reactor finish s = run_server stop_state spawn' reactor' finish' s \<and>
   run_server between spawn reactor finish (stop_state s) =
     ((stop_state s)\<lparr>ss_run_started := True\<rparr>,
      Some (Inl (Logic_error (if ss_run_started s then ''server run() can only be called once''
                              else ''server has already been stopped''))))"
proof -
  have same: "ss_run_started t \<Longrightarrow> t\<lparr>ss_run_started := True\<rparr> = t" for t :: ServerState by (cases t) simp
  have "run_server stop_state spawn reactor finish s = run_server stop_state spawn' reactor' finish' s"
    by (simp add: run_server_def Let_def stop_state_flags split: prod.split sum.split)
  moreover have "run_server between spawn reactor finish (stop_state s) =
     ((stop_state s)\<lparr>ss_run_started := True\<rparr>,
      Some (Inl (Logic_error (if ss_run_started s then ''server run() can only be called once''
                              else ''server has already been stopped''))))"
    by (simp add: run_server_def begin_run_def Let_def stop_state_flags same)
  ultimately show ?thesis by simp
qed

end
