(* ===== verification/ReactorFrames.thy ===== *)
theory ReactorFrames
  imports EventLoop
begin

text \<open>
  What a turn of the reactor on a connection can change: a locale of relations between states that
  every basic operation keeps, and its interpretation for the connection table.
\<close>

subsection \<open>What a read turn can do to the server\<close>

text \<open>
  A relation between states that every basic operation of a read turn keeps is kept by
  \<^verbatim>\<open>consume\<close>, whatever arrives on the connection.
\<close>

locale read_turn_frame =
  fixes K :: "ServerState \<Rightarrow> ServerState \<Rightarrow> bool"
  assumes K_refl: "K s s"
    and K_trans: "K s s' \<Longrightarrow> K s' s'' \<Longrightarrow> K s s''"
    and K_conn: "K s (conn_upd c f s)"
    and K_rc: "K s (rc_upd r g s)"
    and K_world: "K s (s\<lparr>ss_world := w\<rparr>)"
    and K_flags: "K s (s\<lparr>ss_flags := fl\<rparr>)"
    and K_counters: "K s (counter_upd h s)"
    and K_jobs: "K s (s\<lparr>ss_pending_jobs := jobs\<rparr>)"
    and K_streams: "K s (s\<lparr>ss_active_streams := n\<rparr>)"
    and K_account: "K s (account_connection_request c n s)"
    and K_release: "K s (release_connection_request_bytes c n s)"
    and K_pause: "K s (pause_connection_reads r s)"
    and K_reserve: "K s (fst (try_reserve_connection_request_bytes c n s))"
    and K_error: "K s (fst (write_error_response c i m d st s))"
    and K_enqueue: "K s (fst (enqueue_serialized_job job a b s))"
    and K_drop: "K s (drop_capabilities caps s)"
begin

lemma K_step: "K s s' \<Longrightarrow> s'' = f s' \<Longrightarrow> (\<And>x. K x (f x)) \<Longrightarrow> K s s''"
  using K_trans by blast

lemma K_pause_if: "K s (fst (pause_connection_reads_if_needed r s))"
  using K_pause K_refl by (simp add: pause_connection_reads_if_needed_def Let_def)

lemma K_undo: "K s s' \<Longrightarrow> K s (if b then release_connection_request_bytes c n s' else s')"
  using K_trans [OF _ K_release] by simp

lemma K_drop_job: "K s s' \<Longrightarrow> K s (drop_job job s')"
  unfolding drop_job_def by (rule K_trans [OF _ K_drop])

lemma K_dispatch_serialized: "K s (fst (dispatch_serialized r job s))"
proof -
  let ?c = "rc_conn (ss_rcs s r)" and ?b = "so_max_total_inflight_bytes (ss_options s) \<noteq> 0"
  let ?s0 = "rc_upd r (\<lambda>rc. rc\<lparr>rc_reserved_request_bytes := 0\<rparr>) s"
  let ?u = "\<lambda>s'. if ?b then release_connection_request_bytes ?c (rc_payload_total (ss_rcs s r)) s' else s'"
  obtain s1 x where e: "enqueue_serialized_job job True ?b ?s0 = (s1, x)" by fastforce
  have k1: "K s s1" using K_trans [OF K_rc K_enqueue [of ?s0 job True ?b]] e by simp
  note ku = K_undo [OF k1, of ?b ?c "rc_payload_total (ss_rcs s r)"]
  obtain s2 y where w: "write_error_response ?c (rq_request_id (sj_request job))
      (str ''serialization domain is busy'') deadline_max status_conflict (?u s1) = (s2, y)" by fastforce
  have k2: "K s s2" using K_trans [OF ku K_error] w by (metis fst_conv)
  note u = dispatch_serialized_def [of r job s, unfolded Let_def e prod.case]
  show ?thesis
  proof (cases x)
    case (Inl a)
    then show ?thesis using K_drop_job [OF ku] by (simp add: u)
  next
    case (Inr a)
    then show ?thesis
      using K_drop_job [OF K_trans [OF ku K_conn]] K_trans [OF k1 K_pause_if] w
        K_drop_job [OF k2] K_drop_job [OF K_trans [OF k2 K_pause_if]]
      by (cases a; cases y) (simp_all add: u split_beta)
  qed
qed

lemma K_enqueue_worker: "K s (fst (enqueue_worker_job c q a d h k st rb bf bo s))"
proof -
  define job where "job = pending_job c q a d h k st rb bf bo"
  let ?s1 = "s\<lparr>ss_pending_jobs := ss_pending_jobs s @ [job]\<rparr>"
  let ?f = "\<lambda>cn. cn\<lparr>cn_active_regular := sz_add (cn_active_regular cn) 1\<rparr>"
  have "K s (drop_capabilities k (if rb then release_connection_request_bytes c (pj_request_bytes job) s else s))"
    by (rule K_trans [OF K_undo [OF K_refl] K_drop])
  moreover have "K s (conn_upd c ?f ?s1)" by (rule K_trans [OF K_jobs K_conn])
  then have "K s (account_connection_request_count c (conn_upd c ?f ?s1))"
    "K s (account_connection_request c n (conn_upd c ?f ?s1))" for n
    unfolding account_connection_request_count_def using K_trans [OF _ K_conn] K_trans [OF _ K_account] by blast+
  ultimately show ?thesis
    unfolding enqueue_worker_job_def Let_def job_def [symmetric] using K_jobs by simp
qed

lemma K_dispatch_regular: "K s (fst (dispatch_regular r q h k s))"
proof -
  let ?c = "rc_conn (ss_rcs s r)"
  define s0 where "s0 = (if rq_request_id q \<noteq> 0 then conn_upd ?c (\<lambda>cn. cn\<lparr>cn_session_capable := True\<rparr>) s else s)"
  define s1 where "s1 = rc_upd r (\<lambda>rc. rc\<lparr>rc_reserved_request_bytes := 0\<rparr>) s0"
  obtain s2 b where e: "enqueue_worker_job ?c q (rc_arrival_time (ss_rcs s1 r)) (rc_deadline (ss_rcs s1 r))
      (Some h) k False (so_max_total_inflight_bytes (ss_options s0) \<noteq> 0) [] 0 s1 = (s2, b)" by fastforce
  have "K s s0" using K_conn K_refl by (simp add: s0_def)
  then have "K s s1" unfolding s1_def using K_rc K_trans by blast
  then have k: "K s s2" using K_trans [OF _ K_enqueue_worker] e by (metis fst_conv)
  show ?thesis
    unfolding dispatch_regular_def Let_def s0_def [symmetric] s1_def [symmetric] e prod.case
    using K_trans [OF k K_conn] K_trans [OF k K_pause_if] by (simp add: split_beta split: bool.split)
qed

lemma K_register: "K s (fst (register_cancellation c i v f s))"
  using K_trans [OF K_flags K_conn] K_refl by (simp add: register_cancellation_def Let_def)

lemma K_dispatch: "K s (fst (dispatch_request shard flag r s))"
proof -
  define s0 where "s0 = rc_upd r (\<lambda>rc. rc\<lparr>rc_route_buffer := [], rc_body_buffer := []\<rparr>) (record_fixed_request shard s)"
  let ?rc = "ss_rcs (record_fixed_request shard s) r"
  have k0: "K s s0" unfolding s0_def record_fixed_request_def by (rule K_trans [OF K_counters K_rc])
  obtain s1 cancelled where e: "register_cancellation (rc_conn ?rc) (rc_request_id ?rc)
      (cn_wire_version (ss_conns s0 (rc_conn ?rc))) flag s0 = (s1, cancelled)" by fastforce
  have "K s s1" using K_trans [OF k0 K_register] e by (metis fst_conv)
  then have k: "K s (rc_upd r (\<lambda>rc. rc\<lparr>rc_capabilities := no_capabilities\<rparr>) s1)" using K_rc K_trans by blast
  show ?thesis
    unfolding dispatch_request_def Let_def s0_def [symmetric] Request.select_convs e prod.case
    using K_trans [OF k K_dispatch_serialized] K_trans [OF k K_dispatch_regular] by simp
qed

lemma K_dispatch_stream: "K s (dispatch_stream r s)"
proof (cases "cn_active_regular (ss_conns s (rc_conn (ss_rcs s r))) \<noteq> 0 \<or>
    cn_pending_serialized (ss_conns s (rc_conn (ss_rcs s r))) \<noteq> 0")
  case True
  then show ?thesis using K_conn by (simp add: dispatch_stream_def Let_def)
next
  case False
  obtain s1 got where a: "try_acquire_stream_slot s = (s1, got)" by fastforce
  then have k1: "K s s1" using K_streams K_refl by (auto simp: try_acquire_stream_slot_def split: if_splits)
  have rej: "K s (conn_upd c f (record_stream_rejection s1))" for c f
    unfolding record_stream_rejection_def by (rule K_trans [OF K_trans [OF k1 K_counters] K_conn])
  let ?c = "rc_conn (ss_rcs s r)"
  define s2 where "s2 = rc_upd r (\<lambda>rc. rc\<lparr>rc_route_buffer := [], rc_reserved_request_bytes := 0\<rparr>) (record_stream_request s1)"
  define s3 where "s3 = (if ss_readiness_fd s2 \<ge> 0
    then world_upd (\<lambda>w. fst (readiness_control Ctl_remove (cn_fd (ss_conns s2 ?c)) 0 0 w)) s2 else s2)"
  define s4 where "s4 = rc_upd r (\<lambda>rc. rc\<lparr>rc_pending := [], rc_pending_offset := 0\<rparr>)
    (conn_upd ?c (\<lambda>cn. cn\<lparr>cn_stream_active := True\<rparr>) s3)"
  have "K s s2" unfolding s2_def record_stream_request_def by (rule K_trans [OF K_trans [OF k1 K_counters] K_rc])
  then have "K s s3" unfolding s3_def world_upd_def using K_trans [OF _ K_world] by simp
  then have k4: "K s s4" unfolding s4_def using K_trans [OF _ K_conn] K_trans [OF _ K_rc] by blast
  have enq: "K s (case enqueue_worker_job c q x d h k st rb bf bo s4 of (s, True) \<Rightarrow> s
      | (s, False) \<Rightarrow> conn_upd ?c (\<lambda>cn. cn\<lparr>cn_closing := True\<rparr>) s)" for c q x d h k st rb bf bo
    using K_trans [OF k4 K_enqueue_worker] K_trans [OF K_trans [OF k4 K_enqueue_worker] K_conn]
    by (simp add: split_beta split: bool.split)
  show ?thesis
    unfolding dispatch_stream_def Let_def if_not_P [OF False] a prod.case s2_def [symmetric] s3_def [symmetric]
      s4_def [symmetric]
    using rej enq by (simp split: bool.split)
qed

lemma K_begin_request: "K s (fst (begin_request_payload r s))"
proof -
  note r = K_reserve [of s "rc_conn (ss_rcs s r)" "rc_payload_total (ss_rcs s r)"]
  show ?thesis
    using K_rc K_trans [OF r K_pause] K_trans [OF K_trans [OF r K_rc] K_rc]
    by (simp add: begin_request_payload_def Let_def split_beta split: bool.split)
qed

lemma K_begin_stream: "K s (fst (begin_stream_route r s))"
proof -
  note r = K_reserve [of s "rc_conn (ss_rcs s r)" "unat (rc_arg1 (ss_rcs s r))"]
  show ?thesis
    using K_rc K_trans [OF r K_pause] K_trans [OF K_trans [OF r K_rc] K_rc]
    by (simp add: begin_stream_route_def Let_def split_beta split: bool.split)
qed

lemma K_accept_request: "K s (fst (accept_request_header h r s))"
proof -
  define s1 where "s1 = (if dh_flags h AND carries_fd_flag \<noteq> 0
    then rc_upd r (\<lambda>rc. rc\<lparr>rc_capabilities := (rc_capabilities rc)\<lparr>cap_received_fd := hd (rc_received_fds rc)\<rparr>,
           rc_received_fds := tl (rc_received_fds rc)\<rparr>) s else s)"
  have k1: "K s s1" using K_rc K_refl by (simp add: s1_def)
  note k2 = K_trans [OF K_trans [OF k1 K_rc] K_begin_request]
  show ?thesis
    unfolding accept_request_header_def Let_def s1_def [symmetric]
    using k1 k2 K_refl by (simp split: sum.split)
qed

lemma K_accept_stream: "K s (fst (accept_stream_header h r s))"
proof -
  define s1 where "s1 = rc_upd r (\<lambda>rc. rc\<lparr>rc_request_id := dh_request_id h, rc_arg1 := dh_arg1 h,
     rc_arg2 := 0, rc_phase := PP_stream_budget\<rparr>) s"
  obtain w d where e: "deadline_after (so_stream_timeout (ss_options s1)) (ss_world s1) = (w, d)" by fastforce
  have "K s s1" unfolding s1_def by (rule K_rc)
  note k = K_trans [OF K_trans [OF K_trans [OF this K_world] K_rc] K_begin_stream]
  show ?thesis
    unfolding accept_stream_header_def Let_def s1_def [symmetric] e prod.case
    using k K_refl by simp
qed

lemma K_cancel: "K s (cancel_request c i s)"
  using K_flags K_conn K_refl by (simp add: cancel_request_def split: option.split)

lemma K_accept_header: "K s (fst (accept_header h r s))"
proof -
  let ?c = "rc_conn (ss_rcs s r)"
  define s1 where "s1 = (if cn_wire_version (ss_conns s ?c) = 0
    then conn_upd ?c (\<lambda>cn. cn\<lparr>cn_wire_version := dh_version h\<rparr>) s else s)"
  have k1: "K s s1" using K_conn K_refl by (simp add: s1_def)
  show ?thesis
    unfolding accept_header_def Let_def s1_def [symmetric]
    using k1 K_trans [OF K_trans [OF k1 K_cancel] K_rc] K_trans [OF k1 K_accept_request]
      K_trans [OF k1 K_accept_stream] by simp
qed

lemma K_clock: "K s (fst (clock_read s))"
  using K_world by (simp add: clock_read_def split_beta)

lemma K_start_arrival: "K s (start_arrival r s)"
  using K_trans [OF K_clock K_rc] K_refl by (simp add: start_arrival_def split_beta)

lemma K_parse_header: "K s (fst (parse_header r s))"
proof -
  define s1 where "s1 = rc_upd r take_header_bytes (start_arrival r s)"
  have k1: "K s s1" unfolding s1_def by (rule K_trans [OF K_start_arrival K_rc])
  define s2 where "s2 = rc_upd r (\<lambda>rc. rc\<lparr>rc_header_received := 0\<rparr>) s1"
  note k2 = K_trans [OF K_trans [OF k1 K_rc [of s1 r "\<lambda>rc. rc\<lparr>rc_header_received := 0\<rparr>", folded s2_def]] K_rc]
  show ?thesis
    unfolding parse_header_def Let_def s1_def [symmetric] s2_def [symmetric]
    using K_trans [OF k1 K_rc] k2 K_trans [OF k2 K_accept_header] by (simp split: sum.split)
qed

lemma K_parse_payload: "K s (fst (parse_payload shard alloc r s))"
proof -
  define s1 where "s1 = rc_upd r take_payload_bytes s"
  define s2 where "s2 = rc_upd r (release_consumed_pending (strict_budget s1)) s1"
  have k: "K s s2" unfolding s2_def s1_def by (rule K_trans [OF K_rc K_rc])
  obtain s3 x where d: "dispatch_request shard (alloc s2) r s2 = (s3, x)" by fastforce
  have "K s s3" using K_trans [OF k K_dispatch] d by (metis fst_conv)
  then show ?thesis
    unfolding parse_payload_def Let_def s1_def [symmetric] s2_def [symmetric] d prod.case
    using k K_trans [OF _ K_rc] by (simp split: sum.split)
qed

lemma K_parse_route: "K s (fst (parse_route r s))"
proof -
  define s1 where "s1 = rc_upd r take_route_bytes s"
  define s2 where "s2 = rc_upd r (release_consumed_pending (strict_budget s1)) s1"
  have k: "K s s2" unfolding s2_def s1_def by (rule K_trans [OF K_rc K_rc])
  show ?thesis
    unfolding parse_route_def Let_def s1_def [symmetric] s2_def [symmetric]
    using k K_trans [OF k K_dispatch_stream] by simp
qed

lemma K_parse_loop: "K s (fst (parse_loop shard alloc r s))"
proof (induction shard alloc r s rule: parse_loop.induct)
  case (1 shard alloc r s)
  obtain s1 x where e: "parse_once shard alloc r s = (s1, x)" by fastforce
  have k: "K s s1"
    using e K_parse_header [of s r] K_parse_payload [of s shard alloc r] K_parse_route [of s r]
    by (auto simp: parse_once_def split: if_splits)
  show ?case
    using "1.IH" [OF e [symmetric]] k K_trans by (subst parse_loop.simps) (auto simp: e split: parse_step.split)
qed

lemma K_recv: "K s (fst (recv_with_fds r cap s))"
  using K_world K_trans [OF K_world K_rc]
  by (simp add: recv_with_fds_def Let_def split_beta split: sum.split)

lemma K_append: "K s (append_pending r d s)"
proof -
  have "K s (mark_io_progress c s)" for c
    using K_trans [OF K_clock K_conn] by (simp add: mark_io_progress_def split_beta)
  then show ?thesis unfolding append_pending_def Let_def using K_trans K_rc by blast
qed

lemma K_read_loop: "K s (fst (read_loop_fds r n s))"
proof (induction r n s rule: read_loop_fds.induct)
  case (1 r n s)
  obtain s1 x where e: "recv_with_fds r (request_size s r n) s = (s1, x)" by fastforce
  have k: "K s s1" using K_recv [of s r "request_size s r n"] e by simp
  note ka = K_trans [OF k K_append]
  have kc: "K s (mark_closing r s1)" unfolding mark_closing_def by (rule K_trans [OF k K_conn])
  have more: "K s (fst (read_loop_fds r (n + length d) (append_pending r d s1)))"
    if "n < reactor_read_batch_size" "\<not> (strict_budget s \<and> request_size s r n = 0)" "x = Inr (Inr d)" "d \<noteq> []"
      "\<not> strict_budget (append_pending r d s1)" for d
    by (rule K_trans [OF ka "1.IH"(2) [OF _ refl _ e [symmetric] that(3) refl that(4) refl that(5)]])
      (use that in auto)
  have again: "K s (fst (read_loop_fds r n s1))"
    if "n < reactor_read_batch_size" "\<not> (strict_budget s \<and> request_size s r n = 0)" "x = Inr (Inl EINTR)"
    by (rule K_trans [OF k "1.IH"(1) [OF _ refl _ e [symmetric] that(3) refl refl]]) (use that in auto)
  show ?case
    using more again k ka kc K_refl by (subst read_loop_fds.simps) (auto simp: e Let_def split: sum.split)
qed

lemma K_consume: "K s (fst (consume shard alloc r s))"
proof -
  obtain s1 g1 where 1: "(if rc_phase (ss_rcs s r) = PP_request_budget then begin_request_payload r s
      else (s, True)) = (s1, g1)" by fastforce
  obtain s2 g2 where 2: "(if rc_phase (ss_rcs s1 r) = PP_stream_budget then begin_stream_route r s1
      else (s1, True)) = (s2, g2)" by fastforce
  obtain s3 x where 3: "read_loop_fds r 0 s2 = (s3, x)" by fastforce
  have k1: "K s s1" using 1 K_begin_request [of s r] K_refl by (auto split: if_splits)
  have k2: "K s s2" using 2 K_trans [OF k1 K_begin_stream [of s1 r]] k1 by (auto split: if_splits)
  have k3: "K s s3" using K_trans [OF k2 K_read_loop [of s2 r 0]] 3 by simp
  show ?thesis
    unfolding consume_def Let_def 1 prod.case 2 3
    using k1 k2 k3 K_trans [OF k3 K_parse_loop] by (simp split: read_result.split)
qed

end

subsection \<open>The connection table\<close>

text \<open>A turn of the reactor on one connection only ever removes entries of the table.\<close>

definition table_shrinks :: "ServerState \<Rightarrow> ServerState \<Rightarrow> bool" where
  "table_shrinks s s' \<longleftrightarrow> ss_options s' = ss_options s \<and> ss_running s' = ss_running s \<and>
     (\<exists>P. ss_connections s' = filter P (ss_connections s))"

lemma table_same:
  "ss_options s' = ss_options s \<Longrightarrow> ss_running s' = ss_running s \<Longrightarrow>
     ss_connections s' = ss_connections s \<Longrightarrow> table_shrinks s s'"
  unfolding table_shrinks_def by (auto intro: exI [of _ "\<lambda>_. True"])

lemma table_shrinks_trans: "table_shrinks s s' \<Longrightarrow> table_shrinks s' s'' \<Longrightarrow> table_shrinks s s''"
  unfolding table_shrinks_def by auto

lemma table_close: "table_shrinks s (close_connection fd s)"
proof -
  have "\<exists>P. ss_connections (close_connection fd s) = filter P (ss_connections s)"
    by (auto simp: close_connection_def Let_def AList.delete_eq split: option.split
        intro: exI [of _ "\<lambda>_. True"])
  then show ?thesis by (simp add: table_shrinks_def)
qed

lemma table_send: "table_shrinks s (fst (send_response c i r d s))"
proof -
  obtain w x where w: "check_deadline d ''send timed out'' (ss_world s) = (w, x)" by fastforce
  obtain s1 y where e: "enqueue_frame c (response_frame (ss_conns s c) i r d) (s\<lparr>ss_world := w\<rparr>) = (s1, y)"
    by fastforce
  have k: "table_shrinks s s1"
    using enqueue_frame_frame [of c "response_frame (ss_conns s c) i r d" "s\<lparr>ss_world := w\<rparr>"] e
    by (intro table_same) simp_all
  have "table_shrinks s (close_connection fd (conn_upd c f s1))" for fd f
    by (rule table_shrinks_trans [OF table_shrinks_trans [OF k table_same] table_close]) simp_all
  moreover have "table_shrinks s (s\<lparr>ss_world := w\<rparr>)" by (rule table_same) simp_all
  moreover have "table_shrinks s (wake_reactor (fst (refresh_connection_events c s1)))"
    "table_shrinks s (fst (refresh_connection_events c s1))"
    by (rule table_shrinks_trans [OF k table_same]; simp)+
  ultimately show ?thesis
    using k by (simp add: send_response_def w Let_def e split_beta split: sum.split enqueue_result.split bool.split)
qed

lemma table_error: "table_shrinks s (fst (write_error_response c i m d st s))"
  by (simp add: write_error_response_def write_fixed_response_eq table_send)

lemma or_closing_table:
  assumes "table_shrinks s (fst sr)" shows "table_shrinks s (or_closing c sr)"
  using table_shrinks_trans [OF assms table_same]
  by (cases sr; cases "snd sr") (simp_all add: or_closing_def assms [unfolded fst_conv])

lemma table_superseded: "table_shrinks s (finish_superseded_job job s)"
proof -
  define s1 where "s1 = record_serialized_superseded s"
  have "table_shrinks s s1" by (rule table_same) (simp_all add: s1_def record_serialized_superseded_def)
  then have "table_shrinks s (or_closing c (write_error_response c i m d st s1))" for c i m d st
    by (intro or_closing_table table_shrinks_trans [OF _ table_error])
  then show ?thesis
    unfolding finish_superseded_job_def Let_def s1_def [symmetric]
    by (rule table_shrinks_trans) (rule table_same, simp_all add: complete_serialized_def Let_def)
qed

lemma fold_table: "(\<And>x s. table_shrinks s (f x s)) \<Longrightarrow> table_shrinks s (fold f xs s)"
  by (induction xs arbitrary: s) (auto intro: table_same table_shrinks_trans)

lemma table_admit: "table_shrinks s (fst (admit_serialized_job sched job a b s))"
proof -
  have ins: "table_shrinks s (fst (insert_serialized sched job s))" for s
    by (rule table_same) (simp_all add: insert_serialized_def activity_upd_def Let_def split_beta)
  have acc: "table_shrinks s (account_serialized a b job s)" for s
    by (rule table_same) (simp_all add: account_serialized_def Let_def split: option.split)
  have act: "table_shrinks s (serialized_domain_activity d s)" for d s
    by (rule table_same) (simp_all add: serialized_domain_activity_def split: option.split)
  have ens: "table_shrinks s (fst (ensure_serialized_worker_count n s))" for n s
    by (rule table_same) (simp_all add: ensure_serialized_worker_count_def Let_def)
  have busy: "table_shrinks s (record_serialized_busy_rejection s)" for s
    by (rule table_same) (simp_all add: record_serialized_busy_rejection_def)
  define s1 where "s1 = serialized_domain_activity (rs_domain sched) s"
  obtain s2 e where e: "ensure_serialized_worker_count (desired_serialized_worker_count s1 (rs_domain sched)) s1 = (s2, e)"
    by fastforce
  have k: "table_shrinks s s2"
    using table_shrinks_trans [OF act [of s "rs_domain sched", folded s1_def] ens] e by (metis fst_conv)
  show ?thesis
    unfolding admit_serialized_job_def Let_def s1_def [symmetric] e prod.case
    using k table_same [OF refl refl refl, of s] table_shrinks_trans [OF k busy]
      table_shrinks_trans [OF table_shrinks_trans [OF k ins] acc]
    by (simp add: split_beta)
qed

lemma table_drop: "table_shrinks s (drop_capabilities caps s)"
  by (rule table_same) simp_all

lemma table_enqueue: "table_shrinks s (fst (enqueue_serialized_job job a b s))"
proof (cases "route_scheduling (sj_handler job)")
  case (Inr sched)
  obtain s1 x gone where r: "admit_serialized_job sched job a b s = (s1, x, gone)" by (metis prod_cases3)
  have "table_shrinks s s1" using table_admit [of s sched job a b] r by simp
  moreover have "table_shrinks s1 (fold drop_job gone (fold finish_superseded_job gone s1))"
    by (rule table_shrinks_trans; rule fold_table) (simp_all add: table_superseded drop_job_def table_drop)
  ultimately show ?thesis
    using table_shrinks_trans by (simp add: enqueue_serialized_job_def Inr r)
qed (simp add: enqueue_serialized_job_def table_same)

interpretation table: read_turn_frame table_shrinks
proof unfold_locales
  fix s s' s'' :: ServerState
  show "table_shrinks s s' \<Longrightarrow> table_shrinks s' s'' \<Longrightarrow> table_shrinks s s''" by (rule table_shrinks_trans)
qed (rule table_error table_enqueue table_drop | (rule table_same; simp add: counter_upd_def))+

lemma flush_loop_table: "table_shrinks s (fst (flush_loop c n s))"
proof (induction c n s rule: flush_loop.induct)
  case (1 c n s)
  have same: "table_shrinks s (conn_upd c f s')" "table_shrinks s s'" "table_shrinks s (s'\<lparr>ss_world := w\<rparr>)"
    if "ss_options s' = ss_options s" "ss_running s' = ss_running s" "ss_connections s' = ss_connections s" for s' f w
    using that by (auto intro: table_same)
  show ?case
  proof (cases "cn_output_queue (ss_conns s c)")
    case Nil
    then show ?thesis by (subst flush_loop.simps) (simp add: table_same)
  next
    case (Cons f fs)
    obtain s1 late where e: "front_expired f s = (s1, late)" by fastforce
    have k1: "ss_options s1 = ss_options s" "ss_running s1 = ss_running s" "ss_connections s1 = ss_connections s"
      using e by (auto simp: front_expired_def split: if_splits prod.splits
          dest: arg_cong [where f = "\<lambda>x. ss_options (fst x)"] arg_cong [where f = "\<lambda>x. ss_running (fst x)"]
            arg_cong [where f = "\<lambda>x. ss_connections (fst x)"])
    obtain w x where x: "send_frame_once (cn_fd (ss_conns s1 c)) f (ss_world s1) = (w, x)" by fastforce
    have fp: "table_shrinks s (flush_progress c f fs m (s1\<lparr>ss_world := w\<rparr>))" for m
      by (rule table_same) (simp_all add: flush_progress_def Let_def k1)
    note ih = "1.IH" [OF Cons _ e [symmetric] _ x [symmetric]]
    show ?thesis
      using same [OF k1] same [of "s1\<lparr>ss_world := w\<rparr>"] k1 fp table_shrinks_trans [OF fp ih] table_same [OF refl refl refl, of s]
      by (subst flush_loop.simps) (auto simp: Cons e x Let_def split: bool.split sum.split)
  qed
qed

lemma flush_table: "table_shrinks s (fst (flush_connection_output r s))"
proof -
  note k = flush_loop_table [of s "rc_conn (ss_rcs s r)" 0]
  have "table_shrinks s (fst (refresh_connection_events c (fst (flush_loop (rc_conn (ss_rcs s r)) 0 s))))" for c
    by (rule table_shrinks_trans [OF k table_same]) simp_all
  with k show ?thesis
    by (simp add: flush_connection_output_def Let_def split_beta split: bool.split)
qed

end
