(* ===== verification/EventLoopProps.thy ===== *)
theory EventLoopProps
  imports ReactorFrames
begin

text \<open>
  Properties of the reactor: the connection limit, stale events, deadlines.
\<close>

subsection \<open>The connection limit\<close>

definition table_ok :: "ServerState \<Rightarrow> bool" where
  "table_ok s \<longleftrightarrow> distinct (map fst (ss_connections s)) \<and>
     length (ss_connections s) \<le> so_max_connections (ss_options s)"

lemma table_ok_shrinks: "table_shrinks s s' \<Longrightarrow> table_ok s \<Longrightarrow> table_ok s'"
  unfolding table_shrinks_def table_ok_def
  by (auto simp: distinct_map_filter intro: order_trans [OF length_filter_le])

lemma table_conn_rc [simp]: "table_shrinks s (conn_upd c f s)" "table_shrinks s (rc_upd r g s)"
  by (rule table_same; simp)+

lemma read_turn_table: "table_shrinks s (read_turn shard alloc fd r s)"
proof -
  have "table_shrinks s (consume_or_close shard alloc r s)"
    using table.K_consume [of s shard alloc r] table_shrinks_trans [OF table.K_consume [of s shard alloc r] table_conn_rc(1)]
    by (simp add: consume_or_close_def split_beta split: sum.split)
  then show ?thesis
    using table_shrinks_trans [OF _ table_close] table_shrinks_trans [OF _ table_conn_rc(2)]
    by (simp add: read_turn_def reactor_idle_def Let_def)
qed

lemma resume_one_table: "table_shrinks s (resume_one shard alloc r s)"
  using table_shrinks_trans [OF table_conn_rc(2) read_turn_table] table_same [OF refl refl refl, of s]
  by (simp add: resume_one_def)

lemma process_resumed_table: "table_shrinks s (process_resumed n shard alloc s)"
proof (induction n arbitrary: s)
  case (Suc n)
  have "table_shrinks s (s\<lparr>ss_resumed_connections := rs\<rparr>)" for rs by (rule table_same) simp_all
  note k = table_shrinks_trans [OF table_shrinks_trans [OF this resume_one_table] Suc.IH]
  show ?case using k by (simp add: table_same split: list.split)
qed (simp add: table_same)

lemma expire_table: "table_shrinks s (fst (expire_reactor_connections s))"
proof -
  have "table_shrinks s (fst (clock_read s))" by (rule table_same) simp_all
  note k = table_shrinks_trans [OF this fold_table [OF table_close]]
  show ?thesis using k by (simp add: expire_reactor_connections_def split_beta)
qed

lemma connection_event_table: "table_shrinks s (connection_event shard alloc m fd g s)"
proof -
  have idle: "table_shrinks s (reactor_idle fd r s)" for r s
    by (simp add: reactor_idle_def table_same)
  have claimed: "table_shrinks s (claimed_event shard alloc m fd r b s)" for r b s
  proof -
    obtain s1 ok where f: "(if m AND writable \<noteq> 0 then flush_connection_output r s else (s, True)) = (s1, ok)"
      by fastforce
    have k: "table_shrinks s s1" using f flush_table [of s r] table_same by (auto split: if_splits)
    show ?thesis
      unfolding claimed_event_def f prod.case
      using table_close table_shrinks_trans [OF k table_close] table_shrinks_trans [OF k read_turn_table]
        table_shrinks_trans [OF k idle] by (simp split: bool.split)
  qed
  show ?thesis
    using table_close table_shrinks_trans [OF table_conn_rc(2) claimed]
    by (simp add: connection_event_def table_same split: option.split)
qed

lemma accept_client_table:
  assumes "length (ss_connections s) < so_max_connections (ss_options s)"
  shows "\<exists>r. ss_options (accept_client allocc allocr fd s) = ss_options s \<and>
    ss_connections (accept_client allocc allocr fd s) \<in>
      {AList.update fd r (ss_connections s), AList.delete fd (AList.update fd r (ss_connections s))}"
proof -
  obtain s1 i where 1: "on_world capture s = (s1, i)" by fastforce
  obtain s2 now where 2: "clock_read s1 = (s2, now)" by fastforce
  define s3 where "s3 = conn_upd (allocc s2) (\<lambda>_. new_connection fd i now) s2"
  obtain s4 g where 4: "allocate_connection_generation s3 = (s4, g)" by fastforce
  define s5 where "s5 = rc_upd (allocr s2) (\<lambda>_. (new_reactor_connection (allocc s2))
    \<lparr>rc_generation := g, rc_registered_events := readable\<rparr>) s4"
  define s6 where "s6 = s5\<lparr>ss_connections := AList.update fd (allocr s2) (ss_connections s5)\<rparr>"
  obtain s7 ok where 7: "on_world (readiness_control Ctl_add fd readable (connection_token fd g)) s6 = (s7, ok)" by fastforce
  have "ss_options s1 = ss_options s" "ss_connections s1 = ss_connections s"
    using 1 by (auto simp: on_world_def split: prod.splits)
  moreover have "ss_options s2 = ss_options s1" "ss_connections s2 = ss_connections s1"
    using 2 clock_read_frame [of s1] by simp_all
  moreover have "ss_options s4 = ss_options s2" "ss_connections s4 = ss_connections s2"
    using 4 by (auto simp: allocate_connection_generation_def Let_def s3_def split: if_splits)
  moreover have "ss_options s7 = ss_options s6" "ss_connections s7 = ss_connections s6"
    using 7 by (auto simp: on_world_def split: prod.splits)
  ultimately have k: "ss_options s7 = ss_options s" "ss_connections s7 = AList.update fd (allocr s2) (ss_connections s)"
    by (simp_all add: s6_def s5_def)
  have "accept_client allocc allocr fd s = (if ok then record_accepted_connection s7
      else world_upd (socket_close fd) (s7\<lparr>ss_connections := AList.delete fd (ss_connections s7)\<rparr>))"
    unfolding accept_client_def 1 prod.case 2 Let_def s3_def [symmetric] 4 s5_def [symmetric] s6_def [symmetric] 7
    using assms by (simp split: bool.split)
  then show ?thesis
    by (intro exI [of _ "allocr s2"]) (simp add: k record_accepted_connection_def)
qed

lemma length_update_le: "length (AList.update k v xs) \<le> Suc (length xs)"
  by (induction xs) auto

lemma accept_client_ok:
  assumes "table_ok s" shows "table_ok (accept_client allocc allocr fd s)"
proof (cases "length (ss_connections s) < so_max_connections (ss_options s)")
  case False
  then show ?thesis using assms by (simp add: accept_client_def table_ok_def record_rejected_connection_def)
next
  case True
  obtain r where o: "ss_options (accept_client allocc allocr fd s) = ss_options s"
    and t: "ss_connections (accept_client allocc allocr fd s) \<in>
      {AList.update fd r (ss_connections s), AList.delete fd (AList.update fd r (ss_connections s))}"
    using accept_client_table [OF True] by blast
  have u: "distinct (map fst (AList.update fd r (ss_connections s)))"
    "length (AList.update fd r (ss_connections s)) \<le> so_max_connections (ss_options s)"
    using assms True distinct_update [of "ss_connections s" fd r] length_update_le [of fd r "ss_connections s"]
    by (simp_all add: table_ok_def)
  then have "distinct (map fst (AList.delete fd (AList.update fd r (ss_connections s))))"
    "length (AList.delete fd (AList.update fd r (ss_connections s))) \<le> so_max_connections (ss_options s)"
    by (simp_all add: AList.delete_eq distinct_map_filter order_trans [OF length_filter_le])
  with u t o show ?thesis by (auto simp: table_ok_def)
qed

lemma accept_batch_ok: "table_ok s \<Longrightarrow> table_ok (fst (accept_batch allocc allocr n s))"
proof (induction allocc allocr n s rule: accept_batch.induct)
  case (1 allocc allocr n s)
  obtain s1 x where e: "on_world accept_socket s = (s1, x)" by fastforce
  have "table_ok s1" using e "1.prems" by (auto simp: on_world_def table_ok_def split: prod.splits)
  then show ?case
    using "1.IH"(1) [OF _ e [symmetric]] "1.IH"(2) [OF _ e [symmetric]] accept_client_ok "1.prems"
    by (subst accept_batch.simps) (auto simp: e split: sum.split)
qed

lemma reactor_event_ok:
  assumes "table_ok s" shows "table_ok (fst (reactor_event shard alloc allocc allocr ev s))"
proof -
  have "table_ok (s\<lparr>ss_wake_pending := False, ss_world := w\<rparr>)" for w using assms by (simp add: table_ok_def)
  then show ?thesis
    using assms accept_batch_ok [OF assms, of allocc allocr 0] table_ok_shrinks [OF connection_event_table assms]
    by (simp add: reactor_event_def split_beta world_upd_def split: sum.split)
qed

lemma process_events_ok:
  "table_ok s \<Longrightarrow> table_ok (fst (process_events shard alloc allocc allocr evs s))"
proof (induction shard alloc allocc allocr evs s rule: process_events.induct)
  case (2 shard alloc allocc allocr ev evs s)
  obtain s1 x where e: "reactor_event shard alloc allocc allocr ev s = (s1, x)" by fastforce
  have "table_ok s1" using reactor_event_ok [OF 2(2), of shard alloc allocc allocr ev] e by simp
  then show ?case using 2(1) [OF e [symmetric]] by (cases x) (simp_all add: e)
qed simp

text \<open>
  C33: a round of the reactor - resumed connections, expired deadlines, readiness events with
  whatever arrives on them, and a batch of accepted clients - keeps one entry per descriptor in the
  connection table and never lets it grow beyond \<^verbatim>\<open>max_connections\<close>.
\<close>

theorem connections_bounded:
  assumes "distinct (map fst (ss_connections s))" "length (ss_connections s) \<le> so_max_connections (ss_options s)"
  shows "case reactor_iteration shard alloc allocc allocr s of (s', result) \<Rightarrow>
    distinct (map fst (ss_connections s')) \<and> length (ss_connections s') \<le> so_max_connections (ss_options s')"
proof -
  define s1 where "s1 = process_resumed_connections shard alloc s"
  obtain s2 d where 2: "expire_reactor_connections s1 = (s2, d)" by fastforce
  obtain s3 t where 3: "on_world (poll_timeout_clock d) s2 = (s3, t)" by fastforce
  obtain s4 x where 4: "on_world (readiness_wait t) s3 = (s4, x)" by fastforce
  have "table_ok s" using assms(1,2) by (simp add: table_ok_def)
  then have "table_ok s1"
    unfolding s1_def process_resumed_connections_def using process_resumed_table table_ok_shrinks by blast
  then have "table_ok s2" using table_ok_shrinks [OF expire_table [of s1]] 2 by simp
  then have "table_ok s4" using 3 4 by (auto simp: on_world_def table_ok_def split: prod.splits)
  then have "table_ok (fst (reactor_iteration shard alloc allocc allocr s))"
    unfolding reactor_iteration_def Let_def s1_def [symmetric] 2 prod.case 3 4
    using process_events_ok by (simp split: option.split sum.split)
  then show ?thesis by (simp add: table_ok_def split_beta)
qed

lemma connections_bounded_witness:
  "let s = (blank_state default_server_options)\<lparr>ss_world := quiet_world\<lparr>w_events := [Inr [(EPOLLIN, listener_token)]],
         w_accept := [Inr 5, Inr 6]\<rparr>\<rparr>
   in case reactor_iteration 0 (\<lambda>_. 0) (\<lambda>_. 0) (\<lambda>_. 0) s of (s', result) \<Rightarrow>
        distinct (map fst (ss_connections s')) \<and> length (ss_connections s') \<le> so_max_connections (ss_options s')"
  unfolding Let_def by (rule connections_bounded) (simp_all add: blank_state_def)

subsection \<open>Stale events\<close>

lemma event_token:
  assumes "fd_ok fd"
  shows "event_fd (connection_token fd g) = fd" "event_generation (connection_token fd g) = g"
proof -
  show "event_generation (connection_token fd g) = g" by (simp add: event_generation_def token_generation)
  have "(ucast (connection_token fd g) :: u32) = word_of_int fd"
    by (rule bit_word_eqI) (simp add: bit_unsigned_iff token_bits bit_word_of_int_iff)
  then show "event_fd (connection_token fd g) = fd"
    using assms by (simp add: event_fd_def fd_ok_def sint_sbintrunc' signed_take_bit_int_eq_self)
qed



subsection \<open>Deadlines\<close>

definition due :: "time \<Rightarrow> ServerState \<Rightarrow> fd \<times> nat \<Rightarrow> bool" where
  "due now s = (\<lambda>(fd, r). \<not> leased r s \<and>
     (cn_closing (ss_conns s (rc_conn (ss_rcs s r))) \<or>
      reactor_deadline r s \<noteq> deadline_max \<and> reactor_deadline r s \<le> now))"

definition waiting :: "time \<Rightarrow> ServerState \<Rightarrow> fd \<times> nat \<Rightarrow> bool" where
  "waiting now s e \<longleftrightarrow> \<not> leased (snd e) s \<and> \<not> due now s e"

lemma earlier_min: "earlier_deadline a b = min a b"
  by (simp add: earlier_deadline_def min_def)

lemma expire_step_eq:
  "expire_step s now e (expired, d) =
     (expired @ (if due now s e then [fst e] else []),
      if waiting now s e then min (reactor_deadline (snd e) s) d else d)"
  by (cases e) (simp add: expire_step_def due_def waiting_def earlier_min min.commute Let_def)

lemma expire_fold:
  "fold (expire_step s now) es (expired, d) =
     (expired @ map fst (filter (due now s) es),
      fold min (map (\<lambda>e. reactor_deadline (snd e) s) (filter (waiting now s) es)) d)"
  by (induction es arbitrary: expired d) (simp_all add: expire_step_eq)


end
