(* ===== verification/WorkerProps.thy ===== *)
theory WorkerProps
  imports Workers
begin

text \<open>
  Properties of the workers: a leased connection is parsed like the reactor parses it, an answered
  request is taken off the counts once, and the case in which a refused one is not.
\<close>

subsection \<open>A leased connection is parsed like any other\<close>

lemma lease_read_track:
  assumes "smooth (ss_world s) (cn_fd (ss_conns s c))" "lease_bytes c src s = x @ y" "length x = n"
  shows "\<exists>w src'. lease_read c n deadline_max src s = (s\<lparr>ss_world := w\<rparr>, src', Inr x) \<and>
    smooth w (cn_fd (ss_conns s c)) \<and> lease_bytes c src' (s\<lparr>ss_world := w\<rparr>) = y"
proof -
  let ?fd = "cn_fd (ss_conns s c)"
  have "n \<le> length (lease_bytes c src s)" using assms(2,3) by simp
  then obtain src' w out where r: "source_read ?fd n (so_io_timeout (ss_options s)) deadline_max src (ss_world s) =
      (src', w, Inr out)" "smooth w ?fd"
    using source_read_smooth [OF assms(1)] by blast
  note e = source_read_exact(1,2) [OF r(1)]
  have "out = x" "source_bytes ?fd src' w = y" using e assms(2,3) by simp_all
  then show ?thesis using r by (intro exI [of _ w] exI [of _ src']) (simp add: lease_read_def)
qed

lemma lease_part_track:
  assumes "smooth (ss_world s) (cn_fd (ss_conns s c))" "lease_bytes c src s = x @ y" "length x = n"
  shows "\<exists>w src'. lease_part c n deadline_max src s = (s\<lparr>ss_world := w\<rparr>, src', Inr x) \<and>
    smooth w (cn_fd (ss_conns s c)) \<and> lease_bytes c src' (s\<lparr>ss_world := w\<rparr>) = y"
proof (cases "n = 0")
  case True
  then have "lease_part c n deadline_max src s = (s\<lparr>ss_world := ss_world s\<rparr>, src, Inr x)"
    using assms(3) by (simp add: lease_part_def)
  then show ?thesis using assms True by (intro exI [of _ "ss_world s"] exI [of _ src]) simp
next
  case False
  then show ?thesis using lease_read_track [OF assms] by (simp add: lease_part_def)
qed

lemma request_lengths:
  assumes "length route + length body \<le> m" "m \<le> max_wire_field" "route \<noteq> []"
  shows "unat (dh_arg1 (request_header i route body v)) = length route"
    "unat (dh_arg2 (request_header i route body v)) = length body"
    "validate_request_lengths (length route) (length body) m = Inr ()"
  using assms by (auto simp: request_header_def unat_of_nat max_wire_field_def validate_request_lengths_def)



subsection \<open>A request gives back what it was charged\<close>

definition charged :: "ServerState \<Rightarrow> nat \<Rightarrow> nat \<times> nat" where
  "charged s c = (cn_active_regular (ss_conns s c), cn_inflight_requests (ss_conns s c))"

lemma charged_or_closing: "charged (or_closing c sr) x = charged (fst sr) x"
  by (simp add: charged_def or_closing_def split_beta split: sum.split)

lemma charged_answer_job: "charged (answer_job job s) x = charged s x"
  by (simp add: answer_job_def Let_def split_beta charged_or_closing)
    (simp add: charged_def record_queue_timeout_def)

lemma charged_try_acquire: "charged (fst (try_acquire_continuation_lease c s)) x = charged s x"
  by (simp add: try_acquire_continuation_lease_def on_world_def split_beta charged_def split: option.split)

lemma release_inflight_requests:
  "cn_inflight_requests (ss_conns (release_connection_request c n s) x) =
     (if x = c then sz_sub (cn_inflight_requests (ss_conns s c)) 1 else cn_inflight_requests (ss_conns s x))"
  by (simp add: release_connection_request_def Let_def sub_inflight_def)

lemma charged_complete:
  "charged (fst (complete_regular_request c n b s)) x =
     (if x = c then (sz_sub (fst (charged s c)) 1,
        if b then sz_sub (snd (charged s c)) 1 else snd (charged s c))
      else charged s x)"
  by (simp add: complete_regular_request_def Let_def charged_try_acquire)
    (simp add: charged_def release_inflight_requests)

text \<open>
  Whatever happens to a queued fixed request - it is answered, its handler throws, its response
  cannot be written, it expired in the queue, or the server stops - the worker takes it off the
  connection's counts exactly once.
\<close>

theorem worker_releases_request:
  "charged (fst (complete_regular_request (pj_connection job) (pj_request_bytes job) True (answer_job job s))) c =
     (case charged s c of (active_regular, inflight_requests) \<Rightarrow>
        if c = pj_connection job then (sz_sub active_regular 1, sz_sub inflight_requests 1)
        else (active_regular, inflight_requests))"
  by (simp add: charged_complete charged_answer_job split_beta)

lemma close_keeps_busy_entry:
  assumes "map_of (ss_connections s) fd = Some r" "rc_conn (ss_rcs s r) = c" "cn_active_regular (ss_conns s c) \<noteq> 0"
  shows "ss_connections (close_connection fd s) = ss_connections s"
  using assms by (simp add: close_connection_def Let_def)

lemma send_response_keeps_busy_entry:
  assumes "map_of (ss_connections s) (cn_fd (ss_conns s c)) = Some r" "rc_conn (ss_rcs s r) = c"
    "cn_active_regular (ss_conns s c) \<noteq> 0"
  shows "ss_connections (fst (send_response c i resp d s)) = ss_connections s"
  using assms close_keeps_busy_entry
  by (simp add: send_response_def Let_def split_beta split: sum.split enqueue_result.split bool.split)

lemma close_connection_closing:
  assumes "cn_closing (ss_conns s x)" shows "cn_closing (ss_conns (close_connection fd s) x)"
  using assms
  by (simp add: close_connection_def release_connection_request_bytes_def Let_def sub_inflight_def
      resume_closing split: option.split)

lemma busy_admission:
  assumes "enqueue_serialized_job job a b s = (s', Inr SA_busy)"
  shows "ss_conns s' = ss_conns s" "ss_connections s' = ss_connections s" "ss_rcs s' = ss_rcs s"
proof -
  obtain sched where sc: "route_scheduling (sj_handler job) = Inr sched"
    using assms by (auto simp: enqueue_serialized_job_def split: sum.splits)
  define s1 where "s1 = serialized_domain_activity (rs_domain sched) s"
  obtain s2 e where e: "ensure_serialized_worker_count (desired_serialized_worker_count s1 (rs_domain sched)) s1 = (s2, e)"
    by fastforce
  have "ss_connections s2 = ss_connections s1" "ss_conns s2 = ss_conns s1" "ss_rcs s2 = ss_rcs s1"
    using e by (auto simp: ensure_serialized_worker_count_def split: if_splits)
  moreover have "ss_connections s1 = ss_connections s" "ss_conns s1 = ss_conns s" "ss_rcs s1 = ss_rcs s"
    by (simp_all add: s1_def serialized_domain_activity_def split: option.split)
  moreover have "s' = record_serialized_busy_rejection s2"
    using assms [unfolded enqueue_serialized_job_def sc sum.case admit_serialized_job_def Let_def
        s1_def [symmetric] e prod.case]
    by (auto split: if_splits prod.splits)
  ultimately show "ss_conns s' = ss_conns s" "ss_connections s' = ss_connections s" "ss_rcs s' = ss_rcs s"
    by (simp_all add: record_serialized_busy_rejection_def)
qed

lemma refused_busy_request:
  assumes "serve_fixed_request c q caps a d s = (s1, Inl e)"
    "map_of (ss_connections s) (cn_fd (ss_conns s c)) = Some r" "rc_conn (ss_rcs s r) = c"
    "cn_active_regular (ss_conns s c) \<noteq> 0"
  shows "charged s1 c = charged s c" "ss_connections s1 = ss_connections s"
    "cn_fd (ss_conns s1 c) = cn_fd (ss_conns s c)" "rc_conn (ss_rcs s1 r) = c"
proof -
  obtain job where "serve_serialized c job s = (s1, Inl e)"
    using assms(1) by (auto simp: serve_fixed_request_def Let_def split: option.splits if_splits)
  moreover obtain sa x where sa: "enqueue_serialized_job job False False s = (sa, x)" by fastforce
  moreover obtain sw y where w: "write_error_response c (rq_request_id (sj_request job))
      (str ''serialization domain is busy'') deadline_max status_conflict sa = (sw, y)" by fastforce
  ultimately have x: "x = Inr SA_busy" and s1: "s1 = drop_job job sw"
    by (auto simp: serve_serialized_def split: sum.splits SerializedAdmission.splits)
  note k = busy_admission [OF sa [unfolded x]]
  obtain resp where w': "sw = fst (send_response c (rq_request_id (sj_request job)) resp deadline_max sa)"
    using w [unfolded write_error_response_def write_fixed_response_eq] by (metis fst_conv)
  have "ss_connections sw = ss_connections s"
    unfolding k(2) [symmetric] w' by (rule send_response_keeps_busy_entry) (use assms(2-4) k in simp_all)
  then show "charged s1 c = charged s c" "ss_connections s1 = ss_connections s"
    "cn_fd (ss_conns s1 c) = cn_fd (ss_conns s c)" "rc_conn (ss_rcs s1 r) = c"
    using k assms(3) write_error_response_frame [of c "rq_request_id (sj_request job)"
        "str ''serialization domain is busy''" deadline_max status_conflict sa]
    by (simp_all add: s1 drop_job_def charged_def w)
qed

text \<open>
  C32: a refusal of a leased request by a busy domain leaks its accounting. When the 409 cannot be
  written, the exception leaves \<^verbatim>\<open>serve_fixed_request\<close>, whose own handlers do not cover that call;
  the connection is closed with the request still counted, and since its counts never reach zero
  its entry stays in the connection table.
\<close>

theorem busy_refusal_leaks:
  assumes "serve_fixed_request c q caps a d s = (s1, Inl e)"
    "map_of (ss_connections s) (cn_fd (ss_conns s c)) = Some r" "rc_conn (ss_rcs s r) = c"
    "cn_active_regular (ss_conns s c) \<noteq> 0"
  shows "(case continue_failed c fresh src True e s1 of (s2, result) \<Rightarrow>
      result = CR_return \<and> cn_closing (ss_conns s2 c) \<and> charged s2 c = charged s c \<and>
      map_of (ss_connections s2) (cn_fd (ss_conns s2 c)) = Some r)"
proof -
  note k = refused_busy_request [OF assms]
  define s2 where "s2 = conn_upd c (\<lambda>cn. cn\<lparr>cn_closing := True\<rparr>) s1"
  have b: "map_of (ss_connections s2) (cn_fd (ss_conns s2 c)) = Some r" "rc_conn (ss_rcs s2 r) = c"
    "charged s2 c = charged s c" "cn_closing (ss_conns s2 c)"
    using k assms(2) by (simp_all add: s2_def charged_def)
  have act: "cn_active_regular (ss_conns s2 c) \<noteq> 0" using b(3) assms(4) by (simp add: charged_def)
  have "ss_connections (close_connection (cn_fd (ss_conns s2 c)) s2) = ss_connections s2"
    by (rule close_keeps_busy_entry [OF b(1,2) act])
  moreover have "cn_closing (ss_conns (close_connection (cn_fd (ss_conns s2 c)) s2) c)"
    using b by (intro close_connection_closing)
  ultimately show ?thesis using b
    by (simp add: continue_failed_def Let_def s2_def [symmetric] rearm_connection_def charged_def)
qed

definition reject_entry :: HandlerEntry where
  "reject_entry = make_route_options_entry (Some (\<lambda>_. Returned (Response_ok []))) None True True [] QP_reject_if_busy"

definition busy_sample :: ServerState where
  "busy_sample = (blank_state default_server_options)
     \<lparr>ss_running := True, ss_default_domain := \<lparr>da_active = True, da_queued = 0\<rparr>,
      ss_active_domain_count := 1, ss_busy_domain_count := 1, ss_serialized_worker_count := 1,
      ss_handler_registry := empty_registry\<lparr>hr_handlers := [([47], reject_entry)]\<rparr>,
      ss_conns := (\<lambda>_. (new_connection 5 no_identity 0)\<lparr>cn_active_regular := 1, cn_inflight_requests := 1\<rparr>),
      ss_rcs := (\<lambda>_. new_reactor_connection 0), ss_connections := [(5, 0)],
      ss_world := quiet_world\<lparr>w_send := (\<lambda>_. [SendErr EPIPE])\<rparr>\<rparr>"

lemma reject_entry_parts:
  "he_serialized reject_entry" "route_scheduling (Some reject_entry) = Inr \<lparr>rs_domain = [], rs_policy = QP_reject_if_busy\<rparr>"
  by (simp_all add: reject_entry_def make_route_options_entry_flags route_scheduling_def)
    (simp add: make_route_options_entry_def Let_def)

lemma busy_sample_scheduler:
  "ss_running busy_sample" "\<not> ss_serialized_stopping busy_sample" "serialized_domain_busy busy_sample []"
  "ensure_serialized_worker_count (desired_serialized_worker_count busy_sample []) busy_sample = (busy_sample, True)"
proof -
  show r: "ss_running busy_sample" "\<not> ss_serialized_stopping busy_sample" and b: "serialized_domain_busy busy_sample []"
    by (simp_all add: serialized_domain_busy_def find_serialized_domain_activity_def)
      (simp_all add: busy_sample_def blank_state_def)
  have c: "ss_serialized_worker_count busy_sample = 1" "ss_busy_domain_count busy_sample = 1"
    by (simp_all add: busy_sample_def)
  have "busy_sample\<lparr>ss_serialized_worker_count := 1\<rparr> = busy_sample" by (simp add: busy_sample_def)
  then show "ensure_serialized_worker_count (desired_serialized_worker_count busy_sample []) busy_sample = (busy_sample, True)"
    by (simp add: ensure_serialized_worker_count_def desired_serialized_worker_count_def r b c Let_def
        min_def max_def)
qed

lemma busy_sample_enqueue:
  assumes "sj_handler job = Some reject_entry"
  shows "enqueue_serialized_job job False False busy_sample = (record_serialized_busy_rejection busy_sample, Inr SA_busy)"
proof -
  have "serialized_domain_activity [] busy_sample = busy_sample" by (simp add: serialized_domain_activity_def)
  then show ?thesis
    using assms busy_sample_scheduler
    by (simp add: enqueue_serialized_job_def reject_entry_parts admit_serialized_job_def Let_def)
qed

lemma busy_sample_parts:
  "map_of (ss_connections busy_sample) (cn_fd (ss_conns busy_sample 0)) = Some 0"
  "rc_conn (ss_rcs busy_sample 0) = 0" "cn_active_regular (ss_conns busy_sample 0) \<noteq> 0"
  "charged busy_sample 0 = (1, 1)"
  by (simp_all add: busy_sample_def new_connection_def new_reactor_connection_def charged_def)

lemma refused_sample:
  "ss_world (record_serialized_busy_rejection busy_sample) = quiet_world\<lparr>w_send := (\<lambda>_. [SendErr EPIPE])\<rparr>"
  "cn_fd (ss_conns (record_serialized_busy_rejection busy_sample) c) = 5"
  "cn_output_queue (ss_conns (record_serialized_busy_rejection busy_sample) c) = []"
  by (simp_all add: record_serialized_busy_rejection_def busy_sample_def blank_state_def new_connection_def)

lemma broken_send:
  "\<exists>w'. send_frame_once fd f (quiet_world\<lparr>w_send := (\<lambda>_. [SendErr EPIPE])\<rparr>) = (w', Inl EPIPE)"
  by (subst send_frame_once.simps) (simp add: send_iovecs_def kernel_send_def)

lemma busy_sample_send:
  "\<exists>s' e. send_response 0 i r deadline_max (record_serialized_busy_rejection busy_sample) = (s', Inl e)"
proof -
  obtain w' where w: "send_frame_once 5 (response_frame (ss_conns (record_serialized_busy_rejection busy_sample) 0) i r deadline_max)
      (quiet_world\<lparr>w_send := (\<lambda>_. [SendErr EPIPE])\<rparr>) = (w', Inl EPIPE)"
    using broken_send by blast
  show ?thesis
    by (simp add: send_response_def check_deadline_def Let_def enqueue_frame_def refused_sample w)
qed

lemma busy_sample_served:
  "\<exists>s1 e. serve_fixed_request 0 \<lparr>rq_route = [47], rq_body = [], rq_request_id = 1\<rparr> no_capabilities 0 deadline_max
     busy_sample = (s1, Inl e)"
proof -
  obtain s' e where "write_error_response 0 1 (str ''serialization domain is busy'') deadline_max status_conflict
      (record_serialized_busy_rejection busy_sample) = (s', Inl e)"
    unfolding write_error_response_def write_fixed_response_eq using busy_sample_send by blast
  moreover have "find_request_handler (ss_handler_registry busy_sample) [47] = Some reject_entry"
    by (simp add: busy_sample_def find_request_handler_def)
  ultimately show ?thesis
    by (simp add: serve_fixed_request_def reject_entry_parts serve_serialized_def busy_sample_enqueue)
qed

lemma busy_refusal_leaks_witness:
  "\<exists>s1 e. serve_fixed_request 0 \<lparr>rq_route = [47], rq_body = [], rq_request_id = 1\<rparr> no_capabilities 0 deadline_max
       busy_sample = (s1, Inl e) \<and>
     charged (fst (continue_failed 0 0 ([], 0) True e s1)) 0 = (1, 1)"
proof -
  obtain s1 e where r: "serve_fixed_request 0 \<lparr>rq_route = [47], rq_body = [], rq_request_id = 1\<rparr> no_capabilities 0 deadline_max
       busy_sample = (s1, Inl e)" using busy_sample_served by blast
  note l = busy_refusal_leaks [OF r busy_sample_parts(1,2,3), where fresh = 0 and src = "([], 0)"]
  have "charged (fst (continue_failed 0 0 ([], 0) True e s1)) 0 = (1, 1)"
    using l unfolding busy_sample_parts(4) by (simp add: split_beta)
  with r show ?thesis by blast
qed

end
