(* ===== verification/CApi.thy ===== *)
theory CApi
  imports Session Lifecycle
begin

text \<open>
  The C binding (\<^verbatim>\<open>src/user/c/easy_uds_c.cpp\<close>, \<^verbatim>\<open>easy_uds.h\<close>): the error slot of a thread, the translation of
  exceptions into codes, the buffers that are handed to the caller, the adapters of C handlers and all
  functions of the interface over the modelled server, client and session. A handle is the object behind
  it, \<open>None\<close> for a null pointer.
\<close>

subsection \<open>The error slot of a thread and the memory of the C caller\<close>

text \<open>
  \<open>c_blocks\<close> are the blocks \<^verbatim>\<open>malloc\<close> has handed out and \<^verbatim>\<open>free\<close> has not taken back, \<open>c_malloc\<close> the
  answers of the allocator to come; with none left it answers null.
\<close>

record CState =
  last_error_message :: bstring
  last_error_code :: int
  c_blocks :: "nat \<rightharpoonup> bstring"
  c_malloc :: "nat option list"

definition last_error_capacity :: nat where "last_error_capacity = 1024"

definition new_c_state :: "nat option list \<Rightarrow> CState" where
  "new_c_state answers =
     \<lparr>last_error_message = replicate last_error_capacity 0, last_error_code = 0, c_blocks = Map.empty,
      c_malloc = answers\<rparr>"

text \<open>The string a \<^verbatim>\<open>const char*\<close> denotes when \<open>m\<close> is the memory it points to.\<close>

definition c_string :: "bstring \<Rightarrow> bstring" where
  "c_string m = takeWhile (\<lambda>b. b \<noteq> 0) m"

definition clear_error :: "CState \<Rightarrow> CState" where
  "clear_error c =
     c\<lparr>last_error_message := (last_error_message c)[0 := 0], last_error_code := 0\<rparr>"

definition fail :: "bstring \<Rightarrow> int \<Rightarrow> CState \<Rightarrow> CState" where
  "fail message code c =
     (let c = c\<lparr>last_error_code := code\<rparr>;
          n = min (length (c_string message)) (length (last_error_message c) - 1)
      in c\<lparr>last_error_message := take n message @ [0] @ drop (n + 1) (last_error_message c)\<rparr>)"

definition easy_uds_last_error :: "CState \<Rightarrow> bstring" where
  "easy_uds_last_error c = c_string (last_error_message c)"

definition easy_uds_last_error_code :: "CState \<Rightarrow> int" where
  "easy_uds_last_error_code c = last_error_code c"

definition easy_uds_c_abi_version :: u32 where "easy_uds_c_abi_version = 1"

subsection \<open>what() and the translation of exceptions\<close>

text \<open>\<open>strerror\<close> is the message of the C library for an \<^verbatim>\<open>errno\<close> value.\<close>

definition error_context :: "(errno \<Rightarrow> bstring) \<Rightarrow> string \<Rightarrow> errno option \<Rightarrow> bstring" where
  "error_context strerror operation system_code =
     (case system_code of
        None \<Rightarrow> str operation
      | Some code \<Rightarrow>
          if code = E_other 0 then str operation
          else str operation @ str '' ('' @ str ''generic'' @ str '': '' @ strerror code @ str '')'')"

fun exception_what :: "(errno \<Rightarrow> bstring) \<Rightarrow> exn \<Rightarrow> bstring" where
  "exception_what strerror (Error kind operation system_code) =
     error_context strerror operation system_code @ str '': '' @ str (category_message (error_code_value kind))"
| "exception_what strerror (Invalid_argument m) = str m"
| "exception_what strerror (Length_error m) = str m"
| "exception_what strerror (Runtime_error m) = str m"
| "exception_what strerror (Logic_error m) = str m"
| "exception_what strerror (Std_exception m) = str m"
| "exception_what strerror Unknown_exception = str ''unknown C++ exception''"

definition fail_current_exception :: "(errno \<Rightarrow> bstring) \<Rightarrow> exn \<Rightarrow> CState \<Rightarrow> CState" where
  "fail_current_exception strerror e c =
     fail (exception_what strerror e)
       (case error_kind e of Some kind \<Rightarrow> error_code_value kind | None \<Rightarrow> -1) c"

subsection \<open>Bytes in and out\<close>

text \<open>A pointer argument is \<open>None\<close> for null and else the memory behind it.\<close>

definition valid_bytes :: "bstring option \<Rightarrow> nat \<Rightarrow> bool" where
  "valid_bytes value n \<longleftrightarrow> n = 0 \<or> value \<noteq> None"

definition bytes_view :: "bstring option \<Rightarrow> nat \<Rightarrow> bstring" where
  "bytes_view value n = (case value of None \<Rightarrow> [] | Some m \<Rightarrow> take n m)"

record easy_uds_bytes =
  eb_data :: "nat option"
  eb_size :: nat

text \<open>The outputs of a request: the two structures the caller passes pointers to, \<open>None\<close> for null.\<close>

type_synonym outputs = "easy_uds_bytes option \<times> int option"

definition c_allocate :: "nat \<Rightarrow> CState \<Rightarrow> CState \<times> nat option" where
  "c_allocate n c =
     (case c_malloc c of
        [] \<Rightarrow> (c, None)
      | None # as \<Rightarrow> (c\<lparr>c_malloc := as\<rparr>, None)
      | Some a # as \<Rightarrow> (c\<lparr>c_malloc := as, c_blocks := (c_blocks c)(a \<mapsto> replicate n 0)\<rparr>, Some a))"

definition write_response :: "Response \<Rightarrow> outputs \<Rightarrow> CState \<Rightarrow> CState \<times> outputs \<times> int" where
  "write_response response out c =
     (case out of
        (Some b, Some st) \<Rightarrow>
          let b = b\<lparr>eb_data := None, eb_size := 0\<rparr> in
          if rsp_body response = [] then (c, (Some b, Some (rsp_status response)), 0)
          else (case c_allocate (length (rsp_body response)) c of
                  (c, None) \<Rightarrow> (fail (str ''could not allocate response buffer'') (-1) c, (Some b, Some st), -1)
                | (c, Some a) \<Rightarrow>
                    (c\<lparr>c_blocks := (c_blocks c)(a \<mapsto> rsp_body response)\<rparr>,
                     (Some (b\<lparr>eb_data := Some a, eb_size := length (rsp_body response)\<rparr>),
                      Some (rsp_status response)), 0))
      | _ \<Rightarrow> (fail (str ''response output pointers must not be null'') (-1) c, out, -1))"

definition easy_uds_bytes_free :: "easy_uds_bytes option \<Rightarrow> CState \<Rightarrow> CState \<times> easy_uds_bytes option" where
  "easy_uds_bytes_free bytes c =
     (case bytes of
        None \<Rightarrow> (c, None)
      | Some b \<Rightarrow>
          (case eb_data b of None \<Rightarrow> c | Some a \<Rightarrow> c\<lparr>c_blocks := (c_blocks c)(a := None)\<rparr>,
           Some (b\<lparr>eb_data := None, eb_size := 0\<rparr>)))"

text \<open>The common end of the request functions: \<^verbatim>\<open>return write_response(...)\<close>, or the handler of all exceptions.\<close>

definition answer :: "(errno \<Rightarrow> bstring) \<Rightarrow> exn + Response \<Rightarrow> outputs \<Rightarrow> CState \<Rightarrow> CState \<times> outputs \<times> int" where
  "answer strerror r out c =
     (case r of
        Inl e \<Rightarrow> (fail_current_exception strerror e c, out, -1)
      | Inr response \<Rightarrow> write_response response out c)"

subsection \<open>Handlers\<close>

text \<open>
  \<open>cr_release_body\<close> is whether the handler left a release function, \<open>cr_release_owner\<close> its first
  argument. A call of it is recorded as its two arguments.
\<close>

record easy_uds_c_response =
  cr_status :: int
  cr_body :: "bstring option"
  cr_body_size :: nat
  cr_release_body :: bool
  cr_release_owner :: nat

type_synonym release = "nat \<times> bstring option"
type_synonym c_handler = "nat \<Rightarrow> bstring \<Rightarrow> bstring \<Rightarrow> easy_uds_c_response \<Rightarrow> int \<times> easy_uds_c_response"

definition initial_c_response :: easy_uds_c_response where
  "initial_c_response =
     \<lparr>cr_status = 500, cr_body = None, cr_body_size = 0, cr_release_body = False, cr_release_owner = 0\<rparr>"

definition release_c_body :: "easy_uds_c_response \<Rightarrow> release list" where
  "release_c_body response =
     (if cr_release_body response then [(cr_release_owner response, cr_body response)] else [])"

definition invoke_c_handler :: "c_handler \<Rightarrow> nat \<Rightarrow> Request \<Rightarrow> release list \<times> Response" where
  "invoke_c_handler handler user_data request =
     (case handler user_data (rq_route request) (rq_body request) initial_c_response of
        (result, response) \<Rightarrow>
          (release_c_body response,
           if result \<noteq> 0
           then \<lparr>rsp_status = 500, rsp_body = str ''C handler returned an error''\<rparr>
           else if \<not> valid_bytes (cr_body response) (cr_body_size response)
           then \<lparr>rsp_status = 500, rsp_body = str ''C handler returned a null body with nonzero size''\<rparr>
           else \<lparr>rsp_status = cr_status response,
                 rsp_body = (if cr_body_size response \<noteq> 0
                             then bytes_view (cr_body response) (cr_body_size response) else [])\<rparr>))"

text \<open>The POSIX view of the capabilities of a request (\<^verbatim>\<open>request_capabilities.cpp\<close>, \<^verbatim>\<open>posix.hpp\<close>).\<close>

type_synonym bridge = "(Identity \<times> int) option"

definition request_capability_pid :: "bridge \<Rightarrow> int" where
  "request_capability_pid b = (case b of None \<Rightarrow> -1 | Some (peer, _) \<Rightarrow> id_pid peer)"

definition request_capability_uid :: "bridge \<Rightarrow> u64" where
  "request_capability_uid b = (case b of None \<Rightarrow> -1 | Some (peer, _) \<Rightarrow> id_uid peer)"

definition request_capability_gid :: "bridge \<Rightarrow> u64" where
  "request_capability_gid b = (case b of None \<Rightarrow> -1 | Some (peer, _) \<Rightarrow> id_gid peer)"

definition request_capability_peer_present :: "bridge \<Rightarrow> bool" where
  "request_capability_peer_present b = (case b of None \<Rightarrow> False | Some (peer, _) \<Rightarrow> id_present peer)"

definition request_capability_fd :: "bridge \<Rightarrow> int" where
  "request_capability_fd b = (case b of None \<Rightarrow> -1 | Some (_, fd) \<Rightarrow> fd)"

record PeerCredentials =
  pc_pid :: int
  pc_uid :: u32
  pc_gid :: u32
  pc_present :: bool

definition peer_credentials :: "bridge \<Rightarrow> PeerCredentials" where
  "peer_credentials b =
     \<lparr>pc_pid = signed_take_bit 31 (request_capability_pid b), pc_uid = ucast (request_capability_uid b),
      pc_gid = ucast (request_capability_gid b), pc_present = request_capability_peer_present b\<rparr>"

text \<open>
  The fields of the public context. \<open>pb_is_stop_requested\<close> is what its query function answers during the
  call: \<^verbatim>\<open>context_stop_requested\<close> on \<^verbatim>\<open>opaque_context\<close>.
\<close>

record easy_uds_request_context =
  pb_struct_size :: u32
  pb_request_id :: u32
  pb_peer_pid :: int
  pb_peer_uid :: u64
  pb_peer_gid :: u64
  pb_peer_sid :: "bstring option"
  pb_peer_identity_present :: u32
  pb_received_handle :: "nat option"
  pb_stop_requested :: u32
  pb_is_stop_requested :: int

definition context_stop_requested :: "RequestContext option \<Rightarrow> int" where
  "context_stop_requested context =
     (case context of None \<Rightarrow> 0 | Some cx \<Rightarrow> if stop_requested cx then 1 else 0)"

definition make_public_context :: "RequestContext \<Rightarrow> easy_uds_request_context" where
  "make_public_context cx =
     (let p = \<lparr>pb_struct_size = 80, pb_request_id = cx_request_id cx, pb_peer_pid = -1, pb_peer_uid = -1,
               pb_peer_gid = -1, pb_peer_sid = None, pb_peer_identity_present = 0, pb_received_handle = None,
               pb_stop_requested = (if stop_requested cx then 1 else 0), pb_is_stop_requested = 0\<rparr>;
          p = p\<lparr>pb_peer_pid := cx_peer_pid cx\<rparr>;
          p = p\<lparr>pb_peer_sid := (if cx_peer_sid cx = [] then None else Some (cx_peer_sid cx))\<rparr>;
          p = p\<lparr>pb_is_stop_requested := context_stop_requested (Some cx)\<rparr>;
          p = (if pb_peer_pid p \<ge> 0 \<or> cx_peer_sid cx \<noteq> [] then p\<lparr>pb_peer_identity_present := 1\<rparr> else p);
          peer = peer_credentials (cx_capability_bridge cx)
      in if pc_present peer
         then let p = (if pc_pid peer \<ge> 0 then p\<lparr>pb_peer_pid := pc_pid peer\<rparr> else p)
              in p\<lparr>pb_peer_uid := ucast (pc_uid peer), pb_peer_gid := ucast (pc_gid peer),
                   pb_peer_identity_present := 1\<rparr>
         else p)"

type_synonym c_context_handler =
  "nat \<Rightarrow> easy_uds_request_context \<Rightarrow> bstring \<Rightarrow> bstring \<Rightarrow> easy_uds_c_response \<Rightarrow> int \<times> easy_uds_c_response"

definition invoke_c_context_handler ::
  "c_context_handler \<Rightarrow> nat \<Rightarrow> Request \<Rightarrow> RequestContext \<Rightarrow> release list \<times> Response" where
  "invoke_c_context_handler handler user_data request cx =
     (case handler user_data (make_public_context cx) (rq_route request) (rq_body request) initial_c_response of
        (result, response) \<Rightarrow>
          (release_c_body response,
           if result \<noteq> 0
           then \<lparr>rsp_status = 500, rsp_body = str ''C context handler returned an error''\<rparr>
           else if \<not> valid_bytes (cr_body response) (cr_body_size response)
           then \<lparr>rsp_status = 500,
                 rsp_body = str ''C context handler returned a null body with nonzero size''\<rparr>
           else \<lparr>rsp_status = cr_status response,
                 rsp_body = (if cr_body_size response \<noteq> 0
                             then bytes_view (cr_body response) (cr_body_size response) else [])\<rparr>))"

subsection \<open>The server functions\<close>

text \<open>
  \<open>exn + unit\<close> results become the return code: 0, or \<open>-1\<close> with the error slot set.
\<close>

definition return_code :: "(errno \<Rightarrow> bstring) \<Rightarrow> exn + 'a \<Rightarrow> CState \<Rightarrow> CState \<times> int" where
  "return_code strerror r c =
     (case r of Inl e \<Rightarrow> (fail_current_exception strerror e c, -1) | Inr _ \<Rightarrow> (c, 0))"

definition update_handler_registry ::
  "(HandlerRegistry \<Rightarrow> exn + HandlerRegistry) \<Rightarrow> ServerState \<Rightarrow> ServerState \<times> (exn + unit)" where
  "update_handler_registry mutation s =
     (case mutation (ss_handler_registry s) of
        Inl e \<Rightarrow> (s, Inl e)
      | Inr updated \<Rightarrow> (s\<lparr>ss_handler_registry := updated\<rparr>, Inr ()))"

definition easy_uds_server_create ::
  "(errno \<Rightarrow> bstring) \<Rightarrow> bstring option \<Rightarrow> World \<Rightarrow> CState \<Rightarrow> World \<times> CState \<times> ServerState option" where
  "easy_uds_server_create strerror socket_path w c =
     (let c = clear_error c in
      case socket_path of
        None \<Rightarrow> (w, fail (str ''socket_path must not be null'') (-1) c, None)
      | Some p \<Rightarrow>
          (case new_server (c_string p) default_server_options w of
             (w, Inl e) \<Rightarrow> (w, fail_current_exception strerror e c, None)
           | (w, Inr s) \<Rightarrow> (w, c, Some s)))"

definition easy_uds_server_on ::
  "(errno \<Rightarrow> bstring) \<Rightarrow> ServerState option \<Rightarrow> bstring option \<Rightarrow> nat \<Rightarrow> c_handler option \<Rightarrow> nat \<Rightarrow> CState \<Rightarrow>
     ServerState option \<times> CState \<times> int" where
  "easy_uds_server_on strerror server route route_size handler user_data c =
     (let c = clear_error c in
      case (server, handler) of
        (Some s, Some h) \<Rightarrow>
          if route_size = 0 \<or> \<not> valid_bytes route route_size
          then (server, fail (str ''server, route, and handler must be valid'') (-1) c, -1)
          else (case update_handler_registry
                       (Server_on (so_max_message_size (ss_options s)) (bytes_view route route_size)
                          (Some (\<lambda>request. Returned (snd (invoke_c_handler h user_data request))))) s of
                  (s, r) \<Rightarrow> (Some s, return_code strerror r c))
      | _ \<Rightarrow> (server, fail (str ''server, route, and handler must be valid'') (-1) c, -1))"

definition easy_uds_server_on_context ::
  "(errno \<Rightarrow> bstring) \<Rightarrow> ServerState option \<Rightarrow> bstring option \<Rightarrow> nat \<Rightarrow> c_context_handler option \<Rightarrow> nat \<Rightarrow>
     CState \<Rightarrow> ServerState option \<times> CState \<times> int" where
  "easy_uds_server_on_context strerror server route route_size handler user_data c =
     (let c = clear_error c in
      case (server, handler) of
        (Some s, Some h) \<Rightarrow>
          if route_size = 0 \<or> \<not> valid_bytes route route_size
          then (server, fail (str ''server, route, and contextual handler must be valid'') (-1) c, -1)
          else (case update_handler_registry
                       (Server_on_options (so_max_message_size (ss_options s)) (bytes_view route route_size)
                          (route_options_context (Some (\<lambda>request cx.
                             Returned (snd (invoke_c_context_handler h user_data request cx)))))) s of
                  (s, r) \<Rightarrow> (Some s, return_code strerror r c))
      | _ \<Rightarrow> (server, fail (str ''server, route, and contextual handler must be valid'') (-1) c, -1))"

text \<open>\<open>run\<close> is \<^verbatim>\<open>Server::run\<close> with the other threads of the process, \<open>None\<close> while it has not ended.\<close>

definition easy_uds_server_run ::
  "(errno \<Rightarrow> bstring) \<Rightarrow> (ServerState \<Rightarrow> ServerState \<times> (exn + unit) option) \<Rightarrow> ServerState option \<Rightarrow> CState \<Rightarrow>
     ServerState option \<times> CState \<times> int option" where
  "easy_uds_server_run strerror run server c =
     (let c = clear_error c in
      case server of
        None \<Rightarrow> (None, fail (str ''server must not be null'') (-1) c, Some (-1))
      | Some s \<Rightarrow>
          (case run s of
             (s, None) \<Rightarrow> (Some s, c, None)
           | (s, Some r) \<Rightarrow> (case return_code strerror r c of (c, i) \<Rightarrow> (Some s, c, Some i))))"

definition easy_uds_server_stop :: "ServerState option \<Rightarrow> CState \<Rightarrow> ServerState option \<times> CState \<times> int" where
  "easy_uds_server_stop server c =
     (let c = clear_error c in
      case server of
        None \<Rightarrow> (None, fail (str ''server must not be null'') (-1) c, -1)
      | Some s \<Rightarrow> (Some (stop_state s), c, 0))"

text \<open>The state that is left is that of the file system and the descriptors; \<open>None\<close> while a run has not ended.\<close>

definition easy_uds_server_destroy :: "ServerState option \<Rightarrow> ServerState option option" where
  "easy_uds_server_destroy server =
     (case server of
        None \<Rightarrow> Some None
      | Some s \<Rightarrow> (case destroy_server s of None \<Rightarrow> None | Some s \<Rightarrow> Some (Some s)))"

subsection \<open>The client functions\<close>

record easy_uds_client =
  ec_socket_path :: bstring
  ec_options :: ClientOptions

record easy_uds_client_options =
  cl_struct_size :: u32
  cl_protocol_version :: u32

definition sizeof_client_options :: u32 where "sizeof_client_options = 8"

definition construct_client ::
  "(errno \<Rightarrow> bstring) \<Rightarrow> bstring \<Rightarrow> ClientOptions \<Rightarrow> CState \<Rightarrow> CState \<times> easy_uds_client option" where
  "construct_client strerror socket_path options c =
     (case validate_client socket_path options of
        Inl e \<Rightarrow> (fail_current_exception strerror e c, None)
      | Inr _ \<Rightarrow> (c, Some \<lparr>ec_socket_path = socket_path, ec_options = options\<rparr>))"

definition easy_uds_client_create_with_options ::
  "(errno \<Rightarrow> bstring) \<Rightarrow> bstring option \<Rightarrow> easy_uds_client_options option \<Rightarrow> CState \<Rightarrow>
     CState \<times> easy_uds_client option" where
  "easy_uds_client_create_with_options strerror socket_path options c =
     (let c = clear_error c in
      case socket_path of
        None \<Rightarrow> (fail (str ''socket_path must not be null'') (-1) c, None)
      | Some p \<Rightarrow>
          (case options of
             None \<Rightarrow> construct_client strerror (c_string p) default_client_options c
           | Some opt \<Rightarrow>
               if cl_struct_size opt < sizeof_client_options
               then (fail (str ''client options struct_size is too small'') (-1) c, None)
               else if cl_protocol_version opt \<noteq> 2 \<and> cl_protocol_version opt \<noteq> 3
               then (fail (str ''protocol_version must be 2 or 3'') (-1) c, None)
               else construct_client strerror (c_string p)
                      (default_client_options\<lparr>co_protocol_version := ucast (cl_protocol_version opt)\<rparr>) c))"

definition easy_uds_client_create ::
  "(errno \<Rightarrow> bstring) \<Rightarrow> bstring option \<Rightarrow> CState \<Rightarrow> CState \<times> easy_uds_client option" where
  "easy_uds_client_create strerror socket_path c =
     easy_uds_client_create_with_options strerror socket_path None c"

text \<open>The arguments all request functions check: outputs, route and body.\<close>

definition request_arguments_valid :: "bstring option \<Rightarrow> nat \<Rightarrow> bstring option \<Rightarrow> nat \<Rightarrow> outputs \<Rightarrow> bool" where
  "request_arguments_valid route route_size body body_size out \<longleftrightarrow>
     fst out \<noteq> None \<and> snd out \<noteq> None \<and> route_size \<noteq> 0 \<and> valid_bytes route route_size \<and>
     valid_bytes body body_size"

definition easy_uds_client_request ::
  "(errno \<Rightarrow> bstring) \<Rightarrow> easy_uds_client option \<Rightarrow> bstring option \<Rightarrow> nat \<Rightarrow> bstring option \<Rightarrow> nat \<Rightarrow> outputs \<Rightarrow>
     World \<Rightarrow> CState \<Rightarrow> World \<times> CState \<times> outputs \<times> int" where
  "easy_uds_client_request strerror client route route_size body body_size out w c =
     (let c = clear_error c in
      case client of
        Some cl \<Rightarrow>
          if \<not> request_arguments_valid route route_size body body_size out
          then (w, fail (str ''client, route, and body must be valid'') (-1) c, out, -1)
          else (case client_request (ec_socket_path cl) (ec_options cl) (bytes_view route route_size)
                       (bytes_view body body_size) w of
                  (w, r) \<Rightarrow> (w, answer strerror r out c))
      | None \<Rightarrow> (w, fail (str ''client, route, and body must be valid'') (-1) c, out, -1))"

text \<open>The pauses between the attempts are part of the result.\<close>

definition easy_uds_client_request_idempotent ::
  "(errno \<Rightarrow> bstring) \<Rightarrow> easy_uds_client option \<Rightarrow> bstring option \<Rightarrow> nat \<Rightarrow> bstring option \<Rightarrow> nat \<Rightarrow> u32 \<Rightarrow>
     outputs \<Rightarrow> World \<Rightarrow> CState \<Rightarrow> World \<times> msec list \<times> CState \<times> outputs \<times> int" where
  "easy_uds_client_request_idempotent strerror client route route_size body body_size max_attempts out w c =
     (let c = clear_error c in
      case client of
        Some cl \<Rightarrow>
          if \<not> request_arguments_valid route route_size body body_size out \<or> max_attempts = 0
          then (w, [], fail (str ''client, route, body, and retry count must be valid'') (-1) c, out, -1)
          else (case request_idempotent (ec_socket_path cl) (ec_options cl) (bytes_view route route_size)
                       (bytes_view body body_size)
                       (default_retry_options\<lparr>ro_max_attempts := unat max_attempts\<rparr>) w of
                  (w, pauses, r) \<Rightarrow> (w, pauses, answer strerror r out c))
      | None \<Rightarrow> (w, [], fail (str ''client, route, body, and retry count must be valid'') (-1) c, out, -1))"

definition easy_uds_session_create ::
  "(errno \<Rightarrow> bstring) \<Rightarrow> exn option \<Rightarrow> easy_uds_client option \<Rightarrow> World \<Rightarrow> CState \<Rightarrow>
     World \<times> CState \<times> SessionState option" where
  "easy_uds_session_create strerror spawn client w c =
     (let c = clear_error c in
      case client of
        None \<Rightarrow> (w, fail (str ''client must not be null'') (-1) c, None)
      | Some cl \<Rightarrow>
          (case new_session spawn (ec_socket_path cl) (ec_options cl) w of
             (w, Inl e) \<Rightarrow> (w, fail_current_exception strerror e c, None)
           | (w, Inr s) \<Rightarrow> (w, c, Some s)))"

text \<open>The result is \<open>None\<close> while the call waits.\<close>

definition easy_uds_session_request ::
  "(errno \<Rightarrow> bstring) \<Rightarrow> nat \<Rightarrow> environment \<Rightarrow> nat \<Rightarrow> SessionState option \<Rightarrow> bstring option \<Rightarrow> nat \<Rightarrow>
     bstring option \<Rightarrow> nat \<Rightarrow> outputs \<Rightarrow> CState \<Rightarrow> (SessionState option \<times> CState \<times> outputs \<times> int) option" where
  "easy_uds_session_request strerror fuel env slot session route route_size body body_size out c =
     (let c = clear_error c in
      if session = None \<or> \<not> request_arguments_valid route route_size body body_size out
      then Some (session, fail (str ''session, route, and body must be valid'') (-1) c, out, -1)
      else (case session_request fuel env slot (bytes_view route route_size) (bytes_view body body_size) session of
              None \<Rightarrow> None
            | Some (session, r) \<Rightarrow> Some (session, answer strerror r out c)))"

definition easy_uds_session_request_cancellable ::
  "(errno \<Rightarrow> bstring) \<Rightarrow> nat \<Rightarrow> environment \<Rightarrow> nat \<Rightarrow> SessionState option \<Rightarrow> nat option \<Rightarrow> bstring option \<Rightarrow> nat \<Rightarrow>
     bstring option \<Rightarrow> nat \<Rightarrow> outputs \<Rightarrow> CState \<Rightarrow> (SessionState option \<times> CState \<times> outputs \<times> int) option" where
  "easy_uds_session_request_cancellable strerror fuel env slot session cancellation route route_size body body_size
       out c =
     (let c = clear_error c in
      case cancellation of
        None \<Rightarrow> Some (session, fail (str ''session, cancellation, route, and body must be valid'') (-1) c, out, -1)
      | Some token \<Rightarrow>
          if session = None \<or> \<not> request_arguments_valid route route_size body body_size out
          then Some (session, fail (str ''session, cancellation, route, and body must be valid'') (-1) c, out, -1)
          else (case session_request_cancellable fuel env slot (bytes_view route route_size)
                       (bytes_view body body_size) token session of
                  None \<Rightarrow> None
                | Some (session, r) \<Rightarrow> Some (session, answer strerror r out c)))"

text \<open>
  A cancellation is the address of its flag; \<open>flags\<close> are the flags of the process, the field
  \<open>se_cancelled\<close> of the sessions that share it.
\<close>

definition easy_uds_cancellation_create ::
  "nat \<Rightarrow> (nat \<Rightarrow> bool) \<Rightarrow> CState \<Rightarrow> (nat \<Rightarrow> bool) \<times> CState \<times> nat option" where
  "easy_uds_cancellation_create address flags c = (flags(address := False), clear_error c, Some address)"

definition easy_uds_cancellation_cancel :: "nat option \<Rightarrow> (nat \<Rightarrow> bool) \<Rightarrow> CState \<Rightarrow> (nat \<Rightarrow> bool) \<times> CState" where
  "easy_uds_cancellation_cancel cancellation flags c =
     (let c = clear_error c in
      case cancellation of None \<Rightarrow> (flags, c) | Some a \<Rightarrow> (flags(a := True), c))"

definition easy_uds_session_destroy ::
  "(SessionState \<Rightarrow> SessionState) \<Rightarrow> SessionState option \<Rightarrow> World option" where
  "easy_uds_session_destroy join session = shutdown_session_state join session"

end
