(* ===== verification/CApiProps.thy ===== *)
theory CApiProps
  imports CApi ClientProps
begin

text \<open>
  What a C caller can rely on: the error slot is a terminated string of bounded length, every call reports
  its outcome in the return code and in the slot, the blocks that are allocated are those handed out and
  not freed, requests and handlers carry their bytes unchanged.
\<close>

subsection \<open>The error slot\<close>

definition slot_ok :: "CState \<Rightarrow> bool" where
  "slot_ok c \<longleftrightarrow> length (last_error_message c) = last_error_capacity \<and> 0 \<in> set (last_error_message c)"

definition reported :: "int \<Rightarrow> CState \<Rightarrow> bool" where
  "reported i c \<longleftrightarrow>
     i = 0 \<and> last_error_code c = 0 \<and> easy_uds_last_error c = [] \<or> i = -1 \<and> last_error_code c \<noteq> 0"

lemma c_string_no_zero: "0 \<notin> set (c_string m)"
  by (auto simp: c_string_def dest: set_takeWhileD)

lemma c_string_terminated: "0 \<notin> set xs \<Longrightarrow> c_string (xs @ 0 # ys) = xs"
  by (induction xs) (auto simp: c_string_def)

lemma take_c_string: "n \<le> length (c_string m) \<Longrightarrow> take n m = take n (c_string m)"
proof -
  assume n: "n \<le> length (c_string m)"
  have "m = c_string m @ dropWhile (\<lambda>b. b \<noteq> 0) m" by (simp add: c_string_def)
  then have "take n m = take n (c_string m @ dropWhile (\<lambda>b. b \<noteq> 0) m)" by simp
  also have "\<dots> = take n (c_string m)" using n by simp
  finally show ?thesis .
qed

lemma fail_fields [simp]:
  "last_error_code (fail m i c) = i" "c_blocks (fail m i c) = c_blocks c" "c_malloc (fail m i c) = c_malloc c"
  by (simp_all add: fail_def Let_def)

lemma clear_error_fields [simp]:
  "last_error_code (clear_error c) = 0" "c_blocks (clear_error c) = c_blocks c"
  "c_malloc (clear_error c) = c_malloc c"
  by (simp_all add: clear_error_def)

lemma last_error_fail:
  assumes "length (last_error_message c) = last_error_capacity"
  shows "easy_uds_last_error (fail m i c) = take 1023 (c_string m)"
proof -
  let ?n = "min (length (c_string m)) 1023"
  have "take ?n m = take ?n (c_string m)" by (rule take_c_string) simp
  moreover have "take ?n (c_string m) = take 1023 (c_string m)" by (simp add: min_def)
  moreover have "0 \<notin> set (take 1023 (c_string m))"
    using c_string_no_zero [of m] by (meson in_set_takeD)
  ultimately show ?thesis
    using assms by (simp add: easy_uds_last_error_def fail_def Let_def last_error_capacity_def c_string_terminated)
qed

lemma slot_ok_fail [simp]: "slot_ok c \<Longrightarrow> slot_ok (fail m i c)"
proof -
  assume ok: "slot_ok c"
  let ?n = "min (length (c_string m)) 1023"
  have "length (c_string m) \<le> length m" by (simp add: c_string_def length_takeWhile_le)
  with ok show ?thesis by (auto simp: slot_ok_def fail_def Let_def last_error_capacity_def)
qed

lemma clear_error_message:
  assumes "slot_ok c"
  shows "slot_ok (clear_error c)" "easy_uds_last_error (clear_error c) = []"
proof -
  obtain b bs where m: "last_error_message c = b # bs"
    using assms by (cases "last_error_message c") (auto simp: slot_ok_def)
  then show "slot_ok (clear_error c)" "easy_uds_last_error (clear_error c) = []"
    using assms by (simp_all add: slot_ok_def clear_error_def easy_uds_last_error_def c_string_def)
qed

lemma slot_ok_frames [simp]:
  "slot_ok (c\<lparr>c_malloc := as\<rparr>) = slot_ok c" "slot_ok (c\<lparr>c_blocks := bs\<rparr>) = slot_ok c"
  "easy_uds_last_error (c\<lparr>c_malloc := as\<rparr>) = easy_uds_last_error c"
  "easy_uds_last_error (c\<lparr>c_blocks := bs\<rparr>) = easy_uds_last_error c"
  by (simp_all add: slot_ok_def easy_uds_last_error_def)

lemma slot_ok_new: "slot_ok (new_c_state answers)"
  by (simp add: slot_ok_def new_c_state_def last_error_capacity_def)

lemma error_code_value_pos: "error_code_value k > 0"
  by (cases k) simp_all

lemma reported_fail [simp]: "i \<noteq> 0 \<Longrightarrow> reported (-1) (fail m i c)"
  by (simp add: reported_def)

lemma reported_exception [simp]: "reported (-1) (fail_current_exception f e c)"
  using error_code_value_pos by (auto simp: fail_current_exception_def reported_def less_le split: option.split)

lemma exception_fields [simp]:
  "c_blocks (fail_current_exception f e c) = c_blocks c" "slot_ok c \<Longrightarrow> slot_ok (fail_current_exception f e c)"
  by (simp_all add: fail_current_exception_def)

lemma reported_clear: "slot_ok c \<Longrightarrow> reported 0 (clear_error c)"
  by (simp add: reported_def clear_error_message)

subsection \<open>Requests\<close>

definition handed :: "outputs \<Rightarrow> nat set" where
  "handed out = (case fst out of None \<Rightarrow> {} | Some b \<Rightarrow> set_option (eb_data b))"

text \<open>What the memory of the caller holds after a call that returned a response.\<close>

definition holds_response :: "Response \<Rightarrow> outputs \<Rightarrow> CState \<Rightarrow> bool" where
  "holds_response response out c \<longleftrightarrow>
     (\<exists>b. out = (Some b, Some (rsp_status response)) \<and> eb_size b = length (rsp_body response) \<and>
        (case eb_data b of None \<Rightarrow> rsp_body response = [] | Some a \<Rightarrow> c_blocks c a = Some (rsp_body response)))"

lemma c_allocate_cases:
  obtains (null) c' where "c_allocate n c = (c', None)" "c_blocks c' = c_blocks c" "slot_ok c' = slot_ok c"
      "last_error_message c' = last_error_message c" "last_error_code c' = last_error_code c"
  | (block) c' a where "c_allocate n c = (c', Some a)" "c_blocks c' = (c_blocks c)(a \<mapsto> replicate n 0)"
      "slot_ok c' = slot_ok c" "last_error_message c' = last_error_message c" "last_error_code c' = last_error_code c"
      "Some a \<in> set (c_malloc c)"
proof (cases "c_malloc c")
  case Nil
  then show ?thesis using null [of c] by (simp add: c_allocate_def)
next
  case (Cons x as)
  show ?thesis
  proof (cases x)
    case None
    with Cons show ?thesis using null [of "c\<lparr>c_malloc := as\<rparr>"] by (simp add: c_allocate_def)
  next
    case (Some a)
    with Cons show ?thesis
      using block [of "c\<lparr>c_malloc := as, c_blocks := (c_blocks c)(a \<mapsto> replicate n 0)\<rparr>" a]
      by (simp add: c_allocate_def slot_ok_def)
  qed
qed

lemma reported_frames:
  "last_error_message c' = last_error_message c \<Longrightarrow> last_error_code c' = last_error_code c \<Longrightarrow>
     reported i c' = reported i c"
  by (simp add: reported_def easy_uds_last_error_def)

lemma write_response_result:
  assumes "slot_ok c" "reported 0 c" "write_response response out c = (c', out', i)"
  shows "slot_ok c' \<and> reported i c' \<and>
    (i = 0 \<and> holds_response response out' c' \<and> dom (c_blocks c') = dom (c_blocks c) \<union> handed out' \<or>
     i = -1 \<and> c_blocks c' = c_blocks c)"
proof (cases "\<exists>b st. out = (Some b, Some st)")
  case False
  then have "write_response response out c =
      (fail (str ''response output pointers must not be null'') (-1) c, out, -1)"
    by (auto simp: write_response_def split: prod.split option.split)
  then show ?thesis using assms by auto
next
  case True
  then obtain b st where out: "out = (Some b, Some st)" by blast
  show ?thesis
  proof (cases "rsp_body response = []")
    case True
    then show ?thesis using assms out by (auto simp: write_response_def holds_response_def handed_def)
  next
    case ne: False
    show ?thesis
      by (rule c_allocate_cases [of "length (rsp_body response)" c])
        (use assms out ne in \<open>auto simp: write_response_def holds_response_def handed_def
           reported_frames [of "_\<lparr>c_blocks := _\<rparr>" c]\<close>)
  qed
qed

lemma answer_result:
  assumes "slot_ok c" "reported 0 c" "answer f r out c = (c', out', i)"
  shows "slot_ok c' \<and> reported i c' \<and>
    (i = 0 \<and> (\<exists>response. r = Inr response \<and> holds_response response out' c') \<and>
       dom (c_blocks c') = dom (c_blocks c) \<union> handed out' \<or>
     i = -1 \<and> c_blocks c' = c_blocks c)"
proof (cases r)
  case (Inl e)
  then show ?thesis using assms by (auto simp: answer_def)
next
  case (Inr response)
  then show ?thesis using write_response_result [OF assms(1,2)] assms(3) by (simp add: answer_def)
qed

lemma answer_exception:
  assumes "slot_ok c" "answer f (Inl e) out c = (c', out', i)"
  shows "i = -1 \<and> out' = out \<and> c_blocks c' = c_blocks c \<and>
    easy_uds_last_error_code c' = (case error_kind e of Some k \<Rightarrow> error_code_value k | None \<Rightarrow> -1) \<and>
    easy_uds_last_error c' = take 1023 (c_string (exception_what f e))"
  using assms
  by (auto simp: answer_def fail_current_exception_def easy_uds_last_error_code_def slot_ok_def last_error_fail)

lemma write_response_code:
  assumes "write_response response (Some b, Some st) c = (c', out', i)"
  shows "i = 0 \<longleftrightarrow> rsp_body response = [] \<or> (\<exists>a as. c_malloc c = Some a # as)"
  using assms
  by (auto simp: write_response_def c_allocate_def Let_def split: if_splits list.splits option.splits prod.splits)

lemma write_response_freed:
  assumes "write_response response (Some b, Some st) c = (c', out', i)" "i = 0" "handed out' \<inter> dom (c_blocks c) = {}"
  shows "c_blocks (fst (easy_uds_bytes_free (fst out') c')) = c_blocks c"
  using assms
  by (auto simp: write_response_def c_allocate_def Let_def handed_def easy_uds_bytes_free_def fun_upd_idem_iff domIff
      split: if_splits list.splits option.splits prod.splits)

lemma last_error_fits: "slot_ok c \<Longrightarrow> length (easy_uds_last_error c) < last_error_capacity"
proof -
  assume ok: "slot_ok c"
  have "length (takeWhile (\<lambda>b. b \<noteq> 0) xs) < length xs" if "(0 :: byte) \<in> set xs" for xs
    using that by (induction xs) auto
  from this [of "last_error_message c"] ok show ?thesis
    by (simp add: slot_ok_def easy_uds_last_error_def c_string_def)
qed

subsection \<open>Sequences of calls\<close>

text \<open>
  The calls of a thread that set its error slot, with the value they return: the return code, and for a
  function that returns a pointer 0 when it is not null and \<open>-1\<close> when it is. The second component is the
  set of blocks the caller has been handed and has not freed.
\<close>

definition pointer_code :: "'a option \<Rightarrow> int" where
  "pointer_code p = (if p = None then -1 else 0)"

definition taken :: "int \<Rightarrow> outputs \<Rightarrow> nat set" where
  "taken i out = (if i = 0 then handed out else {})"

inductive c_call :: "CState \<Rightarrow> int \<Rightarrow> nat set \<Rightarrow> CState \<Rightarrow> bool" where
  client_request: "easy_uds_client_request f cl r rn b bn out w c = (w', c', out', i) \<Longrightarrow>
    c_call c i (taken i out') c'"
| request_idempotent: "easy_uds_client_request_idempotent f cl r rn b bn n out w c = (w', ps, c', out', i) \<Longrightarrow>
    c_call c i (taken i out') c'"
| session_request: "easy_uds_session_request f fuel env slot s r rn b bn out c = Some (s', c', out', i) \<Longrightarrow>
    c_call c i (taken i out') c'"
| session_request_cancellable:
    "easy_uds_session_request_cancellable f fuel env slot s tok r rn b bn out c = Some (s', c', out', i) \<Longrightarrow>
    c_call c i (taken i out') c'"
| server_create: "easy_uds_server_create f path w c = (w', c', sv) \<Longrightarrow> c_call c (pointer_code sv) {} c'"
| server_on: "easy_uds_server_on f sv r rn h u c = (sv', c', i) \<Longrightarrow> c_call c i {} c'"
| server_on_context: "easy_uds_server_on_context f sv r rn hc u c = (sv', c', i) \<Longrightarrow> c_call c i {} c'"
| server_run: "easy_uds_server_run f run sv c = (sv', c', Some i) \<Longrightarrow> c_call c i {} c'"
| server_stop: "easy_uds_server_stop sv c = (sv', c', i) \<Longrightarrow> c_call c i {} c'"
| client_create: "easy_uds_client_create f path c = (c', cl) \<Longrightarrow> c_call c (pointer_code cl) {} c'"
| client_create_with_options: "easy_uds_client_create_with_options f path opt c = (c', cl) \<Longrightarrow>
    c_call c (pointer_code cl) {} c'"
| session_create: "easy_uds_session_create f spawn cl w c = (w', c', s) \<Longrightarrow> c_call c (pointer_code s) {} c'"
| cancellation_create: "easy_uds_cancellation_create a flags c = (flags', c', tok) \<Longrightarrow>
    c_call c (pointer_code tok) {} c'"
| cancellation_cancel: "easy_uds_cancellation_cancel tok flags c = (flags', c') \<Longrightarrow> c_call c 0 {} c'"

inductive c_reachable :: "CState \<Rightarrow> nat set \<Rightarrow> bool" where
  start: "c_reachable (new_c_state as) {}"
| call: "c_reachable c owned \<Longrightarrow> c_call c i new c' \<Longrightarrow> c_reachable c' (owned \<union> new)"
| release: "c_reachable c owned \<Longrightarrow> easy_uds_bytes_free b c = (c', b') \<Longrightarrow>
    c_reachable c' (owned - handed (b, None))"

definition good_call :: "CState \<Rightarrow> int \<Rightarrow> nat set \<Rightarrow> CState \<Rightarrow> bool" where
  "good_call c i new c' \<longleftrightarrow>
     slot_ok c' \<and> reported i c' \<and> dom (c_blocks c') = dom (c_blocks c) \<union> new \<and> (i \<noteq> 0 \<longrightarrow> c_blocks c' = c_blocks c)"

lemma good_answer:
  assumes "slot_ok c" "answer f r out (clear_error c) = (c', out', i)"
  shows "good_call c i (taken i out') c'"
  using answer_result [OF clear_error_message(1) [OF assms(1)] reported_clear [OF assms(1)] assms(2)]
  by (auto simp: good_call_def taken_def)

lemma good_fail:
  assumes "slot_ok c" "i \<noteq> 0"
  shows "good_call c (-1) {} (fail m i (clear_error c))" "good_call c (-1) (taken (-1) out) (fail m i (clear_error c))"
  using assms by (simp_all add: good_call_def taken_def clear_error_message)

lemma good_exception:
  assumes "slot_ok c"
  shows "good_call c (-1) {} (fail_current_exception f e (clear_error c))"
  using assms by (simp add: good_call_def clear_error_message)

lemma good_clear:
  assumes "slot_ok c"
  shows "good_call c 0 {} (clear_error c)"
  using assms by (simp add: good_call_def clear_error_message reported_clear)

lemma good_return_code:
  assumes "slot_ok c" "return_code f r (clear_error c) = (c', i)"
  shows "good_call c i {} c'"
  using assms good_exception good_clear by (cases r) (auto simp: return_code_def)

lemmas good_calls = good_fail good_exception good_clear

lemma good_request:
  assumes "slot_ok c" "easy_uds_client_request f cl r rn b bn out w c = (w', c', out', i)"
  shows "good_call c i (taken i out') c'"
  using assms
  by (auto simp: easy_uds_client_request_def Let_def intro: good_calls good_answer
      split: option.splits if_splits prod.splits)

lemma good_request_idempotent:
  assumes "slot_ok c" "easy_uds_client_request_idempotent f cl r rn b bn n out w c = (w', ps, c', out', i)"
  shows "good_call c i (taken i out') c'"
  using assms
  by (auto simp: easy_uds_client_request_idempotent_def Let_def intro: good_calls good_answer
      split: option.splits if_splits prod.splits)

lemma good_session_request:
  assumes "slot_ok c" "easy_uds_session_request f fuel env slot s r rn b bn out c = Some (s', c', out', i)"
  shows "good_call c i (taken i out') c'"
  using assms
  by (auto simp: easy_uds_session_request_def Let_def intro: good_calls good_answer
      split: option.splits if_splits prod.splits)

lemma good_session_request_cancellable:
  assumes "slot_ok c"
    "easy_uds_session_request_cancellable f fuel env slot s tok r rn b bn out c = Some (s', c', out', i)"
  shows "good_call c i (taken i out') c'"
  using assms
  by (auto simp: easy_uds_session_request_cancellable_def Let_def intro: good_calls good_answer
      split: option.splits if_splits prod.splits)

lemma good_server_calls:
  assumes "slot_ok c"
  shows "easy_uds_server_create f path w c = (w', c', sv) \<Longrightarrow> good_call c (pointer_code sv) {} c'"
    "easy_uds_server_on f sv r rn h u c = (sv', c', i) \<Longrightarrow> good_call c i {} c'"
    "easy_uds_server_on_context f sv r rn hc u c = (sv', c', i) \<Longrightarrow> good_call c i {} c'"
    "easy_uds_server_run f run sv c = (sv', c', Some i) \<Longrightarrow> good_call c i {} c'"
    "easy_uds_server_stop sv c = (sv', c', i) \<Longrightarrow> good_call c i {} c'"
  using assms
  by (auto simp: easy_uds_server_create_def easy_uds_server_on_def easy_uds_server_on_context_def
      easy_uds_server_run_def easy_uds_server_stop_def Let_def pointer_code_def
      intro: good_calls good_return_code split: option.splits if_splits prod.splits sum.splits)

lemma good_construct:
  assumes "slot_ok c"
  shows "construct_client f p opt (clear_error c) = (c', None) \<Longrightarrow> good_call c (-1) {} c'"
    "construct_client f p opt (clear_error c) = (c', Some cl) \<Longrightarrow> good_call c 0 {} c'"
  using assms by (auto simp: construct_client_def intro: good_calls split: sum.splits)

lemma good_client_create:
  assumes "slot_ok c" "easy_uds_client_create_with_options f path opt c = (c', cl)"
  shows "good_call c (pointer_code cl) {} c'"
  using assms
  by (auto simp: easy_uds_client_create_with_options_def Let_def pointer_code_def
      intro: good_calls good_construct split: option.splits if_splits)

lemma good_session_create:
  assumes "slot_ok c" "easy_uds_session_create f spawn cl w c = (w', c', s)"
  shows "good_call c (pointer_code s) {} c'"
  using assms
  by (auto simp: easy_uds_session_create_def Let_def pointer_code_def
      intro: good_calls split: option.splits prod.splits sum.splits)

lemma good_cancellation:
  assumes "slot_ok c"
  shows "easy_uds_cancellation_create a flags c = (flags', c', tok) \<Longrightarrow> good_call c (pointer_code tok) {} c'"
    "easy_uds_cancellation_cancel tok flags c = (flags', c') \<Longrightarrow> good_call c 0 {} c'"
  using assms
  by (auto simp: easy_uds_cancellation_create_def easy_uds_cancellation_cancel_def Let_def pointer_code_def
      intro: good_calls split: option.splits)

lemma c_call_good:
  assumes "c_call c i new c'" "slot_ok c"
  shows "good_call c i new c'"
  using assms
  by (induction rule: c_call.induct)
    (auto simp: easy_uds_client_create_def
      intro: good_request good_request_idempotent good_session_request good_session_request_cancellable
        good_server_calls good_client_create good_session_create good_cancellation)

lemma c_reachable_invariant:
  assumes "c_reachable c owned"
  shows "slot_ok c \<and> dom (c_blocks c) = owned"
  using assms
proof (induction rule: c_reachable.induct)
  case (start as)
  then show ?case using slot_ok_new by (simp add: new_c_state_def)
next
  case (call c owned i new c')
  then show ?case using c_call_good [OF call.hyps(2)] by (simp add: good_call_def)
next
  case (release c owned b c' b')
  then show ?case
    by (auto simp: easy_uds_bytes_free_def handed_def slot_ok_def split: option.splits if_splits)
qed

subsection \<open>The contract of the C functions\<close>

text \<open>
  C38: a C caller can rely on the return codes, the error slot and the ownership of memory. After any
  sequence of calls of a thread, a further call returns 0 with the error slot empty, or \<open>-1\<close> (null
  where it returns a pointer) with a code that is not 0, and the blocks that are allocated are exactly
  those handed to the caller in responses and not freed yet; a failed call leaves none behind.
\<close>

theorem c_calls_reported:
  assumes "c_reachable c owned" "c_call c i new c'"
  shows "(i = 0 \<and> easy_uds_last_error_code c' = 0 \<and> easy_uds_last_error c' = [] \<or>
      i = -1 \<and> easy_uds_last_error_code c' \<noteq> 0) \<and>
    length (easy_uds_last_error c') < last_error_capacity \<and>
    dom (c_blocks c') = owned \<union> new \<and> (i \<noteq> 0 \<longrightarrow> c_blocks c' = c_blocks c)"
proof -
  have ok: "slot_ok c" "dom (c_blocks c) = owned" using c_reachable_invariant [OF assms(1)] by simp_all
  have g: "good_call c i new c'" by (rule c_call_good [OF assms(2) ok(1)])
  then have "length (easy_uds_last_error c') < last_error_capacity"
    by (intro last_error_fits) (simp add: good_call_def)
  then show ?thesis
    using g ok(2) by (auto simp: good_call_def reported_def easy_uds_last_error_code_def)
qed

lemma c_calls_reported_witness:
  "easy_uds_last_error_code (fst (easy_uds_client_create (\<lambda>_. []) None (new_c_state []))) \<noteq> 0 \<and>
   snd (easy_uds_client_create (\<lambda>_. []) None (new_c_state [])) = None"
proof -
  obtain c' cl where c: "easy_uds_client_create (\<lambda>_. []) None (new_c_state []) = (c', cl)" by fastforce
  then have n: "cl = None" by (simp add: easy_uds_client_create_def easy_uds_client_create_with_options_def Let_def)
  show ?thesis
    using c_calls_reported [OF c_reachable.start c_call.client_create [OF c]] c n by (simp add: pointer_code_def)
qed

text \<open>
  C39: a C request does what the C++ request does. When its arguments are valid it makes the same
  exchange; an exception becomes its kind, or \<open>-1\<close>, and the first 1023 bytes of its message, with the
  outputs and the memory untouched; a response is returned, if the allocator gives a block for a body
  that is not empty, as exactly its status and its body, and \<^verbatim>\<open>easy_uds_bytes_free\<close> then restores the
  memory.
\<close>

theorem c_request_delivers:
  assumes "c_reachable c owned" "request_arguments_valid route n body m out"
    "client_request (ec_socket_path cl) (ec_options cl) (bytes_view route n) (bytes_view body m) w = (w', r)"
    "easy_uds_client_request f (Some cl) route n body m out w c = (w1, c', out', i)"
  shows "w1 = w' \<and>
    (case r of
       Inl e \<Rightarrow> i = -1 \<and> out' = out \<and> c_blocks c' = c_blocks c \<and>
         easy_uds_last_error_code c' = (case error_kind e of Some k \<Rightarrow> error_code_value k | None \<Rightarrow> -1) \<and>
         easy_uds_last_error c' = take 1023 (c_string (exception_what f e))
     | Inr response \<Rightarrow>
         (i = 0 \<longleftrightarrow> rsp_body response = [] \<or> (\<exists>a as. c_malloc c = Some a # as)) \<and>
         (i = 0 \<longrightarrow> holds_response response out' c' \<and>
            (handed out' \<inter> owned = {} \<longrightarrow> c_blocks (fst (easy_uds_bytes_free (fst out') c')) = c_blocks c)))"
proof -
  have ok: "slot_ok c" "dom (c_blocks c) = owned" using c_reachable_invariant [OF assms(1)] by simp_all
  then have s: "slot_ok (clear_error c)" by (simp add: clear_error_message)
  have a: "w1 = w'" "answer f r out (clear_error c) = (c', out', i)"
    using assms(2,3,4) by (simp_all add: easy_uds_client_request_def Let_def)
  show ?thesis
  proof (cases r)
    case (Inl e)
    then show ?thesis using a answer_exception [OF s] by simp
  next
    case (Inr response)
    obtain b st where out: "out = (Some b, Some st)"
      using assms(2) by (cases out) (auto simp: request_arguments_valid_def)
    have "write_response response (Some b, Some st) (clear_error c) = (c', out', i)"
      using a(2) Inr out by (simp add: answer_def)
    from write_response_code [OF this] write_response_freed [OF this] answer_result [OF s reported_clear [OF ok(1)] a(2)]
    show ?thesis using a(1) Inr ok(2) by auto
  qed
qed

lemma c_request_delivers_witness:
  "\<exists>w' c' b. easy_uds_client_request (\<lambda>_. []) (Some \<lparr>ec_socket_path = str ''/s'', ec_options = client_sample_options\<rparr>)
     (Some (str ''/a'')) 2 (Some (str ''hi'')) 2 (Some \<lparr>eb_data = None, eb_size = 0\<rparr>, Some 0) client_sample_world
     (new_c_state [Some 7]) = (w', c', (Some b, Some 200), 0) \<and>
   eb_size b = 4 \<and> (\<exists>a. eb_data b = Some a \<and> c_blocks c' a = Some (str ''pong''))"
proof -
  let ?cl = "\<lparr>ec_socket_path = str ''/s'', ec_options = client_sample_options\<rparr>"
  let ?out = "(Some \<lparr>eb_data = None, eb_size = 0\<rparr>, Some 0)"
  have v: "request_arguments_valid (Some (str ''/a'')) 2 (Some (str ''hi'')) 2 ?out"
    by (simp add: request_arguments_valid_def valid_bytes_def)
  obtain w' where w: "client_request (ec_socket_path ?cl) (ec_options ?cl) (bytes_view (Some (str ''/a'')) 2)
      (bytes_view (Some (str ''hi'')) 2) client_sample_world = (w', Inr (Response_ok (str ''pong'')))"
    using client_sample_answered by (auto simp: bytes_view_def)
  obtain w1 c' out' i where q: "easy_uds_client_request (\<lambda>_. []) (Some ?cl) (Some (str ''/a'')) 2 (Some (str ''hi'')) 2
      ?out client_sample_world (new_c_state [Some 7]) = (w1, c', out', i)"
    using prod_cases4 by blast
  have "i = 0 \<and> holds_response (Response_ok (str ''pong'')) out' c'"
    using c_request_delivers [OF c_reachable.start v w q] by (simp add: new_c_state_def)
  then show ?thesis
    using q by (auto simp: holds_response_def Response_ok_def status_ok_def str_def split: option.splits)
qed

subsection \<open>Handlers\<close>

lemma server_on_registers:
  assumes "easy_uds_server_on f (Some s) route n (Some h) u c = (Some s', c', 0)"
  shows "ss_handler_registry s' = (ss_handler_registry s)\<lparr>hr_handlers :=
      (bytes_view route n, plain_entry (Some (\<lambda>q. Returned (snd (invoke_c_handler h u q)))) False) #
        hr_handlers (ss_handler_registry s)\<rparr>"
  using assms
  by (auto simp: easy_uds_server_on_def Let_def update_handler_registry_def return_code_def Server_on_def exact_def
      register_exact_entry_ok split: if_splits sum.splits)

text \<open>
  C40: a handler registered through the C interface serves its route. After a registration that
  returned 0 the route resolves to it; a call that succeeds is answered with its status and exactly the
  bytes it named, a failed one and one that names bytes behind a null pointer with status 500; the body is
  released once in each of these cases when the handler asked for it. All other routes resolve as before.
\<close>

theorem c_handler_answers:
  assumes "easy_uds_server_on f (Some s) route n (Some h) u c = (Some s', c', 0)"
    "h u (rq_route q) (rq_body q) initial_c_response = (result, x)"
  shows "(\<exists>entry response. find_request_handler (ss_handler_registry s') (bytes_view route n) = Some entry \<and>
      call_handler (he_handler entry) q = Returned response \<and>
      invoke_c_handler h u q =
        (if cr_release_body x then [(cr_release_owner x, cr_body x)] else [], response) \<and>
      (\<forall>bytes. result = 0 \<and> cr_body x = Some bytes \<longrightarrow>
         response = \<lparr>rsp_status = cr_status x, rsp_body = take (cr_body_size x) bytes\<rparr>) \<and>
      (result = 0 \<and> cr_body x = None \<and> cr_body_size x = 0 \<longrightarrow>
         response = \<lparr>rsp_status = cr_status x, rsp_body = []\<rparr>) \<and>
      (result \<noteq> 0 \<or> cr_body x = None \<and> cr_body_size x \<noteq> 0 \<longrightarrow> rsp_status response = 500)) \<and>
    (\<forall>other. other \<noteq> bytes_view route n \<longrightarrow>
      find_request_handler (ss_handler_registry s') other = find_request_handler (ss_handler_registry s) other)"
proof (intro conjI allI impI)
  note r = server_on_registers [OF assms(1)]
  show "\<exists>entry response. find_request_handler (ss_handler_registry s') (bytes_view route n) = Some entry \<and>
      call_handler (he_handler entry) q = Returned response \<and>
      invoke_c_handler h u q =
        (if cr_release_body x then [(cr_release_owner x, cr_body x)] else [], response) \<and>
      (\<forall>bytes. result = 0 \<and> cr_body x = Some bytes \<longrightarrow>
         response = \<lparr>rsp_status = cr_status x, rsp_body = take (cr_body_size x) bytes\<rparr>) \<and>
      (result = 0 \<and> cr_body x = None \<and> cr_body_size x = 0 \<longrightarrow>
         response = \<lparr>rsp_status = cr_status x, rsp_body = []\<rparr>) \<and>
      (result \<noteq> 0 \<or> cr_body x = None \<and> cr_body_size x \<noteq> 0 \<longrightarrow> rsp_status response = 500)"
    using assms(2)
    by (auto simp: r find_request_handler_def plain_entry_def invoke_c_handler_def release_c_body_def valid_bytes_def
        bytes_view_def)
  fix other
  assume "other \<noteq> bytes_view route n"
  then show "find_request_handler (ss_handler_registry s') other = find_request_handler (ss_handler_registry s) other"
    by (simp add: r find_request_handler_def split: option.split)
qed

definition c_sample_handler :: c_handler where
  "c_sample_handler u route body response =
     (0, response\<lparr>cr_status := 200, cr_body := Some (str ''pong!''), cr_body_size := 4, cr_release_body := True,
            cr_release_owner := u\<rparr>)"

lemma c_sample_registered:
  "\<exists>s' c'. easy_uds_server_on (\<lambda>_. []) (Some (blank_state default_server_options)) (Some (str ''/a'')) 2
     (Some c_sample_handler) 9 (new_c_state []) = (Some s', c', 0)"
  by (simp add: easy_uds_server_on_def Let_def valid_bytes_def bytes_view_def update_handler_registry_def
      return_code_def Server_on_def exact_def register_exact_entry_def blank_state_def empty_registry_def
      validate_route_def validate_handler_def and_then_def emplace_new_def str_def default_server_options_def
      default_max_message_size_def)

lemma c_handler_answers_witness:
  "\<exists>s' c' entry. easy_uds_server_on (\<lambda>_. []) (Some (blank_state default_server_options)) (Some (str ''/a'')) 2
       (Some c_sample_handler) 9 (new_c_state []) = (Some s', c', 0) \<and>
     find_request_handler (ss_handler_registry s') (str ''/a'') = Some entry \<and>
     call_handler (he_handler entry) \<lparr>rq_route = str ''/a'', rq_body = [], rq_request_id = 1\<rparr> =
       Returned \<lparr>rsp_status = 200, rsp_body = str ''pong''\<rparr>"
proof -
  let ?q = "\<lparr>rq_route = str ''/a'', rq_body = [], rq_request_id = 1\<rparr>"
  obtain s' c' where c: "easy_uds_server_on (\<lambda>_. []) (Some (blank_state default_server_options)) (Some (str ''/a'')) 2
      (Some c_sample_handler) 9 (new_c_state []) = (Some s', c', 0)"
    using c_sample_registered by blast
  obtain x where x: "c_sample_handler 9 (rq_route ?q) (rq_body ?q) initial_c_response = (0, x)"
    "cr_body x = Some (str ''pong!'')" "cr_body_size x = 4" "cr_status x = 200"
    by (simp add: c_sample_handler_def)
  show ?thesis
    using c_handler_answers [OF c x(1)] c x(2-4) by (auto simp: bytes_view_def str_def)
qed

end
