(* ===== verification/SimpleApi.thy ===== *)
theory SimpleApi
  imports Registry Client
begin

text \<open>
  The convenience layer (\<^verbatim>\<open>src/user/cpp/simple/easy_uds/simple.hpp\<close>): handlers that return strings, routes assigned
  a value, and a client whose requests return the body or throw.
\<close>

subsection \<open>Values a handler may return\<close>

text \<open>
  The types \<^verbatim>\<open>to_response\<close> accepts: \<^verbatim>\<open>std::string\<close>, \<^verbatim>\<open>std::string_view\<close> and \<^verbatim>\<open>const char*\<close>, whose pointer is
  \<open>None\<close> for null and else the string it denotes. Any other type does not compile.
\<close>

datatype handler_value = HV_string bstring | HV_string_view bstring | HV_c_string "bstring option"

fun to_response :: "handler_value \<Rightarrow> Response callback_result" where
  "to_response (HV_string v) = Returned (Response_ok v)"
| "to_response (HV_c_string None) = Threw_std ''easy-uds simple handler returned a null C string''"
| "to_response (HV_c_string (Some v)) = Returned (Response_ok v)"
| "to_response (HV_string_view v) = Returned (Response_ok v)"

text \<open>A handler takes the body of the request or nothing.\<close>

datatype simple_handler =
    Takes_body "bstring \<Rightarrow> handler_value callback_result"
  | Takes_nothing "handler_value callback_result"

fun respond_with :: "handler_value callback_result \<Rightarrow> Response callback_result" where
  "respond_with (Returned v) = to_response v"
| "respond_with (Threw_std m) = Threw_std m"
| "respond_with Threw_other = Threw_other"

fun invoke_handler :: "simple_handler \<Rightarrow> bstring \<Rightarrow> Response callback_result" where
  "invoke_handler (Takes_body h) body = respond_with (h body)"
| "invoke_handler (Takes_nothing r) body = respond_with r"

subsection \<open>Routes\<close>

definition register_constant :: "nat \<Rightarrow> bstring \<Rightarrow> bstring \<Rightarrow> HandlerRegistry \<Rightarrow> exn + HandlerRegistry" where
  "register_constant max_message_size route v =
     Server_on max_message_size route (Some (\<lambda>_. Returned (Response_ok v)))"

datatype route_value = RV_value handler_value | RV_handler simple_handler

fun assign_route :: "nat \<Rightarrow> bstring \<Rightarrow> route_value \<Rightarrow> HandlerRegistry \<Rightarrow> exn + HandlerRegistry" where
  "assign_route mx route (RV_value (HV_string v)) reg = register_constant mx route v reg"
| "assign_route mx route (RV_value (HV_string_view v)) reg = register_constant mx route v reg"
| "assign_route mx route (RV_value (HV_c_string None)) reg =
     Inl (Invalid_argument ''easy-uds simple route value must not be null'')"
| "assign_route mx route (RV_value (HV_c_string (Some v))) reg = register_constant mx route v reg"
| "assign_route mx route (RV_handler h) reg =
     Server_on mx route (Some (\<lambda>request. invoke_handler h (rq_body request))) reg"

subsection \<open>The client\<close>

fun nat_digits :: "nat \<Rightarrow> string" where
  "nat_digits n = (if n < 10 then [char_of (48 + n)] else nat_digits (n div 10) @ [char_of (48 + n mod 10)])"

declare nat_digits.simps [simp del]

definition to_string :: "int \<Rightarrow> string" where
  "to_string i = (if i < 0 then CHR ''-'' # nat_digits (nat (- i)) else nat_digits (nat i))"

record ResponseError =
  re_what :: string
  re_status :: Status
  re_body :: bstring

definition response_error :: "Status \<Rightarrow> bstring \<Rightarrow> ResponseError" where
  "response_error status body =
     \<lparr>re_what = ''easy-uds simple response returned status '' @ to_string status, re_status = status,
      re_body = body\<rparr>"

datatype simple_result = Body bstring | Response_error ResponseError | Exception exn

definition simple_request ::
  "bstring \<Rightarrow> ClientOptions \<Rightarrow> bstring \<Rightarrow> bstring \<Rightarrow> World \<Rightarrow> World \<times> simple_result" where
  "simple_request socket_path options route body w =
     (case client_request socket_path options route body w of
        (w, Inl e) \<Rightarrow> (w, Exception e)
      | (w, Inr response) \<Rightarrow>
          if rsp_status response \<noteq> status_ok
          then (w, Response_error (response_error (rsp_status response) (rsp_body response)))
          else (w, Body (rsp_body response)))"

subsection \<open>What they show to their users\<close>

text \<open>A simple client talks to a simple server through plain values, and loses none of the other responses.\<close>

theorem simple_request_total:
  "client_request path options route body w = (w', r) \<Longrightarrow>
   (\<exists>b. simple_request path options route body w = (w', Body b) \<and> r = Inr (Response_ok b)) \<or>
   (\<exists>e. simple_request path options route body w = (w', Response_error e) \<and> re_status e \<noteq> status_ok \<and>
      r = Inr \<lparr>rsp_status = re_status e, rsp_body = re_body e\<rparr>) \<or>
   (\<exists>e. simple_request path options route body w = (w', Exception e) \<and> r = Inl e)"
  by (auto simp: simple_request_def response_error_def Response_ok_def split: sum.splits)

lemma assigned_value_served:
  assumes "assign_route mx route v reg = Inr reg'"
  shows "\<exists>entry. find_request_handler reg' route = Some entry \<and>
    call_handler (he_handler entry) request =
      (case v of RV_value x \<Rightarrow> to_response x | RV_handler h \<Rightarrow> invoke_handler h (rq_body request))"
  using assms
  by (induction mx route v reg rule: assign_route.induct)
    (auto simp: register_constant_def Server_on_def exact_def register_exact_entry_ok find_request_handler_def
      plain_entry_def)

end
