(* ===== verification/Kqueue.thy ===== *)
theory Kqueue
  imports EventLoop
begin

text \<open>
  The platform layer for BSD kernels (\<^verbatim>\<open>src/system/platform/posix\<close>) where it differs from the Linux one: sockets
  that are configured by separate calls, \<^verbatim>\<open>getpeereid\<close>, and readiness over \<^verbatim>\<open>kqueue\<close> and pipes. Its other files
  have the text of the Linux ones. The theorems show that events are merged per descriptor, that the
  filters follow the interest and that no end of a wakeup pipe is lost.
\<close>

subsection \<open>Endpoints\<close>

text \<open>
  \<^verbatim>\<open>sun_path\<close> has 104 bytes on these systems. \<^verbatim>\<open>configure_no_sigpipe\<close> does nothing where \<^verbatim>\<open>MSG_NOSIGNAL\<close> exists.
\<close>

definition bsd_sun_path_size :: nat where "bsd_sun_path_size = 104"

definition bsd_make_endpoint :: "bstring \<Rightarrow> exn + bstring" where
  "bsd_make_endpoint path =
     (if path = [] then Inl (Invalid_argument ''socket path must not be empty'')
      else if 0 \<in> set path then Inl (Invalid_argument ''pathname socket path must not contain embedded NUL bytes'')
      else if length path \<ge> bsd_sun_path_size then Inl (Invalid_argument ''socket path is too long'')
      else Inr (path @ [0]))"

definition configure_socket :: "fd \<Rightarrow> World \<Rightarrow> World \<times> (errno + fd)" where
  "configure_socket fd w =
     (case lifecycle_set_close_on_exec w of (w, close_on_exec, _) \<Rightarrow>
        (case lifecycle_set_nonblocking w of (w, nonblocking, _) \<Rightarrow>
           (case (close_on_exec, nonblocking) of
              (None, None) \<Rightarrow> (w, Inr fd)
            | (Some e, _) \<Rightarrow> (socket_close fd w, Inl e)
            | (None, Some e) \<Rightarrow> (socket_close fd w, Inl e))))"

definition bsd_create_stream_socket :: "World \<Rightarrow> World \<times> (errno + fd)" where
  "bsd_create_stream_socket w =
     (case create_stream_socket w of (w, Inl e) \<Rightarrow> (w, Inl e) | (w, Inr fd) \<Rightarrow> configure_socket fd w)"

definition bsd_accept_socket :: "World \<Rightarrow> World \<times> (errno + fd)" where
  "bsd_accept_socket w =
     (case accept_socket w of (w, Inl e) \<Rightarrow> (w, Inl e) | (w, Inr fd) \<Rightarrow> configure_socket fd w)"

text \<open>\<open>answer\<close> is that of \<^verbatim>\<open>getpeereid\<close>.\<close>

definition bsd_capture :: "(u32 \<times> u32) option \<Rightarrow> Identity" where
  "bsd_capture answer =
     (case answer of
        None \<Rightarrow> no_identity
      | Some (uid, gid) \<Rightarrow> no_identity\<lparr>id_uid := ucast uid, id_gid := ucast gid, id_present := True\<rparr>)"

subsection \<open>The kernel queue\<close>

datatype Filter = EVFILT_READ | EVFILT_WRITE | EVFILT_other
datatype ChangeFlags = EV_ADD_ENABLE | EV_ADD_DISABLE | EV_DELETE

record KChange =
  kc_ident :: fd
  kc_filter :: Filter
  kc_flags :: ChangeFlags
  kc_udata :: u64

record KEvent =
  ke_ident :: fd
  ke_filter :: Filter
  ke_error :: bool
  ke_eof :: bool
  ke_udata :: u64

text \<open>
  \<open>kq_filters\<close> is what the kernel keeps of a queue: per descriptor and filter whether it is enabled and
  the data of its user. The scripts are the answers to \<^verbatim>\<open>pipe\<close>, to \<^verbatim>\<open>kevent\<close> for single changes (\<open>None\<close> and
  an empty script are success), for events, and to \<^verbatim>\<open>write\<close> and \<^verbatim>\<open>read\<close> on the pipe. \<open>kq_open\<close> are the ends of
  pipes that are open, \<open>kq_timeouts\<close> the timeouts of the waits.
\<close>

record KQueue =
  kq_world :: World
  kq_filters :: "fd \<times> Filter \<rightharpoonup> bool \<times> u64"
  kq_pipe :: "(errno + fd \<times> fd) list"
  kq_change :: "errno option list"
  kq_events :: "(errno + KEvent list) list"
  kq_write :: "errno option list"
  kq_read :: "(errno + nat) list"
  kq_open :: "fd set"
  kq_written :: "fd list"
  kq_timeouts :: "(int \<times> int) option list"
  wakeup_writers :: "(fd \<times> fd) list"

definition kernel_change :: "KChange \<Rightarrow> KQueue \<Rightarrow> KQueue \<times> errno option" where
  "kernel_change ch q =
     (let key = (kc_ident ch, kc_filter ch);
          (q, fault) = (case kq_change q of [] \<Rightarrow> (q, None) | a # as \<Rightarrow> (q\<lparr>kq_change := as\<rparr>, a))
      in case fault of
           Some e \<Rightarrow> (q, Some e)
         | None \<Rightarrow>
             (case kc_flags ch of
                EV_DELETE \<Rightarrow>
                  if kq_filters q key = None then (q, Some ENOENT)
                  else (q\<lparr>kq_filters := (kq_filters q)(key := None)\<rparr>, None)
              | EV_ADD_ENABLE \<Rightarrow> (q\<lparr>kq_filters := (kq_filters q)(key \<mapsto> (True, kc_udata ch))\<rparr>, None)
              | EV_ADD_DISABLE \<Rightarrow> (q\<lparr>kq_filters := (kq_filters q)(key \<mapsto> (False, kc_udata ch))\<rparr>, None)))"

fun kernel_changes :: "KChange list \<Rightarrow> KQueue \<Rightarrow> KQueue \<times> errno option" where
  "kernel_changes [] q = (q, None)"
| "kernel_changes (ch # chs) q =
     (case kernel_change ch q of (q, Some e) \<Rightarrow> (q, Some e) | (q, None) \<Rightarrow> kernel_changes chs q)"

subsection \<open>Readiness (\<^verbatim>\<open>posix/readiness.cpp\<close>)\<close>

definition on_kq_world :: "(World \<Rightarrow> World \<times> 'a) \<Rightarrow> KQueue \<Rightarrow> KQueue \<times> 'a" where
  "on_kq_world f q = (case f (kq_world q) of (w, x) \<Rightarrow> (q\<lparr>kq_world := w\<rparr>, x))"

text \<open>The result is the \<^verbatim>\<open>errno\<close> value of the call that failed.\<close>

definition configure_fd :: "World \<Rightarrow> World \<times> errno option" where
  "configure_fd w =
     (case kernel_fcntl w of (w, descriptor_flags) \<Rightarrow>
        (case kernel_fcntl w of (w, status_flags) \<Rightarrow>
           (case (descriptor_flags, status_flags) of
              (_, Inl e) \<Rightarrow> (w, Some e)
            | (Inl e, Inr _) \<Rightarrow> (w, Some e)
            | (Inr _, Inr _) \<Rightarrow>
                (case kernel_fcntl w of
                   (w, Inl e) \<Rightarrow> (w, Some e)
                 | (w, Inr _) \<Rightarrow>
                     (case kernel_fcntl w of (w, Inl e) \<Rightarrow> (w, Some e) | (w, Inr _) \<Rightarrow> (w, None))))))"

definition bsd_create_poller :: "World \<Rightarrow> World \<times> (errno + fd)" where
  "bsd_create_poller w =
     (case w_poller w of
        [] \<Rightarrow> (w, Inl (E_other 24))
      | Inl e # as \<Rightarrow> (w\<lparr>w_poller := as\<rparr>, Inl e)
      | Inr fd # as \<Rightarrow>
          (case configure_fd (w\<lparr>w_poller := as\<rparr>) of
             (w, Some e) \<Rightarrow> (add_effect (Eff_close fd) w, Inl e)
           | (w, None) \<Rightarrow> (w, Inr fd)))"

definition close_pipe_end :: "fd \<Rightarrow> KQueue \<Rightarrow> KQueue" where
  "close_pipe_end fd q =
     q\<lparr>kq_open := kq_open q - {fd}, kq_world := add_effect (Eff_close fd) (kq_world q)\<rparr>"

text \<open>\<open>emplace\<close> is whether the insertion into the table of writers succeeds; it throws when memory is exhausted.\<close>

definition bsd_create_wakeup :: "bool \<Rightarrow> KQueue \<Rightarrow> KQueue \<times> (errno + fd)" where
  "bsd_create_wakeup emplace q =
     (case kq_pipe q of
        [] \<Rightarrow> (q, Inl (E_other 24))
      | Inl e # as \<Rightarrow> (q\<lparr>kq_pipe := as\<rparr>, Inl e)
      | Inr (r, wr) # as \<Rightarrow>
          let q = q\<lparr>kq_pipe := as, kq_open := kq_open q \<union> {r, wr}\<rparr> in
          (case on_kq_world configure_fd q of
             (q, Some e) \<Rightarrow> (close_pipe_end wr (close_pipe_end r q), Inl e)
           | (q, None) \<Rightarrow>
               (case on_kq_world configure_fd q of
                  (q, Some e) \<Rightarrow> (close_pipe_end wr (close_pipe_end r q), Inl e)
                | (q, None) \<Rightarrow>
                    if \<not> emplace then (close_pipe_end wr (close_pipe_end r q), Inl ENOMEM)
                    else (q\<lparr>wakeup_writers :=
                            (if map_of (wakeup_writers q) r = None then (r, wr) # wakeup_writers q
                             else wakeup_writers q)\<rparr>, Inr r))))"

definition bsd_readiness_close :: "fd \<Rightarrow> KQueue \<Rightarrow> KQueue" where
  "bsd_readiness_close fd q =
     (if fd < 0 then q
      else let q = (case map_of (wakeup_writers q) fd of
                      None \<Rightarrow> q
                    | Some wr \<Rightarrow> (close_pipe_end wr q)\<lparr>wakeup_writers := AList.delete fd (wakeup_writers q)\<rparr>)
           in close_pipe_end fd q)"

definition set_change :: "fd \<Rightarrow> Filter \<Rightarrow> u32 \<Rightarrow> u64 \<Rightarrow> KChange" where
  "set_change fd filtr interest token =
     (let enabled = (if filtr = EVFILT_READ then interest AND readable \<noteq> 0 else interest AND writable \<noteq> 0)
      in \<lparr>kc_ident = fd, kc_filter = filtr, kc_flags = (if enabled then EV_ADD_ENABLE else EV_ADD_DISABLE),
          kc_udata = token\<rparr>)"

definition delete_change :: "fd \<Rightarrow> Filter \<Rightarrow> KChange" where
  "delete_change fd filtr = \<lparr>kc_ident = fd, kc_filter = filtr, kc_flags = EV_DELETE, kc_udata = 0\<rparr>"

fun remove_filters :: "KChange list \<Rightarrow> KQueue \<Rightarrow> KQueue \<times> errno option" where
  "remove_filters [] q = (q, None)"
| "remove_filters (ch # chs) q =
     (case kernel_changes [ch] q of
        (q, Some e) \<Rightarrow> if e \<noteq> ENOENT then (q, Some e) else remove_filters chs q
      | (q, None) \<Rightarrow> remove_filters chs q)"

definition bsd_control :: "Control \<Rightarrow> fd \<Rightarrow> u32 \<Rightarrow> u64 \<Rightarrow> KQueue \<Rightarrow> KQueue \<times> errno option" where
  "bsd_control operation fd interest token q =
     (if operation = Ctl_remove
      then remove_filters [delete_change fd EVFILT_READ, delete_change fd EVFILT_WRITE] q
      else kernel_changes [set_change fd EVFILT_READ interest token, set_change fd EVFILT_WRITE interest token] q)"

definition event_mask :: "KEvent \<Rightarrow> u32" where
  "event_mask ev =
     (case ke_filter ev of EVFILT_READ \<Rightarrow> readable | EVFILT_WRITE \<Rightarrow> writable | EVFILT_other \<Rightarrow> 0) OR
     (if ke_error ev then ev_error else 0) OR
     (if ke_eof ev then hangup OR peer_hangup else 0)"

type_synonym ready_event = "fd \<times> u64 \<times> u32"

text \<open>One round of the loop: the search for an entry of the same descriptor, then the merge or a new entry.\<close>

fun merge_event :: "KEvent \<Rightarrow> ready_event list \<Rightarrow> ready_event list" where
  "merge_event ev [] = [(ke_ident ev, ke_udata ev, event_mask ev)]"
| "merge_event ev ((fd, token, m) # es) =
     (if fd = ke_ident ev then (fd, token, m OR event_mask ev) # es else (fd, token, m) # merge_event ev es)"

definition wait_timeout :: "int \<Rightarrow> (int \<times> int) option" where
  "wait_timeout timeout_ms =
     (if timeout_ms \<ge> 0 then Some (timeout_ms div 1000, timeout_ms mod 1000 * 1000000) else None)"

text \<open>\<open>None\<close>: the call blocks, and nothing more is known of it.\<close>

definition bsd_wait :: "nat \<Rightarrow> int \<Rightarrow> KQueue \<Rightarrow> KQueue \<times> (errno + ready_event list) option" where
  "bsd_wait capacity timeout_ms q =
     (if capacity = 0 then (q, Some (Inl EINVAL))
      else let q = q\<lparr>kq_timeouts := kq_timeouts q @ [wait_timeout timeout_ms]\<rparr>
           in case kq_events q of
                [] \<Rightarrow> (q, None)
              | Inl e # as \<Rightarrow> (q\<lparr>kq_events := as\<rparr>, Some (Inl e))
              | Inr evs # as \<Rightarrow>
                  (q\<lparr>kq_events := as\<rparr>, Some (Inr (fold merge_event (take (min capacity max_events) evs) []))))"

text \<open>The write is repeated while it is interrupted.\<close>

fun write_wakeup :: "errno option list \<Rightarrow> errno option list" where
  "write_wakeup (Some e # as) = (if e = EINTR then write_wakeup as else as)"
| "write_wakeup (None # as) = as"
| "write_wakeup [] = []"

definition bsd_signal :: "fd \<Rightarrow> KQueue \<Rightarrow> KQueue" where
  "bsd_signal wake_fd q =
     (case map_of (wakeup_writers q) wake_fd of
        None \<Rightarrow> q
      | Some wr \<Rightarrow> q\<lparr>kq_write := write_wakeup (kq_write q), kq_written := kq_written q @ [wr]\<rparr>)"

fun drain_wakeup :: "(errno + nat) list \<Rightarrow> (errno + nat) list" where
  "drain_wakeup (Inr n # as) = (if n > 0 then drain_wakeup as else as)"
| "drain_wakeup (Inl e # as) = (if e = EINTR then drain_wakeup as else as)"
| "drain_wakeup [] = []"

definition bsd_consume :: "fd \<Rightarrow> KQueue \<Rightarrow> KQueue" where
  "bsd_consume wake_fd q = q\<lparr>kq_read := drain_wakeup (kq_read q)\<rparr>"

subsection \<open>Events are merged per descriptor\<close>

definition merged_mask :: "fd \<Rightarrow> KEvent list \<Rightarrow> u32" where
  "merged_mask fd evs = fold (\<lambda>ev m. m OR event_mask ev) (filter (\<lambda>ev. ke_ident ev = fd) evs) 0"

lemma map_of_merge_event:
  "map_of (merge_event ev es) fd =
     (if fd = ke_ident ev
      then Some (case map_of es fd of None \<Rightarrow> (ke_udata ev, event_mask ev) | Some (token, m) \<Rightarrow> (token, m OR event_mask ev))
      else map_of es fd)"
  by (induction ev es rule: merge_event.induct) auto

lemma merge_event_idents: "fst ` set (merge_event ev es) = insert (ke_ident ev) (fst ` set es)"
  by (induction ev es rule: merge_event.induct) auto

lemma merge_event_distinct: "distinct (map fst es) \<Longrightarrow> distinct (map fst (merge_event ev es))"
  by (induction ev es rule: merge_event.induct) (auto simp: merge_event_idents)

lemma merge_event_length: "length (merge_event ev es) \<le> Suc (length es)"
  by (induction ev es rule: merge_event.induct) auto

lemma find_append: "find P (xs @ ys) = (case find P xs of None \<Rightarrow> find P ys | Some x \<Rightarrow> Some x)"
  by (induction xs) auto

lemma merged_events:
  "map_of (fold merge_event evs []) fd =
     map_option (\<lambda>ev. (ke_udata ev, merged_mask fd evs)) (find (\<lambda>ev. ke_ident ev = fd) evs)"
proof (induction evs rule: rev_induct)
  case Nil
  then show ?case by simp
next
  case (snoc ev evs)
  have "merged_mask fd evs = 0" if "find (\<lambda>ev. ke_ident ev = fd) evs = None"
    using that by (simp add: merged_mask_def find_None_iff filter_empty_conv)
  with snoc show ?case
    by (auto simp: map_of_merge_event find_append merged_mask_def split: option.split)
qed

text \<open>
  The result of a wait has one entry per descriptor that has events, in at most \<^verbatim>\<open>capacity\<close> entries; its mask
  is the union of what the filters reported and its token that of the first of them.
\<close>

theorem kqueue_wait_merges:
  assumes "bsd_wait capacity timeout_ms q = (q', Some (Inr es))"
  shows "\<exists>evs as. kq_events q = Inr evs # as \<and> distinct (map fst es) \<and> length es \<le> min capacity max_events \<and>
    (\<forall>fd. map_of es fd = map_option (\<lambda>ev. (ke_udata ev, merged_mask fd (take (min capacity max_events) evs)))
       (find (\<lambda>ev. ke_ident ev = fd) (take (min capacity max_events) evs)))"
proof -
  obtain evs as where e: "kq_events q = Inr evs # as" "es = fold merge_event (take (min capacity max_events) evs) []"
    using assms by (auto simp: bsd_wait_def Let_def split: if_splits list.splits sum.splits)
  have "distinct (map fst (fold merge_event xs ys))" if "distinct (map fst ys)" for xs ys
    using that by (induction xs arbitrary: ys) (simp_all add: merge_event_distinct)
  moreover have "length (fold merge_event xs ys) \<le> length xs + length ys" for xs ys
  proof (induction xs arbitrary: ys)
    case (Cons x xs)
    from Cons.IH [of "merge_event x ys"] merge_event_length [of x ys] show ?case by simp
  qed simp
  from this [of "take (min capacity max_events) evs" "[]"] have "length es \<le> min capacity max_events"
    unfolding e(2) by simp
  ultimately show ?thesis using e merged_events by auto
qed

subsection \<open>The filters follow the interest\<close>

lemma kernel_change_done:
  assumes "kernel_change ch q = (q', None)"
  shows "kq_filters q' = (kq_filters q)((kc_ident ch, kc_filter ch) :=
    (case kc_flags ch of EV_DELETE \<Rightarrow> None | EV_ADD_ENABLE \<Rightarrow> Some (True, kc_udata ch)
       | EV_ADD_DISABLE \<Rightarrow> Some (False, kc_udata ch)))"
  using assms
  by (auto simp: kernel_change_def Let_def split: list.splits option.splits ChangeFlags.splits if_splits)

lemma kernel_change_fault:
  assumes "kernel_change ch q = (q', Some e)"
  shows "kq_filters q' = kq_filters q"
  using assms
  by (auto simp: kernel_change_def Let_def split: list.splits option.splits ChangeFlags.splits if_splits)

text \<open>
  A registration or change that succeeds leaves the two filters of its descriptor enabled exactly as the
  interest asks, under its token, and touches no other descriptor.
\<close>

theorem kqueue_control_interest:
  assumes "bsd_control operation fd interest token q = (q', None)" "operation \<noteq> Ctl_remove"
  shows "kq_filters q' = (kq_filters q)
    ((fd, EVFILT_READ) \<mapsto> (interest AND readable \<noteq> 0, token), (fd, EVFILT_WRITE) \<mapsto> (interest AND writable \<noteq> 0, token))"
  using assms
  by (auto simp: bsd_control_def set_change_def Let_def dest!: kernel_change_done split: prod.splits option.splits)

subsection \<open>The ends of the wakeup pipes\<close>

definition pipes_ok :: "KQueue \<Rightarrow> bool" where
  "pipes_ok q \<longleftrightarrow> distinct (map fst (wakeup_writers q) @ map snd (wakeup_writers q)) \<and>
     kq_open q = fst ` set (wakeup_writers q) \<union> snd ` set (wakeup_writers q)"

definition pipe_fresh :: "KQueue \<Rightarrow> bool" where
  "pipe_fresh q \<longleftrightarrow> (\<forall>r wr. Inr (r, wr) \<in> set (take 1 (kq_pipe q)) \<longrightarrow>
     r \<noteq> wr \<and> 0 \<le> r \<and> r \<notin> kq_open q \<and> wr \<notin> kq_open q)"

lemma on_kq_world_keeps:
  assumes "on_kq_world f q = (q', x)"
  shows "kq_open q' = kq_open q" "wakeup_writers q' = wakeup_writers q"
  using assms by (auto simp: on_kq_world_def split: prod.splits)

lemma close_pipe_end_keeps [simp]:
  "kq_open (close_pipe_end fd q) = kq_open q - {fd}" "wakeup_writers (close_pipe_end fd q) = wakeup_writers q"
  by (simp_all add: close_pipe_end_def)

lemma create_wakeup_result:
  assumes p: "kq_pipe q = Inr (a, b) # as" and m: "map_of (wakeup_writers q) a = None"
    and c: "bsd_create_wakeup emplace q = (q', r)"
  shows "(\<exists>e. r = Inl e) \<and> kq_open q' = kq_open q \<union> {a, b} - {a} - {b} \<and> wakeup_writers q' = wakeup_writers q \<or>
      r = Inr a \<and> kq_open q' = kq_open q \<union> {a, b} \<and> wakeup_writers q' = (a, b) # wakeup_writers q"
proof -
  define q1 where "q1 = q\<lparr>kq_pipe := as, kq_open := kq_open q \<union> {a, b}\<rparr>"
  obtain qa ea where ka: "on_kq_world configure_fd q1 = (qa, ea)" by fastforce
  obtain qb eb where kb: "on_kq_world configure_fd qa = (qb, eb)" by fastforce
  have o: "kq_open qa = kq_open q \<union> {a, b}" "wakeup_writers qa = wakeup_writers q"
    "kq_open qb = kq_open q \<union> {a, b}" "wakeup_writers qb = wakeup_writers q"
    using on_kq_world_keeps [OF ka] on_kq_world_keeps [OF kb] by (simp_all add: q1_def)
  have "(q', r) = (case ea of
      Some e \<Rightarrow> (close_pipe_end b (close_pipe_end a qa), Inl e)
    | None \<Rightarrow> (case eb of
        Some e \<Rightarrow> (close_pipe_end b (close_pipe_end a qb), Inl e)
      | None \<Rightarrow> if \<not> emplace then (close_pipe_end b (close_pipe_end a qb), Inl ENOMEM)
          else (qb\<lparr>wakeup_writers := (a, b) # wakeup_writers q\<rparr>, Inr a)))"
    unfolding c [symmetric] bsd_create_wakeup_def p list.case sum.case prod.case Let_def q1_def [symmetric] ka
    using m o(4) by (simp add: kb split: option.split)
  then show ?thesis using o by (simp split: option.splits if_splits)
qed

text \<open>A wakeup pipe that cannot be set up leaves no descriptor open; closing it closes both ends.\<close>

theorem kqueue_wakeup_no_leak:
  assumes "pipes_ok q" "pipe_fresh q" "bsd_create_wakeup emplace q = (q', r)"
  shows "pipes_ok q' \<and> (case r of Inl _ \<Rightarrow> kq_open q' = kq_open q
    | Inr fd \<Rightarrow> kq_open (bsd_readiness_close fd q') = kq_open q)"
proof (cases "\<exists>a b as. kq_pipe q = Inr (a, b) # as")
  case False
  then have "kq_open q' = kq_open q \<and> wakeup_writers q' = wakeup_writers q \<and> (\<exists>e. r = Inl e)"
    using assms(3) by (auto simp: bsd_create_wakeup_def split: list.splits sum.splits)
  then show ?thesis using assms(1) by (auto simp: pipes_ok_def)
next
  case True
  then obtain a b as where p: "kq_pipe q = Inr (a, b) # as" by blast
  then have f: "a \<noteq> b" "0 \<le> a" "a \<notin> kq_open q" "b \<notin> kq_open q" using assms(2) by (auto simp: pipe_fresh_def)
  then have m: "map_of (wakeup_writers q) a = None"
    using assms(1) by (simp add: pipes_ok_def map_of_eq_None_iff)
  note create_wakeup_result [OF p m assms(3)]
  then show ?thesis
  proof
    assume r: "(\<exists>e. r = Inl e) \<and> kq_open q' = kq_open q \<union> {a, b} - {a} - {b} \<and> wakeup_writers q' = wakeup_writers q"
    then have "kq_open q' = kq_open q" using f by blast
    then show ?thesis using r assms(1) by (auto simp: pipes_ok_def)
  next
    assume r: "r = Inr a \<and> kq_open q' = kq_open q \<union> {a, b} \<and> wakeup_writers q' = (a, b) # wakeup_writers q"
    have "kq_open (bsd_readiness_close a q') = kq_open q' - {b} - {a}" using r f(2) by (simp add: bsd_readiness_close_def)
    also have "\<dots> = kq_open q" using r f(3,4) by blast
    finally have "kq_open (bsd_readiness_close a q') = kq_open q" .
    moreover have "a \<notin> fst ` set (wakeup_writers q)" "a \<notin> snd ` set (wakeup_writers q)"
      "b \<notin> fst ` set (wakeup_writers q)" "b \<notin> snd ` set (wakeup_writers q)"
      using assms(1) f(3,4) by (simp_all add: pipes_ok_def)
    then have "pipes_ok q'" using r f(1) assms(1) by (simp add: pipes_ok_def insert_commute)
    ultimately show ?thesis using r by simp
  qed
qed

end
