(* ===== verification/Spec2Isabelle.thy ===== *)
theory Spec2Isabelle
  imports SessionProps LifecycleProps EventLoopProps WorkerProps ParserProps OutputProps SchedulerProps FlowLimits
    Registry Transport CApiProps SimpleApi Kqueue
begin

text \<open>
  \<^bold>\<open>easy-uds\<close>, a C++ library for request/response and streaming servers and clients over Unix-domain
  sockets (\<^verbatim>\<open>src/src/\<close>). This development models the library as it is compiled on Linux and proves
  what its parts promise, one by one and composed.

  \<^bold>\<open>The program.\<close> A server (\<^verbatim>\<open>system/runtime/server.cpp\<close>) takes an instance lock, removes a stale
  socket, binds and listens. \<^verbatim>\<open>run\<close> starts a reactor thread (\<^verbatim>\<open>system/reactor/event_loop.cpp\<close>), which
  accepts connections, reads and parses frames (\<^verbatim>\<open>parser.cpp\<close>) and hands requests to worker threads
  (\<^verbatim>\<open>dispatch.cpp\<close>, \<^verbatim>\<open>workers.cpp\<close>); routes may be serialized by domain, bodies may be streamed
  (\<^verbatim>\<open>stream.cpp\<close>), input and output are accounted against limits (\<^verbatim>\<open>flow_control.cpp\<close>,
  \<^verbatim>\<open>output.cpp\<close>). A client makes one-shot requests (\<^verbatim>\<open>client_engine.cpp\<close>, \<^verbatim>\<open>transport.cpp\<close>), or opens
  a session (\<^verbatim>\<open>session.cpp\<close>, \<^verbatim>\<open>session_engine.cpp\<close>) that multiplexes concurrent requests. Both sides
  share the frame codec (\<^verbatim>\<open>protocol/codec.hpp\<close>), the blocking I/O (\<^verbatim>\<open>transport/io.hpp\<close>) and the
  platform layer (\<^verbatim>\<open>platform/linux\<close>).

  \<^bold>\<open>Conventions.\<close> Bytes are \<^typ>\<open>byte\<close>, fields of the wire and counters of fixed width are words, so
  wrap-around is theirs; \<^verbatim>\<open>size_t\<close> is a natural number with the arithmetic of \<^verbatim>\<open>Prelude\<close> where it can
  wrap. A thrown exception is \<open>Inl\<close> of an \<^typ>\<open>exn\<close>. Operating-system calls consume scripted answers
  of a \<^typ>\<open>World\<close>, which also records what was sent and every other effect, so a theorem quantifies over
  everything the kernel may answer. Objects shared between threads live in heaps of the server or
  session state and are named by addresses, which allocators given as parameters choose. A section
  under a lock is one definition; where a definition spans sections of several threads, what the
  others do in between is a parameter. Handlers, readers and callbacks are functions of what they
  are given and of the number of the call, and may raise.

  \<^bold>\<open>Theories, from the bottom.\<close>
  \<^item> \<^verbatim>\<open>Prelude\<close>: types, collections of rules, generic lemmas. \<^verbatim>\<open>Errors\<close> (\<^verbatim>\<open>core/error.cpp\<close>): the kinds of
    error. \<^verbatim>\<open>Codec\<close>: headers; decoding succeeds exactly on encodings of valid headers. \<^verbatim>\<open>Types\<close>,
    \<^verbatim>\<open>Options\<close> (\<^verbatim>\<open>options.hpp\<close>, \<^verbatim>\<open>io.hpp\<close>): requests, responses, options with their validation, and
    deadlines, which saturate.
  \<^item> \<^verbatim>\<open>World\<close>: the kernel and the platform layer. \<^verbatim>\<open>Transport\<close> (\<^verbatim>\<open>io.hpp\<close>): exact reads and writes whatever
    the segmentation. \<^verbatim>\<open>Descriptors\<close>: descriptor passing without leaks.
  \<^item> \<^verbatim>\<open>Registry\<close> (\<^verbatim>\<open>server_registration.cpp\<close>, \<^verbatim>\<open>server_api.cpp\<close>): routes; lookup finds the exact route or
    the longest prefix. \<^verbatim>\<open>ServerCore\<close> (\<^verbatim>\<open>core.hpp\<close>): the state of a server and the connection tokens.
  \<^item> \<^verbatim>\<open>FlowControl\<close>, \<^verbatim>\<open>FlowFrames\<close>, \<^verbatim>\<open>FlowLimits\<close>: input accounting, its exactness, and an interleaving that
    loses a wake-up.
  \<^item> \<^verbatim>\<open>Output\<close>, \<^verbatim>\<open>OutputStream\<close>, \<^verbatim>\<open>OutputProps\<close>, \<^verbatim>\<open>OutputFrames\<close>: queued output; what a connection has sent and
    still holds is the responses in order.
  \<^item> \<^verbatim>\<open>Handlers\<close>, \<^verbatim>\<open>Scheduler\<close>, \<^verbatim>\<open>SchedulerProps\<close>: authorisation and handlers; the serialized scheduler, with
    exclusion per domain, order, queue policies and a worker for every job that can run.
  \<^item> \<^verbatim>\<open>Dispatch\<close>, \<^verbatim>\<open>Parser\<close>, \<^verbatim>\<open>ParserFrames\<close>, \<^verbatim>\<open>ParseLoop\<close>, \<^verbatim>\<open>ParserProps\<close>: frames in any pieces are dispatched
    as sent, in a bounded number of rounds.
  \<^item> \<^verbatim>\<open>Lease\<close>, \<^verbatim>\<open>Streams\<close>, \<^verbatim>\<open>StreamProps\<close>, \<^verbatim>\<open>InputFrames\<close>: streamed exchanges on leased connections.
    \<^verbatim>\<open>Workers\<close>, \<^verbatim>\<open>WorkerProps\<close>: worker threads and continuation leases.
  \<^item> \<^verbatim>\<open>EventLoop\<close>, \<^verbatim>\<open>ReactorFrames\<close>, \<^verbatim>\<open>EventLoopProps\<close>: the reactor; a bounded table with one entry per
    descriptor, stale events, expiry.
  \<^item> \<^verbatim>\<open>ServerPath\<close>, \<^verbatim>\<open>Lifecycle\<close>, \<^verbatim>\<open>LifecycleProps\<close> (\<^verbatim>\<open>server.cpp\<close>, \<^verbatim>\<open>linux/server_path.cpp\<close>): lock, stale socket,
    construction, run, stop; only sockets of its own are ever removed.
  \<^item> \<^verbatim>\<open>Client\<close>, \<^verbatim>\<open>ClientProps\<close>: the one-shot client; requests and streamed responses round-trip, retries are
    bounded. \<^verbatim>\<open>Session\<close>, \<^verbatim>\<open>SessionProps\<close>: the multiplexed session as a step relation over its threads;
    calls get their own responses, none is left waiting, the statistics add up.
  \<^item> \<^verbatim>\<open>CApi\<close> and \<^verbatim>\<open>CApiProps\<close> (\<^verbatim>\<open>easy_uds_c.cpp\<close>): every function of the C interface, its error slot and
    the memory it hands out; after any sequence of calls codes, messages and ownership are as documented.
    \<^verbatim>\<open>SimpleApi\<close> (\<^verbatim>\<open>simple.hpp\<close>): the convenience layer.
  \<^item> \<^verbatim>\<open>Kqueue\<close> (\<^verbatim>\<open>platform/posix\<close>): the platform layer for BSD kernels where it differs from the Linux one.
  \<^item> This theory: what spans client and server.

  \<^bold>\<open>Interfaces.\<close> Where a component is used through a contract, the contract is a locale that the model's
  own definitions interpret: the table of connections a turn of the reactor may change
  (\<^verbatim>\<open>ReactorFrames\<close>), the lookup of routes (\<^verbatim>\<open>Registry\<close>), the in-flight table of a session and its cut into shards (\<^verbatim>\<open>SessionProps\<close>).

  \<^bold>\<open>Loops.\<close> Loops of the source that consume kernel answers or bytes are functions with a termination
  proof whose measure is what they consume: the length of a script, the bytes still to move, the
  room left below \<^verbatim>\<open>SIZE_MAX\<close>, the attempts left. A loop that may run for ever returns an option:
  the reactor and the waits of a session run as long as a given sequence of steps of the other
  threads lasts, the delivery of a chunk with an empty buffer (excluded by the validation of the
  options) is \<open>None\<close>, and the search for a request identifier takes fuel, of which two units more than
  there are requests in flight are enough (\<^verbatim>\<open>allocate_id_fresh\<close>).

  \<^bold>\<open>Not modelled.\<close> The branches for Windows and \<^verbatim>\<open>platform/windows\<close>; memory exhaustion other than of the
  buffers of the C interface; the memory
  order of single atomic operations (sections and atomic operations are taken as sequentially
  consistent, compare-and-swap loops as one step); tracing counters; the Python
  binding, the examples, benchmarks and experiments, which use the library and are no part of it.
\<close>

subsection \<open>From the client to the server\<close>

text \<open>
  C1: a client and a server agree on requests: when a call of the client has returned a response, the
  bytes it sent are one request for a server. In whatever pieces they arrive on a fresh connection
  of a server that accepts the frame, and whatever follows them, the server waits until the last piece
  is there and then dispatches exactly the client's route and body, as request 0.
\<close>

theorem request_end_to_end:
  assumes client: "client_request path options route body w = (w', Inr x)" "\<forall>fd. w_sent w fd = []"
    and server: "rc_phase (ss_rcs s r) = PP_header" "rc_header_received (ss_rcs s r) = 0"
      "length (rc_header (ss_rcs s r)) = header_size"
      "rc_pending_offset (ss_rcs s r) \<le> length (rc_pending (ss_rcs s r))"
      "unparsed (ss_rcs s r) = []" "frame_accepted s r route body (co_protocol_version options)"
  shows "\<exists>fd. w_sent w' fd \<noteq> [] \<and>
    (\<forall>ds d rest. concat ds @ d = w_sent w' fd @ rest \<and> length (concat ds) < length (w_sent w' fd) \<longrightarrow>
       (\<exists>s1 s2. feed shard alloc r ds s = (s1, Inr ()) \<and>
          parse_loop shard alloc r (append_pending r d s1) = dispatched shard alloc r s2 \<and>
          delivered 0 route body rest (ss_rcs s2 r)))"
proof -
  let ?f = "request_frame 0 route body (co_protocol_version options)"
  obtain fd where sent: "w_sent w' = (w_sent w)(fd := w_sent w fd @ ?f)"
    using client_request_sends [OF client(1)] by blast
  have fd: "w_sent w' fd = ?f" using client(2) by (simp add: sent)
  have ne: "?f \<noteq> []" using length_request_frame [of 0 route body "co_protocol_version options"]
    by (auto simp: header_size_def)
  show ?thesis
    using reassembly [OF server, of _ _ 0] ne by (intro exI [of _ fd]) (simp add: fd)
qed

lemma request_end_to_end_witness:
  "\<exists>w' fd s1 s2. client_request (str ''/s'') client_sample_options (str ''/a'') (str ''hi'') client_sample_world =
      (w', Inr (Response_ok (str ''pong''))) \<and>
    feed 0 (\<lambda>_. 0) 0 [] parser_sample = (s1, Inr ()) \<and>
    parse_loop 0 (\<lambda>_. 0) 0 (append_pending 0 (w_sent w' fd @ str ''E'') s1) = dispatched 0 (\<lambda>_. 0) 0 s2 \<and>
    delivered 0 (str ''/a'') (str ''hi'') (str ''E'') (ss_rcs s2 0)"
proof -
  obtain w' where w: "client_request (str ''/s'') client_sample_options (str ''/a'') (str ''hi'') client_sample_world =
      (w', Inr (Response_ok (str ''pong'')))"
    using client_sample_answered by blast
  have v: "co_protocol_version client_sample_options = version"
    by (simp add: client_sample_options_def default_client_options_def version_def)
  have n: "\<forall>fd. w_sent client_sample_world fd = []" by (simp add: client_sample_world_def quiet_world_def)
  obtain fd where fd: "w_sent w' fd \<noteq> []" and
    all: "\<forall>ds d rest. concat ds @ d = w_sent w' fd @ rest \<and> length (concat ds) < length (w_sent w' fd) \<longrightarrow>
       (\<exists>s1 s2. feed 0 (\<lambda>_. 0) 0 ds parser_sample = (s1, Inr ()) \<and>
          parse_loop 0 (\<lambda>_. 0) 0 (append_pending 0 d s1) = dispatched 0 (\<lambda>_. 0) 0 s2 \<and>
          delivered 0 (str ''/a'') (str ''hi'') rest (ss_rcs s2 0))"
    using request_end_to_end [OF w n parser_sample_ready [folded v], of 0 "\<lambda>_. 0"] by (elim exE conjE)
  obtain s1 s2 where "feed 0 (\<lambda>_. 0) 0 [] parser_sample = (s1, Inr ())"
    "parse_loop 0 (\<lambda>_. 0) 0 (append_pending 0 (w_sent w' fd @ str ''E'') s1) = dispatched 0 (\<lambda>_. 0) 0 s2"
    "delivered 0 (str ''/a'') (str ''hi'') (str ''E'') (ss_rcs s2 0)"
    using all [rule_format, of "[]" "w_sent w' fd @ str ''E''" "str ''E''"] fd by auto
  then show ?thesis using w by (intro exI [of _ w'] exI [of _ fd] exI [of _ s1] exI [of _ s2]) simp
qed

end
